(* ===== verification/Prelude.thy ===== *)
theory Prelude
  imports Main "HOL-Library.Word" "HOL-Library.State_Monad" "HOL-Library.AList"
begin

section \<open>Prelude: words, bytes and the state monad\<close>

text \<open>
  What the components share: the names of the C integer types, the little-endian reading of
  bytes that stands for a C struct read through a pointer, the 16-bit byte swap, and a small
  calculus of relations between the state before and after a monadic program.  A program is a
  value of \<open>('s, 'a) state\<close> (HOL-Library.State_Monad); \<open>runs R m\<close> says that every run of
  \<open>m\<close> from a state \<open>s\<close> to a result \<open>x\<close> and a state \<open>s'\<close> satisfies \<open>R s x s'\<close>.
\<close>

unbundle bit_operations_syntax

named_theorems probe_intros "introduction rules for relational facts about probe programs"
named_theorems probe_defs "definitions of the probe programs"

subsection \<open>C integer types\<close>

type_synonym u8 = "8 word"
type_synonym u16 = "16 word"
type_synonym u32 = "32 word"
type_synonym u64 = "64 word"

text \<open>Signed C integers are words of the same width, read with \<^const>\<open>sint\<close>.\<close>

type_synonym s32 = "32 word"
type_synonym s64 = "64 word"

text \<open>The signed test \<open>0 \<le> x\<close> of the C code, on a two's complement word.\<close>

definition nonneg :: "'a::len word \<Rightarrow> bool" where
  "nonneg x \<longleftrightarrow> 0 \<le> sint x"

subsection \<open>Little-endian bytes\<close>

fun le_nat :: "u8 list \<Rightarrow> nat" where
  "le_nat [] = 0"
| "le_nat (b # bs) = unat b + 256 * le_nat bs"

definition le_word :: "u8 list \<Rightarrow> 'a::len word" where
  "le_word bs = of_nat (le_nat bs)"

definition u16_at :: "u8 list \<Rightarrow> nat \<Rightarrow> u16" where
  "u16_at bs off = le_word (take 2 (drop off bs))"

definition u32_at :: "u8 list \<Rightarrow> nat \<Rightarrow> u32" where
  "u32_at bs off = le_word (take 4 (drop off bs))"

definition u64_at :: "u8 list \<Rightarrow> nat \<Rightarrow> u64" where
  "u64_at bs off = le_word (take 8 (drop off bs))"

text \<open>The encoder the round-trip laws speak about: \<open>n\<close> bytes of a word, low byte first.\<close>

fun le_bytes :: "nat \<Rightarrow> nat \<Rightarrow> u8 list" where
  "le_bytes 0 x = []"
| "le_bytes (Suc n) x = of_nat x # le_bytes n (x div 256)"

definition bytes16 :: "u16 \<Rightarrow> u8 list" where "bytes16 x = le_bytes 2 (unat x)"
definition bytes32 :: "u32 \<Rightarrow> u8 list" where "bytes32 x = le_bytes 4 (unat x)"
definition bytes64 :: "u64 \<Rightarrow> u8 list" where "bytes64 x = le_bytes 8 (unat x)"

lemma length_le_bytes [simp]: "length (le_bytes n x) = n"
  by (induction n arbitrary: x) auto

lemma length_bytes [simp]:
  "length (bytes16 a) = 2" "length (bytes32 b) = 4" "length (bytes64 c) = 8"
  by (simp_all add: bytes16_def bytes32_def bytes64_def)

lemma le_nat_le_bytes: "le_nat (le_bytes n x) = x mod 256 ^ n"
proof (induction n arbitrary: x)
  case 0
  then show ?case by simp
next
  case (Suc n)
  have "le_nat (le_bytes (Suc n) x) = x mod 256 + 256 * (x div 256 mod 256 ^ n)"
    by (simp add: Suc.IH unat_of_nat)
  then show ?case
    by (simp add: mod_mult2_eq)
qed

lemma le_word_le_bytes:
  assumes "LENGTH('a) = 8 * n"
  shows "le_word (le_bytes n (unat (w :: 'a::len word))) = w"
proof -
  have "unat w < 2 ^ LENGTH('a)"
    by (rule unsigned_less)
  then have "unat w < 256 ^ n"
    by (simp add: assms power_mult)
  then show ?thesis
    by (simp add: le_word_def le_nat_le_bytes)
qed

lemma u16_at_bytes16 [simp]: "length p = off \<Longrightarrow> u16_at (p @ bytes16 x @ r) off = x"
  by (simp add: u16_at_def bytes16_def le_word_le_bytes)

lemma u32_at_bytes32 [simp]: "length p = off \<Longrightarrow> u32_at (p @ bytes32 x @ r) off = x"
  by (simp add: u32_at_def bytes32_def le_word_le_bytes)

lemma u64_at_bytes64 [simp]: "length p = off \<Longrightarrow> u64_at (p @ bytes64 x @ r) off = x"
  by (simp add: u64_at_def bytes64_def le_word_le_bytes)

subsection \<open>Network byte order\<close>

text \<open>The 16-bit swap that \<open>bpf_ntohs\<close> is on a little-endian machine.\<close>

definition bswap16 :: "u16 \<Rightarrow> u16" where
  "bswap16 x = push_bit 8 x OR drop_bit 8 x"

lemma bswap16_involutive [simp]: "bswap16 (bswap16 x) = x"
proof (rule bit_word_eqI)
  fix n assume "n < LENGTH(16)"
  then have "n < 16" by simp
  then show "bit (bswap16 (bswap16 x)) n = bit x n"
    by (cases "n < 8")
      (auto simp: bswap16_def bit_simps dest: bit_imp_le_length)
qed

subsection \<open>The state monad\<close>

abbreviation return :: "'a \<Rightarrow> ('s, 'a) state" where
  "return \<equiv> State_Monad.return"

definition modify :: "('s \<Rightarrow> 's) \<Rightarrow> ('s, unit) state" where
  "modify f = State (\<lambda>s. ((), f s))"

definition gets :: "('s \<Rightarrow> 'a) \<Rightarrow> ('s, 'a) state" where
  "gets f = State (\<lambda>s. (f s, s))"

lemma run_state_modify [simp]: "run_state (modify f) s = ((), f s)"
  by (simp add: modify_def)

lemma run_state_gets [simp]: "run_state (gets f) s = (f s, s)"
  by (simp add: gets_def)

definition exec_state :: "('s, 'a) state \<Rightarrow> 's \<Rightarrow> 's" where
  "exec_state m s = snd (run_state m s)"

definition runs :: "('s \<Rightarrow> 'a \<Rightarrow> 's \<Rightarrow> bool) \<Rightarrow> ('s, 'a) state \<Rightarrow> bool" where
  "runs R m \<longleftrightarrow> (\<forall>s. R s (fst (run_state m s)) (snd (run_state m s)))"

lemma runsI: "(\<And>s x s'. run_state m s = (x, s') \<Longrightarrow> R s x s') \<Longrightarrow> runs R m"
  by (simp add: runs_def)

lemma runsD: "runs R m \<Longrightarrow> run_state m s = (x, s') \<Longrightarrow> R s x s'"
  by (metis fst_conv runs_def snd_conv)

lemma runs_exec: "runs (\<lambda>s _ s'. R s s') m \<Longrightarrow> R s (exec_state m s)"
  by (simp add: runs_def exec_state_def)

lemma runs_bind:
  assumes "runs A m" and "\<And>x. runs (B x) (f x)"
    and "\<And>s x s1 y s2. A s x s1 \<Longrightarrow> B x s1 y s2 \<Longrightarrow> C s y s2"
  shows "runs C (m \<bind> f)"
proof (rule runsI)
  fix s y s2
  assume run: "run_state (m \<bind> f) s = (y, s2)"
  obtain x s1 where m: "run_state m s = (x, s1)"
    by (cases "run_state m s")
  with run have f: "run_state (f x) s1 = (y, s2)" by simp
  from runsD [OF assms(1) m] runsD [OF assms(2) f] show "C s y s2"
    by (rule assms(3))
qed

lemma runs_return: "(\<And>s. R s x s) \<Longrightarrow> runs R (return x)"
  by (simp add: runs_def)

lemma runs_weaken: "runs A m \<Longrightarrow> (\<And>s x s'. A s x s' \<Longrightarrow> B s x s') \<Longrightarrow> runs B m"
  by (simp add: runs_def)

end
