(* ===== verification/Text_Format.thy ===== *)
theory Text_Format
  imports Prelude
begin

section \<open>Text: decimal numbers, C strings and IPv4 addresses\<close>

text \<open>
  What the user-space parts use of the C and C++ libraries to turn numbers and addresses into text
  and back: \<open>std::to_string\<close>, C strings in byte arrays, \<open>inet_ntop\<close> and \<open>inet_pton\<close> for IPv4, and
  \<open>std::stoi\<close>.
\<close>

subsection \<open>Decimal notation\<close>

definition digit :: "nat \<Rightarrow> char" where
  "digit n = char_of (48 + n)"

fun decimal :: "nat \<Rightarrow> string" where
  "decimal n = (if n < 10 then [digit n] else decimal (n div 10) @ [digit (n mod 10)])"

declare decimal.simps [simp del]

definition to_string :: "int \<Rightarrow> string" where
  "to_string i = (if i < 0 then CHR ''-'' # decimal (nat (- i)) else decimal (nat i))"

definition undigit :: "char \<Rightarrow> nat" where
  "undigit c = of_char c - 48"

definition undecimal :: "string \<Rightarrow> nat" where
  "undecimal s = foldl (\<lambda>n c. 10 * n + undigit c) 0 s"

lemma undigit_digit [simp]: "n < 10 \<Longrightarrow> undigit (digit n) = n"
  by (simp add: undigit_def digit_def)

lemma undecimal_decimal [simp]: "undecimal (decimal n) = n"
proof (induction n rule: decimal.induct)
  case (1 n)
  then show ?case
    by (subst decimal.simps) (simp add: undecimal_def)
qed

lemma decimal_nonempty [simp]: "decimal n \<noteq> []"
  by (subst decimal.simps) simp

lemma digit_not_minus: "n < 10 \<Longrightarrow> digit n \<noteq> CHR ''-''"
proof
  assume n: "n < 10" and "digit n = CHR ''-''"
  then have "(of_char (digit n) :: nat) = of_char (CHR ''-'')" by simp
  with n show False by (simp add: digit_def)
qed

lemma decimal_not_minus: "hd (decimal n) \<noteq> CHR ''-''"
proof (induction n rule: decimal.induct)
  case (1 n)
  then show ?case by (subst decimal.simps) (simp add: hd_append digit_not_minus)
qed

text \<open>A printed number can be read back, so two numbers print alike only if they are equal.\<close>

definition of_string :: "string \<Rightarrow> int" where
  "of_string s =
     (if s \<noteq> [] \<and> hd s = CHR ''-'' then - int (undecimal (tl s)) else int (undecimal s))"

lemma of_string_to_string [simp]: "of_string (to_string i) = i"
  using decimal_not_minus [of "nat i"] by (auto simp: of_string_def to_string_def)

lemma to_string_eq_iff [simp]: "to_string i = to_string j \<longleftrightarrow> i = j"
  by (metis of_string_to_string)

subsection \<open>Bytes as text\<close>

definition c_string :: "u8 list \<Rightarrow> string" where
  "c_string bs = map (\<lambda>b. char_of (unat b)) (takeWhile (\<lambda>b. b \<noteq> 0) bs)"

text \<open>\<open>inet_ntop\<close> for IPv4: the four bytes in memory order, in decimal, with dots.\<close>

definition inet_ntop4 :: "u32 \<Rightarrow> string" where
  "inet_ntop4 ip =
     (case map (\<lambda>b. to_string (uint b)) (bytes32 ip) of
        [a, b, c, d] \<Rightarrow> a @ ''.'' @ b @ ''.'' @ c @ ''.'' @ d
      | _ \<Rightarrow> [])"

subsection \<open>Reading addresses and numbers\<close>

text \<open>\<open>inet_pton\<close> for IPv4 (glibc): four decimal numbers of at most 255 without leading zeros,
  separated by single dots.\<close>

definition is_digit :: "char \<Rightarrow> bool" where
  "is_digit c \<longleftrightarrow> 48 \<le> (of_char c :: nat) \<and> (of_char c :: nat) \<le> 57"

fun split_at :: "char \<Rightarrow> string \<Rightarrow> string list" where
  "split_at d [] = [[]]"
| "split_at d (c # cs) =
     (if c = d then [] # split_at d cs
      else (case split_at d cs of [] \<Rightarrow> [[c]] | w # ws \<Rightarrow> (c # w) # ws))"

definition octet :: "string \<Rightarrow> u8 option" where
  "octet s =
     (if s \<noteq> [] \<and> list_all is_digit s \<and> (hd s = CHR ''0'' \<longrightarrow> tl s = []) \<and> undecimal s \<le> 255
      then Some (of_nat (undecimal s)) else None)"

definition inet_pton4 :: "string \<Rightarrow> u32 option" where
  "inet_pton4 s =
     (case map octet (split_at (CHR ''.'') s) of
        [Some a, Some b, Some c, Some d] \<Rightarrow> Some (le_word [a, b, c, d])
      | _ \<Rightarrow> None)"

lemma is_digit_digit: "n < 10 \<Longrightarrow> is_digit (digit n)"
  by (simp add: is_digit_def digit_def)

lemma decimal_digits: "list_all is_digit (decimal n)"
proof (induction n rule: decimal.induct)
  case (1 n)
  then show ?case by (subst decimal.simps) (simp add: is_digit_digit)
qed

lemma digit_0: "n < 10 \<Longrightarrow> digit n = CHR ''0'' \<longleftrightarrow> n = 0"
proof
  assume n: "n < 10" and "digit n = CHR ''0''"
  then have "(of_char (digit n) :: nat) = of_char (CHR ''0'')" by simp
  with n show "n = 0" by (simp add: digit_def)
next
  assume "n = 0" then show "digit n = CHR ''0''" by (simp add: digit_def) code_simp
qed

lemma decimal_head: "hd (decimal n) = CHR ''0'' \<Longrightarrow> n = 0"
proof (induction n rule: decimal.induct)
  case (1 n)
  show ?case
  proof (cases "n < 10")
    case True
    with "1.prems" show ?thesis by (subst (asm) decimal.simps) (simp add: digit_0)
  next
    case False
    with "1.prems" have "hd (decimal (n div 10)) = CHR ''0''"
      by (subst (asm) decimal.simps) (simp add: hd_append)
    with "1.IH" False show ?thesis by simp
  qed
qed

lemma octet_decimal: "octet (decimal (unat b)) = Some b"
proof -
  have "unat b < 2 ^ LENGTH(8)" by (rule unsigned_less)
  then have "unat b \<le> 255" by simp
  moreover have "tl (decimal (unat b)) = []" if "hd (decimal (unat b)) = CHR ''0''"
    using decimal_head [OF that] by (subst decimal.simps) simp
  ultimately show ?thesis by (simp add: octet_def decimal_digits)
qed

lemma split_at_end: "d \<notin> set w \<Longrightarrow> split_at d w = [w]"
  by (induction w) auto

lemma split_at_word: "d \<notin> set w \<Longrightarrow> split_at d (w @ d # s) = w # split_at d s"
  by (induction w) auto

lemma no_dot: "CHR ''.'' \<notin> set (decimal n)"
proof
  assume "CHR ''.'' \<in> set (decimal n)"
  with decimal_digits [of n] have "is_digit (CHR ''.'')" by (auto simp: list_all_iff)
  then show False by (simp add: is_digit_def)
qed

lemma inet_pton_ntop: "inet_pton4 (inet_ntop4 ip) = Some ip"
proof -
  have four: "\<exists>a b c d. xs = [a, b, c, d]" if "length xs = 4" for xs :: "u8 list"
    using that by (auto simp: length_Suc_conv numeral_eq_Suc)
  obtain a b c d where bytes: "bytes32 ip = [a, b, c, d]"
    using four [OF length_bytes(2)] by blast
  have printed: "to_string (uint x) = decimal (unat x)" for x :: u8
    by (simp add: to_string_def)
  have "le_word [a, b, c, d] = ip"
    using le_word_le_bytes [of 4 ip] bytes by (simp add: bytes32_def)
  then show ?thesis
    by (simp add: inet_pton4_def inet_ntop4_def bytes printed split_at_word split_at_end no_dot octet_decimal)
qed

text \<open>\<open>std::stoi\<close>: white space, a sign, and the longest run of digits; without a digit or beyond the
  range of an \<open>int\<close> it throws (\<open>None\<close>).\<close>

definition is_space :: "char \<Rightarrow> bool" where
  "is_space c \<longleftrightarrow> of_char c \<in> {9, 10, 11, 12, 13, 32 :: nat}"

definition stoi :: "string \<Rightarrow> int option" where
  "stoi s =
     (let s = dropWhile is_space s;
          negative = s \<noteq> [] \<and> hd s = CHR ''-'';
          s = (if s \<noteq> [] \<and> (hd s = CHR ''-'' \<or> hd s = CHR ''+'') then tl s else s);
          digits = takeWhile is_digit s;
          n = (if negative then - int (undecimal digits) else int (undecimal digits))
      in if digits = [] \<or> n < - (2 ^ 31) \<or> 2 ^ 31 \<le> n then None else Some n)"

lemma stoi_decimal: "n < 2 ^ 31 \<Longrightarrow> stoi (decimal n) = Some (int n)"
proof -
  assume n: "n < 2 ^ 31"
  have digits: "takeWhile is_digit (decimal n) = decimal n"
    using decimal_digits [of n] by (simp add: list_all_iff takeWhile_eq_all_conv)
  have head: "is_digit (hd (decimal n))"
    using decimal_digits [of n] by (cases "decimal n") auto
  then have "\<not> is_space (hd (decimal n))" "hd (decimal n) \<noteq> CHR ''-''" "hd (decimal n) \<noteq> CHR ''+''"
    by (auto simp: is_digit_def is_space_def)
  moreover from this have "dropWhile is_space (decimal n) = decimal n"
    by (cases "decimal n") auto
  ultimately show ?thesis using n by (simp add: stoi_def digits)
qed

subsection \<open>Taking text apart\<close>

text \<open>Where a piece of text ends at the first character of another kind, the piece is determined.\<close>

lemma text_field_eq:
  assumes "list_all P u" and "list_all P v" and "\<not> P c" and "\<not> P d"
  shows "u @ c # xs = v @ d # ys \<longleftrightarrow> u = v \<and> c = d \<and> xs = ys"
proof
  have piece: "takeWhile P (w @ e # zs) = w" if "list_all P w" "\<not> P e" for w e zs
    using that by (induction w) auto
  assume eq: "u @ c # xs = v @ d # ys"
  then have "takeWhile P (u @ c # xs) = takeWhile P (v @ d # ys)" by (rule arg_cong)
  then have "u = v" using piece assms by simp
  with eq show "u = v \<and> c = d \<and> xs = ys" by simp
qed simp

lemma decimal_eq_iff [simp]: "decimal m = decimal n \<longleftrightarrow> m = n"
  by (metis undecimal_decimal)

lemma to_string_chars: "list_all (\<lambda>c. is_digit c \<or> c = CHR ''-'') (to_string i)"
  using decimal_digits by (auto simp: to_string_def list_all_iff)

lemma to_string_field_eq:
  assumes "\<not> is_digit c" and "c \<noteq> CHR ''-''" and "\<not> is_digit d" and "d \<noteq> CHR ''-''"
  shows "to_string i @ c # xs = to_string j @ d # ys \<longleftrightarrow> i = j \<and> c = d \<and> xs = ys"
  using text_field_eq [OF to_string_chars [of i] to_string_chars [of j], of c d xs ys] assms by simp

subsection \<open>Text in byte arrays\<close>

lemma unat_char_byte: "unat (of_nat (of_char c) :: u8) = of_char c"
  by (simp add: unat_of_nat)

lemma char_byte_0: "(of_nat (of_char c) :: u8) = 0 \<longleftrightarrow> c = CHR 0x00"
proof -
  have "(of_nat (of_char c) :: u8) = 0 \<longleftrightarrow> unat (of_nat (of_char c) :: u8) = 0" by (simp add: unat_eq_0)
  also have "\<dots> \<longleftrightarrow> (of_char c :: nat) = 0" by (simp only: unat_char_byte)
  also have "\<dots> \<longleftrightarrow> c = CHR 0x00" by (cases c) auto
  finally show ?thesis .
qed

text \<open>A C string in a buffer, with zeros or anything else behind its end.\<close>

lemma c_string_ended:
  assumes "CHR 0x00 \<notin> set s"
  shows "c_string (map (\<lambda>c. of_nat (of_char c)) s @ 0 # bs) = s"
proof -
  have "takeWhile (\<lambda>b. b \<noteq> 0) (map (\<lambda>c. of_nat (of_char c)) s @ 0 # bs) =
      (map (\<lambda>c. of_nat (of_char c)) s :: u8 list)"
    using assms by (subst takeWhile_append2) (auto simp: char_byte_0)
  then show ?thesis by (simp add: c_string_def unat_char_byte comp_def del: of_nat_of_char)
qed

lemma c_string_padded:
  assumes "CHR 0x00 \<notin> set s"
  shows "c_string (map (\<lambda>c. of_nat (of_char c)) s @ replicate k 0) = s"
proof -
  have "takeWhile (\<lambda>b. b \<noteq> 0) (map (\<lambda>c. of_nat (of_char c)) s @ replicate k 0) =
      (map (\<lambda>c. of_nat (of_char c)) s :: u8 list)"
    using assms by (subst takeWhile_append2) (auto simp: takeWhile_replicate char_byte_0)
  then show ?thesis by (simp add: c_string_def unat_char_byte comp_def del: of_nat_of_char)
qed

end
