(* ===== verification/Environment.thy ===== *)
theory Environment
  imports Text_Format
begin

section \<open>The environment of the three programs\<close>

text \<open>
  \<open>getEnv.cpp\<close> of tracepoint, lsm and raw_tracepoint: what the environment variables become, and the
  list of Kafka brokers with its host names resolved.  \<open>getenv\<close> and \<open>getaddrinfo\<close> (\<open>resolve\<close>, which
  is \<open>None\<close> when it finds no address) are arguments.  A failure is \<open>Env_exit\<close>, the end of the
  process, or \<open>Env_throw\<close>, an exception.
\<close>

subsection \<open>Variables\<close>

datatype env_error = Env_exit | Env_throw

text \<open>tracepoint has default values and ends the process for two names; lsm and raw_tracepoint throw.\<close>

definition trace_get_env_var :: "(string \<Rightarrow> string option) \<Rightarrow> string \<Rightarrow> string \<Rightarrow> env_error + string" where
  "trace_get_env_var getenv var_name default_value =
     (case getenv var_name of
        None \<Rightarrow> if var_name = ''KAFKA_BROKERS'' \<or> var_name = ''KAFKA_TOPIC'' then Inl Env_exit else Inr default_value
      | Some val \<Rightarrow> Inr val)"

definition get_env_var :: "(string \<Rightarrow> string option) \<Rightarrow> string \<Rightarrow> env_error + string" where
  "get_env_var getenv var_name = (case getenv var_name of None \<Rightarrow> Inl Env_throw | Some val \<Rightarrow> Inr val)"

subsection \<open>Brokers\<close>

text \<open>\<open>std::getline\<close> with a separator: an empty piece at the end is not returned.\<close>

definition getline_items :: "string \<Rightarrow> string list" where
  "getline_items s = (let ps = split_at (CHR '','') s in if last ps = [] then butlast ps else ps)"

text \<open>The text before and after the last colon; without a colon both are the whole text, as
  \<open>npos + 1\<close> is 0.\<close>

definition host_of :: "string \<Rightarrow> string" where
  "host_of s = (if CHR '':'' \<in> set s then rev (tl (dropWhile (\<lambda>c. c \<noteq> CHR '':'') (rev s))) else s)"

definition port_of :: "string \<Rightarrow> string" where
  "port_of s = rev (takeWhile (\<lambda>c. c \<noteq> CHR '':'') (rev s))"

definition numeric_host :: "string \<Rightarrow> bool" where
  "numeric_host host \<longleftrightarrow> list_all (\<lambda>c. c \<in> set ''0123456789.'') host"

definition resolve_item :: "(string \<Rightarrow> string option) \<Rightarrow> string \<Rightarrow> string option" where
  "resolve_item resolve host_port =
     (let host = host_of host_port;
          port = port_of host_port
      in case (if numeric_host host then Some host else resolve host) of
           None \<Rightarrow> None
         | Some host \<Rightarrow> Some (host @ '':'' @ port))"

fun resolve_items :: "(string \<Rightarrow> string option) \<Rightarrow> string list \<Rightarrow> string list option" where
  "resolve_items resolve [] = Some []"
| "resolve_items resolve (s # ss) =
     (case resolve_item resolve s of
        None \<Rightarrow> None
      | Some p \<Rightarrow> map_option (Cons p) (resolve_items resolve ss))"

fun join_commas :: "string list \<Rightarrow> string" where
  "join_commas [] = []"
| "join_commas [p] = p"
| "join_commas (p # q # ps) = p @ '','' @ join_commas (q # ps)"

definition splitHostnamePort :: "(string \<Rightarrow> string option) \<Rightarrow> string \<Rightarrow> string option" where
  "splitHostnamePort resolve hostname = map_option join_commas (resolve_items resolve (getline_items hostname))"

subsection \<open>getEnv\<close>

record trace_env =
  te_cgroup_path :: string
  te_proc_path :: string
  te_kafka_brokers :: string
  te_kafka_topic :: string
  te_buffer_cnt :: int

definition trace_getEnv :: "(string \<Rightarrow> string option) \<Rightarrow> (string \<Rightarrow> string option) \<Rightarrow> env_error + trace_env" where
  "trace_getEnv getenv resolve =
     (case trace_get_env_var getenv ''CGROUP_SYSTEM_SLICE_PATH'' ''/sys/fs/cgroup/system.slice/'' of
        Inl e \<Rightarrow> Inl e
      | Inr cgroup \<Rightarrow>
     (case trace_get_env_var getenv ''PROC_PATH'' ''/proc'' of
        Inl e \<Rightarrow> Inl e
      | Inr proc \<Rightarrow>
     (case trace_get_env_var getenv ''KAFKA_BROKERS'' [] of
        Inl e \<Rightarrow> Inl e
      | Inr names \<Rightarrow>
     (case splitHostnamePort resolve names of
        None \<Rightarrow> Inl Env_throw
      | Some brokers \<Rightarrow>
     (case trace_get_env_var getenv ''KAFKA_TOPIC_TRACEPOINT'' [] of
        Inl e \<Rightarrow> Inl e
      | Inr topic \<Rightarrow>
     (case trace_get_env_var getenv ''BUFFER_CNT'' ''4'' of
        Inl e \<Rightarrow> Inl e
      | Inr cnt \<Rightarrow>
     (case stoi cnt of
        None \<Rightarrow> Inl Env_throw
      | Some n \<Rightarrow> Inr \<lparr>te_cgroup_path = cgroup, te_proc_path = proc, te_kafka_brokers = brokers,
          te_kafka_topic = topic, te_buffer_cnt = n\<rparr>)))))))"

record lsm_env =
  le_cgroup_path :: string
  le_proc_path :: string
  le_kafka_brokers :: string
  le_kafka_topic :: string

definition lsm_getEnv :: "(string \<Rightarrow> string option) \<Rightarrow> (string \<Rightarrow> string option) \<Rightarrow> env_error + lsm_env" where
  "lsm_getEnv getenv resolve =
     (case get_env_var getenv ''CGROUP_SYSTEM_SLICE_PATH'' of
        Inl e \<Rightarrow> Inl e
      | Inr cgroup \<Rightarrow>
     (case get_env_var getenv ''PROC_PATH'' of
        Inl e \<Rightarrow> Inl e
      | Inr proc \<Rightarrow>
     (case get_env_var getenv ''KAFKA_BROKERS'' of
        Inl e \<Rightarrow> Inl e
      | Inr names \<Rightarrow>
     (case splitHostnamePort resolve names of
        None \<Rightarrow> Inl Env_throw
      | Some brokers \<Rightarrow>
     (case get_env_var getenv ''KAFKA_TOPIC_LSM'' of
        Inl e \<Rightarrow> Inl e
      | Inr topic \<Rightarrow> Inr \<lparr>le_cgroup_path = cgroup, le_proc_path = proc, le_kafka_brokers = brokers,
          le_kafka_topic = topic\<rparr>)))))"

record raw_env =
  re_cgroup_path :: string
  re_proc_path :: string
  re_log_file_path :: string

definition raw_getEnv :: "(string \<Rightarrow> string option) \<Rightarrow> env_error + raw_env" where
  "raw_getEnv getenv =
     (case get_env_var getenv ''CGROUP_SYSTEM_SLICE_PATH'' of
        Inl e \<Rightarrow> Inl e
      | Inr cgroup \<Rightarrow>
     (case get_env_var getenv ''PROC_PATH'' of
        Inl e \<Rightarrow> Inl e
      | Inr proc \<Rightarrow>
     (case get_env_var getenv ''RAW_LOG_PATH'' of
        Inl e \<Rightarrow> Inl e
      | Inr log \<Rightarrow> Inr \<lparr>re_cgroup_path = cgroup, re_proc_path = proc, re_log_file_path = log\<rparr>)))"

subsection \<open>The list of brokers\<close>

definition broker_entry :: "string \<times> string \<Rightarrow> string" where
  "broker_entry hp = fst hp @ '':'' @ snd hp"

text \<open>A well-formed entry: no comma, and no colon in the port.\<close>

definition entry_ok :: "string \<times> string \<Rightarrow> bool" where
  "entry_ok hp \<longleftrightarrow> CHR '','' \<notin> set (fst hp) \<and> CHR '','' \<notin> set (snd hp) \<and> CHR '':'' \<notin> set (snd hp)"

definition resolved :: "(string \<Rightarrow> string option) \<Rightarrow> string \<times> string \<Rightarrow> string \<times> string" where
  "resolved resolve hp = (if numeric_host (fst hp) then fst hp else the (resolve (fst hp)), snd hp)"

lemma host_port_entry:
  assumes "CHR '':'' \<notin> set port"
  shows "host_of (host @ CHR '':'' # port) = host" and "port_of (host @ CHR '':'' # port) = port"
proof -
  have "takeWhile (\<lambda>c. c \<noteq> CHR '':'') (xs @ CHR '':'' # ys) = xs"
    "dropWhile (\<lambda>c. c \<noteq> CHR '':'') (xs @ CHR '':'' # ys) = CHR '':'' # ys"
    if "CHR '':'' \<notin> set xs" for xs ys
    using that by (induction xs) auto
  from this [of "rev port"] assms
  show "host_of (host @ CHR '':'' # port) = host" "port_of (host @ CHR '':'' # port) = port"
    by (simp_all add: host_of_def port_of_def)
qed

lemma resolve_item_entry:
  assumes "entry_ok hp" and "numeric_host (fst hp) \<or> resolve (fst hp) \<noteq> None"
  shows "resolve_item resolve (broker_entry hp) = Some (broker_entry (resolved resolve hp))"
proof -
  from assms(1) have "CHR '':'' \<notin> set (snd hp)" by (simp add: entry_ok_def)
  note parts = host_port_entry [OF this, of "fst hp"]
  from assms(2) show ?thesis
    by (auto simp: resolve_item_def broker_entry_def resolved_def parts Let_def split: option.split)
qed

lemma resolve_items_entries:
  "list_all (\<lambda>hp. entry_ok hp \<and> (numeric_host (fst hp) \<or> resolve (fst hp) \<noteq> None)) hps \<Longrightarrow>
   resolve_items resolve (map broker_entry hps) = Some (map (broker_entry \<circ> resolved resolve) hps)"
  by (induction hps) (simp_all add: resolve_item_entry)

lemma split_at_join:
  "list_all (\<lambda>p. CHR '','' \<notin> set p) ps \<Longrightarrow> ps \<noteq> [] \<Longrightarrow> split_at (CHR '','') (join_commas ps) = ps"
proof (induction ps rule: join_commas.induct)
  case (3 p q ps)
  then show ?case using split_at_word [of "CHR '',''" p] by simp
qed (simp_all add: split_at_end)

lemma getline_items_join:
  assumes "list_all (\<lambda>p. CHR '','' \<notin> set p \<and> p \<noteq> []) ps"
  shows "getline_items (join_commas ps) = ps"
proof (cases "ps = []")
  case True
  then show ?thesis by (simp add: getline_items_def)
next
  case False
  with assms have "split_at (CHR '','') (join_commas ps) = ps" "last ps \<noteq> []"
    by (auto simp: list_all_iff intro!: split_at_join)
  then show ?thesis by (simp add: getline_items_def Let_def)
qed

lemma splitHostnamePort_entries:
  assumes "list_all (\<lambda>hp. entry_ok hp \<and> (numeric_host (fst hp) \<or> resolve (fst hp) \<noteq> None)) hps"
  shows "splitHostnamePort resolve (join_commas (map broker_entry hps)) =
    Some (join_commas (map (broker_entry \<circ> resolved resolve) hps))"
proof -
  have "list_all (\<lambda>p. CHR '','' \<notin> set p \<and> p \<noteq> []) (map broker_entry hps)"
    using assms by (auto simp: list_all_iff broker_entry_def entry_ok_def)
  from getline_items_join [OF this] resolve_items_entries [OF assms] show ?thesis
    by (simp add: splitHostnamePort_def comp_def)
qed

text \<open>What comes out is numeric, so that reading it again changes nothing.\<close>

lemma resolved_twice:
  assumes "numeric_host (fst hp) \<or> numeric_host (the (resolve (fst hp)))"
  shows "resolved resolve' (resolved resolve hp) = resolved resolve hp"
  using assms by (auto simp: resolved_def)

text \<open>An entry without a port gets its own name as the port.\<close>

lemma resolve_item_no_port:
  assumes "CHR '':'' \<notin> set s"
  shows "resolve_item resolve s =
    map_option (\<lambda>h. h @ '':'' @ s) (if numeric_host s then Some s else resolve s)"
proof -
  have "takeWhile (\<lambda>c. c \<noteq> CHR '':'') (rev s) = rev s"
    unfolding takeWhile_eq_all_conv using assms by auto
  then have "port_of s = s" by (simp only: port_of_def rev_rev_ident)
  moreover have "host_of s = s" using assms by (simp add: host_of_def)
  ultimately show ?thesis by (auto simp: resolve_item_def Let_def split: option.split)
qed

end
