(* ===== verification/Policy_Watch.thy ===== *)
theory Policy_Watch
  imports Text_Format
begin

unbundle bit_operations_syntax

section \<open>Watching the policy file and Docker\<close>

text \<open>
  The three loaders (\<open>tracepoint.cpp\<close>, \<open>enforcement.cpp\<close>, \<open>raw_tracepoint.cpp\<close>) share the code
  of this theory, each with an update function of its own, which is the argument \<open>upd\<close>: two threads,
  one reading inotify events of the policy's directory and one the event stream of the Docker API,
  call \<open>update_policy_on_event\<close>, which repeats a failed update.  What an update sees of the world
  (the file, the running containers) differs from attempt to attempt, so \<open>upd\<close> also takes the number
  of the attempt.  A function that may not return has the result type \<open>option\<close>, and \<open>None\<close> says
  that it does not.
\<close>

subsection \<open>Repeating an update\<close>

text \<open>\<open>Thrown\<close> is an exception that \<open>update_policy_on_event\<close> catches.\<close>

datatype update_result = Updated | Failed | Thrown

text \<open>The loop in \<open>enforcement.cpp\<close> and \<open>raw_tracepoint.cpp\<close>.\<close>

partial_function (option) retry_update ::
  "(nat \<Rightarrow> 's \<Rightarrow> update_result \<times> 's) \<Rightarrow> nat \<Rightarrow> 's \<Rightarrow> 's option" where
  "retry_update upd i s =
     (let (r, s') = upd i s in if r = Failed then retry_update upd (Suc i) s' else Some s')"

text \<open>The loop in \<open>tracepoint.cpp\<close>, which looks at \<open>exiting\<close> before an attempt and after the wait;
  \<open>stop j\<close> is what the \<open>j\<close>-th look sees.\<close>

partial_function (option) retry_until_exit ::
  "(nat \<Rightarrow> bool) \<Rightarrow> (nat \<Rightarrow> 's \<Rightarrow> update_result \<times> 's) \<Rightarrow> nat \<Rightarrow> 's \<Rightarrow> 's option" where
  "retry_until_exit stop upd i s =
     (if stop (2 * i) then Some s
      else
        let (r, s') = upd i s in
        if r = Failed then
          (if stop (Suc (2 * i)) then Some s' else retry_until_exit stop upd (Suc i) s')
        else Some s')"

text \<open>The state after \<open>n\<close> attempts from number \<open>i\<close> on, and whether they all failed.\<close>

fun attempts :: "(nat \<Rightarrow> 's \<Rightarrow> update_result \<times> 's) \<Rightarrow> nat \<Rightarrow> nat \<Rightarrow> 's \<Rightarrow> 's" where
  "attempts upd i 0 s = s"
| "attempts upd i (Suc n) s = attempts upd (Suc i) n (snd (upd i s))"

fun all_fail :: "(nat \<Rightarrow> 's \<Rightarrow> update_result \<times> 's) \<Rightarrow> nat \<Rightarrow> nat \<Rightarrow> 's \<Rightarrow> bool" where
  "all_fail upd i 0 s = True"
| "all_fail upd i (Suc n) s = (fst (upd i s) = Failed \<and> all_fail upd (Suc i) n (snd (upd i s)))"

lemma retry_update_Failed:
  "fst (upd i s) = Failed \<Longrightarrow> retry_update upd i s = retry_update upd (Suc i) (snd (upd i s))"
  by (subst retry_update.simps) (simp add: case_prod_unfold)

lemma retry_update_done: "fst (upd i s) \<noteq> Failed \<Longrightarrow> retry_update upd i s = Some (snd (upd i s))"
  by (subst retry_update.simps) (simp add: case_prod_unfold)

lemma retry_update_after_failures:
  "all_fail upd i n s \<Longrightarrow> retry_update upd i s = retry_update upd (i + n) (attempts upd i n s)"
proof (induction n arbitrary: i s)
  case (Suc n)
  then show ?case using retry_update_Failed [of upd i s] by simp
qed simp

lemma retry_update_returns:
  "retry_update upd i s = Some r \<Longrightarrow>
     \<exists>n. all_fail upd i n s \<and> fst (upd (i + n) (attempts upd i n s)) \<noteq> Failed \<and>
       r = attempts upd i (Suc n) s"
proof (rule retry_update.raw_induct
    [where P = "\<lambda>upd i s r. \<exists>n. all_fail upd i n s \<and> fst (upd (i + n) (attempts upd i n s)) \<noteq> Failed \<and>
       r = attempts upd i (Suc n) s"])
  fix f upd i s and r :: 'a
  assume IH: "\<And>upd i s r. f upd i s = Some r \<Longrightarrow>
      \<exists>n. all_fail upd i n s \<and> fst (upd (i + n) (attempts upd i n s)) \<noteq> Failed \<and>
        r = attempts upd i (Suc n) s"
    and eq: "(let (r, s') = upd i s in if r = Failed then f upd (Suc i) s' else Some s') = Some r"
  show "\<exists>n. all_fail upd i n s \<and> fst (upd (i + n) (attempts upd i n s)) \<noteq> Failed \<and>
      r = attempts upd i (Suc n) s"
  proof (cases "fst (upd i s) = Failed")
    case True
    with eq have "f upd (Suc i) (snd (upd i s)) = Some r" by (simp add: case_prod_unfold)
    from IH [OF this] obtain n where
      "all_fail upd (Suc i) n (snd (upd i s))"
      "fst (upd (Suc i + n) (attempts upd (Suc i) n (snd (upd i s)))) \<noteq> Failed"
      "r = attempts upd (Suc i) (Suc n) (snd (upd i s))" by blast
    with True show ?thesis by (intro exI [of _ "Suc n"]) simp
  next
    case False
    with eq show ?thesis by (intro exI [of _ 0]) (simp add: case_prod_unfold)
  qed
qed

text \<open>The loop returns exactly if some attempt does not fail, with the state it leaves.\<close>

lemma retry_update_iff:
  "retry_update upd i s = Some r \<longleftrightarrow>
     (\<exists>n. all_fail upd i n s \<and> fst (upd (i + n) (attempts upd i n s)) \<noteq> Failed \<and>
       r = attempts upd i (Suc n) s)"
proof
  assume "retry_update upd i s = Some r"
  then show "\<exists>n. all_fail upd i n s \<and> fst (upd (i + n) (attempts upd i n s)) \<noteq> Failed \<and>
      r = attempts upd i (Suc n) s" by (rule retry_update_returns)
next
  have last: "attempts upd i (Suc n) s = snd (upd (i + n) (attempts upd i n s))" for n
    by (induction n arbitrary: i s) auto
  assume "\<exists>n. all_fail upd i n s \<and> fst (upd (i + n) (attempts upd i n s)) \<noteq> Failed \<and>
      r = attempts upd i (Suc n) s"
  then obtain n where n: "all_fail upd i n s" "fst (upd (i + n) (attempts upd i n s)) \<noteq> Failed"
    "r = attempts upd i (Suc n) s" by blast
  show "retry_update upd i s = Some r"
    unfolding n(3) last retry_update_after_failures [OF n(1)] by (rule retry_update_done) (rule n(2))
qed

lemma retry_update_never:
  "(\<And>j s. fst (upd j s) = Failed) \<Longrightarrow> retry_update upd i s = None"
  using retry_update_iff [of upd i s] by (metis not_Some_eq)

text \<open>The loop of \<open>tracepoint.cpp\<close> returns at the latest when it sees the signal.\<close>

lemma retry_until_exit_step:
  "retry_until_exit stop upd i s =
     (if stop (2 * i) then Some s
      else if fst (upd i s) = Failed \<and> \<not> stop (Suc (2 * i))
        then retry_until_exit stop upd (Suc i) (snd (upd i s))
        else Some (snd (upd i s)))"
  by (subst retry_until_exit.simps) (simp add: case_prod_unfold Let_def)

lemma retry_until_exit_returns:
  "stop (2 * (i + n)) \<Longrightarrow> retry_until_exit stop upd i s \<noteq> None"
proof (induction n arbitrary: i s)
  case 0
  then show ?case by (simp add: retry_until_exit_step [of stop upd i s])
next
  case (Suc n)
  then show ?case
    by (simp add: retry_until_exit_step [of stop upd i s])
qed

text \<open>Without the signal the two loops are the same.\<close>

lemma retry_until_exit_no_signal:
  assumes "\<And>j. \<not> stop j" and "retry_update upd i s = Some r"
  shows "retry_until_exit stop upd i s = Some r"
proof -
  obtain n where "all_fail upd i n s" "fst (upd (i + n) (attempts upd i n s)) \<noteq> Failed"
    "r = attempts upd i (Suc n) s"
    using assms(2) unfolding retry_update_iff by blast
  then show ?thesis
    by (induction n arbitrary: i s) (simp_all add: retry_until_exit_step [of stop upd] assms(1))
qed

text \<open>What every attempt keeps, the loops keep.\<close>

lemma attempts_invariant:
  assumes "\<And>j s. P s \<Longrightarrow> P (snd (upd j s))"
  shows "P s \<Longrightarrow> P (attempts upd i n s)"
  by (induction n arbitrary: i s) (auto intro: assms)

lemma retry_update_invariant:
  assumes "\<And>j s. P s \<Longrightarrow> P (snd (upd j s))" and "retry_update upd i s = Some r" and "P s"
  shows "P r"
  using assms(2) attempts_invariant [of P upd s i, OF assms(1) assms(3)] unfolding retry_update_iff by blast

lemma retry_until_exit_keeps:
  "retry_until_exit stop upd i s = Some r \<Longrightarrow> (\<forall>j s. P s \<longrightarrow> P (snd (upd j s))) \<longrightarrow> P s \<longrightarrow> P r"
proof (erule retry_until_exit.raw_induct
    [where P = "\<lambda>stop upd i s r. (\<forall>j s. P s \<longrightarrow> P (snd (upd j s))) \<longrightarrow> P s \<longrightarrow> P r", rotated])
  fix f :: "(nat \<Rightarrow> bool) \<Rightarrow> (nat \<Rightarrow> 'a \<Rightarrow> update_result \<times> 'a) \<Rightarrow> nat \<Rightarrow> 'a \<Rightarrow> 'a option"
  fix stop upd i and s r :: 'a
  assume IH: "\<And>stop upd i s r. f stop upd i s = Some r \<Longrightarrow>
      (\<forall>j s. P s \<longrightarrow> P (snd (upd j s))) \<longrightarrow> P s \<longrightarrow> P r"
    and eq: "(if stop (2 * i) then Some s
      else let (r, s') = upd i s
           in if r = Failed then if stop (Suc (2 * i)) then Some s' else f stop upd (Suc i) s' else Some s') = Some r"
  show "(\<forall>j s. P s \<longrightarrow> P (snd (upd j s))) \<longrightarrow> P s \<longrightarrow> P r"
    using eq IH [of stop upd "Suc i" "snd (upd i s)" r]
    by (auto simp: case_prod_unfold Let_def split: if_splits)
qed

lemma retry_until_exit_invariant:
  assumes "\<And>j s. P s \<Longrightarrow> P (snd (upd j s))" and "retry_until_exit stop upd i s = Some r" and "P s"
  shows "P r"
  using retry_until_exit_keeps [OF assms(2)] assms(1,3) by blast

end
