(* ===== verification/Watch_Events.thy ===== *)
theory Watch_Events
  imports Policy_Watch
begin

unbundle bit_operations_syntax

section \<open>The events that trigger an update\<close>

text \<open>
  \<open>docker_event_callback\<close> gets the event stream of the Docker API in chunks that need not end at
  the end of an event; \<open>monitor_policy_file\<close> reads whole inotify events into a buffer.  \<open>trigger\<close> is
  \<open>update_policy_on_event\<close>, which may not return.  \<open>json_event\<close> is the JSON library: the members
  \<open>Action\<close> and \<open>Type\<close> of a line, \<open>None\<close> when an exception is thrown on the way.
\<close>

subsection \<open>Sequences of handlers that may not return\<close>

fun fold_option :: "('a \<Rightarrow> 's \<Rightarrow> 's option) \<Rightarrow> 'a list \<Rightarrow> 's \<Rightarrow> 's option" where
  "fold_option f [] s = Some s"
| "fold_option f (x # xs) s = (case f x s of None \<Rightarrow> None | Some s' \<Rightarrow> fold_option f xs s')"

lemma fold_option_append:
  "fold_option f (xs @ ys) s = (case fold_option f xs s of None \<Rightarrow> None | Some s' \<Rightarrow> fold_option f ys s')"
  by (induction xs arbitrary: s) (simp_all split: option.split)

lemma fold_option_invariant:
  assumes "\<And>x s s'. P s \<Longrightarrow> f x s = Some s' \<Longrightarrow> P s'"
  shows "P s \<Longrightarrow> fold_option f xs s = Some s' \<Longrightarrow> P s'"
  by (induction xs arbitrary: s) (auto split: option.splits dest: assms)

subsection \<open>Lines of a stream\<close>

definition NL :: char where "NL = CHR 0x0A"

text \<open>\<open>buffer.find\<close> of a newline from \<open>pos\<close> on.\<close>

definition find_newline :: "string \<Rightarrow> nat \<Rightarrow> nat option" where
  "find_newline buffer pos =
     (let n = pos + length (takeWhile (\<lambda>c. c \<noteq> NL) (drop pos buffer))
      in if n < length buffer then Some n else None)"

lemma find_newline_bounds: "find_newline buffer pos = Some n \<Longrightarrow> pos \<le> n \<and> n < length buffer"
  by (auto simp: find_newline_def Let_def split: if_splits)

text \<open>The loop of \<open>docker_event_callback\<close>: the complete lines and the position after them.\<close>

function scan_lines :: "string \<Rightarrow> nat \<Rightarrow> string list \<times> nat" where
  "scan_lines buffer pos =
     (case find_newline buffer pos of
        None \<Rightarrow> ([], pos)
      | Some newline_pos \<Rightarrow>
          let (lines, pos') = scan_lines buffer (Suc newline_pos)
          in (take (newline_pos - pos) (drop pos buffer) # lines, pos'))"
  by auto
termination
  by (relation "measure (\<lambda>(buffer, pos). length buffer - pos)") (auto dest: find_newline_bounds)

declare scan_lines.simps [simp del]

definition handle_docker_line ::
  "(string \<Rightarrow> (string \<times> string) option) \<Rightarrow> string list \<Rightarrow> ('s \<Rightarrow> 's option) \<Rightarrow> string \<Rightarrow> 's \<Rightarrow> 's option" where
  "handle_docker_line json_event actions trigger line s =
     (case json_event line of
        None \<Rightarrow> Some s
      | Some (action, type) \<Rightarrow>
          if type = ''container'' \<and> action \<in> set actions then trigger s else Some s)"

definition docker_event_callback ::
  "(string \<Rightarrow> (string \<times> string) option) \<Rightarrow> string list \<Rightarrow> ('s \<Rightarrow> 's option) \<Rightarrow> bool \<Rightarrow> string \<Rightarrow> string \<times> 's \<Rightarrow>
   (nat \<times> string \<times> 's) option" where
  "docker_event_callback json_event actions trigger exiting chunk st =
     (let (buffer, s) = st;
          buffer = buffer @ chunk;
          (lines, pos) = scan_lines buffer 0
      in case fold_option (handle_docker_line json_event actions trigger) lines s of
           None \<Rightarrow> None
         | Some s' \<Rightarrow> Some (if exiting then 0 else length chunk, drop pos buffer, s'))"

text \<open>The actions of the three loaders: only the tracepoint monitor ignores \<open>create\<close>.\<close>

definition trace_docker_actions :: "string list" where
  "trace_docker_actions = [''destroy'', ''stop'', ''start'', ''restart'']"

definition lsm_docker_actions :: "string list" where
  "lsm_docker_actions = [''create'', ''destroy'', ''stop'', ''start'', ''restart'']"

definition raw_docker_actions :: "string list" where
  "raw_docker_actions = [''create'', ''destroy'', ''stop'', ''start'', ''restart'']"

text \<open>The reference: the lines of a text and what follows the last newline.\<close>

fun split_lines :: "string \<Rightarrow> string \<Rightarrow> string list \<times> string" where
  "split_lines line [] = ([], line)"
| "split_lines line (c # cs) =
     (if c = NL then let (ls, rest) = split_lines [] cs in (line # ls, rest)
      else split_lines (line @ [c]) cs)"

lemma split_lines_append:
  "split_lines line (xs @ ys) =
     (let (ls, rest) = split_lines line xs; (ls', rest') = split_lines rest ys in (ls @ ls', rest'))"
  by (induction line xs rule: split_lines.induct) (simp_all add: Let_def case_prod_unfold)

lemma split_lines_no_newline: "NL \<notin> set xs \<Longrightarrow> split_lines line xs = ([], line @ xs)"
  by (induction line xs rule: split_lines.induct) auto

lemma split_lines_rest: "NL \<notin> set line \<Longrightarrow> NL \<notin> set (snd (split_lines line xs))"
  by (induction line xs rule: split_lines.induct) (auto simp: Let_def case_prod_unfold)

lemma find_newline_None: "find_newline buffer pos = None \<longleftrightarrow> NL \<notin> set (drop pos buffer)"
proof -
  have "length (takeWhile (\<lambda>c. c \<noteq> NL) xs) < length xs \<longleftrightarrow> NL \<in> set xs" for xs
    by (induction xs) auto
  from this [of "drop pos buffer"] show ?thesis
    by (cases "pos < length buffer") (auto simp: find_newline_def Let_def)
qed

lemma find_newline_Some:
  assumes "find_newline buffer pos = Some n"
  shows "drop pos buffer = take (n - pos) (drop pos buffer) @ NL # drop (Suc n) buffer"
    and "NL \<notin> set (take (n - pos) (drop pos buffer))"
proof -
  let ?xs = "drop pos buffer"
  define k where "k = length (takeWhile (\<lambda>c. c \<noteq> NL) ?xs)"
  have n: "n = pos + k" "n < length buffer"
    using assms by (auto simp: find_newline_def Let_def k_def split: if_splits)
  then have k: "k < length ?xs" by simp
  have line: "take k ?xs = takeWhile (\<lambda>c. c \<noteq> NL) ?xs"
    unfolding k_def by (rule takeWhile_eq_take [symmetric])
  have "?xs ! k = NL"
    using nth_length_takeWhile [of "\<lambda>c. c \<noteq> NL" ?xs] k unfolding k_def by blast
  with id_take_nth_drop [OF k] show "?xs = take (n - pos) ?xs @ NL # drop (Suc n) buffer"
    using n by (simp add: add.commute)
  show "NL \<notin> set (take (n - pos) ?xs)"
    using n(1) line by (auto dest: set_takeWhileD)
qed

lemma scan_lines_split:
  "(fst (scan_lines buffer pos), drop (snd (scan_lines buffer pos)) buffer) = split_lines [] (drop pos buffer)"
proof (induction buffer pos rule: scan_lines.induct)
  case (1 buffer pos)
  show ?case
  proof (cases "find_newline buffer pos")
    case None
    then have "NL \<notin> set (drop pos buffer)" using find_newline_None [of buffer pos] by blast
    with None show ?thesis by (simp add: scan_lines.simps [of buffer pos] split_lines_no_newline)
  next
    case (Some n)
    let ?line = "take (n - pos) (drop pos buffer)"
    have "split_lines [] (drop pos buffer) = split_lines [] (?line @ NL # drop (Suc n) buffer)"
      using find_newline_Some(1) [OF Some] by simp
    also have "\<dots> = (let (ls, rest) = split_lines [] (drop (Suc n) buffer) in (?line # ls, rest))"
      by (simp add: split_lines_append split_lines_no_newline [OF find_newline_Some(2) [OF Some]] Let_def)
    finally show ?thesis
      using "1.IH" [OF Some]
      by (simp add: scan_lines.simps [of buffer pos] Some Let_def case_prod_unfold prod_eq_iff)
  qed
qed

subsection \<open>The stream does not depend on its chunks\<close>

fun docker_stream ::
  "(string \<Rightarrow> (string \<times> string) option) \<Rightarrow> string list \<Rightarrow> ('s \<Rightarrow> 's option) \<Rightarrow> string list \<Rightarrow> string \<times> 's \<Rightarrow>
   (string \<times> 's) option" where
  "docker_stream json_event actions trigger [] st = Some st"
| "docker_stream json_event actions trigger (chunk # chunks) st =
     (case docker_event_callback json_event actions trigger False chunk st of
        None \<Rightarrow> None
      | Some (n, st') \<Rightarrow> docker_stream json_event actions trigger chunks st')"

lemma docker_event_callback_run:
  assumes "NL \<notin> set buffer"
  shows "docker_event_callback json_event actions trigger exiting chunk (buffer, s) =
    map_option (\<lambda>s'. (if exiting then 0 else length chunk, snd (split_lines buffer chunk), s'))
      (fold_option (handle_docker_line json_event actions trigger) (fst (split_lines buffer chunk)) s)"
proof -
  have "split_lines [] (buffer @ chunk) = split_lines buffer chunk"
    by (simp add: split_lines_append split_lines_no_newline [OF assms] Let_def case_prod_unfold)
  with scan_lines_split [of "buffer @ chunk" 0] show ?thesis
    by (auto simp: docker_event_callback_def Let_def case_prod_unfold prod_eq_iff split: option.split)
qed

lemma docker_stream_run:
  "NL \<notin> set buffer \<Longrightarrow>
   docker_stream json_event actions trigger chunks (buffer, s) =
     map_option (\<lambda>s'. (snd (split_lines buffer (concat chunks)), s'))
       (fold_option (handle_docker_line json_event actions trigger) (fst (split_lines buffer (concat chunks))) s)"
proof (induction chunks arbitrary: buffer s)
  case (Cons chunk chunks)
  have "NL \<notin> set (snd (split_lines buffer chunk))" by (rule split_lines_rest [OF Cons.prems])
  note IH = Cons.IH [OF this]
  show ?case
    by (simp add: docker_event_callback_run [OF Cons.prems] split_lines_append Let_def case_prod_unfold
        fold_option_append IH split: option.split)
qed simp

subsection \<open>Inotify events\<close>

definition IN_CLOSE_WRITE :: u32 where "IN_CLOSE_WRITE = 0x8"
definition IN_CREATE :: u32 where "IN_CREATE = 0x100"
definition IN_DELETE :: u32 where "IN_DELETE = 0x200"
definition IN_DELETE_SELF :: u32 where "IN_DELETE_SELF = 0x400"
definition IN_MOVE_SELF :: u32 where "IN_MOVE_SELF = 0x800"

record inotify_event =
  ie_wd :: s32
  ie_mask :: u32
  ie_cookie :: u32
  ie_name :: "u8 list"

text \<open>The loop over what one \<open>read\<close> returned: a header of 16 bytes whose last field is the length of
  the name, which with its padding follows.\<close>

function inotify_events :: "u8 list \<Rightarrow> nat \<Rightarrow> inotify_event list" where
  "inotify_events buffer i =
     (if i < length buffer then
        let len = unat (u32_at buffer (i + 12))
        in \<lparr>ie_wd = u32_at buffer i, ie_mask = u32_at buffer (i + 4), ie_cookie = u32_at buffer (i + 8),
             ie_name = take len (drop (i + 16) buffer)\<rparr> # inotify_events buffer (i + 16 + len)
      else [])"
  by auto
termination
  by (relation "measure (\<lambda>(buffer, i). length buffer - i)") auto

declare inotify_events.simps [simp del]

definition handle_inotify_event :: "string \<Rightarrow> ('s \<Rightarrow> 's option) \<Rightarrow> inotify_event \<Rightarrow> 's \<Rightarrow> 's option" where
  "handle_inotify_event file_name trigger e s =
     (if ie_name e \<noteq> [] \<and> c_string (ie_name e) = file_name then
        (case (if ie_mask e AND (IN_CLOSE_WRITE OR IN_CREATE) \<noteq> 0 then trigger s else Some s) of
           None \<Rightarrow> None
         | Some s' \<Rightarrow>
             if ie_mask e AND (IN_DELETE OR IN_DELETE_SELF OR IN_MOVE_SELF) \<noteq> 0 then trigger s' else Some s')
      else Some s)"

definition inotify_read :: "string \<Rightarrow> ('s \<Rightarrow> 's option) \<Rightarrow> u8 list \<Rightarrow> 's \<Rightarrow> 's option" where
  "inotify_read file_name trigger buffer s =
     fold_option (handle_inotify_event file_name trigger) (inotify_events buffer 0) s"

text \<open>How the kernel lays an event out.\<close>

definition inotify_bytes :: "inotify_event \<Rightarrow> u8 list" where
  "inotify_bytes e = bytes32 (ie_wd e) @ bytes32 (ie_mask e) @ bytes32 (ie_cookie e) @
     bytes32 (of_nat (length (ie_name e))) @ ie_name e"

lemma inotify_header:
  assumes "length (ie_name e) < 2 ^ 32"
  shows "u32_at (done @ inotify_bytes e @ tail) (length done) = ie_wd e"
    and "u32_at (done @ inotify_bytes e @ tail) (length done + 4) = ie_mask e"
    and "u32_at (done @ inotify_bytes e @ tail) (length done + 8) = ie_cookie e"
    and "unat (u32_at (done @ inotify_bytes e @ tail) (length done + 12)) = length (ie_name e)"
proof -
  show "u32_at (done @ inotify_bytes e @ tail) (length done) = ie_wd e"
    using u32_at_bytes32 [of "done" "length done" "ie_wd e"] by (simp add: inotify_bytes_def)
  show "u32_at (done @ inotify_bytes e @ tail) (length done + 4) = ie_mask e"
    using u32_at_bytes32 [of "done @ bytes32 (ie_wd e)" "length done + 4" "ie_mask e"]
    by (simp add: inotify_bytes_def)
  show "u32_at (done @ inotify_bytes e @ tail) (length done + 8) = ie_cookie e"
    using u32_at_bytes32 [of "done @ bytes32 (ie_wd e) @ bytes32 (ie_mask e)" "length done + 8" "ie_cookie e"]
    by (simp add: inotify_bytes_def)
  have "u32_at (done @ inotify_bytes e @ tail) (length done + 12) = of_nat (length (ie_name e))"
    using u32_at_bytes32 [of "done @ bytes32 (ie_wd e) @ bytes32 (ie_mask e) @ bytes32 (ie_cookie e)"
        "length done + 12" "of_nat (length (ie_name e))"]
    by (simp add: inotify_bytes_def)
  with assms show "unat (u32_at (done @ inotify_bytes e @ tail) (length done + 12)) = length (ie_name e)"
    by (simp add: unat_of_nat take_bit_eq_mod)
qed

lemma inotify_events_from:
  "\<forall>e \<in> set es. length (ie_name e) < 2 ^ 32 \<Longrightarrow>
     inotify_events (done @ concat (map inotify_bytes es)) (length done) = es"
proof (induction es arbitrary: "done")
  case Nil
  then show ?case by (simp add: inotify_events.simps)
next
  case (Cons e es)
  let ?tail = "concat (map inotify_bytes es)"
  have "length (ie_name e) < 2 ^ 32" using Cons.prems by simp
  note header = inotify_header [OF this, of "done" ?tail]
  have length: "length (inotify_bytes e) = 16 + length (ie_name e)" by (simp add: inotify_bytes_def)
  have "inotify_events ((done @ inotify_bytes e) @ ?tail) (length (done @ inotify_bytes e)) = es"
    using Cons.IH [of "done @ inotify_bytes e"] Cons.prems by simp
  then have "inotify_events (done @ inotify_bytes e @ ?tail) (length done + 16 + length (ie_name e)) = es"
    by (simp add: length add.assoc)
  then show ?case
    by (simp add: inotify_events.simps [of _ "length done"] header length Let_def)
      (simp add: inotify_bytes_def)
qed

lemma inotify_round_trip:
  "\<forall>e \<in> set es. length (ie_name e) < 2 ^ 32 \<Longrightarrow> inotify_events (concat (map inotify_bytes es)) 0 = es"
  using inotify_events_from [of es "[]"] by simp

end
