(* ===== verification/Bpf_Maps.thy ===== *)
theory Bpf_Maps
  imports Prelude
begin

section \<open>BPF hash maps\<close>

text \<open>
  The behaviour of \<open>BPF_MAP_TYPE_HASH\<close> that the programs rely on, as the bpf(2) manual
  documents it: a lookup returns the stored value or nothing; an update with \<open>BPF_ANY\<close>
  stores or overwrites, and fails with \<open>-E2BIG\<close> when the key is new and \<open>max_entries\<close>
  elements are stored; a delete removes the key, or fails with \<open>-ENOENT\<close>.  The map's entries
  are an association list.  The interface is the locale \<open>bpf_hash\<close>; its client lemmas are
  proved once there and reach the programs through the interpretation at the end.
\<close>

type_synonym ('k, 'v) hmap = "('k \<times> 'v) list"

definition bpf_map_lookup_elem :: "('k, 'v) hmap \<Rightarrow> 'k \<Rightarrow> 'v option" where
  "bpf_map_lookup_elem m k = map_of m k"

definition bpf_map_update_elem :: "nat \<Rightarrow> 'k \<Rightarrow> 'v \<Rightarrow> ('k, 'v) hmap \<Rightarrow> int \<times> ('k, 'v) hmap" where
  "bpf_map_update_elem max_entries k v m =
     (if map_of m k = None \<and> max_entries \<le> length m then (- 7, m)
      else (0, AList.update k v m))"

definition bpf_map_delete_elem :: "'k \<Rightarrow> ('k, 'v) hmap \<Rightarrow> int \<times> ('k, 'v) hmap" where
  "bpf_map_delete_elem k m =
     (if map_of m k = None then (- 2, m) else (0, AList.delete k m))"

text \<open>The representation invariant: every key once, and never more than \<open>max_entries\<close>.\<close>

definition hmap_ok :: "nat \<Rightarrow> ('k, 'v) hmap \<Rightarrow> bool" where
  "hmap_ok max_entries m \<longleftrightarrow> distinct (map fst m) \<and> length m \<le> max_entries"

definition hmap_full :: "nat \<Rightarrow> ('k, 'v) hmap \<Rightarrow> bool" where
  "hmap_full max_entries m \<longleftrightarrow> max_entries \<le> length m"

subsection \<open>The interface\<close>

locale bpf_hash =
  fixes lookup :: "'m \<Rightarrow> 'k \<Rightarrow> 'v option"
    and update :: "'k \<Rightarrow> 'v \<Rightarrow> 'm \<Rightarrow> int \<times> 'm"
    and delete :: "'k \<Rightarrow> 'm \<Rightarrow> int \<times> 'm"
    and invar :: "'m \<Rightarrow> bool"
    and full :: "'m \<Rightarrow> bool"
  assumes update_stores: "\<not> full m \<or> lookup m k \<noteq> None \<Longrightarrow>
      lookup (snd (update k v m)) = (lookup m)(k \<mapsto> v)"
    and update_full: "full m \<Longrightarrow> lookup m k = None \<Longrightarrow> snd (update k v m) = m"
    and lookup_delete: "lookup (snd (delete k m)) = (lookup m)(k := None)"
    and invar_update: "invar m \<Longrightarrow> invar (snd (update k v m))"
    and invar_delete: "invar m \<Longrightarrow> invar (snd (delete k m))"
begin

lemma lookup_update_other: "k' \<noteq> k \<Longrightarrow> lookup (snd (update k v m)) k' = lookup m k'"
  by (cases "full m \<and> lookup m k = None") (auto simp: update_full update_stores)

lemma lookup_delete_other: "k' \<noteq> k \<Longrightarrow> lookup (snd (delete k m)) k' = lookup m k'"
  by (simp add: lookup_delete)

lemma lookup_delete_same: "lookup (snd (delete k m)) k = None"
  by (simp add: lookup_delete)

lemma lookup_update_same:
  "lookup (snd (update k v m)) k = (if full m \<and> lookup m k = None then None else Some v)"
  by (auto simp: update_full update_stores)

lemma delete_after_update:
  "lookup (snd (delete k (snd (update k v m)))) = (lookup m)(k := None)"
  by (cases "full m \<and> lookup m k = None") (auto simp: lookup_delete update_full update_stores)

text \<open>Two keys do not disturb each other, whichever order their owners run in.\<close>

lemma update_delete_frame:
  "k \<noteq> k' \<Longrightarrow> k \<noteq> k'' \<Longrightarrow> lookup (snd (delete k'' (snd (update k' v m)))) k = lookup m k"
  by (simp add: lookup_delete_other lookup_update_other)

end

text \<open>An update that does not find room leaves the entries as they are; any other adds at most one.\<close>

lemma length_update:
  "length (snd (bpf_map_update_elem n k v m)) =
     (if map_of m k = None \<and> length m < n then Suc (length m) else length m)"
  using AList.update_keys [of k v m, THEN arg_cong [where f = length]]
  by (auto simp: bpf_map_update_elem_def map_of_eq_None_iff)

lemma distinct_update_elem:
  "distinct (map fst m) \<Longrightarrow> distinct (map fst (snd (bpf_map_update_elem n k v m)))"
  by (simp add: bpf_map_update_elem_def AList.distinct_update)

subsection \<open>The interpretation on association lists\<close>

interpretation hash: bpf_hash
  bpf_map_lookup_elem "bpf_map_update_elem n" bpf_map_delete_elem "hmap_ok n" "hmap_full n"
  for n :: nat
proof unfold_locales
  fix m :: "('k \<times> 'v) list" and k v
  show "\<not> hmap_full n m \<or> bpf_map_lookup_elem m k \<noteq> None \<Longrightarrow>
      bpf_map_lookup_elem (snd (bpf_map_update_elem n k v m)) = (bpf_map_lookup_elem m)(k \<mapsto> v)"
    by (auto simp: bpf_map_lookup_elem_def bpf_map_update_elem_def hmap_full_def
        AList.update_conv' fun_eq_iff)
  show "hmap_full n m \<Longrightarrow> bpf_map_lookup_elem m k = None \<Longrightarrow>
      snd (bpf_map_update_elem n k v m) = m"
    by (simp add: bpf_map_lookup_elem_def bpf_map_update_elem_def hmap_full_def)
  show "bpf_map_lookup_elem (snd (bpf_map_delete_elem k m)) = (bpf_map_lookup_elem m)(k := None)"
    by (auto simp: bpf_map_lookup_elem_def bpf_map_delete_elem_def AList.delete_conv')
  show "hmap_ok n m \<Longrightarrow> hmap_ok n (snd (bpf_map_update_elem n k v m))"
    by (auto simp: hmap_ok_def length_update distinct_update_elem)
  show "hmap_ok n m \<Longrightarrow> hmap_ok n (snd (bpf_map_delete_elem k m))"
    by (auto simp: bpf_map_delete_elem_def hmap_ok_def AList.distinct_delete
        intro: le_trans [OF AList.length_delete_le])
qed

text \<open>A loop that stores one entry per element finds each of them afterwards, if there is room and no
  key comes twice.\<close>

lemma fold_update_lookup:
  assumes "distinct (map key cs)" and "length m + length cs \<le> n"
  shows "bpf_map_lookup_elem (fold (\<lambda>c m. snd (bpf_map_update_elem n (key c) (val c) m)) cs m) k =
    (case find (\<lambda>c. key c = k) cs of Some c \<Rightarrow> Some (val c) | None \<Rightarrow> bpf_map_lookup_elem m k)"
  using assms
proof (induction cs arbitrary: m)
  case (Cons c cs)
  let ?m = "snd (bpf_map_update_elem n (key c) (val c) m)"
  have "length ?m + length cs \<le> n"
    using Cons.prems(2) by (simp add: length_update)
  with Cons have IH: "bpf_map_lookup_elem
      (fold (\<lambda>c m. snd (bpf_map_update_elem n (key c) (val c) m)) cs ?m) k =
    (case find (\<lambda>c. key c = k) cs of Some c \<Rightarrow> Some (val c) | None \<Rightarrow> bpf_map_lookup_elem ?m k)"
    by simp
  have "find (\<lambda>c. key c = k) cs = None" if "key c = k"
    using that Cons.prems(1) by (auto simp: find_None_iff rev_image_eqI)
  moreover have "bpf_map_lookup_elem ?m = (bpf_map_lookup_elem m)(key c \<mapsto> val c)"
    using Cons.prems(2) by (simp add: hash.update_stores hmap_full_def)
  ultimately show ?case using IH by (auto split: option.split)
qed simp

lemmas hash_lookup_simps =
  hash.lookup_update_other hash.lookup_delete_other hash.lookup_delete_same

lemma update_fits:
  "map_of m k = None \<Longrightarrow> length m < n \<Longrightarrow>
     snd (bpf_map_update_elem n k v m) = m @ [(k, v)]"
proof -
  assume none: "map_of m k = None" and "length m < n"
  from none have "AList.update k v m = m @ [(k, v)]"
    by (induction m) (auto split: if_splits)
  with none \<open>length m < n\<close> show ?thesis
    by (simp add: bpf_map_update_elem_def)
qed

end
