(* ===== verification/Trace_Types.thy ===== *)
theory Trace_Types
  imports Bpf_Maps
begin

section \<open>Tracepoint monitor: data, kernel interface and state\<close>

text \<open>
  The data of \<open>src/src/tracepoint/struct.h\<close> and \<open>map.h\<close>, the structs of \<open>vmlinux.h\<close> that the
  programs read from user memory, and the state the programs share: the sequence counter, the
  ring buffer, the policy map and the fourteen argument maps.  A C array of six words is a
  function on indices (every index in the source is a constant below six), a byte array is a
  list of bytes, a pointer is the \<open>64 word\<close> of its address.

  The kernel is not part of the repository.  What one activation of a program sees of it is the
  record \<open>kernel\<close>, an argument of every program: the current task, the clock, the outcome of a
  ring buffer reservation (\<open>None\<close> when it is refused, otherwise the memory handed out with
  whatever bytes were left in it) and of each read of user memory (return code and the
  destination afterwards).  Outcomes that may change from call to call are functions of the
  number of the helper call (\<open>calls\<close> in the state).
\<close>

subsection \<open>Records of struct.h\<close>

record current_task =
  ct_count :: u64
  ct_timestamp :: u64
  ct_event_id :: s32
  ct_cgroup_id :: u64
  ct_pid_namespace :: u32
  ct_mnt_namespace :: u32
  ct_ppid :: u32
  ct_pid :: u32
  ct_tid :: u32
  ct_uid :: u32
  ct_gid :: u32
  ct_comm :: "u8 list"

record event_t =
  ev_task :: current_task
  ev_ret :: s64
  arg_s32 :: "nat \<Rightarrow> s32"
  arg_u32 :: "nat \<Rightarrow> u32"
  arg_s64 :: "nat \<Rightarrow> s64"
  arg_u64 :: "nat \<Rightarrow> u64"
  arg_str :: "u8 list"
  arg_str2 :: "u8 list"
  filesystem_type :: "u8 list"
  is_enter :: bool
  is_valid :: bool
  is_null :: bool
  ev_ip :: u32
  ev_port :: u16
  addr_family :: u16
  ipv6_addr :: "u8 list"

record map_key =
  key_pid :: u32
  key_tid :: u32
  key_pid_namespace :: u32

record getsockopt_args =
  optval_ptr :: u64
  optlen_ptr :: u64

record sock_addr_args =
  addr_ptr :: u64
  addrlen_ptr :: u64

record resuid_args =
  ptr_ruid :: u64
  ptr_euid :: u64
  ptr_suid :: u64

record resgid_args =
  ptr_rgid :: u64
  ptr_egid :: u64
  ptr_sgid :: u64

record capget_args =
  hdrp :: u64
  datap :: u64

text \<open>Assignments to one element of the event's arrays, as the programs write them.\<close>

abbreviation set_s32 :: "nat \<Rightarrow> s32 \<Rightarrow> event_t \<Rightarrow> event_t" where
  "set_s32 i v \<equiv> arg_s32_update (\<lambda>a. a(i := v))"

abbreviation set_u32 :: "nat \<Rightarrow> u32 \<Rightarrow> event_t \<Rightarrow> event_t" where
  "set_u32 i v \<equiv> arg_u32_update (\<lambda>a. a(i := v))"

abbreviation set_s64 :: "nat \<Rightarrow> s64 \<Rightarrow> event_t \<Rightarrow> event_t" where
  "set_s64 i v \<equiv> arg_s64_update (\<lambda>a. a(i := v))"

abbreviation set_u64 :: "nat \<Rightarrow> u64 \<Rightarrow> event_t \<Rightarrow> event_t" where
  "set_u64 i v \<equiv> arg_u64_update (\<lambda>a. a(i := v))"

subsection \<open>The contexts of the raw tracepoints (vmlinux.h)\<close>

record sys_enter_ctx =
  enter_id :: s64
  args :: "nat \<Rightarrow> u64"

record sys_exit_ctx =
  exit_id :: s64
  exit_ret :: s64

subsection \<open>Structs read from user memory (vmlinux.h), at the offsets of the x86-64 layout\<close>

record sockaddr_in =
  sin_family :: u16
  sin_port :: u16
  s_addr :: u32

definition decode_sockaddr_in :: "u8 list \<Rightarrow> sockaddr_in" where
  "decode_sockaddr_in bs = \<lparr>sin_family = u16_at bs 0, sin_port = u16_at bs 2, s_addr = u32_at bs 4\<rparr>"

definition encode_sockaddr_in :: "sockaddr_in \<Rightarrow> u8 list" where
  "encode_sockaddr_in a = bytes16 (sin_family a) @ bytes16 (sin_port a) @ bytes32 (s_addr a) @ replicate 8 0"

record sockaddr_in6 =
  sin6_family :: u16
  sin6_port :: u16
  sin6_flowinfo :: u32
  sin6_addr :: "u8 list"
  sin6_scope_id :: u32

definition decode_sockaddr_in6 :: "u8 list \<Rightarrow> sockaddr_in6" where
  "decode_sockaddr_in6 bs =
     \<lparr>sin6_family = u16_at bs 0, sin6_port = u16_at bs 2, sin6_flowinfo = u32_at bs 4,
      sin6_addr = take 16 (drop 8 bs), sin6_scope_id = u32_at bs 24\<rparr>"

text \<open>Of \<open>struct msghdr\<close> the programs use the address pointer alone.\<close>

definition msg_name :: "u8 list \<Rightarrow> u64" where
  "msg_name bs = u64_at bs 0"

record open_how =
  how_flags :: u64
  how_mode :: u64
  how_resolve :: u64

definition decode_open_how :: "u8 list \<Rightarrow> open_how" where
  "decode_open_how bs = \<lparr>how_flags = u64_at bs 0, how_mode = u64_at bs 8, how_resolve = u64_at bs 16\<rparr>"

record file_handle =
  handle_bytes :: u32
  handle_type :: s32

definition decode_file_handle :: "u8 list \<Rightarrow> file_handle" where
  "decode_file_handle bs = \<lparr>handle_bytes = u32_at bs 0, handle_type = u32_at bs 4\<rparr>"

text \<open>Both \<open>struct linux_dirent\<close> and \<open>struct linux_dirent64\<close> begin with the inode number.\<close>

definition d_ino :: "u8 list \<Rightarrow> u64" where
  "d_ino bs = u64_at bs 0"

record rlimit =
  rlim_cur :: u64
  rlim_max :: u64

definition decode_rlimit :: "u8 list \<Rightarrow> rlimit" where
  "decode_rlimit bs = \<lparr>rlim_cur = u64_at bs 0, rlim_max = u64_at bs 8\<rparr>"

record clone_args =
  cl_flags :: u64
  cl_stack :: u64
  cl_stack_size :: u64
  cl_cgroup :: u64

definition decode_clone_args :: "u8 list \<Rightarrow> clone_args" where
  "decode_clone_args bs =
     \<lparr>cl_flags = u64_at bs 0, cl_stack = u64_at bs 40, cl_stack_size = u64_at bs 48,
      cl_cgroup = u64_at bs 80\<rparr>"

record user_cap_header =
  cap_version :: u32
  cap_pid :: s32

definition decode_cap_header :: "u8 list \<Rightarrow> user_cap_header" where
  "decode_cap_header bs = \<lparr>cap_version = u32_at bs 0, cap_pid = u32_at bs 4\<rparr>"

record user_cap_data =
  cap_effective :: u32
  cap_permitted :: u32
  cap_inheritable :: u32

definition decode_cap_data :: "u8 list \<Rightarrow> user_cap_data" where
  "decode_cap_data bs =
     \<lparr>cap_effective = u32_at bs 0, cap_permitted = u32_at bs 4, cap_inheritable = u32_at bs 8\<rparr>"

definition sched_priority :: "u8 list \<Rightarrow> s32" where
  "sched_priority bs = u32_at bs 0"

text \<open>Of \<open>siginfo_t\<close> the programs use the signal number and the code.\<close>

record siginfo =
  si_signo :: s32
  si_code :: s32

definition decode_siginfo :: "u8 list \<Rightarrow> siginfo" where
  "decode_siginfo bs = \<lparr>si_signo = u32_at bs 0, si_code = u32_at bs 8\<rparr>"

subsection \<open>The kernel, as one activation of a program sees it\<close>

record task_struct =
  task_pid_ns :: u32
  task_mnt_ns :: u32
  task_parent_tgid :: u32

record kernel =
  cur_task :: "task_struct option"
  cur_pid_tgid :: u64
  cur_uid_gid :: u64
  cur_cgroup_id :: u64
  cur_comm :: "u8 list"
  ktime_ns :: "nat \<Rightarrow> u64"
  rb_reserve :: "nat \<Rightarrow> event_t option"
  read_user :: "nat \<Rightarrow> u64 \<Rightarrow> nat \<Rightarrow> u8 list \<Rightarrow> int \<times> u8 list"
  read_user_str :: "nat \<Rightarrow> u64 \<Rightarrow> nat \<Rightarrow> u8 list \<Rightarrow> int \<times> u8 list"
  read_any :: "nat \<Rightarrow> u64 \<Rightarrow> nat \<Rightarrow> u8 list \<Rightarrow> int \<times> u8 list"
  stack_garbage :: "nat \<Rightarrow> nat \<Rightarrow> u8 list"
  stack_addr :: "nat \<Rightarrow> u64"

subsection \<open>The shared state (map.h and the global of tracepoint.bpf.c)\<close>

record args_maps =
  socketpair_args_map :: "(map_key, u64) hmap"
  getsockopt_args_map :: "(map_key, getsockopt_args) hmap"
  getsockname_args_map :: "(map_key, sock_addr_args) hmap"
  getpeername_args_map :: "(map_key, sock_addr_args) hmap"
  accept_args_map :: "(map_key, sock_addr_args) hmap"
  accept4_args_map :: "(map_key, sock_addr_args) hmap"
  recvfrom_args_map :: "(map_key, sock_addr_args) hmap"
  recvmsg_args_map :: "(map_key, u64) hmap"
  getdents_args_map :: "(map_key, u64) hmap"
  getdents64_args_map :: "(map_key, u64) hmap"
  resuid_args_map :: "(map_key, resuid_args) hmap"
  resgid_args_map :: "(map_key, resgid_args) hmap"
  getrlimit_args_map :: "(map_key, u64) hmap"
  capget_args_map :: "(map_key, capget_args) hmap"

text \<open>
  \<open>rb\<close> holds the submitted records that the consumer has not yet taken, oldest first, and
  \<open>outstanding\<close> counts records reserved and not yet submitted.
\<close>

record tstate =
  count :: u64
  rb :: "event_t list"
  outstanding :: nat
  calls :: nat
  syscall_array :: "(u32, s32 list) hmap"
  amaps :: args_maps

type_synonym 'a prog = "(tstate, 'a) state"

text \<open>\<open>max_entries\<close> of each of the fourteen argument maps.\<close>

definition args_max_entries :: nat where
  "args_max_entries = 1024"

subsection \<open>The helpers as programs\<close>

definition next_call :: "nat prog" where
  "next_call = State (\<lambda>s. (calls s, s\<lparr>calls := Suc (calls s)\<rparr>))"

definition bpf_ktime_get_ns :: "kernel \<Rightarrow> u64 prog" where
  "bpf_ktime_get_ns K = do { t \<leftarrow> next_call; return (ktime_ns K t) }"

definition bpf_ringbuf_reserve :: "kernel \<Rightarrow> event_t option prog" where
  "bpf_ringbuf_reserve K = do {
     t \<leftarrow> next_call;
     case rb_reserve K t of
       None \<Rightarrow> return None
     | Some e \<Rightarrow> do { modify (outstanding_update Suc); return (Some e) }
   }"

definition bpf_ringbuf_submit :: "event_t \<Rightarrow> unit prog" where
  "bpf_ringbuf_submit e =
     modify (\<lambda>s. s\<lparr>rb := rb s @ [e], outstanding := outstanding s - 1\<rparr>)"

definition bpf_probe_read_user :: "kernel \<Rightarrow> nat \<Rightarrow> u64 \<Rightarrow> u8 list \<Rightarrow> (int \<times> u8 list) prog" where
  "bpf_probe_read_user K sz ptr dst = do { t \<leftarrow> next_call; return (read_user K t ptr sz dst) }"

definition bpf_probe_read_user_str :: "kernel \<Rightarrow> nat \<Rightarrow> u64 \<Rightarrow> u8 list \<Rightarrow> (int \<times> u8 list) prog" where
  "bpf_probe_read_user_str K sz ptr dst = do { t \<leftarrow> next_call; return (read_user_str K t ptr sz dst) }"

definition bpf_probe_read :: "kernel \<Rightarrow> nat \<Rightarrow> u64 \<Rightarrow> u8 list \<Rightarrow> (int \<times> u8 list) prog" where
  "bpf_probe_read K sz ptr dst = do { t \<leftarrow> next_call; return (read_any K t ptr sz dst) }"

text \<open>An uninitialised local variable of \<open>sz\<close> bytes, and the address of one.\<close>

definition uninit_local :: "kernel \<Rightarrow> nat \<Rightarrow> u8 list prog" where
  "uninit_local K sz = do { t \<leftarrow> next_call; return (stack_garbage K t sz) }"

definition address_of_local :: "kernel \<Rightarrow> u64 prog" where
  "address_of_local K = do { t \<leftarrow> next_call; return (stack_addr K t) }"

text \<open>\<open>bpf_probe_read_user(&x, sizeof(x), ptr)\<close> into an uninitialised local \<open>x\<close>.\<close>

definition read_user_local :: "kernel \<Rightarrow> nat \<Rightarrow> u64 \<Rightarrow> (int \<times> u8 list) prog" where
  "read_user_local K sz ptr = do { x \<leftarrow> uninit_local K sz; bpf_probe_read_user K sz ptr x }"

definition map_lookup :: "(args_maps \<Rightarrow> (map_key, 'v) hmap) \<Rightarrow> map_key \<Rightarrow> 'v option prog" where
  "map_lookup sel key = gets (\<lambda>s. bpf_map_lookup_elem (sel (amaps s)) key)"

definition map_update ::
  "(((map_key, 'v) hmap \<Rightarrow> (map_key, 'v) hmap) \<Rightarrow> args_maps \<Rightarrow> args_maps) \<Rightarrow> map_key \<Rightarrow> 'v \<Rightarrow> unit prog" where
  "map_update upd key v =
     modify (amaps_update (upd (\<lambda>m. snd (bpf_map_update_elem args_max_entries key v m))))"

definition map_delete ::
  "(((map_key, 'v) hmap \<Rightarrow> (map_key, 'v) hmap) \<Rightarrow> args_maps \<Rightarrow> args_maps) \<Rightarrow> map_key \<Rightarrow> unit prog" where
  "map_delete upd key =
     modify (amaps_update (upd (\<lambda>m. snd (bpf_map_delete_elem key m))))"

subsection \<open>Decoding what was encoded\<close>

lemma u16_at_append [simp]:
  "u16_at (bytes16 x @ r) 0 = x" "u16_at (bytes16 y @ bytes16 x @ r) 2 = x"
  using u16_at_bytes16 [of "[]" 0 x r] u16_at_bytes16 [of "bytes16 y" 2 x r] by simp_all

lemma decode_encode_sockaddr_in: "decode_sockaddr_in (encode_sockaddr_in a) = a"
proof -
  have "u32_at (encode_sockaddr_in a) 4 = s_addr a"
    using u32_at_bytes32 [of "bytes16 (sin_family a) @ bytes16 (sin_port a)" 4 "s_addr a"]
    by (simp add: encode_sockaddr_in_def)
  then show ?thesis
    by (simp add: decode_sockaddr_in_def) (simp add: encode_sockaddr_in_def)
qed

lemma length_encode_sockaddr_in [simp]: "length (encode_sockaddr_in a) = 16"
  by (simp add: encode_sockaddr_in_def)

end
