(* ===== verification/Trace_Core.thy ===== *)
theory Trace_Core
  imports Trace_Types
begin

section \<open>Tracepoint monitor: the helpers every program calls\<close>

text \<open>
  The \<open>static\<close> functions at the top of \<open>src/src/tracepoint/tracepoint.bpf.c\<close>: the snapshot of
  the current task, the policy filter, the reservation of a record with its sequence number,
  and the reading of a socket address.  Each is translated in the order of its statements.  A
  pointer result that may be \<open>NULL\<close> is an option, the record behind \<open>struct event_t *e\<close> is a
  value that the program owns from the reservation to the submission.
\<close>

subsection \<open>get_task_struct\<close>

definition zero_task :: current_task where
  "zero_task = \<lparr>ct_count = 0, ct_timestamp = 0, ct_event_id = 0, ct_cgroup_id = 0,
     ct_pid_namespace = 0, ct_mnt_namespace = 0, ct_ppid = 0, ct_pid = 0, ct_tid = 0,
     ct_uid = 0, ct_gid = 0, ct_comm = replicate 16 0\<rparr>"

definition get_task_struct :: "kernel \<Rightarrow> s32 \<Rightarrow> current_task prog" where
  "get_task_struct K event_id = do {
     ts \<leftarrow> bpf_ktime_get_ns K;
     let ct = zero_task\<lparr>ct_timestamp := ts\<rparr>;
     case cur_task K of
       None \<Rightarrow> return ct
     | Some task \<Rightarrow>
         return (ct\<lparr>ct_event_id := event_id,
                    ct_cgroup_id := cur_cgroup_id K,
                    ct_pid_namespace := task_pid_ns task,
                    ct_mnt_namespace := task_mnt_ns task,
                    ct_ppid := task_parent_tgid task,
                    ct_pid := ucast (drop_bit 32 (cur_pid_tgid K)),
                    ct_tid := ucast (cur_pid_tgid K),
                    ct_uid := ucast (cur_uid_gid K),
                    ct_gid := ucast (drop_bit 32 (cur_uid_gid K)),
                    ct_comm := cur_comm K\<rparr>)
   }"

subsection \<open>ring_buffer, get_map_key\<close>

definition ring_buffer :: "kernel \<Rightarrow> current_task \<Rightarrow> event_t option prog" where
  "ring_buffer K ct = do {
     r \<leftarrow> bpf_ringbuf_reserve K;
     case r of
       None \<Rightarrow> return None
     | Some e \<Rightarrow> do {
         modify (count_update (\<lambda>c. c + 1));
         c \<leftarrow> gets count;
         return (Some (e\<lparr>ev_task := ct\<lparr>ct_count := c\<rparr>\<rparr>))
       }
   }"

definition get_map_key :: "current_task \<Rightarrow> map_key" where
  "get_map_key ct = \<lparr>key_pid = ct_pid ct, key_tid = ct_tid ct, key_pid_namespace = ct_pid_namespace ct\<rparr>"

text \<open>
  A \<open>struct current_task\<close> passed where a map expects a \<open>struct map_key\<close>: the helper reads the
  key's twelve bytes from the start of the struct, which are the eight bytes of \<open>count\<close> and the
  low four of \<open>timestamp\<close>.
\<close>

definition task_bytes_as_key :: "current_task \<Rightarrow> map_key" where
  "task_bytes_as_key ct =
     \<lparr>key_pid = ucast (ct_count ct), key_tid = ucast (drop_bit 32 (ct_count ct)),
      key_pid_namespace = ucast (ct_timestamp ct)\<rparr>"

subsection \<open>should_log_event\<close>

text \<open>The unrolled loop over the 120 elements of the container's array.\<close>

fun scan_syscalls :: "nat \<Rightarrow> s32 list \<Rightarrow> s32 \<Rightarrow> bool" where
  "scan_syscalls 0 xs event_id = False"
| "scan_syscalls (Suc n) [] event_id = False"
| "scan_syscalls (Suc n) (x # xs) event_id =
     (if x = event_id then True
      else if x = - 1 then False
      else scan_syscalls n xs event_id)"

definition should_log :: "(u32, s32 list) hmap \<Rightarrow> u32 \<Rightarrow> s32 \<Rightarrow> bool" where
  "should_log arr pid_namespace event_id =
     (case bpf_map_lookup_elem arr pid_namespace of
        None \<Rightarrow> False
      | Some syscall_list \<Rightarrow> scan_syscalls 120 syscall_list event_id)"

definition should_log_event :: "u32 \<Rightarrow> s32 \<Rightarrow> bool prog" where
  "should_log_event pid_namespace event_id =
     gets (\<lambda>s. should_log (syscall_array s) pid_namespace event_id)"

text \<open>
  The loop compares before it tests for the end marker, so for an event id other than \<open>-1\<close> it
  searches the part of the array before the first marker, and for \<open>-1\<close> it finds the marker.
\<close>

lemma scan_syscalls_iff:
  "scan_syscalls n xs event_id \<longleftrightarrow>
     (if event_id = - 1 then - 1 \<in> set (take n xs)
      else event_id \<in> set (takeWhile (\<lambda>x. x \<noteq> - 1) (take n xs)))"
  by (induction n xs event_id rule: scan_syscalls.induct) auto

lemma scan_syscalls_in: "scan_syscalls n xs event_id \<Longrightarrow> event_id \<in> set xs"
  by (auto simp: scan_syscalls_iff dest: set_takeWhileD in_set_takeD split: if_splits)

lemma should_log_listed:
  "should_log arr ns event_id \<Longrightarrow>
   \<exists>l. bpf_map_lookup_elem arr ns = Some l \<and> event_id \<in> set l"
  by (auto simp: should_log_def dest: scan_syscalls_in split: option.splits)

subsection \<open>handle_enter_event, handle_exit_event\<close>

definition handle_enter_event :: "kernel \<Rightarrow> s32 \<Rightarrow> event_t option prog" where
  "handle_enter_event K event_id = do {
     ct \<leftarrow> get_task_struct K event_id;
     b \<leftarrow> should_log_event (ct_pid_namespace ct) (ct_event_id ct);
     if \<not> b then return None
     else do {
       r \<leftarrow> ring_buffer K ct;
       case r of
         None \<Rightarrow> return None
       | Some e \<Rightarrow> return (Some (e\<lparr>is_enter := True\<rparr>))
     }
   }"

definition handle_exit_event :: "kernel \<Rightarrow> s32 \<Rightarrow> event_t option prog" where
  "handle_exit_event K event_id = do {
     ct \<leftarrow> get_task_struct K event_id;
     b \<leftarrow> should_log_event (ct_pid_namespace ct) event_id;
     if \<not> b then return None
     else do {
       r \<leftarrow> ring_buffer K ct;
       case r of
         None \<Rightarrow> return None
       | Some e \<Rightarrow> return (Some (e\<lparr>is_enter := False\<rparr>))
     }
   }"

subsection \<open>init_socket_fields, read_sockaddr\<close>

definition init_socket_fields :: "event_t \<Rightarrow> event_t" where
  "init_socket_fields e =
     e\<lparr>ev_ip := 0, ev_port := 0, addr_family := 0, is_valid := False, is_null := False\<rparr>"

text \<open>
  The boolean result comes with the record.  In the IPv6 branch the source of the second read
  is \<open>&addr6.sin6_addr\<close>, eight bytes into a local variable of the program.
\<close>

definition read_sockaddr :: "kernel \<Rightarrow> event_t \<Rightarrow> u64 \<Rightarrow> (bool \<times> event_t) prog" where
  "read_sockaddr K e ptr =
     (if ptr = 0 then return (False, e)
      else do {
        (rc, fam) \<leftarrow> read_user_local K 2 ptr;
        if rc \<noteq> 0 then return (False, e)
        else do {
          let family = u16_at fam 0;
          let e = e\<lparr>addr_family := family\<rparr>;
          if family = 2 then do {
            (rc, bs) \<leftarrow> read_user_local K 16 ptr;
            if rc = 0 then do {
              let addr = decode_sockaddr_in bs;
              let e = e\<lparr>ev_ip := s_addr addr\<rparr>;
              let e = e\<lparr>ev_port := bswap16 (sin_port addr)\<rparr>;
              return (True, e\<lparr>is_valid := True\<rparr>)
            } else return (False, e)
          } else if family = 10 then do {
            (rc, bs) \<leftarrow> read_user_local K 28 ptr;
            if rc = 0 then do {
              let addr6 = decode_sockaddr_in6 bs;
              p \<leftarrow> address_of_local K;
              (rc6, v6) \<leftarrow> bpf_probe_read_user K 16 (p + 8) (ipv6_addr e);
              let e = e\<lparr>ipv6_addr := v6\<rparr>;
              let e = e\<lparr>ev_port := bswap16 (sin6_port addr6)\<rparr>;
              return (True, e\<lparr>is_valid := True\<rparr>)
            } else return (False, e)
          } else return (False, e)
        }
      })"

subsection \<open>Runs of the helpers\<close>

text \<open>The snapshot as a function of the kernel and the time: two snapshots of one activation
  differ in the time stamp alone.\<close>

definition task_snapshot :: "kernel \<Rightarrow> s32 \<Rightarrow> u64 \<Rightarrow> current_task" where
  "task_snapshot K event_id ts =
     (let ct = zero_task\<lparr>ct_timestamp := ts\<rparr> in
      case cur_task K of
        None \<Rightarrow> ct
      | Some task \<Rightarrow>
          ct\<lparr>ct_event_id := event_id, ct_cgroup_id := cur_cgroup_id K,
             ct_pid_namespace := task_pid_ns task, ct_mnt_namespace := task_mnt_ns task,
             ct_ppid := task_parent_tgid task,
             ct_pid := ucast (drop_bit 32 (cur_pid_tgid K)), ct_tid := ucast (cur_pid_tgid K),
             ct_uid := ucast (cur_uid_gid K), ct_gid := ucast (drop_bit 32 (cur_uid_gid K)),
             ct_comm := cur_comm K\<rparr>)"

definition activation_ns :: "kernel \<Rightarrow> u32" where
  "activation_ns K = (case cur_task K of None \<Rightarrow> 0 | Some task \<Rightarrow> task_pid_ns task)"

definition activation_key :: "kernel \<Rightarrow> map_key" where
  "activation_key K = get_map_key (task_snapshot K 0 0)"

lemma run_next_call [simp]: "run_state next_call s = (calls s, s\<lparr>calls := Suc (calls s)\<rparr>)"
  by (simp add: next_call_def)

lemma run_get_task_struct [simp]:
  "run_state (get_task_struct K ev) s =
     (task_snapshot K ev (ktime_ns K (calls s)), s\<lparr>calls := Suc (calls s)\<rparr>)"
  by (simp add: get_task_struct_def bpf_ktime_get_ns_def task_snapshot_def Let_def
      split: option.split)

lemma run_should_log_event [simp]:
  "run_state (should_log_event ns ev) s = (should_log (syscall_array s) ns ev, s)"
  by (simp add: should_log_event_def)

lemma run_ring_buffer [simp]:
  "run_state (ring_buffer K ct) s =
     (case rb_reserve K (calls s) of
        None \<Rightarrow> (None, s\<lparr>calls := Suc (calls s)\<rparr>)
      | Some e \<Rightarrow> (Some (e\<lparr>ev_task := ct\<lparr>ct_count := count s + 1\<rparr>\<rparr>),
          s\<lparr>calls := Suc (calls s), outstanding := Suc (outstanding s), count := count s + 1\<rparr>))"
  by (simp add: ring_buffer_def bpf_ringbuf_reserve_def split: option.split)

lemma snapshot_ns [simp]: "ct_pid_namespace (task_snapshot K ev ts) = activation_ns K"
  by (simp add: task_snapshot_def activation_ns_def Let_def zero_task_def split: option.split)

lemma snapshot_key [simp]: "get_map_key (task_snapshot K ev ts) = activation_key K"
  by (simp add: activation_key_def get_map_key_def task_snapshot_def Let_def zero_task_def
      split: option.split)

lemma snapshot_event_id:
  "ct_event_id (task_snapshot K ev ts) = (if cur_task K = None then 0 else ev)"
  by (simp add: task_snapshot_def Let_def zero_task_def split: option.split)

lemma snapshot_timestamp [simp]: "ct_timestamp (task_snapshot K ev ts) = ts"
  by (simp add: task_snapshot_def Let_def split: option.split)

lemma snapshot_count [simp]: "ct_count (task_snapshot K ev ts) = 0"
  by (simp add: task_snapshot_def Let_def zero_task_def split: option.split)

lemma bytes_as_key_snapshot [simp]:
  "task_bytes_as_key (task_snapshot K ev ts) =
     \<lparr>key_pid = 0, key_tid = 0, key_pid_namespace = ucast ts\<rparr>"
  by (simp add: task_bytes_as_key_def)

lemma init_socket_fields_keeps [simp]:
  "ev_task (init_socket_fields e) = ev_task e" "is_enter (init_socket_fields e) = is_enter e"
  by (simp_all add: init_socket_fields_def)

subsection \<open>What read_sockaddr finds\<close>

text \<open>User memory in which every read of a prefix of \<open>bs\<close> at \<open>p\<close> succeeds, and the failure of
  \<open>bpf_probe_read_user\<close> on addresses outside user space, which clears the destination.\<close>

definition memory_holds :: "kernel \<Rightarrow> u64 \<Rightarrow> u8 list \<Rightarrow> bool" where
  "memory_holds K p bs \<longleftrightarrow> (\<forall>t sz d. sz \<le> length bs \<longrightarrow> read_user K t p sz d = (0, take sz bs))"

definition user_reads_only :: "kernel \<Rightarrow> bool" where
  "user_reads_only K \<longleftrightarrow>
     (\<forall>t p sz d. 2 ^ 47 \<le> p \<longrightarrow> read_user K t p sz d = (- 14, replicate sz 0)) \<and>
     (\<forall>t. 2 ^ 47 \<le> stack_addr K t \<and> 2 ^ 47 \<le> stack_addr K t + 8)"

lemma run_read_user_local:
  "run_state (read_user_local K sz p) s =
     (read_user K (Suc (calls s)) p sz (stack_garbage K (calls s) sz), s\<lparr>calls := Suc (Suc (calls s))\<rparr>)"
  by (simp add: read_user_local_def uninit_local_def bpf_probe_read_user_def)

lemma memory_family:
  assumes "memory_holds K p bs" and "2 \<le> length bs" and "p \<noteq> 0"
  shows "run_state (read_sockaddr K e p) s =
     run_state (let family = u16_at bs 0; e = e\<lparr>addr_family := family\<rparr> in
       if family = 2 then read_user_local K 16 p \<bind> (\<lambda>(rc, bs).
            if rc = 0 then return (True, e\<lparr>ev_ip := s_addr (decode_sockaddr_in bs),
                ev_port := bswap16 (sin_port (decode_sockaddr_in bs)), is_valid := True\<rparr>)
            else return (False, e))
       else if family = 10 then read_user_local K 28 p \<bind> (\<lambda>(rc, bs).
            if rc = 0 then address_of_local K \<bind> (\<lambda>q.
              bpf_probe_read_user K 16 (q + 8) (ipv6_addr e) \<bind> (\<lambda>(rc6, v6).
                return (True, e\<lparr>ipv6_addr := v6,
                  ev_port := bswap16 (sin6_port (decode_sockaddr_in6 bs)), is_valid := True\<rparr>)))
            else return (False, e))
       else return (False, e)) (s\<lparr>calls := Suc (Suc (calls s))\<rparr>)"
proof -
  have "u16_at (take 2 bs) 0 = u16_at bs 0" by (simp add: u16_at_def)
  with assms show ?thesis
    by (simp add: read_sockaddr_def run_read_user_local memory_holds_def Let_def case_prod_unfold)
qed

lemma read_sockaddr_inet:
  assumes "memory_holds K p (encode_sockaddr_in a)" and "sin_family a = 2" and "p \<noteq> 0"
  shows "fst (run_state (read_sockaddr K e p) s) =
    (True, e\<lparr>addr_family := 2, ev_ip := s_addr a, ev_port := bswap16 (sin_port a), is_valid := True\<rparr>)"
proof -
  have "u16_at (encode_sockaddr_in a) 0 = 2"
    using assms(2) by (simp add: encode_sockaddr_in_def)
  with assms show ?thesis
    by (simp add: memory_family [OF assms(1)] Let_def run_read_user_local memory_holds_def
        decode_encode_sockaddr_in)
qed

text \<open>For IPv6 the second read takes its source from the program's own stack.\<close>

lemma read_sockaddr_inet6:
  assumes "memory_holds K p bs" and "length bs = 28" and "u16_at bs 0 = 10" and "p \<noteq> 0"
    and "user_reads_only K"
  shows "fst (run_state (read_sockaddr K e p) s) =
    (True, e\<lparr>addr_family := 10, ipv6_addr := replicate 16 0,
       ev_port := bswap16 (u16_at bs 2), is_valid := True\<rparr>)"
  using assms
  by (simp add: memory_family [OF assms(1)] Let_def run_read_user_local memory_holds_def
      address_of_local_def bpf_probe_read_user_def user_reads_only_def decode_sockaddr_in6_def)

text \<open>Every other outcome leaves the record's validity alone and reports failure.\<close>

lemma read_sockaddr_valid:
  "run_state (read_sockaddr K e p) s = ((ok, e'), s') \<Longrightarrow>
   is_valid e' = (if ok then True else is_valid e)"
  by (auto simp: read_sockaddr_def run_read_user_local address_of_local_def
      bpf_probe_read_user_def Let_def split: if_splits prod.splits)

subsection \<open>What a whole program does: the logging contract\<close>

text \<open>Whether the policy selects the event: entry programs test the snapshot's event id, exit
  programs the context's.\<close>

definition selected :: "kernel \<Rightarrow> bool \<Rightarrow> s32 \<Rightarrow> tstate \<Rightarrow> bool" where
  "selected K enter ev s =
     should_log (syscall_array s) (activation_ns K)
       (if enter \<and> cur_task K = None then 0 else ev)"

text \<open>A record of this activation with sequence number \<open>c\<close>.\<close>

definition record_of :: "kernel \<Rightarrow> bool \<Rightarrow> s32 \<Rightarrow> u64 \<Rightarrow> event_t \<Rightarrow> bool" where
  "record_of K enter ev c e \<longleftrightarrow>
     is_enter e = enter \<and> (\<exists>ts. ev_task e = (task_snapshot K ev ts)\<lparr>ct_count := c\<rparr>)"

text \<open>
  The contract: nothing is reserved and kept, the policy is not written, and either no record is
  added and no number is used (always so when the event is not selected, otherwise only if the
  ring buffer refused), or exactly one record is, with the next number.
\<close>

definition logged :: "kernel \<Rightarrow> bool \<Rightarrow> s32 \<Rightarrow> tstate \<Rightarrow> tstate \<Rightarrow> bool" where
  "logged K enter ev s s' \<longleftrightarrow>
     outstanding s' = outstanding s \<and> syscall_array s' = syscall_array s \<and>
     (rb s' = rb s \<and> count s' = count s \<and>
        (selected K enter ev s \<longrightarrow> (\<exists>n. rb_reserve K n = None))
      \<or> selected K enter ev s \<and> count s' = count s + 1 \<and>
        (\<exists>e. rb s' = rb s @ [e] \<and> record_of K enter ev (count s') e))"

text \<open>A program that keeps the contract, returns 0 and changes the argument maps by \<open>A\<close>.\<close>

definition probe :: "kernel \<Rightarrow> bool \<Rightarrow> s32 \<Rightarrow> (args_maps \<Rightarrow> args_maps \<Rightarrow> bool) \<Rightarrow> int prog \<Rightarrow> bool" where
  "probe K enter ev A m \<longleftrightarrow>
     runs (\<lambda>s x s'. x = 0 \<and> logged K enter ev s s' \<and> A (amaps s) (amaps s')) m"

text \<open>The parts of a program between reservation and submission.\<close>

definition quiet :: "'a prog \<Rightarrow> bool" where
  "quiet m \<longleftrightarrow> runs (\<lambda>s _ s'. \<exists>n. s' = s\<lparr>calls := n\<rparr>) m"

definition keeps :: "('a \<Rightarrow> event_t) \<Rightarrow> current_task \<Rightarrow> bool \<Rightarrow> 'a prog \<Rightarrow> bool" where
  "keeps ev t b m \<longleftrightarrow>
     runs (\<lambda>s x s'. (\<exists>n. s' = s\<lparr>calls := n\<rparr>) \<and> ev_task (ev x) = t \<and> is_enter (ev x) = b) m"

definition emits :: "current_task \<Rightarrow> bool \<Rightarrow> tstate \<Rightarrow> tstate \<Rightarrow> bool" where
  "emits t b s s' \<longleftrightarrow>
     (\<exists>n e. s' = s\<lparr>calls := n, rb := rb s @ [e], outstanding := outstanding s - 1\<rparr> \<and>
        ev_task e = t \<and> is_enter e = b)"

definition submits :: "current_task \<Rightarrow> bool \<Rightarrow> 'a prog \<Rightarrow> bool" where
  "submits t b m \<longleftrightarrow> runs (\<lambda>s _ s'. emits t b s s') m"

end
