(* ===== verification/Trace_Rules.thy ===== *)
theory Trace_Rules
  imports Trace_Core
begin

section \<open>Tracepoint monitor: rules for the logging contract\<close>

text \<open>
  One introduction rule per construct of the programs, for each of the predicates \<open>quiet\<close> (no
  effect but helper calls), \<open>keeps\<close> (returns a record of the same task and direction),
  \<open>submits\<close> (ends by submitting exactly one such record) and \<open>probe\<close> (the contract of a whole
  program).  A program's contract is then proved by applying the rules along its text.
\<close>

subsection \<open>quiet\<close>

lemma calls_self [simp]: "s\<lparr>calls := calls s\<rparr> = (s :: tstate)"
  by (cases s) simp

lemma some_calls: "\<exists>n. (s :: tstate) = s\<lparr>calls := n\<rparr>"
  by (rule exI [of _ "calls s"]) simp

lemma quiet_return: "quiet (return x)"
  by (simp add: quiet_def runs_def some_calls)

lemma quiet_gets: "quiet (gets f)"
  by (simp add: quiet_def runs_def some_calls)

lemma quiet_next_call: "quiet next_call"
  by (auto simp: quiet_def runs_def)

lemma quiet_bind: "quiet m \<Longrightarrow> (\<And>x. quiet (f x)) \<Longrightarrow> quiet (m \<bind> f)"
  unfolding quiet_def
  by (erule runs_bind [where B = "\<lambda>_ s _ s'. \<exists>n. s' = s\<lparr>calls := n\<rparr>"]) auto

lemmas quiet_rules = quiet_return quiet_gets quiet_next_call quiet_bind

lemma quiet_helpers:
  "quiet (bpf_probe_read_user K sz p d)" "quiet (bpf_probe_read_user_str K sz p d)"
  "quiet (bpf_probe_read K sz p d)" "quiet (read_user_local K sz p)"
  "quiet (uninit_local K sz)" "quiet (address_of_local K)"
  "quiet (map_lookup sel key)"
  unfolding bpf_probe_read_user_def bpf_probe_read_user_str_def bpf_probe_read_def
    read_user_local_def uninit_local_def address_of_local_def map_lookup_def
  by (intro quiet_rules)+

subsection \<open>keeps\<close>

lemma keeps_return: "ev_task (ev x) = t \<Longrightarrow> is_enter (ev x) = b \<Longrightarrow> keeps ev t b (return x)"
  by (simp add: keeps_def runs_def some_calls)

lemma keeps_bind_quiet: "quiet m \<Longrightarrow> (\<And>x. keeps ev t b (f x)) \<Longrightarrow> keeps ev t b (m \<bind> f)"
  unfolding quiet_def keeps_def
  by (erule runs_bind [where B = "\<lambda>_ s x s'. (\<exists>n. s' = s\<lparr>calls := n\<rparr>) \<and>
        ev_task (ev x) = t \<and> is_enter (ev x) = b"]) auto

lemma keeps_bind_event:
  assumes m: "keeps id t b m"
    and f: "\<And>e. ev_task e = t \<Longrightarrow> is_enter e = b \<Longrightarrow> keeps ev t b (f e)"
  shows "keeps ev t b (m \<bind> f)"
  unfolding keeps_def
proof (rule runsI)
  fix s y s2
  assume run: "run_state (m \<bind> f) s = (y, s2)"
  obtain e s1 where e: "run_state m s = (e, s1)" by (cases "run_state m s")
  with run have y: "run_state (f e) s1 = (y, s2)" by simp
  from runsD [OF m [unfolded keeps_def] e] obtain n
    where s1: "s1 = s\<lparr>calls := n\<rparr>" and "ev_task e = t" and "is_enter e = b" by auto
  then have "keeps ev t b (f e)" by (simp add: f)
  from runsD [OF this [unfolded keeps_def] y] s1
  show "(\<exists>n. s2 = s\<lparr>calls := n\<rparr>) \<and> ev_task (ev y) = t \<and> is_enter (ev y) = b" by auto
qed

lemma keeps_if: "(c \<Longrightarrow> keeps ev t b m1) \<Longrightarrow> (\<not> c \<Longrightarrow> keeps ev t b m2) \<Longrightarrow>
    keeps ev t b (if c then m1 else m2)"
  by simp

lemma keeps_option: "keeps ev t b m \<Longrightarrow> (\<And>x. keeps ev t b (f x)) \<Longrightarrow>
    keeps ev t b (case r of None \<Rightarrow> m | Some x \<Rightarrow> f x)"
  by (simp split: option.split)

lemma keeps_prod: "(\<And>x y. keeps ev t b (f x y)) \<Longrightarrow> keeps ev t b (case p of (x, y) \<Rightarrow> f x y)"
  by (simp split: prod.split)

lemma keeps_read_sockaddr:
  "ev_task e = t \<Longrightarrow> is_enter e = b \<Longrightarrow> keeps snd t b (read_sockaddr K e p)"
  unfolding read_sockaddr_def Let_def
  by (rule keeps_if keeps_return keeps_bind_quiet keeps_prod quiet_helpers | simp)+

lemma keeps_bind_pair:
  assumes m: "keeps snd t b m"
    and f: "\<And>x e. ev_task e = t \<Longrightarrow> is_enter e = b \<Longrightarrow> keeps ev t b (f x e)"
  shows "keeps ev t b (m \<bind> (\<lambda>(x, e). f x e))"
proof -
  have "keeps ev t b (m \<bind> (\<lambda>p. f (fst p) (snd p)))"
    unfolding keeps_def
  proof (rule runsI)
    fix s y s2
    assume run: "run_state (m \<bind> (\<lambda>p. f (fst p) (snd p))) s = (y, s2)"
    obtain x e s1 where e: "run_state m s = ((x, e), s1)" by (metis prod.exhaust)
    with run have y: "run_state (f x e) s1 = (y, s2)" by simp
    from runsD [OF m [unfolded keeps_def] e] obtain n
      where s1: "s1 = s\<lparr>calls := n\<rparr>" and "ev_task e = t" and "is_enter e = b" by auto
    then have "keeps ev t b (f x e)" by (simp add: f)
    from runsD [OF this [unfolded keeps_def] y] s1
    show "(\<exists>n. s2 = s\<lparr>calls := n\<rparr>) \<and> ev_task (ev y) = t \<and> is_enter (ev y) = b" by auto
  qed
  then show ?thesis by (simp add: case_prod_unfold)
qed

lemmas keeps_rules = keeps_bind_event keeps_bind_pair keeps_bind_quiet keeps_return keeps_if
  keeps_option keeps_prod keeps_read_sockaddr

subsection \<open>submits\<close>

lemma emits_calls: "emits t b (s\<lparr>calls := n\<rparr>) s' \<Longrightarrow> emits t b s s'"
  unfolding emits_def by (elim exE conjE) (rule exI, rule exI, simp)

lemma emits_submit:
  "ev_task e = t \<Longrightarrow> is_enter e = b \<Longrightarrow>
   emits t b s (s\<lparr>rb := rb s @ [e], outstanding := outstanding s - 1\<rparr>)"
  unfolding emits_def by (rule exI [of _ "calls s"], rule exI [of _ e]) (cases s, simp)

lemma submits_submit:
  "ev_task e = t \<Longrightarrow> is_enter e = b \<Longrightarrow> submits t b (bpf_ringbuf_submit e)"
  by (simp add: submits_def runs_def bpf_ringbuf_submit_def emits_submit [simplified])

lemma submits_bind_quiet:
  assumes m: "quiet m" and f: "\<And>x. submits t b (f x)"
  shows "submits t b (m \<bind> f)"
  unfolding submits_def
  by (rule runs_bind [OF m [unfolded quiet_def] f [unfolded submits_def]])
    (auto dest: emits_calls)

lemma submits_bind_event:
  assumes m: "keeps id t b m"
    and f: "\<And>e. ev_task e = t \<Longrightarrow> is_enter e = b \<Longrightarrow> submits t b (f e)"
  shows "submits t b (m \<bind> f)"
  unfolding submits_def
proof (rule runsI)
  fix s y s2
  assume run: "run_state (m \<bind> f) s = (y, s2)"
  obtain e s1 where e: "run_state m s = (e, s1)" by (cases "run_state m s")
  with run have y: "run_state (f e) s1 = (y, s2)" by simp
  from runsD [OF m [unfolded keeps_def] e] obtain n
    where s1: "s1 = s\<lparr>calls := n\<rparr>" and "ev_task e = t" and "is_enter e = b" by auto
  then have "submits t b (f e)" by (simp add: f)
  from runsD [OF this [unfolded submits_def] y] s1
  show "emits t b s s2" by (auto dest: emits_calls)
qed

lemma submits_bind_pair:
  assumes m: "keeps snd t b m"
    and f: "\<And>x e. ev_task e = t \<Longrightarrow> is_enter e = b \<Longrightarrow> submits t b (f x e)"
  shows "submits t b (m \<bind> (\<lambda>(x, e). f x e))"
  unfolding submits_def
proof (rule runsI)
  fix s y s2
  assume run: "run_state (m \<bind> (\<lambda>(x, e). f x e)) s = (y, s2)"
  obtain x e s1 where e: "run_state m s = ((x, e), s1)" by (metis prod.exhaust)
  with run have y: "run_state (f x e) s1 = (y, s2)" by simp
  from runsD [OF m [unfolded keeps_def] e] obtain n
    where s1: "s1 = s\<lparr>calls := n\<rparr>" and "ev_task e = t" and "is_enter e = b" by auto
  then have "submits t b (f x e)" by (simp add: f)
  from runsD [OF this [unfolded submits_def] y] s1
  show "emits t b s s2" by (auto dest: emits_calls)
qed

text \<open>A program body that returns 0 after its submission: the zero result is found separately,
  so the rules above serve both forms.\<close>

definition zero_result :: "int prog \<Rightarrow> bool" where
  "zero_result m \<longleftrightarrow> runs (\<lambda>_ x _. x = 0) m"

lemma submits_return: "submits t b m \<Longrightarrow> submits t b (m \<bind> (\<lambda>_. return 0))"
  unfolding submits_def by (erule runs_bind [where B = "\<lambda>_ s _ s'. s' = s"]) (simp_all add: runs_def)

lemma zero_result_return: "zero_result (return 0)"
  by (simp add: zero_result_def runs_def)

lemma zero_result_bind: "(\<And>x. zero_result (f x)) \<Longrightarrow> zero_result (m \<bind> f)"
  by (auto simp: zero_result_def runs_def split: prod.split)

lemma zero_result_prod: "(\<And>x y. zero_result (f x y)) \<Longrightarrow> zero_result (case p of (x, y) \<Rightarrow> f x y)"
  by (simp split: prod.split)

lemma zero_result_if: "zero_result m1 \<Longrightarrow> zero_result m2 \<Longrightarrow> zero_result (if c then m1 else m2)"
  by simp

lemmas zero_rules = zero_result_return zero_result_prod zero_result_if zero_result_bind

lemma submits_if: "(c \<Longrightarrow> submits t b m1) \<Longrightarrow> (\<not> c \<Longrightarrow> submits t b m2) \<Longrightarrow>
    submits t b (if c then m1 else m2)"
  by simp

lemma submits_prod: "(\<And>x y. submits t b (f x y)) \<Longrightarrow> submits t b (case p of (x, y) \<Rightarrow> f x y)"
  by (simp split: prod.split)

lemmas submits_rules = submits_submit submits_return submits_bind_event submits_bind_pair
  submits_bind_quiet submits_if submits_prod

subsection \<open>Whole programs\<close>

lemma run_handle_enter_event:
  "run_state (handle_enter_event K ev) s =
     (if \<not> selected K True ev s then (None, s\<lparr>calls := Suc (calls s)\<rparr>)
      else case rb_reserve K (Suc (calls s)) of
        None \<Rightarrow> (None, s\<lparr>calls := Suc (Suc (calls s))\<rparr>)
      | Some e \<Rightarrow>
         (Some (e\<lparr>ev_task := (task_snapshot K ev (ktime_ns K (calls s)))\<lparr>ct_count := count s + 1\<rparr>,
                  is_enter := True\<rparr>),
          s\<lparr>calls := Suc (Suc (calls s)), outstanding := Suc (outstanding s), count := count s + 1\<rparr>))"
  by (simp add: handle_enter_event_def selected_def snapshot_event_id split: option.split)

lemma run_handle_exit_event:
  "run_state (handle_exit_event K ev) s =
     (if \<not> selected K False ev s then (None, s\<lparr>calls := Suc (calls s)\<rparr>)
      else case rb_reserve K (Suc (calls s)) of
        None \<Rightarrow> (None, s\<lparr>calls := Suc (Suc (calls s))\<rparr>)
      | Some e \<Rightarrow>
         (Some (e\<lparr>ev_task := (task_snapshot K ev (ktime_ns K (calls s)))\<lparr>ct_count := count s + 1\<rparr>,
                  is_enter := False\<rparr>),
          s\<lparr>calls := Suc (Suc (calls s)), outstanding := Suc (outstanding s), count := count s + 1\<rparr>))"
  by (simp add: handle_exit_event_def selected_def split: option.split)

lemma selected_cong:
  "syscall_array s' = syscall_array s \<Longrightarrow> selected K b ev s' = selected K b ev s"
  by (simp add: selected_def)

text \<open>The reservation followed by a body: the contract of the part that logs.\<close>

definition logs :: "kernel \<Rightarrow> bool \<Rightarrow> s32 \<Rightarrow> 'a prog \<Rightarrow> bool" where
  "logs K enter ev m \<longleftrightarrow> runs (\<lambda>s _ s'. logged K enter ev s s' \<and> amaps s' = amaps s) m"

definition reserves :: "kernel \<Rightarrow> bool \<Rightarrow> s32 \<Rightarrow> event_t option prog \<Rightarrow> bool" where
  "reserves K b ev m \<longleftrightarrow> runs (\<lambda>s r s'. case r of
      None \<Rightarrow> (\<exists>n. s' = s\<lparr>calls := n\<rparr>) \<and> (selected K b ev s \<longrightarrow> (\<exists>n. rb_reserve K n = None))
    | Some e \<Rightarrow> selected K b ev s \<and> record_of K b ev (count s + 1) e \<and>
        (\<exists>n. s' = s\<lparr>calls := n, outstanding := Suc (outstanding s), count := count s + 1\<rparr>)) m"

lemma reserves_handle_enter: "reserves K True ev (handle_enter_event K ev)"
  unfolding reserves_def
  by (rule runsI) (auto simp: run_handle_enter_event record_of_def split: if_splits option.splits)

lemma reserves_handle_exit: "reserves K False ev (handle_exit_event K ev)"
  unfolding reserves_def
  by (rule runsI) (auto simp: run_handle_exit_event record_of_def split: if_splits option.splits)

lemma reserves_then_submits:
  assumes r: "reserves K b ev m"
    and f: "\<And>e. is_enter e = b \<Longrightarrow> submits (ev_task e) b (f e)"
  shows "logs K b ev (m \<bind> (\<lambda>r. case r of None \<Rightarrow> return x | Some e \<Rightarrow> f e))"
  unfolding logs_def
proof (rule runsI)
  fix s y s2
  let ?g = "\<lambda>r. case r of None \<Rightarrow> return x | Some e \<Rightarrow> f e"
  assume run: "run_state (m \<bind> ?g) s = (y, s2)"
  obtain r s1 where m: "run_state m s = (r, s1)" by (cases "run_state m s")
  note R = runsD [OF r [unfolded reserves_def] m]
  show "logged K b ev s s2 \<and> amaps s2 = amaps s"
  proof (cases r)
    case None
    with run m R show ?thesis by (auto simp: logged_def)
  next
    case (Some e)
    with R obtain n where sel: "selected K b ev s" and rec: "record_of K b ev (count s + 1) e"
      and s1: "s1 = s\<lparr>calls := n, outstanding := Suc (outstanding s), count := count s + 1\<rparr>"
      by auto
    from rec have "is_enter e = b" by (simp add: record_of_def)
    then have "submits (ev_task e) b (f e)" by (rule f)
    moreover from run m Some have "run_state (f e) s1 = (y, s2)" by simp
    ultimately have "emits (ev_task e) b s1 s2"
      by (auto simp: submits_def dest: runsD)
    then obtain n' e' where s2: "s2 = s1\<lparr>calls := n', rb := rb s1 @ [e'],
        outstanding := outstanding s1 - 1\<rparr>" and e': "ev_task e' = ev_task e" "is_enter e' = b"
      by (auto simp: emits_def)
    from rec e' have "record_of K b ev (count s + 1) e'" by (simp add: record_of_def)
    with sel s1 s2 show ?thesis by (auto simp: logged_def)
  qed
qed

lemma zero_result_reserve:
  "(\<And>e. zero_result (f e)) \<Longrightarrow>
   zero_result (m \<bind> (\<lambda>r. case r of None \<Rightarrow> return 0 | Some e \<Rightarrow> f e))"
  by (rule zero_result_bind) (simp add: zero_result_return split: option.split)

text \<open>
  What the argument maps see.  A storing entry program updates its map at the key of its
  activation before the event is filtered; a cleanup exit program deletes after the submission,
  on every path.
\<close>

definition stored ::
  "(((map_key, 'v) hmap \<Rightarrow> (map_key, 'v) hmap) \<Rightarrow> args_maps \<Rightarrow> args_maps) \<Rightarrow> map_key \<Rightarrow> 'v \<Rightarrow>
   args_maps \<Rightarrow> args_maps \<Rightarrow> bool" where
  "stored upd key v a a' \<longleftrightarrow> a' = upd (\<lambda>m. snd (bpf_map_update_elem args_max_entries key v m)) a"

definition dropped ::
  "(((map_key, 'v) hmap \<Rightarrow> (map_key, 'v) hmap) \<Rightarrow> args_maps \<Rightarrow> args_maps) \<Rightarrow> map_key \<Rightarrow>
   args_maps \<Rightarrow> args_maps \<Rightarrow> bool" where
  "dropped upd key a a' \<longleftrightarrow> a' = upd (\<lambda>m. snd (bpf_map_delete_elem key m)) a"

definition unchanged :: "args_maps \<Rightarrow> args_maps \<Rightarrow> bool" where
  "unchanged a a' \<longleftrightarrow> a' = a"

text \<open>The key that \<open>task_bytes_as_key\<close> reads from a fresh snapshot: the low half of the time.\<close>

definition stray_key :: "u64 \<Rightarrow> map_key" where
  "stray_key ts = \<lparr>key_pid = 0, key_tid = 0, key_pid_namespace = ucast ts\<rparr>"

type_synonym enter_program = "kernel \<Rightarrow> sys_enter_ctx \<Rightarrow> int prog"
type_synonym exit_program = "kernel \<Rightarrow> sys_exit_ctx \<Rightarrow> int prog"
type_synonym enter_effect = "kernel \<Rightarrow> sys_enter_ctx \<Rightarrow> args_maps \<Rightarrow> args_maps \<Rightarrow> bool"
type_synonym exit_effect = "kernel \<Rightarrow> sys_exit_ctx \<Rightarrow> args_maps \<Rightarrow> args_maps \<Rightarrow> bool"

lemma probeI:
  "logs K b ev m \<Longrightarrow> zero_result m \<Longrightarrow> probe K b ev unchanged m"
  by (auto simp: probe_def logs_def zero_result_def runs_def unchanged_def)

lemma probe_plain_enter:
  assumes "\<And>e. is_enter e \<Longrightarrow> submits (ev_task e) True (f e)" and "\<And>e. zero_result (f e)"
  shows "probe K True ev unchanged
    (handle_enter_event K ev \<bind> (\<lambda>r. case r of None \<Rightarrow> return 0 | Some e \<Rightarrow> f e))"
  by (intro probeI reserves_then_submits reserves_handle_enter zero_result_reserve)
    (simp_all add: assms)

lemma probe_plain_exit:
  assumes "\<And>e. \<not> is_enter e \<Longrightarrow> submits (ev_task e) False (f e)" and "\<And>e. zero_result (f e)"
  shows "probe K False ev unchanged
    (handle_exit_event K ev \<bind> (\<lambda>r. case r of None \<Rightarrow> return 0 | Some e \<Rightarrow> f e))"
  by (intro probeI reserves_then_submits reserves_handle_exit zero_result_reserve)
    (simp_all add: assms)

lemma logged_calls: "logged K b ev (s\<lparr>calls := n\<rparr>) s' = logged K b ev s s'"
  by (simp add: logged_def selected_def)

lemma logged_amaps: "logged K b ev (amaps_update f s) s' = logged K b ev s s'"
  by (simp add: logged_def selected_def)

lemma logged_amaps': "logged K b ev s (amaps_update f s') = logged K b ev s s'"
  by (simp add: logged_def selected_def)

lemma probe_storing:
  assumes "probe K True ev unchanged m"
  shows "probe K True ev (stored upd (activation_key K) v)
    (get_task_struct K ev \<bind> (\<lambda>ct. map_update upd (get_map_key ct) v \<bind> (\<lambda>_. m)))"
  unfolding probe_def
proof (rule runsI)
  fix s x s'
  assume run: "run_state (get_task_struct K ev \<bind>
      (\<lambda>ct. map_update upd (get_map_key ct) v \<bind> (\<lambda>_. m))) s = (x, s')"
  let ?f = "upd (\<lambda>m. snd (bpf_map_update_elem args_max_entries (activation_key K) v m))"
  from run have "run_state m (amaps_update ?f (s\<lparr>calls := Suc (calls s)\<rparr>)) = (x, s')"
    by (simp add: map_update_def)
  from runsD [OF assms [unfolded probe_def] this]
  show "x = 0 \<and> logged K True ev s s' \<and> stored upd (activation_key K) v (amaps s) (amaps s')"
    by (simp add: logged_amaps logged_calls stored_def unchanged_def)
qed

lemma probe_cleanup:
  assumes f: "\<And>ct e. \<not> is_enter e \<Longrightarrow> submits (ev_task e) False (f ct e)"
  shows "probe K False ev (\<lambda>a a'. \<exists>ts. dropped upd (g (task_snapshot K ev ts)) a a')
    (get_task_struct K ev \<bind> (\<lambda>ct. handle_exit_event K ev \<bind> (\<lambda>r.
       (case r of None \<Rightarrow> return () | Some e \<Rightarrow> f ct e) \<bind> (\<lambda>_.
       map_delete upd (g ct) \<bind> (\<lambda>_. return 0)))))"
  unfolding probe_def
proof (rule runsI)
  let ?body = "\<lambda>ct r. case r of None \<Rightarrow> return () | Some e \<Rightarrow> f ct e"
  fix s x s'
  assume run: "run_state (get_task_struct K ev \<bind> (\<lambda>ct. handle_exit_event K ev \<bind> (\<lambda>r.
       ?body ct r \<bind> (\<lambda>_. map_delete upd (g ct) \<bind> (\<lambda>_. return 0))))) s = (x, s')"
  define ct where "ct = task_snapshot K ev (ktime_ns K (calls s))"
  have logs: "logs K False ev (handle_exit_event K ev \<bind> ?body ct)"
    by (rule reserves_then_submits [OF reserves_handle_exit]) (simp add: f)
  obtain y s1 where mid: "run_state (handle_exit_event K ev \<bind> ?body ct)
      (s\<lparr>calls := Suc (calls s)\<rparr>) = (y, s1)"
    by (cases "run_state (handle_exit_event K ev \<bind> ?body ct) (s\<lparr>calls := Suc (calls s)\<rparr>)")
  with run have "x = 0" and s': "s' = amaps_update (upd (\<lambda>m. snd (bpf_map_delete_elem (g ct) m))) s1"
    by (auto simp: map_delete_def ct_def [symmetric] split: prod.splits)
  with runsD [OF logs [unfolded logs_def] mid]
  show "x = 0 \<and> logged K False ev s s' \<and>
      (\<exists>ts. dropped upd (g (task_snapshot K ev ts)) (amaps s) (amaps s'))"
    by (auto simp: logged_amaps' logged_calls dropped_def ct_def)
qed

lemma probe_cleanup_key:
  assumes "\<And>ct e. \<not> is_enter e \<Longrightarrow> submits (ev_task e) False (f ct e)"
  shows "probe K False ev (dropped upd (activation_key K))
    (get_task_struct K ev \<bind> (\<lambda>ct. handle_exit_event K ev \<bind> (\<lambda>r.
       (case r of None \<Rightarrow> return () | Some e \<Rightarrow> f ct e) \<bind> (\<lambda>_.
       map_delete upd (get_map_key ct) \<bind> (\<lambda>_. return 0)))))"
  using probe_cleanup [where g = get_map_key and f = f, OF assms] by simp

lemma probe_cleanup_stray:
  assumes "\<And>ct e. \<not> is_enter e \<Longrightarrow> submits (ev_task e) False (f ct e)"
  shows "probe K False ev (\<lambda>a a'. \<exists>ts. dropped upd (stray_key ts) a a')
    (get_task_struct K ev \<bind> (\<lambda>ct. handle_exit_event K ev \<bind> (\<lambda>r.
       (case r of None \<Rightarrow> return () | Some e \<Rightarrow> f ct e) \<bind> (\<lambda>_.
       map_delete upd (task_bytes_as_key ct) \<bind> (\<lambda>_. return 0)))))"
  using probe_cleanup [where g = task_bytes_as_key and f = f, OF assms] by (simp add: stray_key_def)

end
