(* ===== verification/Trace_Net.thy ===== *)
theory Trace_Net
  imports Trace_Rules
begin

section \<open>Tracepoint programs: sockets, host names, ioctl and close\<close>

text \<open>
  The programs of \<open>src/src/tracepoint/tracepoint.bpf.c\<close>, lines 147 to 956, one definition
  each under the program's own name, in the order of the source.  The tables at the end pair the
  system call of the attach point with its program, split by what the program does to the
  argument maps; the lemmas after them prove the logging contract of each table.
\<close>

definition trace_sys_enter_socket :: "kernel \<Rightarrow> sys_enter_ctx \<Rightarrow> int prog" where
  "trace_sys_enter_socket K ctx = do {
     r \<leftarrow> handle_enter_event K (ucast (enter_id ctx));
     case r of
       None \<Rightarrow> return 0
     | Some e \<Rightarrow> do {
         let e = set_s32 0 (ucast (args ctx 0)) e;
         let e = set_s32 1 (ucast (args ctx 1)) e;
         let e = set_s32 2 (ucast (args ctx 2)) e;
         bpf_ringbuf_submit e;
         return 0
       }
   }"

definition trace_sys_exit_socket :: "kernel \<Rightarrow> sys_exit_ctx \<Rightarrow> int prog" where
  "trace_sys_exit_socket K ctx = do {
     r \<leftarrow> handle_exit_event K (ucast (exit_id ctx));
     case r of
       None \<Rightarrow> return 0
     | Some e \<Rightarrow> do {
         let e = e\<lparr>ev_ret := exit_ret ctx\<rparr>;
         bpf_ringbuf_submit e;
         return 0
       }
   }"

definition trace_sys_enter_socketpair :: "kernel \<Rightarrow> sys_enter_ctx \<Rightarrow> int prog" where
  "trace_sys_enter_socketpair K ctx = do {
     ct \<leftarrow> get_task_struct K (ucast (enter_id ctx));
     let key = get_map_key ct;
     let sv_ptr = args ctx 3;
     map_update socketpair_args_map_update key sv_ptr;
     r \<leftarrow> handle_enter_event K (ucast (enter_id ctx));
     case r of
       None \<Rightarrow> return 0
     | Some e \<Rightarrow> do {
         let e = set_s32 0 (ucast (args ctx 0)) e;
         let e = set_s32 1 (ucast (args ctx 1)) e;
         let e = set_s32 2 (ucast (args ctx 2)) e;
         bpf_ringbuf_submit e;
         return 0
       }
   }"

definition trace_sys_exit_socketpair :: "kernel \<Rightarrow> sys_exit_ctx \<Rightarrow> int prog" where
  "trace_sys_exit_socketpair K ctx = do {
     let ret = exit_ret ctx;
     ct \<leftarrow> get_task_struct K (ucast (exit_id ctx));
     let key = get_map_key ct;
     r \<leftarrow> handle_exit_event K (ucast (exit_id ctx));
     (case r of
       None \<Rightarrow> return ()
     | Some e \<Rightarrow> do {
         let e = e\<lparr>ev_ret := ret\<rparr>;
         let e = set_s32 0 (- 1) e;
         let e = set_s32 1 (- 1) e;
         let e = e\<lparr>is_valid := False\<rparr>;
         e \<leftarrow> (if nonneg ret then do {
             sv_ptr \<leftarrow> map_lookup socketpair_args_map key;
             case sv_ptr of
               None \<Rightarrow> return e
             | Some p \<Rightarrow> do {
                 (rc, sv) \<leftarrow> read_user_local K 8 p;
                 if rc = 0 then do {
                   let e = set_s32 0 (u32_at sv 0) e;
                   let e = set_s32 1 (u32_at sv 4) e;
                   return (e\<lparr>is_valid := True\<rparr>)
                 } else return e
               }
           } else return e);
         bpf_ringbuf_submit e
       });
     map_delete socketpair_args_map_update (task_bytes_as_key ct);
     return 0
   }"

definition trace_sys_enter_setsockopt :: "kernel \<Rightarrow> sys_enter_ctx \<Rightarrow> int prog" where
  "trace_sys_enter_setsockopt K ctx = do {
     r \<leftarrow> handle_enter_event K (ucast (enter_id ctx));
     case r of
       None \<Rightarrow> return 0
     | Some e \<Rightarrow> do {
         let e = set_s32 0 (ucast (args ctx 0)) e;
         let e = set_s32 1 (ucast (args ctx 1)) e;
         let e = set_s32 2 (ucast (args ctx 2)) e;
         let e = set_s32 3 (ucast (args ctx 4)) e;
         let e = e\<lparr>is_valid := False\<rparr>;
         let optval_ptr = args ctx 3;
         e \<leftarrow> (if optval_ptr \<noteq> 0 then do {
             (rc, optval) \<leftarrow> read_user_local K 4 optval_ptr;
             if rc = 0 then do {
               let e = set_u32 0 (u32_at optval 0) e;
               return (e\<lparr>is_valid := True\<rparr>)
             } else return e
           } else return e);
         bpf_ringbuf_submit e;
         return 0
       }
   }"

definition trace_sys_exit_setsockopt :: "kernel \<Rightarrow> sys_exit_ctx \<Rightarrow> int prog" where
  "trace_sys_exit_setsockopt K ctx = do {
     r \<leftarrow> handle_exit_event K (ucast (exit_id ctx));
     case r of
       None \<Rightarrow> return 0
     | Some e \<Rightarrow> do {
         let e = e\<lparr>ev_ret := exit_ret ctx\<rparr>;
         bpf_ringbuf_submit e;
         return 0
       }
   }"

definition trace_sys_enter_getsockopt :: "kernel \<Rightarrow> sys_enter_ctx \<Rightarrow> int prog" where
  "trace_sys_enter_getsockopt K ctx = do {
     ct \<leftarrow> get_task_struct K (ucast (enter_id ctx));
     let key = get_map_key ct;
     map_update getsockopt_args_map_update key \<lparr>optval_ptr = args ctx 3, optlen_ptr = args ctx 4\<rparr>;
     r \<leftarrow> handle_enter_event K (ucast (enter_id ctx));
     case r of
       None \<Rightarrow> return 0
     | Some e \<Rightarrow> do {
         let e = set_s32 0 (ucast (args ctx 0)) e;
         let e = set_s32 1 (ucast (args ctx 1)) e;
         let e = set_s32 2 (ucast (args ctx 2)) e;
         bpf_ringbuf_submit e;
         return 0
       }
   }"

definition trace_sys_exit_getsockopt :: "kernel \<Rightarrow> sys_exit_ctx \<Rightarrow> int prog" where
  "trace_sys_exit_getsockopt K ctx = do {
     let ret = exit_ret ctx;
     ct \<leftarrow> get_task_struct K (ucast (exit_id ctx));
     let key = get_map_key ct;
     r \<leftarrow> handle_exit_event K (ucast (exit_id ctx));
     (case r of
       None \<Rightarrow> return ()
     | Some e \<Rightarrow> do {
         let e = e\<lparr>ev_ret := ret\<rparr>;
         let e = e\<lparr>is_valid := False\<rparr>;
         e \<leftarrow> (if nonneg ret then do {
             stored \<leftarrow> map_lookup getsockopt_args_map key;
             case stored of
               None \<Rightarrow> return e
             | Some sa \<Rightarrow> do {
                 (rc, bs) \<leftarrow> read_user_local K 4 (optlen_ptr sa);
                 if rc = 0 then do {
                   let optlen = u32_at bs 0;
                   let e = set_u32 1 optlen e;
                   if optlen \<le> 4 then do {
                     (rc, v) \<leftarrow> bpf_probe_read_user K (unat optlen) (optval_ptr sa)
                                   (take (unat optlen) (bytes32 (arg_u32 e 0)));
                     let e = set_u32 0 (le_word (v @ drop (unat optlen) (bytes32 (arg_u32 e 0)))) e;
                     if rc = 0 then return (e\<lparr>is_valid := True\<rparr>) else return e
                   } else return e
                 } else return e
               }
           } else return e);
         bpf_ringbuf_submit e
       });
     map_delete getsockopt_args_map_update key;
     return 0
   }"

definition trace_sys_enter_getsockname :: "kernel \<Rightarrow> sys_enter_ctx \<Rightarrow> int prog" where
  "trace_sys_enter_getsockname K ctx = do {
     ct \<leftarrow> get_task_struct K (ucast (enter_id ctx));
     let key = get_map_key ct;
     map_update getsockname_args_map_update key \<lparr>addr_ptr = args ctx 1, addrlen_ptr = args ctx 2\<rparr>;
     r \<leftarrow> handle_enter_event K (ucast (enter_id ctx));
     case r of
       None \<Rightarrow> return 0
     | Some e \<Rightarrow> do {
         let e = set_s32 0 (ucast (args ctx 0)) e;
         bpf_ringbuf_submit e;
         return 0
       }
   }"

definition trace_sys_exit_getsockname :: "kernel \<Rightarrow> sys_exit_ctx \<Rightarrow> int prog" where
  "trace_sys_exit_getsockname K ctx = do {
     let ret = exit_ret ctx;
     ct \<leftarrow> get_task_struct K (ucast (exit_id ctx));
     let key = get_map_key ct;
     r \<leftarrow> handle_exit_event K (ucast (exit_id ctx));
     (case r of
       None \<Rightarrow> return ()
     | Some e \<Rightarrow> do {
         let e = e\<lparr>ev_ret := ret\<rparr>;
         let e = init_socket_fields e;
         e \<leftarrow> (if nonneg ret then do {
             stored \<leftarrow> map_lookup getsockname_args_map key;
             case stored of
               None \<Rightarrow> return e
             | Some sa \<Rightarrow>
                 if addr_ptr sa \<noteq> 0 then do {
                   (ok, e) \<leftarrow> read_sockaddr K e (addr_ptr sa);
                   return e
                 } else return e
           } else return e);
         bpf_ringbuf_submit e
       });
     map_delete getsockname_args_map_update key;
     return 0
   }"

definition trace_sys_enter_getpeername :: "kernel \<Rightarrow> sys_enter_ctx \<Rightarrow> int prog" where
  "trace_sys_enter_getpeername K ctx = do {
     ct \<leftarrow> get_task_struct K (ucast (enter_id ctx));
     let key = get_map_key ct;
     map_update getpeername_args_map_update key \<lparr>addr_ptr = args ctx 1, addrlen_ptr = args ctx 2\<rparr>;
     r \<leftarrow> handle_enter_event K (ucast (enter_id ctx));
     case r of
       None \<Rightarrow> return 0
     | Some e \<Rightarrow> do {
         let e = set_s32 0 (ucast (args ctx 0)) e;
         bpf_ringbuf_submit e;
         return 0
       }
   }"

definition trace_sys_exit_getpeername :: "kernel \<Rightarrow> sys_exit_ctx \<Rightarrow> int prog" where
  "trace_sys_exit_getpeername K ctx = do {
     let ret = exit_ret ctx;
     ct \<leftarrow> get_task_struct K (ucast (exit_id ctx));
     let key = get_map_key ct;
     r \<leftarrow> handle_exit_event K (ucast (exit_id ctx));
     (case r of
       None \<Rightarrow> return ()
     | Some e \<Rightarrow> do {
         let e = e\<lparr>ev_ret := ret\<rparr>;
         let e = init_socket_fields e;
         e \<leftarrow> (if nonneg ret then do {
             stored \<leftarrow> map_lookup getpeername_args_map key;
             case stored of
               None \<Rightarrow> return e
             | Some sa \<Rightarrow>
                 if addr_ptr sa \<noteq> 0 then do {
                   (ok, e) \<leftarrow> read_sockaddr K e (addr_ptr sa);
                   return e
                 } else return e
           } else return e);
         bpf_ringbuf_submit e
       });
     map_delete getpeername_args_map_update key;
     return 0
   }"

definition trace_sys_enter_bind :: "kernel \<Rightarrow> sys_enter_ctx \<Rightarrow> int prog" where
  "trace_sys_enter_bind K ctx = do {
     r \<leftarrow> handle_enter_event K (ucast (enter_id ctx));
     case r of
       None \<Rightarrow> return 0
     | Some e \<Rightarrow> do {
         let e = set_s32 0 (ucast (args ctx 0)) e;
         let e = init_socket_fields e;
         let sockaddr_ptr = args ctx 1;
         (ok, e) \<leftarrow> read_sockaddr K e sockaddr_ptr;
         bpf_ringbuf_submit e;
         return 0
       }
   }"

definition trace_sys_exit_bind :: "kernel \<Rightarrow> sys_exit_ctx \<Rightarrow> int prog" where
  "trace_sys_exit_bind K ctx = do {
     r \<leftarrow> handle_exit_event K (ucast (exit_id ctx));
     case r of
       None \<Rightarrow> return 0
     | Some e \<Rightarrow> do {
         let e = e\<lparr>ev_ret := exit_ret ctx\<rparr>;
         bpf_ringbuf_submit e;
         return 0
       }
   }"

definition trace_sys_enter_listen :: "kernel \<Rightarrow> sys_enter_ctx \<Rightarrow> int prog" where
  "trace_sys_enter_listen K ctx = do {
     r \<leftarrow> handle_enter_event K (ucast (enter_id ctx));
     case r of
       None \<Rightarrow> return 0
     | Some e \<Rightarrow> do {
         let e = set_s32 0 (ucast (args ctx 0)) e;
         let e = set_s32 1 (ucast (args ctx 1)) e;
         bpf_ringbuf_submit e;
         return 0
       }
   }"

definition trace_sys_exit_listen :: "kernel \<Rightarrow> sys_exit_ctx \<Rightarrow> int prog" where
  "trace_sys_exit_listen K ctx = do {
     r \<leftarrow> handle_exit_event K (ucast (exit_id ctx));
     case r of
       None \<Rightarrow> return 0
     | Some e \<Rightarrow> do {
         let e = e\<lparr>ev_ret := exit_ret ctx\<rparr>;
         bpf_ringbuf_submit e;
         return 0
       }
   }"

definition trace_sys_enter_accept :: "kernel \<Rightarrow> sys_enter_ctx \<Rightarrow> int prog" where
  "trace_sys_enter_accept K ctx = do {
     ct \<leftarrow> get_task_struct K (ucast (enter_id ctx));
     let key = get_map_key ct;
     map_update accept_args_map_update key \<lparr>addr_ptr = args ctx 1, addrlen_ptr = args ctx 2\<rparr>;
     r \<leftarrow> handle_enter_event K (ucast (enter_id ctx));
     case r of
       None \<Rightarrow> return 0
     | Some e \<Rightarrow> do {
         let e = set_s32 0 (ucast (args ctx 0)) e;
         bpf_ringbuf_submit e;
         return 0
       }
   }"

definition trace_sys_exit_accept :: "kernel \<Rightarrow> sys_exit_ctx \<Rightarrow> int prog" where
  "trace_sys_exit_accept K ctx = do {
     let ret = exit_ret ctx;
     ct \<leftarrow> get_task_struct K (ucast (exit_id ctx));
     let key = get_map_key ct;
     r \<leftarrow> handle_exit_event K (ucast (exit_id ctx));
     (case r of
       None \<Rightarrow> return ()
     | Some e \<Rightarrow> do {
         let e = e\<lparr>ev_ret := ret\<rparr>;
         let e = init_socket_fields e;
         e \<leftarrow> (if nonneg ret then do {
             stored \<leftarrow> map_lookup accept_args_map key;
             case stored of
               None \<Rightarrow> return (e\<lparr>is_null := True\<rparr>)
             | Some sa \<Rightarrow>
                 if addr_ptr sa \<noteq> 0 then do {
                   (ok, e) \<leftarrow> read_sockaddr K e (addr_ptr sa);
                   return e
                 } else return (e\<lparr>is_null := True\<rparr>)
           } else return e);
         bpf_ringbuf_submit e
       });
     map_delete accept_args_map_update key;
     return 0
   }"

definition trace_sys_enter_accept4 :: "kernel \<Rightarrow> sys_enter_ctx \<Rightarrow> int prog" where
  "trace_sys_enter_accept4 K ctx = do {
     ct \<leftarrow> get_task_struct K (ucast (enter_id ctx));
     let key = get_map_key ct;
     map_update accept4_args_map_update key \<lparr>addr_ptr = args ctx 1, addrlen_ptr = args ctx 2\<rparr>;
     r \<leftarrow> handle_enter_event K (ucast (enter_id ctx));
     case r of
       None \<Rightarrow> return 0
     | Some e \<Rightarrow> do {
         let e = set_s32 0 (ucast (args ctx 0)) e;
         let e = set_s32 1 (ucast (args ctx 3)) e;
         bpf_ringbuf_submit e;
         return 0
       }
   }"

definition trace_sys_exit_accept4 :: "kernel \<Rightarrow> sys_exit_ctx \<Rightarrow> int prog" where
  "trace_sys_exit_accept4 K ctx = do {
     let ret = exit_ret ctx;
     ct \<leftarrow> get_task_struct K (ucast (exit_id ctx));
     let key = get_map_key ct;
     r \<leftarrow> handle_exit_event K (ucast (exit_id ctx));
     (case r of
       None \<Rightarrow> return ()
     | Some e \<Rightarrow> do {
         let e = e\<lparr>ev_ret := ret\<rparr>;
         let e = init_socket_fields e;
         e \<leftarrow> (if nonneg ret then do {
             stored \<leftarrow> map_lookup accept4_args_map key;
             case stored of
               None \<Rightarrow> return (e\<lparr>is_null := True\<rparr>)
             | Some sa \<Rightarrow>
                 if addr_ptr sa \<noteq> 0 then do {
                   (ok, e) \<leftarrow> read_sockaddr K e (addr_ptr sa);
                   return e
                 } else return (e\<lparr>is_null := True\<rparr>)
           } else return e);
         bpf_ringbuf_submit e
       });
     map_delete accept_args_map_update key;
     return 0
   }"

definition trace_sys_enter_connect :: "kernel \<Rightarrow> sys_enter_ctx \<Rightarrow> int prog" where
  "trace_sys_enter_connect K ctx = do {
     r \<leftarrow> handle_enter_event K (ucast (enter_id ctx));
     case r of
       None \<Rightarrow> return 0
     | Some e \<Rightarrow> do {
         let e = set_s32 0 (ucast (args ctx 0)) e;
         let e = init_socket_fields e;
         let sockaddr_ptr = args ctx 1;
         (ok, e) \<leftarrow> read_sockaddr K e sockaddr_ptr;
         bpf_ringbuf_submit e;
         return 0
       }
   }"

definition trace_sys_exit_connect :: "kernel \<Rightarrow> sys_exit_ctx \<Rightarrow> int prog" where
  "trace_sys_exit_connect K ctx = do {
     r \<leftarrow> handle_exit_event K (ucast (exit_id ctx));
     case r of
       None \<Rightarrow> return 0
     | Some e \<Rightarrow> do {
         let e = e\<lparr>ev_ret := exit_ret ctx\<rparr>;
         bpf_ringbuf_submit e;
         return 0
       }
   }"

definition trace_sys_enter_shutdown :: "kernel \<Rightarrow> sys_enter_ctx \<Rightarrow> int prog" where
  "trace_sys_enter_shutdown K ctx = do {
     r \<leftarrow> handle_enter_event K (ucast (enter_id ctx));
     case r of
       None \<Rightarrow> return 0
     | Some e \<Rightarrow> do {
         let e = set_s32 0 (ucast (args ctx 0)) e;
         let e = set_s32 1 (ucast (args ctx 1)) e;
         bpf_ringbuf_submit e;
         return 0
       }
   }"

definition trace_sys_exit_shutdown :: "kernel \<Rightarrow> sys_exit_ctx \<Rightarrow> int prog" where
  "trace_sys_exit_shutdown K ctx = do {
     r \<leftarrow> handle_exit_event K (ucast (exit_id ctx));
     case r of
       None \<Rightarrow> return 0
     | Some e \<Rightarrow> do {
         let e = e\<lparr>ev_ret := exit_ret ctx\<rparr>;
         bpf_ringbuf_submit e;
         return 0
       }
   }"

definition trace_sys_enter_recvfrom :: "kernel \<Rightarrow> sys_enter_ctx \<Rightarrow> int prog" where
  "trace_sys_enter_recvfrom K ctx = do {
     ct \<leftarrow> get_task_struct K (ucast (enter_id ctx));
     let key = get_map_key ct;
     map_update recvfrom_args_map_update key \<lparr>addr_ptr = args ctx 4, addrlen_ptr = args ctx 5\<rparr>;
     r \<leftarrow> handle_enter_event K (ucast (enter_id ctx));
     case r of
       None \<Rightarrow> return 0
     | Some e \<Rightarrow> do {
         let e = set_s32 0 (ucast (args ctx 0)) e;
         let e = set_u64 0 (args ctx 2) e;
         let e = set_s32 1 (ucast (args ctx 3)) e;
         bpf_ringbuf_submit e;
         return 0
       }
   }"

definition trace_sys_exit_recvfrom :: "kernel \<Rightarrow> sys_exit_ctx \<Rightarrow> int prog" where
  "trace_sys_exit_recvfrom K ctx = do {
     let ret = exit_ret ctx;
     ct \<leftarrow> get_task_struct K (ucast (exit_id ctx));
     let key = get_map_key ct;
     r \<leftarrow> handle_exit_event K (ucast (exit_id ctx));
     (case r of
       None \<Rightarrow> return ()
     | Some e \<Rightarrow> do {
         let e = e\<lparr>ev_ret := ret\<rparr>;
         let e = init_socket_fields e;
         e \<leftarrow> (if nonneg ret then do {
             stored \<leftarrow> map_lookup recvfrom_args_map key;
             case stored of
               None \<Rightarrow> return (e\<lparr>is_null := True\<rparr>)
             | Some sa \<Rightarrow>
                 if addr_ptr sa \<noteq> 0 then do {
                   (ok, e) \<leftarrow> read_sockaddr K e (addr_ptr sa);
                   return e
                 } else return (e\<lparr>is_null := True\<rparr>)
           } else return e);
         bpf_ringbuf_submit e
       });
     map_delete recvfrom_args_map_update key;
     return 0
   }"

definition trace_sys_enter_recvmsg :: "kernel \<Rightarrow> sys_enter_ctx \<Rightarrow> int prog" where
  "trace_sys_enter_recvmsg K ctx = do {
     ct \<leftarrow> get_task_struct K (ucast (enter_id ctx));
     let key = get_map_key ct;
     let msg_ptr = args ctx 1;
     map_update recvmsg_args_map_update key msg_ptr;
     r \<leftarrow> handle_enter_event K (ucast (enter_id ctx));
     case r of
       None \<Rightarrow> return 0
     | Some e \<Rightarrow> do {
         let e = set_s32 0 (ucast (args ctx 0)) e;
         let e = set_s32 1 (ucast (args ctx 2)) e;
         bpf_ringbuf_submit e;
         return 0
       }
   }"

definition trace_sys_exit_recvmsg :: "kernel \<Rightarrow> sys_exit_ctx \<Rightarrow> int prog" where
  "trace_sys_exit_recvmsg K ctx = do {
     let ret = exit_ret ctx;
     ct \<leftarrow> get_task_struct K (ucast (exit_id ctx));
     let key = get_map_key ct;
     r \<leftarrow> handle_exit_event K (ucast (exit_id ctx));
     (case r of
       None \<Rightarrow> return ()
     | Some e \<Rightarrow> do {
         let e = e\<lparr>ev_ret := ret\<rparr>;
         let e = init_socket_fields e;
         e \<leftarrow> (if nonneg ret then do {
             msg_ptr \<leftarrow> map_lookup recvmsg_args_map key;
             case msg_ptr of
               None \<Rightarrow> return e
             | Some p \<Rightarrow> do {
                 (rc, msg) \<leftarrow> read_user_local K 104 p;
                 if rc = 0 then do {
                   (ok, e) \<leftarrow> read_sockaddr K e (msg_name msg);
                   return e
                 } else return e
               }
           } else return e);
         bpf_ringbuf_submit e
       });
     map_delete recvmsg_args_map_update key;
     return 0
   }"

definition trace_sys_enter_recvmmsg :: "kernel \<Rightarrow> sys_enter_ctx \<Rightarrow> int prog" where
  "trace_sys_enter_recvmmsg K ctx = do {
     r \<leftarrow> handle_enter_event K (ucast (enter_id ctx));
     case r of
       None \<Rightarrow> return 0
     | Some e \<Rightarrow> do {
         let e = set_s32 0 (ucast (args ctx 0)) e;
         let e = set_u32 0 (ucast (args ctx 2)) e;
         let e = set_s32 1 (ucast (args ctx 3)) e;
         bpf_ringbuf_submit e;
         return 0
       }
   }"

definition trace_sys_exit_recvmmsg :: "kernel \<Rightarrow> sys_exit_ctx \<Rightarrow> int prog" where
  "trace_sys_exit_recvmmsg K ctx = do {
     r \<leftarrow> handle_exit_event K (ucast (exit_id ctx));
     case r of
       None \<Rightarrow> return 0
     | Some e \<Rightarrow> do {
         let e = e\<lparr>ev_ret := exit_ret ctx\<rparr>;
         bpf_ringbuf_submit e;
         return 0
       }
   }"

definition trace_sys_enter_sendto :: "kernel \<Rightarrow> sys_enter_ctx \<Rightarrow> int prog" where
  "trace_sys_enter_sendto K ctx = do {
     r \<leftarrow> handle_enter_event K (ucast (enter_id ctx));
     case r of
       None \<Rightarrow> return 0
     | Some e \<Rightarrow> do {
         let e = set_s32 0 (ucast (args ctx 0)) e;
         let e = set_u64 0 (args ctx 2) e;
         let e = set_s32 1 (ucast (args ctx 3)) e;
         let e = init_socket_fields e;
         let dest_addr_ptr = args ctx 4;
         (ok, e) \<leftarrow> read_sockaddr K e dest_addr_ptr;
         bpf_ringbuf_submit e;
         return 0
       }
   }"

definition trace_sys_exit_sendto :: "kernel \<Rightarrow> sys_exit_ctx \<Rightarrow> int prog" where
  "trace_sys_exit_sendto K ctx = do {
     r \<leftarrow> handle_exit_event K (ucast (exit_id ctx));
     case r of
       None \<Rightarrow> return 0
     | Some e \<Rightarrow> do {
         let e = e\<lparr>ev_ret := exit_ret ctx\<rparr>;
         bpf_ringbuf_submit e;
         return 0
       }
   }"

definition trace_sys_enter_sendmsg :: "kernel \<Rightarrow> sys_enter_ctx \<Rightarrow> int prog" where
  "trace_sys_enter_sendmsg K ctx = do {
     r \<leftarrow> handle_enter_event K (ucast (enter_id ctx));
     case r of
       None \<Rightarrow> return 0
     | Some e \<Rightarrow> do {
         let e = set_s32 0 (ucast (args ctx 0)) e;
         let e = set_s32 1 (ucast (args ctx 2)) e;
         let e = init_socket_fields e;
         let msg_ptr = args ctx 1;
         e \<leftarrow> (if msg_ptr \<noteq> 0 then do {
             (rc, msg) \<leftarrow> read_user_local K 104 msg_ptr;
             if rc \<noteq> 0 then return e
             else do {
               (ok, e) \<leftarrow> read_sockaddr K e (msg_name msg);
               return e
             }
           } else return e);
         bpf_ringbuf_submit e;
         return 0
       }
   }"

definition trace_sys_exit_sendmsg :: "kernel \<Rightarrow> sys_exit_ctx \<Rightarrow> int prog" where
  "trace_sys_exit_sendmsg K ctx = do {
     r \<leftarrow> handle_exit_event K (ucast (exit_id ctx));
     case r of
       None \<Rightarrow> return 0
     | Some e \<Rightarrow> do {
         let e = e\<lparr>ev_ret := exit_ret ctx\<rparr>;
         let ret = exit_ret ctx;
         bpf_ringbuf_submit e;
         return 0
       }
   }"

definition trace_sys_enter_sendmmsg :: "kernel \<Rightarrow> sys_enter_ctx \<Rightarrow> int prog" where
  "trace_sys_enter_sendmmsg K ctx = do {
     r \<leftarrow> handle_enter_event K (ucast (enter_id ctx));
     case r of
       None \<Rightarrow> return 0
     | Some e \<Rightarrow> do {
         let e = set_s32 0 (ucast (args ctx 0)) e;
         let e = set_u32 0 (ucast (args ctx 2)) e;
         let e = set_s32 1 (ucast (args ctx 3)) e;
         bpf_ringbuf_submit e;
         return 0
       }
   }"

definition trace_sys_exit_sendmmsg :: "kernel \<Rightarrow> sys_exit_ctx \<Rightarrow> int prog" where
  "trace_sys_exit_sendmmsg K ctx = do {
     r \<leftarrow> handle_exit_event K (ucast (exit_id ctx));
     case r of
       None \<Rightarrow> return 0
     | Some e \<Rightarrow> do {
         let e = e\<lparr>ev_ret := exit_ret ctx\<rparr>;
         bpf_ringbuf_submit e;
         return 0
       }
   }"

definition trace_sys_enter_sethostname :: "kernel \<Rightarrow> sys_enter_ctx \<Rightarrow> int prog" where
  "trace_sys_enter_sethostname K ctx = do {
     r \<leftarrow> handle_enter_event K (ucast (enter_id ctx));
     case r of
       None \<Rightarrow> return 0
     | Some e \<Rightarrow> do {
         let e = set_u64 0 (args ctx 1) e;
         let e = e\<lparr>is_valid := False\<rparr>;
         let name = args ctx 0;
         e \<leftarrow> (if name \<noteq> 0 then do {
             (n, bs) \<leftarrow> bpf_probe_read_user_str K 256 name (arg_str e);
             let e = e\<lparr>arg_str := bs\<rparr>;
             if 0 \<le> n then return (e\<lparr>is_valid := True\<rparr>) else return e
           } else return e);
         bpf_ringbuf_submit e;
         return 0
       }
   }"

definition trace_sys_exit_sethostname :: "kernel \<Rightarrow> sys_exit_ctx \<Rightarrow> int prog" where
  "trace_sys_exit_sethostname K ctx = do {
     r \<leftarrow> handle_exit_event K (ucast (exit_id ctx));
     case r of
       None \<Rightarrow> return 0
     | Some e \<Rightarrow> do {
         let e = e\<lparr>ev_ret := exit_ret ctx\<rparr>;
         bpf_ringbuf_submit e;
         return 0
       }
   }"

definition trace_sys_enter_setdomainname :: "kernel \<Rightarrow> sys_enter_ctx \<Rightarrow> int prog" where
  "trace_sys_enter_setdomainname K ctx = do {
     r \<leftarrow> handle_enter_event K (ucast (enter_id ctx));
     case r of
       None \<Rightarrow> return 0
     | Some e \<Rightarrow> do {
         let e = set_u64 0 (args ctx 1) e;
         let e = e\<lparr>is_valid := False\<rparr>;
         let name = args ctx 0;
         e \<leftarrow> (if name \<noteq> 0 then do {
             (n, bs) \<leftarrow> bpf_probe_read_user_str K 256 name (arg_str e);
             let e = e\<lparr>arg_str := bs\<rparr>;
             if 0 \<le> n then return (e\<lparr>is_valid := True\<rparr>) else return e
           } else return e);
         bpf_ringbuf_submit e;
         return 0
       }
   }"

definition trace_sys_exit_setdomainname :: "kernel \<Rightarrow> sys_exit_ctx \<Rightarrow> int prog" where
  "trace_sys_exit_setdomainname K ctx = do {
     r \<leftarrow> handle_exit_event K (ucast (exit_id ctx));
     case r of
       None \<Rightarrow> return 0
     | Some e \<Rightarrow> do {
         let e = e\<lparr>ev_ret := exit_ret ctx\<rparr>;
         bpf_ringbuf_submit e;
         return 0
       }
   }"

definition trace_sys_enter_ioctl :: "kernel \<Rightarrow> sys_enter_ctx \<Rightarrow> int prog" where
  "trace_sys_enter_ioctl K ctx = do {
     r \<leftarrow> handle_enter_event K (ucast (enter_id ctx));
     case r of
       None \<Rightarrow> return 0
     | Some e \<Rightarrow> do {
         let e = set_s32 0 (ucast (args ctx 0)) e;
         let e = set_u64 0 (args ctx 1) e;
         bpf_ringbuf_submit e;
         return 0
       }
   }"

definition trace_sys_exit_ioctl :: "kernel \<Rightarrow> sys_exit_ctx \<Rightarrow> int prog" where
  "trace_sys_exit_ioctl K ctx = do {
     r \<leftarrow> handle_exit_event K (ucast (exit_id ctx));
     case r of
       None \<Rightarrow> return 0
     | Some e \<Rightarrow> do {
         let e = e\<lparr>ev_ret := exit_ret ctx\<rparr>;
         bpf_ringbuf_submit e;
         return 0
       }
   }"

definition trace_sys_enter_close :: "kernel \<Rightarrow> sys_enter_ctx \<Rightarrow> int prog" where
  "trace_sys_enter_close K ctx = do {
     r \<leftarrow> handle_enter_event K (ucast (enter_id ctx));
     case r of
       None \<Rightarrow> return 0
     | Some e \<Rightarrow> do {
         let e = set_s32 0 (ucast (args ctx 0)) e;
         bpf_ringbuf_submit e;
         return 0
       }
   }"

definition trace_sys_exit_close :: "kernel \<Rightarrow> sys_exit_ctx \<Rightarrow> int prog" where
  "trace_sys_exit_close K ctx = do {
     r \<leftarrow> handle_exit_event K (ucast (exit_id ctx));
     case r of
       None \<Rightarrow> return 0
     | Some e \<Rightarrow> do {
         let e = e\<lparr>ev_ret := exit_ret ctx\<rparr>;
         bpf_ringbuf_submit e;
         return 0
       }
   }"

subsection \<open>Tables\<close>

definition net_plain_enter :: "(string \<times> enter_program) list" where
  "net_plain_enter =
     [(''socket'', trace_sys_enter_socket),
      (''setsockopt'', trace_sys_enter_setsockopt),
      (''bind'', trace_sys_enter_bind),
      (''listen'', trace_sys_enter_listen),
      (''connect'', trace_sys_enter_connect),
      (''shutdown'', trace_sys_enter_shutdown),
      (''recvmmsg'', trace_sys_enter_recvmmsg),
      (''sendto'', trace_sys_enter_sendto),
      (''sendmsg'', trace_sys_enter_sendmsg),
      (''sendmmsg'', trace_sys_enter_sendmmsg),
      (''sethostname'', trace_sys_enter_sethostname),
      (''setdomainname'', trace_sys_enter_setdomainname),
      (''ioctl'', trace_sys_enter_ioctl),
      (''close'', trace_sys_enter_close)]"

definition net_storing_enter :: "(string \<times> enter_program \<times> enter_effect) list" where
  "net_storing_enter =
     [(''socketpair'', trace_sys_enter_socketpair,
       \<lambda>K ctx. stored socketpair_args_map_update (activation_key K) (args ctx 3)),
      (''getsockopt'', trace_sys_enter_getsockopt,
       \<lambda>K ctx. stored getsockopt_args_map_update (activation_key K) \<lparr>optval_ptr = args ctx 3, optlen_ptr = args ctx 4\<rparr>),
      (''getsockname'', trace_sys_enter_getsockname,
       \<lambda>K ctx. stored getsockname_args_map_update (activation_key K) \<lparr>addr_ptr = args ctx 1, addrlen_ptr = args ctx 2\<rparr>),
      (''getpeername'', trace_sys_enter_getpeername,
       \<lambda>K ctx. stored getpeername_args_map_update (activation_key K) \<lparr>addr_ptr = args ctx 1, addrlen_ptr = args ctx 2\<rparr>),
      (''accept'', trace_sys_enter_accept,
       \<lambda>K ctx. stored accept_args_map_update (activation_key K) \<lparr>addr_ptr = args ctx 1, addrlen_ptr = args ctx 2\<rparr>),
      (''accept4'', trace_sys_enter_accept4,
       \<lambda>K ctx. stored accept4_args_map_update (activation_key K) \<lparr>addr_ptr = args ctx 1, addrlen_ptr = args ctx 2\<rparr>),
      (''recvfrom'', trace_sys_enter_recvfrom,
       \<lambda>K ctx. stored recvfrom_args_map_update (activation_key K) \<lparr>addr_ptr = args ctx 4, addrlen_ptr = args ctx 5\<rparr>),
      (''recvmsg'', trace_sys_enter_recvmsg,
       \<lambda>K ctx. stored recvmsg_args_map_update (activation_key K) (args ctx 1))]"

definition net_plain_exit :: "(string \<times> exit_program) list" where
  "net_plain_exit =
     [(''socket'', trace_sys_exit_socket),
      (''setsockopt'', trace_sys_exit_setsockopt),
      (''bind'', trace_sys_exit_bind),
      (''listen'', trace_sys_exit_listen),
      (''connect'', trace_sys_exit_connect),
      (''shutdown'', trace_sys_exit_shutdown),
      (''recvmmsg'', trace_sys_exit_recvmmsg),
      (''sendto'', trace_sys_exit_sendto),
      (''sendmsg'', trace_sys_exit_sendmsg),
      (''sendmmsg'', trace_sys_exit_sendmmsg),
      (''sethostname'', trace_sys_exit_sethostname),
      (''setdomainname'', trace_sys_exit_setdomainname),
      (''ioctl'', trace_sys_exit_ioctl),
      (''close'', trace_sys_exit_close)]"

definition net_cleanup_exit :: "(string \<times> exit_program \<times> exit_effect) list" where
  "net_cleanup_exit =
     [(''socketpair'', trace_sys_exit_socketpair,
       \<lambda>K ctx a a'. \<exists>ts. dropped socketpair_args_map_update (stray_key ts) a a'),
      (''getsockopt'', trace_sys_exit_getsockopt,
       \<lambda>K ctx. dropped getsockopt_args_map_update (activation_key K)),
      (''getsockname'', trace_sys_exit_getsockname,
       \<lambda>K ctx. dropped getsockname_args_map_update (activation_key K)),
      (''getpeername'', trace_sys_exit_getpeername,
       \<lambda>K ctx. dropped getpeername_args_map_update (activation_key K)),
      (''accept'', trace_sys_exit_accept,
       \<lambda>K ctx. dropped accept_args_map_update (activation_key K)),
      (''accept4'', trace_sys_exit_accept4,
       \<lambda>K ctx. dropped accept_args_map_update (activation_key K)),
      (''recvfrom'', trace_sys_exit_recvfrom,
       \<lambda>K ctx. dropped recvfrom_args_map_update (activation_key K)),
      (''recvmsg'', trace_sys_exit_recvmsg,
       \<lambda>K ctx. dropped recvmsg_args_map_update (activation_key K))]"

subsection \<open>The logging contract\<close>

lemmas net_plain_enter_defs =
  trace_sys_enter_socket_def trace_sys_enter_setsockopt_def trace_sys_enter_bind_def
  trace_sys_enter_listen_def trace_sys_enter_connect_def trace_sys_enter_shutdown_def
  trace_sys_enter_recvmmsg_def trace_sys_enter_sendto_def trace_sys_enter_sendmsg_def
  trace_sys_enter_sendmmsg_def trace_sys_enter_sethostname_def
  trace_sys_enter_setdomainname_def trace_sys_enter_ioctl_def trace_sys_enter_close_def

lemma net_plain_enter_probe:
  "list_all (\<lambda>(n, p). \<forall>K ctx. probe K True (ucast (enter_id ctx)) unchanged (p K ctx))
     net_plain_enter"
  unfolding net_plain_enter_def list.pred_inject prod.case
  apply (intro conjI allI TrueI)
  unfolding net_plain_enter_defs Let_def
  by (rule probe_plain_enter submits_rules keeps_rules quiet_helpers zero_rules | (simp; fail))+

lemmas net_storing_enter_defs =
  trace_sys_enter_socketpair_def trace_sys_enter_getsockopt_def trace_sys_enter_getsockname_def
  trace_sys_enter_getpeername_def trace_sys_enter_accept_def trace_sys_enter_accept4_def
  trace_sys_enter_recvfrom_def trace_sys_enter_recvmsg_def

lemma net_storing_enter_probe:
  "list_all (\<lambda>(n, p, A). \<forall>K ctx. probe K True (ucast (enter_id ctx)) (A K ctx) (p K ctx))
     net_storing_enter"
  unfolding net_storing_enter_def list.pred_inject prod.case
  apply (intro conjI allI TrueI)
  unfolding net_storing_enter_defs Let_def
  by (rule probe_storing probe_plain_enter submits_rules keeps_rules quiet_helpers zero_rules | (simp; fail))+

lemmas net_plain_exit_defs =
  trace_sys_exit_socket_def trace_sys_exit_setsockopt_def trace_sys_exit_bind_def
  trace_sys_exit_listen_def trace_sys_exit_connect_def trace_sys_exit_shutdown_def
  trace_sys_exit_recvmmsg_def trace_sys_exit_sendto_def trace_sys_exit_sendmsg_def
  trace_sys_exit_sendmmsg_def trace_sys_exit_sethostname_def trace_sys_exit_setdomainname_def
  trace_sys_exit_ioctl_def trace_sys_exit_close_def

lemma net_plain_exit_probe:
  "list_all (\<lambda>(n, p). \<forall>K ctx. probe K False (ucast (exit_id ctx)) unchanged (p K ctx))
     net_plain_exit"
  unfolding net_plain_exit_def list.pred_inject prod.case
  apply (intro conjI allI TrueI)
  unfolding net_plain_exit_defs Let_def
  by (rule probe_plain_exit submits_rules keeps_rules quiet_helpers zero_rules | (simp; fail))+

lemmas net_cleanup_exit_defs =
  trace_sys_exit_socketpair_def trace_sys_exit_getsockopt_def trace_sys_exit_getsockname_def
  trace_sys_exit_getpeername_def trace_sys_exit_accept_def trace_sys_exit_accept4_def
  trace_sys_exit_recvfrom_def trace_sys_exit_recvmsg_def

lemma net_cleanup_exit_probe:
  "list_all (\<lambda>(n, p, A). \<forall>K ctx. probe K False (ucast (exit_id ctx)) (A K ctx) (p K ctx))
     net_cleanup_exit"
  unfolding net_cleanup_exit_def list.pred_inject prod.case
  apply (intro conjI allI TrueI)
  unfolding net_cleanup_exit_defs Let_def
  by (rule probe_cleanup_key probe_cleanup_stray submits_rules keeps_rules quiet_helpers zero_rules | (simp; fail))+

end
