(* ===== verification/Trace_File.thy ===== *)
theory Trace_File
  imports Trace_Rules
begin

section \<open>Tracepoint programs: opening, naming, linking and inspecting files\<close>

text \<open>
  The programs of \<open>src/src/tracepoint/tracepoint.bpf.c\<close>, lines 958 to 2299, one definition
  each under the program's own name, in the order of the source.  The tables at the end pair the
  system call of the attach point with its program, split by what the program does to the
  argument maps; the lemmas after them prove the logging contract of each table.
\<close>

definition trace_sys_enter_creat :: "kernel \<Rightarrow> sys_enter_ctx \<Rightarrow> int prog" where
  "trace_sys_enter_creat K ctx = do {
     r \<leftarrow> handle_enter_event K (ucast (enter_id ctx));
     case r of
       None \<Rightarrow> return 0
     | Some e \<Rightarrow> do {
         let e = set_u32 0 (ucast (args ctx 1)) e;
         let e = e\<lparr>is_valid := False\<rparr>;
         let pathname_ptr = args ctx 0;
         e \<leftarrow> (if pathname_ptr \<noteq> 0 then do {
             (n, bs) \<leftarrow> bpf_probe_read_user_str K 256 pathname_ptr (arg_str e);
             let e = e\<lparr>arg_str := bs\<rparr>;
             if 0 \<le> n then return (e\<lparr>is_valid := True\<rparr>) else return e
           } else return e);
         bpf_ringbuf_submit e;
         return 0
       }
   }"

definition trace_sys_exit_creat :: "kernel \<Rightarrow> sys_exit_ctx \<Rightarrow> int prog" where
  "trace_sys_exit_creat K ctx = do {
     r \<leftarrow> handle_exit_event K (ucast (exit_id ctx));
     case r of
       None \<Rightarrow> return 0
     | Some e \<Rightarrow> do {
         let e = e\<lparr>ev_ret := exit_ret ctx\<rparr>;
         bpf_ringbuf_submit e;
         return 0
       }
   }"

definition trace_sys_enter_open :: "kernel \<Rightarrow> sys_enter_ctx \<Rightarrow> int prog" where
  "trace_sys_enter_open K ctx = do {
     r \<leftarrow> handle_enter_event K (ucast (enter_id ctx));
     case r of
       None \<Rightarrow> return 0
     | Some e \<Rightarrow> do {
         let e = set_s32 0 (ucast (args ctx 1)) e;
         let e = set_u32 0 (ucast (args ctx 2)) e;
         let e = e\<lparr>is_valid := False\<rparr>;
         let pathname_ptr = args ctx 0;
         e \<leftarrow> (if pathname_ptr \<noteq> 0 then do {
             (n, bs) \<leftarrow> bpf_probe_read_user_str K 256 pathname_ptr (arg_str e);
             let e = e\<lparr>arg_str := bs\<rparr>;
             if 0 \<le> n then return (e\<lparr>is_valid := True\<rparr>) else return e
           } else return e);
         bpf_ringbuf_submit e;
         return 0
       }
   }"

definition trace_sys_exit_open :: "kernel \<Rightarrow> sys_exit_ctx \<Rightarrow> int prog" where
  "trace_sys_exit_open K ctx = do {
     r \<leftarrow> handle_exit_event K (ucast (exit_id ctx));
     case r of
       None \<Rightarrow> return 0
     | Some e \<Rightarrow> do {
         let e = e\<lparr>ev_ret := exit_ret ctx\<rparr>;
         bpf_ringbuf_submit e;
         return 0
       }
   }"

definition trace_sys_enter_openat :: "kernel \<Rightarrow> sys_enter_ctx \<Rightarrow> int prog" where
  "trace_sys_enter_openat K ctx = do {
     r \<leftarrow> handle_enter_event K (ucast (enter_id ctx));
     case r of
       None \<Rightarrow> return 0
     | Some e \<Rightarrow> do {
         let e = set_s32 0 (ucast (args ctx 0)) e;
         let e = set_s32 1 (ucast (args ctx 2)) e;
         let e = set_u32 0 (ucast (args ctx 3)) e;
         let e = e\<lparr>is_valid := False\<rparr>;
         let pathname_ptr = args ctx 1;
         e \<leftarrow> (if pathname_ptr \<noteq> 0 then do {
             (n, bs) \<leftarrow> bpf_probe_read_user_str K 256 pathname_ptr (arg_str e);
             let e = e\<lparr>arg_str := bs\<rparr>;
             if 0 \<le> n then return (e\<lparr>is_valid := True\<rparr>) else return e
           } else return e);
         bpf_ringbuf_submit e;
         return 0
       }
   }"

definition trace_sys_exit_openat :: "kernel \<Rightarrow> sys_exit_ctx \<Rightarrow> int prog" where
  "trace_sys_exit_openat K ctx = do {
     r \<leftarrow> handle_exit_event K (ucast (exit_id ctx));
     case r of
       None \<Rightarrow> return 0
     | Some e \<Rightarrow> do {
         let e = e\<lparr>ev_ret := exit_ret ctx\<rparr>;
         bpf_ringbuf_submit e;
         return 0
       }
   }"

definition trace_sys_enter_openat2 :: "kernel \<Rightarrow> sys_enter_ctx \<Rightarrow> int prog" where
  "trace_sys_enter_openat2 K ctx = do {
     r \<leftarrow> handle_enter_event K (ucast (enter_id ctx));
     case r of
       None \<Rightarrow> return 0
     | Some e \<Rightarrow> do {
         let e = set_s32 0 (ucast (args ctx 0)) e;
         let e = set_u64 0 (args ctx 3) e;
         let e = e\<lparr>is_valid := False\<rparr>;
         let pathname_ptr = args ctx 1;
         let how_ptr = args ctx 2;
         e \<leftarrow> (if pathname_ptr \<noteq> 0 \<and> how_ptr \<noteq> 0 then do {
             (rc, bs) \<leftarrow> read_user_local K 24 how_ptr;
             if rc = 0 then do {
               let how = decode_open_how bs;
               let e = set_u64 1 (how_flags how) e;
               let e = set_u64 2 (how_mode how) e;
               let e = set_u64 3 (how_resolve how) e;
               (n, bs) \<leftarrow> bpf_probe_read_user_str K 256 pathname_ptr (arg_str e);
               let e = e\<lparr>arg_str := bs\<rparr>;
               if 0 \<le> n then return (e\<lparr>is_valid := True\<rparr>) else return e
             } else return e
           } else return e);
         bpf_ringbuf_submit e;
         return 0
       }
   }"

definition trace_sys_exit_openat2 :: "kernel \<Rightarrow> sys_exit_ctx \<Rightarrow> int prog" where
  "trace_sys_exit_openat2 K ctx = do {
     r \<leftarrow> handle_exit_event K (ucast (exit_id ctx));
     case r of
       None \<Rightarrow> return 0
     | Some e \<Rightarrow> do {
         let e = e\<lparr>ev_ret := exit_ret ctx\<rparr>;
         bpf_ringbuf_submit e;
         return 0
       }
   }"

definition trace_sys_enter_name_to_handle_at :: "kernel \<Rightarrow> sys_enter_ctx \<Rightarrow> int prog" where
  "trace_sys_enter_name_to_handle_at K ctx = do {
     r \<leftarrow> handle_enter_event K (ucast (enter_id ctx));
     case r of
       None \<Rightarrow> return 0
     | Some e \<Rightarrow> do {
         let e = set_s32 0 (ucast (args ctx 0)) e;
         let e = set_s32 1 (ucast (args ctx 4)) e;
         let e = e\<lparr>is_valid := False\<rparr>;
         let pathname_ptr = args ctx 1;
         let handle_ptr = args ctx 2;
         let mount_id_ptr = args ctx 3;
         e \<leftarrow> (if pathname_ptr \<noteq> 0 \<and> handle_ptr \<noteq> 0 \<and> mount_id_ptr \<noteq> 0 then do {
             (rc, mount_id) \<leftarrow> read_user_local K 4 mount_id_ptr;
             let e = set_s32 2 (word_of_int rc) e;
             (rc, bs) \<leftarrow> read_user_local K 8 handle_ptr;
             if rc = 0 then do {
               let handle = decode_file_handle bs;
               let e = set_u32 0 (handle_bytes handle) e;
               let e = set_s32 3 (handle_type handle) e;
               (n, bs) \<leftarrow> bpf_probe_read_user_str K 256 pathname_ptr (arg_str e);
               let e = e\<lparr>arg_str := bs\<rparr>;
               if 0 \<le> n then return (e\<lparr>is_valid := True\<rparr>) else return e
             } else return e
           } else return e);
         bpf_ringbuf_submit e;
         return 0
       }
   }"

definition trace_sys_exit_name_to_handle_at :: "kernel \<Rightarrow> sys_exit_ctx \<Rightarrow> int prog" where
  "trace_sys_exit_name_to_handle_at K ctx = do {
     r \<leftarrow> handle_exit_event K (ucast (exit_id ctx));
     case r of
       None \<Rightarrow> return 0
     | Some e \<Rightarrow> do {
         let e = e\<lparr>ev_ret := exit_ret ctx\<rparr>;
         bpf_ringbuf_submit e;
         return 0
       }
   }"

definition trace_sys_enter_open_by_handle_at :: "kernel \<Rightarrow> sys_enter_ctx \<Rightarrow> int prog" where
  "trace_sys_enter_open_by_handle_at K ctx = do {
     r \<leftarrow> handle_enter_event K (ucast (enter_id ctx));
     case r of
       None \<Rightarrow> return 0
     | Some e \<Rightarrow> do {
         let e = set_s32 0 (ucast (args ctx 0)) e;
         let e = set_s32 1 (ucast (args ctx 2)) e;
         let e = e\<lparr>is_valid := False\<rparr>;
         let handle_ptr = args ctx 1;
         e \<leftarrow> (if handle_ptr \<noteq> 0 then do {
             (rc, bs) \<leftarrow> read_user_local K 8 handle_ptr;
             if rc = 0 then do {
               let handle = decode_file_handle bs;
               let e = set_u32 0 (handle_bytes handle) e;
               let e = set_s32 2 (handle_type handle) e;
               return (e\<lparr>is_valid := True\<rparr>)
             } else return e
           } else return e);
         bpf_ringbuf_submit e;
         return 0
       }
   }"

definition trace_sys_exit_open_by_handle_at :: "kernel \<Rightarrow> sys_exit_ctx \<Rightarrow> int prog" where
  "trace_sys_exit_open_by_handle_at K ctx = do {
     r \<leftarrow> handle_exit_event K (ucast (exit_id ctx));
     case r of
       None \<Rightarrow> return 0
     | Some e \<Rightarrow> do {
         let e = e\<lparr>ev_ret := exit_ret ctx\<rparr>;
         bpf_ringbuf_submit e;
         return 0
       }
   }"

definition trace_sys_enter_memfd_create :: "kernel \<Rightarrow> sys_enter_ctx \<Rightarrow> int prog" where
  "trace_sys_enter_memfd_create K ctx = do {
     r \<leftarrow> handle_enter_event K (ucast (enter_id ctx));
     case r of
       None \<Rightarrow> return 0
     | Some e \<Rightarrow> do {
         let e = set_u32 0 (ucast (args ctx 1)) e;
         let e = e\<lparr>is_valid := False\<rparr>;
         let name_ptr = args ctx 0;
         e \<leftarrow> (if name_ptr \<noteq> 0 then do {
             (n, bs) \<leftarrow> bpf_probe_read_user_str K 256 name_ptr (arg_str e);
             let e = e\<lparr>arg_str := bs\<rparr>;
             if 0 \<le> n then return (e\<lparr>is_valid := True\<rparr>) else return e
           } else return e);
         bpf_ringbuf_submit e;
         return 0
       }
   }"

definition trace_sys_exit_memfd_create :: "kernel \<Rightarrow> sys_exit_ctx \<Rightarrow> int prog" where
  "trace_sys_exit_memfd_create K ctx = do {
     r \<leftarrow> handle_exit_event K (ucast (exit_id ctx));
     case r of
       None \<Rightarrow> return 0
     | Some e \<Rightarrow> do {
         let e = e\<lparr>ev_ret := exit_ret ctx\<rparr>;
         bpf_ringbuf_submit e;
         return 0
       }
   }"

definition trace_sys_enter_mknod :: "kernel \<Rightarrow> sys_enter_ctx \<Rightarrow> int prog" where
  "trace_sys_enter_mknod K ctx = do {
     r \<leftarrow> handle_enter_event K (ucast (enter_id ctx));
     case r of
       None \<Rightarrow> return 0
     | Some e \<Rightarrow> do {
         let e = set_u32 0 (ucast (args ctx 1)) e;
         let e = set_u64 0 (args ctx 2) e;
         let e = e\<lparr>is_valid := False\<rparr>;
         let pathname_ptr = args ctx 0;
         e \<leftarrow> (if pathname_ptr \<noteq> 0 then do {
             (n, bs) \<leftarrow> bpf_probe_read_user_str K 256 pathname_ptr (arg_str e);
             let e = e\<lparr>arg_str := bs\<rparr>;
             if 0 \<le> n then return (e\<lparr>is_valid := True\<rparr>) else return e
           } else return e);
         bpf_ringbuf_submit e;
         return 0
       }
   }"

definition trace_sys_exit_mknod :: "kernel \<Rightarrow> sys_exit_ctx \<Rightarrow> int prog" where
  "trace_sys_exit_mknod K ctx = do {
     r \<leftarrow> handle_exit_event K (ucast (exit_id ctx));
     case r of
       None \<Rightarrow> return 0
     | Some e \<Rightarrow> do {
         let e = e\<lparr>ev_ret := exit_ret ctx\<rparr>;
         bpf_ringbuf_submit e;
         return 0
       }
   }"

definition trace_sys_enter_mknodat :: "kernel \<Rightarrow> sys_enter_ctx \<Rightarrow> int prog" where
  "trace_sys_enter_mknodat K ctx = do {
     r \<leftarrow> handle_enter_event K (ucast (enter_id ctx));
     case r of
       None \<Rightarrow> return 0
     | Some e \<Rightarrow> do {
         let e = set_s32 0 (ucast (args ctx 0)) e;
         let e = set_u32 0 (ucast (args ctx 2)) e;
         let e = set_u64 0 (args ctx 3) e;
         let e = e\<lparr>is_valid := False\<rparr>;
         let pathname_ptr = args ctx 1;
         e \<leftarrow> (if pathname_ptr \<noteq> 0 then do {
             (n, bs) \<leftarrow> bpf_probe_read_user_str K 256 pathname_ptr (arg_str e);
             let e = e\<lparr>arg_str := bs\<rparr>;
             if 0 \<le> n then return (e\<lparr>is_valid := True\<rparr>) else return e
           } else return e);
         bpf_ringbuf_submit e;
         return 0
       }
   }"

definition trace_sys_exit_mknodat :: "kernel \<Rightarrow> sys_exit_ctx \<Rightarrow> int prog" where
  "trace_sys_exit_mknodat K ctx = do {
     r \<leftarrow> handle_exit_event K (ucast (exit_id ctx));
     case r of
       None \<Rightarrow> return 0
     | Some e \<Rightarrow> do {
         let e = e\<lparr>ev_ret := exit_ret ctx\<rparr>;
         bpf_ringbuf_submit e;
         return 0
       }
   }"

definition trace_sys_enter_rename :: "kernel \<Rightarrow> sys_enter_ctx \<Rightarrow> int prog" where
  "trace_sys_enter_rename K ctx = do {
     r \<leftarrow> handle_enter_event K (ucast (enter_id ctx));
     case r of
       None \<Rightarrow> return 0
     | Some e \<Rightarrow> do {
         let e = e\<lparr>is_valid := False\<rparr>;
         let oldpath_ptr = args ctx 0;
         let newpath_ptr = args ctx 1;
         e \<leftarrow> (if oldpath_ptr \<noteq> 0 \<and> newpath_ptr \<noteq> 0 then do {
             (n, bs) \<leftarrow> bpf_probe_read_user_str K 256 oldpath_ptr (arg_str e);
             let e = e\<lparr>arg_str := bs\<rparr>;
             if 0 \<le> n then do {
               (n, bs) \<leftarrow> bpf_probe_read_user_str K 256 newpath_ptr (arg_str2 e);
               let e = e\<lparr>arg_str2 := bs\<rparr>;
               if 0 \<le> n then return (e\<lparr>is_valid := True\<rparr>) else return e
             } else return e
           } else return e);
         bpf_ringbuf_submit e;
         return 0
       }
   }"

definition trace_sys_exit_rename :: "kernel \<Rightarrow> sys_exit_ctx \<Rightarrow> int prog" where
  "trace_sys_exit_rename K ctx = do {
     r \<leftarrow> handle_exit_event K (ucast (exit_id ctx));
     case r of
       None \<Rightarrow> return 0
     | Some e \<Rightarrow> do {
         let e = e\<lparr>ev_ret := exit_ret ctx\<rparr>;
         bpf_ringbuf_submit e;
         return 0
       }
   }"

definition trace_sys_enter_renameat :: "kernel \<Rightarrow> sys_enter_ctx \<Rightarrow> int prog" where
  "trace_sys_enter_renameat K ctx = do {
     r \<leftarrow> handle_enter_event K (ucast (enter_id ctx));
     case r of
       None \<Rightarrow> return 0
     | Some e \<Rightarrow> do {
         let e = set_s32 0 (ucast (args ctx 0)) e;
         let e = set_s32 1 (ucast (args ctx 2)) e;
         let e = e\<lparr>is_valid := False\<rparr>;
         let oldpath_ptr = args ctx 1;
         let newpath_ptr = args ctx 3;
         e \<leftarrow> (if oldpath_ptr \<noteq> 0 \<and> newpath_ptr \<noteq> 0 then do {
             (n, bs) \<leftarrow> bpf_probe_read_user_str K 256 oldpath_ptr (arg_str e);
             let e = e\<lparr>arg_str := bs\<rparr>;
             if 0 \<le> n then do {
               (n, bs) \<leftarrow> bpf_probe_read_user_str K 256 newpath_ptr (arg_str2 e);
               let e = e\<lparr>arg_str2 := bs\<rparr>;
               if 0 \<le> n then return (e\<lparr>is_valid := True\<rparr>) else return e
             } else return e
           } else return e);
         bpf_ringbuf_submit e;
         return 0
       }
   }"

definition trace_sys_exit_renameat :: "kernel \<Rightarrow> sys_exit_ctx \<Rightarrow> int prog" where
  "trace_sys_exit_renameat K ctx = do {
     r \<leftarrow> handle_exit_event K (ucast (exit_id ctx));
     case r of
       None \<Rightarrow> return 0
     | Some e \<Rightarrow> do {
         let e = e\<lparr>ev_ret := exit_ret ctx\<rparr>;
         bpf_ringbuf_submit e;
         return 0
       }
   }"

definition trace_sys_enter_renameat2 :: "kernel \<Rightarrow> sys_enter_ctx \<Rightarrow> int prog" where
  "trace_sys_enter_renameat2 K ctx = do {
     r \<leftarrow> handle_enter_event K (ucast (enter_id ctx));
     case r of
       None \<Rightarrow> return 0
     | Some e \<Rightarrow> do {
         let e = set_s32 0 (ucast (args ctx 0)) e;
         let e = set_s32 1 (ucast (args ctx 2)) e;
         let e = set_u32 0 (ucast (args ctx 4)) e;
         let e = e\<lparr>is_valid := False\<rparr>;
         let oldpath_ptr = args ctx 1;
         let newpath_ptr = args ctx 3;
         e \<leftarrow> (if oldpath_ptr \<noteq> 0 \<and> newpath_ptr \<noteq> 0 then do {
             (n, bs) \<leftarrow> bpf_probe_read_user_str K 256 oldpath_ptr (arg_str e);
             let e = e\<lparr>arg_str := bs\<rparr>;
             if 0 \<le> n then do {
               (n, bs) \<leftarrow> bpf_probe_read_user_str K 256 newpath_ptr (arg_str2 e);
               let e = e\<lparr>arg_str2 := bs\<rparr>;
               if 0 \<le> n then return (e\<lparr>is_valid := True\<rparr>) else return e
             } else return e
           } else return e);
         bpf_ringbuf_submit e;
         return 0
       }
   }"

definition trace_sys_exit_renameat2 :: "kernel \<Rightarrow> sys_exit_ctx \<Rightarrow> int prog" where
  "trace_sys_exit_renameat2 K ctx = do {
     r \<leftarrow> handle_exit_event K (ucast (exit_id ctx));
     case r of
       None \<Rightarrow> return 0
     | Some e \<Rightarrow> do {
         let e = e\<lparr>ev_ret := exit_ret ctx\<rparr>;
         bpf_ringbuf_submit e;
         return 0
       }
   }"

definition trace_sys_enter_truncate :: "kernel \<Rightarrow> sys_enter_ctx \<Rightarrow> int prog" where
  "trace_sys_enter_truncate K ctx = do {
     r \<leftarrow> handle_enter_event K (ucast (enter_id ctx));
     case r of
       None \<Rightarrow> return 0
     | Some e \<Rightarrow> do {
         let e = set_u64 0 (args ctx 1) e;
         let e = e\<lparr>is_valid := False\<rparr>;
         let path_ptr = args ctx 0;
         e \<leftarrow> (if path_ptr \<noteq> 0 then do {
             (n, bs) \<leftarrow> bpf_probe_read_user_str K 256 path_ptr (arg_str e);
             let e = e\<lparr>arg_str := bs\<rparr>;
             if 0 \<le> n then return (e\<lparr>is_valid := True\<rparr>) else return e
           } else return e);
         bpf_ringbuf_submit e;
         return 0
       }
   }"

definition trace_sys_exit_truncate :: "kernel \<Rightarrow> sys_exit_ctx \<Rightarrow> int prog" where
  "trace_sys_exit_truncate K ctx = do {
     r \<leftarrow> handle_exit_event K (ucast (exit_id ctx));
     case r of
       None \<Rightarrow> return 0
     | Some e \<Rightarrow> do {
         let e = e\<lparr>ev_ret := exit_ret ctx\<rparr>;
         bpf_ringbuf_submit e;
         return 0
       }
   }"

definition trace_sys_enter_ftruncate :: "kernel \<Rightarrow> sys_enter_ctx \<Rightarrow> int prog" where
  "trace_sys_enter_ftruncate K ctx = do {
     r \<leftarrow> handle_enter_event K (ucast (enter_id ctx));
     case r of
       None \<Rightarrow> return 0
     | Some e \<Rightarrow> do {
         let e = set_s32 0 (ucast (args ctx 0)) e;
         let e = set_u64 0 (args ctx 1) e;
         bpf_ringbuf_submit e;
         return 0
       }
   }"

definition trace_sys_exit_ftruncate :: "kernel \<Rightarrow> sys_exit_ctx \<Rightarrow> int prog" where
  "trace_sys_exit_ftruncate K ctx = do {
     r \<leftarrow> handle_exit_event K (ucast (exit_id ctx));
     case r of
       None \<Rightarrow> return 0
     | Some e \<Rightarrow> do {
         let e = e\<lparr>ev_ret := exit_ret ctx\<rparr>;
         bpf_ringbuf_submit e;
         return 0
       }
   }"

definition trace_sys_enter_fallocate :: "kernel \<Rightarrow> sys_enter_ctx \<Rightarrow> int prog" where
  "trace_sys_enter_fallocate K ctx = do {
     r \<leftarrow> handle_enter_event K (ucast (enter_id ctx));
     case r of
       None \<Rightarrow> return 0
     | Some e \<Rightarrow> do {
         let e = set_s32 0 (ucast (args ctx 0)) e;
         let e = set_s32 1 (ucast (args ctx 1)) e;
         let e = set_u64 0 (args ctx 2) e;
         let e = set_u64 1 (args ctx 3) e;
         bpf_ringbuf_submit e;
         return 0
       }
   }"

definition trace_sys_exit_fallocate :: "kernel \<Rightarrow> sys_exit_ctx \<Rightarrow> int prog" where
  "trace_sys_exit_fallocate K ctx = do {
     r \<leftarrow> handle_exit_event K (ucast (exit_id ctx));
     case r of
       None \<Rightarrow> return 0
     | Some e \<Rightarrow> do {
         let e = e\<lparr>ev_ret := exit_ret ctx\<rparr>;
         bpf_ringbuf_submit e;
         return 0
       }
   }"

definition trace_sys_enter_mkdir :: "kernel \<Rightarrow> sys_enter_ctx \<Rightarrow> int prog" where
  "trace_sys_enter_mkdir K ctx = do {
     r \<leftarrow> handle_enter_event K (ucast (enter_id ctx));
     case r of
       None \<Rightarrow> return 0
     | Some e \<Rightarrow> do {
         let e = set_u32 0 (ucast (args ctx 1)) e;
         let e = e\<lparr>is_valid := False\<rparr>;
         let pathname_ptr = args ctx 0;
         e \<leftarrow> (if pathname_ptr \<noteq> 0 then do {
             (n, bs) \<leftarrow> bpf_probe_read_user_str K 256 pathname_ptr (arg_str e);
             let e = e\<lparr>arg_str := bs\<rparr>;
             if 0 \<le> n then return (e\<lparr>is_valid := True\<rparr>) else return e
           } else return e);
         bpf_ringbuf_submit e;
         return 0
       }
   }"

definition trace_sys_exit_mkdir :: "kernel \<Rightarrow> sys_exit_ctx \<Rightarrow> int prog" where
  "trace_sys_exit_mkdir K ctx = do {
     r \<leftarrow> handle_exit_event K (ucast (exit_id ctx));
     case r of
       None \<Rightarrow> return 0
     | Some e \<Rightarrow> do {
         let e = e\<lparr>ev_ret := exit_ret ctx\<rparr>;
         bpf_ringbuf_submit e;
         return 0
       }
   }"

definition trace_sys_enter_mkdirat :: "kernel \<Rightarrow> sys_enter_ctx \<Rightarrow> int prog" where
  "trace_sys_enter_mkdirat K ctx = do {
     r \<leftarrow> handle_enter_event K (ucast (enter_id ctx));
     case r of
       None \<Rightarrow> return 0
     | Some e \<Rightarrow> do {
         let e = set_s32 0 (ucast (args ctx 0)) e;
         let e = set_u32 0 (ucast (args ctx 2)) e;
         let e = e\<lparr>is_valid := False\<rparr>;
         let pathname_ptr = args ctx 1;
         e \<leftarrow> (if pathname_ptr \<noteq> 0 then do {
             (n, bs) \<leftarrow> bpf_probe_read_user_str K 256 pathname_ptr (arg_str e);
             let e = e\<lparr>arg_str := bs\<rparr>;
             if 0 \<le> n then return (e\<lparr>is_valid := True\<rparr>) else return e
           } else return e);
         bpf_ringbuf_submit e;
         return 0
       }
   }"

definition trace_sys_exit_mkdirat :: "kernel \<Rightarrow> sys_exit_ctx \<Rightarrow> int prog" where
  "trace_sys_exit_mkdirat K ctx = do {
     r \<leftarrow> handle_exit_event K (ucast (exit_id ctx));
     case r of
       None \<Rightarrow> return 0
     | Some e \<Rightarrow> do {
         let e = e\<lparr>ev_ret := exit_ret ctx\<rparr>;
         bpf_ringbuf_submit e;
         return 0
       }
   }"

definition trace_sys_enter_rmdir :: "kernel \<Rightarrow> sys_enter_ctx \<Rightarrow> int prog" where
  "trace_sys_enter_rmdir K ctx = do {
     r \<leftarrow> handle_enter_event K (ucast (enter_id ctx));
     case r of
       None \<Rightarrow> return 0
     | Some e \<Rightarrow> do {
         let pathname_ptr = args ctx 0;
         e \<leftarrow> (if pathname_ptr \<noteq> 0 then do {
             (n, bs) \<leftarrow> bpf_probe_read_user_str K 256 pathname_ptr (arg_str e);
             let e = e\<lparr>arg_str := bs\<rparr>;
             if 0 \<le> n then return (e\<lparr>is_valid := True\<rparr>) else return e
           } else return e);
         bpf_ringbuf_submit e;
         return 0
       }
   }"

definition trace_sys_exit_rmdir :: "kernel \<Rightarrow> sys_exit_ctx \<Rightarrow> int prog" where
  "trace_sys_exit_rmdir K ctx = do {
     r \<leftarrow> handle_exit_event K (ucast (exit_id ctx));
     case r of
       None \<Rightarrow> return 0
     | Some e \<Rightarrow> do {
         let e = e\<lparr>ev_ret := exit_ret ctx\<rparr>;
         bpf_ringbuf_submit e;
         return 0
       }
   }"

definition trace_sys_enter_getcwd :: "kernel \<Rightarrow> sys_enter_ctx \<Rightarrow> int prog" where
  "trace_sys_enter_getcwd K ctx = do {
     r \<leftarrow> handle_enter_event K (ucast (enter_id ctx));
     case r of
       None \<Rightarrow> return 0
     | Some e \<Rightarrow> do {
         let e = set_u64 0 (args ctx 1) e;
         bpf_ringbuf_submit e;
         return 0
       }
   }"

definition trace_sys_exit_getcwd :: "kernel \<Rightarrow> sys_exit_ctx \<Rightarrow> int prog" where
  "trace_sys_exit_getcwd K ctx = do {
     r \<leftarrow> handle_exit_event K (ucast (exit_id ctx));
     case r of
       None \<Rightarrow> return 0
     | Some e \<Rightarrow> do {
         let e = e\<lparr>ev_ret := exit_ret ctx\<rparr>;
         bpf_ringbuf_submit e;
         return 0
       }
   }"

definition trace_sys_enter_chdir :: "kernel \<Rightarrow> sys_enter_ctx \<Rightarrow> int prog" where
  "trace_sys_enter_chdir K ctx = do {
     r \<leftarrow> handle_enter_event K (ucast (enter_id ctx));
     case r of
       None \<Rightarrow> return 0
     | Some e \<Rightarrow> do {
         let e = e\<lparr>is_valid := False\<rparr>;
         let path_ptr = args ctx 0;
         e \<leftarrow> (if path_ptr \<noteq> 0 then do {
             (n, bs) \<leftarrow> bpf_probe_read_user_str K 256 path_ptr (arg_str e);
             let e = e\<lparr>arg_str := bs\<rparr>;
             if 0 \<le> n then return (e\<lparr>is_valid := True\<rparr>) else return e
           } else return e);
         bpf_ringbuf_submit e;
         return 0
       }
   }"

definition trace_sys_exit_chdir :: "kernel \<Rightarrow> sys_exit_ctx \<Rightarrow> int prog" where
  "trace_sys_exit_chdir K ctx = do {
     r \<leftarrow> handle_exit_event K (ucast (exit_id ctx));
     case r of
       None \<Rightarrow> return 0
     | Some e \<Rightarrow> do {
         let e = e\<lparr>ev_ret := exit_ret ctx\<rparr>;
         bpf_ringbuf_submit e;
         return 0
       }
   }"

definition trace_sys_enter_fchdir :: "kernel \<Rightarrow> sys_enter_ctx \<Rightarrow> int prog" where
  "trace_sys_enter_fchdir K ctx = do {
     r \<leftarrow> handle_enter_event K (ucast (enter_id ctx));
     case r of
       None \<Rightarrow> return 0
     | Some e \<Rightarrow> do {
         let e = set_s32 0 (ucast (args ctx 0)) e;
         bpf_ringbuf_submit e;
         return 0
       }
   }"

definition trace_sys_exit_fchdir :: "kernel \<Rightarrow> sys_exit_ctx \<Rightarrow> int prog" where
  "trace_sys_exit_fchdir K ctx = do {
     r \<leftarrow> handle_exit_event K (ucast (exit_id ctx));
     case r of
       None \<Rightarrow> return 0
     | Some e \<Rightarrow> do {
         let e = e\<lparr>ev_ret := exit_ret ctx\<rparr>;
         bpf_ringbuf_submit e;
         return 0
       }
   }"

definition trace_sys_enter_chroot :: "kernel \<Rightarrow> sys_enter_ctx \<Rightarrow> int prog" where
  "trace_sys_enter_chroot K ctx = do {
     r \<leftarrow> handle_enter_event K (ucast (enter_id ctx));
     case r of
       None \<Rightarrow> return 0
     | Some e \<Rightarrow> do {
         let e = e\<lparr>is_valid := False\<rparr>;
         let path_ptr = args ctx 0;
         e \<leftarrow> (if path_ptr \<noteq> 0 then do {
             (n, bs) \<leftarrow> bpf_probe_read_user_str K 256 path_ptr (arg_str e);
             let e = e\<lparr>arg_str := bs\<rparr>;
             if 0 \<le> n then return (e\<lparr>is_valid := True\<rparr>) else return e
           } else return e);
         bpf_ringbuf_submit e;
         return 0
       }
   }"

definition trace_sys_exit_chroot :: "kernel \<Rightarrow> sys_exit_ctx \<Rightarrow> int prog" where
  "trace_sys_exit_chroot K ctx = do {
     r \<leftarrow> handle_exit_event K (ucast (exit_id ctx));
     case r of
       None \<Rightarrow> return 0
     | Some e \<Rightarrow> do {
         let e = e\<lparr>ev_ret := exit_ret ctx\<rparr>;
         bpf_ringbuf_submit e;
         return 0
       }
   }"

definition trace_sys_enter_pivot_root :: "kernel \<Rightarrow> sys_enter_ctx \<Rightarrow> int prog" where
  "trace_sys_enter_pivot_root K ctx = do {
     r \<leftarrow> handle_enter_event K (ucast (enter_id ctx));
     case r of
       None \<Rightarrow> return 0
     | Some e \<Rightarrow> do {
         let e = e\<lparr>is_valid := False\<rparr>;
         let new_root_ptr = args ctx 0;
         let put_old_ptr = args ctx 1;
         e \<leftarrow> (if new_root_ptr \<noteq> 0 \<and> put_old_ptr \<noteq> 0 then do {
             (n, bs) \<leftarrow> bpf_probe_read_user_str K 256 new_root_ptr (arg_str e);
             let e = e\<lparr>arg_str := bs\<rparr>;
             if 0 \<le> n then do {
               (n, bs) \<leftarrow> bpf_probe_read_user_str K 256 put_old_ptr (arg_str2 e);
               let e = e\<lparr>arg_str2 := bs\<rparr>;
               if 0 \<le> n then return (e\<lparr>is_valid := True\<rparr>) else return e
             } else return e
           } else return e);
         bpf_ringbuf_submit e;
         return 0
       }
   }"

definition trace_sys_exit_pivot_root :: "kernel \<Rightarrow> sys_exit_ctx \<Rightarrow> int prog" where
  "trace_sys_exit_pivot_root K ctx = do {
     r \<leftarrow> handle_exit_event K (ucast (exit_id ctx));
     case r of
       None \<Rightarrow> return 0
     | Some e \<Rightarrow> do {
         let e = e\<lparr>ev_ret := exit_ret ctx\<rparr>;
         bpf_ringbuf_submit e;
         return 0
       }
   }"

definition trace_sys_enter_getdents :: "kernel \<Rightarrow> sys_enter_ctx \<Rightarrow> int prog" where
  "trace_sys_enter_getdents K ctx = do {
     ct \<leftarrow> get_task_struct K (ucast (enter_id ctx));
     let key = get_map_key ct;
     let dirents_ptr = args ctx 1;
     map_update getdents_args_map_update key dirents_ptr;
     r \<leftarrow> handle_enter_event K (ucast (enter_id ctx));
     case r of
       None \<Rightarrow> return 0
     | Some e \<Rightarrow> do {
         let e = set_u32 0 (ucast (args ctx 0)) e;
         let e = set_u32 1 (ucast (args ctx 2)) e;
         bpf_ringbuf_submit e;
         return 0
       }
   }"

definition trace_sys_exit_getdents :: "kernel \<Rightarrow> sys_exit_ctx \<Rightarrow> int prog" where
  "trace_sys_exit_getdents K ctx = do {
     let ret = exit_ret ctx;
     ct \<leftarrow> get_task_struct K (ucast (exit_id ctx));
     let key = get_map_key ct;
     r \<leftarrow> handle_exit_event K (ucast (exit_id ctx));
     (case r of
       None \<Rightarrow> return ()
     | Some e \<Rightarrow> do {
         let e = e\<lparr>ev_ret := ret\<rparr>;
         let e = e\<lparr>is_valid := False\<rparr>;
         e \<leftarrow> (if nonneg ret then do {
             dirents_ptr \<leftarrow> map_lookup getdents_args_map key;
             case dirents_ptr of
               None \<Rightarrow> return e
             | Some p \<Rightarrow> do {
                 (rc, dirents) \<leftarrow> read_user_local K 24 p;
                 if rc = 0 then do {
                   let e = set_u64 0 (d_ino dirents) e;
                   return (e\<lparr>is_valid := True\<rparr>)
                 } else return e
               }
           } else return e);
         bpf_ringbuf_submit e
       });
     map_delete getsockopt_args_map_update key;
     return 0
   }"

definition trace_sys_enter_getdents64 :: "kernel \<Rightarrow> sys_enter_ctx \<Rightarrow> int prog" where
  "trace_sys_enter_getdents64 K ctx = do {
     ct \<leftarrow> get_task_struct K (ucast (enter_id ctx));
     let key = get_map_key ct;
     let dirents_ptr = args ctx 1;
     map_update getdents64_args_map_update key dirents_ptr;
     r \<leftarrow> handle_enter_event K (ucast (enter_id ctx));
     case r of
       None \<Rightarrow> return 0
     | Some e \<Rightarrow> do {
         let e = set_s32 0 (ucast (args ctx 0)) e;
         let e = set_u64 0 (args ctx 2) e;
         bpf_ringbuf_submit e;
         return 0
       }
   }"

definition trace_sys_exit_getdents64 :: "kernel \<Rightarrow> sys_exit_ctx \<Rightarrow> int prog" where
  "trace_sys_exit_getdents64 K ctx = do {
     let ret = exit_ret ctx;
     ct \<leftarrow> get_task_struct K (ucast (exit_id ctx));
     let key = get_map_key ct;
     r \<leftarrow> handle_exit_event K (ucast (exit_id ctx));
     (case r of
       None \<Rightarrow> return ()
     | Some e \<Rightarrow> do {
         let e = e\<lparr>ev_ret := ret\<rparr>;
         let e = e\<lparr>is_valid := False\<rparr>;
         e \<leftarrow> (if nonneg ret then do {
             dirents_ptr \<leftarrow> map_lookup getdents64_args_map key;
             case dirents_ptr of
               None \<Rightarrow> return e
             | Some p \<Rightarrow> do {
                 (rc, dirents) \<leftarrow> read_user_local K 24 p;
                 if rc = 0 then do {
                   let e = set_u64 0 (d_ino dirents) e;
                   return (e\<lparr>is_valid := True\<rparr>)
                 } else return e
               }
           } else return e);
         bpf_ringbuf_submit e
       });
     map_delete getsockopt_args_map_update key;
     return 0
   }"

definition trace_sys_enter_link :: "kernel \<Rightarrow> sys_enter_ctx \<Rightarrow> int prog" where
  "trace_sys_enter_link K ctx = do {
     r \<leftarrow> handle_enter_event K (ucast (enter_id ctx));
     case r of
       None \<Rightarrow> return 0
     | Some e \<Rightarrow> do {
         let e = e\<lparr>is_valid := False\<rparr>;
         let oldpath_ptr = args ctx 0;
         let newpath_ptr = args ctx 1;
         e \<leftarrow> (if oldpath_ptr \<noteq> 0 \<and> newpath_ptr \<noteq> 0 then do {
             (n, bs) \<leftarrow> bpf_probe_read_user_str K 256 oldpath_ptr (arg_str e);
             let e = e\<lparr>arg_str := bs\<rparr>;
             if 0 \<le> n then do {
               (n, bs) \<leftarrow> bpf_probe_read_user_str K 256 newpath_ptr (arg_str2 e);
               let e = e\<lparr>arg_str2 := bs\<rparr>;
               if 0 \<le> n then return (e\<lparr>is_valid := True\<rparr>) else return e
             } else return e
           } else return e);
         bpf_ringbuf_submit e;
         return 0
       }
   }"

definition trace_sys_exit_link :: "kernel \<Rightarrow> sys_exit_ctx \<Rightarrow> int prog" where
  "trace_sys_exit_link K ctx = do {
     r \<leftarrow> handle_exit_event K (ucast (exit_id ctx));
     case r of
       None \<Rightarrow> return 0
     | Some e \<Rightarrow> do {
         let e = e\<lparr>ev_ret := exit_ret ctx\<rparr>;
         bpf_ringbuf_submit e;
         return 0
       }
   }"

definition trace_sys_enter_linkat :: "kernel \<Rightarrow> sys_enter_ctx \<Rightarrow> int prog" where
  "trace_sys_enter_linkat K ctx = do {
     r \<leftarrow> handle_enter_event K (ucast (enter_id ctx));
     case r of
       None \<Rightarrow> return 0
     | Some e \<Rightarrow> do {
         let e = set_s32 0 (ucast (args ctx 0)) e;
         let e = set_s32 1 (ucast (args ctx 2)) e;
         let e = set_s32 2 (ucast (args ctx 4)) e;
         let e = e\<lparr>is_valid := False\<rparr>;
         let oldpath_ptr = args ctx 1;
         let newpath_ptr = args ctx 3;
         e \<leftarrow> (if oldpath_ptr \<noteq> 0 \<and> newpath_ptr \<noteq> 0 then do {
             (n, bs) \<leftarrow> bpf_probe_read_user_str K 256 oldpath_ptr (arg_str e);
             let e = e\<lparr>arg_str := bs\<rparr>;
             if 0 \<le> n then do {
               (n, bs) \<leftarrow> bpf_probe_read_user_str K 256 newpath_ptr (arg_str2 e);
               let e = e\<lparr>arg_str2 := bs\<rparr>;
               if 0 \<le> n then return (e\<lparr>is_valid := True\<rparr>) else return e
             } else return e
           } else return e);
         bpf_ringbuf_submit e;
         return 0
       }
   }"

definition trace_sys_exit_linkat :: "kernel \<Rightarrow> sys_exit_ctx \<Rightarrow> int prog" where
  "trace_sys_exit_linkat K ctx = do {
     r \<leftarrow> handle_exit_event K (ucast (exit_id ctx));
     case r of
       None \<Rightarrow> return 0
     | Some e \<Rightarrow> do {
         let e = e\<lparr>ev_ret := exit_ret ctx\<rparr>;
         bpf_ringbuf_submit e;
         return 0
       }
   }"

definition trace_sys_enter_symlink :: "kernel \<Rightarrow> sys_enter_ctx \<Rightarrow> int prog" where
  "trace_sys_enter_symlink K ctx = do {
     r \<leftarrow> handle_enter_event K (ucast (enter_id ctx));
     case r of
       None \<Rightarrow> return 0
     | Some e \<Rightarrow> do {
         let e = e\<lparr>is_valid := False\<rparr>;
         let target_ptr = args ctx 0;
         let linkpath_ptr = args ctx 1;
         e \<leftarrow> (if target_ptr \<noteq> 0 \<and> linkpath_ptr \<noteq> 0 then do {
             (n, bs) \<leftarrow> bpf_probe_read_user_str K 256 target_ptr (arg_str e);
             let e = e\<lparr>arg_str := bs\<rparr>;
             if 0 \<le> n then do {
               (n, bs) \<leftarrow> bpf_probe_read_user_str K 256 linkpath_ptr (arg_str2 e);
               let e = e\<lparr>arg_str2 := bs\<rparr>;
               if 0 \<le> n then return (e\<lparr>is_valid := True\<rparr>) else return e
             } else return e
           } else return e);
         bpf_ringbuf_submit e;
         return 0
       }
   }"

definition trace_sys_exit_symlink :: "kernel \<Rightarrow> sys_exit_ctx \<Rightarrow> int prog" where
  "trace_sys_exit_symlink K ctx = do {
     r \<leftarrow> handle_exit_event K (ucast (exit_id ctx));
     case r of
       None \<Rightarrow> return 0
     | Some e \<Rightarrow> do {
         let e = e\<lparr>ev_ret := exit_ret ctx\<rparr>;
         bpf_ringbuf_submit e;
         return 0
       }
   }"

definition trace_sys_enter_symlinkat :: "kernel \<Rightarrow> sys_enter_ctx \<Rightarrow> int prog" where
  "trace_sys_enter_symlinkat K ctx = do {
     r \<leftarrow> handle_enter_event K (ucast (enter_id ctx));
     case r of
       None \<Rightarrow> return 0
     | Some e \<Rightarrow> do {
         let e = set_s32 0 (ucast (args ctx 1)) e;
         let e = e\<lparr>is_valid := False\<rparr>;
         let target_ptr = args ctx 0;
         let linkpath_ptr = args ctx 2;
         e \<leftarrow> (if target_ptr \<noteq> 0 \<and> linkpath_ptr \<noteq> 0 then do {
             (n, bs) \<leftarrow> bpf_probe_read_user_str K 256 target_ptr (arg_str e);
             let e = e\<lparr>arg_str := bs\<rparr>;
             if 0 \<le> n then do {
               (n, bs) \<leftarrow> bpf_probe_read_user_str K 256 linkpath_ptr (arg_str2 e);
               let e = e\<lparr>arg_str2 := bs\<rparr>;
               if 0 \<le> n then return (e\<lparr>is_valid := True\<rparr>) else return e
             } else return e
           } else return e);
         bpf_ringbuf_submit e;
         return 0
       }
   }"

definition trace_sys_exit_symlinkat :: "kernel \<Rightarrow> sys_exit_ctx \<Rightarrow> int prog" where
  "trace_sys_exit_symlinkat K ctx = do {
     r \<leftarrow> handle_exit_event K (ucast (exit_id ctx));
     case r of
       None \<Rightarrow> return 0
     | Some e \<Rightarrow> do {
         let e = e\<lparr>ev_ret := exit_ret ctx\<rparr>;
         bpf_ringbuf_submit e;
         return 0
       }
   }"

definition trace_sys_enter_unlink :: "kernel \<Rightarrow> sys_enter_ctx \<Rightarrow> int prog" where
  "trace_sys_enter_unlink K ctx = do {
     r \<leftarrow> handle_enter_event K (ucast (enter_id ctx));
     case r of
       None \<Rightarrow> return 0
     | Some e \<Rightarrow> do {
         let e = e\<lparr>is_valid := False\<rparr>;
         let pathname_ptr = args ctx 0;
         e \<leftarrow> (if pathname_ptr \<noteq> 0 then do {
             (n, bs) \<leftarrow> bpf_probe_read_user_str K 256 pathname_ptr (arg_str e);
             let e = e\<lparr>arg_str := bs\<rparr>;
             if 0 \<le> n then return (e\<lparr>is_valid := True\<rparr>) else return e
           } else return e);
         bpf_ringbuf_submit e;
         return 0
       }
   }"

definition trace_sys_exit_unlink :: "kernel \<Rightarrow> sys_exit_ctx \<Rightarrow> int prog" where
  "trace_sys_exit_unlink K ctx = do {
     r \<leftarrow> handle_exit_event K (ucast (exit_id ctx));
     case r of
       None \<Rightarrow> return 0
     | Some e \<Rightarrow> do {
         let e = e\<lparr>ev_ret := exit_ret ctx\<rparr>;
         bpf_ringbuf_submit e;
         return 0
       }
   }"

definition trace_sys_enter_unlinkat :: "kernel \<Rightarrow> sys_enter_ctx \<Rightarrow> int prog" where
  "trace_sys_enter_unlinkat K ctx = do {
     r \<leftarrow> handle_enter_event K (ucast (enter_id ctx));
     case r of
       None \<Rightarrow> return 0
     | Some e \<Rightarrow> do {
         let e = set_s32 0 (ucast (args ctx 0)) e;
         let e = set_s32 1 (ucast (args ctx 2)) e;
         let e = e\<lparr>is_valid := False\<rparr>;
         let pathname_ptr = args ctx 1;
         e \<leftarrow> (if pathname_ptr \<noteq> 0 then do {
             (n, bs) \<leftarrow> bpf_probe_read_user_str K 256 pathname_ptr (arg_str e);
             let e = e\<lparr>arg_str := bs\<rparr>;
             if 0 \<le> n then return (e\<lparr>is_valid := True\<rparr>) else return e
           } else return e);
         bpf_ringbuf_submit e;
         return 0
       }
   }"

definition trace_sys_exit_unlinkat :: "kernel \<Rightarrow> sys_exit_ctx \<Rightarrow> int prog" where
  "trace_sys_exit_unlinkat K ctx = do {
     r \<leftarrow> handle_exit_event K (ucast (exit_id ctx));
     case r of
       None \<Rightarrow> return 0
     | Some e \<Rightarrow> do {
         let e = e\<lparr>ev_ret := exit_ret ctx\<rparr>;
         bpf_ringbuf_submit e;
         return 0
       }
   }"

definition trace_sys_enter_readlink :: "kernel \<Rightarrow> sys_enter_ctx \<Rightarrow> int prog" where
  "trace_sys_enter_readlink K ctx = do {
     r \<leftarrow> handle_enter_event K (ucast (enter_id ctx));
     case r of
       None \<Rightarrow> return 0
     | Some e \<Rightarrow> do {
         let e = set_u64 0 (args ctx 2) e;
         let e = e\<lparr>is_valid := False\<rparr>;
         let path_ptr = args ctx 0;
         e \<leftarrow> (if path_ptr \<noteq> 0 then do {
             (n, bs) \<leftarrow> bpf_probe_read_user_str K 256 path_ptr (arg_str e);
             let e = e\<lparr>arg_str := bs\<rparr>;
             if 0 \<le> n then return (e\<lparr>is_valid := True\<rparr>) else return e
           } else return e);
         bpf_ringbuf_submit e;
         return 0
       }
   }"

definition trace_sys_exit_readlink :: "kernel \<Rightarrow> sys_exit_ctx \<Rightarrow> int prog" where
  "trace_sys_exit_readlink K ctx = do {
     r \<leftarrow> handle_exit_event K (ucast (exit_id ctx));
     case r of
       None \<Rightarrow> return 0
     | Some e \<Rightarrow> do {
         let e = e\<lparr>ev_ret := exit_ret ctx\<rparr>;
         bpf_ringbuf_submit e;
         return 0
       }
   }"

definition trace_sys_enter_readlinkat :: "kernel \<Rightarrow> sys_enter_ctx \<Rightarrow> int prog" where
  "trace_sys_enter_readlinkat K ctx = do {
     r \<leftarrow> handle_enter_event K (ucast (enter_id ctx));
     case r of
       None \<Rightarrow> return 0
     | Some e \<Rightarrow> do {
         let e = set_s32 0 (ucast (args ctx 0)) e;
         let e = set_u64 0 (args ctx 3) e;
         let e = e\<lparr>is_valid := False\<rparr>;
         let path_ptr = args ctx 1;
         e \<leftarrow> (if path_ptr \<noteq> 0 then do {
             (n, bs) \<leftarrow> bpf_probe_read_user_str K 256 path_ptr (arg_str e);
             let e = e\<lparr>arg_str := bs\<rparr>;
             if 0 \<le> n then return (e\<lparr>is_valid := True\<rparr>) else return e
           } else return e);
         bpf_ringbuf_submit e;
         return 0
       }
   }"

definition trace_sys_exit_readlinkat :: "kernel \<Rightarrow> sys_exit_ctx \<Rightarrow> int prog" where
  "trace_sys_exit_readlinkat K ctx = do {
     r \<leftarrow> handle_exit_event K (ucast (exit_id ctx));
     case r of
       None \<Rightarrow> return 0
     | Some e \<Rightarrow> do {
         let e = e\<lparr>ev_ret := exit_ret ctx\<rparr>;
         bpf_ringbuf_submit e;
         return 0
       }
   }"

definition trace_sys_enter_umask :: "kernel \<Rightarrow> sys_enter_ctx \<Rightarrow> int prog" where
  "trace_sys_enter_umask K ctx = do {
     r \<leftarrow> handle_enter_event K (ucast (enter_id ctx));
     case r of
       None \<Rightarrow> return 0
     | Some e \<Rightarrow> do {
         let e = set_u32 0 (ucast (args ctx 0)) e;
         bpf_ringbuf_submit e;
         return 0
       }
   }"

definition trace_sys_exit_umask :: "kernel \<Rightarrow> sys_exit_ctx \<Rightarrow> int prog" where
  "trace_sys_exit_umask K ctx = do {
     r \<leftarrow> handle_exit_event K (ucast (exit_id ctx));
     case r of
       None \<Rightarrow> return 0
     | Some e \<Rightarrow> do {
         let e = e\<lparr>ev_ret := exit_ret ctx\<rparr>;
         bpf_ringbuf_submit e;
         return 0
       }
   }"

definition trace_sys_enter_stat :: "kernel \<Rightarrow> sys_enter_ctx \<Rightarrow> int prog" where
  "trace_sys_enter_stat K ctx = do {
     r \<leftarrow> handle_enter_event K (ucast (enter_id ctx));
     case r of
       None \<Rightarrow> return 0
     | Some e \<Rightarrow> do {
         let e = e\<lparr>is_valid := False\<rparr>;
         let pathname_ptr = args ctx 0;
         e \<leftarrow> (if pathname_ptr \<noteq> 0 then do {
             (n, bs) \<leftarrow> bpf_probe_read_user_str K 256 pathname_ptr (arg_str e);
             let e = e\<lparr>arg_str := bs\<rparr>;
             if 0 \<le> n then return (e\<lparr>is_valid := True\<rparr>) else return e
           } else return e);
         bpf_ringbuf_submit e;
         return 0
       }
   }"

definition trace_sys_exit_stat :: "kernel \<Rightarrow> sys_exit_ctx \<Rightarrow> int prog" where
  "trace_sys_exit_stat K ctx = do {
     r \<leftarrow> handle_exit_event K (ucast (exit_id ctx));
     case r of
       None \<Rightarrow> return 0
     | Some e \<Rightarrow> do {
         let e = e\<lparr>ev_ret := exit_ret ctx\<rparr>;
         bpf_ringbuf_submit e;
         return 0
       }
   }"

definition trace_sys_enter_lstat :: "kernel \<Rightarrow> sys_enter_ctx \<Rightarrow> int prog" where
  "trace_sys_enter_lstat K ctx = do {
     r \<leftarrow> handle_enter_event K (ucast (enter_id ctx));
     case r of
       None \<Rightarrow> return 0
     | Some e \<Rightarrow> do {
         let e = e\<lparr>is_valid := False\<rparr>;
         let pathname_ptr = args ctx 0;
         e \<leftarrow> (if pathname_ptr \<noteq> 0 then do {
             (n, bs) \<leftarrow> bpf_probe_read_user_str K 256 pathname_ptr (arg_str e);
             let e = e\<lparr>arg_str := bs\<rparr>;
             if 0 \<le> n then return (e\<lparr>is_valid := True\<rparr>) else return e
           } else return e);
         bpf_ringbuf_submit e;
         return 0
       }
   }"

definition trace_sys_exit_lstat :: "kernel \<Rightarrow> sys_exit_ctx \<Rightarrow> int prog" where
  "trace_sys_exit_lstat K ctx = do {
     r \<leftarrow> handle_exit_event K (ucast (exit_id ctx));
     case r of
       None \<Rightarrow> return 0
     | Some e \<Rightarrow> do {
         let e = e\<lparr>ev_ret := exit_ret ctx\<rparr>;
         bpf_ringbuf_submit e;
         return 0
       }
   }"

definition trace_sys_enter_fstat :: "kernel \<Rightarrow> sys_enter_ctx \<Rightarrow> int prog" where
  "trace_sys_enter_fstat K ctx = do {
     r \<leftarrow> handle_enter_event K (ucast (enter_id ctx));
     case r of
       None \<Rightarrow> return 0
     | Some e \<Rightarrow> do {
         let e = set_s32 0 (ucast (args ctx 0)) e;
         bpf_ringbuf_submit e;
         return 0
       }
   }"

definition trace_sys_exit_fstat :: "kernel \<Rightarrow> sys_exit_ctx \<Rightarrow> int prog" where
  "trace_sys_exit_fstat K ctx = do {
     r \<leftarrow> handle_exit_event K (ucast (exit_id ctx));
     case r of
       None \<Rightarrow> return 0
     | Some e \<Rightarrow> do {
         let e = e\<lparr>ev_ret := exit_ret ctx\<rparr>;
         bpf_ringbuf_submit e;
         return 0
       }
   }"

definition trace_sys_enter_fstatat :: "kernel \<Rightarrow> sys_enter_ctx \<Rightarrow> int prog" where
  "trace_sys_enter_fstatat K ctx = do {
     r \<leftarrow> handle_enter_event K (ucast (enter_id ctx));
     case r of
       None \<Rightarrow> return 0
     | Some e \<Rightarrow> do {
         let e = set_s32 0 (ucast (args ctx 0)) e;
         let e = set_s32 1 (ucast (args ctx 3)) e;
         let e = e\<lparr>is_valid := False\<rparr>;
         let pathname_ptr = args ctx 1;
         e \<leftarrow> (if pathname_ptr \<noteq> 0 then do {
             (n, bs) \<leftarrow> bpf_probe_read_user_str K 256 pathname_ptr (arg_str e);
             let e = e\<lparr>arg_str := bs\<rparr>;
             if 0 \<le> n then return (e\<lparr>is_valid := True\<rparr>) else return e
           } else return e);
         bpf_ringbuf_submit e;
         return 0
       }
   }"

definition trace_sys_exit_fstatat :: "kernel \<Rightarrow> sys_exit_ctx \<Rightarrow> int prog" where
  "trace_sys_exit_fstatat K ctx = do {
     r \<leftarrow> handle_exit_event K (ucast (exit_id ctx));
     case r of
       None \<Rightarrow> return 0
     | Some e \<Rightarrow> do {
         let e = e\<lparr>ev_ret := exit_ret ctx\<rparr>;
         bpf_ringbuf_submit e;
         return 0
       }
   }"

definition trace_sys_enter_statx :: "kernel \<Rightarrow> sys_enter_ctx \<Rightarrow> int prog" where
  "trace_sys_enter_statx K ctx = do {
     r \<leftarrow> handle_enter_event K (ucast (enter_id ctx));
     case r of
       None \<Rightarrow> return 0
     | Some e \<Rightarrow> do {
         let e = set_s32 0 (ucast (args ctx 0)) e;
         let e = set_s32 1 (ucast (args ctx 2)) e;
         let e = set_u32 0 (ucast (args ctx 3)) e;
         let e = e\<lparr>is_valid := False\<rparr>;
         let pathname_ptr = args ctx 1;
         e \<leftarrow> (if pathname_ptr \<noteq> 0 then do {
             (n, bs) \<leftarrow> bpf_probe_read_user_str K 256 pathname_ptr (arg_str e);
             let e = e\<lparr>arg_str := bs\<rparr>;
             if 0 \<le> n then return (e\<lparr>is_valid := True\<rparr>) else return e
           } else return e);
         bpf_ringbuf_submit e;
         return 0
       }
   }"

definition trace_sys_exit_statx :: "kernel \<Rightarrow> sys_exit_ctx \<Rightarrow> int prog" where
  "trace_sys_exit_statx K ctx = do {
     r \<leftarrow> handle_exit_event K (ucast (exit_id ctx));
     case r of
       None \<Rightarrow> return 0
     | Some e \<Rightarrow> do {
         let e = e\<lparr>ev_ret := exit_ret ctx\<rparr>;
         bpf_ringbuf_submit e;
         return 0
       }
   }"

definition trace_sys_enter_statfs :: "kernel \<Rightarrow> sys_enter_ctx \<Rightarrow> int prog" where
  "trace_sys_enter_statfs K ctx = do {
     r \<leftarrow> handle_enter_event K (ucast (enter_id ctx));
     case r of
       None \<Rightarrow> return 0
     | Some e \<Rightarrow> do {
         let e = e\<lparr>is_valid := False\<rparr>;
         let path_ptr = args ctx 0;
         e \<leftarrow> (if path_ptr \<noteq> 0 then do {
             (n, bs) \<leftarrow> bpf_probe_read_user_str K 256 path_ptr (arg_str e);
             let e = e\<lparr>arg_str := bs\<rparr>;
             if 0 \<le> n then return (e\<lparr>is_valid := True\<rparr>) else return e
           } else return e);
         bpf_ringbuf_submit e;
         return 0
       }
   }"

definition trace_sys_exit_statfs :: "kernel \<Rightarrow> sys_exit_ctx \<Rightarrow> int prog" where
  "trace_sys_exit_statfs K ctx = do {
     r \<leftarrow> handle_exit_event K (ucast (exit_id ctx));
     case r of
       None \<Rightarrow> return 0
     | Some e \<Rightarrow> do {
         let e = e\<lparr>ev_ret := exit_ret ctx\<rparr>;
         bpf_ringbuf_submit e;
         return 0
       }
   }"

definition trace_sys_enter_fstatfs :: "kernel \<Rightarrow> sys_enter_ctx \<Rightarrow> int prog" where
  "trace_sys_enter_fstatfs K ctx = do {
     r \<leftarrow> handle_enter_event K (ucast (enter_id ctx));
     case r of
       None \<Rightarrow> return 0
     | Some e \<Rightarrow> do {
         let e = set_s32 0 (ucast (args ctx 0)) e;
         bpf_ringbuf_submit e;
         return 0
       }
   }"

definition trace_sys_exit_fstatfs :: "kernel \<Rightarrow> sys_exit_ctx \<Rightarrow> int prog" where
  "trace_sys_exit_fstatfs K ctx = do {
     r \<leftarrow> handle_exit_event K (ucast (exit_id ctx));
     case r of
       None \<Rightarrow> return 0
     | Some e \<Rightarrow> do {
         let e = e\<lparr>ev_ret := exit_ret ctx\<rparr>;
         bpf_ringbuf_submit e;
         return 0
       }
   }"

subsection \<open>Tables\<close>

definition file_plain_enter :: "(string \<times> enter_program) list" where
  "file_plain_enter =
     [(''creat'', trace_sys_enter_creat),
      (''open'', trace_sys_enter_open),
      (''openat'', trace_sys_enter_openat),
      (''openat2'', trace_sys_enter_openat2),
      (''name_to_handle_at'', trace_sys_enter_name_to_handle_at),
      (''open_by_handle_at'', trace_sys_enter_open_by_handle_at),
      (''memfd_create'', trace_sys_enter_memfd_create),
      (''mknod'', trace_sys_enter_mknod),
      (''mknodat'', trace_sys_enter_mknodat),
      (''rename'', trace_sys_enter_rename),
      (''renameat'', trace_sys_enter_renameat),
      (''renameat2'', trace_sys_enter_renameat2),
      (''truncate'', trace_sys_enter_truncate),
      (''ftruncate'', trace_sys_enter_ftruncate),
      (''fallocate'', trace_sys_enter_fallocate),
      (''mkdir'', trace_sys_enter_mkdir),
      (''mkdirat'', trace_sys_enter_mkdirat),
      (''rmdir'', trace_sys_enter_rmdir),
      (''getcwd'', trace_sys_enter_getcwd),
      (''chdir'', trace_sys_enter_chdir),
      (''fchdir'', trace_sys_enter_fchdir),
      (''chroot'', trace_sys_enter_chroot),
      (''pivot_root'', trace_sys_enter_pivot_root),
      (''link'', trace_sys_enter_link),
      (''linkat'', trace_sys_enter_linkat),
      (''symlink'', trace_sys_enter_symlink),
      (''symlinkat'', trace_sys_enter_symlinkat),
      (''unlink'', trace_sys_enter_unlink),
      (''unlinkat'', trace_sys_enter_unlinkat),
      (''readlink'', trace_sys_enter_readlink),
      (''readlinkat'', trace_sys_enter_readlinkat),
      (''umask'', trace_sys_enter_umask),
      (''newstat'', trace_sys_enter_stat),
      (''newlstat'', trace_sys_enter_lstat),
      (''newfstat'', trace_sys_enter_fstat),
      (''newfstatat'', trace_sys_enter_fstatat),
      (''statx'', trace_sys_enter_statx),
      (''statfs'', trace_sys_enter_statfs),
      (''fstatfs'', trace_sys_enter_fstatfs)]"

definition file_storing_enter :: "(string \<times> enter_program \<times> enter_effect) list" where
  "file_storing_enter =
     [(''getdents'', trace_sys_enter_getdents,
       \<lambda>K ctx. stored getdents_args_map_update (activation_key K) (args ctx 1)),
      (''getdents64'', trace_sys_enter_getdents64,
       \<lambda>K ctx. stored getdents64_args_map_update (activation_key K) (args ctx 1))]"

definition file_plain_exit :: "(string \<times> exit_program) list" where
  "file_plain_exit =
     [(''creat'', trace_sys_exit_creat),
      (''open'', trace_sys_exit_open),
      (''openat'', trace_sys_exit_openat),
      (''openat2'', trace_sys_exit_openat2),
      (''name_to_handle_at'', trace_sys_exit_name_to_handle_at),
      (''open_by_handle_at'', trace_sys_exit_open_by_handle_at),
      (''memfd_create'', trace_sys_exit_memfd_create),
      (''mknod'', trace_sys_exit_mknod),
      (''mknodat'', trace_sys_exit_mknodat),
      (''rename'', trace_sys_exit_rename),
      (''renameat'', trace_sys_exit_renameat),
      (''renameat2'', trace_sys_exit_renameat2),
      (''truncate'', trace_sys_exit_truncate),
      (''ftruncate'', trace_sys_exit_ftruncate),
      (''fallocate'', trace_sys_exit_fallocate),
      (''mkdir'', trace_sys_exit_mkdir),
      (''mkdirat'', trace_sys_exit_mkdirat),
      (''rmdir'', trace_sys_exit_rmdir),
      (''getcwd'', trace_sys_exit_getcwd),
      (''chdir'', trace_sys_exit_chdir),
      (''fchdir'', trace_sys_exit_fchdir),
      (''chroot'', trace_sys_exit_chroot),
      (''pivot_root'', trace_sys_exit_pivot_root),
      (''link'', trace_sys_exit_link),
      (''linkat'', trace_sys_exit_linkat),
      (''symlink'', trace_sys_exit_symlink),
      (''symlinkat'', trace_sys_exit_symlinkat),
      (''unlink'', trace_sys_exit_unlink),
      (''unlinkat'', trace_sys_exit_unlinkat),
      (''readlink'', trace_sys_exit_readlink),
      (''readlinkat'', trace_sys_exit_readlinkat),
      (''umask'', trace_sys_exit_umask),
      (''newstat'', trace_sys_exit_stat),
      (''newlstat'', trace_sys_exit_lstat),
      (''newfstat'', trace_sys_exit_fstat),
      (''newfstatat'', trace_sys_exit_fstatat),
      (''statx'', trace_sys_exit_statx),
      (''statfs'', trace_sys_exit_statfs),
      (''fstatfs'', trace_sys_exit_fstatfs)]"

definition file_cleanup_exit :: "(string \<times> exit_program \<times> exit_effect) list" where
  "file_cleanup_exit =
     [(''getdents'', trace_sys_exit_getdents,
       \<lambda>K ctx. dropped getsockopt_args_map_update (activation_key K)),
      (''getdents64'', trace_sys_exit_getdents64,
       \<lambda>K ctx. dropped getsockopt_args_map_update (activation_key K))]"

subsection \<open>The logging contract\<close>

lemmas file_plain_enter_defs =
  trace_sys_enter_creat_def trace_sys_enter_open_def trace_sys_enter_openat_def
  trace_sys_enter_openat2_def trace_sys_enter_name_to_handle_at_def
  trace_sys_enter_open_by_handle_at_def trace_sys_enter_memfd_create_def
  trace_sys_enter_mknod_def trace_sys_enter_mknodat_def trace_sys_enter_rename_def
  trace_sys_enter_renameat_def trace_sys_enter_renameat2_def trace_sys_enter_truncate_def
  trace_sys_enter_ftruncate_def trace_sys_enter_fallocate_def trace_sys_enter_mkdir_def
  trace_sys_enter_mkdirat_def trace_sys_enter_rmdir_def trace_sys_enter_getcwd_def
  trace_sys_enter_chdir_def trace_sys_enter_fchdir_def trace_sys_enter_chroot_def
  trace_sys_enter_pivot_root_def trace_sys_enter_link_def trace_sys_enter_linkat_def
  trace_sys_enter_symlink_def trace_sys_enter_symlinkat_def trace_sys_enter_unlink_def
  trace_sys_enter_unlinkat_def trace_sys_enter_readlink_def trace_sys_enter_readlinkat_def
  trace_sys_enter_umask_def trace_sys_enter_stat_def trace_sys_enter_lstat_def
  trace_sys_enter_fstat_def trace_sys_enter_fstatat_def trace_sys_enter_statx_def
  trace_sys_enter_statfs_def trace_sys_enter_fstatfs_def

lemma file_plain_enter_probe:
  "list_all (\<lambda>(n, p). \<forall>K ctx. probe K True (ucast (enter_id ctx)) unchanged (p K ctx))
     file_plain_enter"
  unfolding file_plain_enter_def list.pred_inject prod.case
  apply (intro conjI allI TrueI)
  unfolding file_plain_enter_defs Let_def
  by (rule probe_plain_enter submits_rules keeps_rules quiet_helpers zero_rules | (simp; fail))+

lemmas file_storing_enter_defs =
  trace_sys_enter_getdents_def trace_sys_enter_getdents64_def

lemma file_storing_enter_probe:
  "list_all (\<lambda>(n, p, A). \<forall>K ctx. probe K True (ucast (enter_id ctx)) (A K ctx) (p K ctx))
     file_storing_enter"
  unfolding file_storing_enter_def list.pred_inject prod.case
  apply (intro conjI allI TrueI)
  unfolding file_storing_enter_defs Let_def
  by (rule probe_storing probe_plain_enter submits_rules keeps_rules quiet_helpers zero_rules | (simp; fail))+

lemmas file_plain_exit_defs =
  trace_sys_exit_creat_def trace_sys_exit_open_def trace_sys_exit_openat_def
  trace_sys_exit_openat2_def trace_sys_exit_name_to_handle_at_def
  trace_sys_exit_open_by_handle_at_def trace_sys_exit_memfd_create_def trace_sys_exit_mknod_def
  trace_sys_exit_mknodat_def trace_sys_exit_rename_def trace_sys_exit_renameat_def
  trace_sys_exit_renameat2_def trace_sys_exit_truncate_def trace_sys_exit_ftruncate_def
  trace_sys_exit_fallocate_def trace_sys_exit_mkdir_def trace_sys_exit_mkdirat_def
  trace_sys_exit_rmdir_def trace_sys_exit_getcwd_def trace_sys_exit_chdir_def
  trace_sys_exit_fchdir_def trace_sys_exit_chroot_def trace_sys_exit_pivot_root_def
  trace_sys_exit_link_def trace_sys_exit_linkat_def trace_sys_exit_symlink_def
  trace_sys_exit_symlinkat_def trace_sys_exit_unlink_def trace_sys_exit_unlinkat_def
  trace_sys_exit_readlink_def trace_sys_exit_readlinkat_def trace_sys_exit_umask_def
  trace_sys_exit_stat_def trace_sys_exit_lstat_def trace_sys_exit_fstat_def
  trace_sys_exit_fstatat_def trace_sys_exit_statx_def trace_sys_exit_statfs_def
  trace_sys_exit_fstatfs_def

lemma file_plain_exit_probe:
  "list_all (\<lambda>(n, p). \<forall>K ctx. probe K False (ucast (exit_id ctx)) unchanged (p K ctx))
     file_plain_exit"
  unfolding file_plain_exit_def list.pred_inject prod.case
  apply (intro conjI allI TrueI)
  unfolding file_plain_exit_defs Let_def
  by (rule probe_plain_exit submits_rules keeps_rules quiet_helpers zero_rules | (simp; fail))+

lemmas file_cleanup_exit_defs =
  trace_sys_exit_getdents_def trace_sys_exit_getdents64_def

lemma file_cleanup_exit_probe:
  "list_all (\<lambda>(n, p, A). \<forall>K ctx. probe K False (ucast (exit_id ctx)) (A K ctx) (p K ctx))
     file_cleanup_exit"
  unfolding file_cleanup_exit_def list.pred_inject prod.case
  apply (intro conjI allI TrueI)
  unfolding file_cleanup_exit_defs Let_def
  by (rule probe_cleanup_key probe_cleanup_stray submits_rules keeps_rules quiet_helpers zero_rules | (simp; fail))+

end
