(* ===== verification/Trace_Meta.thy ===== *)
theory Trace_Meta
  imports Trace_Rules
begin

section \<open>Tracepoint programs: permissions, descriptors, reading and writing, notification and mounting\<close>

text \<open>
  The programs of \<open>src/src/tracepoint/tracepoint.bpf.c\<close>, lines 2301 to 3290, one definition
  each under the program's own name, in the order of the source.  The tables at the end pair the
  system call of the attach point with its program, split by what the program does to the
  argument maps; the lemmas after them prove the logging contract of each table.
\<close>

definition trace_sys_enter_chmod :: "kernel \<Rightarrow> sys_enter_ctx \<Rightarrow> int prog" where
  "trace_sys_enter_chmod K ctx = do {
     r \<leftarrow> handle_enter_event K (ucast (enter_id ctx));
     case r of
       None \<Rightarrow> return 0
     | Some e \<Rightarrow> do {
         let e = set_u32 0 (ucast (args ctx 1)) e;
         let e = e\<lparr>is_valid := False\<rparr>;
         let pathname_ptr = args ctx 0;
         e \<leftarrow> (if pathname_ptr \<noteq> 0 then do {
             (n, bs) \<leftarrow> bpf_probe_read_user_str K 256 pathname_ptr (arg_str e);
             let e = e\<lparr>arg_str := bs\<rparr>;
             if 0 \<le> n then return (e\<lparr>is_valid := True\<rparr>) else return e
           } else return e);
         bpf_ringbuf_submit e;
         return 0
       }
   }"

definition trace_sys_exit_chmod :: "kernel \<Rightarrow> sys_exit_ctx \<Rightarrow> int prog" where
  "trace_sys_exit_chmod K ctx = do {
     r \<leftarrow> handle_exit_event K (ucast (exit_id ctx));
     case r of
       None \<Rightarrow> return 0
     | Some e \<Rightarrow> do {
         let e = e\<lparr>ev_ret := exit_ret ctx\<rparr>;
         bpf_ringbuf_submit e;
         return 0
       }
   }"

definition trace_sys_enter_fchmod :: "kernel \<Rightarrow> sys_enter_ctx \<Rightarrow> int prog" where
  "trace_sys_enter_fchmod K ctx = do {
     r \<leftarrow> handle_enter_event K (ucast (enter_id ctx));
     case r of
       None \<Rightarrow> return 0
     | Some e \<Rightarrow> do {
         let e = set_s32 0 (ucast (args ctx 0)) e;
         let e = set_u32 0 (ucast (args ctx 1)) e;
         bpf_ringbuf_submit e;
         return 0
       }
   }"

definition trace_sys_exit_fchmod :: "kernel \<Rightarrow> sys_exit_ctx \<Rightarrow> int prog" where
  "trace_sys_exit_fchmod K ctx = do {
     r \<leftarrow> handle_exit_event K (ucast (exit_id ctx));
     case r of
       None \<Rightarrow> return 0
     | Some e \<Rightarrow> do {
         let e = e\<lparr>ev_ret := exit_ret ctx\<rparr>;
         bpf_ringbuf_submit e;
         return 0
       }
   }"

definition trace_sys_enter_fchmodat :: "kernel \<Rightarrow> sys_enter_ctx \<Rightarrow> int prog" where
  "trace_sys_enter_fchmodat K ctx = do {
     r \<leftarrow> handle_enter_event K (ucast (enter_id ctx));
     case r of
       None \<Rightarrow> return 0
     | Some e \<Rightarrow> do {
         let e = set_s32 0 (ucast (args ctx 0)) e;
         let e = set_u32 0 (ucast (args ctx 2)) e;
         let e = set_s32 1 (ucast (args ctx 3)) e;
         let e = e\<lparr>is_valid := False\<rparr>;
         let pathname_ptr = args ctx 1;
         e \<leftarrow> (if pathname_ptr \<noteq> 0 then do {
             (n, bs) \<leftarrow> bpf_probe_read_user_str K 256 pathname_ptr (arg_str e);
             let e = e\<lparr>arg_str := bs\<rparr>;
             if 0 \<le> n then return (e\<lparr>is_valid := True\<rparr>) else return e
           } else return e);
         bpf_ringbuf_submit e;
         return 0
       }
   }"

definition trace_sys_exit_fchmodat :: "kernel \<Rightarrow> sys_exit_ctx \<Rightarrow> int prog" where
  "trace_sys_exit_fchmodat K ctx = do {
     r \<leftarrow> handle_exit_event K (ucast (exit_id ctx));
     case r of
       None \<Rightarrow> return 0
     | Some e \<Rightarrow> do {
         let e = e\<lparr>ev_ret := exit_ret ctx\<rparr>;
         bpf_ringbuf_submit e;
         return 0
       }
   }"

definition trace_sys_enter_chown :: "kernel \<Rightarrow> sys_enter_ctx \<Rightarrow> int prog" where
  "trace_sys_enter_chown K ctx = do {
     r \<leftarrow> handle_enter_event K (ucast (enter_id ctx));
     case r of
       None \<Rightarrow> return 0
     | Some e \<Rightarrow> do {
         let e = set_u32 0 (ucast (args ctx 1)) e;
         let e = set_u32 1 (ucast (args ctx 2)) e;
         let e = e\<lparr>is_valid := False\<rparr>;
         let pathname_ptr = args ctx 0;
         e \<leftarrow> (if pathname_ptr \<noteq> 0 then do {
             (n, bs) \<leftarrow> bpf_probe_read_user_str K 256 pathname_ptr (arg_str e);
             let e = e\<lparr>arg_str := bs\<rparr>;
             if 0 \<le> n then return (e\<lparr>is_valid := True\<rparr>) else return e
           } else return e);
         bpf_ringbuf_submit e;
         return 0
       }
   }"

definition trace_sys_exit_chown :: "kernel \<Rightarrow> sys_exit_ctx \<Rightarrow> int prog" where
  "trace_sys_exit_chown K ctx = do {
     r \<leftarrow> handle_exit_event K (ucast (exit_id ctx));
     case r of
       None \<Rightarrow> return 0
     | Some e \<Rightarrow> do {
         let e = e\<lparr>ev_ret := exit_ret ctx\<rparr>;
         bpf_ringbuf_submit e;
         return 0
       }
   }"

definition trace_sys_enter_lchown :: "kernel \<Rightarrow> sys_enter_ctx \<Rightarrow> int prog" where
  "trace_sys_enter_lchown K ctx = do {
     r \<leftarrow> handle_enter_event K (ucast (enter_id ctx));
     case r of
       None \<Rightarrow> return 0
     | Some e \<Rightarrow> do {
         let e = set_u32 0 (ucast (args ctx 1)) e;
         let e = set_u32 1 (ucast (args ctx 2)) e;
         let e = e\<lparr>is_valid := False\<rparr>;
         let pathname_ptr = args ctx 0;
         e \<leftarrow> (if pathname_ptr \<noteq> 0 then do {
             (n, bs) \<leftarrow> bpf_probe_read_user_str K 256 pathname_ptr (arg_str e);
             let e = e\<lparr>arg_str := bs\<rparr>;
             if 0 \<le> n then return (e\<lparr>is_valid := True\<rparr>) else return e
           } else return e);
         bpf_ringbuf_submit e;
         return 0
       }
   }"

definition trace_sys_exit_lchown :: "kernel \<Rightarrow> sys_exit_ctx \<Rightarrow> int prog" where
  "trace_sys_exit_lchown K ctx = do {
     r \<leftarrow> handle_exit_event K (ucast (exit_id ctx));
     case r of
       None \<Rightarrow> return 0
     | Some e \<Rightarrow> do {
         let e = e\<lparr>ev_ret := exit_ret ctx\<rparr>;
         bpf_ringbuf_submit e;
         return 0
       }
   }"

definition trace_sys_enter_fchown :: "kernel \<Rightarrow> sys_enter_ctx \<Rightarrow> int prog" where
  "trace_sys_enter_fchown K ctx = do {
     r \<leftarrow> handle_enter_event K (ucast (enter_id ctx));
     case r of
       None \<Rightarrow> return 0
     | Some e \<Rightarrow> do {
         let e = set_s32 0 (ucast (args ctx 0)) e;
         let e = set_u32 0 (ucast (args ctx 1)) e;
         let e = set_u32 1 (ucast (args ctx 2)) e;
         bpf_ringbuf_submit e;
         return 0
       }
   }"

definition trace_sys_exit_fchown :: "kernel \<Rightarrow> sys_exit_ctx \<Rightarrow> int prog" where
  "trace_sys_exit_fchown K ctx = do {
     r \<leftarrow> handle_exit_event K (ucast (exit_id ctx));
     case r of
       None \<Rightarrow> return 0
     | Some e \<Rightarrow> do {
         let e = e\<lparr>ev_ret := exit_ret ctx\<rparr>;
         bpf_ringbuf_submit e;
         return 0
       }
   }"

definition trace_sys_enter_fchownat :: "kernel \<Rightarrow> sys_enter_ctx \<Rightarrow> int prog" where
  "trace_sys_enter_fchownat K ctx = do {
     r \<leftarrow> handle_enter_event K (ucast (enter_id ctx));
     case r of
       None \<Rightarrow> return 0
     | Some e \<Rightarrow> do {
         let e = set_s32 0 (ucast (args ctx 0)) e;
         let e = set_u32 0 (ucast (args ctx 2)) e;
         let e = set_u32 1 (ucast (args ctx 3)) e;
         let e = set_s32 1 (ucast (args ctx 4)) e;
         let e = e\<lparr>is_valid := False\<rparr>;
         let pathname_ptr = args ctx 1;
         e \<leftarrow> (if pathname_ptr \<noteq> 0 then do {
             (n, bs) \<leftarrow> bpf_probe_read_user_str K 256 pathname_ptr (arg_str e);
             let e = e\<lparr>arg_str := bs\<rparr>;
             if 0 \<le> n then return (e\<lparr>is_valid := True\<rparr>) else return e
           } else return e);
         bpf_ringbuf_submit e;
         return 0
       }
   }"

definition trace_sys_exit_fchownat :: "kernel \<Rightarrow> sys_exit_ctx \<Rightarrow> int prog" where
  "trace_sys_exit_fchownat K ctx = do {
     r \<leftarrow> handle_exit_event K (ucast (exit_id ctx));
     case r of
       None \<Rightarrow> return 0
     | Some e \<Rightarrow> do {
         let e = e\<lparr>ev_ret := exit_ret ctx\<rparr>;
         bpf_ringbuf_submit e;
         return 0
       }
   }"

definition trace_sys_enter_access :: "kernel \<Rightarrow> sys_enter_ctx \<Rightarrow> int prog" where
  "trace_sys_enter_access K ctx = do {
     r \<leftarrow> handle_enter_event K (ucast (enter_id ctx));
     case r of
       None \<Rightarrow> return 0
     | Some e \<Rightarrow> do {
         let e = set_s32 0 (ucast (args ctx 1)) e;
         let e = e\<lparr>is_valid := False\<rparr>;
         let pathname_ptr = args ctx 0;
         e \<leftarrow> (if pathname_ptr \<noteq> 0 then do {
             (n, bs) \<leftarrow> bpf_probe_read_user_str K 256 pathname_ptr (arg_str e);
             let e = e\<lparr>arg_str := bs\<rparr>;
             if 0 \<le> n then return (e\<lparr>is_valid := True\<rparr>) else return e
           } else return e);
         bpf_ringbuf_submit e;
         return 0
       }
   }"

definition trace_sys_exit_access :: "kernel \<Rightarrow> sys_exit_ctx \<Rightarrow> int prog" where
  "trace_sys_exit_access K ctx = do {
     r \<leftarrow> handle_exit_event K (ucast (exit_id ctx));
     case r of
       None \<Rightarrow> return 0
     | Some e \<Rightarrow> do {
         let e = e\<lparr>ev_ret := exit_ret ctx\<rparr>;
         bpf_ringbuf_submit e;
         return 0
       }
   }"

definition trace_sys_enter_faccessat :: "kernel \<Rightarrow> sys_enter_ctx \<Rightarrow> int prog" where
  "trace_sys_enter_faccessat K ctx = do {
     r \<leftarrow> handle_enter_event K (ucast (enter_id ctx));
     case r of
       None \<Rightarrow> return 0
     | Some e \<Rightarrow> do {
         let e = set_s32 0 (ucast (args ctx 0)) e;
         let e = set_s32 1 (ucast (args ctx 2)) e;
         let e = set_s32 2 (ucast (args ctx 3)) e;
         let e = e\<lparr>is_valid := False\<rparr>;
         let pathname_ptr = args ctx 1;
         e \<leftarrow> (if pathname_ptr \<noteq> 0 then do {
             (n, bs) \<leftarrow> bpf_probe_read_user_str K 256 pathname_ptr (arg_str e);
             let e = e\<lparr>arg_str := bs\<rparr>;
             if 0 \<le> n then return (e\<lparr>is_valid := True\<rparr>) else return e
           } else return e);
         bpf_ringbuf_submit e;
         return 0
       }
   }"

definition trace_sys_exit_faccessat :: "kernel \<Rightarrow> sys_exit_ctx \<Rightarrow> int prog" where
  "trace_sys_exit_faccessat K ctx = do {
     r \<leftarrow> handle_exit_event K (ucast (exit_id ctx));
     case r of
       None \<Rightarrow> return 0
     | Some e \<Rightarrow> do {
         let e = e\<lparr>ev_ret := exit_ret ctx\<rparr>;
         bpf_ringbuf_submit e;
         return 0
       }
   }"

definition trace_sys_enter_fcntl :: "kernel \<Rightarrow> sys_enter_ctx \<Rightarrow> int prog" where
  "trace_sys_enter_fcntl K ctx = do {
     r \<leftarrow> handle_enter_event K (ucast (enter_id ctx));
     case r of
       None \<Rightarrow> return 0
     | Some e \<Rightarrow> do {
         let e = set_s32 0 (ucast (args ctx 0)) e;
         let e = set_u64 0 (args ctx 1) e;
         let e = set_u64 1 (args ctx 2) e;
         bpf_ringbuf_submit e;
         return 0
       }
   }"

definition trace_sys_exit_fcntl :: "kernel \<Rightarrow> sys_exit_ctx \<Rightarrow> int prog" where
  "trace_sys_exit_fcntl K ctx = do {
     r \<leftarrow> handle_exit_event K (ucast (exit_id ctx));
     case r of
       None \<Rightarrow> return 0
     | Some e \<Rightarrow> do {
         let e = e\<lparr>ev_ret := exit_ret ctx\<rparr>;
         bpf_ringbuf_submit e;
         return 0
       }
   }"

definition trace_sys_enter_dup :: "kernel \<Rightarrow> sys_enter_ctx \<Rightarrow> int prog" where
  "trace_sys_enter_dup K ctx = do {
     r \<leftarrow> handle_enter_event K (ucast (enter_id ctx));
     case r of
       None \<Rightarrow> return 0
     | Some e \<Rightarrow> do {
         let e = set_s32 0 (ucast (args ctx 0)) e;
         bpf_ringbuf_submit e;
         return 0
       }
   }"

definition trace_sys_exit_dup :: "kernel \<Rightarrow> sys_exit_ctx \<Rightarrow> int prog" where
  "trace_sys_exit_dup K ctx = do {
     r \<leftarrow> handle_exit_event K (ucast (exit_id ctx));
     case r of
       None \<Rightarrow> return 0
     | Some e \<Rightarrow> do {
         let e = e\<lparr>ev_ret := exit_ret ctx\<rparr>;
         bpf_ringbuf_submit e;
         return 0
       }
   }"

definition trace_sys_enter_dup2 :: "kernel \<Rightarrow> sys_enter_ctx \<Rightarrow> int prog" where
  "trace_sys_enter_dup2 K ctx = do {
     r \<leftarrow> handle_enter_event K (ucast (enter_id ctx));
     case r of
       None \<Rightarrow> return 0
     | Some e \<Rightarrow> do {
         let e = set_s32 0 (ucast (args ctx 0)) e;
         let e = set_s32 1 (ucast (args ctx 1)) e;
         bpf_ringbuf_submit e;
         return 0
       }
   }"

definition trace_sys_exit_dup2 :: "kernel \<Rightarrow> sys_exit_ctx \<Rightarrow> int prog" where
  "trace_sys_exit_dup2 K ctx = do {
     r \<leftarrow> handle_exit_event K (ucast (exit_id ctx));
     case r of
       None \<Rightarrow> return 0
     | Some e \<Rightarrow> do {
         let e = e\<lparr>ev_ret := exit_ret ctx\<rparr>;
         bpf_ringbuf_submit e;
         return 0
       }
   }"

definition trace_sys_enter_dup3 :: "kernel \<Rightarrow> sys_enter_ctx \<Rightarrow> int prog" where
  "trace_sys_enter_dup3 K ctx = do {
     r \<leftarrow> handle_enter_event K (ucast (enter_id ctx));
     case r of
       None \<Rightarrow> return 0
     | Some e \<Rightarrow> do {
         let e = set_s32 0 (ucast (args ctx 0)) e;
         let e = set_s32 1 (ucast (args ctx 1)) e;
         let e = set_s32 2 (ucast (args ctx 2)) e;
         bpf_ringbuf_submit e;
         return 0
       }
   }"

definition trace_sys_exit_dup3 :: "kernel \<Rightarrow> sys_exit_ctx \<Rightarrow> int prog" where
  "trace_sys_exit_dup3 K ctx = do {
     r \<leftarrow> handle_exit_event K (ucast (exit_id ctx));
     case r of
       None \<Rightarrow> return 0
     | Some e \<Rightarrow> do {
         let e = e\<lparr>ev_ret := exit_ret ctx\<rparr>;
         bpf_ringbuf_submit e;
         return 0
       }
   }"

definition trace_sys_enter_flock :: "kernel \<Rightarrow> sys_enter_ctx \<Rightarrow> int prog" where
  "trace_sys_enter_flock K ctx = do {
     r \<leftarrow> handle_enter_event K (ucast (enter_id ctx));
     case r of
       None \<Rightarrow> return 0
     | Some e \<Rightarrow> do {
         let e = set_s32 0 (ucast (args ctx 0)) e;
         let e = set_s32 1 (ucast (args ctx 1)) e;
         bpf_ringbuf_submit e;
         return 0
       }
   }"

definition trace_sys_exit_flock :: "kernel \<Rightarrow> sys_exit_ctx \<Rightarrow> int prog" where
  "trace_sys_exit_flock K ctx = do {
     r \<leftarrow> handle_exit_event K (ucast (exit_id ctx));
     case r of
       None \<Rightarrow> return 0
     | Some e \<Rightarrow> do {
         let e = e\<lparr>ev_ret := exit_ret ctx\<rparr>;
         bpf_ringbuf_submit e;
         return 0
       }
   }"

definition trace_sys_enter_read :: "kernel \<Rightarrow> sys_enter_ctx \<Rightarrow> int prog" where
  "trace_sys_enter_read K ctx = do {
     r \<leftarrow> handle_enter_event K (ucast (enter_id ctx));
     case r of
       None \<Rightarrow> return 0
     | Some e \<Rightarrow> do {
         let e = set_s32 0 (ucast (args ctx 0)) e;
         let e = set_u64 0 (args ctx 2) e;
         bpf_ringbuf_submit e;
         return 0
       }
   }"

definition trace_sys_exit_read :: "kernel \<Rightarrow> sys_exit_ctx \<Rightarrow> int prog" where
  "trace_sys_exit_read K ctx = do {
     r \<leftarrow> handle_exit_event K (ucast (exit_id ctx));
     case r of
       None \<Rightarrow> return 0
     | Some e \<Rightarrow> do {
         let e = e\<lparr>ev_ret := exit_ret ctx\<rparr>;
         bpf_ringbuf_submit e;
         return 0
       }
   }"

definition trace_sys_enter_pread64 :: "kernel \<Rightarrow> sys_enter_ctx \<Rightarrow> int prog" where
  "trace_sys_enter_pread64 K ctx = do {
     r \<leftarrow> handle_enter_event K (ucast (enter_id ctx));
     case r of
       None \<Rightarrow> return 0
     | Some e \<Rightarrow> do {
         let e = set_s32 0 (ucast (args ctx 0)) e;
         let e = set_u64 0 (args ctx 2) e;
         let e = set_s64 0 (args ctx 3) e;
         bpf_ringbuf_submit e;
         return 0
       }
   }"

definition trace_sys_exit_pread64 :: "kernel \<Rightarrow> sys_exit_ctx \<Rightarrow> int prog" where
  "trace_sys_exit_pread64 K ctx = do {
     r \<leftarrow> handle_exit_event K (ucast (exit_id ctx));
     case r of
       None \<Rightarrow> return 0
     | Some e \<Rightarrow> do {
         let e = e\<lparr>ev_ret := exit_ret ctx\<rparr>;
         bpf_ringbuf_submit e;
         return 0
       }
   }"

definition trace_sys_enter_readv :: "kernel \<Rightarrow> sys_enter_ctx \<Rightarrow> int prog" where
  "trace_sys_enter_readv K ctx = do {
     r \<leftarrow> handle_enter_event K (ucast (enter_id ctx));
     case r of
       None \<Rightarrow> return 0
     | Some e \<Rightarrow> do {
         let e = set_s32 0 (ucast (args ctx 0)) e;
         let e = set_s32 1 (ucast (args ctx 2)) e;
         bpf_ringbuf_submit e;
         return 0
       }
   }"

definition trace_sys_exit_readv :: "kernel \<Rightarrow> sys_exit_ctx \<Rightarrow> int prog" where
  "trace_sys_exit_readv K ctx = do {
     r \<leftarrow> handle_exit_event K (ucast (exit_id ctx));
     case r of
       None \<Rightarrow> return 0
     | Some e \<Rightarrow> do {
         let e = e\<lparr>ev_ret := exit_ret ctx\<rparr>;
         bpf_ringbuf_submit e;
         return 0
       }
   }"

definition trace_sys_enter_preadv :: "kernel \<Rightarrow> sys_enter_ctx \<Rightarrow> int prog" where
  "trace_sys_enter_preadv K ctx = do {
     r \<leftarrow> handle_enter_event K (ucast (enter_id ctx));
     case r of
       None \<Rightarrow> return 0
     | Some e \<Rightarrow> do {
         let e = set_s32 0 (ucast (args ctx 0)) e;
         let e = set_s32 1 (ucast (args ctx 2)) e;
         let e = set_s64 0 (args ctx 3) e;
         bpf_ringbuf_submit e;
         return 0
       }
   }"

definition trace_sys_exit_preadv :: "kernel \<Rightarrow> sys_exit_ctx \<Rightarrow> int prog" where
  "trace_sys_exit_preadv K ctx = do {
     r \<leftarrow> handle_exit_event K (ucast (exit_id ctx));
     case r of
       None \<Rightarrow> return 0
     | Some e \<Rightarrow> do {
         let e = e\<lparr>ev_ret := exit_ret ctx\<rparr>;
         bpf_ringbuf_submit e;
         return 0
       }
   }"

definition trace_sys_enter_preadv2 :: "kernel \<Rightarrow> sys_enter_ctx \<Rightarrow> int prog" where
  "trace_sys_enter_preadv2 K ctx = do {
     r \<leftarrow> handle_enter_event K (ucast (enter_id ctx));
     case r of
       None \<Rightarrow> return 0
     | Some e \<Rightarrow> do {
         let e = set_s32 0 (ucast (args ctx 0)) e;
         let e = set_s32 1 (ucast (args ctx 2)) e;
         let e = set_s64 0 (args ctx 3) e;
         let e = set_s32 2 (ucast (args ctx 4)) e;
         bpf_ringbuf_submit e;
         return 0
       }
   }"

definition trace_sys_exit_preadv2 :: "kernel \<Rightarrow> sys_exit_ctx \<Rightarrow> int prog" where
  "trace_sys_exit_preadv2 K ctx = do {
     r \<leftarrow> handle_exit_event K (ucast (exit_id ctx));
     case r of
       None \<Rightarrow> return 0
     | Some e \<Rightarrow> do {
         let e = e\<lparr>ev_ret := exit_ret ctx\<rparr>;
         bpf_ringbuf_submit e;
         return 0
       }
   }"

definition trace_sys_enter_write :: "kernel \<Rightarrow> sys_enter_ctx \<Rightarrow> int prog" where
  "trace_sys_enter_write K ctx = do {
     r \<leftarrow> handle_enter_event K (ucast (enter_id ctx));
     case r of
       None \<Rightarrow> return 0
     | Some e \<Rightarrow> do {
         let e = set_s32 0 (ucast (args ctx 0)) e;
         let e = set_u64 0 (args ctx 2) e;
         bpf_ringbuf_submit e;
         return 0
       }
   }"

definition trace_sys_exit_write :: "kernel \<Rightarrow> sys_exit_ctx \<Rightarrow> int prog" where
  "trace_sys_exit_write K ctx = do {
     r \<leftarrow> handle_exit_event K (ucast (exit_id ctx));
     case r of
       None \<Rightarrow> return 0
     | Some e \<Rightarrow> do {
         let e = e\<lparr>ev_ret := exit_ret ctx\<rparr>;
         bpf_ringbuf_submit e;
         return 0
       }
   }"

definition trace_sys_enter_pwrite64 :: "kernel \<Rightarrow> sys_enter_ctx \<Rightarrow> int prog" where
  "trace_sys_enter_pwrite64 K ctx = do {
     r \<leftarrow> handle_enter_event K (ucast (enter_id ctx));
     case r of
       None \<Rightarrow> return 0
     | Some e \<Rightarrow> do {
         let e = set_s32 0 (ucast (args ctx 0)) e;
         let e = set_u64 0 (args ctx 2) e;
         let e = set_s64 0 (args ctx 3) e;
         bpf_ringbuf_submit e;
         return 0
       }
   }"

definition trace_sys_exit_pwrite64 :: "kernel \<Rightarrow> sys_exit_ctx \<Rightarrow> int prog" where
  "trace_sys_exit_pwrite64 K ctx = do {
     r \<leftarrow> handle_exit_event K (ucast (exit_id ctx));
     case r of
       None \<Rightarrow> return 0
     | Some e \<Rightarrow> do {
         let e = e\<lparr>ev_ret := exit_ret ctx\<rparr>;
         bpf_ringbuf_submit e;
         return 0
       }
   }"

definition trace_sys_enter_writev :: "kernel \<Rightarrow> sys_enter_ctx \<Rightarrow> int prog" where
  "trace_sys_enter_writev K ctx = do {
     r \<leftarrow> handle_enter_event K (ucast (enter_id ctx));
     case r of
       None \<Rightarrow> return 0
     | Some e \<Rightarrow> do {
         let e = set_s32 0 (ucast (args ctx 0)) e;
         let e = set_s32 1 (ucast (args ctx 2)) e;
         bpf_ringbuf_submit e;
         return 0
       }
   }"

definition trace_sys_exit_writev :: "kernel \<Rightarrow> sys_exit_ctx \<Rightarrow> int prog" where
  "trace_sys_exit_writev K ctx = do {
     r \<leftarrow> handle_exit_event K (ucast (exit_id ctx));
     case r of
       None \<Rightarrow> return 0
     | Some e \<Rightarrow> do {
         let e = e\<lparr>ev_ret := exit_ret ctx\<rparr>;
         bpf_ringbuf_submit e;
         return 0
       }
   }"

definition trace_sys_enter_pwritev :: "kernel \<Rightarrow> sys_enter_ctx \<Rightarrow> int prog" where
  "trace_sys_enter_pwritev K ctx = do {
     r \<leftarrow> handle_enter_event K (ucast (enter_id ctx));
     case r of
       None \<Rightarrow> return 0
     | Some e \<Rightarrow> do {
         let e = set_s32 0 (ucast (args ctx 0)) e;
         let e = set_s32 1 (ucast (args ctx 2)) e;
         let e = set_s64 0 (args ctx 3) e;
         bpf_ringbuf_submit e;
         return 0
       }
   }"

definition trace_sys_exit_pwritev :: "kernel \<Rightarrow> sys_exit_ctx \<Rightarrow> int prog" where
  "trace_sys_exit_pwritev K ctx = do {
     r \<leftarrow> handle_exit_event K (ucast (exit_id ctx));
     case r of
       None \<Rightarrow> return 0
     | Some e \<Rightarrow> do {
         let e = e\<lparr>ev_ret := exit_ret ctx\<rparr>;
         bpf_ringbuf_submit e;
         return 0
       }
   }"

definition trace_sys_enter_pwritev2 :: "kernel \<Rightarrow> sys_enter_ctx \<Rightarrow> int prog" where
  "trace_sys_enter_pwritev2 K ctx = do {
     r \<leftarrow> handle_enter_event K (ucast (enter_id ctx));
     case r of
       None \<Rightarrow> return 0
     | Some e \<Rightarrow> do {
         let e = set_s32 0 (ucast (args ctx 0)) e;
         let e = set_s32 1 (ucast (args ctx 2)) e;
         let e = set_u64 0 (args ctx 3) e;
         let e = set_s32 2 (ucast (args ctx 4)) e;
         bpf_ringbuf_submit e;
         return 0
       }
   }"

definition trace_sys_exit_pwritev2 :: "kernel \<Rightarrow> sys_exit_ctx \<Rightarrow> int prog" where
  "trace_sys_exit_pwritev2 K ctx = do {
     r \<leftarrow> handle_exit_event K (ucast (exit_id ctx));
     case r of
       None \<Rightarrow> return 0
     | Some e \<Rightarrow> do {
         let e = e\<lparr>ev_ret := exit_ret ctx\<rparr>;
         bpf_ringbuf_submit e;
         return 0
       }
   }"

definition trace_sys_enter_lseek :: "kernel \<Rightarrow> sys_enter_ctx \<Rightarrow> int prog" where
  "trace_sys_enter_lseek K ctx = do {
     r \<leftarrow> handle_enter_event K (ucast (enter_id ctx));
     case r of
       None \<Rightarrow> return 0
     | Some e \<Rightarrow> do {
         let e = set_s32 0 (ucast (args ctx 0)) e;
         let e = set_s64 0 (args ctx 1) e;
         let e = set_s32 1 (ucast (args ctx 2)) e;
         bpf_ringbuf_submit e;
         return 0
       }
   }"

definition trace_sys_exit_lseek :: "kernel \<Rightarrow> sys_exit_ctx \<Rightarrow> int prog" where
  "trace_sys_exit_lseek K ctx = do {
     r \<leftarrow> handle_exit_event K (ucast (exit_id ctx));
     case r of
       None \<Rightarrow> return 0
     | Some e \<Rightarrow> do {
         let e = e\<lparr>ev_ret := exit_ret ctx\<rparr>;
         bpf_ringbuf_submit e;
         return 0
       }
   }"

definition trace_sys_enter_sendfile64 :: "kernel \<Rightarrow> sys_enter_ctx \<Rightarrow> int prog" where
  "trace_sys_enter_sendfile64 K ctx = do {
     r \<leftarrow> handle_enter_event K (ucast (enter_id ctx));
     case r of
       None \<Rightarrow> return 0
     | Some e \<Rightarrow> do {
         let e = set_s32 0 (ucast (args ctx 0)) e;
         let e = set_s32 1 (ucast (args ctx 1)) e;
         let e = set_s64 0 (args ctx 2) e;
         let e = set_u64 0 (args ctx 3) e;
         bpf_ringbuf_submit e;
         return 0
       }
   }"

definition trace_sys_exit_sendfile64 :: "kernel \<Rightarrow> sys_exit_ctx \<Rightarrow> int prog" where
  "trace_sys_exit_sendfile64 K ctx = do {
     r \<leftarrow> handle_exit_event K (ucast (exit_id ctx));
     case r of
       None \<Rightarrow> return 0
     | Some e \<Rightarrow> do {
         let e = e\<lparr>ev_ret := exit_ret ctx\<rparr>;
         bpf_ringbuf_submit e;
         return 0
       }
   }"

definition trace_sys_enter_inotify_init :: "kernel \<Rightarrow> sys_enter_ctx \<Rightarrow> int prog" where
  "trace_sys_enter_inotify_init K ctx = do {
     r \<leftarrow> handle_enter_event K (ucast (enter_id ctx));
     case r of
       None \<Rightarrow> return 0
     | Some e \<Rightarrow> do {
         bpf_ringbuf_submit e;
         return 0
       }
   }"

definition trace_sys_exit_inotify_init :: "kernel \<Rightarrow> sys_exit_ctx \<Rightarrow> int prog" where
  "trace_sys_exit_inotify_init K ctx = do {
     r \<leftarrow> handle_exit_event K (ucast (exit_id ctx));
     case r of
       None \<Rightarrow> return 0
     | Some e \<Rightarrow> do {
         let e = e\<lparr>ev_ret := exit_ret ctx\<rparr>;
         bpf_ringbuf_submit e;
         return 0
       }
   }"

definition trace_sys_enter_inotify_init1 :: "kernel \<Rightarrow> sys_enter_ctx \<Rightarrow> int prog" where
  "trace_sys_enter_inotify_init1 K ctx = do {
     r \<leftarrow> handle_enter_event K (ucast (enter_id ctx));
     case r of
       None \<Rightarrow> return 0
     | Some e \<Rightarrow> do {
         let e = set_s32 0 (ucast (args ctx 0)) e;
         bpf_ringbuf_submit e;
         return 0
       }
   }"

definition trace_sys_exit_inotify_init1 :: "kernel \<Rightarrow> sys_exit_ctx \<Rightarrow> int prog" where
  "trace_sys_exit_inotify_init1 K ctx = do {
     r \<leftarrow> handle_exit_event K (ucast (exit_id ctx));
     case r of
       None \<Rightarrow> return 0
     | Some e \<Rightarrow> do {
         let e = e\<lparr>ev_ret := exit_ret ctx\<rparr>;
         bpf_ringbuf_submit e;
         return 0
       }
   }"

definition trace_sys_enter_inotify_add_watch :: "kernel \<Rightarrow> sys_enter_ctx \<Rightarrow> int prog" where
  "trace_sys_enter_inotify_add_watch K ctx = do {
     r \<leftarrow> handle_enter_event K (ucast (enter_id ctx));
     case r of
       None \<Rightarrow> return 0
     | Some e \<Rightarrow> do {
         let e = set_s32 0 (ucast (args ctx 0)) e;
         let e = set_u32 0 (ucast (args ctx 2)) e;
         let e = e\<lparr>is_valid := False\<rparr>;
         let pathname_ptr = args ctx 1;
         e \<leftarrow> (if pathname_ptr \<noteq> 0 then do {
             (n, bs) \<leftarrow> bpf_probe_read_user_str K 256 pathname_ptr (arg_str e);
             let e = e\<lparr>arg_str := bs\<rparr>;
             if 0 \<le> n then return (e\<lparr>is_valid := True\<rparr>) else return e
           } else return e);
         bpf_ringbuf_submit e;
         return 0
       }
   }"

definition trace_sys_exit_inotify_add_watch :: "kernel \<Rightarrow> sys_exit_ctx \<Rightarrow> int prog" where
  "trace_sys_exit_inotify_add_watch K ctx = do {
     r \<leftarrow> handle_exit_event K (ucast (exit_id ctx));
     case r of
       None \<Rightarrow> return 0
     | Some e \<Rightarrow> do {
         let e = e\<lparr>ev_ret := exit_ret ctx\<rparr>;
         bpf_ringbuf_submit e;
         return 0
       }
   }"

definition trace_sys_enter_inotify_rm_watch :: "kernel \<Rightarrow> sys_enter_ctx \<Rightarrow> int prog" where
  "trace_sys_enter_inotify_rm_watch K ctx = do {
     r \<leftarrow> handle_enter_event K (ucast (enter_id ctx));
     case r of
       None \<Rightarrow> return 0
     | Some e \<Rightarrow> do {
         let e = set_s32 0 (ucast (args ctx 0)) e;
         let e = set_s32 1 (ucast (args ctx 1)) e;
         bpf_ringbuf_submit e;
         return 0
       }
   }"

definition trace_sys_exit_inotify_rm_watch :: "kernel \<Rightarrow> sys_exit_ctx \<Rightarrow> int prog" where
  "trace_sys_exit_inotify_rm_watch K ctx = do {
     r \<leftarrow> handle_exit_event K (ucast (exit_id ctx));
     case r of
       None \<Rightarrow> return 0
     | Some e \<Rightarrow> do {
         let e = e\<lparr>ev_ret := exit_ret ctx\<rparr>;
         bpf_ringbuf_submit e;
         return 0
       }
   }"

definition trace_sys_enter_fanotify_init :: "kernel \<Rightarrow> sys_enter_ctx \<Rightarrow> int prog" where
  "trace_sys_enter_fanotify_init K ctx = do {
     r \<leftarrow> handle_enter_event K (ucast (enter_id ctx));
     case r of
       None \<Rightarrow> return 0
     | Some e \<Rightarrow> do {
         let e = set_u32 0 (ucast (args ctx 0)) e;
         let e = set_u32 1 (ucast (args ctx 1)) e;
         bpf_ringbuf_submit e;
         return 0
       }
   }"

definition trace_sys_exit_fanotify_init :: "kernel \<Rightarrow> sys_exit_ctx \<Rightarrow> int prog" where
  "trace_sys_exit_fanotify_init K ctx = do {
     r \<leftarrow> handle_exit_event K (ucast (exit_id ctx));
     case r of
       None \<Rightarrow> return 0
     | Some e \<Rightarrow> do {
         let e = e\<lparr>ev_ret := exit_ret ctx\<rparr>;
         bpf_ringbuf_submit e;
         return 0
       }
   }"

definition trace_sys_enter_fanotify_mark :: "kernel \<Rightarrow> sys_enter_ctx \<Rightarrow> int prog" where
  "trace_sys_enter_fanotify_mark K ctx = do {
     r \<leftarrow> handle_enter_event K (ucast (enter_id ctx));
     case r of
       None \<Rightarrow> return 0
     | Some e \<Rightarrow> do {
         let e = set_s32 0 (ucast (args ctx 0)) e;
         let e = set_u32 0 (ucast (args ctx 1)) e;
         let e = set_u64 0 (args ctx 2) e;
         let e = set_s32 1 (ucast (args ctx 3)) e;
         let e = e\<lparr>is_valid := False\<rparr>;
         let e = e\<lparr>is_null := True\<rparr>;
         let pathname_ptr = args ctx 4;
         e \<leftarrow> (if pathname_ptr \<noteq> 0 then do {
             let e = e\<lparr>is_null := False\<rparr>;
             (n, bs) \<leftarrow> bpf_probe_read_user_str K 256 pathname_ptr (arg_str e);
             let e = e\<lparr>arg_str := bs\<rparr>;
             if 0 \<le> n then return (e\<lparr>is_valid := True\<rparr>) else return e
           } else return e);
         bpf_ringbuf_submit e;
         return 0
       }
   }"

definition trace_sys_exit_fanotify_mark :: "kernel \<Rightarrow> sys_exit_ctx \<Rightarrow> int prog" where
  "trace_sys_exit_fanotify_mark K ctx = do {
     r \<leftarrow> handle_exit_event K (ucast (exit_id ctx));
     case r of
       None \<Rightarrow> return 0
     | Some e \<Rightarrow> do {
         let e = e\<lparr>ev_ret := exit_ret ctx\<rparr>;
         bpf_ringbuf_submit e;
         return 0
       }
   }"

definition trace_sys_enter_mount :: "kernel \<Rightarrow> sys_enter_ctx \<Rightarrow> int prog" where
  "trace_sys_enter_mount K ctx = do {
     r \<leftarrow> handle_enter_event K (ucast (enter_id ctx));
     case r of
       None \<Rightarrow> return 0
     | Some e \<Rightarrow> do {
         let e = set_u64 0 (args ctx 3) e;
         let e = e\<lparr>is_valid := False\<rparr>;
         let source_ptr = args ctx 0;
         let target_ptr = args ctx 1;
         let filesystemtype_ptr = args ctx 2;
         e \<leftarrow> (if source_ptr \<noteq> 0 \<and> target_ptr \<noteq> 0 \<and> filesystemtype_ptr \<noteq> 0 then do {
             (n, bs) \<leftarrow> bpf_probe_read_user_str K 256 source_ptr (arg_str e);
             let e = e\<lparr>arg_str := bs\<rparr>;
             if 0 \<le> n then do {
               (n, bs) \<leftarrow> bpf_probe_read_user_str K 256 target_ptr (arg_str2 e);
               let e = e\<lparr>arg_str2 := bs\<rparr>;
               if 0 \<le> n then do {
                 (n, bs) \<leftarrow> bpf_probe_read_user_str K 32 filesystemtype_ptr (filesystem_type e);
                 let e = e\<lparr>filesystem_type := bs\<rparr>;
                 if 0 \<le> n then return (e\<lparr>is_valid := True\<rparr>) else return e
               } else return e
             } else return e
           } else return e);
         bpf_ringbuf_submit e;
         return 0
       }
   }"

definition trace_sys_exit_mount :: "kernel \<Rightarrow> sys_exit_ctx \<Rightarrow> int prog" where
  "trace_sys_exit_mount K ctx = do {
     r \<leftarrow> handle_exit_event K (ucast (exit_id ctx));
     case r of
       None \<Rightarrow> return 0
     | Some e \<Rightarrow> do {
         let e = e\<lparr>ev_ret := exit_ret ctx\<rparr>;
         bpf_ringbuf_submit e;
         return 0
       }
   }"

definition trace_sys_enter_umount :: "kernel \<Rightarrow> sys_enter_ctx \<Rightarrow> int prog" where
  "trace_sys_enter_umount K ctx = do {
     r \<leftarrow> handle_enter_event K (ucast (enter_id ctx));
     case r of
       None \<Rightarrow> return 0
     | Some e \<Rightarrow> do {
         let e = set_s32 0 (ucast (args ctx 1)) e;
         let e = e\<lparr>is_valid := False\<rparr>;
         let target_ptr = args ctx 0;
         e \<leftarrow> (if target_ptr \<noteq> 0 then do {
             (n, bs) \<leftarrow> bpf_probe_read_user_str K 256 target_ptr (arg_str e);
             let e = e\<lparr>arg_str := bs\<rparr>;
             if 0 \<le> n then return (e\<lparr>is_valid := True\<rparr>) else return e
           } else return e);
         bpf_ringbuf_submit e;
         return 0
       }
   }"

definition trace_sys_exit_umount :: "kernel \<Rightarrow> sys_exit_ctx \<Rightarrow> int prog" where
  "trace_sys_exit_umount K ctx = do {
     r \<leftarrow> handle_exit_event K (ucast (exit_id ctx));
     case r of
       None \<Rightarrow> return 0
     | Some e \<Rightarrow> do {
         let e = e\<lparr>ev_ret := exit_ret ctx\<rparr>;
         bpf_ringbuf_submit e;
         return 0
       }
   }"

definition trace_sys_enter_move_mount :: "kernel \<Rightarrow> sys_enter_ctx \<Rightarrow> int prog" where
  "trace_sys_enter_move_mount K ctx = do {
     r \<leftarrow> handle_enter_event K (ucast (enter_id ctx));
     case r of
       None \<Rightarrow> return 0
     | Some e \<Rightarrow> do {
         let e = set_s32 0 (ucast (args ctx 0)) e;
         let e = set_s32 1 (ucast (args ctx 2)) e;
         let e = set_u64 0 (args ctx 4) e;
         let e = e\<lparr>is_valid := False\<rparr>;
         let from_ptr = args ctx 1;
         let to_ptr = args ctx 3;
         e \<leftarrow> (if from_ptr \<noteq> 0 \<and> to_ptr \<noteq> 0 then do {
             (n, bs) \<leftarrow> bpf_probe_read_user_str K 256 from_ptr (arg_str e);
             let e = e\<lparr>arg_str := bs\<rparr>;
             if 0 \<le> n then do {
               (n, bs) \<leftarrow> bpf_probe_read_user_str K 256 to_ptr (arg_str2 e);
               let e = e\<lparr>arg_str2 := bs\<rparr>;
               if 0 \<le> n then return (e\<lparr>is_valid := True\<rparr>) else return e
             } else return e
           } else return e);
         bpf_ringbuf_submit e;
         return 0
       }
   }"

definition trace_sys_exit_move_mount :: "kernel \<Rightarrow> sys_exit_ctx \<Rightarrow> int prog" where
  "trace_sys_exit_move_mount K ctx = do {
     r \<leftarrow> handle_exit_event K (ucast (exit_id ctx));
     case r of
       None \<Rightarrow> return 0
     | Some e \<Rightarrow> do {
         let e = e\<lparr>ev_ret := exit_ret ctx\<rparr>;
         bpf_ringbuf_submit e;
         return 0
       }
   }"

subsection \<open>Tables\<close>

definition meta_plain_enter :: "(string \<times> enter_program) list" where
  "meta_plain_enter =
     [(''chmod'', trace_sys_enter_chmod),
      (''fchmod'', trace_sys_enter_fchmod),
      (''fchmodat'', trace_sys_enter_fchmodat),
      (''chown'', trace_sys_enter_chown),
      (''lchown'', trace_sys_enter_lchown),
      (''fchown'', trace_sys_enter_fchown),
      (''fchownat'', trace_sys_enter_fchownat),
      (''access'', trace_sys_enter_access),
      (''faccessat'', trace_sys_enter_faccessat),
      (''fcntl'', trace_sys_enter_fcntl),
      (''dup'', trace_sys_enter_dup),
      (''dup2'', trace_sys_enter_dup2),
      (''dup3'', trace_sys_enter_dup3),
      (''flock'', trace_sys_enter_flock),
      (''read'', trace_sys_enter_read),
      (''pread64'', trace_sys_enter_pread64),
      (''readv'', trace_sys_enter_readv),
      (''preadv'', trace_sys_enter_preadv),
      (''preadv2'', trace_sys_enter_preadv2),
      (''write'', trace_sys_enter_write),
      (''pwrite64'', trace_sys_enter_pwrite64),
      (''writev'', trace_sys_enter_writev),
      (''pwritev'', trace_sys_enter_pwritev),
      (''pwritev2'', trace_sys_enter_pwritev2),
      (''lseek'', trace_sys_enter_lseek),
      (''sendfile64'', trace_sys_enter_sendfile64),
      (''inotify_init'', trace_sys_enter_inotify_init),
      (''inotify_init1'', trace_sys_enter_inotify_init1),
      (''inotify_add_watch'', trace_sys_enter_inotify_add_watch),
      (''inotify_rm_watch'', trace_sys_enter_inotify_rm_watch),
      (''fanotify_init'', trace_sys_enter_fanotify_init),
      (''fanotify_mark'', trace_sys_enter_fanotify_mark),
      (''mount'', trace_sys_enter_mount),
      (''umount'', trace_sys_enter_umount),
      (''move_mount'', trace_sys_enter_move_mount)]"

definition meta_plain_exit :: "(string \<times> exit_program) list" where
  "meta_plain_exit =
     [(''chmod'', trace_sys_exit_chmod),
      (''fchmod'', trace_sys_exit_fchmod),
      (''fchmodat'', trace_sys_exit_fchmodat),
      (''chown'', trace_sys_exit_chown),
      (''lchown'', trace_sys_exit_lchown),
      (''fchown'', trace_sys_exit_fchown),
      (''fchownat'', trace_sys_exit_fchownat),
      (''access'', trace_sys_exit_access),
      (''faccessat'', trace_sys_exit_faccessat),
      (''fcntl'', trace_sys_exit_fcntl),
      (''dup'', trace_sys_exit_dup),
      (''dup2'', trace_sys_exit_dup2),
      (''dup3'', trace_sys_exit_dup3),
      (''flock'', trace_sys_exit_flock),
      (''read'', trace_sys_exit_read),
      (''pread64'', trace_sys_exit_pread64),
      (''readv'', trace_sys_exit_readv),
      (''preadv'', trace_sys_exit_preadv),
      (''preadv2'', trace_sys_exit_preadv2),
      (''write'', trace_sys_exit_write),
      (''pwrite64'', trace_sys_exit_pwrite64),
      (''writev'', trace_sys_exit_writev),
      (''pwritev'', trace_sys_exit_pwritev),
      (''pwritev2'', trace_sys_exit_pwritev2),
      (''lseek'', trace_sys_exit_lseek),
      (''sendfile64'', trace_sys_exit_sendfile64),
      (''inotify_init'', trace_sys_exit_inotify_init),
      (''inotify_init1'', trace_sys_exit_inotify_init1),
      (''inotify_add_watch'', trace_sys_exit_inotify_add_watch),
      (''inotify_rm_watch'', trace_sys_exit_inotify_rm_watch),
      (''fanotify_init'', trace_sys_exit_fanotify_init),
      (''fanotify_mark'', trace_sys_exit_fanotify_mark),
      (''mount'', trace_sys_exit_mount),
      (''umount'', trace_sys_exit_umount),
      (''move_mount'', trace_sys_exit_move_mount)]"

subsection \<open>The logging contract\<close>

lemmas meta_plain_enter_defs =
  trace_sys_enter_chmod_def trace_sys_enter_fchmod_def trace_sys_enter_fchmodat_def
  trace_sys_enter_chown_def trace_sys_enter_lchown_def trace_sys_enter_fchown_def
  trace_sys_enter_fchownat_def trace_sys_enter_access_def trace_sys_enter_faccessat_def
  trace_sys_enter_fcntl_def trace_sys_enter_dup_def trace_sys_enter_dup2_def
  trace_sys_enter_dup3_def trace_sys_enter_flock_def trace_sys_enter_read_def
  trace_sys_enter_pread64_def trace_sys_enter_readv_def trace_sys_enter_preadv_def
  trace_sys_enter_preadv2_def trace_sys_enter_write_def trace_sys_enter_pwrite64_def
  trace_sys_enter_writev_def trace_sys_enter_pwritev_def trace_sys_enter_pwritev2_def
  trace_sys_enter_lseek_def trace_sys_enter_sendfile64_def trace_sys_enter_inotify_init_def
  trace_sys_enter_inotify_init1_def trace_sys_enter_inotify_add_watch_def
  trace_sys_enter_inotify_rm_watch_def trace_sys_enter_fanotify_init_def
  trace_sys_enter_fanotify_mark_def trace_sys_enter_mount_def trace_sys_enter_umount_def
  trace_sys_enter_move_mount_def

lemma meta_plain_enter_probe:
  "list_all (\<lambda>(n, p). \<forall>K ctx. probe K True (ucast (enter_id ctx)) unchanged (p K ctx))
     meta_plain_enter"
  unfolding meta_plain_enter_def list.pred_inject prod.case
  apply (intro conjI allI TrueI)
  unfolding meta_plain_enter_defs Let_def
  by (rule probe_plain_enter submits_rules keeps_rules quiet_helpers zero_rules | (simp; fail))+

lemmas meta_plain_exit_defs =
  trace_sys_exit_chmod_def trace_sys_exit_fchmod_def trace_sys_exit_fchmodat_def
  trace_sys_exit_chown_def trace_sys_exit_lchown_def trace_sys_exit_fchown_def
  trace_sys_exit_fchownat_def trace_sys_exit_access_def trace_sys_exit_faccessat_def
  trace_sys_exit_fcntl_def trace_sys_exit_dup_def trace_sys_exit_dup2_def
  trace_sys_exit_dup3_def trace_sys_exit_flock_def trace_sys_exit_read_def
  trace_sys_exit_pread64_def trace_sys_exit_readv_def trace_sys_exit_preadv_def
  trace_sys_exit_preadv2_def trace_sys_exit_write_def trace_sys_exit_pwrite64_def
  trace_sys_exit_writev_def trace_sys_exit_pwritev_def trace_sys_exit_pwritev2_def
  trace_sys_exit_lseek_def trace_sys_exit_sendfile64_def trace_sys_exit_inotify_init_def
  trace_sys_exit_inotify_init1_def trace_sys_exit_inotify_add_watch_def
  trace_sys_exit_inotify_rm_watch_def trace_sys_exit_fanotify_init_def
  trace_sys_exit_fanotify_mark_def trace_sys_exit_mount_def trace_sys_exit_umount_def
  trace_sys_exit_move_mount_def

lemma meta_plain_exit_probe:
  "list_all (\<lambda>(n, p). \<forall>K ctx. probe K False (ucast (exit_id ctx)) unchanged (p K ctx))
     meta_plain_exit"
  unfolding meta_plain_exit_def list.pred_inject prod.case
  apply (intro conjI allI TrueI)
  unfolding meta_plain_exit_defs Let_def
  by (rule probe_plain_exit submits_rules keeps_rules quiet_helpers zero_rules | (simp; fail))+

end
