(* ===== verification/Trace_Proc.thy ===== *)
theory Trace_Proc
  imports Trace_Rules
begin

section \<open>Tracepoint programs: processes, identities, limits and priorities\<close>

text \<open>
  The programs of \<open>src/src/tracepoint/tracepoint.bpf.c\<close>, lines 3292 to 4393, one definition
  each under the program's own name, in the order of the source.  The tables at the end pair the
  system call of the attach point with its program, split by what the program does to the
  argument maps; the lemmas after them prove the logging contract of each table.
\<close>

definition trace_sys_enter_clone :: "kernel \<Rightarrow> sys_enter_ctx \<Rightarrow> int prog" where
  "trace_sys_enter_clone K ctx = do {
     r \<leftarrow> handle_enter_event K (ucast (enter_id ctx));
     case r of
       None \<Rightarrow> return 0
     | Some e \<Rightarrow> do {
         let e = set_u64 0 (args ctx 0) e;
         let e = set_s32 0 (ucast (args ctx 2)) e;
         bpf_ringbuf_submit e;
         return 0
       }
   }"

definition trace_sys_exit_clone :: "kernel \<Rightarrow> sys_exit_ctx \<Rightarrow> int prog" where
  "trace_sys_exit_clone K ctx = do {
     r \<leftarrow> handle_exit_event K (ucast (exit_id ctx));
     case r of
       None \<Rightarrow> return 0
     | Some e \<Rightarrow> do {
         let e = e\<lparr>ev_ret := exit_ret ctx\<rparr>;
         bpf_ringbuf_submit e;
         return 0
       }
   }"

definition trace_sys_enter_clone3 :: "kernel \<Rightarrow> sys_enter_ctx \<Rightarrow> int prog" where
  "trace_sys_enter_clone3 K ctx = do {
     r \<leftarrow> handle_enter_event K (ucast (enter_id ctx));
     case r of
       None \<Rightarrow> return 0
     | Some e \<Rightarrow> do {
         let e = e\<lparr>is_valid := False\<rparr>;
         let args_ptr = args ctx 0;
         e \<leftarrow> (if args_ptr \<noteq> 0 then do {
             (rc, bs) \<leftarrow> read_user_local K 88 args_ptr;
             if rc = 0 then do {
               let cl_args = decode_clone_args bs;
               let e = set_u64 0 (cl_flags cl_args) e;
               let e = set_u64 1 (cl_stack cl_args) e;
               let e = set_u64 2 (cl_stack_size cl_args) e;
               let e = set_u64 3 (cl_cgroup cl_args) e;
               return (e\<lparr>is_valid := True\<rparr>)
             } else return e
           } else return e);
         bpf_ringbuf_submit e;
         return 0
       }
   }"

definition trace_sys_exit_clone3 :: "kernel \<Rightarrow> sys_exit_ctx \<Rightarrow> int prog" where
  "trace_sys_exit_clone3 K ctx = do {
     r \<leftarrow> handle_exit_event K (ucast (exit_id ctx));
     case r of
       None \<Rightarrow> return 0
     | Some e \<Rightarrow> do {
         let e = e\<lparr>ev_ret := exit_ret ctx\<rparr>;
         bpf_ringbuf_submit e;
         return 0
       }
   }"

definition trace_sys_enter_fork :: "kernel \<Rightarrow> sys_enter_ctx \<Rightarrow> int prog" where
  "trace_sys_enter_fork K ctx = do {
     r \<leftarrow> handle_enter_event K (ucast (enter_id ctx));
     case r of
       None \<Rightarrow> return 0
     | Some e \<Rightarrow> do {
         bpf_ringbuf_submit e;
         return 0
       }
   }"

definition trace_sys_exit_fork :: "kernel \<Rightarrow> sys_exit_ctx \<Rightarrow> int prog" where
  "trace_sys_exit_fork K ctx = do {
     r \<leftarrow> handle_exit_event K (ucast (exit_id ctx));
     case r of
       None \<Rightarrow> return 0
     | Some e \<Rightarrow> do {
         let e = e\<lparr>ev_ret := exit_ret ctx\<rparr>;
         bpf_ringbuf_submit e;
         return 0
       }
   }"

definition trace_sys_enter_vfork :: "kernel \<Rightarrow> sys_enter_ctx \<Rightarrow> int prog" where
  "trace_sys_enter_vfork K ctx = do {
     r \<leftarrow> handle_enter_event K (ucast (enter_id ctx));
     case r of
       None \<Rightarrow> return 0
     | Some e \<Rightarrow> do {
         bpf_ringbuf_submit e;
         return 0
       }
   }"

definition trace_sys_exit_vfork :: "kernel \<Rightarrow> sys_exit_ctx \<Rightarrow> int prog" where
  "trace_sys_exit_vfork K ctx = do {
     r \<leftarrow> handle_exit_event K (ucast (exit_id ctx));
     case r of
       None \<Rightarrow> return 0
     | Some e \<Rightarrow> do {
         let e = e\<lparr>ev_ret := exit_ret ctx\<rparr>;
         bpf_ringbuf_submit e;
         return 0
       }
   }"

definition trace_sys_enter_execve :: "kernel \<Rightarrow> sys_enter_ctx \<Rightarrow> int prog" where
  "trace_sys_enter_execve K ctx = do {
     r \<leftarrow> handle_enter_event K (ucast (enter_id ctx));
     case r of
       None \<Rightarrow> return 0
     | Some e \<Rightarrow> do {
         let e = e\<lparr>is_valid := False\<rparr>;
         let pathname_ptr = args ctx 0;
         e \<leftarrow> (if pathname_ptr \<noteq> 0 then do {
             (n, bs) \<leftarrow> bpf_probe_read_user_str K 256 pathname_ptr (arg_str e);
             let e = e\<lparr>arg_str := bs\<rparr>;
             if 0 \<le> n then return (e\<lparr>is_valid := True\<rparr>) else return e
           } else return e);
         bpf_ringbuf_submit e;
         return 0
       }
   }"

definition trace_sys_exit_execve :: "kernel \<Rightarrow> sys_exit_ctx \<Rightarrow> int prog" where
  "trace_sys_exit_execve K ctx = do {
     r \<leftarrow> handle_exit_event K (ucast (exit_id ctx));
     case r of
       None \<Rightarrow> return 0
     | Some e \<Rightarrow> do {
         let e = e\<lparr>ev_ret := exit_ret ctx\<rparr>;
         bpf_ringbuf_submit e;
         return 0
       }
   }"

definition trace_sys_enter_execveat :: "kernel \<Rightarrow> sys_enter_ctx \<Rightarrow> int prog" where
  "trace_sys_enter_execveat K ctx = do {
     r \<leftarrow> handle_enter_event K (ucast (enter_id ctx));
     case r of
       None \<Rightarrow> return 0
     | Some e \<Rightarrow> do {
         let e = set_s32 0 (ucast (args ctx 0)) e;
         let e = set_s32 1 (ucast (args ctx 4)) e;
         let e = e\<lparr>is_valid := False\<rparr>;
         let pathname_ptr = args ctx 1;
         e \<leftarrow> (if pathname_ptr \<noteq> 0 then do {
             (n, bs) \<leftarrow> bpf_probe_read_user_str K 256 pathname_ptr (arg_str e);
             let e = e\<lparr>arg_str := bs\<rparr>;
             if 0 \<le> n then return (e\<lparr>is_valid := True\<rparr>) else return e
           } else return e);
         bpf_ringbuf_submit e;
         return 0
       }
   }"

definition trace_sys_exit_execveat :: "kernel \<Rightarrow> sys_exit_ctx \<Rightarrow> int prog" where
  "trace_sys_exit_execveat K ctx = do {
     r \<leftarrow> handle_exit_event K (ucast (exit_id ctx));
     case r of
       None \<Rightarrow> return 0
     | Some e \<Rightarrow> do {
         let e = e\<lparr>ev_ret := exit_ret ctx\<rparr>;
         bpf_ringbuf_submit e;
         return 0
       }
   }"

definition trace_sys_enter_exit :: "kernel \<Rightarrow> sys_enter_ctx \<Rightarrow> int prog" where
  "trace_sys_enter_exit K ctx = do {
     r \<leftarrow> handle_enter_event K (ucast (enter_id ctx));
     case r of
       None \<Rightarrow> return 0
     | Some e \<Rightarrow> do {
         let e = set_s32 0 (ucast (args ctx 0)) e;
         bpf_ringbuf_submit e;
         return 0
       }
   }"

definition trace_sys_exit_exit :: "kernel \<Rightarrow> sys_exit_ctx \<Rightarrow> int prog" where
  "trace_sys_exit_exit K ctx = do {
     r \<leftarrow> handle_exit_event K (ucast (exit_id ctx));
     case r of
       None \<Rightarrow> return 0
     | Some e \<Rightarrow> do {
         let e = e\<lparr>ev_ret := exit_ret ctx\<rparr>;
         bpf_ringbuf_submit e;
         return 0
       }
   }"

definition trace_sys_enter_exit_group :: "kernel \<Rightarrow> sys_enter_ctx \<Rightarrow> int prog" where
  "trace_sys_enter_exit_group K ctx = do {
     r \<leftarrow> handle_enter_event K (ucast (enter_id ctx));
     case r of
       None \<Rightarrow> return 0
     | Some e \<Rightarrow> do {
         let e = set_s32 0 (ucast (args ctx 0)) e;
         bpf_ringbuf_submit e;
         return 0
       }
   }"

definition trace_sys_exit_exit_group :: "kernel \<Rightarrow> sys_exit_ctx \<Rightarrow> int prog" where
  "trace_sys_exit_exit_group K ctx = do {
     r \<leftarrow> handle_exit_event K (ucast (exit_id ctx));
     case r of
       None \<Rightarrow> return 0
     | Some e \<Rightarrow> do {
         let e = e\<lparr>ev_ret := exit_ret ctx\<rparr>;
         bpf_ringbuf_submit e;
         return 0
       }
   }"

definition trace_sys_enter_wait4 :: "kernel \<Rightarrow> sys_enter_ctx \<Rightarrow> int prog" where
  "trace_sys_enter_wait4 K ctx = do {
     r \<leftarrow> handle_enter_event K (ucast (enter_id ctx));
     case r of
       None \<Rightarrow> return 0
     | Some e \<Rightarrow> do {
         let e = set_u32 0 (ucast (args ctx 0)) e;
         let e = set_s32 0 (ucast (args ctx 2)) e;
         let e = e\<lparr>is_valid := False\<rparr>;
         let status_ptr = args ctx 1;
         e \<leftarrow> (if status_ptr \<noteq> 0 then do {
             (rc, v) \<leftarrow> bpf_probe_read_user K 4 status_ptr (bytes32 (arg_s32 e 1));
             let e = set_s32 1 (le_word v) e;
             if rc = 0 then return (e\<lparr>is_valid := True\<rparr>) else return e
           } else return e);
         bpf_ringbuf_submit e;
         return 0
       }
   }"

definition trace_sys_exit_wait4 :: "kernel \<Rightarrow> sys_exit_ctx \<Rightarrow> int prog" where
  "trace_sys_exit_wait4 K ctx = do {
     r \<leftarrow> handle_exit_event K (ucast (exit_id ctx));
     case r of
       None \<Rightarrow> return 0
     | Some e \<Rightarrow> do {
         let e = e\<lparr>ev_ret := exit_ret ctx\<rparr>;
         bpf_ringbuf_submit e;
         return 0
       }
   }"

definition trace_sys_enter_waitid :: "kernel \<Rightarrow> sys_enter_ctx \<Rightarrow> int prog" where
  "trace_sys_enter_waitid K ctx = do {
     r \<leftarrow> handle_enter_event K (ucast (enter_id ctx));
     case r of
       None \<Rightarrow> return 0
     | Some e \<Rightarrow> do {
         let e = set_s32 0 (ucast (args ctx 0)) e;
         let e = set_u32 0 (ucast (args ctx 1)) e;
         let e = set_s32 1 (ucast (args ctx 3)) e;
         let e = e\<lparr>is_valid := False\<rparr>;
         let infop_ptr = args ctx 2;
         e \<leftarrow> (if infop_ptr \<noteq> 0 then do {
             bs \<leftarrow> uninit_local K 128;
             let info = decode_siginfo bs;
             (rc, v) \<leftarrow> bpf_probe_read_user K 4 infop_ptr (bytes32 (arg_s32 e 2));
             let e = set_s32 2 (le_word v) e;
             if rc = 0 then do {
               let e = set_s32 2 (si_signo info) e;
               let e = set_s32 3 (si_code info) e;
               return (e\<lparr>is_valid := True\<rparr>)
             } else return e
           } else return e);
         bpf_ringbuf_submit e;
         return 0
       }
   }"

definition trace_sys_exit_waitid :: "kernel \<Rightarrow> sys_exit_ctx \<Rightarrow> int prog" where
  "trace_sys_exit_waitid K ctx = do {
     r \<leftarrow> handle_exit_event K (ucast (exit_id ctx));
     case r of
       None \<Rightarrow> return 0
     | Some e \<Rightarrow> do {
         let e = e\<lparr>ev_ret := exit_ret ctx\<rparr>;
         bpf_ringbuf_submit e;
         return 0
       }
   }"

definition trace_sys_enter_getpid :: "kernel \<Rightarrow> sys_enter_ctx \<Rightarrow> int prog" where
  "trace_sys_enter_getpid K ctx = do {
     r \<leftarrow> handle_enter_event K (ucast (enter_id ctx));
     case r of
       None \<Rightarrow> return 0
     | Some e \<Rightarrow> do {
         bpf_ringbuf_submit e;
         return 0
       }
   }"

definition trace_sys_exit_getpid :: "kernel \<Rightarrow> sys_exit_ctx \<Rightarrow> int prog" where
  "trace_sys_exit_getpid K ctx = do {
     r \<leftarrow> handle_exit_event K (ucast (exit_id ctx));
     case r of
       None \<Rightarrow> return 0
     | Some e \<Rightarrow> do {
         let e = e\<lparr>ev_ret := exit_ret ctx\<rparr>;
         bpf_ringbuf_submit e;
         return 0
       }
   }"

definition trace_sys_enter_getppid :: "kernel \<Rightarrow> sys_enter_ctx \<Rightarrow> int prog" where
  "trace_sys_enter_getppid K ctx = do {
     r \<leftarrow> handle_enter_event K (ucast (enter_id ctx));
     case r of
       None \<Rightarrow> return 0
     | Some e \<Rightarrow> do {
         bpf_ringbuf_submit e;
         return 0
       }
   }"

definition trace_sys_exit_getppid :: "kernel \<Rightarrow> sys_exit_ctx \<Rightarrow> int prog" where
  "trace_sys_exit_getppid K ctx = do {
     r \<leftarrow> handle_exit_event K (ucast (exit_id ctx));
     case r of
       None \<Rightarrow> return 0
     | Some e \<Rightarrow> do {
         let e = e\<lparr>ev_ret := exit_ret ctx\<rparr>;
         bpf_ringbuf_submit e;
         return 0
       }
   }"

definition trace_sys_enter_gettid :: "kernel \<Rightarrow> sys_enter_ctx \<Rightarrow> int prog" where
  "trace_sys_enter_gettid K ctx = do {
     r \<leftarrow> handle_enter_event K (ucast (enter_id ctx));
     case r of
       None \<Rightarrow> return 0
     | Some e \<Rightarrow> do {
         bpf_ringbuf_submit e;
         return 0
       }
   }"

definition trace_sys_exit_gettid :: "kernel \<Rightarrow> sys_exit_ctx \<Rightarrow> int prog" where
  "trace_sys_exit_gettid K ctx = do {
     r \<leftarrow> handle_exit_event K (ucast (exit_id ctx));
     case r of
       None \<Rightarrow> return 0
     | Some e \<Rightarrow> do {
         let e = e\<lparr>ev_ret := exit_ret ctx\<rparr>;
         bpf_ringbuf_submit e;
         return 0
       }
   }"

definition trace_sys_enter_setsid :: "kernel \<Rightarrow> sys_enter_ctx \<Rightarrow> int prog" where
  "trace_sys_enter_setsid K ctx = do {
     r \<leftarrow> handle_enter_event K (ucast (enter_id ctx));
     case r of
       None \<Rightarrow> return 0
     | Some e \<Rightarrow> do {
         bpf_ringbuf_submit e;
         return 0
       }
   }"

definition trace_sys_exit_setsid :: "kernel \<Rightarrow> sys_exit_ctx \<Rightarrow> int prog" where
  "trace_sys_exit_setsid K ctx = do {
     r \<leftarrow> handle_exit_event K (ucast (exit_id ctx));
     case r of
       None \<Rightarrow> return 0
     | Some e \<Rightarrow> do {
         let e = e\<lparr>ev_ret := exit_ret ctx\<rparr>;
         bpf_ringbuf_submit e;
         return 0
       }
   }"

definition trace_sys_enter_setpgid :: "kernel \<Rightarrow> sys_enter_ctx \<Rightarrow> int prog" where
  "trace_sys_enter_setpgid K ctx = do {
     r \<leftarrow> handle_enter_event K (ucast (enter_id ctx));
     case r of
       None \<Rightarrow> return 0
     | Some e \<Rightarrow> do {
         let e = set_u32 0 (ucast (args ctx 0)) e;
         let e = set_u32 1 (ucast (args ctx 1)) e;
         bpf_ringbuf_submit e;
         return 0
       }
   }"

definition trace_sys_exit_setpgid :: "kernel \<Rightarrow> sys_exit_ctx \<Rightarrow> int prog" where
  "trace_sys_exit_setpgid K ctx = do {
     r \<leftarrow> handle_exit_event K (ucast (exit_id ctx));
     case r of
       None \<Rightarrow> return 0
     | Some e \<Rightarrow> do {
         let e = e\<lparr>ev_ret := exit_ret ctx\<rparr>;
         bpf_ringbuf_submit e;
         return 0
       }
   }"

definition trace_sys_enter_getpgid :: "kernel \<Rightarrow> sys_enter_ctx \<Rightarrow> int prog" where
  "trace_sys_enter_getpgid K ctx = do {
     r \<leftarrow> handle_enter_event K (ucast (enter_id ctx));
     case r of
       None \<Rightarrow> return 0
     | Some e \<Rightarrow> do {
         let e = set_u32 0 (ucast (args ctx 0)) e;
         bpf_ringbuf_submit e;
         return 0
       }
   }"

definition trace_sys_exit_getpgid :: "kernel \<Rightarrow> sys_exit_ctx \<Rightarrow> int prog" where
  "trace_sys_exit_getpgid K ctx = do {
     r \<leftarrow> handle_exit_event K (ucast (exit_id ctx));
     case r of
       None \<Rightarrow> return 0
     | Some e \<Rightarrow> do {
         let e = e\<lparr>ev_ret := exit_ret ctx\<rparr>;
         bpf_ringbuf_submit e;
         return 0
       }
   }"

definition trace_sys_enter_getpgrp :: "kernel \<Rightarrow> sys_enter_ctx \<Rightarrow> int prog" where
  "trace_sys_enter_getpgrp K ctx = do {
     r \<leftarrow> handle_enter_event K (ucast (enter_id ctx));
     case r of
       None \<Rightarrow> return 0
     | Some e \<Rightarrow> do {
         bpf_ringbuf_submit e;
         return 0
       }
   }"

definition trace_sys_exit_getpgrp :: "kernel \<Rightarrow> sys_exit_ctx \<Rightarrow> int prog" where
  "trace_sys_exit_getpgrp K ctx = do {
     r \<leftarrow> handle_exit_event K (ucast (exit_id ctx));
     case r of
       None \<Rightarrow> return 0
     | Some e \<Rightarrow> do {
         let e = e\<lparr>ev_ret := exit_ret ctx\<rparr>;
         bpf_ringbuf_submit e;
         return 0
       }
   }"

definition trace_sys_enter_setuid :: "kernel \<Rightarrow> sys_enter_ctx \<Rightarrow> int prog" where
  "trace_sys_enter_setuid K ctx = do {
     r \<leftarrow> handle_enter_event K (ucast (enter_id ctx));
     case r of
       None \<Rightarrow> return 0
     | Some e \<Rightarrow> do {
         let e = set_u32 0 (ucast (args ctx 0)) e;
         bpf_ringbuf_submit e;
         return 0
       }
   }"

definition trace_sys_exit_setuid :: "kernel \<Rightarrow> sys_exit_ctx \<Rightarrow> int prog" where
  "trace_sys_exit_setuid K ctx = do {
     r \<leftarrow> handle_exit_event K (ucast (exit_id ctx));
     case r of
       None \<Rightarrow> return 0
     | Some e \<Rightarrow> do {
         let e = e\<lparr>ev_ret := exit_ret ctx\<rparr>;
         bpf_ringbuf_submit e;
         return 0
       }
   }"

definition trace_sys_enter_getuid :: "kernel \<Rightarrow> sys_enter_ctx \<Rightarrow> int prog" where
  "trace_sys_enter_getuid K ctx = do {
     r \<leftarrow> handle_enter_event K (ucast (enter_id ctx));
     case r of
       None \<Rightarrow> return 0
     | Some e \<Rightarrow> do {
         bpf_ringbuf_submit e;
         return 0
       }
   }"

definition trace_sys_exit_getuid :: "kernel \<Rightarrow> sys_exit_ctx \<Rightarrow> int prog" where
  "trace_sys_exit_getuid K ctx = do {
     r \<leftarrow> handle_exit_event K (ucast (exit_id ctx));
     case r of
       None \<Rightarrow> return 0
     | Some e \<Rightarrow> do {
         let e = e\<lparr>ev_ret := exit_ret ctx\<rparr>;
         bpf_ringbuf_submit e;
         return 0
       }
   }"

definition trace_sys_enter_setgid :: "kernel \<Rightarrow> sys_enter_ctx \<Rightarrow> int prog" where
  "trace_sys_enter_setgid K ctx = do {
     r \<leftarrow> handle_enter_event K (ucast (enter_id ctx));
     case r of
       None \<Rightarrow> return 0
     | Some e \<Rightarrow> do {
         let e = set_u32 0 (ucast (args ctx 0)) e;
         bpf_ringbuf_submit e;
         return 0
       }
   }"

definition trace_sys_exit_setgid :: "kernel \<Rightarrow> sys_exit_ctx \<Rightarrow> int prog" where
  "trace_sys_exit_setgid K ctx = do {
     r \<leftarrow> handle_exit_event K (ucast (exit_id ctx));
     case r of
       None \<Rightarrow> return 0
     | Some e \<Rightarrow> do {
         let e = e\<lparr>ev_ret := exit_ret ctx\<rparr>;
         bpf_ringbuf_submit e;
         return 0
       }
   }"

definition trace_sys_enter_getgid :: "kernel \<Rightarrow> sys_enter_ctx \<Rightarrow> int prog" where
  "trace_sys_enter_getgid K ctx = do {
     r \<leftarrow> handle_enter_event K (ucast (enter_id ctx));
     case r of
       None \<Rightarrow> return 0
     | Some e \<Rightarrow> do {
         bpf_ringbuf_submit e;
         return 0
       }
   }"

definition trace_sys_exit_getgid :: "kernel \<Rightarrow> sys_exit_ctx \<Rightarrow> int prog" where
  "trace_sys_exit_getgid K ctx = do {
     r \<leftarrow> handle_exit_event K (ucast (exit_id ctx));
     case r of
       None \<Rightarrow> return 0
     | Some e \<Rightarrow> do {
         let e = e\<lparr>ev_ret := exit_ret ctx\<rparr>;
         bpf_ringbuf_submit e;
         return 0
       }
   }"

definition trace_sys_enter_setresuid :: "kernel \<Rightarrow> sys_enter_ctx \<Rightarrow> int prog" where
  "trace_sys_enter_setresuid K ctx = do {
     r \<leftarrow> handle_enter_event K (ucast (enter_id ctx));
     case r of
       None \<Rightarrow> return 0
     | Some e \<Rightarrow> do {
         let e = set_u32 0 (ucast (args ctx 0)) e;
         let e = set_u32 1 (ucast (args ctx 1)) e;
         let e = set_u32 2 (ucast (args ctx 2)) e;
         bpf_ringbuf_submit e;
         return 0
       }
   }"

definition trace_sys_exit_setresuid :: "kernel \<Rightarrow> sys_exit_ctx \<Rightarrow> int prog" where
  "trace_sys_exit_setresuid K ctx = do {
     r \<leftarrow> handle_exit_event K (ucast (exit_id ctx));
     case r of
       None \<Rightarrow> return 0
     | Some e \<Rightarrow> do {
         let e = e\<lparr>ev_ret := exit_ret ctx\<rparr>;
         bpf_ringbuf_submit e;
         return 0
       }
   }"

definition trace_sys_enter_getresuid :: "kernel \<Rightarrow> sys_enter_ctx \<Rightarrow> int prog" where
  "trace_sys_enter_getresuid K ctx = do {
     ct \<leftarrow> get_task_struct K (ucast (enter_id ctx));
     let key = get_map_key ct;
     map_update resuid_args_map_update key \<lparr>ptr_ruid = args ctx 0, ptr_euid = args ctx 1, ptr_suid = args ctx 2\<rparr>;
     r \<leftarrow> handle_enter_event K (ucast (enter_id ctx));
     case r of
       None \<Rightarrow> return 0
     | Some e \<Rightarrow> do {
         bpf_ringbuf_submit e;
         return 0
       }
   }"

definition trace_sys_exit_getresuid :: "kernel \<Rightarrow> sys_exit_ctx \<Rightarrow> int prog" where
  "trace_sys_exit_getresuid K ctx = do {
     let ret = exit_ret ctx;
     ct \<leftarrow> get_task_struct K (ucast (exit_id ctx));
     let key = get_map_key ct;
     r \<leftarrow> handle_exit_event K (ucast (exit_id ctx));
     (case r of
       None \<Rightarrow> return ()
     | Some e \<Rightarrow> do {
         let e = e\<lparr>ev_ret := ret\<rparr>;
         let e = e\<lparr>is_valid := False\<rparr>;
         e \<leftarrow> (if nonneg ret then do {
             stored \<leftarrow> map_lookup resuid_args_map key;
             case stored of
               None \<Rightarrow> return e
             | Some sa \<Rightarrow>
                 if ptr_ruid sa \<noteq> 0 \<and> ptr_euid sa \<noteq> 0 \<and> ptr_suid sa \<noteq> 0 then do {
                   (rc1, ruid) \<leftarrow> read_user_local K 4 (ptr_ruid sa);
                   if rc1 = 0 then do {
                     (rc2, euid) \<leftarrow> read_user_local K 4 (ptr_euid sa);
                     if rc2 = 0 then do {
                       (rc3, suid) \<leftarrow> read_user_local K 4 (ptr_suid sa);
                       if rc3 = 0 then do {
                         let e = set_u32 0 (u32_at ruid 0) e;
                         let e = set_u32 1 (u32_at euid 0) e;
                         let e = set_u32 2 (u32_at suid 0) e;
                         return (e\<lparr>is_valid := True\<rparr>)
                       } else return e
                     } else return e
                   } else return e
                 } else return e
           } else return e);
         bpf_ringbuf_submit e
       });
     map_delete resuid_args_map_update key;
     return 0
   }"

definition trace_sys_enter_setresgid :: "kernel \<Rightarrow> sys_enter_ctx \<Rightarrow> int prog" where
  "trace_sys_enter_setresgid K ctx = do {
     r \<leftarrow> handle_enter_event K (ucast (enter_id ctx));
     case r of
       None \<Rightarrow> return 0
     | Some e \<Rightarrow> do {
         let e = set_u32 0 (ucast (args ctx 0)) e;
         let e = set_u32 1 (ucast (args ctx 1)) e;
         let e = set_u32 2 (ucast (args ctx 2)) e;
         bpf_ringbuf_submit e;
         return 0
       }
   }"

definition trace_sys_exit_setresgid :: "kernel \<Rightarrow> sys_exit_ctx \<Rightarrow> int prog" where
  "trace_sys_exit_setresgid K ctx = do {
     r \<leftarrow> handle_exit_event K (ucast (exit_id ctx));
     case r of
       None \<Rightarrow> return 0
     | Some e \<Rightarrow> do {
         let e = e\<lparr>ev_ret := exit_ret ctx\<rparr>;
         bpf_ringbuf_submit e;
         return 0
       }
   }"

definition trace_sys_enter_getresgid :: "kernel \<Rightarrow> sys_enter_ctx \<Rightarrow> int prog" where
  "trace_sys_enter_getresgid K ctx = do {
     ct \<leftarrow> get_task_struct K (ucast (enter_id ctx));
     let key = get_map_key ct;
     map_update resgid_args_map_update key \<lparr>ptr_rgid = args ctx 0, ptr_egid = args ctx 1, ptr_sgid = args ctx 2\<rparr>;
     r \<leftarrow> handle_enter_event K (ucast (enter_id ctx));
     case r of
       None \<Rightarrow> return 0
     | Some e \<Rightarrow> do {
         bpf_ringbuf_submit e;
         return 0
       }
   }"

definition trace_sys_exit_getresgid :: "kernel \<Rightarrow> sys_exit_ctx \<Rightarrow> int prog" where
  "trace_sys_exit_getresgid K ctx = do {
     let ret = exit_ret ctx;
     ct \<leftarrow> get_task_struct K (ucast (exit_id ctx));
     let key = get_map_key ct;
     r \<leftarrow> handle_exit_event K (ucast (exit_id ctx));
     (case r of
       None \<Rightarrow> return ()
     | Some e \<Rightarrow> do {
         let e = e\<lparr>ev_ret := ret\<rparr>;
         let e = e\<lparr>is_valid := False\<rparr>;
         e \<leftarrow> (if nonneg ret then do {
             stored \<leftarrow> map_lookup resgid_args_map key;
             case stored of
               None \<Rightarrow> return e
             | Some sa \<Rightarrow>
                 if ptr_rgid sa \<noteq> 0 \<and> ptr_egid sa \<noteq> 0 \<and> ptr_sgid sa \<noteq> 0 then do {
                   (rc1, rgid) \<leftarrow> read_user_local K 4 (ptr_rgid sa);
                   if rc1 = 0 then do {
                     (rc2, egid) \<leftarrow> read_user_local K 4 (ptr_egid sa);
                     if rc2 = 0 then do {
                       (rc3, sgid) \<leftarrow> read_user_local K 4 (ptr_sgid sa);
                       if rc3 = 0 then do {
                         let e = set_u32 0 (u32_at rgid 0) e;
                         let e = set_u32 1 (u32_at egid 0) e;
                         let e = set_u32 2 (u32_at sgid 0) e;
                         return (e\<lparr>is_valid := True\<rparr>)
                       } else return e
                     } else return e
                   } else return e
                 } else return e
           } else return e);
         bpf_ringbuf_submit e
       });
     map_delete resgid_args_map_update key;
     return 0
   }"

definition trace_sys_enter_setreuid :: "kernel \<Rightarrow> sys_enter_ctx \<Rightarrow> int prog" where
  "trace_sys_enter_setreuid K ctx = do {
     r \<leftarrow> handle_enter_event K (ucast (enter_id ctx));
     case r of
       None \<Rightarrow> return 0
     | Some e \<Rightarrow> do {
         let e = set_u32 0 (ucast (args ctx 0)) e;
         let e = set_u32 1 (ucast (args ctx 1)) e;
         bpf_ringbuf_submit e;
         return 0
       }
   }"

definition trace_sys_exit_setreuid :: "kernel \<Rightarrow> sys_exit_ctx \<Rightarrow> int prog" where
  "trace_sys_exit_setreuid K ctx = do {
     r \<leftarrow> handle_exit_event K (ucast (exit_id ctx));
     case r of
       None \<Rightarrow> return 0
     | Some e \<Rightarrow> do {
         let e = e\<lparr>ev_ret := exit_ret ctx\<rparr>;
         bpf_ringbuf_submit e;
         return 0
       }
   }"

definition trace_sys_enter_setregid :: "kernel \<Rightarrow> sys_enter_ctx \<Rightarrow> int prog" where
  "trace_sys_enter_setregid K ctx = do {
     r \<leftarrow> handle_enter_event K (ucast (enter_id ctx));
     case r of
       None \<Rightarrow> return 0
     | Some e \<Rightarrow> do {
         let e = set_u32 0 (ucast (args ctx 0)) e;
         let e = set_u32 1 (ucast (args ctx 1)) e;
         bpf_ringbuf_submit e;
         return 0
       }
   }"

definition trace_sys_exit_setregid :: "kernel \<Rightarrow> sys_exit_ctx \<Rightarrow> int prog" where
  "trace_sys_exit_setregid K ctx = do {
     r \<leftarrow> handle_exit_event K (ucast (exit_id ctx));
     case r of
       None \<Rightarrow> return 0
     | Some e \<Rightarrow> do {
         let e = e\<lparr>ev_ret := exit_ret ctx\<rparr>;
         bpf_ringbuf_submit e;
         return 0
       }
   }"

definition trace_sys_enter_geteuid :: "kernel \<Rightarrow> sys_enter_ctx \<Rightarrow> int prog" where
  "trace_sys_enter_geteuid K ctx = do {
     r \<leftarrow> handle_enter_event K (ucast (enter_id ctx));
     case r of
       None \<Rightarrow> return 0
     | Some e \<Rightarrow> do {
         bpf_ringbuf_submit e;
         return 0
       }
   }"

definition trace_sys_exit_geteuid :: "kernel \<Rightarrow> sys_exit_ctx \<Rightarrow> int prog" where
  "trace_sys_exit_geteuid K ctx = do {
     r \<leftarrow> handle_exit_event K (ucast (exit_id ctx));
     case r of
       None \<Rightarrow> return 0
     | Some e \<Rightarrow> do {
         let e = e\<lparr>ev_ret := exit_ret ctx\<rparr>;
         bpf_ringbuf_submit e;
         return 0
       }
   }"

definition trace_sys_enter_getegid :: "kernel \<Rightarrow> sys_enter_ctx \<Rightarrow> int prog" where
  "trace_sys_enter_getegid K ctx = do {
     r \<leftarrow> handle_enter_event K (ucast (enter_id ctx));
     case r of
       None \<Rightarrow> return 0
     | Some e \<Rightarrow> do {
         bpf_ringbuf_submit e;
         return 0
       }
   }"

definition trace_sys_exit_getegid :: "kernel \<Rightarrow> sys_exit_ctx \<Rightarrow> int prog" where
  "trace_sys_exit_getegid K ctx = do {
     r \<leftarrow> handle_exit_event K (ucast (exit_id ctx));
     case r of
       None \<Rightarrow> return 0
     | Some e \<Rightarrow> do {
         let e = e\<lparr>ev_ret := exit_ret ctx\<rparr>;
         bpf_ringbuf_submit e;
         return 0
       }
   }"

definition trace_sys_enter_setgroups :: "kernel \<Rightarrow> sys_enter_ctx \<Rightarrow> int prog" where
  "trace_sys_enter_setgroups K ctx = do {
     r \<leftarrow> handle_enter_event K (ucast (enter_id ctx));
     case r of
       None \<Rightarrow> return 0
     | Some e \<Rightarrow> do {
         let e = set_u64 0 (args ctx 0) e;
         bpf_ringbuf_submit e;
         return 0
       }
   }"

definition trace_sys_exit_setgroups :: "kernel \<Rightarrow> sys_exit_ctx \<Rightarrow> int prog" where
  "trace_sys_exit_setgroups K ctx = do {
     r \<leftarrow> handle_exit_event K (ucast (exit_id ctx));
     case r of
       None \<Rightarrow> return 0
     | Some e \<Rightarrow> do {
         let e = e\<lparr>ev_ret := exit_ret ctx\<rparr>;
         bpf_ringbuf_submit e;
         return 0
       }
   }"

definition trace_sys_enter_getgroups :: "kernel \<Rightarrow> sys_enter_ctx \<Rightarrow> int prog" where
  "trace_sys_enter_getgroups K ctx = do {
     r \<leftarrow> handle_enter_event K (ucast (enter_id ctx));
     case r of
       None \<Rightarrow> return 0
     | Some e \<Rightarrow> do {
         let e = set_s32 0 (ucast (args ctx 0)) e;
         bpf_ringbuf_submit e;
         return 0
       }
   }"

definition trace_sys_exit_getgroups :: "kernel \<Rightarrow> sys_exit_ctx \<Rightarrow> int prog" where
  "trace_sys_exit_getgroups K ctx = do {
     r \<leftarrow> handle_exit_event K (ucast (exit_id ctx));
     case r of
       None \<Rightarrow> return 0
     | Some e \<Rightarrow> do {
         let e = e\<lparr>ev_ret := exit_ret ctx\<rparr>;
         bpf_ringbuf_submit e;
         return 0
       }
   }"

definition trace_sys_enter_setns :: "kernel \<Rightarrow> sys_enter_ctx \<Rightarrow> int prog" where
  "trace_sys_enter_setns K ctx = do {
     r \<leftarrow> handle_enter_event K (ucast (enter_id ctx));
     case r of
       None \<Rightarrow> return 0
     | Some e \<Rightarrow> do {
         let e = set_s32 0 (ucast (args ctx 0)) e;
         let e = set_s32 1 (ucast (args ctx 1)) e;
         bpf_ringbuf_submit e;
         return 0
       }
   }"

definition trace_sys_exit_setns :: "kernel \<Rightarrow> sys_exit_ctx \<Rightarrow> int prog" where
  "trace_sys_exit_setns K ctx = do {
     r \<leftarrow> handle_exit_event K (ucast (exit_id ctx));
     case r of
       None \<Rightarrow> return 0
     | Some e \<Rightarrow> do {
         let e = e\<lparr>ev_ret := exit_ret ctx\<rparr>;
         bpf_ringbuf_submit e;
         return 0
       }
   }"

definition trace_sys_enter_setrlimit :: "kernel \<Rightarrow> sys_enter_ctx \<Rightarrow> int prog" where
  "trace_sys_enter_setrlimit K ctx = do {
     r \<leftarrow> handle_enter_event K (ucast (enter_id ctx));
     case r of
       None \<Rightarrow> return 0
     | Some e \<Rightarrow> do {
         let e = set_s32 0 (ucast (args ctx 0)) e;
         let e = e\<lparr>is_valid := False\<rparr>;
         let rlim_ptr = args ctx 1;
         e \<leftarrow> (if rlim_ptr \<noteq> 0 then do {
             (rc, bs) \<leftarrow> read_user_local K 16 rlim_ptr;
             if rc = 0 then do {
               let rlim = decode_rlimit bs;
               let e = set_u64 0 (rlim_cur rlim) e;
               let e = set_u64 1 (rlim_max rlim) e;
               return (e\<lparr>is_valid := True\<rparr>)
             } else return e
           } else return e);
         bpf_ringbuf_submit e;
         return 0
       }
   }"

definition trace_sys_exit_setrlimit :: "kernel \<Rightarrow> sys_exit_ctx \<Rightarrow> int prog" where
  "trace_sys_exit_setrlimit K ctx = do {
     r \<leftarrow> handle_exit_event K (ucast (exit_id ctx));
     case r of
       None \<Rightarrow> return 0
     | Some e \<Rightarrow> do {
         let e = e\<lparr>ev_ret := exit_ret ctx\<rparr>;
         bpf_ringbuf_submit e;
         return 0
       }
   }"

definition trace_sys_enter_getrlimit :: "kernel \<Rightarrow> sys_enter_ctx \<Rightarrow> int prog" where
  "trace_sys_enter_getrlimit K ctx = do {
     ct \<leftarrow> get_task_struct K (ucast (enter_id ctx));
     let key = get_map_key ct;
     let rlim_ptr = args ctx 1;
     map_update getrlimit_args_map_update key rlim_ptr;
     r \<leftarrow> handle_enter_event K (ucast (enter_id ctx));
     case r of
       None \<Rightarrow> return 0
     | Some e \<Rightarrow> do {
         let e = set_s32 0 (ucast (args ctx 0)) e;
         bpf_ringbuf_submit e;
         return 0
       }
   }"

definition trace_sys_exit_getrlimit :: "kernel \<Rightarrow> sys_exit_ctx \<Rightarrow> int prog" where
  "trace_sys_exit_getrlimit K ctx = do {
     let ret = exit_ret ctx;
     ct \<leftarrow> get_task_struct K (ucast (exit_id ctx));
     let key = get_map_key ct;
     r \<leftarrow> handle_exit_event K (ucast (exit_id ctx));
     (case r of
       None \<Rightarrow> return ()
     | Some e \<Rightarrow> do {
         let e = e\<lparr>ev_ret := ret\<rparr>;
         let e = e\<lparr>is_valid := False\<rparr>;
         e \<leftarrow> (if nonneg ret then do {
             rlim_ptr \<leftarrow> map_lookup getrlimit_args_map key;
             case rlim_ptr of
               None \<Rightarrow> return e
             | Some p \<Rightarrow> do {
                 (rc, bs) \<leftarrow> read_user_local K 16 p;
                 if rc = 0 then do {
                   let rlim = decode_rlimit bs;
                   let e = set_u64 0 (rlim_cur rlim) e;
                   let e = set_u64 1 (rlim_max rlim) e;
                   return (e\<lparr>is_valid := True\<rparr>)
                 } else return e
               }
           } else return e);
         bpf_ringbuf_submit e
       });
     map_delete getrlimit_args_map_update key;
     return 0
   }"

definition trace_sys_enter_prlimit :: "kernel \<Rightarrow> sys_enter_ctx \<Rightarrow> int prog" where
  "trace_sys_enter_prlimit K ctx = do {
     r \<leftarrow> handle_enter_event K (ucast (enter_id ctx));
     case r of
       None \<Rightarrow> return 0
     | Some e \<Rightarrow> do {
         let e = set_u32 0 (ucast (args ctx 0)) e;
         let e = set_s32 0 (ucast (args ctx 1)) e;
         bpf_ringbuf_submit e;
         return 0
       }
   }"

definition trace_sys_exit_prlimit :: "kernel \<Rightarrow> sys_exit_ctx \<Rightarrow> int prog" where
  "trace_sys_exit_prlimit K ctx = do {
     r \<leftarrow> handle_exit_event K (ucast (exit_id ctx));
     case r of
       None \<Rightarrow> return 0
     | Some e \<Rightarrow> do {
         let e = e\<lparr>ev_ret := exit_ret ctx\<rparr>;
         bpf_ringbuf_submit e;
         return 0
       }
   }"

definition trace_sys_enter_getrusage :: "kernel \<Rightarrow> sys_enter_ctx \<Rightarrow> int prog" where
  "trace_sys_enter_getrusage K ctx = do {
     r \<leftarrow> handle_enter_event K (ucast (enter_id ctx));
     case r of
       None \<Rightarrow> return 0
     | Some e \<Rightarrow> do {
         let e = set_s32 0 (ucast (args ctx 0)) e;
         bpf_ringbuf_submit e;
         return 0
       }
   }"

definition trace_sys_exit_getrusage :: "kernel \<Rightarrow> sys_exit_ctx \<Rightarrow> int prog" where
  "trace_sys_exit_getrusage K ctx = do {
     r \<leftarrow> handle_exit_event K (ucast (exit_id ctx));
     case r of
       None \<Rightarrow> return 0
     | Some e \<Rightarrow> do {
         let e = e\<lparr>ev_ret := exit_ret ctx\<rparr>;
         bpf_ringbuf_submit e;
         return 0
       }
   }"

definition trace_sys_enter_setpriority :: "kernel \<Rightarrow> sys_enter_ctx \<Rightarrow> int prog" where
  "trace_sys_enter_setpriority K ctx = do {
     r \<leftarrow> handle_enter_event K (ucast (enter_id ctx));
     case r of
       None \<Rightarrow> return 0
     | Some e \<Rightarrow> do {
         let e = set_s32 0 (ucast (args ctx 0)) e;
         let e = set_u32 0 (ucast (args ctx 1)) e;
         let e = set_s32 1 (ucast (args ctx 2)) e;
         bpf_ringbuf_submit e;
         return 0
       }
   }"

definition trace_sys_exit_setpriority :: "kernel \<Rightarrow> sys_exit_ctx \<Rightarrow> int prog" where
  "trace_sys_exit_setpriority K ctx = do {
     r \<leftarrow> handle_exit_event K (ucast (exit_id ctx));
     case r of
       None \<Rightarrow> return 0
     | Some e \<Rightarrow> do {
         let e = e\<lparr>ev_ret := exit_ret ctx\<rparr>;
         bpf_ringbuf_submit e;
         return 0
       }
   }"

definition trace_sys_enter_getpriority :: "kernel \<Rightarrow> sys_enter_ctx \<Rightarrow> int prog" where
  "trace_sys_enter_getpriority K ctx = do {
     r \<leftarrow> handle_enter_event K (ucast (enter_id ctx));
     case r of
       None \<Rightarrow> return 0
     | Some e \<Rightarrow> do {
         let e = set_s32 0 (ucast (args ctx 0)) e;
         let e = set_u32 0 (ucast (args ctx 1)) e;
         bpf_ringbuf_submit e;
         return 0
       }
   }"

definition trace_sys_exit_getpriority :: "kernel \<Rightarrow> sys_exit_ctx \<Rightarrow> int prog" where
  "trace_sys_exit_getpriority K ctx = do {
     r \<leftarrow> handle_exit_event K (ucast (exit_id ctx));
     case r of
       None \<Rightarrow> return 0
     | Some e \<Rightarrow> do {
         let e = e\<lparr>ev_ret := exit_ret ctx\<rparr>;
         bpf_ringbuf_submit e;
         return 0
       }
   }"

definition trace_sys_enter_ioprio_set :: "kernel \<Rightarrow> sys_enter_ctx \<Rightarrow> int prog" where
  "trace_sys_enter_ioprio_set K ctx = do {
     r \<leftarrow> handle_enter_event K (ucast (enter_id ctx));
     case r of
       None \<Rightarrow> return 0
     | Some e \<Rightarrow> do {
         let e = set_s32 0 (ucast (args ctx 0)) e;
         let e = set_s32 1 (ucast (args ctx 1)) e;
         let e = set_s32 2 (ucast (args ctx 2)) e;
         bpf_ringbuf_submit e;
         return 0
       }
   }"

definition trace_sys_exit_ioprio_set :: "kernel \<Rightarrow> sys_exit_ctx \<Rightarrow> int prog" where
  "trace_sys_exit_ioprio_set K ctx = do {
     r \<leftarrow> handle_exit_event K (ucast (exit_id ctx));
     case r of
       None \<Rightarrow> return 0
     | Some e \<Rightarrow> do {
         let e = e\<lparr>ev_ret := exit_ret ctx\<rparr>;
         bpf_ringbuf_submit e;
         return 0
       }
   }"

definition trace_sys_enter_ioprio_get :: "kernel \<Rightarrow> sys_enter_ctx \<Rightarrow> int prog" where
  "trace_sys_enter_ioprio_get K ctx = do {
     r \<leftarrow> handle_enter_event K (ucast (enter_id ctx));
     case r of
       None \<Rightarrow> return 0
     | Some e \<Rightarrow> do {
         let e = set_s32 0 (ucast (args ctx 0)) e;
         let e = set_s32 1 (ucast (args ctx 1)) e;
         bpf_ringbuf_submit e;
         return 0
       }
   }"

definition trace_sys_exit_ioprio_get :: "kernel \<Rightarrow> sys_exit_ctx \<Rightarrow> int prog" where
  "trace_sys_exit_ioprio_get K ctx = do {
     r \<leftarrow> handle_exit_event K (ucast (exit_id ctx));
     case r of
       None \<Rightarrow> return 0
     | Some e \<Rightarrow> do {
         let e = e\<lparr>ev_ret := exit_ret ctx\<rparr>;
         bpf_ringbuf_submit e;
         return 0
       }
   }"

subsection \<open>Tables\<close>

definition proc_plain_enter :: "(string \<times> enter_program) list" where
  "proc_plain_enter =
     [(''clone'', trace_sys_enter_clone),
      (''clone3'', trace_sys_enter_clone3),
      (''fork'', trace_sys_enter_fork),
      (''vfork'', trace_sys_enter_vfork),
      (''execve'', trace_sys_enter_execve),
      (''execveat'', trace_sys_enter_execveat),
      (''exit'', trace_sys_enter_exit),
      (''exit_group'', trace_sys_enter_exit_group),
      (''wait4'', trace_sys_enter_wait4),
      (''waitid'', trace_sys_enter_waitid),
      (''getpid'', trace_sys_enter_getpid),
      (''getppid'', trace_sys_enter_getppid),
      (''gettid'', trace_sys_enter_gettid),
      (''setsid'', trace_sys_enter_setsid),
      (''setpgid'', trace_sys_enter_setpgid),
      (''getpgid'', trace_sys_enter_getpgid),
      (''getpgrp'', trace_sys_enter_getpgrp),
      (''setuid'', trace_sys_enter_setuid),
      (''getuid'', trace_sys_enter_getuid),
      (''setgid'', trace_sys_enter_setgid),
      (''getgid'', trace_sys_enter_getgid),
      (''setresuid'', trace_sys_enter_setresuid),
      (''setresgid'', trace_sys_enter_setresgid),
      (''setreuid'', trace_sys_enter_setreuid),
      (''setregid'', trace_sys_enter_setregid),
      (''geteuid'', trace_sys_enter_geteuid),
      (''getegid'', trace_sys_enter_getegid),
      (''setgroups'', trace_sys_enter_setgroups),
      (''getgroups'', trace_sys_enter_getgroups),
      (''setns'', trace_sys_enter_setns),
      (''setrlimit'', trace_sys_enter_setrlimit),
      (''prlimit64'', trace_sys_enter_prlimit),
      (''getrusage'', trace_sys_enter_getrusage),
      (''setpriority'', trace_sys_enter_setpriority),
      (''getpriority'', trace_sys_enter_getpriority),
      (''ioprio_set'', trace_sys_enter_ioprio_set),
      (''ioprio_get'', trace_sys_enter_ioprio_get)]"

definition proc_storing_enter :: "(string \<times> enter_program \<times> enter_effect) list" where
  "proc_storing_enter =
     [(''getresuid'', trace_sys_enter_getresuid,
       \<lambda>K ctx. stored resuid_args_map_update (activation_key K) \<lparr>ptr_ruid = args ctx 0, ptr_euid = args ctx 1, ptr_suid = args ctx 2\<rparr>),
      (''getresgid'', trace_sys_enter_getresgid,
       \<lambda>K ctx. stored resgid_args_map_update (activation_key K) \<lparr>ptr_rgid = args ctx 0, ptr_egid = args ctx 1, ptr_sgid = args ctx 2\<rparr>),
      (''getrlimit'', trace_sys_enter_getrlimit,
       \<lambda>K ctx. stored getrlimit_args_map_update (activation_key K) (args ctx 1))]"

definition proc_plain_exit :: "(string \<times> exit_program) list" where
  "proc_plain_exit =
     [(''clone'', trace_sys_exit_clone),
      (''clone3'', trace_sys_exit_clone3),
      (''fork'', trace_sys_exit_fork),
      (''vfork'', trace_sys_exit_vfork),
      (''execve'', trace_sys_exit_execve),
      (''execveat'', trace_sys_exit_execveat),
      (''exit'', trace_sys_exit_exit),
      (''exit_group'', trace_sys_exit_exit_group),
      (''wait4'', trace_sys_exit_wait4),
      (''waitid'', trace_sys_exit_waitid),
      (''getpid'', trace_sys_exit_getpid),
      (''getppid'', trace_sys_exit_getppid),
      (''gettid'', trace_sys_exit_gettid),
      (''setsid'', trace_sys_exit_setsid),
      (''setpgid'', trace_sys_exit_setpgid),
      (''getpgid'', trace_sys_exit_getpgid),
      (''getpgrp'', trace_sys_exit_getpgrp),
      (''setuid'', trace_sys_exit_setuid),
      (''getuid'', trace_sys_exit_getuid),
      (''setgid'', trace_sys_exit_setgid),
      (''getgid'', trace_sys_exit_getgid),
      (''setresuid'', trace_sys_exit_setresuid),
      (''setresgid'', trace_sys_exit_setresgid),
      (''setreuid'', trace_sys_exit_setreuid),
      (''setregid'', trace_sys_exit_setregid),
      (''geteuid'', trace_sys_exit_geteuid),
      (''getegid'', trace_sys_exit_getegid),
      (''setgroups'', trace_sys_exit_setgroups),
      (''getgroups'', trace_sys_exit_getgroups),
      (''setns'', trace_sys_exit_setns),
      (''setrlimit'', trace_sys_exit_setrlimit),
      (''prlimit64'', trace_sys_exit_prlimit),
      (''getrusage'', trace_sys_exit_getrusage),
      (''setpriority'', trace_sys_exit_setpriority),
      (''getpriority'', trace_sys_exit_getpriority),
      (''ioprio_set'', trace_sys_exit_ioprio_set),
      (''ioprio_get'', trace_sys_exit_ioprio_get)]"

definition proc_cleanup_exit :: "(string \<times> exit_program \<times> exit_effect) list" where
  "proc_cleanup_exit =
     [(''getresuid'', trace_sys_exit_getresuid,
       \<lambda>K ctx. dropped resuid_args_map_update (activation_key K)),
      (''getresgid'', trace_sys_exit_getresgid,
       \<lambda>K ctx. dropped resgid_args_map_update (activation_key K)),
      (''getrlimit'', trace_sys_exit_getrlimit,
       \<lambda>K ctx. dropped getrlimit_args_map_update (activation_key K))]"

subsection \<open>The logging contract\<close>

lemmas proc_plain_enter_defs =
  trace_sys_enter_clone_def trace_sys_enter_clone3_def trace_sys_enter_fork_def
  trace_sys_enter_vfork_def trace_sys_enter_execve_def trace_sys_enter_execveat_def
  trace_sys_enter_exit_def trace_sys_enter_exit_group_def trace_sys_enter_wait4_def
  trace_sys_enter_waitid_def trace_sys_enter_getpid_def trace_sys_enter_getppid_def
  trace_sys_enter_gettid_def trace_sys_enter_setsid_def trace_sys_enter_setpgid_def
  trace_sys_enter_getpgid_def trace_sys_enter_getpgrp_def trace_sys_enter_setuid_def
  trace_sys_enter_getuid_def trace_sys_enter_setgid_def trace_sys_enter_getgid_def
  trace_sys_enter_setresuid_def trace_sys_enter_setresgid_def trace_sys_enter_setreuid_def
  trace_sys_enter_setregid_def trace_sys_enter_geteuid_def trace_sys_enter_getegid_def
  trace_sys_enter_setgroups_def trace_sys_enter_getgroups_def trace_sys_enter_setns_def
  trace_sys_enter_setrlimit_def trace_sys_enter_prlimit_def trace_sys_enter_getrusage_def
  trace_sys_enter_setpriority_def trace_sys_enter_getpriority_def
  trace_sys_enter_ioprio_set_def trace_sys_enter_ioprio_get_def

lemma proc_plain_enter_probe:
  "list_all (\<lambda>(n, p). \<forall>K ctx. probe K True (ucast (enter_id ctx)) unchanged (p K ctx))
     proc_plain_enter"
  unfolding proc_plain_enter_def list.pred_inject prod.case
  apply (intro conjI allI TrueI)
  unfolding proc_plain_enter_defs Let_def
  by (rule probe_plain_enter submits_rules keeps_rules quiet_helpers zero_rules | (simp; fail))+

lemmas proc_storing_enter_defs =
  trace_sys_enter_getresuid_def trace_sys_enter_getresgid_def trace_sys_enter_getrlimit_def

lemma proc_storing_enter_probe:
  "list_all (\<lambda>(n, p, A). \<forall>K ctx. probe K True (ucast (enter_id ctx)) (A K ctx) (p K ctx))
     proc_storing_enter"
  unfolding proc_storing_enter_def list.pred_inject prod.case
  apply (intro conjI allI TrueI)
  unfolding proc_storing_enter_defs Let_def
  by (rule probe_storing probe_plain_enter submits_rules keeps_rules quiet_helpers zero_rules | (simp; fail))+

lemmas proc_plain_exit_defs =
  trace_sys_exit_clone_def trace_sys_exit_clone3_def trace_sys_exit_fork_def
  trace_sys_exit_vfork_def trace_sys_exit_execve_def trace_sys_exit_execveat_def
  trace_sys_exit_exit_def trace_sys_exit_exit_group_def trace_sys_exit_wait4_def
  trace_sys_exit_waitid_def trace_sys_exit_getpid_def trace_sys_exit_getppid_def
  trace_sys_exit_gettid_def trace_sys_exit_setsid_def trace_sys_exit_setpgid_def
  trace_sys_exit_getpgid_def trace_sys_exit_getpgrp_def trace_sys_exit_setuid_def
  trace_sys_exit_getuid_def trace_sys_exit_setgid_def trace_sys_exit_getgid_def
  trace_sys_exit_setresuid_def trace_sys_exit_setresgid_def trace_sys_exit_setreuid_def
  trace_sys_exit_setregid_def trace_sys_exit_geteuid_def trace_sys_exit_getegid_def
  trace_sys_exit_setgroups_def trace_sys_exit_getgroups_def trace_sys_exit_setns_def
  trace_sys_exit_setrlimit_def trace_sys_exit_prlimit_def trace_sys_exit_getrusage_def
  trace_sys_exit_setpriority_def trace_sys_exit_getpriority_def trace_sys_exit_ioprio_set_def
  trace_sys_exit_ioprio_get_def

lemma proc_plain_exit_probe:
  "list_all (\<lambda>(n, p). \<forall>K ctx. probe K False (ucast (exit_id ctx)) unchanged (p K ctx))
     proc_plain_exit"
  unfolding proc_plain_exit_def list.pred_inject prod.case
  apply (intro conjI allI TrueI)
  unfolding proc_plain_exit_defs Let_def
  by (rule probe_plain_exit submits_rules keeps_rules quiet_helpers zero_rules | (simp; fail))+

lemmas proc_cleanup_exit_defs =
  trace_sys_exit_getresuid_def trace_sys_exit_getresgid_def trace_sys_exit_getrlimit_def

lemma proc_cleanup_exit_probe:
  "list_all (\<lambda>(n, p, A). \<forall>K ctx. probe K False (ucast (exit_id ctx)) (A K ctx) (p K ctx))
     proc_cleanup_exit"
  unfolding proc_cleanup_exit_def list.pred_inject prod.case
  apply (intro conjI allI TrueI)
  unfolding proc_cleanup_exit_defs Let_def
  by (rule probe_cleanup_key probe_cleanup_stray submits_rules keeps_rules quiet_helpers zero_rules | (simp; fail))+

end
