(* ===== verification/Trace_Mem.thy ===== *)
theory Trace_Mem
  imports Trace_Rules
begin

section \<open>Tracepoint programs: memory, capabilities, modules, signals and scheduling\<close>

text \<open>
  The programs of \<open>src/src/tracepoint/tracepoint.bpf.c\<close>, lines 4395 to 5149, one definition
  each under the program's own name, in the order of the source.  The tables at the end pair the
  system call of the attach point with its program, split by what the program does to the
  argument maps; the lemmas after them prove the logging contract of each table.
\<close>

definition trace_sys_enter_mmap :: "kernel \<Rightarrow> sys_enter_ctx \<Rightarrow> int prog" where
  "trace_sys_enter_mmap K ctx = do {
     r \<leftarrow> handle_enter_event K (ucast (enter_id ctx));
     case r of
       None \<Rightarrow> return 0
     | Some e \<Rightarrow> do {
         let e = set_u64 0 (args ctx 0) e;
         let e = set_u64 1 (args ctx 1) e;
         let e = set_s32 0 (ucast (args ctx 2)) e;
         let e = set_s32 3 (ucast (args ctx 3)) e;
         let e = set_s32 4 (ucast (args ctx 4)) e;
         let e = set_u64 2 (args ctx 5) e;
         bpf_ringbuf_submit e;
         return 0
       }
   }"

definition trace_sys_exit_mmap :: "kernel \<Rightarrow> sys_exit_ctx \<Rightarrow> int prog" where
  "trace_sys_exit_mmap K ctx = do {
     r \<leftarrow> handle_exit_event K (ucast (exit_id ctx));
     case r of
       None \<Rightarrow> return 0
     | Some e \<Rightarrow> do {
         let e = e\<lparr>ev_ret := exit_ret ctx\<rparr>;
         bpf_ringbuf_submit e;
         return 0
       }
   }"

definition trace_sys_enter_mprotect :: "kernel \<Rightarrow> sys_enter_ctx \<Rightarrow> int prog" where
  "trace_sys_enter_mprotect K ctx = do {
     r \<leftarrow> handle_enter_event K (ucast (enter_id ctx));
     case r of
       None \<Rightarrow> return 0
     | Some e \<Rightarrow> do {
         let e = set_u64 0 (args ctx 1) e;
         let e = set_s32 0 (ucast (args ctx 2)) e;
         bpf_ringbuf_submit e;
         return 0
       }
   }"

definition trace_sys_exit_mprotect :: "kernel \<Rightarrow> sys_exit_ctx \<Rightarrow> int prog" where
  "trace_sys_exit_mprotect K ctx = do {
     r \<leftarrow> handle_exit_event K (ucast (exit_id ctx));
     case r of
       None \<Rightarrow> return 0
     | Some e \<Rightarrow> do {
         let e = e\<lparr>ev_ret := exit_ret ctx\<rparr>;
         bpf_ringbuf_submit e;
         return 0
       }
   }"

definition trace_sys_enter_capset :: "kernel \<Rightarrow> sys_enter_ctx \<Rightarrow> int prog" where
  "trace_sys_enter_capset K ctx = do {
     r \<leftarrow> handle_enter_event K (ucast (enter_id ctx));
     case r of
       None \<Rightarrow> return 0
     | Some e \<Rightarrow> do {
         let e = e\<lparr>is_valid := False\<rparr>;
         let header_ptr = args ctx 0;
         let data_ptr = args ctx 1;
         e \<leftarrow> (if header_ptr \<noteq> 0 \<and> data_ptr \<noteq> 0 then do {
             (rc1, hbs) \<leftarrow> read_user_local K 8 header_ptr;
             if rc1 = 0 then do {
               (rc2, dbs) \<leftarrow> read_user_local K 12 data_ptr;
               if rc2 = 0 then do {
                 let header = decode_cap_header hbs;
                 let data = decode_cap_data dbs;
                 let e = set_u32 0 (cap_version header) e;
                 let e = set_u32 1 (cap_pid header) e;
                 let e = set_u32 2 (cap_effective data) e;
                 let e = set_u32 3 (cap_permitted data) e;
                 let e = set_u32 4 (cap_inheritable data) e;
                 return (e\<lparr>is_valid := True\<rparr>)
               } else return e
             } else return e
           } else return e);
         bpf_ringbuf_submit e;
         return 0
       }
   }"

definition trace_sys_exit_capset :: "kernel \<Rightarrow> sys_exit_ctx \<Rightarrow> int prog" where
  "trace_sys_exit_capset K ctx = do {
     r \<leftarrow> handle_exit_event K (ucast (exit_id ctx));
     case r of
       None \<Rightarrow> return 0
     | Some e \<Rightarrow> do {
         let e = e\<lparr>ev_ret := exit_ret ctx\<rparr>;
         bpf_ringbuf_submit e;
         return 0
       }
   }"

definition trace_sys_enter_ptrace :: "kernel \<Rightarrow> sys_enter_ctx \<Rightarrow> int prog" where
  "trace_sys_enter_ptrace K ctx = do {
     r \<leftarrow> handle_enter_event K (ucast (enter_id ctx));
     case r of
       None \<Rightarrow> return 0
     | Some e \<Rightarrow> do {
         let e = set_s32 0 (ucast (args ctx 0)) e;
         let e = set_u32 0 (ucast (args ctx 1)) e;
         bpf_ringbuf_submit e;
         return 0
       }
   }"

definition trace_sys_exit_ptrace :: "kernel \<Rightarrow> sys_exit_ctx \<Rightarrow> int prog" where
  "trace_sys_exit_ptrace K ctx = do {
     r \<leftarrow> handle_exit_event K (ucast (exit_id ctx));
     case r of
       None \<Rightarrow> return 0
     | Some e \<Rightarrow> do {
         let e = e\<lparr>ev_ret := exit_ret ctx\<rparr>;
         bpf_ringbuf_submit e;
         return 0
       }
   }"

definition trace_sys_enter_process_vm_readv :: "kernel \<Rightarrow> sys_enter_ctx \<Rightarrow> int prog" where
  "trace_sys_enter_process_vm_readv K ctx = do {
     r \<leftarrow> handle_enter_event K (ucast (enter_id ctx));
     case r of
       None \<Rightarrow> return 0
     | Some e \<Rightarrow> do {
         let e = set_u32 0 (ucast (args ctx 0)) e;
         let e = set_u64 0 (args ctx 2) e;
         let e = set_u64 1 (args ctx 4) e;
         let e = set_u64 2 (args ctx 5) e;
         bpf_ringbuf_submit e;
         return 0
       }
   }"

definition trace_sys_exit_process_vm_readv :: "kernel \<Rightarrow> sys_exit_ctx \<Rightarrow> int prog" where
  "trace_sys_exit_process_vm_readv K ctx = do {
     r \<leftarrow> handle_exit_event K (ucast (exit_id ctx));
     case r of
       None \<Rightarrow> return 0
     | Some e \<Rightarrow> do {
         let e = e\<lparr>ev_ret := exit_ret ctx\<rparr>;
         bpf_ringbuf_submit e;
         return 0
       }
   }"

definition trace_sys_enter_process_vm_writev :: "kernel \<Rightarrow> sys_enter_ctx \<Rightarrow> int prog" where
  "trace_sys_enter_process_vm_writev K ctx = do {
     r \<leftarrow> handle_enter_event K (ucast (enter_id ctx));
     case r of
       None \<Rightarrow> return 0
     | Some e \<Rightarrow> do {
         let e = set_u32 0 (ucast (args ctx 0)) e;
         let e = set_u64 0 (args ctx 2) e;
         let e = set_u64 1 (args ctx 4) e;
         let e = set_u64 2 (args ctx 5) e;
         bpf_ringbuf_submit e;
         return 0
       }
   }"

definition trace_sys_exit_process_vm_writev :: "kernel \<Rightarrow> sys_exit_ctx \<Rightarrow> int prog" where
  "trace_sys_exit_process_vm_writev K ctx = do {
     r \<leftarrow> handle_exit_event K (ucast (exit_id ctx));
     case r of
       None \<Rightarrow> return 0
     | Some e \<Rightarrow> do {
         let e = e\<lparr>ev_ret := exit_ret ctx\<rparr>;
         bpf_ringbuf_submit e;
         return 0
       }
   }"

definition trace_sys_enter_init_module :: "kernel \<Rightarrow> sys_enter_ctx \<Rightarrow> int prog" where
  "trace_sys_enter_init_module K ctx = do {
     r \<leftarrow> handle_enter_event K (ucast (enter_id ctx));
     case r of
       None \<Rightarrow> return 0
     | Some e \<Rightarrow> do {
         let e = set_u64 0 (args ctx 1) e;
         let e = e\<lparr>is_valid := False\<rparr>;
         let param_values_ptr = args ctx 2;
         e \<leftarrow> (if param_values_ptr \<noteq> 0 then do {
             (n, bs) \<leftarrow> bpf_probe_read_user_str K 256 param_values_ptr (arg_str e);
             let e = e\<lparr>arg_str := bs\<rparr>;
             if n = 0 then return (e\<lparr>is_valid := True\<rparr>) else return e
           } else return e);
         bpf_ringbuf_submit e;
         return 0
       }
   }"

definition trace_sys_exit_init_module :: "kernel \<Rightarrow> sys_exit_ctx \<Rightarrow> int prog" where
  "trace_sys_exit_init_module K ctx = do {
     r \<leftarrow> handle_exit_event K (ucast (exit_id ctx));
     case r of
       None \<Rightarrow> return 0
     | Some e \<Rightarrow> do {
         let e = e\<lparr>ev_ret := exit_ret ctx\<rparr>;
         bpf_ringbuf_submit e;
         return 0
       }
   }"

definition trace_sys_enter_finit_module :: "kernel \<Rightarrow> sys_enter_ctx \<Rightarrow> int prog" where
  "trace_sys_enter_finit_module K ctx = do {
     r \<leftarrow> handle_enter_event K (ucast (enter_id ctx));
     case r of
       None \<Rightarrow> return 0
     | Some e \<Rightarrow> do {
         let e = set_s32 0 (ucast (args ctx 0)) e;
         let e = set_s32 1 (ucast (args ctx 2)) e;
         let e = e\<lparr>is_valid := False\<rparr>;
         let param_values_ptr = args ctx 1;
         e \<leftarrow> (if param_values_ptr \<noteq> 0 then do {
             (n, bs) \<leftarrow> bpf_probe_read_user_str K 256 param_values_ptr (arg_str e);
             let e = e\<lparr>arg_str := bs\<rparr>;
             if 0 \<le> n then return (e\<lparr>is_valid := True\<rparr>) else return e
           } else return e);
         bpf_ringbuf_submit e;
         return 0
       }
   }"

definition trace_sys_exit_finit_module :: "kernel \<Rightarrow> sys_exit_ctx \<Rightarrow> int prog" where
  "trace_sys_exit_finit_module K ctx = do {
     r \<leftarrow> handle_exit_event K (ucast (exit_id ctx));
     case r of
       None \<Rightarrow> return 0
     | Some e \<Rightarrow> do {
         let e = e\<lparr>ev_ret := exit_ret ctx\<rparr>;
         bpf_ringbuf_submit e;
         return 0
       }
   }"

definition trace_sys_enter_delete_module :: "kernel \<Rightarrow> sys_enter_ctx \<Rightarrow> int prog" where
  "trace_sys_enter_delete_module K ctx = do {
     r \<leftarrow> handle_enter_event K (ucast (enter_id ctx));
     case r of
       None \<Rightarrow> return 0
     | Some e \<Rightarrow> do {
         let e = set_u32 0 (ucast (args ctx 1)) e;
         let e = e\<lparr>is_valid := False\<rparr>;
         let name_ptr = args ctx 0;
         e \<leftarrow> (if name_ptr \<noteq> 0 then do {
             (n, bs) \<leftarrow> bpf_probe_read_user_str K 256 name_ptr (arg_str e);
             let e = e\<lparr>arg_str := bs\<rparr>;
             if 0 \<le> n then return (e\<lparr>is_valid := True\<rparr>) else return e
           } else return e);
         bpf_ringbuf_submit e;
         return 0
       }
   }"

definition trace_sys_exit_delete_module :: "kernel \<Rightarrow> sys_exit_ctx \<Rightarrow> int prog" where
  "trace_sys_exit_delete_module K ctx = do {
     r \<leftarrow> handle_exit_event K (ucast (exit_id ctx));
     case r of
       None \<Rightarrow> return 0
     | Some e \<Rightarrow> do {
         let e = e\<lparr>ev_ret := exit_ret ctx\<rparr>;
         bpf_ringbuf_submit e;
         return 0
       }
   }"

definition trace_sys_enter_munmap :: "kernel \<Rightarrow> sys_enter_ctx \<Rightarrow> int prog" where
  "trace_sys_enter_munmap K ctx = do {
     r \<leftarrow> handle_enter_event K (ucast (enter_id ctx));
     case r of
       None \<Rightarrow> return 0
     | Some e \<Rightarrow> do {
         let e = set_u64 0 (args ctx 0) e;
         let e = set_u64 1 (args ctx 1) e;
         bpf_ringbuf_submit e;
         return 0
       }
   }"

definition trace_sys_exit_munmap :: "kernel \<Rightarrow> sys_exit_ctx \<Rightarrow> int prog" where
  "trace_sys_exit_munmap K ctx = do {
     r \<leftarrow> handle_exit_event K (ucast (exit_id ctx));
     case r of
       None \<Rightarrow> return 0
     | Some e \<Rightarrow> do {
         let e = e\<lparr>ev_ret := exit_ret ctx\<rparr>;
         bpf_ringbuf_submit e;
         return 0
       }
   }"

definition trace_sys_enter_mremap :: "kernel \<Rightarrow> sys_enter_ctx \<Rightarrow> int prog" where
  "trace_sys_enter_mremap K ctx = do {
     r \<leftarrow> handle_enter_event K (ucast (enter_id ctx));
     case r of
       None \<Rightarrow> return 0
     | Some e \<Rightarrow> do {
         let e = set_u64 0 (args ctx 0) e;
         let e = set_u64 1 (args ctx 1) e;
         let e = set_u64 2 (args ctx 2) e;
         let e = set_s32 0 (ucast (args ctx 3)) e;
         let e = set_u64 3 (args ctx 4) e;
         bpf_ringbuf_submit e;
         return 0
       }
   }"

definition trace_sys_exit_mremap :: "kernel \<Rightarrow> sys_exit_ctx \<Rightarrow> int prog" where
  "trace_sys_exit_mremap K ctx = do {
     r \<leftarrow> handle_exit_event K (ucast (exit_id ctx));
     case r of
       None \<Rightarrow> return 0
     | Some e \<Rightarrow> do {
         let e = e\<lparr>ev_ret := exit_ret ctx\<rparr>;
         bpf_ringbuf_submit e;
         return 0
       }
   }"

definition trace_sys_enter_madvise :: "kernel \<Rightarrow> sys_enter_ctx \<Rightarrow> int prog" where
  "trace_sys_enter_madvise K ctx = do {
     r \<leftarrow> handle_enter_event K (ucast (enter_id ctx));
     case r of
       None \<Rightarrow> return 0
     | Some e \<Rightarrow> do {
         let e = set_u64 0 (args ctx 0) e;
         let e = set_u64 1 (args ctx 1) e;
         let e = set_s32 0 (ucast (args ctx 2)) e;
         bpf_ringbuf_submit e;
         return 0
       }
   }"

definition trace_sys_exit_madvise :: "kernel \<Rightarrow> sys_exit_ctx \<Rightarrow> int prog" where
  "trace_sys_exit_madvise K ctx = do {
     r \<leftarrow> handle_exit_event K (ucast (exit_id ctx));
     case r of
       None \<Rightarrow> return 0
     | Some e \<Rightarrow> do {
         let e = e\<lparr>ev_ret := exit_ret ctx\<rparr>;
         bpf_ringbuf_submit e;
         return 0
       }
   }"

definition trace_sys_enter_mlock :: "kernel \<Rightarrow> sys_enter_ctx \<Rightarrow> int prog" where
  "trace_sys_enter_mlock K ctx = do {
     r \<leftarrow> handle_enter_event K (ucast (enter_id ctx));
     case r of
       None \<Rightarrow> return 0
     | Some e \<Rightarrow> do {
         let e = set_u64 0 (args ctx 0) e;
         let e = set_u64 1 (args ctx 1) e;
         bpf_ringbuf_submit e;
         return 0
       }
   }"

definition trace_sys_exit_mlock :: "kernel \<Rightarrow> sys_exit_ctx \<Rightarrow> int prog" where
  "trace_sys_exit_mlock K ctx = do {
     r \<leftarrow> handle_exit_event K (ucast (exit_id ctx));
     case r of
       None \<Rightarrow> return 0
     | Some e \<Rightarrow> do {
         let e = e\<lparr>ev_ret := exit_ret ctx\<rparr>;
         bpf_ringbuf_submit e;
         return 0
       }
   }"

definition trace_sys_enter_mlock2 :: "kernel \<Rightarrow> sys_enter_ctx \<Rightarrow> int prog" where
  "trace_sys_enter_mlock2 K ctx = do {
     r \<leftarrow> handle_enter_event K (ucast (enter_id ctx));
     case r of
       None \<Rightarrow> return 0
     | Some e \<Rightarrow> do {
         let e = set_u64 0 (args ctx 0) e;
         let e = set_u64 1 (args ctx 1) e;
         let e = set_u32 0 (ucast (args ctx 2)) e;
         bpf_ringbuf_submit e;
         return 0
       }
   }"

definition trace_sys_exit_mlock2 :: "kernel \<Rightarrow> sys_exit_ctx \<Rightarrow> int prog" where
  "trace_sys_exit_mlock2 K ctx = do {
     r \<leftarrow> handle_exit_event K (ucast (exit_id ctx));
     case r of
       None \<Rightarrow> return 0
     | Some e \<Rightarrow> do {
         let e = e\<lparr>ev_ret := exit_ret ctx\<rparr>;
         bpf_ringbuf_submit e;
         return 0
       }
   }"

definition trace_sys_enter_munlock :: "kernel \<Rightarrow> sys_enter_ctx \<Rightarrow> int prog" where
  "trace_sys_enter_munlock K ctx = do {
     r \<leftarrow> handle_enter_event K (ucast (enter_id ctx));
     case r of
       None \<Rightarrow> return 0
     | Some e \<Rightarrow> do {
         let e = set_u64 0 (args ctx 0) e;
         let e = set_u64 1 (args ctx 1) e;
         bpf_ringbuf_submit e;
         return 0
       }
   }"

definition trace_sys_exit_munlock :: "kernel \<Rightarrow> sys_exit_ctx \<Rightarrow> int prog" where
  "trace_sys_exit_munlock K ctx = do {
     r \<leftarrow> handle_exit_event K (ucast (exit_id ctx));
     case r of
       None \<Rightarrow> return 0
     | Some e \<Rightarrow> do {
         let e = e\<lparr>ev_ret := exit_ret ctx\<rparr>;
         bpf_ringbuf_submit e;
         return 0
       }
   }"

definition trace_sys_enter_mlockall :: "kernel \<Rightarrow> sys_enter_ctx \<Rightarrow> int prog" where
  "trace_sys_enter_mlockall K ctx = do {
     r \<leftarrow> handle_enter_event K (ucast (enter_id ctx));
     case r of
       None \<Rightarrow> return 0
     | Some e \<Rightarrow> do {
         let e = set_s32 0 (ucast (args ctx 0)) e;
         bpf_ringbuf_submit e;
         return 0
       }
   }"

definition trace_sys_exit_mlockall :: "kernel \<Rightarrow> sys_exit_ctx \<Rightarrow> int prog" where
  "trace_sys_exit_mlockall K ctx = do {
     r \<leftarrow> handle_exit_event K (ucast (exit_id ctx));
     case r of
       None \<Rightarrow> return 0
     | Some e \<Rightarrow> do {
         let e = e\<lparr>ev_ret := exit_ret ctx\<rparr>;
         bpf_ringbuf_submit e;
         return 0
       }
   }"

definition trace_sys_enter_munlockall :: "kernel \<Rightarrow> sys_enter_ctx \<Rightarrow> int prog" where
  "trace_sys_enter_munlockall K ctx = do {
     r \<leftarrow> handle_enter_event K (ucast (enter_id ctx));
     case r of
       None \<Rightarrow> return 0
     | Some e \<Rightarrow> do {
         bpf_ringbuf_submit e;
         return 0
       }
   }"

definition trace_sys_exit_munlockall :: "kernel \<Rightarrow> sys_exit_ctx \<Rightarrow> int prog" where
  "trace_sys_exit_munlockall K ctx = do {
     r \<leftarrow> handle_exit_event K (ucast (exit_id ctx));
     case r of
       None \<Rightarrow> return 0
     | Some e \<Rightarrow> do {
         let e = e\<lparr>ev_ret := exit_ret ctx\<rparr>;
         bpf_ringbuf_submit e;
         return 0
       }
   }"

definition trace_sys_enter_capget :: "kernel \<Rightarrow> sys_enter_ctx \<Rightarrow> int prog" where
  "trace_sys_enter_capget K ctx = do {
     ct \<leftarrow> get_task_struct K (ucast (enter_id ctx));
     let key = get_map_key ct;
     map_update capget_args_map_update key \<lparr>hdrp = args ctx 0, datap = args ctx 1\<rparr>;
     r \<leftarrow> handle_enter_event K (ucast (enter_id ctx));
     case r of
       None \<Rightarrow> return 0
     | Some e \<Rightarrow> do {
         bpf_ringbuf_submit e;
         return 0
       }
   }"

definition trace_sys_exit_capget :: "kernel \<Rightarrow> sys_exit_ctx \<Rightarrow> int prog" where
  "trace_sys_exit_capget K ctx = do {
     let ret = exit_ret ctx;
     ct \<leftarrow> get_task_struct K (ucast (exit_id ctx));
     let key = get_map_key ct;
     r \<leftarrow> handle_exit_event K (ucast (exit_id ctx));
     (case r of
       None \<Rightarrow> return ()
     | Some e \<Rightarrow> do {
         let e = e\<lparr>ev_ret := ret\<rparr>;
         let e = e\<lparr>is_valid := False\<rparr>;
         e \<leftarrow> (if nonneg ret then do {
             stored \<leftarrow> map_lookup capget_args_map key;
             case stored of
               None \<Rightarrow> return e
             | Some sa \<Rightarrow> do {
                 (rc1, hbs) \<leftarrow> read_user_local K 8 (hdrp sa);
                 if rc1 = 0 then do {
                   (rc2, dbs) \<leftarrow> read_user_local K 12 (datap sa);
                   if rc2 = 0 then do {
                     let header = decode_cap_header hbs;
                     let data = decode_cap_data dbs;
                     let e = set_u32 0 (cap_version header) e;
                     let e = set_u32 1 (cap_pid header) e;
                     let e = set_u32 2 (cap_effective data) e;
                     let e = set_u32 3 (cap_permitted data) e;
                     let e = set_u32 4 (cap_inheritable data) e;
                     return (e\<lparr>is_valid := True\<rparr>)
                   } else return e
                 } else return e
               }
           } else return e);
         bpf_ringbuf_submit e
       });
     map_delete capget_args_map_update key;
     return 0
   }"

definition trace_sys_enter_prctl :: "kernel \<Rightarrow> sys_enter_ctx \<Rightarrow> int prog" where
  "trace_sys_enter_prctl K ctx = do {
     r \<leftarrow> handle_enter_event K (ucast (enter_id ctx));
     case r of
       None \<Rightarrow> return 0
     | Some e \<Rightarrow> do {
         let e = set_s32 0 (ucast (args ctx 0)) e;
         bpf_ringbuf_submit e;
         return 0
       }
   }"

definition trace_sys_exit_prctl :: "kernel \<Rightarrow> sys_exit_ctx \<Rightarrow> int prog" where
  "trace_sys_exit_prctl K ctx = do {
     r \<leftarrow> handle_exit_event K (ucast (exit_id ctx));
     case r of
       None \<Rightarrow> return 0
     | Some e \<Rightarrow> do {
         let e = e\<lparr>ev_ret := exit_ret ctx\<rparr>;
         bpf_ringbuf_submit e;
         return 0
       }
   }"

definition trace_sys_enter_arch_prctl :: "kernel \<Rightarrow> sys_enter_ctx \<Rightarrow> int prog" where
  "trace_sys_enter_arch_prctl K ctx = do {
     r \<leftarrow> handle_enter_event K (ucast (enter_id ctx));
     case r of
       None \<Rightarrow> return 0
     | Some e \<Rightarrow> do {
         let e = set_s32 0 (ucast (args ctx 0)) e;
         let e = set_u64 0 (args ctx 1) e;
         bpf_ringbuf_submit e;
         return 0
       }
   }"

definition trace_sys_exit_arch_prctl :: "kernel \<Rightarrow> sys_exit_ctx \<Rightarrow> int prog" where
  "trace_sys_exit_arch_prctl K ctx = do {
     r \<leftarrow> handle_exit_event K (ucast (exit_id ctx));
     case r of
       None \<Rightarrow> return 0
     | Some e \<Rightarrow> do {
         let e = e\<lparr>ev_ret := exit_ret ctx\<rparr>;
         bpf_ringbuf_submit e;
         return 0
       }
   }"

definition trace_sys_enter_kill :: "kernel \<Rightarrow> sys_enter_ctx \<Rightarrow> int prog" where
  "trace_sys_enter_kill K ctx = do {
     r \<leftarrow> handle_enter_event K (ucast (enter_id ctx));
     case r of
       None \<Rightarrow> return 0
     | Some e \<Rightarrow> do {
         let e = set_u32 0 (ucast (args ctx 0)) e;
         let e = set_s32 0 (ucast (args ctx 1)) e;
         bpf_ringbuf_submit e;
         return 0
       }
   }"

definition trace_sys_exit_kill :: "kernel \<Rightarrow> sys_exit_ctx \<Rightarrow> int prog" where
  "trace_sys_exit_kill K ctx = do {
     r \<leftarrow> handle_exit_event K (ucast (exit_id ctx));
     case r of
       None \<Rightarrow> return 0
     | Some e \<Rightarrow> do {
         let e = e\<lparr>ev_ret := exit_ret ctx\<rparr>;
         bpf_ringbuf_submit e;
         return 0
       }
   }"

definition trace_sys_enter_tkill :: "kernel \<Rightarrow> sys_enter_ctx \<Rightarrow> int prog" where
  "trace_sys_enter_tkill K ctx = do {
     r \<leftarrow> handle_enter_event K (ucast (enter_id ctx));
     case r of
       None \<Rightarrow> return 0
     | Some e \<Rightarrow> do {
         let e = set_u32 0 (ucast (args ctx 0)) e;
         let e = set_s32 0 (ucast (args ctx 2)) e;
         bpf_ringbuf_submit e;
         return 0
       }
   }"

definition trace_sys_exit_tkill :: "kernel \<Rightarrow> sys_exit_ctx \<Rightarrow> int prog" where
  "trace_sys_exit_tkill K ctx = do {
     r \<leftarrow> handle_exit_event K (ucast (exit_id ctx));
     case r of
       None \<Rightarrow> return 0
     | Some e \<Rightarrow> do {
         let e = e\<lparr>ev_ret := exit_ret ctx\<rparr>;
         bpf_ringbuf_submit e;
         return 0
       }
   }"

definition trace_sys_enter_tgkill :: "kernel \<Rightarrow> sys_enter_ctx \<Rightarrow> int prog" where
  "trace_sys_enter_tgkill K ctx = do {
     r \<leftarrow> handle_enter_event K (ucast (enter_id ctx));
     case r of
       None \<Rightarrow> return 0
     | Some e \<Rightarrow> do {
         let e = set_u32 0 (ucast (args ctx 0)) e;
         let e = set_u32 1 (ucast (args ctx 1)) e;
         let e = set_s32 0 (ucast (args ctx 2)) e;
         bpf_ringbuf_submit e;
         return 0
       }
   }"

definition trace_sys_exit_tgkill :: "kernel \<Rightarrow> sys_exit_ctx \<Rightarrow> int prog" where
  "trace_sys_exit_tgkill K ctx = do {
     r \<leftarrow> handle_exit_event K (ucast (exit_id ctx));
     case r of
       None \<Rightarrow> return 0
     | Some e \<Rightarrow> do {
         let e = e\<lparr>ev_ret := exit_ret ctx\<rparr>;
         bpf_ringbuf_submit e;
         return 0
       }
   }"

definition trace_sys_enter_brk :: "kernel \<Rightarrow> sys_enter_ctx \<Rightarrow> int prog" where
  "trace_sys_enter_brk K ctx = do {
     r \<leftarrow> handle_enter_event K (ucast (enter_id ctx));
     case r of
       None \<Rightarrow> return 0
     | Some e \<Rightarrow> do {
         let e = set_u64 0 (args ctx 0) e;
         bpf_ringbuf_submit e;
         return 0
       }
   }"

definition trace_sys_exit_brk :: "kernel \<Rightarrow> sys_exit_ctx \<Rightarrow> int prog" where
  "trace_sys_exit_brk K ctx = do {
     r \<leftarrow> handle_exit_event K (ucast (exit_id ctx));
     case r of
       None \<Rightarrow> return 0
     | Some e \<Rightarrow> do {
         let e = e\<lparr>ev_ret := exit_ret ctx\<rparr>;
         bpf_ringbuf_submit e;
         return 0
       }
   }"

definition trace_sys_enter_sched_setscheduler :: "kernel \<Rightarrow> sys_enter_ctx \<Rightarrow> int prog" where
  "trace_sys_enter_sched_setscheduler K ctx = do {
     r \<leftarrow> handle_enter_event K (ucast (enter_id ctx));
     case r of
       None \<Rightarrow> return 0
     | Some e \<Rightarrow> do {
         let e = set_u32 0 (ucast (args ctx 0)) e;
         let e = set_s32 0 (ucast (args ctx 1)) e;
         bs \<leftarrow> uninit_local K 4;
         (rc, param) \<leftarrow> bpf_probe_read K 4 (args ctx 2) bs;
         let e = set_s32 1 (sched_priority param) e;
         bpf_ringbuf_submit e;
         return 0
       }
   }"

definition trace_sys_exit_sched_setscheduler :: "kernel \<Rightarrow> sys_exit_ctx \<Rightarrow> int prog" where
  "trace_sys_exit_sched_setscheduler K ctx = do {
     r \<leftarrow> handle_exit_event K (ucast (exit_id ctx));
     case r of
       None \<Rightarrow> return 0
     | Some e \<Rightarrow> do {
         let e = e\<lparr>ev_ret := exit_ret ctx\<rparr>;
         bpf_ringbuf_submit e;
         return 0
       }
   }"

subsection \<open>Tables\<close>

definition mem_plain_enter :: "(string \<times> enter_program) list" where
  "mem_plain_enter =
     [(''mmap'', trace_sys_enter_mmap),
      (''mprotect'', trace_sys_enter_mprotect),
      (''capset'', trace_sys_enter_capset),
      (''ptrace'', trace_sys_enter_ptrace),
      (''process_vm_readv'', trace_sys_enter_process_vm_readv),
      (''process_vm_writev'', trace_sys_enter_process_vm_writev),
      (''init_module'', trace_sys_enter_init_module),
      (''finit_module'', trace_sys_enter_finit_module),
      (''delete_module'', trace_sys_enter_delete_module),
      (''munmap'', trace_sys_enter_munmap),
      (''mremap'', trace_sys_enter_mremap),
      (''madvise'', trace_sys_enter_madvise),
      (''mlock'', trace_sys_enter_mlock),
      (''mlock2'', trace_sys_enter_mlock2),
      (''munlock'', trace_sys_enter_munlock),
      (''mlockall'', trace_sys_enter_mlockall),
      (''munlockall'', trace_sys_enter_munlockall),
      (''prctl'', trace_sys_enter_prctl),
      (''arch_prctl'', trace_sys_enter_arch_prctl),
      (''kill'', trace_sys_enter_kill),
      (''tkill'', trace_sys_enter_tkill),
      (''tgkill'', trace_sys_enter_tgkill),
      (''brk'', trace_sys_enter_brk),
      (''sched_setscheduler'', trace_sys_enter_sched_setscheduler)]"

definition mem_storing_enter :: "(string \<times> enter_program \<times> enter_effect) list" where
  "mem_storing_enter =
     [(''capget'', trace_sys_enter_capget,
       \<lambda>K ctx. stored capget_args_map_update (activation_key K) \<lparr>hdrp = args ctx 0, datap = args ctx 1\<rparr>)]"

definition mem_plain_exit :: "(string \<times> exit_program) list" where
  "mem_plain_exit =
     [(''mmap'', trace_sys_exit_mmap),
      (''mprotect'', trace_sys_exit_mprotect),
      (''capset'', trace_sys_exit_capset),
      (''ptrace'', trace_sys_exit_ptrace),
      (''process_vm_readv'', trace_sys_exit_process_vm_readv),
      (''process_vm_writev'', trace_sys_exit_process_vm_writev),
      (''init_module'', trace_sys_exit_init_module),
      (''finit_module'', trace_sys_exit_finit_module),
      (''delete_module'', trace_sys_exit_delete_module),
      (''munmap'', trace_sys_exit_munmap),
      (''mremap'', trace_sys_exit_mremap),
      (''madvise'', trace_sys_exit_madvise),
      (''mlock'', trace_sys_exit_mlock),
      (''mlock2'', trace_sys_exit_mlock2),
      (''munlock'', trace_sys_exit_munlock),
      (''mlockall'', trace_sys_exit_mlockall),
      (''munlockall'', trace_sys_exit_munlockall),
      (''prctl'', trace_sys_exit_prctl),
      (''arch_prctl'', trace_sys_exit_arch_prctl),
      (''kill'', trace_sys_exit_kill),
      (''tkill'', trace_sys_exit_tkill),
      (''tgkill'', trace_sys_exit_tgkill),
      (''brk'', trace_sys_exit_brk),
      (''sched_setscheduler'', trace_sys_exit_sched_setscheduler)]"

definition mem_cleanup_exit :: "(string \<times> exit_program \<times> exit_effect) list" where
  "mem_cleanup_exit =
     [(''capget'', trace_sys_exit_capget,
       \<lambda>K ctx. dropped capget_args_map_update (activation_key K))]"

subsection \<open>The logging contract\<close>

lemmas mem_plain_enter_defs =
  trace_sys_enter_mmap_def trace_sys_enter_mprotect_def trace_sys_enter_capset_def
  trace_sys_enter_ptrace_def trace_sys_enter_process_vm_readv_def
  trace_sys_enter_process_vm_writev_def trace_sys_enter_init_module_def
  trace_sys_enter_finit_module_def trace_sys_enter_delete_module_def trace_sys_enter_munmap_def
  trace_sys_enter_mremap_def trace_sys_enter_madvise_def trace_sys_enter_mlock_def
  trace_sys_enter_mlock2_def trace_sys_enter_munlock_def trace_sys_enter_mlockall_def
  trace_sys_enter_munlockall_def trace_sys_enter_prctl_def trace_sys_enter_arch_prctl_def
  trace_sys_enter_kill_def trace_sys_enter_tkill_def trace_sys_enter_tgkill_def
  trace_sys_enter_brk_def trace_sys_enter_sched_setscheduler_def

lemma mem_plain_enter_probe:
  "list_all (\<lambda>(n, p). \<forall>K ctx. probe K True (ucast (enter_id ctx)) unchanged (p K ctx))
     mem_plain_enter"
  unfolding mem_plain_enter_def list.pred_inject prod.case
  apply (intro conjI allI TrueI)
  unfolding mem_plain_enter_defs Let_def
  by (rule probe_plain_enter submits_rules keeps_rules quiet_helpers zero_rules | (simp; fail))+

lemmas mem_storing_enter_defs =
  trace_sys_enter_capget_def

lemma mem_storing_enter_probe:
  "list_all (\<lambda>(n, p, A). \<forall>K ctx. probe K True (ucast (enter_id ctx)) (A K ctx) (p K ctx))
     mem_storing_enter"
  unfolding mem_storing_enter_def list.pred_inject prod.case
  apply (intro conjI allI TrueI)
  unfolding mem_storing_enter_defs Let_def
  by (rule probe_storing probe_plain_enter submits_rules keeps_rules quiet_helpers zero_rules | (simp; fail))+

lemmas mem_plain_exit_defs =
  trace_sys_exit_mmap_def trace_sys_exit_mprotect_def trace_sys_exit_capset_def
  trace_sys_exit_ptrace_def trace_sys_exit_process_vm_readv_def
  trace_sys_exit_process_vm_writev_def trace_sys_exit_init_module_def
  trace_sys_exit_finit_module_def trace_sys_exit_delete_module_def trace_sys_exit_munmap_def
  trace_sys_exit_mremap_def trace_sys_exit_madvise_def trace_sys_exit_mlock_def
  trace_sys_exit_mlock2_def trace_sys_exit_munlock_def trace_sys_exit_mlockall_def
  trace_sys_exit_munlockall_def trace_sys_exit_prctl_def trace_sys_exit_arch_prctl_def
  trace_sys_exit_kill_def trace_sys_exit_tkill_def trace_sys_exit_tgkill_def
  trace_sys_exit_brk_def trace_sys_exit_sched_setscheduler_def

lemma mem_plain_exit_probe:
  "list_all (\<lambda>(n, p). \<forall>K ctx. probe K False (ucast (exit_id ctx)) unchanged (p K ctx))
     mem_plain_exit"
  unfolding mem_plain_exit_def list.pred_inject prod.case
  apply (intro conjI allI TrueI)
  unfolding mem_plain_exit_defs Let_def
  by (rule probe_plain_exit submits_rules keeps_rules quiet_helpers zero_rules | (simp; fail))+

lemmas mem_cleanup_exit_defs =
  trace_sys_exit_capget_def

lemma mem_cleanup_exit_probe:
  "list_all (\<lambda>(n, p, A). \<forall>K ctx. probe K False (ucast (exit_id ctx)) (A K ctx) (p K ctx))
     mem_cleanup_exit"
  unfolding mem_cleanup_exit_def list.pred_inject prod.case
  apply (intro conjI allI TrueI)
  unfolding mem_cleanup_exit_defs Let_def
  by (rule probe_cleanup_key probe_cleanup_stray submits_rules keeps_rules quiet_helpers zero_rules | (simp; fail))+

end
