(* ===== verification/Trace_Programs.thy ===== *)
theory Trace_Programs
  imports Trace_Net Trace_File Trace_Meta Trace_Proc Trace_Mem
begin

section \<open>Tracepoint monitor: all programs together\<close>

text \<open>
  The tables of the five families joined: for each attach point the program and what it does to
  the argument maps.  From the contract of every entry follow the facts about a single
  activation that the transition system uses.
\<close>

subsection \<open>The tables\<close>

definition plain_enter_programs :: "(string \<times> enter_program) list" where
  "plain_enter_programs =
     net_plain_enter @ file_plain_enter @ meta_plain_enter @ proc_plain_enter @ mem_plain_enter"

definition storing_enter_programs :: "(string \<times> enter_program \<times> enter_effect) list" where
  "storing_enter_programs =
     net_storing_enter @ file_storing_enter @ proc_storing_enter @ mem_storing_enter"

definition plain_exit_programs :: "(string \<times> exit_program) list" where
  "plain_exit_programs =
     net_plain_exit @ file_plain_exit @ meta_plain_exit @ proc_plain_exit @ mem_plain_exit"

definition cleanup_exit_programs :: "(string \<times> exit_program \<times> exit_effect) list" where
  "cleanup_exit_programs =
     net_cleanup_exit @ file_cleanup_exit @ proc_cleanup_exit @ mem_cleanup_exit"

definition enter_programs :: "(string \<times> enter_program \<times> enter_effect) list" where
  "enter_programs =
     map (\<lambda>(n, p). (n, p, \<lambda>K ctx. unchanged)) plain_enter_programs @ storing_enter_programs"

definition exit_programs :: "(string \<times> exit_program \<times> exit_effect) list" where
  "exit_programs =
     map (\<lambda>(n, p). (n, p, \<lambda>K ctx. unchanged)) plain_exit_programs @ cleanup_exit_programs"

lemmas table_defs =
  net_plain_enter_def file_plain_enter_def meta_plain_enter_def proc_plain_enter_def
  mem_plain_enter_def net_storing_enter_def file_storing_enter_def proc_storing_enter_def
  mem_storing_enter_def net_plain_exit_def file_plain_exit_def meta_plain_exit_def
  proc_plain_exit_def mem_plain_exit_def net_cleanup_exit_def file_cleanup_exit_def
  proc_cleanup_exit_def mem_cleanup_exit_def
  plain_enter_programs_def storing_enter_programs_def plain_exit_programs_def
  cleanup_exit_programs_def enter_programs_def exit_programs_def

subsection \<open>The contract of every program\<close>

lemma enter_programs_probe:
  "list_all (\<lambda>(n, p, A). \<forall>K ctx. probe K True (ucast (enter_id ctx)) (A K ctx) (p K ctx))
     enter_programs"
  using net_plain_enter_probe file_plain_enter_probe meta_plain_enter_probe proc_plain_enter_probe
    mem_plain_enter_probe net_storing_enter_probe file_storing_enter_probe
    proc_storing_enter_probe mem_storing_enter_probe
  by (simp add: enter_programs_def plain_enter_programs_def storing_enter_programs_def
      list.pred_map comp_def case_prod_unfold)

lemma exit_programs_probe:
  "list_all (\<lambda>(n, p, A). \<forall>K ctx. probe K False (ucast (exit_id ctx)) (A K ctx) (p K ctx))
     exit_programs"
  using net_plain_exit_probe file_plain_exit_probe meta_plain_exit_probe proc_plain_exit_probe
    mem_plain_exit_probe net_cleanup_exit_probe file_cleanup_exit_probe
    proc_cleanup_exit_probe mem_cleanup_exit_probe
  by (simp add: exit_programs_def plain_exit_programs_def cleanup_exit_programs_def
      list.pred_map comp_def case_prod_unfold)

lemma enter_program_probe:
  "(n, p, A) \<in> set enter_programs \<Longrightarrow>
   probe K True (ucast (enter_id ctx)) (A K ctx) (p K ctx)"
  using enter_programs_probe by (auto simp: list_all_iff)

lemma exit_program_probe:
  "(n, p, A) \<in> set exit_programs \<Longrightarrow>
   probe K False (ucast (exit_id ctx)) (A K ctx) (p K ctx)"
  using exit_programs_probe by (auto simp: list_all_iff)

subsection \<open>The attach points\<close>

lemma same_attach_points: "map fst enter_programs = map fst exit_programs"
  by (simp add: table_defs)

lemma attach_points_count: "length enter_programs = 163"
  by (simp add: table_defs)

lemma attach_points_distinct: "distinct (map fst enter_programs)"
  by (simp add: table_defs)

end
