(* ===== verification/Consumer.thy ===== *)
theory Consumer
  imports Trace_Types Text_Format
begin

section \<open>Tracepoint monitor: the consumer's log lines\<close>

text \<open>
  \<open>src/src/tracepoint/handler.cpp\<close> and \<open>user_struct.h\<close>: how a record becomes a log line.  A
  \<open>std::string\<close> is a list of characters, \<open>std::to_string\<close> is decimal notation, a byte array read
  as a C string ends at its first zero byte.  A handler is a function from the record and the
  base line to the line it hands to \<open>add_event\<close>, or \<open>None\<close> when it returns without doing so.
  What the environment supplies is \<open>log_env\<close>: the boot time, the containers found, and the text
  that \<open>inet_ntop\<close> gives to the sixteen bytes of an IPv6 address.
\<close>

subsection \<open>db_event_t, the environment and handlers\<close>

record db_event =
  db_timestamp :: int
  db_container_name :: string
  db_syscall :: s32
  db_is_enter :: bool
  db_pid_namespace :: u32
  db_mnt_namespace :: u32
  db_ppid :: u32
  db_pid :: u32
  db_tid :: u32
  db_uid :: u32
  db_gid :: u32
  db_ret :: s64
  db_comm :: string
  arg0 :: string
  arg1 :: string
  arg2 :: string
  arg3 :: string
  arg4 :: string
  arg5 :: string

record container_info =
  container_id :: string
  container_ns_id :: u32

record log_env =
  boot_time :: int
  containers :: "container_info list"
  inet_ntop6 :: "u8 list \<Rightarrow> string"
  blank_event :: db_event

type_synonym handler = "log_env \<Rightarrow> event_t \<Rightarrow> db_event \<Rightarrow> db_event option"

definition get_ip_str :: "log_env \<Rightarrow> event_t \<Rightarrow> string" where
  "get_ip_str env e =
     (if addr_family e = 2 then inet_ntop4 (ev_ip e)
      else if addr_family e = 10 then inet_ntop6 env (ipv6_addr e)
      else [])"

text \<open>
  \<open>get_str\<close>: the time point is in nanoseconds since the epoch, the sub-second part divided by
  1000 before it is added.  \<open>blank_event\<close> is the fresh \<open>db_event_t\<close>, whose strings are empty and
  whose numbers are not initialised.
\<close>

definition get_str :: "log_env \<Rightarrow> current_task \<Rightarrow> db_event" where
  "get_str env task =
     (let nanoseconds = uint (ct_timestamp task) mod 1000000000;
          actual_time = boot_time env + uint (ct_timestamp task) div 1000000000
      in (blank_event env)\<lparr>
        db_timestamp := actual_time * 1000000000 + nanoseconds div 1000,
        db_syscall := ct_event_id task,
        db_pid_namespace := ct_pid_namespace task,
        db_mnt_namespace := ct_mnt_namespace task,
        db_container_name :=
          (case find (\<lambda>c. container_ns_id c = ct_pid_namespace task) (containers env) of
             Some c \<Rightarrow> container_id c
           | None \<Rightarrow> ''Unknown''),
        db_ppid := ct_ppid task,
        db_pid := ct_pid task,
        db_tid := ct_tid task,
        db_uid := ct_uid task,
        db_gid := ct_gid task,
        db_comm := c_string (ct_comm task)\<rparr>)"

text \<open>The columns by number.\<close>

fun column :: "nat \<Rightarrow> db_event \<Rightarrow> string" where
  "column 0 d = arg0 d"
| "column (Suc 0) d = arg1 d"
| "column (Suc (Suc 0)) d = arg2 d"
| "column (Suc (Suc (Suc 0))) d = arg3 d"
| "column (Suc (Suc (Suc (Suc 0)))) d = arg4 d"
| "column (Suc (Suc (Suc (Suc (Suc n))))) d = arg5 d"

lemma column_numeral [simp]:
  "column 1 d = arg1 d" "column 2 d = arg2 d" "column 3 d = arg3 d" "column 4 d = arg4 d"
  "column 5 d = arg5 d"
  by (simp_all add: eval_nat_numeral)

subsection \<open>Text printed from the integers of a record\<close>

abbreviation str_s32 :: "s32 \<Rightarrow> string" where "str_s32 x \<equiv> to_string (sint x)"
abbreviation str_u32 :: "u32 \<Rightarrow> string" where "str_u32 x \<equiv> to_string (uint x)"
abbreviation str_s64 :: "s64 \<Rightarrow> string" where "str_s64 x \<equiv> to_string (sint x)"
abbreviation str_u64 :: "u64 \<Rightarrow> string" where "str_u64 x \<equiv> to_string (uint x)"
abbreviation str_u16 :: "u16 \<Rightarrow> string" where "str_u16 x \<equiv> to_string (uint x)"

end
