(* ===== verification/Trace_Layout.thy ===== *)
theory Trace_Layout
  imports Trace_Programs Consumer
begin

section \<open>From system call to log line\<close>

text \<open>
  Most entry programs have one of two shapes: they copy scalar arguments into slots of the record,
  and some also read the strings that pointer arguments refer to.  \<open>described_program\<close> is that
  shape with the slots and strings as data.  A program equal to an instance of it is understood
  through one lemma, and joined with its handler in \<open>handler.cpp\<close> it yields what the log line
  says about the arguments of the call.
\<close>

subsection \<open>The shape of the simple entry programs\<close>

datatype slot = S32 nat nat | U32 nat nat | S64 nat nat | U64 nat nat

fun fill_slot :: "sys_enter_ctx \<Rightarrow> slot \<Rightarrow> event_t \<Rightarrow> event_t" where
  "fill_slot ctx (S32 i a) e = set_s32 i (ucast (args ctx a)) e"
| "fill_slot ctx (U32 i a) e = set_u32 i (ucast (args ctx a)) e"
| "fill_slot ctx (S64 i a) e = set_s64 i (args ctx a) e"
| "fill_slot ctx (U64 i a) e = set_u64 i (args ctx a) e"

definition fill_slots :: "sys_enter_ctx \<Rightarrow> slot list \<Rightarrow> event_t \<Rightarrow> event_t" where
  "fill_slots ctx slots e = fold (fill_slot ctx) slots e"

lemma fill_slots_simps [simp]:
  "fill_slots ctx [] e = e"
  "fill_slots ctx (sl # slots) e = fill_slots ctx slots (fill_slot ctx sl e)"
  by (simp_all add: fill_slots_def)

datatype text_field = Str | Str2 | Fs_type

fun text_size :: "text_field \<Rightarrow> nat" where
  "text_size Str = 256"
| "text_size Str2 = 256"
| "text_size Fs_type = 32"

fun get_text :: "text_field \<Rightarrow> event_t \<Rightarrow> u8 list" where
  "get_text Str e = arg_str e"
| "get_text Str2 e = arg_str2 e"
| "get_text Fs_type e = filesystem_type e"

fun put_text :: "text_field \<Rightarrow> u8 list \<Rightarrow> event_t \<Rightarrow> event_t" where
  "put_text Str bs e = e\<lparr>arg_str := bs\<rparr>"
| "put_text Str2 bs e = e\<lparr>arg_str2 := bs\<rparr>"
| "put_text Fs_type bs e = e\<lparr>filesystem_type := bs\<rparr>"

text \<open>The strings in order; the first read that fails ends the reading.\<close>

fun read_texts :: "kernel \<Rightarrow> sys_enter_ctx \<Rightarrow> (text_field \<times> nat) list \<Rightarrow> event_t \<Rightarrow> event_t prog" where
  "read_texts K ctx [] e = return (e\<lparr>is_valid := True\<rparr>)"
| "read_texts K ctx ((t, a) # ts) e = do {
     (n, bs) \<leftarrow> bpf_probe_read_user_str K (text_size t) (args ctx a) (get_text t e);
     let e = put_text t bs e;
     if 0 \<le> n then read_texts K ctx ts e else return e
   }"

definition texts_part :: "kernel \<Rightarrow> sys_enter_ctx \<Rightarrow> (text_field \<times> nat) list \<Rightarrow> event_t \<Rightarrow> event_t prog" where
  "texts_part K ctx texts e =
     (if texts = [] then return e
      else if list_all (\<lambda>(t, a). args ctx a \<noteq> 0) texts
        then read_texts K ctx texts (e\<lparr>is_valid := False\<rparr>)
      else return (e\<lparr>is_valid := False\<rparr>))"

definition described_program :: "slot list \<Rightarrow> (text_field \<times> nat) list \<Rightarrow> enter_program" where
  "described_program slots texts K ctx = do {
     r \<leftarrow> handle_enter_event K (ucast (enter_id ctx));
     case r of
       None \<Rightarrow> return 0
     | Some e \<Rightarrow> do {
         e \<leftarrow> texts_part K ctx texts (fill_slots ctx slots e);
         bpf_ringbuf_submit e;
         return 0
       }
   }"

subsection \<open>User strings\<close>

text \<open>
  \<open>bpf_probe_read_user_str\<close> as the helper is documented: it copies up to \<open>sz\<close> bytes including
  the terminating zero and returns the number copied, or a negative error.  \<open>ustr\<close> is the text
  that user memory offers at an address for a buffer size (\<open>None\<close> where the read fails).
\<close>

definition strings_at :: "kernel \<Rightarrow> (u64 \<Rightarrow> nat \<Rightarrow> u8 list option) \<Rightarrow> bool" where
  "strings_at K ustr \<longleftrightarrow>
     (\<forall>t p sz d. case ustr p sz of
        None \<Rightarrow> fst (read_user_str K t p sz d) < 0
      | Some cs \<Rightarrow> 0 \<notin> set cs \<and> read_user_str K t p sz d =
          (int (length cs) + 1, cs @ 0 # drop (Suc (length cs)) d))"

definition text_chars :: "u8 list \<Rightarrow> string" where
  "text_chars cs = map (\<lambda>b. char_of (unat b)) cs"

lemma c_string_terminated: "0 \<notin> set cs \<Longrightarrow> c_string (cs @ 0 # r) = text_chars cs"
  unfolding c_string_def text_chars_def by (subst takeWhile_append2) auto

definition readable :: "(u64 \<Rightarrow> nat \<Rightarrow> u8 list option) \<Rightarrow> sys_enter_ctx \<Rightarrow> (text_field \<times> nat) list \<Rightarrow> bool" where
  "readable ustr ctx texts \<longleftrightarrow>
     list_all (\<lambda>(t, a). args ctx a \<noteq> 0 \<and> ustr (args ctx a) (text_size t) \<noteq> None) texts"

text \<open>Records that differ at most in their strings and the validity flag.\<close>

definition with_texts :: "u8 list \<Rightarrow> u8 list \<Rightarrow> u8 list \<Rightarrow> bool \<Rightarrow> event_t \<Rightarrow> event_t" where
  "with_texts s1 s2 s3 v e =
     e\<lparr>arg_str := s1, arg_str2 := s2, filesystem_type := s3, is_valid := v\<rparr>"

lemma with_texts_self: "e = with_texts (arg_str e) (arg_str2 e) (filesystem_type e) (is_valid e) e"
  by (simp add: with_texts_def)

lemma with_texts_put:
  "put_text t bs (with_texts s1 s2 s3 v e) =
     with_texts (if t = Str then bs else s1) (if t = Str2 then bs else s2)
       (if t = Fs_type then bs else s3) v e"
  by (cases t) (simp_all add: with_texts_def)

lemma get_put_text [simp]:
  "get_text t (put_text t bs e) = bs" "t \<noteq> t' \<Longrightarrow> get_text t (put_text t' bs e) = get_text t e"
  "get_text t (e\<lparr>is_valid := v\<rparr>) = get_text t e"
  by (cases t; cases t'; simp)+

lemma with_texts_simps [simp]:
  "with_texts s1 s2 s3 v (with_texts s1' s2' s3' v' e) = with_texts s1 s2 s3 v e"
  "is_valid (with_texts s1 s2 s3 v e) = v"
  "arg_str (with_texts s1 s2 s3 v e) = s1" "arg_str2 (with_texts s1 s2 s3 v e) = s2"
  "filesystem_type (with_texts s1 s2 s3 v e) = s3"
  "arg_s32 (with_texts s1 s2 s3 v e) = arg_s32 e" "arg_u32 (with_texts s1 s2 s3 v e) = arg_u32 e"
  "arg_s64 (with_texts s1 s2 s3 v e) = arg_s64 e" "arg_u64 (with_texts s1 s2 s3 v e) = arg_u64 e"
  by (simp_all add: with_texts_def)

text \<open>Reading the strings of a stable user memory.\<close>

lemma read_texts_shape:
  "\<exists>s1 s2 s3 v. fst (run_state (read_texts K ctx ts e) s) = with_texts s1 s2 s3 v e"
proof (induction ts arbitrary: e s)
  case Nil
  have "e\<lparr>is_valid := True\<rparr> = with_texts (arg_str e) (arg_str2 e) (filesystem_type e) True e"
    by (simp add: with_texts_def)
  then show ?case by auto
next
  case (Cons ta ts)
  obtain t a where ta: "ta = (t, a)" by (cases ta)
  obtain n bs s1 where r: "run_state (bpf_probe_read_user_str K (text_size t) (args ctx a) (get_text t e)) s
      = ((n, bs), s1)"
    by (metis prod.exhaust)
  let ?e = "put_text t bs e"
  have put: "\<exists>s1 s2 s3. ?e = with_texts s1 s2 s3 (is_valid e) e"
    by (subst with_texts_self [of e]) (auto simp: with_texts_put)
  from Cons [of ?e s1] put show ?case
    by (auto simp: ta r Let_def; blast)
qed

lemma read_texts_result:
  assumes "strings_at K ustr" and "distinct (map fst ts)"
  shows "let e' = fst (run_state (read_texts K ctx ts e) s);
      ok = list_all (\<lambda>(t, a). ustr (args ctx a) (text_size t) \<noteq> None) ts in
    is_valid e' = (ok \<or> is_valid e) \<and>
    (ok \<longrightarrow> list_all (\<lambda>(t, a). c_string (get_text t e') = text_chars (the (ustr (args ctx a) (text_size t)))) ts)
    \<and> (\<forall>t. t \<notin> fst ` set ts \<longrightarrow> get_text t e' = get_text t e)"
  using assms(2)
proof (induction ts arbitrary: e s)
  case Nil
  then show ?case by simp
next
  case (Cons ta ts)
  obtain t a where ta: "ta = (t, a)" by (cases ta)
  obtain n bs s1 where r: "run_state (bpf_probe_read_user_str K (text_size t) (args ctx a) (get_text t e)) s
      = ((n, bs), s1)"
    by (metis prod.exhaust)
  have read: "read_user_str K (calls s) (args ctx a) (text_size t) (get_text t e) = (n, bs)"
    using r by (simp add: bpf_probe_read_user_str_def)
  have other: "get_text t' (put_text t bs e) = get_text t' e" if "t' \<noteq> t" for t'
    using that by simp
  have valid: "is_valid (put_text t bs e) = is_valid e" by (cases t) simp_all
  show ?case
  proof (cases "ustr (args ctx a) (text_size t)")
    case None
    with assms(1) read have "n < 0"
      unfolding strings_at_def by (metis (no_types, lifting) fst_conv option.simps(4))
    then show ?thesis using valid other by (auto simp: ta r Let_def None)
  next
    case (Some cs)
    have "case ustr (args ctx a) (text_size t) of
        None \<Rightarrow> fst (read_user_str K (calls s) (args ctx a) (text_size t) (get_text t e)) < 0
      | Some cs \<Rightarrow> 0 \<notin> set cs \<and> read_user_str K (calls s) (args ctx a) (text_size t) (get_text t e) =
          (int (length cs) + 1, cs @ 0 # drop (Suc (length cs)) (get_text t e))"
      using assms(1) unfolding strings_at_def by blast
    with Some read have bs: "0 \<notin> set cs" "n = int (length cs) + 1"
        "bs = cs @ 0 # drop (Suc (length cs)) (get_text t e)"
      by simp_all
    then have chars: "c_string bs = text_chars cs" by (simp add: c_string_terminated)
    from Cons.prems have "t \<notin> fst ` set ts" "distinct (map fst ts)" by (auto simp: ta)
    with Cons.IH [of "put_text t bs e" s1] chars bs(2) Some valid other
    show ?thesis by (auto simp: ta r Let_def)
  qed
qed

lemma texts_part_result:
  assumes "strings_at K ustr" and "distinct (map fst texts)"
    and "fst (run_state (texts_part K ctx texts e) s) = e'"
  obtains s1 s2 s3 where
    "e' = with_texts s1 s2 s3 (if texts = [] then is_valid e else readable ustr ctx texts) e"
    "readable ustr ctx texts \<longrightarrow> list_all (\<lambda>(t, a).
       c_string (get_text t e') = text_chars (the (ustr (args ctx a) (text_size t)))) texts"
proof (cases "texts \<noteq> [] \<and> list_all (\<lambda>(t, a). args ctx a \<noteq> 0) texts")
  case True
  then have e': "e' = fst (run_state (read_texts K ctx texts (e\<lparr>is_valid := False\<rparr>)) s)"
    using assms(3) by (simp add: texts_part_def)
  obtain s1 s2 s3 v where shape: "e' = with_texts s1 s2 s3 v (e\<lparr>is_valid := False\<rparr>)"
    using read_texts_shape [of K ctx texts "e\<lparr>is_valid := False\<rparr>" s] e' by auto
  have ok: "readable ustr ctx texts =
      list_all (\<lambda>(t, a). ustr (args ctx a) (text_size t) \<noteq> None) texts"
    using True by (auto simp: readable_def list_all_iff)
  from read_texts_result [OF assms(1,2), of ctx "e\<lparr>is_valid := False\<rparr>" s, folded e']
  have "is_valid e' = readable ustr ctx texts"
    and "readable ustr ctx texts \<longrightarrow> list_all (\<lambda>(t, a).
       c_string (get_text t e') = text_chars (the (ustr (args ctx a) (text_size t)))) texts"
    by (simp_all add: Let_def ok)
  moreover from this(1) shape True have
    "e' = with_texts s1 s2 s3 (if texts = [] then is_valid e else readable ustr ctx texts) e"
    by (auto simp: with_texts_def)
  ultimately show ?thesis using that by blast
next
  case False
  then consider "texts = []" "e' = e" | "texts \<noteq> []" "\<not> readable ustr ctx texts" "e' = e\<lparr>is_valid := False\<rparr>"
    using assms(3) by (auto simp: texts_part_def readable_def list_all_iff split: if_splits)
  then show ?thesis
  proof cases
    case 1
    then show ?thesis using with_texts_self [of e] by (intro that) (simp_all add: readable_def)
  next
    case 2
    then show ?thesis
      by (intro that [of "arg_str e" "arg_str2 e" "filesystem_type e"]) (simp_all add: with_texts_def)
  qed
qed

subsection \<open>What a log line says\<close>

datatype ctype = I32 | Un32 | I64 | Un64

fun render :: "ctype \<Rightarrow> u64 \<Rightarrow> string" where
  "render I32 x = to_string (sint (ucast x :: s32))"
| "render Un32 x = to_string (uint (ucast x :: u32))"
| "render I64 x = to_string (sint x)"
| "render Un64 x = to_string (uint x)"

text \<open>A column shows an argument as a number, or the text at the address in an argument.\<close>

datatype shown = Number ctype nat | Text text_field nat

fun texts_of :: "(nat \<times> shown) list \<Rightarrow> (text_field \<times> nat) list" where
  "texts_of [] = []"
| "texts_of ((j, Number t a) # sig) = texts_of sig"
| "texts_of ((j, Text t a) # sig) = (t, a) # texts_of sig"

definition expected :: "(u64 \<Rightarrow> nat \<Rightarrow> u8 list option) \<Rightarrow> sys_enter_ctx \<Rightarrow> (nat \<times> shown) list \<Rightarrow>
    db_event \<Rightarrow> nat \<Rightarrow> shown \<Rightarrow> string" where
  "expected ustr ctx sig base j x =
     (case x of
        Number t a \<Rightarrow> render t (args ctx a)
      | Text t a \<Rightarrow>
          if readable ustr ctx (texts_of sig) then text_chars (the (ustr (args ctx a) (text_size t)))
          else column j base)"

text \<open>
  The log line that handler \<open>h\<close> makes of the record that program \<open>p\<close> submits shows the arguments
  of the call as \<open>sig\<close> lists them, whatever the ring buffer memory held before.
\<close>

definition faithful :: "enter_program \<Rightarrow> handler \<Rightarrow> (nat \<times> shown) list \<Rightarrow> bool" where
  "faithful p h sig \<longleftrightarrow>
     (\<forall>K ustr ctx s e env base. strings_at K ustr \<longrightarrow> rb (exec_state (p K ctx) s) = rb s @ [e] \<longrightarrow>
        (\<exists>d. h env e base = Some d \<and>
          list_all (\<lambda>(j, x). column j d = expected ustr ctx sig base j x) sig))"

text \<open>The part of the statement that concerns the handler, for a record with given slots.\<close>

definition line_shows :: "slot list \<Rightarrow> handler \<Rightarrow> (nat \<times> shown) list \<Rightarrow> bool" where
  "line_shows slots h sig \<longleftrightarrow>
     (\<forall>env ctx e base s1 s2 s3 v.
        let r = with_texts s1 s2 s3 v (fill_slots ctx slots e) in
        \<exists>d. h env r base = Some d \<and>
          list_all (\<lambda>(j, x). column j d = (case x of
             Number t a \<Rightarrow> render t (args ctx a)
           | Text t a \<Rightarrow> if v then c_string (get_text t r) else column j base)) sig)"

lemma quiet_read_texts: "quiet (read_texts K ctx ts e)"
proof (induction ts arbitrary: e)
  case (Cons ta ts)
  then show ?case
    by (cases ta) (auto simp: Let_def intro!: quiet_bind quiet_helpers quiet_return)
qed (simp add: quiet_return)

lemma quiet_texts_part: "quiet (texts_part K ctx texts e)"
  by (simp add: texts_part_def quiet_return quiet_read_texts)

text \<open>The record that such a program submits is built in the memory that the ring buffer handed
  out.\<close>

lemma described_record:
  assumes "rb (exec_state (described_program slots texts K ctx) s) = rb s @ [e]"
  obtains e0 t s0 where "rb_reserve K (Suc (calls s)) = Some e0"
    and "t = (task_snapshot K (ucast (enter_id ctx)) (ktime_ns K (calls s)))\<lparr>ct_count := count s + 1\<rparr>"
    and "fst (run_state (texts_part K ctx texts
      (fill_slots ctx slots (e0\<lparr>ev_task := t, is_enter := True\<rparr>))) s0) = e"
proof -
  let ?ev = "ucast (enter_id ctx) :: s32"
  show ?thesis
  proof (cases "selected K True ?ev s \<and> rb_reserve K (Suc (calls s)) \<noteq> None")
    case False
    then have "rb (exec_state (described_program slots texts K ctx) s) = rb s"
      by (auto simp: described_program_def exec_state_def run_handle_enter_event)
    with assms show ?thesis by simp
  next
    case True
    then obtain e0 where e0: "rb_reserve K (Suc (calls s)) = Some e0" by auto
    define t where "t = (task_snapshot K ?ev (ktime_ns K (calls s)))\<lparr>ct_count := count s + 1\<rparr>"
    define s1 where "s1 = s\<lparr>calls := Suc (Suc (calls s)), outstanding := Suc (outstanding s),
        count := count s + 1\<rparr>"
    define e1 where "e1 = fill_slots ctx slots (e0\<lparr>ev_task := t, is_enter := True\<rparr>)"
    obtain e2 s2 where e2: "run_state (texts_part K ctx texts e1) s1 = (e2, s2)"
      by (cases "run_state (texts_part K ctx texts e1) s1")
    from runsD [OF quiet_texts_part [unfolded quiet_def] e2] have "rb s2 = rb s"
      by (auto simp: s1_def)
    with True e0 e2 have "rb (exec_state (described_program slots texts K ctx) s) = rb s @ [e2]"
      by (simp add: described_program_def exec_state_def run_handle_enter_event e1_def t_def s1_def
          bpf_ringbuf_submit_def)
    with assms have "e2 = e" by simp
    with e2 e0 show ?thesis by (intro that [of e0 t s1]) (simp_all add: e1_def t_def)
  qed
qed

lemma faithful_described:
  assumes p: "p = described_program slots (texts_of sig)" and h: "line_shows slots h sig"
    and d: "distinct (map fst (texts_of sig))"
  shows "faithful p h sig"
  unfolding faithful_def
proof (intro allI impI)
  fix K ustr ctx s e env base
  assume K: "strings_at K ustr" and "rb (exec_state (p K ctx) s) = rb s @ [e]"
  with p obtain e0 s0 where
    read: "fst (run_state (texts_part K ctx (texts_of sig) (fill_slots ctx slots e0)) s0) = e"
    by (auto elim: described_record)
  define v where v: "v = (if texts_of sig = [] then is_valid (fill_slots ctx slots e0)
    else readable ustr ctx (texts_of sig))"
  obtain s1 s2 s3 where e: "e = with_texts s1 s2 s3 v (fill_slots ctx slots e0)"
    and chars: "readable ustr ctx (texts_of sig) \<longrightarrow> list_all (\<lambda>(t, a).
       c_string (get_text t e) = text_chars (the (ustr (args ctx a) (text_size t)))) (texts_of sig)"
    using texts_part_result [OF K d read] unfolding v by blast
  from h have "\<exists>d. h env e base = Some d \<and>
      list_all (\<lambda>(j, x). column j d = (case x of
         Number t a \<Rightarrow> render t (args ctx a)
       | Text t a \<Rightarrow> if v then c_string (get_text t e) else column j base)) sig"
    unfolding line_shows_def Let_def e by blast
  then obtain dd where line: "h env e base = Some dd"
    and shown: "list_all (\<lambda>(j, x). column j dd = (case x of
         Number t a \<Rightarrow> render t (args ctx a)
       | Text t a \<Rightarrow> if v then c_string (get_text t e) else column j base)) sig" by auto
  have in_texts: "(t, a) \<in> set (texts_of sig)" if "(j, Text t a) \<in> set sig" for j t a
    using that by (induction sig rule: texts_of.induct) auto
  have "column j dd = expected ustr ctx sig base j x" if jx: "(j, x) \<in> set sig" for j x
  proof (cases x)
    case (Number t a)
    with shown jx show ?thesis by (auto simp: list_all_iff expected_def)
  next
    case (Text t a)
    with jx in_texts have "(t, a) \<in> set (texts_of sig)" by blast
    then have "texts_of sig \<noteq> []" by auto
    with v have "v = readable ustr ctx (texts_of sig)" by simp
    moreover from shown jx Text
    have "column j dd = (if v then c_string (get_text t e) else column j base)"
      by (auto simp: list_all_iff)
    ultimately show ?thesis using chars \<open>(t, a) \<in> _\<close>
      by (auto simp: Text expected_def list_all_iff)
  qed
  then have "list_all (\<lambda>(j, x). column j dd = expected ustr ctx sig base j x) sig"
    by (auto simp: list_all_iff)
  with line show "\<exists>d. h env e base = Some d \<and>
      list_all (\<lambda>(j, x). column j d = expected ustr ctx sig base j x) sig"
    by blast
qed

subsection \<open>Columns that show what the memory held before\<close>

text \<open>Column \<open>j\<close> of the log line is \<open>f\<close> of the record as the ring buffer handed it out: the
  program has written nothing there.\<close>

definition prints_stale :: "enter_program \<Rightarrow> handler \<Rightarrow> nat \<Rightarrow> (event_t \<Rightarrow> string) \<Rightarrow> bool" where
  "prints_stale p h j f \<longleftrightarrow>
     (\<forall>K ctx s e env base. rb (exec_state (p K ctx) s) = rb s @ [e] \<longrightarrow>
        (\<exists>e0 d. rb_reserve K (Suc (calls s)) = Some e0 \<and> h env e base = Some d \<and> column j d = f e0))"

definition stale_column :: "slot list \<Rightarrow> handler \<Rightarrow> nat \<Rightarrow> (event_t \<Rightarrow> string) \<Rightarrow> bool" where
  "stale_column slots h j f \<longleftrightarrow>
     (\<forall>env ctx e base s1 s2 s3 v t.
        \<exists>d. h env (with_texts s1 s2 s3 v (fill_slots ctx slots (e\<lparr>ev_task := t, is_enter := True\<rparr>))) base
              = Some d \<and> column j d = f e)"

lemma texts_part_shape:
  "\<exists>s1 s2 s3 v. fst (run_state (texts_part K ctx texts e) s) = with_texts s1 s2 s3 v e"
proof -
  have flag: "\<exists>s1 s2 s3 v'. e\<lparr>is_valid := v\<rparr> = with_texts s1 s2 s3 v' e" for v
    by (rule exI [of _ "arg_str e"], rule exI [of _ "arg_str2 e"],
        rule exI [of _ "filesystem_type e"], rule exI [of _ v]) (simp add: with_texts_def)
  obtain s1 s2 s3 v where
    "fst (run_state (read_texts K ctx texts (e\<lparr>is_valid := False\<rparr>)) s) =
       with_texts s1 s2 s3 v (e\<lparr>is_valid := False\<rparr>)"
    using read_texts_shape by blast
  then have reads: "fst (run_state (read_texts K ctx texts (e\<lparr>is_valid := False\<rparr>)) s) = with_texts s1 s2 s3 v e"
    by (simp add: with_texts_def)
  show ?thesis using reads flag [of False] flag [of "is_valid e"]
    by (auto simp: texts_part_def)
qed

lemma prints_stale_described:
  assumes "p = described_program slots texts" and "stale_column slots h j f"
  shows "prints_stale p h j f"
  unfolding prints_stale_def
proof (intro allI impI)
  fix K ctx s e env base
  assume "rb (exec_state (p K ctx) s) = rb s @ [e]"
  with assms(1) obtain e0 t s0 where e0: "rb_reserve K (Suc (calls s)) = Some e0"
    and "fst (run_state (texts_part K ctx texts
      (fill_slots ctx slots (e0\<lparr>ev_task := t, is_enter := True\<rparr>))) s0) = e"
    by (auto elim: described_record)
  then obtain s1 s2 s3 v where
    "e = with_texts s1 s2 s3 v (fill_slots ctx slots (e0\<lparr>ev_task := t, is_enter := True\<rparr>))"
    using texts_part_shape by metis
  with assms(2) e0 show "\<exists>e0 d. rb_reserve K (Suc (calls s)) = Some e0 \<and> h env e base = Some d \<and>
      column j d = f e0"
    unfolding stale_column_def by blast
qed

end
