(* ===== verification/Log_Net.thy ===== *)
theory Log_Net
  imports Consumer
begin

section \<open>Log lines: sockets, host names, ioctl and close\<close>

text \<open>
  The handlers of \<open>src/src/tracepoint/handler.cpp\<close> for this family, one definition each under the
  handler's own name.  The table at the end is the family's part of \<open>init_event_handlers\<close>: the
  name of the \<open>__NR_\<close> constant with the two handlers assigned to it.
\<close>

definition handle_enter_socket :: handler where
  "handle_enter_socket env e event =
     (let event = event\<lparr>arg0 := str_s32 (arg_s32 e 0)\<rparr>;
          event = event\<lparr>arg1 := str_s32 (arg_s32 e 1)\<rparr>;
          event = event\<lparr>arg2 := str_s32 (arg_s32 e 2)\<rparr>
      in Some event)"

definition handle_exit_socket :: handler where
  "handle_exit_socket env e event =
     (let event = event\<lparr>db_ret := ev_ret e\<rparr>
      in Some event)"

definition handle_enter_socketpair :: handler where
  "handle_enter_socketpair env e event =
     (let event = event\<lparr>arg0 := str_s32 (arg_s32 e 0)\<rparr>;
          event = event\<lparr>arg1 := str_s32 (arg_s32 e 1)\<rparr>;
          event = event\<lparr>arg2 := str_s32 (arg_s32 e 2)\<rparr>
      in Some event)"

definition handle_exit_socketpair :: handler where
  "handle_exit_socketpair env e event =
     (let event = event\<lparr>db_ret := ev_ret e\<rparr>;
          event = (if is_valid e then event\<lparr>arg0 := str_s32 (arg_s32 e 0), arg1 := str_s32 (arg_s32 e 1)\<rparr> else event)
      in Some event)"

definition handle_enter_setsockopt :: handler where
  "handle_enter_setsockopt env e event =
     (let event = event\<lparr>arg0 := str_s32 (arg_s32 e 0)\<rparr>;
          event = event\<lparr>arg1 := str_s32 (arg_s32 e 1)\<rparr>;
          event = event\<lparr>arg2 := str_s32 (arg_s32 e 2)\<rparr>;
          event = event\<lparr>arg4 := str_s32 (arg_s32 e 3)\<rparr>;
          event = (if is_valid e then event\<lparr>arg3 := str_u32 (arg_u32 e 0)\<rparr> else event)
      in Some event)"

definition handle_exit_setsockopt :: handler where
  "handle_exit_setsockopt env e event =
     (let event = event\<lparr>db_ret := ev_ret e\<rparr>
      in Some event)"

definition handle_enter_getsockopt :: handler where
  "handle_enter_getsockopt env e event =
     (let event = event\<lparr>arg0 := str_s32 (arg_s32 e 0)\<rparr>;
          event = event\<lparr>arg1 := str_s32 (arg_s32 e 1)\<rparr>;
          event = event\<lparr>arg2 := str_s32 (arg_s32 e 2)\<rparr>
      in Some event)"

definition handle_exit_getsockopt :: handler where
  "handle_exit_getsockopt env e event =
     (let event = event\<lparr>db_ret := ev_ret e\<rparr>;
          event = (if is_valid e then event\<lparr>arg0 := str_u32 (arg_u32 e 0), arg1 := str_u32 (arg_u32 e 1)\<rparr> else event)
      in Some event)"

definition handle_enter_getsockname :: handler where
  "handle_enter_getsockname env e event =
     (let event = event\<lparr>arg0 := str_s32 (arg_s32 e 0)\<rparr>
      in Some event)"

definition handle_exit_getsockname :: handler where
  "handle_exit_getsockname env e event =
     (let event = event\<lparr>db_ret := ev_ret e\<rparr>;
          event = (if is_valid e then let ip_str = get_ip_str env e in event\<lparr>arg0 := ip_str, arg1 := str_u16 (ev_port e), arg2 := str_u16 (addr_family e)\<rparr> else event)
      in Some event)"

definition handle_enter_getpeername :: handler where
  "handle_enter_getpeername env e event =
     (let event = event\<lparr>arg0 := str_s32 (arg_s32 e 0)\<rparr>
      in Some event)"

definition handle_exit_getpeername :: handler where
  "handle_exit_getpeername env e event =
     (let event = event\<lparr>db_ret := ev_ret e\<rparr>;
          event = (if is_valid e then let ip_str = get_ip_str env e in event\<lparr>arg0 := ip_str, arg1 := str_u16 (ev_port e), arg2 := str_u16 (addr_family e)\<rparr> else event)
      in Some event)"

definition handle_enter_bind :: handler where
  "handle_enter_bind env e event =
     (let event = event\<lparr>arg0 := str_s32 (arg_s32 e 0)\<rparr>;
          event = (if is_valid e then let ip_str = get_ip_str env e in event\<lparr>arg0 := ip_str, arg1 := str_u16 (ev_port e), arg2 := str_u16 (addr_family e)\<rparr> else event)
      in Some event)"

definition handle_exit_bind :: handler where
  "handle_exit_bind env e event =
     (let event = event\<lparr>db_ret := ev_ret e\<rparr>
      in Some event)"

definition handle_enter_listen :: handler where
  "handle_enter_listen env e event =
     (let event = event\<lparr>arg0 := str_s32 (arg_s32 e 0)\<rparr>;
          event = event\<lparr>arg1 := str_s32 (arg_s32 e 1)\<rparr>
      in Some event)"

definition handle_exit_listen :: handler where
  "handle_exit_listen env e event =
     (let event = event\<lparr>db_ret := ev_ret e\<rparr>
      in Some event)"

definition handle_enter_accept :: handler where
  "handle_enter_accept env e event =
     (let event = event\<lparr>arg0 := str_s32 (arg_s32 e 0)\<rparr>
      in Some event)"

definition handle_exit_accept :: handler where
  "handle_exit_accept env e event =
     (let event = event\<lparr>db_ret := ev_ret e\<rparr>;
          event = (if is_null e then event\<lparr>arg0 := ''socket address info is not requested''\<rparr> else event);
          event = (if is_valid e then let ip_str = get_ip_str env e in event\<lparr>arg0 := ip_str, arg1 := str_u16 (ev_port e), arg2 := str_u16 (addr_family e)\<rparr> else event)
      in Some event)"

definition handle_enter_accept4 :: handler where
  "handle_enter_accept4 env e event =
     (let event = event\<lparr>arg0 := str_s32 (arg_s32 e 0)\<rparr>;
          event = event\<lparr>arg1 := str_s32 (arg_s32 e 1)\<rparr>
      in Some event)"

definition handle_exit_accept4 :: handler where
  "handle_exit_accept4 env e event =
     (let event = event\<lparr>db_ret := ev_ret e\<rparr>;
          event = (if is_null e then event\<lparr>arg0 := ''socket address info is not requested''\<rparr> else event);
          event = (if is_valid e then let ip_str = get_ip_str env e in event\<lparr>arg0 := ip_str, arg1 := str_u16 (ev_port e), arg2 := str_u16 (addr_family e)\<rparr> else event)
      in Some event)"

definition handle_enter_connect :: handler where
  "handle_enter_connect env e event =
     (let event = event\<lparr>arg0 := str_s32 (arg_s32 e 0)\<rparr>;
          event = (if is_valid e then let ip_str = get_ip_str env e in event\<lparr>arg0 := ip_str, arg1 := str_u16 (ev_port e), arg2 := str_u16 (addr_family e)\<rparr> else event)
      in Some event)"

definition handle_exit_connect :: handler where
  "handle_exit_connect env e event =
     (let event = event\<lparr>db_ret := ev_ret e\<rparr>
      in Some event)"

definition handle_enter_shutdown :: handler where
  "handle_enter_shutdown env e event =
     (let event = event\<lparr>arg0 := str_s32 (arg_s32 e 0)\<rparr>;
          event = event\<lparr>arg1 := str_s32 (arg_s32 e 1)\<rparr>
      in Some event)"

definition handle_exit_shutdown :: handler where
  "handle_exit_shutdown env e event =
     (let event = event\<lparr>db_ret := ev_ret e\<rparr>
      in Some event)"

definition handle_enter_recvfrom :: handler where
  "handle_enter_recvfrom env e event =
     (let event = event\<lparr>arg0 := str_s32 (arg_s32 e 0)\<rparr>;
          event = event\<lparr>arg1 := str_u64 (arg_u64 e 0)\<rparr>;
          event = event\<lparr>arg2 := str_s32 (arg_s32 e 1)\<rparr>
      in Some event)"

definition handle_exit_recvfrom :: handler where
  "handle_exit_recvfrom env e event =
     (let event = event\<lparr>db_ret := ev_ret e\<rparr>;
          event = (if is_null e then event\<lparr>arg0 := ''socket address info is not requested''\<rparr> else event);
          event = (if is_valid e then let ip_str = get_ip_str env e in event\<lparr>arg0 := ip_str, arg1 := str_u16 (ev_port e), arg2 := str_u16 (addr_family e)\<rparr> else event)
      in Some event)"

definition handle_enter_recvmsg :: handler where
  "handle_enter_recvmsg env e event =
     (let event = event\<lparr>arg0 := str_s32 (arg_s32 e 0)\<rparr>;
          event = event\<lparr>arg1 := str_s32 (arg_s32 e 1)\<rparr>
      in Some event)"

definition handle_exit_recvmsg :: handler where
  "handle_exit_recvmsg env e event =
     (let event = event\<lparr>db_ret := ev_ret e\<rparr>;
          event = (if is_valid e then let ip_str = get_ip_str env e in event\<lparr>arg0 := ip_str, arg1 := str_u16 (ev_port e), arg2 := str_u16 (addr_family e)\<rparr> else event)
      in Some event)"

definition handle_enter_recvmmsg :: handler where
  "handle_enter_recvmmsg env e event =
     (let event = event\<lparr>arg0 := str_s32 (arg_s32 e 0)\<rparr>;
          event = event\<lparr>arg1 := str_u64 (arg_u64 e 0)\<rparr>;
          event = event\<lparr>arg2 := str_s32 (arg_s32 e 1)\<rparr>
      in Some event)"

definition handle_exit_recvmmsg :: handler where
  "handle_exit_recvmmsg env e event =
     (let event = event\<lparr>db_ret := ev_ret e\<rparr>
      in Some event)"

definition handle_enter_sendto :: handler where
  "handle_enter_sendto env e event =
     (let event = event\<lparr>arg0 := str_s32 (arg_s32 e 0)\<rparr>;
          event = event\<lparr>arg1 := str_u64 (arg_u64 e 0)\<rparr>;
          event = event\<lparr>arg2 := str_s32 (arg_s32 e 1)\<rparr>;
          event = (if is_valid e then let ip_str = get_ip_str env e in event\<lparr>arg3 := ip_str, arg4 := str_u16 (ev_port e), arg5 := str_u16 (addr_family e)\<rparr> else event)
      in Some event)"

definition handle_exit_sendto :: handler where
  "handle_exit_sendto env e event =
     (let event = event\<lparr>db_ret := ev_ret e\<rparr>
      in Some event)"

definition handle_enter_sendmsg :: handler where
  "handle_enter_sendmsg env e event =
     (let event = event\<lparr>arg0 := str_s32 (arg_s32 e 0)\<rparr>;
          event = event\<lparr>arg1 := str_s32 (arg_s32 e 1)\<rparr>;
          event = (if is_valid e then let ip_str = get_ip_str env e in event\<lparr>arg2 := ip_str, arg3 := str_u16 (ev_port e), arg4 := str_u16 (addr_family e)\<rparr> else event)
      in Some event)"

definition handle_exit_sendmsg :: handler where
  "handle_exit_sendmsg env e event =
     (let event = event\<lparr>db_ret := ev_ret e\<rparr>
      in Some event)"

definition handle_enter_sendmmsg :: handler where
  "handle_enter_sendmmsg env e event =
     (let event = event\<lparr>arg0 := str_s32 (arg_s32 e 0)\<rparr>;
          event = event\<lparr>arg1 := str_u64 (arg_u64 e 0)\<rparr>;
          event = event\<lparr>arg2 := str_s32 (arg_s32 e 1)\<rparr>
      in Some event)"

definition handle_exit_sendmmsg :: handler where
  "handle_exit_sendmmsg env e event =
     (let event = event\<lparr>db_ret := ev_ret e\<rparr>
      in Some event)"

definition handle_enter_sethostname :: handler where
  "handle_enter_sethostname env e event =
     (let event = event\<lparr>arg0 := str_u64 (arg_u64 e 0)\<rparr>;
          event = (if is_valid e then event\<lparr>arg1 := c_string (arg_str e)\<rparr> else event)
      in Some event)"

definition handle_exit_sethostname :: handler where
  "handle_exit_sethostname env e event =
     (let event = event\<lparr>db_ret := ev_ret e\<rparr>
      in Some event)"

definition handle_enter_setdomainname :: handler where
  "handle_enter_setdomainname env e event =
     (let event = event\<lparr>arg0 := str_u64 (arg_u64 e 0)\<rparr>;
          event = (if is_valid e then event\<lparr>arg1 := c_string (arg_str e)\<rparr> else event)
      in Some event)"

definition handle_exit_setdomainname :: handler where
  "handle_exit_setdomainname env e event =
     (let event = event\<lparr>db_ret := ev_ret e\<rparr>
      in Some event)"

definition handle_enter_ioctl :: handler where
  "handle_enter_ioctl env e event =
     (let event = event\<lparr>arg0 := str_s32 (arg_s32 e 0)\<rparr>;
          event = event\<lparr>arg1 := str_u64 (arg_u64 e 0)\<rparr>
      in Some event)"

definition handle_exit_ioctl :: handler where
  "handle_exit_ioctl env e event =
     (let event = event\<lparr>db_ret := ev_ret e\<rparr>
      in Some event)"

definition handle_enter_close :: handler where
  "handle_enter_close env e event =
     (let event = event\<lparr>arg0 := str_s32 (arg_s32 e 0)\<rparr>
      in Some event)"

definition handle_exit_close :: handler where
  "handle_exit_close env e event =
     (let event = event\<lparr>db_ret := ev_ret e\<rparr>
      in Some event)"

subsection \<open>Dispatch\<close>

definition net_handlers :: "(string \<times> handler \<times> handler) list" where
  "net_handlers =
     [(''socket'', handle_enter_socket, handle_exit_socket),
      (''socketpair'', handle_enter_socketpair, handle_exit_socketpair),
      (''setsockopt'', handle_enter_setsockopt, handle_exit_setsockopt),
      (''getsockopt'', handle_enter_getsockopt, handle_exit_getsockopt),
      (''getsockname'', handle_enter_getsockname, handle_exit_getsockname),
      (''getpeername'', handle_enter_getpeername, handle_exit_getpeername),
      (''bind'', handle_enter_bind, handle_exit_bind),
      (''listen'', handle_enter_listen, handle_exit_listen),
      (''accept'', handle_enter_accept, handle_exit_accept),
      (''accept4'', handle_enter_accept4, handle_exit_accept4),
      (''connect'', handle_enter_connect, handle_exit_connect),
      (''shutdown'', handle_enter_shutdown, handle_exit_shutdown),
      (''recvfrom'', handle_enter_recvfrom, handle_exit_recvfrom),
      (''recvmsg'', handle_enter_recvmsg, handle_exit_recvmsg),
      (''recvmmsg'', handle_enter_recvmmsg, handle_exit_recvmmsg),
      (''sendto'', handle_enter_sendto, handle_exit_sendto),
      (''sendmsg'', handle_enter_sendmsg, handle_exit_sendmsg),
      (''sendmmsg'', handle_enter_sendmmsg, handle_exit_sendmmsg),
      (''sethostname'', handle_enter_sethostname, handle_exit_sethostname),
      (''setdomainname'', handle_enter_setdomainname, handle_exit_setdomainname),
      (''ioctl'', handle_enter_ioctl, handle_exit_ioctl),
      (''close'', handle_enter_close, handle_exit_close)]"

end
