(* ===== verification/Log_File.thy ===== *)
theory Log_File
  imports Consumer
begin

section \<open>Log lines: opening, naming, linking and inspecting files\<close>

text \<open>
  The handlers of \<open>src/src/tracepoint/handler.cpp\<close> for this family, one definition each under the
  handler's own name.  The table at the end is the family's part of \<open>init_event_handlers\<close>: the
  name of the \<open>__NR_\<close> constant with the two handlers assigned to it.
\<close>

definition handle_enter_creat :: handler where
  "handle_enter_creat env e event =
     (let event = event\<lparr>arg1 := str_u32 (arg_u32 e 0)\<rparr>;
          event = (if is_valid e then event\<lparr>arg0 := c_string (arg_str e)\<rparr> else event)
      in Some event)"

definition handle_exit_creat :: handler where
  "handle_exit_creat env e event =
     (let event = event\<lparr>db_ret := ev_ret e\<rparr>
      in Some event)"

definition handle_enter_open :: handler where
  "handle_enter_open env e event =
     (let event = event\<lparr>arg1 := str_s32 (arg_s32 e 0)\<rparr>;
          event = event\<lparr>arg2 := str_u32 (arg_u32 e 0)\<rparr>;
          event = (if is_valid e then event\<lparr>arg0 := c_string (arg_str e)\<rparr> else event)
      in Some event)"

definition handle_exit_open :: handler where
  "handle_exit_open env e event =
     (let event = event\<lparr>db_ret := ev_ret e\<rparr>
      in Some event)"

definition handle_enter_openat :: handler where
  "handle_enter_openat env e event =
     (let event = event\<lparr>arg0 := str_s32 (arg_s32 e 1)\<rparr>;
          event = event\<lparr>arg2 := str_u32 (arg_u32 e 0)\<rparr>;
          event = event\<lparr>arg3 := str_u32 (arg_u32 e 1)\<rparr>;
          event = (if is_valid e then event\<lparr>arg1 := c_string (arg_str e)\<rparr> else event)
      in Some event)"

definition handle_exit_openat :: handler where
  "handle_exit_openat env e event =
     (let event = event\<lparr>db_ret := ev_ret e\<rparr>
      in Some event)"

definition handle_enter_openat2 :: handler where
  "handle_enter_openat2 env e event =
     (let event = event\<lparr>arg0 := str_s32 (arg_s32 e 0)\<rparr>;
          event = event\<lparr>arg5 := str_u64 (arg_u64 e 0)\<rparr>;
          event = (if is_valid e then event\<lparr>arg1 := c_string (arg_str e), arg2 := str_u64 (arg_u64 e 1), arg3 := str_u64 (arg_u64 e 2), arg4 := str_u64 (arg_u64 e 3)\<rparr> else event)
      in Some event)"

definition handle_exit_openat2 :: handler where
  "handle_exit_openat2 env e event =
     (let event = event\<lparr>db_ret := ev_ret e\<rparr>
      in Some event)"

definition handle_enter_memfd_create :: handler where
  "handle_enter_memfd_create env e event =
     (let event = event\<lparr>arg0 := str_u32 (arg_u32 e 0)\<rparr>;
          event = (if is_valid e then event\<lparr>arg1 := c_string (arg_str e)\<rparr> else event)
      in Some event)"

definition handle_exit_memfd_create :: handler where
  "handle_exit_memfd_create env e event =
     (let event = event\<lparr>db_ret := ev_ret e\<rparr>
      in Some event)"

definition handle_enter_mknod :: handler where
  "handle_enter_mknod env e event =
     (let event = event\<lparr>arg1 := str_u32 (arg_u32 e 0)\<rparr>;
          event = event\<lparr>arg2 := str_u64 (arg_u64 e 0)\<rparr>;
          event = (if is_valid e then event\<lparr>arg0 := c_string (arg_str e)\<rparr> else event)
      in Some event)"

definition handle_exit_mknod :: handler where
  "handle_exit_mknod env e event =
     (let event = event\<lparr>db_ret := ev_ret e\<rparr>
      in Some event)"

definition handle_enter_mknodat :: handler where
  "handle_enter_mknodat env e event =
     (let event = event\<lparr>arg0 := str_s32 (arg_s32 e 0)\<rparr>;
          event = event\<lparr>arg2 := str_u32 (arg_u32 e 0)\<rparr>;
          event = event\<lparr>arg3 := str_u64 (arg_u64 e 0)\<rparr>;
          event = (if is_valid e then event\<lparr>arg1 := c_string (arg_str e)\<rparr> else event)
      in Some event)"

definition handle_exit_mknodat :: handler where
  "handle_exit_mknodat env e event =
     (let event = event\<lparr>db_ret := ev_ret e\<rparr>
      in Some event)"

definition handle_enter_rename :: handler where
  "handle_enter_rename env e event =
     (let event = (if is_valid e then event\<lparr>arg0 := c_string (arg_str e), arg1 := c_string (arg_str2 e)\<rparr> else event)
      in Some event)"

definition handle_exit_rename :: handler where
  "handle_exit_rename env e event =
     (let event = event\<lparr>db_ret := ev_ret e\<rparr>
      in Some event)"

definition handle_enter_renameat :: handler where
  "handle_enter_renameat env e event =
     (let event = event\<lparr>arg0 := str_s32 (arg_s32 e 0)\<rparr>;
          event = event\<lparr>arg2 := str_s32 (arg_s32 e 1)\<rparr>;
          event = (if is_valid e then event\<lparr>arg1 := c_string (arg_str e), arg3 := c_string (arg_str2 e)\<rparr> else event)
      in Some event)"

definition handle_exit_renameat :: handler where
  "handle_exit_renameat env e event =
     (let event = event\<lparr>db_ret := ev_ret e\<rparr>
      in Some event)"

definition handle_enter_renameat2 :: handler where
  "handle_enter_renameat2 env e event =
     (let event = event\<lparr>arg0 := str_s32 (arg_s32 e 1)\<rparr>;
          event = event\<lparr>arg2 := str_s32 (arg_s32 e 2)\<rparr>;
          event = event\<lparr>arg4 := str_u64 (arg_u64 e 0)\<rparr>;
          event = (if is_valid e then event\<lparr>arg1 := c_string (arg_str e), arg3 := c_string (arg_str2 e)\<rparr> else event)
      in Some event)"

definition handle_exit_renameat2 :: handler where
  "handle_exit_renameat2 env e event =
     (let event = event\<lparr>db_ret := ev_ret e\<rparr>
      in Some event)"

definition handle_enter_truncate :: handler where
  "handle_enter_truncate env e event =
     (let event = event\<lparr>arg1 := str_u64 (arg_u64 e 0)\<rparr>;
          event = (if is_valid e then event\<lparr>arg0 := c_string (arg_str e)\<rparr> else event)
      in Some event)"

definition handle_exit_truncate :: handler where
  "handle_exit_truncate env e event =
     (let event = event\<lparr>db_ret := ev_ret e\<rparr>
      in Some event)"

definition handle_enter_ftruncate :: handler where
  "handle_enter_ftruncate env e event =
     (let event = event\<lparr>arg0 := str_s32 (arg_s32 e 0)\<rparr>;
          event = event\<lparr>arg1 := str_u64 (arg_u64 e 0)\<rparr>
      in Some event)"

definition handle_exit_ftruncate :: handler where
  "handle_exit_ftruncate env e event =
     (let event = event\<lparr>db_ret := ev_ret e\<rparr>
      in Some event)"

definition handle_enter_fallocate :: handler where
  "handle_enter_fallocate env e event =
     (let event = event\<lparr>arg0 := str_s32 (arg_s32 e 0)\<rparr>;
          event = event\<lparr>arg1 := str_s32 (arg_s32 e 1)\<rparr>;
          event = event\<lparr>arg2 := str_u64 (arg_u64 e 0)\<rparr>;
          event = event\<lparr>arg3 := str_u64 (arg_u64 e 1)\<rparr>
      in Some event)"

definition handle_exit_fallocate :: handler where
  "handle_exit_fallocate env e event =
     (let event = event\<lparr>db_ret := ev_ret e\<rparr>
      in Some event)"

definition handle_enter_mkdir :: handler where
  "handle_enter_mkdir env e event =
     (let event = event\<lparr>arg1 := str_u32 (arg_u32 e 0)\<rparr>;
          event = (if is_valid e then event\<lparr>arg0 := c_string (arg_str e)\<rparr> else event)
      in Some event)"

definition handle_exit_mkdir :: handler where
  "handle_exit_mkdir env e event =
     (let event = event\<lparr>db_ret := ev_ret e\<rparr>
      in Some event)"

definition handle_enter_mkdirat :: handler where
  "handle_enter_mkdirat env e event =
     (let event = event\<lparr>arg0 := str_s32 (arg_s32 e 0)\<rparr>;
          event = event\<lparr>arg2 := str_u32 (arg_u32 e 0)\<rparr>;
          event = (if is_valid e then event\<lparr>arg1 := c_string (arg_str e)\<rparr> else event)
      in Some event)"

definition handle_exit_mkdirat :: handler where
  "handle_exit_mkdirat env e event =
     (let event = event\<lparr>db_ret := ev_ret e\<rparr>
      in Some event)"

definition handle_enter_rmdir :: handler where
  "handle_enter_rmdir env e event =
     (let event = (if is_valid e then event\<lparr>arg0 := c_string (arg_str e)\<rparr> else event)
      in Some event)"

definition handle_exit_rmdir :: handler where
  "handle_exit_rmdir env e event =
     (let event = event\<lparr>db_ret := ev_ret e\<rparr>
      in Some event)"

definition handle_enter_getcwd :: handler where
  "handle_enter_getcwd env e event =
     (let event = event\<lparr>arg0 := str_u64 (arg_u64 e 0)\<rparr>
      in Some event)"

definition handle_exit_getcwd :: handler where
  "handle_exit_getcwd env e event =
     (let event = event\<lparr>db_ret := ev_ret e\<rparr>
      in Some event)"

definition handle_enter_chdir :: handler where
  "handle_enter_chdir env e event =
     (let event = (if is_valid e then event\<lparr>arg0 := c_string (arg_str e)\<rparr> else event)
      in Some event)"

definition handle_exit_chdir :: handler where
  "handle_exit_chdir env e event =
     (let event = event\<lparr>db_ret := ev_ret e\<rparr>
      in Some event)"

definition handle_enter_fchdir :: handler where
  "handle_enter_fchdir env e event =
     (let event = event\<lparr>arg0 := str_s32 (arg_s32 e 0)\<rparr>
      in Some event)"

definition handle_exit_fchdir :: handler where
  "handle_exit_fchdir env e event =
     (let event = event\<lparr>db_ret := ev_ret e\<rparr>
      in Some event)"

definition handle_enter_chroot :: handler where
  "handle_enter_chroot env e event =
     (let event = (if is_valid e then event\<lparr>arg0 := c_string (arg_str e)\<rparr> else event)
      in Some event)"

definition handle_exit_chroot :: handler where
  "handle_exit_chroot env e event =
     (let event = event\<lparr>db_ret := ev_ret e\<rparr>
      in Some event)"

definition handle_enter_pivot_root :: handler where
  "handle_enter_pivot_root env e event =
     (let event = (if is_valid e then event\<lparr>arg0 := c_string (arg_str e), arg1 := c_string (arg_str2 e)\<rparr> else event)
      in Some event)"

definition handle_exit_pivot_root :: handler where
  "handle_exit_pivot_root env e event =
     (let event = event\<lparr>db_ret := ev_ret e\<rparr>
      in Some event)"

definition handle_enter_getdents :: handler where
  "handle_enter_getdents env e event =
     (let event = event\<lparr>arg0 := str_u32 (arg_u32 e 0)\<rparr>;
          event = event\<lparr>arg1 := str_u32 (arg_u32 e 1)\<rparr>
      in Some event)"

definition handle_exit_getdents :: handler where
  "handle_exit_getdents env e event =
     (let event = event\<lparr>db_ret := ev_ret e\<rparr>;
          event = (if is_valid e then event\<lparr>arg0 := str_u64 (arg_u64 e 0)\<rparr> else event)
      in Some event)"

definition handle_enter_getdents64 :: handler where
  "handle_enter_getdents64 env e event =
     (let event = event\<lparr>arg0 := str_s32 (arg_s32 e 0)\<rparr>;
          event = event\<lparr>arg1 := str_u64 (arg_u64 e 0)\<rparr>
      in Some event)"

definition handle_exit_getdents64 :: handler where
  "handle_exit_getdents64 env e event =
     (let event = event\<lparr>db_ret := ev_ret e\<rparr>;
          event = (if is_valid e then event\<lparr>arg0 := str_u64 (arg_u64 e 0)\<rparr> else event)
      in Some event)"

definition handle_enter_link :: handler where
  "handle_enter_link env e event =
     (let event = (if is_valid e then event\<lparr>arg0 := c_string (arg_str e), arg1 := c_string (arg_str2 e)\<rparr> else event)
      in Some event)"

definition handle_exit_link :: handler where
  "handle_exit_link env e event =
     (let event = event\<lparr>db_ret := ev_ret e\<rparr>
      in Some event)"

definition handle_enter_linkat :: handler where
  "handle_enter_linkat env e event =
     (let event = event\<lparr>arg0 := str_s32 (arg_s32 e 0)\<rparr>;
          event = event\<lparr>arg2 := str_s32 (arg_s32 e 1)\<rparr>;
          event = event\<lparr>arg4 := str_u32 (arg_u32 e 0)\<rparr>;
          event = (if is_valid e then event\<lparr>arg1 := c_string (arg_str e), arg3 := c_string (arg_str2 e)\<rparr> else event)
      in Some event)"

definition handle_exit_linkat :: handler where
  "handle_exit_linkat env e event =
     (let event = event\<lparr>db_ret := ev_ret e\<rparr>
      in Some event)"

definition handle_enter_symlink :: handler where
  "handle_enter_symlink env e event =
     (let event = (if is_valid e then event\<lparr>arg0 := c_string (arg_str e), arg1 := c_string (arg_str2 e)\<rparr> else event)
      in Some event)"

definition handle_exit_symlink :: handler where
  "handle_exit_symlink env e event =
     (let event = event\<lparr>db_ret := ev_ret e\<rparr>
      in Some event)"

definition handle_enter_symlinkat :: handler where
  "handle_enter_symlinkat env e event =
     (let event = event\<lparr>arg0 := str_s32 (arg_s32 e 0)\<rparr>;
          event = (if is_valid e then event\<lparr>arg1 := c_string (arg_str e), arg2 := c_string (arg_str2 e)\<rparr> else event)
      in Some event)"

definition handle_exit_symlinkat :: handler where
  "handle_exit_symlinkat env e event =
     (let event = event\<lparr>db_ret := ev_ret e\<rparr>
      in Some event)"

definition handle_enter_unlink :: handler where
  "handle_enter_unlink env e event =
     (let event = (if is_valid e then event\<lparr>arg0 := c_string (arg_str e)\<rparr> else event)
      in Some event)"

definition handle_exit_unlink :: handler where
  "handle_exit_unlink env e event =
     (let event = event\<lparr>db_ret := ev_ret e\<rparr>
      in Some event)"

definition handle_enter_unlinkat :: handler where
  "handle_enter_unlinkat env e event =
     (let event = event\<lparr>arg0 := str_s32 (arg_s32 e 0)\<rparr>;
          event = event\<lparr>arg2 := str_u32 (arg_u32 e 0)\<rparr>;
          event = (if is_valid e then event\<lparr>arg1 := c_string (arg_str e)\<rparr> else event)
      in Some event)"

definition handle_exit_unlinkat :: handler where
  "handle_exit_unlinkat env e event =
     (let event = event\<lparr>db_ret := ev_ret e\<rparr>
      in Some event)"

definition handle_enter_readlink :: handler where
  "handle_enter_readlink env e event =
     (let event = event\<lparr>arg1 := str_u64 (arg_u64 e 0)\<rparr>;
          event = (if is_valid e then event\<lparr>arg0 := c_string (arg_str e)\<rparr> else event)
      in Some event)"

definition handle_exit_readlink :: handler where
  "handle_exit_readlink env e event =
     (let event = event\<lparr>db_ret := ev_ret e\<rparr>
      in Some event)"

definition handle_enter_readlinkat :: handler where
  "handle_enter_readlinkat env e event =
     (let event = event\<lparr>arg0 := str_s32 (arg_s32 e 0)\<rparr>;
          event = event\<lparr>arg2 := str_u64 (arg_u64 e 0)\<rparr>;
          event = (if is_valid e then event\<lparr>arg1 := c_string (arg_str e)\<rparr> else event)
      in Some event)"

definition handle_exit_readlinkat :: handler where
  "handle_exit_readlinkat env e event =
     (let event = event\<lparr>db_ret := ev_ret e\<rparr>
      in Some event)"

definition handle_enter_umask :: handler where
  "handle_enter_umask env e event =
     (let event = event\<lparr>arg0 := str_u32 (arg_u32 e 0)\<rparr>
      in Some event)"

definition handle_exit_umask :: handler where
  "handle_exit_umask env e event =
     (let event = event\<lparr>db_ret := ev_ret e\<rparr>
      in Some event)"

definition handle_enter_newstat :: handler where
  "handle_enter_newstat env e event =
     (let event = (if is_valid e then event\<lparr>arg0 := c_string (arg_str e)\<rparr> else event)
      in Some event)"

definition handle_exit_newstat :: handler where
  "handle_exit_newstat env e event =
     (let event = event\<lparr>db_ret := ev_ret e\<rparr>
      in Some event)"

definition handle_enter_newlstat :: handler where
  "handle_enter_newlstat env e event =
     (let event = (if is_valid e then event\<lparr>arg0 := c_string (arg_str e)\<rparr> else event)
      in Some event)"

definition handle_exit_newlstat :: handler where
  "handle_exit_newlstat env e event =
     (let event = event\<lparr>db_ret := ev_ret e\<rparr>
      in Some event)"

definition handle_enter_newfstat :: handler where
  "handle_enter_newfstat env e event =
     (let event = event\<lparr>arg0 := str_s32 (arg_s32 e 0)\<rparr>
      in Some event)"

definition handle_exit_newfstat :: handler where
  "handle_exit_newfstat env e event =
     (let event = event\<lparr>db_ret := ev_ret e\<rparr>
      in Some event)"

definition handle_enter_newfstatat :: handler where
  "handle_enter_newfstatat env e event =
     (let event = event\<lparr>arg0 := str_s32 (arg_s32 e 0)\<rparr>;
          event = event\<lparr>arg2 := str_s32 (arg_s32 e 1)\<rparr>;
          event = (if is_valid e then event\<lparr>arg1 := c_string (arg_str e)\<rparr> else event)
      in Some event)"

definition handle_exit_newfstatat :: handler where
  "handle_exit_newfstatat env e event =
     (let event = event\<lparr>db_ret := ev_ret e\<rparr>
      in Some event)"

definition handle_enter_statx :: handler where
  "handle_enter_statx env e event =
     (let event = event\<lparr>arg0 := str_s32 (arg_s32 e 0)\<rparr>;
          event = event\<lparr>arg2 := str_u32 (arg_u32 e 0)\<rparr>;
          event = event\<lparr>arg3 := str_u32 (arg_u32 e 1)\<rparr>;
          event = (if is_valid e then event\<lparr>arg1 := c_string (arg_str e)\<rparr> else event)
      in Some event)"

definition handle_exit_statx :: handler where
  "handle_exit_statx env e event =
     (let event = event\<lparr>db_ret := ev_ret e\<rparr>
      in Some event)"

definition handle_enter_statfs :: handler where
  "handle_enter_statfs env e event =
     (let event = (if is_valid e then event\<lparr>arg0 := c_string (arg_str e)\<rparr> else event)
      in Some event)"

definition handle_exit_statfs :: handler where
  "handle_exit_statfs env e event =
     (let event = event\<lparr>db_ret := ev_ret e\<rparr>
      in Some event)"

definition handle_enter_fstatfs :: handler where
  "handle_enter_fstatfs env e event =
     (let event = event\<lparr>arg0 := str_s32 (arg_s32 e 0)\<rparr>
      in Some event)"

definition handle_exit_fstatfs :: handler where
  "handle_exit_fstatfs env e event =
     (let event = event\<lparr>db_ret := ev_ret e\<rparr>
      in Some event)"

subsection \<open>Dispatch\<close>

definition file_handlers :: "(string \<times> handler \<times> handler) list" where
  "file_handlers =
     [(''creat'', handle_enter_creat, handle_exit_creat),
      (''open'', handle_enter_open, handle_exit_open),
      (''openat'', handle_enter_openat, handle_exit_openat),
      (''openat2'', handle_enter_openat2, handle_exit_openat2),
      (''memfd_create'', handle_enter_memfd_create, handle_exit_memfd_create),
      (''mknod'', handle_enter_mknod, handle_exit_mknod),
      (''mknodat'', handle_enter_mknodat, handle_exit_mknodat),
      (''rename'', handle_enter_rename, handle_exit_rename),
      (''renameat'', handle_enter_renameat, handle_exit_renameat),
      (''renameat2'', handle_enter_renameat2, handle_exit_renameat2),
      (''truncate'', handle_enter_truncate, handle_exit_truncate),
      (''ftruncate'', handle_enter_ftruncate, handle_exit_ftruncate),
      (''fallocate'', handle_enter_fallocate, handle_exit_fallocate),
      (''mkdir'', handle_enter_mkdir, handle_exit_mkdir),
      (''mkdirat'', handle_enter_mkdirat, handle_exit_mkdirat),
      (''rmdir'', handle_enter_rmdir, handle_exit_rmdir),
      (''getcwd'', handle_enter_getcwd, handle_exit_getcwd),
      (''chdir'', handle_enter_chdir, handle_exit_chdir),
      (''fchdir'', handle_enter_fchdir, handle_exit_fchdir),
      (''chroot'', handle_enter_chroot, handle_exit_chroot),
      (''pivot_root'', handle_enter_pivot_root, handle_exit_pivot_root),
      (''getdents'', handle_enter_getdents, handle_exit_getdents),
      (''getdents64'', handle_enter_getdents64, handle_exit_getdents64),
      (''link'', handle_enter_link, handle_exit_link),
      (''linkat'', handle_enter_linkat, handle_exit_linkat),
      (''symlink'', handle_enter_symlink, handle_exit_symlink),
      (''symlinkat'', handle_enter_symlinkat, handle_exit_symlinkat),
      (''unlink'', handle_enter_unlink, handle_exit_unlink),
      (''unlinkat'', handle_enter_unlinkat, handle_exit_unlinkat),
      (''readlink'', handle_enter_readlink, handle_exit_readlink),
      (''readlinkat'', handle_enter_readlinkat, handle_exit_readlinkat),
      (''umask'', handle_enter_umask, handle_exit_umask),
      (''stat'', handle_enter_newstat, handle_exit_newstat),
      (''lstat'', handle_enter_newlstat, handle_exit_newlstat),
      (''fstat'', handle_enter_newfstat, handle_exit_newfstat),
      (''newfstatat'', handle_enter_newfstatat, handle_exit_newfstatat),
      (''statx'', handle_enter_statx, handle_exit_statx),
      (''statfs'', handle_enter_statfs, handle_exit_statfs),
      (''fstatfs'', handle_enter_fstatfs, handle_exit_fstatfs)]"

end
