(* ===== verification/Log_Meta.thy ===== *)
theory Log_Meta
  imports Consumer
begin

section \<open>Log lines: permissions, descriptors, reading and writing, notification and mounting\<close>

text \<open>
  The handlers of \<open>src/src/tracepoint/handler.cpp\<close> for this family, one definition each under the
  handler's own name.  The table at the end is the family's part of \<open>init_event_handlers\<close>: the
  name of the \<open>__NR_\<close> constant with the two handlers assigned to it.
\<close>

definition handle_enter_chmod :: handler where
  "handle_enter_chmod env e event =
     (let event = event\<lparr>arg1 := str_u32 (arg_u32 e 0)\<rparr>;
          event = (if is_valid e then event\<lparr>arg0 := c_string (arg_str e)\<rparr> else event)
      in Some event)"

definition handle_exit_chmod :: handler where
  "handle_exit_chmod env e event =
     (let event = event\<lparr>db_ret := ev_ret e\<rparr>
      in Some event)"

definition handle_enter_fchmod :: handler where
  "handle_enter_fchmod env e event =
     (let event = event\<lparr>arg0 := str_s32 (arg_s32 e 0)\<rparr>;
          event = event\<lparr>arg1 := str_u32 (arg_u32 e 0)\<rparr>
      in Some event)"

definition handle_exit_fchmod :: handler where
  "handle_exit_fchmod env e event =
     (let event = event\<lparr>db_ret := ev_ret e\<rparr>
      in Some event)"

definition handle_enter_fchmodat :: handler where
  "handle_enter_fchmodat env e event =
     (let event = event\<lparr>arg0 := str_s32 (arg_s32 e 0)\<rparr>;
          event = event\<lparr>arg2 := str_u32 (arg_u32 e 0)\<rparr>;
          event = event\<lparr>arg3 := str_s32 (arg_s32 e 1)\<rparr>;
          event = (if is_valid e then event\<lparr>arg1 := c_string (arg_str e)\<rparr> else event)
      in Some event)"

definition handle_exit_fchmodat :: handler where
  "handle_exit_fchmodat env e event =
     (let event = event\<lparr>db_ret := ev_ret e\<rparr>
      in Some event)"

definition handle_enter_chown :: handler where
  "handle_enter_chown env e event =
     (let event = event\<lparr>arg1 := str_u32 (arg_u32 e 0)\<rparr>;
          event = event\<lparr>arg2 := str_u32 (arg_u32 e 1)\<rparr>;
          event = (if is_valid e then event\<lparr>arg0 := c_string (arg_str e)\<rparr> else event)
      in Some event)"

definition handle_exit_chown :: handler where
  "handle_exit_chown env e event =
     (let event = event\<lparr>db_ret := ev_ret e\<rparr>
      in Some event)"

definition handle_enter_lchown :: handler where
  "handle_enter_lchown env e event =
     (let event = event\<lparr>arg1 := str_u32 (arg_u32 e 0)\<rparr>;
          event = event\<lparr>arg2 := str_u32 (arg_u32 e 1)\<rparr>;
          event = (if is_valid e then event\<lparr>arg0 := c_string (arg_str e)\<rparr> else event)
      in Some event)"

definition handle_exit_lchown :: handler where
  "handle_exit_lchown env e event =
     (let event = event\<lparr>db_ret := ev_ret e\<rparr>
      in Some event)"

definition handle_enter_fchown :: handler where
  "handle_enter_fchown env e event =
     (let event = event\<lparr>arg0 := str_s32 (arg_s32 e 0)\<rparr>;
          event = event\<lparr>arg1 := str_u32 (arg_u32 e 0)\<rparr>;
          event = event\<lparr>arg2 := str_u32 (arg_u32 e 1)\<rparr>
      in Some event)"

definition handle_exit_fchown :: handler where
  "handle_exit_fchown env e event =
     (let event = event\<lparr>db_ret := ev_ret e\<rparr>
      in Some event)"

definition handle_enter_fchownat :: handler where
  "handle_enter_fchownat env e event =
     (let event = event\<lparr>arg0 := str_s32 (arg_s32 e 0)\<rparr>;
          event = event\<lparr>arg2 := str_u32 (arg_u32 e 0)\<rparr>;
          event = event\<lparr>arg3 := str_u32 (arg_u32 e 1)\<rparr>;
          event = event\<lparr>arg4 := str_s32 (arg_s32 e 1)\<rparr>;
          event = (if is_valid e then event\<lparr>arg1 := c_string (arg_str e)\<rparr> else event)
      in Some event)"

definition handle_exit_fchownat :: handler where
  "handle_exit_fchownat env e event =
     (let event = event\<lparr>db_ret := ev_ret e\<rparr>
      in Some event)"

definition handle_enter_access :: handler where
  "handle_enter_access env e event =
     (let event = event\<lparr>arg1 := str_u32 (arg_u32 e 0)\<rparr>;
          event = (if is_valid e then event\<lparr>arg0 := c_string (arg_str e)\<rparr> else event)
      in Some event)"

definition handle_exit_access :: handler where
  "handle_exit_access env e event =
     (let event = event\<lparr>db_ret := ev_ret e\<rparr>
      in Some event)"

definition handle_enter_faccessat :: handler where
  "handle_enter_faccessat env e event =
     (let event = event\<lparr>arg0 := str_s32 (arg_s32 e 0)\<rparr>;
          event = event\<lparr>arg2 := str_s32 (arg_s32 e 1)\<rparr>;
          event = event\<lparr>arg3 := str_s32 (arg_s32 e 2)\<rparr>;
          event = (if is_valid e then event\<lparr>arg1 := c_string (arg_str e)\<rparr> else event)
      in Some event)"

definition handle_exit_faccessat :: handler where
  "handle_exit_faccessat env e event =
     (let event = event\<lparr>db_ret := ev_ret e\<rparr>
      in Some event)"

definition handle_enter_fcntl :: handler where
  "handle_enter_fcntl env e event =
     (let event = event\<lparr>arg0 := str_s32 (arg_s32 e 0)\<rparr>;
          event = event\<lparr>arg1 := str_u64 (arg_u64 e 0)\<rparr>;
          event = event\<lparr>arg2 := str_u64 (arg_u64 e 1)\<rparr>
      in Some event)"

definition handle_exit_fcntl :: handler where
  "handle_exit_fcntl env e event =
     (let event = event\<lparr>db_ret := ev_ret e\<rparr>
      in Some event)"

definition handle_enter_dup :: handler where
  "handle_enter_dup env e event =
     (let event = event\<lparr>arg0 := str_s32 (arg_s32 e 0)\<rparr>
      in Some event)"

definition handle_exit_dup :: handler where
  "handle_exit_dup env e event =
     (let event = event\<lparr>db_ret := ev_ret e\<rparr>
      in Some event)"

definition handle_enter_dup2 :: handler where
  "handle_enter_dup2 env e event =
     (let event = event\<lparr>arg0 := str_s32 (arg_s32 e 0)\<rparr>;
          event = event\<lparr>arg1 := str_s32 (arg_s32 e 1)\<rparr>
      in Some event)"

definition handle_exit_dup2 :: handler where
  "handle_exit_dup2 env e event =
     (let event = event\<lparr>db_ret := ev_ret e\<rparr>
      in Some event)"

definition handle_enter_dup3 :: handler where
  "handle_enter_dup3 env e event =
     (let event = event\<lparr>arg0 := str_s32 (arg_s32 e 0)\<rparr>;
          event = event\<lparr>arg1 := str_s32 (arg_s32 e 1)\<rparr>;
          event = event\<lparr>arg2 := str_s32 (arg_s32 e 2)\<rparr>
      in Some event)"

definition handle_exit_dup3 :: handler where
  "handle_exit_dup3 env e event =
     (let event = event\<lparr>db_ret := ev_ret e\<rparr>
      in Some event)"

definition handle_enter_flock :: handler where
  "handle_enter_flock env e event =
     (let event = event\<lparr>arg0 := str_s32 (arg_s32 e 0)\<rparr>;
          event = event\<lparr>arg1 := str_s32 (arg_s32 e 1)\<rparr>
      in Some event)"

definition handle_exit_flock :: handler where
  "handle_exit_flock env e event =
     (let event = event\<lparr>db_ret := ev_ret e\<rparr>
      in Some event)"

definition handle_enter_read :: handler where
  "handle_enter_read env e event =
     (let event = event\<lparr>arg0 := str_s32 (arg_s32 e 0)\<rparr>;
          event = event\<lparr>arg1 := str_u64 (arg_u64 e 0)\<rparr>
      in Some event)"

definition handle_exit_read :: handler where
  "handle_exit_read env e event =
     (let event = event\<lparr>db_ret := ev_ret e\<rparr>
      in Some event)"

definition handle_enter_pread64 :: handler where
  "handle_enter_pread64 env e event =
     (let event = event\<lparr>arg0 := str_s32 (arg_s32 e 0)\<rparr>;
          event = event\<lparr>arg1 := str_u64 (arg_u64 e 0)\<rparr>;
          event = event\<lparr>arg2 := str_s64 (arg_s64 e 0)\<rparr>
      in Some event)"

definition handle_exit_pread64 :: handler where
  "handle_exit_pread64 env e event =
     (let event = event\<lparr>db_ret := ev_ret e\<rparr>
      in Some event)"

definition handle_enter_readv :: handler where
  "handle_enter_readv env e event =
     (let event = event\<lparr>arg0 := str_s32 (arg_s32 e 0)\<rparr>;
          event = event\<lparr>arg1 := str_s32 (arg_s32 e 1)\<rparr>
      in Some event)"

definition handle_exit_readv :: handler where
  "handle_exit_readv env e event =
     (let event = event\<lparr>db_ret := ev_ret e\<rparr>
      in Some event)"

definition handle_enter_preadv :: handler where
  "handle_enter_preadv env e event =
     (let event = event\<lparr>arg0 := str_s32 (arg_s32 e 0)\<rparr>;
          event = event\<lparr>arg1 := str_s32 (arg_s32 e 1)\<rparr>;
          event = event\<lparr>arg2 := str_s64 (arg_s64 e 0)\<rparr>
      in Some event)"

definition handle_exit_preadv :: handler where
  "handle_exit_preadv env e event =
     (let event = event\<lparr>db_ret := ev_ret e\<rparr>
      in Some event)"

definition handle_enter_preadv2 :: handler where
  "handle_enter_preadv2 env e event =
     (let event = event\<lparr>arg0 := str_s32 (arg_s32 e 0)\<rparr>;
          event = event\<lparr>arg1 := str_s32 (arg_s32 e 1)\<rparr>;
          event = event\<lparr>arg2 := str_s64 (arg_s64 e 0)\<rparr>;
          event = event\<lparr>arg3 := str_s32 (arg_s32 e 2)\<rparr>
      in Some event)"

definition handle_exit_preadv2 :: handler where
  "handle_exit_preadv2 env e event =
     (let event = event\<lparr>db_ret := ev_ret e\<rparr>
      in Some event)"

definition handle_enter_write :: handler where
  "handle_enter_write env e event =
     (let event = event\<lparr>arg0 := str_s32 (arg_s32 e 0)\<rparr>;
          event = event\<lparr>arg1 := str_u64 (arg_u64 e 0)\<rparr>
      in Some event)"

definition handle_exit_write :: handler where
  "handle_exit_write env e event =
     (let event = event\<lparr>db_ret := ev_ret e\<rparr>
      in Some event)"

definition handle_enter_pwrite64 :: handler where
  "handle_enter_pwrite64 env e event =
     (let event = event\<lparr>arg0 := str_s32 (arg_s32 e 0)\<rparr>;
          event = event\<lparr>arg1 := str_u64 (arg_u64 e 0)\<rparr>;
          event = event\<lparr>arg2 := str_s64 (arg_s64 e 0)\<rparr>
      in Some event)"

definition handle_exit_pwrite64 :: handler where
  "handle_exit_pwrite64 env e event =
     (let event = event\<lparr>db_ret := ev_ret e\<rparr>
      in Some event)"

definition handle_enter_writev :: handler where
  "handle_enter_writev env e event =
     (let event = event\<lparr>arg0 := str_s32 (arg_s32 e 0)\<rparr>;
          event = event\<lparr>arg1 := str_s32 (arg_s32 e 1)\<rparr>
      in Some event)"

definition handle_exit_writev :: handler where
  "handle_exit_writev env e event =
     (let event = event\<lparr>db_ret := ev_ret e\<rparr>
      in Some event)"

definition handle_enter_pwritev :: handler where
  "handle_enter_pwritev env e event =
     (let event = event\<lparr>arg0 := str_s32 (arg_s32 e 0)\<rparr>;
          event = event\<lparr>arg1 := str_s32 (arg_s32 e 1)\<rparr>;
          event = event\<lparr>arg2 := str_s64 (arg_s64 e 0)\<rparr>
      in Some event)"

definition handle_exit_pwritev :: handler where
  "handle_exit_pwritev env e event =
     (let event = event\<lparr>db_ret := ev_ret e\<rparr>
      in Some event)"

definition handle_enter_pwritev2 :: handler where
  "handle_enter_pwritev2 env e event =
     (let event = event\<lparr>arg0 := str_s32 (arg_s32 e 0)\<rparr>;
          event = event\<lparr>arg1 := str_s32 (arg_s32 e 1)\<rparr>;
          event = event\<lparr>arg2 := str_s64 (arg_s64 e 0)\<rparr>;
          event = event\<lparr>arg3 := str_s32 (arg_s32 e 2)\<rparr>
      in Some event)"

definition handle_exit_pwritev2 :: handler where
  "handle_exit_pwritev2 env e event =
     (let event = event\<lparr>db_ret := ev_ret e\<rparr>
      in Some event)"

definition handle_enter_lseek :: handler where
  "handle_enter_lseek env e event =
     (let event = event\<lparr>arg0 := str_s32 (arg_s32 e 0)\<rparr>;
          event = event\<lparr>arg1 := str_s64 (arg_s64 e 0)\<rparr>;
          event = event\<lparr>arg2 := str_s32 (arg_s32 e 1)\<rparr>
      in Some event)"

definition handle_exit_lseek :: handler where
  "handle_exit_lseek env e event =
     (let event = event\<lparr>db_ret := ev_ret e\<rparr>
      in Some event)"

definition handle_enter_sendfile64 :: handler where
  "handle_enter_sendfile64 env e event =
     (let event = event\<lparr>arg0 := str_s32 (arg_s32 e 0)\<rparr>;
          event = event\<lparr>arg1 := str_s32 (arg_s32 e 1)\<rparr>;
          event = event\<lparr>arg2 := str_s64 (arg_s64 e 0)\<rparr>;
          event = event\<lparr>arg3 := str_u64 (arg_u64 e 0)\<rparr>
      in Some event)"

definition handle_exit_sendfile64 :: handler where
  "handle_exit_sendfile64 env e event =
     (let event = event\<lparr>db_ret := ev_ret e\<rparr>
      in Some event)"

definition handle_enter_inotify_init :: handler where
  "handle_enter_inotify_init env e event = Some event"

definition handle_exit_inotify_init :: handler where
  "handle_exit_inotify_init env e event =
     (let event = event\<lparr>db_ret := ev_ret e\<rparr>
      in Some event)"

definition handle_enter_inotify_init1 :: handler where
  "handle_enter_inotify_init1 env e event =
     (let event = event\<lparr>arg0 := str_s32 (arg_s32 e 0)\<rparr>
      in Some event)"

definition handle_exit_inotify_init1 :: handler where
  "handle_exit_inotify_init1 env e event =
     (let event = event\<lparr>db_ret := ev_ret e\<rparr>
      in Some event)"

definition handle_enter_inotify_add_watch :: handler where
  "handle_enter_inotify_add_watch env e event =
     (let event = event\<lparr>arg0 := str_s32 (arg_s32 e 0)\<rparr>;
          event = event\<lparr>arg2 := str_u32 (arg_u32 e 0)\<rparr>;
          event = (if is_valid e then event\<lparr>arg1 := c_string (arg_str e)\<rparr> else event)
      in Some event)"

definition handle_exit_inotify_add_watch :: handler where
  "handle_exit_inotify_add_watch env e event =
     (let event = event\<lparr>db_ret := ev_ret e\<rparr>
      in Some event)"

definition handle_enter_inotify_rm_watch :: handler where
  "handle_enter_inotify_rm_watch env e event =
     (let event = event\<lparr>arg0 := str_s32 (arg_s32 e 0)\<rparr>;
          event = event\<lparr>arg1 := str_s32 (arg_s32 e 1)\<rparr>
      in Some event)"

definition handle_exit_inotify_rm_watch :: handler where
  "handle_exit_inotify_rm_watch env e event =
     (let event = event\<lparr>db_ret := ev_ret e\<rparr>
      in Some event)"

definition handle_enter_fanotify_init :: handler where
  "handle_enter_fanotify_init env e event =
     (let event = event\<lparr>arg0 := str_s32 (arg_s32 e 0)\<rparr>;
          event = event\<lparr>arg1 := str_s32 (arg_s32 e 1)\<rparr>
      in Some event)"

definition handle_exit_fanotify_init :: handler where
  "handle_exit_fanotify_init env e event =
     (let event = event\<lparr>db_ret := ev_ret e\<rparr>
      in Some event)"

definition handle_enter_fanotify_mark :: handler where
  "handle_enter_fanotify_mark env e event =
     (let event = event\<lparr>arg0 := str_s32 (arg_s32 e 0)\<rparr>;
          event = event\<lparr>arg1 := str_u32 (arg_u32 e 0)\<rparr>;
          event = event\<lparr>arg2 := str_u64 (arg_u64 e 0)\<rparr>;
          event = event\<lparr>arg3 := str_s32 (arg_s32 e 1)\<rparr>;
          event = (if \<not> is_null e then (if is_valid e then event\<lparr>arg4 := c_string (arg_str e)\<rparr> else event) else event);
          event = (if is_null e then event\<lparr>arg4 := ''monitoring directory events''\<rparr> else event)
      in Some event)"

definition handle_exit_fanotify_mark :: handler where
  "handle_exit_fanotify_mark env e event =
     (let event = event\<lparr>db_ret := ev_ret e\<rparr>
      in Some event)"

definition handle_enter_mount :: handler where
  "handle_enter_mount env e event =
     (let event = event\<lparr>arg3 := str_u64 (arg_u64 e 0)\<rparr>;
          event = (if is_valid e then event\<lparr>arg0 := c_string (arg_str e), arg1 := c_string (arg_str2 e), arg2 := c_string (filesystem_type e)\<rparr> else event)
      in Some event)"

definition handle_exit_mount :: handler where
  "handle_exit_mount env e event =
     (let event = event\<lparr>db_ret := ev_ret e\<rparr>
      in Some event)"

definition handle_enter_umount :: handler where
  "handle_enter_umount env e event =
     (let event = event\<lparr>arg1 := str_u64 (arg_u64 e 0)\<rparr>;
          event = (if is_valid e then event\<lparr>arg0 := c_string (arg_str e)\<rparr> else event)
      in Some event)"

definition handle_exit_umount :: handler where
  "handle_exit_umount env e event =
     (let event = event\<lparr>db_ret := ev_ret e\<rparr>
      in Some event)"

definition handle_enter_move_mount :: handler where
  "handle_enter_move_mount env e event =
     (let event = event\<lparr>arg0 := str_s32 (arg_s32 e 0)\<rparr>;
          event = event\<lparr>arg2 := str_s32 (arg_s32 e 1)\<rparr>;
          event = event\<lparr>arg4 := str_u64 (arg_u64 e 0)\<rparr>;
          event = (if is_valid e then event\<lparr>arg1 := c_string (arg_str e), arg3 := c_string (arg_str2 e)\<rparr> else event)
      in Some event)"

definition handle_exit_move_mount :: handler where
  "handle_exit_move_mount env e event =
     (let event = event\<lparr>db_ret := ev_ret e\<rparr>
      in Some event)"

subsection \<open>Dispatch\<close>

definition meta_handlers :: "(string \<times> handler \<times> handler) list" where
  "meta_handlers =
     [(''chmod'', handle_enter_chmod, handle_exit_chmod),
      (''fchmod'', handle_enter_fchmod, handle_exit_fchmod),
      (''fchmodat'', handle_enter_fchmodat, handle_exit_fchmodat),
      (''chown'', handle_enter_chown, handle_exit_chown),
      (''lchown'', handle_enter_lchown, handle_exit_lchown),
      (''fchown'', handle_enter_fchown, handle_exit_fchown),
      (''fchownat'', handle_enter_fchownat, handle_exit_fchownat),
      (''access'', handle_enter_access, handle_exit_access),
      (''faccessat'', handle_enter_faccessat, handle_exit_faccessat),
      (''fcntl'', handle_enter_fcntl, handle_exit_fcntl),
      (''dup'', handle_enter_dup, handle_exit_dup),
      (''dup2'', handle_enter_dup2, handle_exit_dup2),
      (''dup3'', handle_enter_dup3, handle_exit_dup3),
      (''flock'', handle_enter_flock, handle_exit_flock),
      (''read'', handle_enter_read, handle_exit_read),
      (''pread64'', handle_enter_pread64, handle_exit_pread64),
      (''readv'', handle_enter_readv, handle_exit_readv),
      (''preadv'', handle_enter_preadv, handle_exit_preadv),
      (''preadv2'', handle_enter_preadv2, handle_exit_preadv2),
      (''write'', handle_enter_write, handle_exit_write),
      (''pwrite64'', handle_enter_pwrite64, handle_exit_pwrite64),
      (''writev'', handle_enter_writev, handle_exit_writev),
      (''pwritev'', handle_enter_pwritev, handle_exit_pwritev),
      (''pwritev2'', handle_enter_pwritev2, handle_exit_pwritev2),
      (''lseek'', handle_enter_lseek, handle_exit_lseek),
      (''sendfile'', handle_enter_sendfile64, handle_exit_sendfile64),
      (''inotify_init'', handle_enter_inotify_init, handle_exit_inotify_init),
      (''inotify_init1'', handle_enter_inotify_init1, handle_exit_inotify_init1),
      (''inotify_add_watch'', handle_enter_inotify_add_watch, handle_exit_inotify_add_watch),
      (''inotify_rm_watch'', handle_enter_inotify_rm_watch, handle_exit_inotify_rm_watch),
      (''fanotify_init'', handle_enter_fanotify_init, handle_exit_fanotify_init),
      (''fanotify_mark'', handle_enter_fanotify_mark, handle_exit_fanotify_mark),
      (''mount'', handle_enter_mount, handle_exit_mount),
      (''umount2'', handle_enter_umount, handle_exit_umount),
      (''move_mount'', handle_enter_move_mount, handle_exit_move_mount)]"

end
