(* ===== verification/Log_Proc.thy ===== *)
theory Log_Proc
  imports Consumer
begin

section \<open>Log lines: processes, identities, limits and priorities\<close>

text \<open>
  The handlers of \<open>src/src/tracepoint/handler.cpp\<close> for this family, one definition each under the
  handler's own name.  The table at the end is the family's part of \<open>init_event_handlers\<close>: the
  name of the \<open>__NR_\<close> constant with the two handlers assigned to it.
\<close>

definition handle_enter_clone :: handler where
  "handle_enter_clone env e event =
     (let event = event\<lparr>arg0 := str_u64 (arg_u64 e 0)\<rparr>;
          event = event\<lparr>arg1 := str_s32 (arg_s32 e 0)\<rparr>
      in None)"

definition handle_exit_clone :: handler where
  "handle_exit_clone env e event =
     (let event = event\<lparr>db_ret := ev_ret e\<rparr>
      in Some event)"

definition handle_enter_clone3 :: handler where
  "handle_enter_clone3 env e event =
     (let event = (if is_valid e then event\<lparr>arg0 := str_u64 (arg_u64 e 0), arg1 := str_u64 (arg_u64 e 1), arg2 := str_u64 (arg_u64 e 2), arg3 := str_u64 (arg_u64 e 3)\<rparr> else event)
      in Some event)"

definition handle_exit_clone3 :: handler where
  "handle_exit_clone3 env e event =
     (let event = event\<lparr>db_ret := ev_ret e\<rparr>
      in Some event)"

definition handle_enter_fork :: handler where
  "handle_enter_fork env e event = Some event"

definition handle_exit_fork :: handler where
  "handle_exit_fork env e event =
     (let event = event\<lparr>db_ret := ev_ret e\<rparr>
      in Some event)"

definition handle_enter_vfork :: handler where
  "handle_enter_vfork env e event = Some event"

definition handle_exit_vfork :: handler where
  "handle_exit_vfork env e event =
     (let event = event\<lparr>db_ret := ev_ret e\<rparr>
      in Some event)"

definition handle_enter_execve :: handler where
  "handle_enter_execve env e event =
     (let event = (if is_valid e then event\<lparr>arg0 := c_string (arg_str e)\<rparr> else event)
      in Some event)"

definition handle_exit_execve :: handler where
  "handle_exit_execve env e event =
     (let event = event\<lparr>db_ret := ev_ret e\<rparr>
      in Some event)"

definition handle_enter_execveat :: handler where
  "handle_enter_execveat env e event =
     (let event = event\<lparr>arg0 := str_s32 (arg_s32 e 0)\<rparr>;
          event = event\<lparr>arg2 := str_s32 (arg_s32 e 1)\<rparr>;
          event = (if is_valid e then event\<lparr>arg1 := c_string (arg_str e)\<rparr> else event)
      in Some event)"

definition handle_exit_execveat :: handler where
  "handle_exit_execveat env e event =
     (let event = event\<lparr>db_ret := ev_ret e\<rparr>
      in Some event)"

definition handle_enter_exit :: handler where
  "handle_enter_exit env e event =
     (let event = event\<lparr>arg0 := str_s32 (arg_s32 e 0)\<rparr>
      in Some event)"

definition handle_exit_exit :: handler where
  "handle_exit_exit env e event =
     (let event = event\<lparr>db_ret := ev_ret e\<rparr>
      in Some event)"

definition handle_enter_exit_group :: handler where
  "handle_enter_exit_group env e event =
     (let event = event\<lparr>arg0 := str_s32 (arg_s32 e 0)\<rparr>
      in Some event)"

definition handle_exit_exit_group :: handler where
  "handle_exit_exit_group env e event =
     (let event = event\<lparr>db_ret := ev_ret e\<rparr>
      in Some event)"

definition handle_enter_wait4 :: handler where
  "handle_enter_wait4 env e event =
     (let event = event\<lparr>arg0 := str_u32 (arg_u32 e 0)\<rparr>;
          event = (if is_valid e then event\<lparr>arg1 := str_s32 (arg_s32 e 1), arg2 := str_s32 (arg_s32 e 0)\<rparr> else event)
      in Some event)"

definition handle_exit_wait4 :: handler where
  "handle_exit_wait4 env e event =
     (let event = event\<lparr>db_ret := ev_ret e\<rparr>
      in Some event)"

definition handle_enter_waitid :: handler where
  "handle_enter_waitid env e event =
     (let event = event\<lparr>arg0 := str_s32 (arg_s32 e 0)\<rparr>;
          event = event\<lparr>arg1 := str_u32 (arg_u32 e 0)\<rparr>;
          event = event\<lparr>arg4 := str_s32 (arg_s32 e 1)\<rparr>;
          event = (if is_valid e then event\<lparr>arg2 := str_s32 (arg_s32 e 2), arg3 := str_s32 (arg_s32 e 3)\<rparr> else event)
      in Some event)"

definition handle_exit_waitid :: handler where
  "handle_exit_waitid env e event =
     (let event = event\<lparr>db_ret := ev_ret e\<rparr>
      in Some event)"

definition handle_enter_getpid :: handler where
  "handle_enter_getpid env e event = Some event"

definition handle_exit_getpid :: handler where
  "handle_exit_getpid env e event =
     (let event = event\<lparr>db_ret := ev_ret e\<rparr>
      in Some event)"

definition handle_enter_getppid :: handler where
  "handle_enter_getppid env e event = Some event"

definition handle_exit_getppid :: handler where
  "handle_exit_getppid env e event =
     (let event = event\<lparr>db_ret := ev_ret e\<rparr>
      in Some event)"

definition handle_enter_gettid :: handler where
  "handle_enter_gettid env e event = Some event"

definition handle_exit_gettid :: handler where
  "handle_exit_gettid env e event =
     (let event = event\<lparr>db_ret := ev_ret e\<rparr>
      in Some event)"

definition handle_enter_setsid :: handler where
  "handle_enter_setsid env e event = Some event"

definition handle_exit_setsid :: handler where
  "handle_exit_setsid env e event =
     (let event = event\<lparr>db_ret := ev_ret e\<rparr>
      in Some event)"

definition handle_enter_getsid :: handler where
  "handle_enter_getsid env e event =
     (let event = event\<lparr>arg0 := str_u32 (arg_u32 e 0)\<rparr>
      in Some event)"

definition handle_exit_getsid :: handler where
  "handle_exit_getsid env e event =
     (let event = event\<lparr>db_ret := ev_ret e\<rparr>
      in Some event)"

definition handle_enter_setpgid :: handler where
  "handle_enter_setpgid env e event =
     (let event = event\<lparr>arg0 := str_u32 (arg_u32 e 0)\<rparr>;
          event = event\<lparr>arg1 := str_u32 (arg_u32 e 1)\<rparr>
      in Some event)"

definition handle_exit_setpgid :: handler where
  "handle_exit_setpgid env e event =
     (let event = event\<lparr>db_ret := ev_ret e\<rparr>
      in Some event)"

definition handle_enter_getpgid :: handler where
  "handle_enter_getpgid env e event =
     (let event = event\<lparr>arg0 := str_u32 (arg_u32 e 0)\<rparr>
      in Some event)"

definition handle_exit_getpgid :: handler where
  "handle_exit_getpgid env e event =
     (let event = event\<lparr>db_ret := ev_ret e\<rparr>
      in Some event)"

definition handle_enter_getpgrp :: handler where
  "handle_enter_getpgrp env e event = Some event"

definition handle_exit_getpgrp :: handler where
  "handle_exit_getpgrp env e event =
     (let event = event\<lparr>db_ret := ev_ret e\<rparr>
      in Some event)"

definition handle_enter_setuid :: handler where
  "handle_enter_setuid env e event =
     (let event = event\<lparr>arg0 := str_u32 (arg_u32 e 0)\<rparr>
      in Some event)"

definition handle_exit_setuid :: handler where
  "handle_exit_setuid env e event =
     (let event = event\<lparr>db_ret := ev_ret e\<rparr>
      in Some event)"

definition handle_enter_getuid :: handler where
  "handle_enter_getuid env e event = Some event"

definition handle_exit_getuid :: handler where
  "handle_exit_getuid env e event =
     (let event = event\<lparr>db_ret := ev_ret e\<rparr>
      in Some event)"

definition handle_enter_setgid :: handler where
  "handle_enter_setgid env e event =
     (let event = event\<lparr>arg0 := str_u32 (arg_u32 e 0)\<rparr>
      in Some event)"

definition handle_exit_setgid :: handler where
  "handle_exit_setgid env e event =
     (let event = event\<lparr>db_ret := ev_ret e\<rparr>
      in Some event)"

definition handle_enter_getgid :: handler where
  "handle_enter_getgid env e event = Some event"

definition handle_exit_getgid :: handler where
  "handle_exit_getgid env e event =
     (let event = event\<lparr>db_ret := ev_ret e\<rparr>
      in Some event)"

definition handle_enter_setresuid :: handler where
  "handle_enter_setresuid env e event =
     (let event = event\<lparr>arg0 := str_u32 (arg_u32 e 0)\<rparr>;
          event = event\<lparr>arg1 := str_u32 (arg_u32 e 1)\<rparr>;
          event = event\<lparr>arg2 := str_u32 (arg_u32 e 2)\<rparr>
      in Some event)"

definition handle_exit_setresuid :: handler where
  "handle_exit_setresuid env e event =
     (let event = event\<lparr>db_ret := ev_ret e\<rparr>
      in Some event)"

definition handle_enter_getresuid :: handler where
  "handle_enter_getresuid env e event = Some event"

definition handle_exit_getresuid :: handler where
  "handle_exit_getresuid env e event =
     (let event = event\<lparr>db_ret := ev_ret e\<rparr>;
          event = (if is_valid e then event\<lparr>arg0 := str_u32 (arg_u32 e 0), arg1 := str_u32 (arg_u32 e 1), arg2 := str_u32 (arg_u32 e 2)\<rparr> else event)
      in Some event)"

definition handle_enter_setresgid :: handler where
  "handle_enter_setresgid env e event =
     (let event = event\<lparr>arg0 := str_u32 (arg_u32 e 0)\<rparr>;
          event = event\<lparr>arg1 := str_u32 (arg_u32 e 1)\<rparr>;
          event = event\<lparr>arg2 := str_u32 (arg_u32 e 2)\<rparr>
      in Some event)"

definition handle_exit_setresgid :: handler where
  "handle_exit_setresgid env e event =
     (let event = event\<lparr>db_ret := ev_ret e\<rparr>
      in Some event)"

definition handle_enter_getresgid :: handler where
  "handle_enter_getresgid env e event = Some event"

definition handle_exit_getresgid :: handler where
  "handle_exit_getresgid env e event =
     (let event = event\<lparr>db_ret := ev_ret e\<rparr>;
          event = (if is_valid e then event\<lparr>arg0 := str_u32 (arg_u32 e 0), arg1 := str_u32 (arg_u32 e 1), arg2 := str_u32 (arg_u32 e 2)\<rparr> else event)
      in Some event)"

definition handle_enter_setreuid :: handler where
  "handle_enter_setreuid env e event =
     (let event = event\<lparr>arg0 := str_u32 (arg_u32 e 0)\<rparr>;
          event = event\<lparr>arg1 := str_u32 (arg_u32 e 1)\<rparr>
      in Some event)"

definition handle_exit_setreuid :: handler where
  "handle_exit_setreuid env e event =
     (let event = event\<lparr>db_ret := ev_ret e\<rparr>
      in Some event)"

definition handle_enter_setregid :: handler where
  "handle_enter_setregid env e event =
     (let event = event\<lparr>arg0 := str_u32 (arg_u32 e 0)\<rparr>;
          event = event\<lparr>arg1 := str_u32 (arg_u32 e 1)\<rparr>
      in Some event)"

definition handle_exit_setregid :: handler where
  "handle_exit_setregid env e event =
     (let event = event\<lparr>db_ret := ev_ret e\<rparr>
      in Some event)"

definition handle_enter_geteuid :: handler where
  "handle_enter_geteuid env e event = Some event"

definition handle_exit_geteuid :: handler where
  "handle_exit_geteuid env e event =
     (let event = event\<lparr>db_ret := ev_ret e\<rparr>
      in Some event)"

definition handle_enter_getegid :: handler where
  "handle_enter_getegid env e event = Some event"

definition handle_exit_getegid :: handler where
  "handle_exit_getegid env e event =
     (let event = event\<lparr>db_ret := ev_ret e\<rparr>
      in Some event)"

definition handle_enter_setgroups :: handler where
  "handle_enter_setgroups env e event =
     (let event = event\<lparr>arg0 := str_u64 (arg_u64 e 0)\<rparr>
      in Some event)"

definition handle_exit_setgroups :: handler where
  "handle_exit_setgroups env e event =
     (let event = event\<lparr>db_ret := ev_ret e\<rparr>
      in Some event)"

definition handle_enter_getgroups :: handler where
  "handle_enter_getgroups env e event =
     (let event = event\<lparr>arg0 := str_s32 (arg_s32 e 0)\<rparr>
      in None)"

definition handle_exit_getgroups :: handler where
  "handle_exit_getgroups env e event =
     (let event = event\<lparr>db_ret := ev_ret e\<rparr>
      in Some event)"

definition handle_enter_setns :: handler where
  "handle_enter_setns env e event =
     (let event = event\<lparr>arg0 := str_s32 (arg_s32 e 0)\<rparr>;
          event = event\<lparr>arg1 := str_s32 (arg_s32 e 1)\<rparr>
      in Some event)"

definition handle_exit_setns :: handler where
  "handle_exit_setns env e event =
     (let event = event\<lparr>db_ret := ev_ret e\<rparr>
      in Some event)"

definition handle_enter_setrlimit :: handler where
  "handle_enter_setrlimit env e event =
     (let event = event\<lparr>arg0 := str_u64 (arg_u64 e 0)\<rparr>;
          event = (if is_valid e then event\<lparr>arg1 := str_u64 (arg_u64 e 1), arg2 := str_u64 (arg_u64 e 2)\<rparr> else event)
      in Some event)"

definition handle_exit_setrlimit :: handler where
  "handle_exit_setrlimit env e event =
     (let event = event\<lparr>db_ret := ev_ret e\<rparr>
      in Some event)"

definition handle_enter_getrlimit :: handler where
  "handle_enter_getrlimit env e event =
     (let event = event\<lparr>arg0 := str_s32 (arg_s32 e 0)\<rparr>
      in Some event)"

definition handle_exit_getrlimit :: handler where
  "handle_exit_getrlimit env e event =
     (let event = event\<lparr>db_ret := ev_ret e\<rparr>;
          event = (if is_valid e then event\<lparr>arg0 := str_u64 (arg_u64 e 0), arg1 := str_u64 (arg_u64 e 1)\<rparr> else event)
      in None)"

definition handle_enter_prlimit64 :: handler where
  "handle_enter_prlimit64 env e event =
     (let event = event\<lparr>arg0 := str_u32 (arg_u32 e 0)\<rparr>;
          event = event\<lparr>arg1 := str_s32 (arg_s32 e 0)\<rparr>
      in Some event)"

definition handle_exit_prlimit64 :: handler where
  "handle_exit_prlimit64 env e event =
     (let event = event\<lparr>db_ret := ev_ret e\<rparr>
      in Some event)"

definition handle_enter_getrusage :: handler where
  "handle_enter_getrusage env e event =
     (let event = event\<lparr>arg0 := str_s32 (arg_s32 e 0)\<rparr>
      in None)"

definition handle_exit_getrusage :: handler where
  "handle_exit_getrusage env e event =
     (let event = event\<lparr>db_ret := ev_ret e\<rparr>
      in Some event)"

definition handle_enter_setpriority :: handler where
  "handle_enter_setpriority env e event =
     (let event = event\<lparr>arg0 := str_s32 (arg_s32 e 0)\<rparr>;
          event = event\<lparr>arg1 := str_u32 (arg_u32 e 0)\<rparr>;
          event = event\<lparr>arg2 := str_s32 (arg_s32 e 1)\<rparr>
      in Some event)"

definition handle_exit_setpriority :: handler where
  "handle_exit_setpriority env e event =
     (let event = event\<lparr>db_ret := ev_ret e\<rparr>
      in Some event)"

definition handle_enter_getpriority :: handler where
  "handle_enter_getpriority env e event =
     (let event = event\<lparr>arg0 := str_s32 (arg_s32 e 0)\<rparr>;
          event = event\<lparr>arg1 := str_u32 (arg_u32 e 0)\<rparr>
      in Some event)"

definition handle_exit_getpriority :: handler where
  "handle_exit_getpriority env e event =
     (let event = event\<lparr>db_ret := ev_ret e\<rparr>
      in Some event)"

definition handle_enter_ioprio_set :: handler where
  "handle_enter_ioprio_set env e event =
     (let event = event\<lparr>arg0 := str_s32 (arg_s32 e 0)\<rparr>;
          event = event\<lparr>arg1 := str_s32 (arg_s32 e 1)\<rparr>;
          event = event\<lparr>arg2 := str_s32 (arg_s32 e 2)\<rparr>
      in Some event)"

definition handle_exit_ioprio_set :: handler where
  "handle_exit_ioprio_set env e event =
     (let event = event\<lparr>db_ret := ev_ret e\<rparr>
      in Some event)"

definition handle_enter_ioprio_get :: handler where
  "handle_enter_ioprio_get env e event =
     (let event = event\<lparr>arg0 := str_s32 (arg_s32 e 0)\<rparr>;
          event = event\<lparr>arg1 := str_s32 (arg_s32 e 1)\<rparr>
      in Some event)"

definition handle_exit_ioprio_get :: handler where
  "handle_exit_ioprio_get env e event =
     (let event = event\<lparr>db_ret := ev_ret e\<rparr>
      in Some event)"

subsection \<open>Dispatch\<close>

definition proc_handlers :: "(string \<times> handler \<times> handler) list" where
  "proc_handlers =
     [(''clone'', handle_enter_clone, handle_exit_clone),
      (''clone3'', handle_enter_clone3, handle_exit_clone3),
      (''fork'', handle_enter_fork, handle_exit_fork),
      (''vfork'', handle_enter_vfork, handle_exit_vfork),
      (''execve'', handle_enter_execve, handle_exit_execve),
      (''execveat'', handle_enter_execveat, handle_exit_execveat),
      (''exit'', handle_enter_exit, handle_exit_exit),
      (''exit_group'', handle_enter_exit_group, handle_exit_exit_group),
      (''wait4'', handle_enter_wait4, handle_exit_wait4),
      (''waitid'', handle_enter_waitid, handle_exit_waitid),
      (''getpid'', handle_enter_getpid, handle_exit_getpid),
      (''getppid'', handle_enter_getppid, handle_exit_getppid),
      (''gettid'', handle_enter_gettid, handle_exit_gettid),
      (''setsid'', handle_enter_setsid, handle_exit_setsid),
      (''getsid'', handle_enter_getsid, handle_exit_getsid),
      (''setpgid'', handle_enter_setpgid, handle_exit_setpgid),
      (''getpgid'', handle_enter_getpgid, handle_exit_getpgid),
      (''getpgrp'', handle_enter_getpgrp, handle_exit_getpgrp),
      (''setuid'', handle_enter_setuid, handle_exit_setuid),
      (''getuid'', handle_enter_getuid, handle_exit_getuid),
      (''setgid'', handle_enter_setgid, handle_exit_setgid),
      (''getgid'', handle_enter_getgid, handle_exit_getgid),
      (''setresuid'', handle_enter_setresuid, handle_exit_setresuid),
      (''getresuid'', handle_enter_getresuid, handle_exit_getresuid),
      (''setresgid'', handle_enter_setresgid, handle_exit_setresgid),
      (''getresgid'', handle_enter_getresgid, handle_exit_getresgid),
      (''setreuid'', handle_enter_setreuid, handle_exit_setreuid),
      (''setregid'', handle_enter_setregid, handle_exit_setregid),
      (''geteuid'', handle_enter_geteuid, handle_exit_geteuid),
      (''getegid'', handle_enter_getegid, handle_exit_getegid),
      (''setgroups'', handle_enter_setgroups, handle_exit_setgroups),
      (''getgroups'', handle_enter_getgroups, handle_exit_getgroups),
      (''setns'', handle_enter_setns, handle_exit_setns),
      (''setrlimit'', handle_enter_setrlimit, handle_exit_setrlimit),
      (''getrlimit'', handle_enter_getrlimit, handle_exit_getrlimit),
      (''prlimit64'', handle_enter_prlimit64, handle_exit_prlimit64),
      (''getrusage'', handle_enter_getrusage, handle_exit_getrusage),
      (''setpriority'', handle_enter_setpriority, handle_exit_setpriority),
      (''getpriority'', handle_enter_getpriority, handle_exit_getpriority),
      (''ioprio_set'', handle_enter_ioprio_set, handle_exit_ioprio_set),
      (''ioprio_get'', handle_enter_ioprio_get, handle_exit_ioprio_get)]"

end
