(* ===== verification/Log_Mem.thy ===== *)
theory Log_Mem
  imports Consumer
begin

section \<open>Log lines: memory, capabilities, modules, signals and scheduling\<close>

text \<open>
  The handlers of \<open>src/src/tracepoint/handler.cpp\<close> for this family, one definition each under the
  handler's own name.  The table at the end is the family's part of \<open>init_event_handlers\<close>: the
  name of the \<open>__NR_\<close> constant with the two handlers assigned to it.
\<close>

definition handle_enter_mmap :: handler where
  "handle_enter_mmap env e event =
     (let event = event\<lparr>arg0 := str_u64 (arg_u64 e 0)\<rparr>;
          event = event\<lparr>arg1 := str_u64 (arg_u64 e 1)\<rparr>;
          event = event\<lparr>arg2 := str_s32 (arg_s32 e 0)\<rparr>;
          event = event\<lparr>arg3 := str_s32 (arg_s32 e 1)\<rparr>;
          event = event\<lparr>arg4 := str_s32 (arg_s32 e 2)\<rparr>;
          event = event\<lparr>arg5 := str_u64 (arg_u64 e 2)\<rparr>
      in Some event)"

definition handle_exit_mmap :: handler where
  "handle_exit_mmap env e event =
     (let event = event\<lparr>db_ret := ev_ret e\<rparr>
      in Some event)"

definition handle_enter_mprotect :: handler where
  "handle_enter_mprotect env e event =
     (let event = event\<lparr>arg0 := str_u64 (arg_u64 e 0)\<rparr>;
          event = event\<lparr>arg1 := str_s32 (arg_s32 e 0)\<rparr>
      in Some event)"

definition handle_exit_mprotect :: handler where
  "handle_exit_mprotect env e event =
     (let event = event\<lparr>db_ret := ev_ret e\<rparr>
      in Some event)"

definition handle_enter_capset :: handler where
  "handle_enter_capset env e event =
     (let event = event\<lparr>arg0 := str_u32 (arg_u32 e 0)\<rparr>;
          event = event\<lparr>arg1 := str_u32 (arg_u32 e 1)\<rparr>;
          event = event\<lparr>arg2 := str_u32 (arg_u32 e 2)\<rparr>;
          event = event\<lparr>arg3 := str_u32 (arg_u32 e 3)\<rparr>;
          event = event\<lparr>arg4 := str_u32 (arg_u32 e 4)\<rparr>
      in Some event)"

definition handle_exit_capset :: handler where
  "handle_exit_capset env e event =
     (let event = event\<lparr>db_ret := ev_ret e\<rparr>
      in Some event)"

definition handle_enter_ptrace :: handler where
  "handle_enter_ptrace env e event =
     (let event = event\<lparr>arg0 := str_s32 (arg_s32 e 0)\<rparr>;
          event = event\<lparr>arg1 := str_u32 (arg_u32 e 0)\<rparr>
      in Some event)"

definition handle_exit_ptrace :: handler where
  "handle_exit_ptrace env e event =
     (let event = event\<lparr>db_ret := ev_ret e\<rparr>
      in Some event)"

definition handle_enter_process_vm_readv :: handler where
  "handle_enter_process_vm_readv env e event =
     (let event = event\<lparr>arg0 := str_u32 (arg_u32 e 0)\<rparr>;
          event = event\<lparr>arg1 := str_u64 (arg_u64 e 0)\<rparr>;
          event = event\<lparr>arg2 := str_u64 (arg_u64 e 1)\<rparr>;
          event = event\<lparr>arg3 := str_u64 (arg_u64 e 2)\<rparr>
      in Some event)"

definition handle_exit_process_vm_readv :: handler where
  "handle_exit_process_vm_readv env e event =
     (let event = event\<lparr>db_ret := ev_ret e\<rparr>
      in Some event)"

definition handle_enter_process_vm_writev :: handler where
  "handle_enter_process_vm_writev env e event =
     (let event = event\<lparr>arg0 := str_u32 (arg_u32 e 0)\<rparr>;
          event = event\<lparr>arg1 := str_u64 (arg_u64 e 0)\<rparr>;
          event = event\<lparr>arg2 := str_u64 (arg_u64 e 1)\<rparr>;
          event = event\<lparr>arg3 := str_u64 (arg_u64 e 2)\<rparr>
      in None)"

definition handle_exit_process_vm_writev :: handler where
  "handle_exit_process_vm_writev env e event =
     (let event = event\<lparr>db_ret := ev_ret e\<rparr>
      in Some event)"

definition handle_enter_init_module :: handler where
  "handle_enter_init_module env e event =
     (let event = event\<lparr>arg0 := str_u64 (arg_u64 e 0)\<rparr>;
          event = (if is_valid e then event\<lparr>arg1 := c_string (arg_str e)\<rparr> else event)
      in Some event)"

definition handle_exit_init_module :: handler where
  "handle_exit_init_module env e event =
     (let event = event\<lparr>db_ret := ev_ret e\<rparr>
      in Some event)"

definition handle_enter_finit_module :: handler where
  "handle_enter_finit_module env e event =
     (let event = event\<lparr>arg0 := str_s32 (arg_s32 e 0)\<rparr>;
          event = event\<lparr>arg2 := str_s32 (arg_s32 e 1)\<rparr>;
          event = (if is_valid e then event\<lparr>arg1 := c_string (arg_str e)\<rparr> else event)
      in Some event)"

definition handle_exit_finit_module :: handler where
  "handle_exit_finit_module env e event =
     (let event = event\<lparr>db_ret := ev_ret e\<rparr>
      in Some event)"

definition handle_enter_delete_module :: handler where
  "handle_enter_delete_module env e event =
     (let event = event\<lparr>arg0 := c_string (arg_str e)\<rparr>;
          event = event\<lparr>arg1 := str_s32 (arg_s32 e 0)\<rparr>
      in Some event)"

definition handle_exit_delete_module :: handler where
  "handle_exit_delete_module env e event =
     (let event = event\<lparr>db_ret := ev_ret e\<rparr>
      in Some event)"

definition handle_enter_munmap :: handler where
  "handle_enter_munmap env e event =
     (let event = event\<lparr>arg0 := str_u64 (arg_u64 e 0)\<rparr>;
          event = event\<lparr>arg1 := str_u64 (arg_u64 e 1)\<rparr>
      in None)"

definition handle_exit_munmap :: handler where
  "handle_exit_munmap env e event =
     (let event = event\<lparr>db_ret := ev_ret e\<rparr>
      in Some event)"

definition handle_enter_mremap :: handler where
  "handle_enter_mremap env e event =
     (let event = event\<lparr>arg0 := str_u64 (arg_u64 e 0)\<rparr>;
          event = event\<lparr>arg1 := str_u64 (arg_u64 e 1)\<rparr>;
          event = event\<lparr>arg2 := str_u64 (arg_u64 e 2)\<rparr>;
          event = event\<lparr>arg3 := str_s32 (arg_s32 e 0)\<rparr>;
          event = event\<lparr>arg4 := str_u64 (arg_u64 e 3)\<rparr>
      in Some event)"

definition handle_exit_mremap :: handler where
  "handle_exit_mremap env e event =
     (let event = event\<lparr>db_ret := ev_ret e\<rparr>
      in Some event)"

definition handle_enter_madvise :: handler where
  "handle_enter_madvise env e event =
     (let event = event\<lparr>arg0 := str_u64 (arg_u64 e 0)\<rparr>;
          event = event\<lparr>arg1 := str_u64 (arg_u64 e 1)\<rparr>;
          event = event\<lparr>arg2 := str_s32 (arg_s32 e 0)\<rparr>
      in Some event)"

definition handle_exit_madvise :: handler where
  "handle_exit_madvise env e event =
     (let event = event\<lparr>db_ret := ev_ret e\<rparr>
      in Some event)"

definition handle_enter_mlock :: handler where
  "handle_enter_mlock env e event =
     (let event = event\<lparr>arg0 := str_u64 (arg_u64 e 0)\<rparr>;
          event = event\<lparr>arg1 := str_u64 (arg_u64 e 1)\<rparr>
      in Some event)"

definition handle_exit_mlock :: handler where
  "handle_exit_mlock env e event =
     (let event = event\<lparr>db_ret := ev_ret e\<rparr>
      in Some event)"

definition handle_enter_mlock2 :: handler where
  "handle_enter_mlock2 env e event =
     (let event = event\<lparr>arg0 := str_u64 (arg_u64 e 0)\<rparr>;
          event = event\<lparr>arg1 := str_u64 (arg_u64 e 1)\<rparr>;
          event = event\<lparr>arg2 := str_s32 (arg_s32 e 0)\<rparr>
      in Some event)"

definition handle_exit_mlock2 :: handler where
  "handle_exit_mlock2 env e event =
     (let event = event\<lparr>db_ret := ev_ret e\<rparr>
      in Some event)"

definition handle_enter_munlock :: handler where
  "handle_enter_munlock env e event =
     (let event = event\<lparr>arg0 := str_u64 (arg_u64 e 0)\<rparr>;
          event = event\<lparr>arg1 := str_u64 (arg_u64 e 1)\<rparr>
      in Some event)"

definition handle_exit_munlock :: handler where
  "handle_exit_munlock env e event =
     (let event = event\<lparr>db_ret := ev_ret e\<rparr>
      in Some event)"

definition handle_enter_mlockall :: handler where
  "handle_enter_mlockall env e event =
     (let event = event\<lparr>arg0 := str_s32 (arg_s32 e 0)\<rparr>
      in Some event)"

definition handle_exit_mlockall :: handler where
  "handle_exit_mlockall env e event =
     (let event = event\<lparr>db_ret := ev_ret e\<rparr>
      in Some event)"

definition handle_enter_munlockall :: handler where
  "handle_enter_munlockall env e event = Some event"

definition handle_exit_munlockall :: handler where
  "handle_exit_munlockall env e event =
     (let event = event\<lparr>db_ret := ev_ret e\<rparr>
      in Some event)"

definition handle_enter_capget :: handler where
  "handle_enter_capget env e event = Some event"

definition handle_exit_capget :: handler where
  "handle_exit_capget env e event =
     (let event = event\<lparr>db_ret := ev_ret e\<rparr>;
          event = (if is_valid e then event\<lparr>arg0 := str_u32 (arg_u32 e 0), arg1 := str_u32 (arg_u32 e 1), arg2 := str_u32 (arg_u32 e 2), arg3 := str_u32 (arg_u32 e 3), arg4 := str_u32 (arg_u32 e 4)\<rparr> else event)
      in Some event)"

definition handle_enter_prctl :: handler where
  "handle_enter_prctl env e event =
     (let event = event\<lparr>arg0 := str_s32 (arg_s32 e 0)\<rparr>
      in Some event)"

definition handle_exit_prctl :: handler where
  "handle_exit_prctl env e event =
     (let event = event\<lparr>db_ret := ev_ret e\<rparr>
      in Some event)"

definition handle_enter_arch_prctl :: handler where
  "handle_enter_arch_prctl env e event =
     (let event = event\<lparr>arg0 := str_s32 (arg_s32 e 0)\<rparr>;
          event = event\<lparr>arg1 := str_u64 (arg_u64 e 0)\<rparr>
      in Some event)"

definition handle_exit_arch_prctl :: handler where
  "handle_exit_arch_prctl env e event =
     (let event = event\<lparr>db_ret := ev_ret e\<rparr>
      in Some event)"

definition handle_enter_kill :: handler where
  "handle_enter_kill env e event =
     (let event = event\<lparr>arg0 := str_u32 (arg_u32 e 0)\<rparr>;
          event = event\<lparr>arg1 := str_s32 (arg_s32 e 0)\<rparr>
      in Some event)"

definition handle_exit_kill :: handler where
  "handle_exit_kill env e event =
     (let event = event\<lparr>db_ret := ev_ret e\<rparr>
      in Some event)"

definition handle_enter_tkill :: handler where
  "handle_enter_tkill env e event =
     (let event = event\<lparr>arg0 := str_u32 (arg_u32 e 0)\<rparr>;
          event = event\<lparr>arg1 := str_s32 (arg_s32 e 0)\<rparr>
      in Some event)"

definition handle_exit_tkill :: handler where
  "handle_exit_tkill env e event =
     (let event = event\<lparr>db_ret := ev_ret e\<rparr>
      in Some event)"

definition handle_enter_tgkill :: handler where
  "handle_enter_tgkill env e event =
     (let event = event\<lparr>arg0 := str_u32 (arg_u32 e 0)\<rparr>;
          event = event\<lparr>arg1 := str_u32 (arg_u32 e 1)\<rparr>;
          event = event\<lparr>arg2 := str_s32 (arg_s32 e 0)\<rparr>
      in Some event)"

definition handle_exit_tgkill :: handler where
  "handle_exit_tgkill env e event =
     (let event = event\<lparr>db_ret := ev_ret e\<rparr>
      in Some event)"

definition handle_enter_brk :: handler where
  "handle_enter_brk env e event =
     (let event = event\<lparr>arg0 := str_u64 (arg_u64 e 0)\<rparr>
      in Some event)"

definition handle_exit_brk :: handler where
  "handle_exit_brk env e event =
     (let event = event\<lparr>db_ret := ev_ret e\<rparr>
      in Some event)"

definition handle_enter_sched_setscheduler :: handler where
  "handle_enter_sched_setscheduler env e event =
     (let event = event\<lparr>arg0 := str_u32 (arg_u32 e 0)\<rparr>;
          event = event\<lparr>arg1 := str_s32 (arg_s32 e 0)\<rparr>
      in Some event)"

definition handle_exit_sched_setscheduler :: handler where
  "handle_exit_sched_setscheduler env e event =
     (let event = event\<lparr>db_ret := ev_ret e\<rparr>
      in Some event)"

definition handle_enter_sched_setaffinity :: handler where
  "handle_enter_sched_setaffinity env e event =
     (let event = event\<lparr>arg0 := str_u32 (arg_u32 e 0)\<rparr>;
          event = event\<lparr>arg1 := str_u64 (arg_u64 e 0)\<rparr>
      in Some event)"

definition handle_exit_sched_setaffinity :: handler where
  "handle_exit_sched_setaffinity env e event =
     (let event = event\<lparr>db_ret := ev_ret e\<rparr>
      in Some event)"

definition handle_enter_sysinfo :: handler where
  "handle_enter_sysinfo env e event = Some event"

definition handle_exit_sysinfo :: handler where
  "handle_exit_sysinfo env e event =
     (let event = event\<lparr>db_ret := ev_ret e\<rparr>
      in Some event)"

subsection \<open>Dispatch\<close>

definition mem_handlers :: "(string \<times> handler \<times> handler) list" where
  "mem_handlers =
     [(''mmap'', handle_enter_mmap, handle_exit_mmap),
      (''mprotect'', handle_enter_mprotect, handle_exit_mprotect),
      (''capset'', handle_enter_capset, handle_exit_capset),
      (''ptrace'', handle_enter_ptrace, handle_exit_ptrace),
      (''process_vm_readv'', handle_enter_process_vm_readv, handle_exit_process_vm_readv),
      (''process_vm_writev'', handle_enter_process_vm_writev, handle_exit_process_vm_writev),
      (''init_module'', handle_enter_init_module, handle_exit_init_module),
      (''finit_module'', handle_enter_finit_module, handle_exit_finit_module),
      (''delete_module'', handle_enter_delete_module, handle_exit_delete_module),
      (''munmap'', handle_enter_munmap, handle_exit_munmap),
      (''mremap'', handle_enter_mremap, handle_exit_mremap),
      (''madvise'', handle_enter_madvise, handle_exit_madvise),
      (''mlock'', handle_enter_mlock, handle_exit_mlock),
      (''mlock2'', handle_enter_mlock2, handle_exit_mlock2),
      (''munlock'', handle_enter_munlock, handle_exit_munlock),
      (''mlockall'', handle_enter_mlockall, handle_exit_mlockall),
      (''munlockall'', handle_enter_munlockall, handle_exit_munlockall),
      (''capget'', handle_enter_capget, handle_exit_capget),
      (''prctl'', handle_enter_prctl, handle_exit_prctl),
      (''arch_prctl'', handle_enter_arch_prctl, handle_exit_arch_prctl),
      (''kill'', handle_enter_kill, handle_exit_kill),
      (''tkill'', handle_enter_tkill, handle_exit_tkill),
      (''tgkill'', handle_enter_tgkill, handle_exit_tgkill),
      (''brk'', handle_enter_brk, handle_exit_brk),
      (''sched_setscheduler'', handle_enter_sched_setscheduler, handle_exit_sched_setscheduler),
      (''sched_setaffinity'', handle_enter_sched_setaffinity, handle_exit_sched_setaffinity),
      (''sysinfo'', handle_enter_sysinfo, handle_exit_sysinfo)]"

end
