(* ===== verification/Trace_Log.thy ===== *)
theory Trace_Log
  imports Trace_Layout Log_Net Log_File Log_Meta Log_Proc Log_Mem
begin

section \<open>The calls that are logged faithfully\<close>

text \<open>
  One row per call: the entry program, the slots it fills, the handler of the record, and what
  each column of the log line shows.  The lemma after each table derives the row from the two
  translations, \<open>tracepoint.bpf.c\<close> on one side and \<open>handler.cpp\<close> on the other.
\<close>

type_synonym log_row = "string \<times> enter_program \<times> slot list \<times> handler \<times> (nat \<times> shown) list"

definition row_ok :: "log_row \<Rightarrow> bool" where
  "row_ok row \<longleftrightarrow> (case row of (n, p, slots, h, sig) \<Rightarrow>
     p = described_program slots (texts_of sig) \<and> line_shows slots h sig \<and>
     distinct (map fst (texts_of sig)))"

lemmas row_simps = fun_eq_iff described_program_def texts_part_def line_shows_def Let_def
  with_texts_def case_prod_unfold comp_def

subsection \<open>Sockets, host names, ioctl and close\<close>

definition net_log_rows :: "log_row list" where
  "net_log_rows =
     [(''socket'', trace_sys_enter_socket, [S32 0 0, S32 1 1, S32 2 2], handle_enter_socket,
       [(0, Number I32 0), (1, Number I32 1), (2, Number I32 2)]),
      (''listen'', trace_sys_enter_listen, [S32 0 0, S32 1 1], handle_enter_listen,
       [(0, Number I32 0), (1, Number I32 1)]),
      (''shutdown'', trace_sys_enter_shutdown, [S32 0 0, S32 1 1], handle_enter_shutdown,
       [(0, Number I32 0), (1, Number I32 1)]),
      (''sethostname'', trace_sys_enter_sethostname, [U64 0 1], handle_enter_sethostname,
       [(0, Number Un64 1), (1, Text Str 0)]),
      (''setdomainname'', trace_sys_enter_setdomainname, [U64 0 1], handle_enter_setdomainname,
       [(0, Number Un64 1), (1, Text Str 0)]),
      (''ioctl'', trace_sys_enter_ioctl, [S32 0 0, U64 0 1], handle_enter_ioctl,
       [(0, Number I32 0), (1, Number Un64 1)]),
      (''close'', trace_sys_enter_close, [S32 0 0], handle_enter_close,
       [(0, Number I32 0)])]"

lemmas net_row_defs =
  trace_sys_enter_socket_def handle_enter_socket_def trace_sys_enter_listen_def
  handle_enter_listen_def trace_sys_enter_shutdown_def handle_enter_shutdown_def
  trace_sys_enter_sethostname_def handle_enter_sethostname_def
  trace_sys_enter_setdomainname_def handle_enter_setdomainname_def trace_sys_enter_ioctl_def
  handle_enter_ioctl_def trace_sys_enter_close_def handle_enter_close_def

lemma net_rows_ok: "list_all row_ok net_log_rows"
  unfolding net_log_rows_def list.pred_inject row_ok_def prod.case
  apply (intro conjI TrueI)
  by (simp_all add: row_simps net_row_defs cong: option.case_cong if_cong)

subsection \<open>Opening, naming, linking and inspecting files\<close>

definition file_log_rows :: "log_row list" where
  "file_log_rows =
     [(''creat'', trace_sys_enter_creat, [U32 0 1], handle_enter_creat,
       [(1, Number Un32 1), (0, Text Str 0)]),
      (''open'', trace_sys_enter_open, [S32 0 1, U32 0 2], handle_enter_open,
       [(1, Number I32 1), (2, Number Un32 2), (0, Text Str 0)]),
      (''memfd_create'', trace_sys_enter_memfd_create, [U32 0 1], handle_enter_memfd_create,
       [(0, Number Un32 1), (1, Text Str 0)]),
      (''mknod'', trace_sys_enter_mknod, [U32 0 1, U64 0 2], handle_enter_mknod,
       [(1, Number Un32 1), (2, Number Un64 2), (0, Text Str 0)]),
      (''mknodat'', trace_sys_enter_mknodat, [S32 0 0, U32 0 2, U64 0 3], handle_enter_mknodat,
       [(0, Number I32 0), (2, Number Un32 2), (3, Number Un64 3), (1, Text Str 1)]),
      (''rename'', trace_sys_enter_rename, [], handle_enter_rename,
       [(0, Text Str 0), (1, Text Str2 1)]),
      (''renameat'', trace_sys_enter_renameat, [S32 0 0, S32 1 2], handle_enter_renameat,
       [(0, Number I32 0), (2, Number I32 2), (1, Text Str 1), (3, Text Str2 3)]),
      (''truncate'', trace_sys_enter_truncate, [U64 0 1], handle_enter_truncate,
       [(1, Number Un64 1), (0, Text Str 0)]),
      (''ftruncate'', trace_sys_enter_ftruncate, [S32 0 0, U64 0 1], handle_enter_ftruncate,
       [(0, Number I32 0), (1, Number Un64 1)]),
      (''fallocate'', trace_sys_enter_fallocate, [S32 0 0, S32 1 1, U64 0 2, U64 1 3], handle_enter_fallocate,
       [(0, Number I32 0), (1, Number I32 1), (2, Number Un64 2), (3, Number Un64 3)]),
      (''mkdir'', trace_sys_enter_mkdir, [U32 0 1], handle_enter_mkdir,
       [(1, Number Un32 1), (0, Text Str 0)]),
      (''mkdirat'', trace_sys_enter_mkdirat, [S32 0 0, U32 0 2], handle_enter_mkdirat,
       [(0, Number I32 0), (2, Number Un32 2), (1, Text Str 1)]),
      (''getcwd'', trace_sys_enter_getcwd, [U64 0 1], handle_enter_getcwd,
       [(0, Number Un64 1)]),
      (''chdir'', trace_sys_enter_chdir, [], handle_enter_chdir,
       [(0, Text Str 0)]),
      (''fchdir'', trace_sys_enter_fchdir, [S32 0 0], handle_enter_fchdir,
       [(0, Number I32 0)]),
      (''chroot'', trace_sys_enter_chroot, [], handle_enter_chroot,
       [(0, Text Str 0)]),
      (''pivot_root'', trace_sys_enter_pivot_root, [], handle_enter_pivot_root,
       [(0, Text Str 0), (1, Text Str2 1)]),
      (''link'', trace_sys_enter_link, [], handle_enter_link,
       [(0, Text Str 0), (1, Text Str2 1)]),
      (''symlink'', trace_sys_enter_symlink, [], handle_enter_symlink,
       [(0, Text Str 0), (1, Text Str2 1)]),
      (''symlinkat'', trace_sys_enter_symlinkat, [S32 0 1], handle_enter_symlinkat,
       [(0, Number I32 1), (1, Text Str 0), (2, Text Str2 2)]),
      (''unlink'', trace_sys_enter_unlink, [], handle_enter_unlink,
       [(0, Text Str 0)]),
      (''readlink'', trace_sys_enter_readlink, [U64 0 2], handle_enter_readlink,
       [(1, Number Un64 2), (0, Text Str 0)]),
      (''readlinkat'', trace_sys_enter_readlinkat, [S32 0 0, U64 0 3], handle_enter_readlinkat,
       [(0, Number I32 0), (2, Number Un64 3), (1, Text Str 1)]),
      (''umask'', trace_sys_enter_umask, [U32 0 0], handle_enter_umask,
       [(0, Number Un32 0)]),
      (''newstat'', trace_sys_enter_stat, [], handle_enter_newstat,
       [(0, Text Str 0)]),
      (''newlstat'', trace_sys_enter_lstat, [], handle_enter_newlstat,
       [(0, Text Str 0)]),
      (''newfstat'', trace_sys_enter_fstat, [S32 0 0], handle_enter_newfstat,
       [(0, Number I32 0)]),
      (''newfstatat'', trace_sys_enter_fstatat, [S32 0 0, S32 1 3], handle_enter_newfstatat,
       [(0, Number I32 0), (2, Number I32 3), (1, Text Str 1)]),
      (''statfs'', trace_sys_enter_statfs, [], handle_enter_statfs,
       [(0, Text Str 0)]),
      (''fstatfs'', trace_sys_enter_fstatfs, [S32 0 0], handle_enter_fstatfs,
       [(0, Number I32 0)])]"

lemmas file_row_defs =
  trace_sys_enter_creat_def handle_enter_creat_def trace_sys_enter_open_def
  handle_enter_open_def trace_sys_enter_memfd_create_def handle_enter_memfd_create_def
  trace_sys_enter_mknod_def handle_enter_mknod_def trace_sys_enter_mknodat_def
  handle_enter_mknodat_def trace_sys_enter_rename_def handle_enter_rename_def
  trace_sys_enter_renameat_def handle_enter_renameat_def trace_sys_enter_truncate_def
  handle_enter_truncate_def trace_sys_enter_ftruncate_def handle_enter_ftruncate_def
  trace_sys_enter_fallocate_def handle_enter_fallocate_def trace_sys_enter_mkdir_def
  handle_enter_mkdir_def trace_sys_enter_mkdirat_def handle_enter_mkdirat_def
  trace_sys_enter_getcwd_def handle_enter_getcwd_def trace_sys_enter_chdir_def
  handle_enter_chdir_def trace_sys_enter_fchdir_def handle_enter_fchdir_def
  trace_sys_enter_chroot_def handle_enter_chroot_def trace_sys_enter_pivot_root_def
  handle_enter_pivot_root_def trace_sys_enter_link_def handle_enter_link_def
  trace_sys_enter_symlink_def handle_enter_symlink_def trace_sys_enter_symlinkat_def
  handle_enter_symlinkat_def trace_sys_enter_unlink_def handle_enter_unlink_def
  trace_sys_enter_readlink_def handle_enter_readlink_def trace_sys_enter_readlinkat_def
  handle_enter_readlinkat_def trace_sys_enter_umask_def handle_enter_umask_def
  trace_sys_enter_stat_def handle_enter_newstat_def trace_sys_enter_lstat_def
  handle_enter_newlstat_def trace_sys_enter_fstat_def handle_enter_newfstat_def
  trace_sys_enter_fstatat_def handle_enter_newfstatat_def trace_sys_enter_statfs_def
  handle_enter_statfs_def trace_sys_enter_fstatfs_def handle_enter_fstatfs_def

lemma file_rows_ok: "list_all row_ok file_log_rows"
  unfolding file_log_rows_def list.pred_inject row_ok_def prod.case
  apply (intro conjI TrueI)
  by (simp_all add: row_simps file_row_defs cong: option.case_cong if_cong)

subsection \<open>Permissions, descriptors, reading and writing, notification and mounting\<close>

definition meta_log_rows :: "log_row list" where
  "meta_log_rows =
     [(''chmod'', trace_sys_enter_chmod, [U32 0 1], handle_enter_chmod,
       [(1, Number Un32 1), (0, Text Str 0)]),
      (''fchmod'', trace_sys_enter_fchmod, [S32 0 0, U32 0 1], handle_enter_fchmod,
       [(0, Number I32 0), (1, Number Un32 1)]),
      (''fchmodat'', trace_sys_enter_fchmodat, [S32 0 0, U32 0 2, S32 1 3], handle_enter_fchmodat,
       [(0, Number I32 0), (2, Number Un32 2), (3, Number I32 3), (1, Text Str 1)]),
      (''chown'', trace_sys_enter_chown, [U32 0 1, U32 1 2], handle_enter_chown,
       [(1, Number Un32 1), (2, Number Un32 2), (0, Text Str 0)]),
      (''lchown'', trace_sys_enter_lchown, [U32 0 1, U32 1 2], handle_enter_lchown,
       [(1, Number Un32 1), (2, Number Un32 2), (0, Text Str 0)]),
      (''fchown'', trace_sys_enter_fchown, [S32 0 0, U32 0 1, U32 1 2], handle_enter_fchown,
       [(0, Number I32 0), (1, Number Un32 1), (2, Number Un32 2)]),
      (''fchownat'', trace_sys_enter_fchownat, [S32 0 0, U32 0 2, U32 1 3, S32 1 4], handle_enter_fchownat,
       [(0, Number I32 0), (2, Number Un32 2), (3, Number Un32 3), (4, Number I32 4), (1, Text Str 1)]),
      (''faccessat'', trace_sys_enter_faccessat, [S32 0 0, S32 1 2, S32 2 3], handle_enter_faccessat,
       [(0, Number I32 0), (2, Number I32 2), (3, Number I32 3), (1, Text Str 1)]),
      (''fcntl'', trace_sys_enter_fcntl, [S32 0 0, U64 0 1, U64 1 2], handle_enter_fcntl,
       [(0, Number I32 0), (1, Number Un64 1), (2, Number Un64 2)]),
      (''dup'', trace_sys_enter_dup, [S32 0 0], handle_enter_dup,
       [(0, Number I32 0)]),
      (''dup2'', trace_sys_enter_dup2, [S32 0 0, S32 1 1], handle_enter_dup2,
       [(0, Number I32 0), (1, Number I32 1)]),
      (''dup3'', trace_sys_enter_dup3, [S32 0 0, S32 1 1, S32 2 2], handle_enter_dup3,
       [(0, Number I32 0), (1, Number I32 1), (2, Number I32 2)]),
      (''flock'', trace_sys_enter_flock, [S32 0 0, S32 1 1], handle_enter_flock,
       [(0, Number I32 0), (1, Number I32 1)]),
      (''read'', trace_sys_enter_read, [S32 0 0, U64 0 2], handle_enter_read,
       [(0, Number I32 0), (1, Number Un64 2)]),
      (''pread64'', trace_sys_enter_pread64, [S32 0 0, U64 0 2, S64 0 3], handle_enter_pread64,
       [(0, Number I32 0), (1, Number Un64 2), (2, Number I64 3)]),
      (''readv'', trace_sys_enter_readv, [S32 0 0, S32 1 2], handle_enter_readv,
       [(0, Number I32 0), (1, Number I32 2)]),
      (''preadv'', trace_sys_enter_preadv, [S32 0 0, S32 1 2, S64 0 3], handle_enter_preadv,
       [(0, Number I32 0), (1, Number I32 2), (2, Number I64 3)]),
      (''write'', trace_sys_enter_write, [S32 0 0, U64 0 2], handle_enter_write,
       [(0, Number I32 0), (1, Number Un64 2)]),
      (''pwrite64'', trace_sys_enter_pwrite64, [S32 0 0, U64 0 2, S64 0 3], handle_enter_pwrite64,
       [(0, Number I32 0), (1, Number Un64 2), (2, Number I64 3)]),
      (''writev'', trace_sys_enter_writev, [S32 0 0, S32 1 2], handle_enter_writev,
       [(0, Number I32 0), (1, Number I32 2)]),
      (''pwritev'', trace_sys_enter_pwritev, [S32 0 0, S32 1 2, S64 0 3], handle_enter_pwritev,
       [(0, Number I32 0), (1, Number I32 2), (2, Number I64 3)]),
      (''lseek'', trace_sys_enter_lseek, [S32 0 0, S64 0 1, S32 1 2], handle_enter_lseek,
       [(0, Number I32 0), (1, Number I64 1), (2, Number I32 2)]),
      (''sendfile64'', trace_sys_enter_sendfile64, [S32 0 0, S32 1 1, S64 0 2, U64 0 3], handle_enter_sendfile64,
       [(0, Number I32 0), (1, Number I32 1), (2, Number I64 2), (3, Number Un64 3)]),
      (''inotify_init'', trace_sys_enter_inotify_init, [], handle_enter_inotify_init,
       []),
      (''inotify_init1'', trace_sys_enter_inotify_init1, [S32 0 0], handle_enter_inotify_init1,
       [(0, Number I32 0)]),
      (''inotify_add_watch'', trace_sys_enter_inotify_add_watch, [S32 0 0, U32 0 2], handle_enter_inotify_add_watch,
       [(0, Number I32 0), (2, Number Un32 2), (1, Text Str 1)]),
      (''inotify_rm_watch'', trace_sys_enter_inotify_rm_watch, [S32 0 0, S32 1 1], handle_enter_inotify_rm_watch,
       [(0, Number I32 0), (1, Number I32 1)]),
      (''mount'', trace_sys_enter_mount, [U64 0 3], handle_enter_mount,
       [(3, Number Un64 3), (0, Text Str 0), (1, Text Str2 1), (2, Text Fs_type 2)]),
      (''move_mount'', trace_sys_enter_move_mount, [S32 0 0, S32 1 2, U64 0 4], handle_enter_move_mount,
       [(0, Number I32 0), (2, Number I32 2), (4, Number Un64 4), (1, Text Str 1), (3, Text Str2 3)])]"

lemmas meta_row_defs =
  trace_sys_enter_chmod_def handle_enter_chmod_def trace_sys_enter_fchmod_def
  handle_enter_fchmod_def trace_sys_enter_fchmodat_def handle_enter_fchmodat_def
  trace_sys_enter_chown_def handle_enter_chown_def trace_sys_enter_lchown_def
  handle_enter_lchown_def trace_sys_enter_fchown_def handle_enter_fchown_def
  trace_sys_enter_fchownat_def handle_enter_fchownat_def trace_sys_enter_faccessat_def
  handle_enter_faccessat_def trace_sys_enter_fcntl_def handle_enter_fcntl_def
  trace_sys_enter_dup_def handle_enter_dup_def trace_sys_enter_dup2_def handle_enter_dup2_def
  trace_sys_enter_dup3_def handle_enter_dup3_def trace_sys_enter_flock_def
  handle_enter_flock_def trace_sys_enter_read_def handle_enter_read_def
  trace_sys_enter_pread64_def handle_enter_pread64_def trace_sys_enter_readv_def
  handle_enter_readv_def trace_sys_enter_preadv_def handle_enter_preadv_def
  trace_sys_enter_write_def handle_enter_write_def trace_sys_enter_pwrite64_def
  handle_enter_pwrite64_def trace_sys_enter_writev_def handle_enter_writev_def
  trace_sys_enter_pwritev_def handle_enter_pwritev_def trace_sys_enter_lseek_def
  handle_enter_lseek_def trace_sys_enter_sendfile64_def handle_enter_sendfile64_def
  trace_sys_enter_inotify_init_def handle_enter_inotify_init_def
  trace_sys_enter_inotify_init1_def handle_enter_inotify_init1_def
  trace_sys_enter_inotify_add_watch_def handle_enter_inotify_add_watch_def
  trace_sys_enter_inotify_rm_watch_def handle_enter_inotify_rm_watch_def
  trace_sys_enter_mount_def handle_enter_mount_def trace_sys_enter_move_mount_def
  handle_enter_move_mount_def

lemma meta_rows_ok: "list_all row_ok meta_log_rows"
  unfolding meta_log_rows_def list.pred_inject row_ok_def prod.case
  apply (intro conjI TrueI)
  by (simp_all add: row_simps meta_row_defs cong: option.case_cong if_cong)

subsection \<open>Processes, identities, limits and priorities\<close>

definition proc_log_rows :: "log_row list" where
  "proc_log_rows =
     [(''fork'', trace_sys_enter_fork, [], handle_enter_fork,
       []),
      (''vfork'', trace_sys_enter_vfork, [], handle_enter_vfork,
       []),
      (''execve'', trace_sys_enter_execve, [], handle_enter_execve,
       [(0, Text Str 0)]),
      (''execveat'', trace_sys_enter_execveat, [S32 0 0, S32 1 4], handle_enter_execveat,
       [(0, Number I32 0), (2, Number I32 4), (1, Text Str 1)]),
      (''exit'', trace_sys_enter_exit, [S32 0 0], handle_enter_exit,
       [(0, Number I32 0)]),
      (''exit_group'', trace_sys_enter_exit_group, [S32 0 0], handle_enter_exit_group,
       [(0, Number I32 0)]),
      (''getpid'', trace_sys_enter_getpid, [], handle_enter_getpid,
       []),
      (''getppid'', trace_sys_enter_getppid, [], handle_enter_getppid,
       []),
      (''gettid'', trace_sys_enter_gettid, [], handle_enter_gettid,
       []),
      (''setsid'', trace_sys_enter_setsid, [], handle_enter_setsid,
       []),
      (''setpgid'', trace_sys_enter_setpgid, [U32 0 0, U32 1 1], handle_enter_setpgid,
       [(0, Number Un32 0), (1, Number Un32 1)]),
      (''getpgid'', trace_sys_enter_getpgid, [U32 0 0], handle_enter_getpgid,
       [(0, Number Un32 0)]),
      (''getpgrp'', trace_sys_enter_getpgrp, [], handle_enter_getpgrp,
       []),
      (''setuid'', trace_sys_enter_setuid, [U32 0 0], handle_enter_setuid,
       [(0, Number Un32 0)]),
      (''getuid'', trace_sys_enter_getuid, [], handle_enter_getuid,
       []),
      (''setgid'', trace_sys_enter_setgid, [U32 0 0], handle_enter_setgid,
       [(0, Number Un32 0)]),
      (''getgid'', trace_sys_enter_getgid, [], handle_enter_getgid,
       []),
      (''setresuid'', trace_sys_enter_setresuid, [U32 0 0, U32 1 1, U32 2 2], handle_enter_setresuid,
       [(0, Number Un32 0), (1, Number Un32 1), (2, Number Un32 2)]),
      (''setresgid'', trace_sys_enter_setresgid, [U32 0 0, U32 1 1, U32 2 2], handle_enter_setresgid,
       [(0, Number Un32 0), (1, Number Un32 1), (2, Number Un32 2)]),
      (''setreuid'', trace_sys_enter_setreuid, [U32 0 0, U32 1 1], handle_enter_setreuid,
       [(0, Number Un32 0), (1, Number Un32 1)]),
      (''setregid'', trace_sys_enter_setregid, [U32 0 0, U32 1 1], handle_enter_setregid,
       [(0, Number Un32 0), (1, Number Un32 1)]),
      (''geteuid'', trace_sys_enter_geteuid, [], handle_enter_geteuid,
       []),
      (''getegid'', trace_sys_enter_getegid, [], handle_enter_getegid,
       []),
      (''setgroups'', trace_sys_enter_setgroups, [U64 0 0], handle_enter_setgroups,
       [(0, Number Un64 0)]),
      (''setns'', trace_sys_enter_setns, [S32 0 0, S32 1 1], handle_enter_setns,
       [(0, Number I32 0), (1, Number I32 1)]),
      (''prlimit64'', trace_sys_enter_prlimit, [U32 0 0, S32 0 1], handle_enter_prlimit64,
       [(0, Number Un32 0), (1, Number I32 1)]),
      (''setpriority'', trace_sys_enter_setpriority, [S32 0 0, U32 0 1, S32 1 2], handle_enter_setpriority,
       [(0, Number I32 0), (1, Number Un32 1), (2, Number I32 2)]),
      (''getpriority'', trace_sys_enter_getpriority, [S32 0 0, U32 0 1], handle_enter_getpriority,
       [(0, Number I32 0), (1, Number Un32 1)]),
      (''ioprio_set'', trace_sys_enter_ioprio_set, [S32 0 0, S32 1 1, S32 2 2], handle_enter_ioprio_set,
       [(0, Number I32 0), (1, Number I32 1), (2, Number I32 2)]),
      (''ioprio_get'', trace_sys_enter_ioprio_get, [S32 0 0, S32 1 1], handle_enter_ioprio_get,
       [(0, Number I32 0), (1, Number I32 1)])]"

lemmas proc_row_defs =
  trace_sys_enter_fork_def handle_enter_fork_def trace_sys_enter_vfork_def
  handle_enter_vfork_def trace_sys_enter_execve_def handle_enter_execve_def
  trace_sys_enter_execveat_def handle_enter_execveat_def trace_sys_enter_exit_def
  handle_enter_exit_def trace_sys_enter_exit_group_def handle_enter_exit_group_def
  trace_sys_enter_getpid_def handle_enter_getpid_def trace_sys_enter_getppid_def
  handle_enter_getppid_def trace_sys_enter_gettid_def handle_enter_gettid_def
  trace_sys_enter_setsid_def handle_enter_setsid_def trace_sys_enter_setpgid_def
  handle_enter_setpgid_def trace_sys_enter_getpgid_def handle_enter_getpgid_def
  trace_sys_enter_getpgrp_def handle_enter_getpgrp_def trace_sys_enter_setuid_def
  handle_enter_setuid_def trace_sys_enter_getuid_def handle_enter_getuid_def
  trace_sys_enter_setgid_def handle_enter_setgid_def trace_sys_enter_getgid_def
  handle_enter_getgid_def trace_sys_enter_setresuid_def handle_enter_setresuid_def
  trace_sys_enter_setresgid_def handle_enter_setresgid_def trace_sys_enter_setreuid_def
  handle_enter_setreuid_def trace_sys_enter_setregid_def handle_enter_setregid_def
  trace_sys_enter_geteuid_def handle_enter_geteuid_def trace_sys_enter_getegid_def
  handle_enter_getegid_def trace_sys_enter_setgroups_def handle_enter_setgroups_def
  trace_sys_enter_setns_def handle_enter_setns_def trace_sys_enter_prlimit_def
  handle_enter_prlimit64_def trace_sys_enter_setpriority_def handle_enter_setpriority_def
  trace_sys_enter_getpriority_def handle_enter_getpriority_def trace_sys_enter_ioprio_set_def
  handle_enter_ioprio_set_def trace_sys_enter_ioprio_get_def handle_enter_ioprio_get_def

lemma proc_rows_ok: "list_all row_ok proc_log_rows"
  unfolding proc_log_rows_def list.pred_inject row_ok_def prod.case
  apply (intro conjI TrueI)
  by (simp_all add: row_simps proc_row_defs cong: option.case_cong if_cong)

subsection \<open>Memory, capabilities, modules, signals and scheduling\<close>

definition mem_log_rows :: "log_row list" where
  "mem_log_rows =
     [(''mprotect'', trace_sys_enter_mprotect, [U64 0 1, S32 0 2], handle_enter_mprotect,
       [(0, Number Un64 1), (1, Number I32 2)]),
      (''ptrace'', trace_sys_enter_ptrace, [S32 0 0, U32 0 1], handle_enter_ptrace,
       [(0, Number I32 0), (1, Number Un32 1)]),
      (''process_vm_readv'', trace_sys_enter_process_vm_readv, [U32 0 0, U64 0 2, U64 1 4, U64 2 5], handle_enter_process_vm_readv,
       [(0, Number Un32 0), (1, Number Un64 2), (2, Number Un64 4), (3, Number Un64 5)]),
      (''finit_module'', trace_sys_enter_finit_module, [S32 0 0, S32 1 2], handle_enter_finit_module,
       [(0, Number I32 0), (2, Number I32 2), (1, Text Str 1)]),
      (''mremap'', trace_sys_enter_mremap, [U64 0 0, U64 1 1, U64 2 2, S32 0 3, U64 3 4], handle_enter_mremap,
       [(0, Number Un64 0), (1, Number Un64 1), (2, Number Un64 2), (3, Number I32 3), (4, Number Un64 4)]),
      (''madvise'', trace_sys_enter_madvise, [U64 0 0, U64 1 1, S32 0 2], handle_enter_madvise,
       [(0, Number Un64 0), (1, Number Un64 1), (2, Number I32 2)]),
      (''mlock'', trace_sys_enter_mlock, [U64 0 0, U64 1 1], handle_enter_mlock,
       [(0, Number Un64 0), (1, Number Un64 1)]),
      (''munlock'', trace_sys_enter_munlock, [U64 0 0, U64 1 1], handle_enter_munlock,
       [(0, Number Un64 0), (1, Number Un64 1)]),
      (''mlockall'', trace_sys_enter_mlockall, [S32 0 0], handle_enter_mlockall,
       [(0, Number I32 0)]),
      (''munlockall'', trace_sys_enter_munlockall, [], handle_enter_munlockall,
       []),
      (''prctl'', trace_sys_enter_prctl, [S32 0 0], handle_enter_prctl,
       [(0, Number I32 0)]),
      (''arch_prctl'', trace_sys_enter_arch_prctl, [S32 0 0, U64 0 1], handle_enter_arch_prctl,
       [(0, Number I32 0), (1, Number Un64 1)]),
      (''kill'', trace_sys_enter_kill, [U32 0 0, S32 0 1], handle_enter_kill,
       [(0, Number Un32 0), (1, Number I32 1)]),
      (''tgkill'', trace_sys_enter_tgkill, [U32 0 0, U32 1 1, S32 0 2], handle_enter_tgkill,
       [(0, Number Un32 0), (1, Number Un32 1), (2, Number I32 2)]),
      (''brk'', trace_sys_enter_brk, [U64 0 0], handle_enter_brk,
       [(0, Number Un64 0)])]"

lemmas mem_row_defs =
  trace_sys_enter_mprotect_def handle_enter_mprotect_def trace_sys_enter_ptrace_def
  handle_enter_ptrace_def trace_sys_enter_process_vm_readv_def
  handle_enter_process_vm_readv_def trace_sys_enter_finit_module_def
  handle_enter_finit_module_def trace_sys_enter_mremap_def handle_enter_mremap_def
  trace_sys_enter_madvise_def handle_enter_madvise_def trace_sys_enter_mlock_def
  handle_enter_mlock_def trace_sys_enter_munlock_def handle_enter_munlock_def
  trace_sys_enter_mlockall_def handle_enter_mlockall_def trace_sys_enter_munlockall_def
  handle_enter_munlockall_def trace_sys_enter_prctl_def handle_enter_prctl_def
  trace_sys_enter_arch_prctl_def handle_enter_arch_prctl_def trace_sys_enter_kill_def
  handle_enter_kill_def trace_sys_enter_tgkill_def handle_enter_tgkill_def
  trace_sys_enter_brk_def handle_enter_brk_def

lemma mem_rows_ok: "list_all row_ok mem_log_rows"
  unfolding mem_log_rows_def list.pred_inject row_ok_def prod.case
  apply (intro conjI TrueI)
  by (simp_all add: row_simps mem_row_defs cong: option.case_cong if_cong)

subsection \<open>Columns never written\<close>

text \<open>
  Columns whose handler reads a slot that the program does not fill: for each the program, its
  slots and strings, the handler, the column and what of the old memory it prints.
\<close>

type_synonym stale_row =
  "string \<times> enter_program \<times> slot list \<times> (text_field \<times> nat) list \<times> handler \<times> nat \<times> (event_t \<Rightarrow> string)"

definition stale_rows :: "stale_row list" where
  "stale_rows =
     [(''recvmmsg'', trace_sys_enter_recvmmsg, [S32 0 0, U32 0 2, S32 1 3], [],
       handle_enter_recvmmsg, 1, \<lambda>e. str_u64 (arg_u64 e 0)),
      (''sendmmsg'', trace_sys_enter_sendmmsg, [S32 0 0, U32 0 2, S32 1 3], [],
       handle_enter_sendmmsg, 1, \<lambda>e. str_u64 (arg_u64 e 0)),
      (''openat'', trace_sys_enter_openat, [S32 0 0, S32 1 2, U32 0 3], [(Str, 1)],
       handle_enter_openat, 3, \<lambda>e. str_u32 (arg_u32 e 1)),
      (''renameat2'', trace_sys_enter_renameat2, [S32 0 0, S32 1 2, U32 0 4], [(Str, 1), (Str2, 3)],
       handle_enter_renameat2, 2, \<lambda>e. str_s32 (arg_s32 e 2)),
      (''renameat2'', trace_sys_enter_renameat2, [S32 0 0, S32 1 2, U32 0 4], [(Str, 1), (Str2, 3)],
       handle_enter_renameat2, 4, \<lambda>e. str_u64 (arg_u64 e 0)),
      (''linkat'', trace_sys_enter_linkat, [S32 0 0, S32 1 2, S32 2 4], [(Str, 1), (Str2, 3)],
       handle_enter_linkat, 4, \<lambda>e. str_u32 (arg_u32 e 0)),
      (''unlinkat'', trace_sys_enter_unlinkat, [S32 0 0, S32 1 2], [(Str, 1)],
       handle_enter_unlinkat, 2, \<lambda>e. str_u32 (arg_u32 e 0)),
      (''statx'', trace_sys_enter_statx, [S32 0 0, S32 1 2, U32 0 3], [(Str, 1)],
       handle_enter_statx, 3, \<lambda>e. str_u32 (arg_u32 e 1)),
      (''access'', trace_sys_enter_access, [S32 0 1], [(Str, 0)],
       handle_enter_access, 1, \<lambda>e. str_u32 (arg_u32 e 0)),
      (''pwritev2'', trace_sys_enter_pwritev2, [S32 0 0, S32 1 2, U64 0 3, S32 2 4], [],
       handle_enter_pwritev2, 2, \<lambda>e. str_s64 (arg_s64 e 0)),
      (''fanotify_init'', trace_sys_enter_fanotify_init, [U32 0 0, U32 1 1], [],
       handle_enter_fanotify_init, 0, \<lambda>e. str_s32 (arg_s32 e 0)),
      (''fanotify_init'', trace_sys_enter_fanotify_init, [U32 0 0, U32 1 1], [],
       handle_enter_fanotify_init, 1, \<lambda>e. str_s32 (arg_s32 e 1)),
      (''umount'', trace_sys_enter_umount, [S32 0 1], [(Str, 0)],
       handle_enter_umount, 1, \<lambda>e. str_u64 (arg_u64 e 0)),
      (''mmap'', trace_sys_enter_mmap, [U64 0 0, U64 1 1, S32 0 2, S32 3 3, S32 4 4, U64 2 5], [],
       handle_enter_mmap, 3, \<lambda>e. str_s32 (arg_s32 e 1)),
      (''mmap'', trace_sys_enter_mmap, [U64 0 0, U64 1 1, S32 0 2, S32 3 3, S32 4 4, U64 2 5], [],
       handle_enter_mmap, 4, \<lambda>e. str_s32 (arg_s32 e 2)),
      (''delete_module'', trace_sys_enter_delete_module, [U32 0 1], [(Str, 0)],
       handle_enter_delete_module, 1, \<lambda>e. str_s32 (arg_s32 e 0)),
      (''mlock2'', trace_sys_enter_mlock2, [U64 0 0, U64 1 1, U32 0 2], [],
       handle_enter_mlock2, 2, \<lambda>e. str_s32 (arg_s32 e 0))]"

lemmas stale_row_defs =
  trace_sys_enter_recvmmsg_def handle_enter_recvmmsg_def trace_sys_enter_sendmmsg_def
  handle_enter_sendmmsg_def trace_sys_enter_openat_def handle_enter_openat_def
  trace_sys_enter_renameat2_def handle_enter_renameat2_def trace_sys_enter_linkat_def
  handle_enter_linkat_def trace_sys_enter_unlinkat_def handle_enter_unlinkat_def
  trace_sys_enter_statx_def handle_enter_statx_def trace_sys_enter_access_def
  handle_enter_access_def trace_sys_enter_pwritev2_def handle_enter_pwritev2_def
  trace_sys_enter_fanotify_init_def handle_enter_fanotify_init_def trace_sys_enter_umount_def
  handle_enter_umount_def trace_sys_enter_mmap_def handle_enter_mmap_def
  trace_sys_enter_delete_module_def handle_enter_delete_module_def trace_sys_enter_mlock2_def
  handle_enter_mlock2_def

lemma stale_rows_shape:
  "list_all (\<lambda>(n, p, slots, texts, h, j, f). p = described_program slots texts \<and> stale_column slots h j f)
     stale_rows"
  unfolding stale_rows_def list.pred_inject prod.case
  apply (intro conjI TrueI)
  by (simp_all add: row_simps stale_column_def stale_row_defs cong: option.case_cong if_cong)

lemma stale_rows_print:
  "list_all (\<lambda>(n, p, slots, texts, h, j, f). prints_stale p h j f) stale_rows"
  using stale_rows_shape prints_stale_described by (auto simp: list_all_iff)

subsection \<open>All rows\<close>

definition log_rows :: "log_row list" where
  "log_rows = net_log_rows @ file_log_rows @ meta_log_rows @ proc_log_rows @ mem_log_rows"

lemma log_rows_ok: "list_all row_ok log_rows"
  by (simp add: log_rows_def net_rows_ok file_rows_ok meta_rows_ok proc_rows_ok mem_rows_ok)

lemma log_rows_faithful: "list_all (\<lambda>(n, p, slots, h, sig). faithful p h sig) log_rows"
  using log_rows_ok faithful_described by (auto simp: list_all_iff row_ok_def)

lemma log_rows_count: "length log_rows = 111" "length stale_rows = 17"
  by (simp_all add: log_rows_def net_log_rows_def file_log_rows_def meta_log_rows_def
      proc_log_rows_def mem_log_rows_def stale_rows_def)

subsection \<open>Columns that show another argument\<close>

text \<open>
  Rows that hold of the code as it is, and not of what the handlers' comments say: \<open>openat\<close> prints
  the flags (argument 2) as directory descriptor and the mode (argument 3) as flags, \<open>renameat2\<close>
  prints the new directory (argument 2) as the old one, \<open>tkill\<close> prints the register after the
  signal (argument 2), \<open>preadv2\<close> and \<open>pwritev2\<close> print the high half of the position
  (argument 4) as flags.
\<close>

definition misplaced_rows :: "log_row list" where
  "misplaced_rows =
     [(''openat'', trace_sys_enter_openat, [S32 0 0, S32 1 2, U32 0 3], handle_enter_openat,
       [(0, Number I32 2), (1, Text Str 1), (2, Number Un32 3)]),
      (''renameat2'', trace_sys_enter_renameat2, [S32 0 0, S32 1 2, U32 0 4], handle_enter_renameat2,
       [(0, Number I32 2), (1, Text Str 1), (3, Text Str2 3)]),
      (''tkill'', trace_sys_enter_tkill, [U32 0 0, S32 0 2], handle_enter_tkill,
       [(0, Number Un32 0), (1, Number I32 2)]),
      (''preadv2'', trace_sys_enter_preadv2, [S32 0 0, S32 1 2, S64 0 3, S32 2 4], handle_enter_preadv2,
       [(0, Number I32 0), (1, Number I32 2), (2, Number I64 3), (3, Number I32 4)]),
      (''pwritev2'', trace_sys_enter_pwritev2, [S32 0 0, S32 1 2, U64 0 3, S32 2 4], handle_enter_pwritev2,
       [(0, Number I32 0), (1, Number I32 2), (3, Number I32 4)])]"

lemmas misplaced_row_defs =
  trace_sys_enter_openat_def handle_enter_openat_def trace_sys_enter_renameat2_def
  handle_enter_renameat2_def trace_sys_enter_tkill_def handle_enter_tkill_def
  trace_sys_enter_preadv2_def handle_enter_preadv2_def trace_sys_enter_pwritev2_def
  handle_enter_pwritev2_def

lemma misplaced_rows_ok: "list_all row_ok misplaced_rows"
  unfolding misplaced_rows_def list.pred_inject row_ok_def prod.case
  apply (intro conjI TrueI)
  by (simp_all add: row_simps misplaced_row_defs cong: option.case_cong if_cong)

lemma misplaced_rows_faithful: "list_all (\<lambda>(n, p, slots, h, sig). faithful p h sig) misplaced_rows"
  using misplaced_rows_ok faithful_described by (auto simp: list_all_iff row_ok_def)

end
