(* ===== verification/Trace_Dispatch.thy ===== *)
theory Trace_Dispatch
  imports Trace_Log
begin

section \<open>Dispatch of records to handlers\<close>

text \<open>
  \<open>init_event_handlers\<close> and \<open>handle_event\<close> of \<open>handler.cpp\<close>.  The handler array is indexed by the
  numbers \<open>__NR_socket\<close> and so on of the platform's header, here a function \<open>nr\<close> of the name; an
  event id outside the array is undefined behaviour in the code and no handler here.
\<close>

definition event_handlers :: "(string \<times> handler \<times> handler) list" where
  "event_handlers = net_handlers @ file_handlers @ meta_handlers @ proc_handlers @ mem_handlers"

definition handle_event :: "(string \<Rightarrow> s32) \<Rightarrow> log_env \<Rightarrow> event_t \<Rightarrow> db_event option" where
  "handle_event nr env e =
     (let base_event = get_str env (ev_task e) in
      case find (\<lambda>(n, h_enter, h_exit). nr n = ct_event_id (ev_task e)) (rev event_handlers) of
        None \<Rightarrow> None
      | Some (n, h_enter, h_exit) \<Rightarrow>
          (if is_enter e then h_enter else h_exit) env e (base_event\<lparr>db_is_enter := is_enter e\<rparr>))"

lemmas handler_tables = event_handlers_def net_handlers_def file_handlers_def meta_handlers_def
  proc_handlers_def mem_handlers_def

lemma event_handlers_distinct: "distinct (map fst event_handlers)"
  by (simp add: handler_tables)

lemma event_handlers_count: "length event_handlers = 164"
  by (simp add: handler_tables)

lemma find_by_number:
  assumes "distinct (map fst xs)" and "inj_on nr (fst ` set xs)" and "(n, y) \<in> set xs"
  shows "find (\<lambda>(n', y). nr n' = nr n) xs = Some (n, y)"
  using assms
proof (induction xs)
  case (Cons x xs)
  obtain n' y' where x: "x = (n', y')" by (cases x)
  show ?case
  proof (cases "n' = n")
    case True
    with Cons.prems show ?thesis by (auto simp: x rev_image_eqI)
  next
    case False
    with Cons.prems have "nr n' \<noteq> nr n"
      by (auto simp: x inj_on_def)
    with Cons False show ?thesis by (auto simp: x inj_on_def)
  qed
qed simp

text \<open>With distinct numbers, a record goes to the handlers registered for its number.\<close>

lemma handle_event_dispatch:
  assumes "(n, he, hx) \<in> set event_handlers" and "inj_on nr (fst ` set event_handlers)"
    and "ct_event_id (ev_task e) = nr n"
  shows "handle_event nr env e = (if is_enter e then he else hx) env e
    ((get_str env (ev_task e))\<lparr>db_is_enter := is_enter e\<rparr>)"
proof -
  have "find (\<lambda>(n', y). nr n' = nr n) (rev event_handlers) = Some (n, he, hx)"
    by (rule find_by_number) (use assms event_handlers_distinct in \<open>simp_all add: rev_map [symmetric]\<close>)
  then have "find (\<lambda>(n', he, hx). nr n' = nr n) (rev event_handlers) = Some (n, he, hx)"
    by (simp add: case_prod_unfold)
  with assms(3) show ?thesis by (simp add: handle_event_def Let_def)
qed

subsection \<open>All handlers\<close>

lemmas handler_defs =
  handle_enter_socket_def handle_exit_socket_def handle_enter_socketpair_def
  handle_exit_socketpair_def handle_enter_setsockopt_def handle_exit_setsockopt_def
  handle_enter_getsockopt_def handle_exit_getsockopt_def handle_enter_getsockname_def
  handle_exit_getsockname_def handle_enter_getpeername_def handle_exit_getpeername_def
  handle_enter_bind_def handle_exit_bind_def handle_enter_listen_def handle_exit_listen_def
  handle_enter_accept_def handle_exit_accept_def handle_enter_accept4_def
  handle_exit_accept4_def handle_enter_connect_def handle_exit_connect_def
  handle_enter_shutdown_def handle_exit_shutdown_def handle_enter_recvfrom_def
  handle_exit_recvfrom_def handle_enter_recvmsg_def handle_exit_recvmsg_def
  handle_enter_recvmmsg_def handle_exit_recvmmsg_def handle_enter_sendto_def
  handle_exit_sendto_def handle_enter_sendmsg_def handle_exit_sendmsg_def
  handle_enter_sendmmsg_def handle_exit_sendmmsg_def handle_enter_sethostname_def
  handle_exit_sethostname_def handle_enter_setdomainname_def handle_exit_setdomainname_def
  handle_enter_ioctl_def handle_exit_ioctl_def handle_enter_close_def handle_exit_close_def
  handle_enter_creat_def handle_exit_creat_def handle_enter_open_def handle_exit_open_def
  handle_enter_openat_def handle_exit_openat_def handle_enter_openat2_def
  handle_exit_openat2_def handle_enter_memfd_create_def handle_exit_memfd_create_def
  handle_enter_mknod_def handle_exit_mknod_def handle_enter_mknodat_def handle_exit_mknodat_def
  handle_enter_rename_def handle_exit_rename_def handle_enter_renameat_def
  handle_exit_renameat_def handle_enter_renameat2_def handle_exit_renameat2_def
  handle_enter_truncate_def handle_exit_truncate_def handle_enter_ftruncate_def
  handle_exit_ftruncate_def handle_enter_fallocate_def handle_exit_fallocate_def
  handle_enter_mkdir_def handle_exit_mkdir_def handle_enter_mkdirat_def handle_exit_mkdirat_def
  handle_enter_rmdir_def handle_exit_rmdir_def handle_enter_getcwd_def handle_exit_getcwd_def
  handle_enter_chdir_def handle_exit_chdir_def handle_enter_fchdir_def handle_exit_fchdir_def
  handle_enter_chroot_def handle_exit_chroot_def handle_enter_pivot_root_def
  handle_exit_pivot_root_def handle_enter_getdents_def handle_exit_getdents_def
  handle_enter_getdents64_def handle_exit_getdents64_def handle_enter_link_def
  handle_exit_link_def handle_enter_linkat_def handle_exit_linkat_def handle_enter_symlink_def
  handle_exit_symlink_def handle_enter_symlinkat_def handle_exit_symlinkat_def
  handle_enter_unlink_def handle_exit_unlink_def handle_enter_unlinkat_def
  handle_exit_unlinkat_def handle_enter_readlink_def handle_exit_readlink_def
  handle_enter_readlinkat_def handle_exit_readlinkat_def handle_enter_umask_def
  handle_exit_umask_def handle_enter_newstat_def handle_exit_newstat_def
  handle_enter_newlstat_def handle_exit_newlstat_def handle_enter_newfstat_def
  handle_exit_newfstat_def handle_enter_newfstatat_def handle_exit_newfstatat_def
  handle_enter_statx_def handle_exit_statx_def handle_enter_statfs_def handle_exit_statfs_def
  handle_enter_fstatfs_def handle_exit_fstatfs_def handle_enter_chmod_def handle_exit_chmod_def
  handle_enter_fchmod_def handle_exit_fchmod_def handle_enter_fchmodat_def
  handle_exit_fchmodat_def handle_enter_chown_def handle_exit_chown_def handle_enter_lchown_def
  handle_exit_lchown_def handle_enter_fchown_def handle_exit_fchown_def
  handle_enter_fchownat_def handle_exit_fchownat_def handle_enter_access_def
  handle_exit_access_def handle_enter_faccessat_def handle_exit_faccessat_def
  handle_enter_fcntl_def handle_exit_fcntl_def handle_enter_dup_def handle_exit_dup_def
  handle_enter_dup2_def handle_exit_dup2_def handle_enter_dup3_def handle_exit_dup3_def
  handle_enter_flock_def handle_exit_flock_def handle_enter_read_def handle_exit_read_def
  handle_enter_pread64_def handle_exit_pread64_def handle_enter_readv_def handle_exit_readv_def
  handle_enter_preadv_def handle_exit_preadv_def handle_enter_preadv2_def
  handle_exit_preadv2_def handle_enter_write_def handle_exit_write_def
  handle_enter_pwrite64_def handle_exit_pwrite64_def handle_enter_writev_def
  handle_exit_writev_def handle_enter_pwritev_def handle_exit_pwritev_def
  handle_enter_pwritev2_def handle_exit_pwritev2_def handle_enter_lseek_def
  handle_exit_lseek_def handle_enter_sendfile64_def handle_exit_sendfile64_def
  handle_enter_inotify_init_def handle_exit_inotify_init_def handle_enter_inotify_init1_def
  handle_exit_inotify_init1_def handle_enter_inotify_add_watch_def
  handle_exit_inotify_add_watch_def handle_enter_inotify_rm_watch_def
  handle_exit_inotify_rm_watch_def handle_enter_fanotify_init_def handle_exit_fanotify_init_def
  handle_enter_fanotify_mark_def handle_exit_fanotify_mark_def handle_enter_mount_def
  handle_exit_mount_def handle_enter_umount_def handle_exit_umount_def
  handle_enter_move_mount_def handle_exit_move_mount_def handle_enter_clone_def
  handle_exit_clone_def handle_enter_clone3_def handle_exit_clone3_def handle_enter_fork_def
  handle_exit_fork_def handle_enter_vfork_def handle_exit_vfork_def handle_enter_execve_def
  handle_exit_execve_def handle_enter_execveat_def handle_exit_execveat_def
  handle_enter_exit_def handle_exit_exit_def handle_enter_exit_group_def
  handle_exit_exit_group_def handle_enter_wait4_def handle_exit_wait4_def
  handle_enter_waitid_def handle_exit_waitid_def handle_enter_getpid_def handle_exit_getpid_def
  handle_enter_getppid_def handle_exit_getppid_def handle_enter_gettid_def
  handle_exit_gettid_def handle_enter_setsid_def handle_exit_setsid_def handle_enter_getsid_def
  handle_exit_getsid_def handle_enter_setpgid_def handle_exit_setpgid_def
  handle_enter_getpgid_def handle_exit_getpgid_def handle_enter_getpgrp_def
  handle_exit_getpgrp_def handle_enter_setuid_def handle_exit_setuid_def
  handle_enter_getuid_def handle_exit_getuid_def handle_enter_setgid_def handle_exit_setgid_def
  handle_enter_getgid_def handle_exit_getgid_def handle_enter_setresuid_def
  handle_exit_setresuid_def handle_enter_getresuid_def handle_exit_getresuid_def
  handle_enter_setresgid_def handle_exit_setresgid_def handle_enter_getresgid_def
  handle_exit_getresgid_def handle_enter_setreuid_def handle_exit_setreuid_def
  handle_enter_setregid_def handle_exit_setregid_def handle_enter_geteuid_def
  handle_exit_geteuid_def handle_enter_getegid_def handle_exit_getegid_def
  handle_enter_setgroups_def handle_exit_setgroups_def handle_enter_getgroups_def
  handle_exit_getgroups_def handle_enter_setns_def handle_exit_setns_def
  handle_enter_setrlimit_def handle_exit_setrlimit_def handle_enter_getrlimit_def
  handle_exit_getrlimit_def handle_enter_prlimit64_def handle_exit_prlimit64_def
  handle_enter_getrusage_def handle_exit_getrusage_def handle_enter_setpriority_def
  handle_exit_setpriority_def handle_enter_getpriority_def handle_exit_getpriority_def
  handle_enter_ioprio_set_def handle_exit_ioprio_set_def handle_enter_ioprio_get_def
  handle_exit_ioprio_get_def handle_enter_mmap_def handle_exit_mmap_def
  handle_enter_mprotect_def handle_exit_mprotect_def handle_enter_capset_def
  handle_exit_capset_def handle_enter_ptrace_def handle_exit_ptrace_def
  handle_enter_process_vm_readv_def handle_exit_process_vm_readv_def
  handle_enter_process_vm_writev_def handle_exit_process_vm_writev_def
  handle_enter_init_module_def handle_exit_init_module_def handle_enter_finit_module_def
  handle_exit_finit_module_def handle_enter_delete_module_def handle_exit_delete_module_def
  handle_enter_munmap_def handle_exit_munmap_def handle_enter_mremap_def handle_exit_mremap_def
  handle_enter_madvise_def handle_exit_madvise_def handle_enter_mlock_def handle_exit_mlock_def
  handle_enter_mlock2_def handle_exit_mlock2_def handle_enter_munlock_def
  handle_exit_munlock_def handle_enter_mlockall_def handle_exit_mlockall_def
  handle_enter_munlockall_def handle_exit_munlockall_def handle_enter_capget_def
  handle_exit_capget_def handle_enter_prctl_def handle_exit_prctl_def
  handle_enter_arch_prctl_def handle_exit_arch_prctl_def handle_enter_kill_def
  handle_exit_kill_def handle_enter_tkill_def handle_exit_tkill_def handle_enter_tgkill_def
  handle_exit_tgkill_def handle_enter_brk_def handle_exit_brk_def
  handle_enter_sched_setscheduler_def handle_exit_sched_setscheduler_def
  handle_enter_sched_setaffinity_def handle_exit_sched_setaffinity_def handle_enter_sysinfo_def
  handle_exit_sysinfo_def

text \<open>No handler alters the identity columns of the base line.\<close>

definition same_identity :: "db_event \<Rightarrow> db_event \<Rightarrow> bool" where
  "same_identity b d \<longleftrightarrow>
     db_timestamp d = db_timestamp b \<and> db_container_name d = db_container_name b \<and>
     db_syscall d = db_syscall b \<and> db_is_enter d = db_is_enter b \<and>
     db_pid_namespace d = db_pid_namespace b \<and> db_mnt_namespace d = db_mnt_namespace b \<and>
     db_ppid d = db_ppid b \<and> db_pid d = db_pid b \<and> db_tid d = db_tid b \<and> db_uid d = db_uid b \<and>
     db_gid d = db_gid b \<and> db_comm d = db_comm b"

definition keeps_identity :: "handler \<Rightarrow> bool" where
  "keeps_identity h \<longleftrightarrow> (\<forall>env e b d. h env e b = Some d \<longrightarrow> same_identity b d)"

text \<open>The handlers that return without \<open>add_event\<close>.\<close>

definition silent :: "handler \<Rightarrow> bool" where
  "silent h \<longleftrightarrow> (\<forall>env e b. h env e b = None)"

definition logging :: "handler \<Rightarrow> bool" where
  "logging h \<longleftrightarrow> (\<forall>env e b. h env e b \<noteq> None)"

definition silent_enter :: "string list" where
  "silent_enter = [''clone'', ''getgroups'', ''getrusage'', ''process_vm_writev'', ''munmap'']"

definition silent_exit :: "string list" where
  "silent_exit = [''getrlimit'']"

lemma net_handlers_keep_identity:
  "list_all (\<lambda>(n, he, hx). keeps_identity he \<and> keeps_identity hx) net_handlers"
  by (simp add: net_handlers_def handler_defs keeps_identity_def same_identity_def Let_def)

lemma net_handlers_silent:
  "list_all (\<lambda>(n, he, hx).
     (if n \<in> set silent_enter then silent he else logging he) \<and>
     (if n \<in> set silent_exit then silent hx else logging hx)) net_handlers"
  by (simp add: net_handlers_def silent_enter_def silent_exit_def handler_defs silent_def logging_def Let_def)

lemma file_handlers_keep_identity:
  "list_all (\<lambda>(n, he, hx). keeps_identity he \<and> keeps_identity hx) file_handlers"
  by (simp add: file_handlers_def handler_defs keeps_identity_def same_identity_def Let_def)

lemma file_handlers_silent:
  "list_all (\<lambda>(n, he, hx).
     (if n \<in> set silent_enter then silent he else logging he) \<and>
     (if n \<in> set silent_exit then silent hx else logging hx)) file_handlers"
  by (simp add: file_handlers_def silent_enter_def silent_exit_def handler_defs silent_def logging_def Let_def)

lemma meta_handlers_keep_identity:
  "list_all (\<lambda>(n, he, hx). keeps_identity he \<and> keeps_identity hx) meta_handlers"
  by (simp add: meta_handlers_def handler_defs keeps_identity_def same_identity_def Let_def)

lemma meta_handlers_silent:
  "list_all (\<lambda>(n, he, hx).
     (if n \<in> set silent_enter then silent he else logging he) \<and>
     (if n \<in> set silent_exit then silent hx else logging hx)) meta_handlers"
  by (simp add: meta_handlers_def silent_enter_def silent_exit_def handler_defs silent_def logging_def Let_def)

lemma proc_handlers_keep_identity:
  "list_all (\<lambda>(n, he, hx). keeps_identity he \<and> keeps_identity hx) proc_handlers"
  by (simp add: proc_handlers_def handler_defs keeps_identity_def same_identity_def Let_def)

lemma proc_handlers_silent:
  "list_all (\<lambda>(n, he, hx).
     (if n \<in> set silent_enter then silent he else logging he) \<and>
     (if n \<in> set silent_exit then silent hx else logging hx)) proc_handlers"
  by (simp add: proc_handlers_def silent_enter_def silent_exit_def handler_defs silent_def logging_def Let_def)

lemma mem_handlers_keep_identity:
  "list_all (\<lambda>(n, he, hx). keeps_identity he \<and> keeps_identity hx) mem_handlers"
  by (simp add: mem_handlers_def handler_defs keeps_identity_def same_identity_def Let_def)

lemma mem_handlers_silent:
  "list_all (\<lambda>(n, he, hx).
     (if n \<in> set silent_enter then silent he else logging he) \<and>
     (if n \<in> set silent_exit then silent hx else logging hx)) mem_handlers"
  by (simp add: mem_handlers_def silent_enter_def silent_exit_def handler_defs silent_def logging_def Let_def)

lemma event_handlers_keep_identity:
  "list_all (\<lambda>(n, he, hx). keeps_identity he \<and> keeps_identity hx) event_handlers"
  by (simp add: event_handlers_def net_handlers_keep_identity file_handlers_keep_identity
      meta_handlers_keep_identity proc_handlers_keep_identity mem_handlers_keep_identity)

lemma event_handlers_silent:
  "list_all (\<lambda>(n, he, hx).
     (if n \<in> set silent_enter then silent he else logging he) \<and>
     (if n \<in> set silent_exit then silent hx else logging hx)) event_handlers"
  by (simp add: event_handlers_def net_handlers_silent file_handlers_silent
      meta_handlers_silent proc_handlers_silent mem_handlers_silent)

subsection \<open>From an activation to its log line\<close>

text \<open>The line identifies the task of the activation: what \<open>get_str\<close> takes from the snapshot.\<close>

definition identifies :: "log_env \<Rightarrow> kernel \<Rightarrow> s32 \<Rightarrow> bool \<Rightarrow> db_event \<Rightarrow> bool" where
  "identifies env K ev enter d \<longleftrightarrow>
     (\<exists>ts. same_identity ((get_str env (task_snapshot K ev ts))\<lparr>db_is_enter := enter\<rparr>) d)"

lemma get_str_count [simp]: "get_str env (t\<lparr>ct_count := c\<rparr>) = get_str env t"
  by (simp add: get_str_def)

lemma handler_kept:
  "(n, he, hx) \<in> set event_handlers \<Longrightarrow> (if b then he else hx) env e base = Some d \<Longrightarrow>
   same_identity base d"
  using event_handlers_keep_identity by (auto simp: list_all_iff keeps_identity_def split: if_splits)

lemma record_line:
  assumes reg: "(n, he, hx) \<in> set event_handlers" and nr: "inj_on nr (fst ` set event_handlers)"
    and task: "cur_task K \<noteq> None" and rec: "record_of K b (nr n) c e"
    and line: "(if b then he else hx) env e ((get_str env (ev_task e))\<lparr>db_is_enter := b\<rparr>) = Some d"
  shows "handle_event nr env e = Some d \<and> identifies env K (nr n) b d"
proof -
  from rec obtain ts where b: "is_enter e = b" and t: "ev_task e = (task_snapshot K (nr n) ts)\<lparr>ct_count := c\<rparr>"
    by (auto simp: record_of_def)
  have "ct_event_id (ev_task e) = nr n" using task by (auto simp: t snapshot_event_id)
  from handle_event_dispatch [OF reg nr this] line have "handle_event nr env e = Some d"
    by (simp add: b)
  moreover have "identifies env K (nr n) b d"
    using handler_kept [OF reg line] by (auto simp: identifies_def t)
  ultimately show ?thesis ..
qed

lemma described_record_of:
  assumes "rb (exec_state (described_program slots texts K ctx) s) = rb s @ [e]"
  shows "record_of K True (ucast (enter_id ctx)) (count s + 1) e"
proof -
  have slots: "ev_task (fill_slots ctx slots r) = ev_task r \<and> is_enter (fill_slots ctx slots r) = is_enter r"
    for r
  proof (induction slots arbitrary: r)
    case (Cons sl slots)
    then show ?case by (cases sl) simp_all
  qed simp
  from assms show ?thesis
  proof (rule described_record)
    fix e0 t s0
    assume t: "t = (task_snapshot K (ucast (enter_id ctx)) (ktime_ns K (calls s)))\<lparr>ct_count := count s + 1\<rparr>"
      and "fst (run_state (texts_part K ctx texts
        (fill_slots ctx slots (e0\<lparr>ev_task := t, is_enter := True\<rparr>))) s0) = e"
    with texts_part_shape [of K ctx texts] obtain s1 s2 s3 v where
      "e = with_texts s1 s2 s3 v (fill_slots ctx slots (e0\<lparr>ev_task := t, is_enter := True\<rparr>))"
      by metis
    then show ?thesis using slots by (auto simp: record_of_def t with_texts_def)
  qed
qed

text \<open>Entry programs of the table, through the dispatcher.\<close>

lemma logged_call_line:
  assumes row: "(m, p, slots, he, sig) \<in> set log_rows" and reg: "(n, he, hx) \<in> set event_handlers"
    and nr: "inj_on nr (fst ` set event_handlers)" and id: "ucast (enter_id ctx) = nr n"
    and task: "cur_task K \<noteq> None" and mem: "strings_at K ustr"
    and rb: "rb (exec_state (p K ctx) s) = rb s @ [e]"
  shows "\<exists>d. handle_event nr env e = Some d \<and> identifies env K (nr n) True d \<and>
    list_all (\<lambda>(j, x). column j d = expected ustr ctx sig (get_str env (ev_task e)) j x) sig"
proof -
  have "p = described_program slots (texts_of sig)" and f: "faithful p he sig"
    using row log_rows_ok log_rows_faithful by (auto simp: list_all_iff row_ok_def)
  with rb described_record_of have rec: "record_of K True (nr n) (count s + 1) e"
    by (simp add: id [symmetric])
  let ?base = "(get_str env (ev_task e))\<lparr>db_is_enter := True\<rparr>"
  have col: "column j ?base = column j (get_str env (ev_task e))" for j
    by (cases "(j, ?base)" rule: column.cases) simp_all
  from f mem rb obtain d where d: "he env e ?base = Some d"
    and sig: "list_all (\<lambda>(j, x). column j d = expected ustr ctx sig ?base j x) sig"
    unfolding faithful_def by blast
  have exp: "expected ustr ctx sig ?base = expected ustr ctx sig (get_str env (ev_task e))"
    by (auto simp: expected_def col fun_eq_iff split: shown.split)
  from record_line [OF reg nr task rec, of env d] d sig exp show ?thesis by auto
qed

subsection \<open>Exit programs that only report the result\<close>

lemma plain_exit_same:
  "list_all (\<lambda>(n, p). p = trace_sys_exit_socket) plain_exit_programs"
  by (simp add: table_defs net_plain_exit_defs file_plain_exit_defs meta_plain_exit_defs
      proc_plain_exit_defs mem_plain_exit_defs fun_eq_iff Let_def cong: option.case_cong)

text \<open>The other exits are the fourteen that consult an argument map.\<close>

definition map_calls :: "string list" where
  "map_calls = [''socketpair'', ''getsockopt'', ''getsockname'', ''getpeername'', ''accept'', ''accept4'',
     ''recvfrom'', ''recvmsg'', ''getdents'', ''getdents64'', ''getresuid'', ''getresgid'', ''getrlimit'',
     ''capget'']"

lemma exit_handlers_same:
  "list_all (\<lambda>(n, he, hx). n \<in> set map_calls \<or> hx = handle_exit_socket) event_handlers"
  by (simp add: handler_tables map_calls_def handler_defs fun_eq_iff)

lemma run_plain_exit:
  assumes "rb (exec_state (trace_sys_exit_socket K ctx) s) = rb s @ [e]"
  shows "ev_ret e = exit_ret ctx \<and> record_of K False (ucast (exit_id ctx)) (count s + 1) e"
  using assms
  by (auto simp: trace_sys_exit_socket_def exec_state_def run_handle_exit_event bpf_ringbuf_submit_def
      record_of_def split: if_splits option.splits)

lemma exit_line:
  assumes p: "(m, p) \<in> set plain_exit_programs" and reg: "(n, he, hx) \<in> set event_handlers"
    and plain: "n \<notin> set map_calls"
    and nr: "inj_on nr (fst ` set event_handlers)" and id: "ucast (exit_id ctx) = nr n"
    and task: "cur_task K \<noteq> None" and rb: "rb (exec_state (p K ctx) s) = rb s @ [e]"
  shows "\<exists>d. handle_event nr env e = Some d \<and> identifies env K (nr n) False d \<and> db_ret d = exit_ret ctx"
proof -
  have "p = trace_sys_exit_socket" "hx = handle_exit_socket"
    using p reg plain plain_exit_same exit_handlers_same by (auto simp: list_all_iff)
  with rb run_plain_exit have e: "ev_ret e = exit_ret ctx" "record_of K False (nr n) (count s + 1) e"
    by (auto simp: id [symmetric])
  let ?base = "(get_str env (ev_task e))\<lparr>db_is_enter := False\<rparr>"
  have "hx env e ?base = Some (?base\<lparr>db_ret := exit_ret ctx\<rparr>)"
    by (simp add: \<open>hx = _\<close> handle_exit_socket_def e(1))
  with record_line [OF reg nr task e(2), of env] show ?thesis by auto
qed

end
