(* ===== verification/Trace_System.thy ===== *)
theory Trace_System
  imports Trace_Programs
begin

section \<open>Tracepoint monitor: the transition system\<close>

text \<open>
  The monitor as a labelled step relation.  An action is one activation of an attached program
  (with the kernel and the context it sees), the consumer taking the oldest record of the ring
  buffer (\<open>handle_event\<close> under \<open>ring_buffer__poll\<close> in \<open>tracepoint.cpp\<close>), or user space writing a
  container's array with \<open>bpf_map__update_elem\<close>.  The invariants are proved by rule induction
  from the contracts of the programs.
\<close>

subsection \<open>States, actions, steps\<close>

text \<open>\<open>delivered\<close> is the list of records the consumer has received.\<close>

record monitor =
  shared :: tstate
  delivered :: "event_t list"

datatype action =
    Enter string kernel sys_enter_ctx
  | Exit string kernel sys_exit_ctx
  | Consume
  | Set_policy u32 "s32 list"

definition policy_max_entries :: nat where
  "policy_max_entries = 10240"

definition empty_maps :: args_maps where
  "empty_maps = \<lparr>socketpair_args_map = [], getsockopt_args_map = [], getsockname_args_map = [],
     getpeername_args_map = [], accept_args_map = [], accept4_args_map = [], recvfrom_args_map = [],
     recvmsg_args_map = [], getdents_args_map = [], getdents64_args_map = [], resuid_args_map = [],
     resgid_args_map = [], getrlimit_args_map = [], capget_args_map = []\<rparr>"

definition initial :: monitor where
  "initial = \<lparr>shared = \<lparr>count = 0, rb = [], outstanding = 0, calls = 0, syscall_array = [],
     amaps = empty_maps\<rparr>, delivered = []\<rparr>"

inductive step :: "monitor \<Rightarrow> action \<Rightarrow> monitor \<Rightarrow> bool" where
  enter: "(n, p, A) \<in> set enter_programs \<Longrightarrow>
    step m (Enter n K ctx) (m\<lparr>shared := exec_state (p K ctx) (shared m)\<rparr>)"
| exit: "(n, p, A) \<in> set exit_programs \<Longrightarrow>
    step m (Exit n K ctx) (m\<lparr>shared := exec_state (p K ctx) (shared m)\<rparr>)"
| consume: "rb (shared m) = e # es \<Longrightarrow>
    step m Consume (m\<lparr>shared := shared m\<lparr>rb := es\<rparr>, delivered := delivered m @ [e]\<rparr>)"
| set_policy: "length l = 120 \<Longrightarrow>
    step m (Set_policy ns l)
      (m\<lparr>shared := syscall_array_update
           (\<lambda>a. snd (bpf_map_update_elem policy_max_entries ns l a)) (shared m)\<rparr>)"

inductive_simps step_simps [simp]:
  "step m Consume m'" "step m (Set_policy ns l) m'"

inductive_cases enter_stepE: "step m (Enter n K ctx) m'"
inductive_cases exit_stepE: "step m (Exit n K ctx) m'"

text \<open>A run is a sequence of actions, the last one outermost.\<close>

inductive run :: "monitor \<Rightarrow> action list \<Rightarrow> monitor \<Rightarrow> bool" where
  run_nil: "run m [] m"
| run_snoc: "run m as m' \<Longrightarrow> step m' a m'' \<Longrightarrow> run m (as @ [a]) m''"

subsection \<open>What the effects do to the argument maps\<close>

definition maps_ok :: "args_maps \<Rightarrow> bool" where
  "maps_ok a \<longleftrightarrow>
     hmap_ok args_max_entries (socketpair_args_map a) \<and> hmap_ok args_max_entries (getsockopt_args_map a) \<and>
     hmap_ok args_max_entries (getsockname_args_map a) \<and> hmap_ok args_max_entries (getpeername_args_map a) \<and>
     hmap_ok args_max_entries (accept_args_map a) \<and> hmap_ok args_max_entries (accept4_args_map a) \<and>
     hmap_ok args_max_entries (recvfrom_args_map a) \<and> hmap_ok args_max_entries (recvmsg_args_map a) \<and>
     hmap_ok args_max_entries (getdents_args_map a) \<and> hmap_ok args_max_entries (getdents64_args_map a) \<and>
     hmap_ok args_max_entries (resuid_args_map a) \<and> hmap_ok args_max_entries (resgid_args_map a) \<and>
     hmap_ok args_max_entries (getrlimit_args_map a) \<and> hmap_ok args_max_entries (capget_args_map a)"

text \<open>Two contents that hold the same for one thread.\<close>

definition same_entry :: "map_key \<Rightarrow> (map_key, 'v) hmap \<Rightarrow> (map_key, 'v) hmap \<Rightarrow> bool" where
  "same_entry k m m' \<longleftrightarrow> bpf_map_lookup_elem m' k = bpf_map_lookup_elem m k"

definition agree_at :: "map_key \<Rightarrow> args_maps \<Rightarrow> args_maps \<Rightarrow> bool" where
  "agree_at k a a' \<longleftrightarrow>
     same_entry k (socketpair_args_map a) (socketpair_args_map a') \<and>
     same_entry k (getsockopt_args_map a) (getsockopt_args_map a') \<and>
     same_entry k (getsockname_args_map a) (getsockname_args_map a') \<and>
     same_entry k (getpeername_args_map a) (getpeername_args_map a') \<and>
     same_entry k (accept_args_map a) (accept_args_map a') \<and>
     same_entry k (accept4_args_map a) (accept4_args_map a') \<and>
     same_entry k (recvfrom_args_map a) (recvfrom_args_map a') \<and>
     same_entry k (recvmsg_args_map a) (recvmsg_args_map a') \<and>
     same_entry k (getdents_args_map a) (getdents_args_map a') \<and>
     same_entry k (getdents64_args_map a) (getdents64_args_map a') \<and>
     same_entry k (resuid_args_map a) (resuid_args_map a') \<and>
     same_entry k (resgid_args_map a) (resgid_args_map a') \<and>
     same_entry k (getrlimit_args_map a) (getrlimit_args_map a') \<and>
     same_entry k (capget_args_map a) (capget_args_map a')"

lemma same_entry_simps [simp]:
  "same_entry k m m"
  "k \<noteq> k' \<Longrightarrow> same_entry k m (snd (bpf_map_update_elem n k' v m))"
  "k \<noteq> k' \<Longrightarrow> same_entry k m (snd (bpf_map_delete_elem k' m))"
  by (simp_all add: same_entry_def hash_lookup_simps)

lemma agree_at_refl [simp]: "agree_at k a a"
  by (simp add: agree_at_def)

lemma agree_at_trans: "agree_at k a a' \<Longrightarrow> agree_at k a' a'' \<Longrightarrow> agree_at k a a''"
  by (simp add: agree_at_def same_entry_def)

text \<open>The keys that an activation of \<open>K\<close> may write: its own, and (through \<open>socketpair\<close>) one with
  process and thread id 0.\<close>

definition foreign :: "kernel \<Rightarrow> map_key \<Rightarrow> bool" where
  "foreign K k \<longleftrightarrow> k \<noteq> activation_key K \<and> key_tid k \<noteq> 0"

definition tame :: "kernel \<Rightarrow> (args_maps \<Rightarrow> args_maps \<Rightarrow> bool) \<Rightarrow> bool" where
  "tame K A \<longleftrightarrow> (\<forall>a a'. A a a' \<longrightarrow>
     (maps_ok a \<longrightarrow> maps_ok a') \<and> (\<forall>k. foreign K k \<longrightarrow> agree_at k a a'))"

lemma tame_unchanged: "tame K unchanged"
  by (simp add: tame_def unchanged_def)

lemma stray_key_not_foreign [simp]: "key_tid k \<noteq> 0 \<Longrightarrow> k \<noteq> stray_key ts"
  by (auto simp: stray_key_def)

lemmas tame_defs = tame_def foreign_def stored_def dropped_def maps_ok_def agree_at_def

lemma storing_tame:
  "list_all (\<lambda>(n, p, A). \<forall>K ctx. tame K (A K ctx)) storing_enter_programs"
  by (simp add: table_defs tame_defs hash.invar_update)

lemma cleanup_tame:
  "list_all (\<lambda>(n, p, A). \<forall>K ctx. tame K (A K ctx)) cleanup_exit_programs"
  by (auto simp: table_defs tame_defs hash.invar_delete)

lemma enter_tame: "(n, p, A) \<in> set enter_programs \<Longrightarrow> tame K (A K ctx)"
  using storing_tame by (auto simp: enter_programs_def list_all_iff tame_unchanged)

lemma exit_tame: "(n, p, A) \<in> set exit_programs \<Longrightarrow> tame K (A K ctx)"
  using cleanup_tame by (auto simp: exit_programs_def list_all_iff tame_unchanged)

subsection \<open>One step\<close>

lemma probe_exec:
  assumes "probe K b ev A m"
  shows "logged K b ev s (exec_state m s)" "A (amaps s) (amaps (exec_state m s))"
  using assms by (auto simp: probe_def runs_def exec_state_def)

lemma tame_probe_exec:
  "probe K b ev A m \<Longrightarrow> tame K A \<Longrightarrow>
   logged K b ev s (exec_state m s) \<and>
   (maps_ok (amaps s) \<longrightarrow> maps_ok (amaps (exec_state m s))) \<and>
   (\<forall>k. foreign K k \<longrightarrow> agree_at k (amaps s) (amaps (exec_state m s)))"
  using probe_exec unfolding tame_def by blast

text \<open>The activations: what is in the action's kernel and context.\<close>

fun activation :: "action \<Rightarrow> (kernel \<times> bool \<times> s32) option" where
  "activation (Enter n K ctx) = Some (K, True, ucast (enter_id ctx))"
| "activation (Exit n K ctx) = Some (K, False, ucast (exit_id ctx))"
| "activation _ = None"

lemma step_activation:
  assumes "step m a m'" and "activation a = Some (K, b, ev)"
  shows "delivered m' = delivered m \<and> logged K b ev (shared m) (shared m') \<and>
    (maps_ok (amaps (shared m)) \<longrightarrow> maps_ok (amaps (shared m'))) \<and>
    (\<forall>k. foreign K k \<longrightarrow> agree_at k (amaps (shared m)) (amaps (shared m')))"
  using assms(1)
proof (cases rule: step.cases)
  case (enter n p A K' ctx)
  from tame_probe_exec [OF enter_program_probe [OF enter(3)] enter_tame [OF enter(3)]]
  show ?thesis using assms(2) unfolding enter by auto
next
  case (exit n p A K' ctx)
  from tame_probe_exec [OF exit_program_probe [OF exit(3)] exit_tame [OF exit(3)]]
  show ?thesis using assms(2) unfolding exit by auto
qed (use assms(2) in simp_all)

text \<open>A step is an activation that keeps the logging contract, a delivery or a policy write.\<close>

lemma step_induct_cases [consumes 1, case_names activation consume set_policy]:
  assumes step: "step m a m'"
    and act: "\<And>K b ev. activation a = Some (K, b, ev) \<Longrightarrow> delivered m' = delivered m \<Longrightarrow>
        logged K b ev (shared m) (shared m') \<Longrightarrow>
        maps_ok (amaps (shared m)) \<longrightarrow> maps_ok (amaps (shared m')) \<Longrightarrow>
        (\<forall>k. foreign K k \<longrightarrow> agree_at k (amaps (shared m)) (amaps (shared m'))) \<Longrightarrow> P"
    and consume: "\<And>e es. a = Consume \<Longrightarrow> rb (shared m) = e # es \<Longrightarrow>
        m' = m\<lparr>shared := shared m\<lparr>rb := es\<rparr>, delivered := delivered m @ [e]\<rparr> \<Longrightarrow> P"
    and policy: "\<And>ns l. a = Set_policy ns l \<Longrightarrow> length l = 120 \<Longrightarrow>
        m' = m\<lparr>shared := syscall_array_update
           (\<lambda>a. snd (bpf_map_update_elem policy_max_entries ns l a)) (shared m)\<rparr> \<Longrightarrow> P"
  shows P
proof (cases "activation a")
  case None
  with step show ?thesis
    by (cases rule: step.cases) (auto intro: consume policy)
next
  case (Some t)
  then obtain K b ev where "activation a = Some (K, b, ev)" by (cases t) auto
  with step_activation [OF step this] show ?thesis by (auto intro: act)
qed

subsection \<open>Invariants of every run\<close>

text \<open>All records so far, the delivered ones and those still in the ring buffer.\<close>

definition history :: "monitor \<Rightarrow> event_t list" where
  "history m = delivered m @ rb (shared m)"

definition seq_numbers :: "monitor \<Rightarrow> u64 list" where
  "seq_numbers m = map (\<lambda>e. ct_count (ev_task e)) (history m)"

lemma logged_history:
  assumes "logged K b ev (shared m) (shared m')" and "delivered m' = delivered m"
  obtains "history m' = history m" "count (shared m') = count (shared m)"
      "selected K b ev (shared m) \<longrightarrow> (\<exists>n. rb_reserve K n = None)"
  | e where "history m' = history m @ [e]" "count (shared m') = count (shared m) + 1"
      "selected K b ev (shared m)" "record_of K b ev (count (shared m')) e"
  using assms by (fastforce simp: logged_def history_def)

definition numbered :: "monitor \<Rightarrow> bool" where
  "numbered m \<longleftrightarrow>
     seq_numbers m = map of_nat [1..<Suc (length (history m))] \<and>
     count (shared m) = of_nat (length (history m))"

lemma step_numbered:
  assumes "step m a m'" and "numbered m"
  shows "numbered m'"
  using assms(1)
proof (cases rule: step_induct_cases)
  case (activation K b ev)
  from activation(3,2) show ?thesis
  proof (cases rule: logged_history)
    case 1
    with assms(2) show ?thesis by (simp add: numbered_def seq_numbers_def)
  next
    case (2 e)
    from 2(4) have "ct_count (ev_task e) = count (shared m')"
      by (auto simp: record_of_def)
    with 2 assms(2) show ?thesis by (simp add: numbered_def seq_numbers_def)
  qed
next
  case (consume e es)
  with assms(2) show ?thesis by (simp add: numbered_def seq_numbers_def history_def)
next
  case (set_policy ns l)
  with assms(2) show ?thesis by (simp add: numbered_def seq_numbers_def history_def)
qed

lemma run_numbered: "run m as m' \<Longrightarrow> numbered m \<Longrightarrow> numbered m'"
  by (induction rule: run.induct) (auto intro: step_numbered)

lemma initial_numbered: "numbered initial"
  by (simp add: numbered_def initial_def seq_numbers_def history_def)

definition policies_ok :: "(u32, s32 list) hmap \<Rightarrow> bool" where
  "policies_ok arr \<longleftrightarrow>
     hmap_ok policy_max_entries arr \<and> (\<forall>ns l. bpf_map_lookup_elem arr ns = Some l \<longrightarrow> length l = 120)"

lemma policies_ok_update:
  "policies_ok arr \<Longrightarrow> length l = 120 \<Longrightarrow>
   policies_ok (snd (bpf_map_update_elem policy_max_entries ns l arr))"
  unfolding policies_ok_def
  by (metis hash.invar_update hash.lookup_update_other hash.lookup_update_same option.sel
      option.discI)

subsection \<open>Only what a policy asked for\<close>

definition policies_from :: "action list \<Rightarrow> (u32, s32 list) hmap \<Rightarrow> bool" where
  "policies_from as arr \<longleftrightarrow>
     (\<forall>ns l. bpf_map_lookup_elem arr ns = Some l \<longrightarrow> Set_policy ns l \<in> set as)"

lemma policies_from_mono: "policies_from as arr \<Longrightarrow> policies_from (as @ bs) arr"
  by (auto simp: policies_from_def)

lemma policies_from_update:
  "policies_from as arr \<Longrightarrow>
   policies_from (as @ [Set_policy ns l]) (snd (bpf_map_update_elem n ns l arr))"
  unfolding policies_from_def
  by (auto simp: hash.lookup_update_same hash.lookup_update_other split: if_splits)
    (metis hash.lookup_update_other hash.lookup_update_same option.discI option.sel)+

text \<open>The record's call is in a list that was written for the record's container.  An exit
  program whose task pointer is null has tested its own event id against namespace 0.\<close>

definition requested :: "action list \<Rightarrow> event_t \<Rightarrow> bool" where
  "requested as e \<longleftrightarrow>
     (let t = ev_task e in
      \<exists>l. Set_policy (ct_pid_namespace t) l \<in> set as \<and>
          (ct_event_id t \<in> set l \<or> \<not> is_enter e \<and> ct_pid_namespace t = 0 \<and> ct_event_id t = 0))"

lemma requested_mono: "requested as e \<Longrightarrow> requested (as @ bs) e"
  by (auto simp: requested_def Let_def)

lemma record_requested:
  assumes "policies_from as (syscall_array s)" and "selected K b ev s" and "record_of K b ev c e"
  shows "requested as e"
proof -
  from assms(3) obtain ts where b: "is_enter e = b"
    and t: "ev_task e = (task_snapshot K ev ts)\<lparr>ct_count := c\<rparr>"
    by (auto simp: record_of_def)
  from assms(2) obtain l where "bpf_map_lookup_elem (syscall_array s) (activation_ns K) = Some l"
    and in_l: "(if b \<and> cur_task K = None then 0 else ev) \<in> set l"
    by (auto simp: selected_def dest: should_log_listed)
  with assms(1) have "Set_policy (activation_ns K) l \<in> set as"
    by (auto simp: policies_from_def)
  with in_l show ?thesis
    by (auto simp: requested_def Let_def t b snapshot_event_id activation_ns_def
        split: if_splits option.splits)
qed

lemma step_requested:
  assumes "step m a m'" and "policies_from as (syscall_array (shared m))"
    and "\<forall>e \<in> set (history m). requested as e"
  shows "policies_from (as @ [a]) (syscall_array (shared m'))
    \<and> (\<forall>e \<in> set (history m'). requested (as @ [a]) e)"
  using assms(1)
proof (cases rule: step_induct_cases)
  case (activation K b ev)
  from activation(3) have "syscall_array (shared m') = syscall_array (shared m)"
    by (simp add: logged_def)
  moreover from activation(3,2) have "\<forall>e \<in> set (history m'). requested (as @ [a]) e"
  proof (cases rule: logged_history)
    case 1
    with assms(3) show ?thesis by (simp add: requested_mono)
  next
    case (2 e)
    with assms record_requested [OF assms(2) 2(3,4)] show ?thesis by (simp add: requested_mono)
  qed
  ultimately show ?thesis using assms(2) by (simp add: policies_from_mono)
next
  case (consume e es)
  with assms show ?thesis by (auto simp: history_def requested_mono policies_from_mono)
next
  case (set_policy ns l)
  with assms show ?thesis
    by (auto simp: history_def requested_mono policies_from_update)
qed

lemma run_requested:
  assumes "run initial as m"
  shows "policies_from as (syscall_array (shared m)) \<and> (\<forall>e \<in> set (history m). requested as e)"
  using assms
proof (induction "initial" as m rule: run.induct)
  case run_nil
  then show ?case
    by (simp add: policies_from_def initial_def bpf_map_lookup_elem_def history_def)
next
  case (run_snoc as m a m')
  then show ?case by (blast dest: step_requested)
qed

subsection \<open>Threads do not disturb each other\<close>

definition activation_foreign :: "map_key \<Rightarrow> action \<Rightarrow> bool" where
  "activation_foreign k a =
     (case activation a of None \<Rightarrow> True | Some (K, b, ev) \<Rightarrow> foreign K k)"

lemma step_agree:
  assumes "step m a m'" and "activation_foreign k a"
  shows "agree_at k (amaps (shared m)) (amaps (shared m'))"
  using assms(1)
proof (cases rule: step_induct_cases)
  case (activation K b ev)
  with assms(2) show ?thesis by (simp add: activation_foreign_def)
qed simp_all

lemma run_agree:
  "run m as m' \<Longrightarrow> list_all (activation_foreign k) as \<Longrightarrow>
   agree_at k (amaps (shared m)) (amaps (shared m'))"
  by (induction rule: run.induct) (auto intro: agree_at_trans step_agree)

text \<open>A thread is known by what the kernel says of it: the number of its process and its own, as
  \<open>bpf_get_current_pid_tgid\<close> returns them, and its namespace.  The programs key their maps by
  \<open>get_map_key\<close> of their snapshot of the task; threads that differ have different keys.\<close>

definition thread_id :: "kernel \<Rightarrow> u64 \<times> u32" where
  "thread_id K = (cur_pid_tgid K, activation_ns K)"

definition by_other_thread :: "u64 \<times> u32 \<Rightarrow> action \<Rightarrow> bool" where
  "by_other_thread t a = (case activation a of None \<Rightarrow> True | Some (K, b, ev) \<Rightarrow> thread_id K \<noteq> t)"

lemma halves_determine:
  assumes "(ucast (drop_bit 32 a) :: u32) = ucast (drop_bit 32 b)" and "(ucast a :: u32) = ucast b"
  shows "(a :: u64) = b"
proof (rule bit_word_eqI)
  fix n assume "n < LENGTH(64)"
  have "bit a i = bit b i" if "i < 32" for i
    using arg_cong [OF assms(2), of "\<lambda>w. bit w i"] that by (simp add: bit_ucast_iff)
  moreover have "bit a (32 + i) = bit b (32 + i)" if "i < 32" for i
    using arg_cong [OF assms(1), of "\<lambda>w. bit w i"] that by (simp add: bit_ucast_iff bit_drop_bit_eq)
  moreover have "n < 32 \<or> n = 32 + (n - 32) \<and> n - 32 < 32" using \<open>n < LENGTH(64)\<close> by auto
  ultimately show "bit a n = bit b n" by metis
qed

lemma activation_key_eq:
  assumes "activation_ns K0 \<noteq> 0"
  shows "activation_key K = activation_key K0 \<longleftrightarrow> thread_id K = thread_id K0"
  using assms halves_determine [of "cur_pid_tgid K" "cur_pid_tgid K0"]
  by (auto simp: activation_key_def get_map_key_def task_snapshot_def activation_ns_def thread_id_def
      zero_task_def Let_def split: option.splits)

lemma run_keeps_thread:
  assumes "run m as m'" and "activation_ns K \<noteq> 0" and "(ucast (cur_pid_tgid K) :: u32) \<noteq> 0"
    and "list_all (by_other_thread (thread_id K)) as"
  shows "agree_at (activation_key K) (amaps (shared m)) (amaps (shared m'))"
proof (rule run_agree [OF assms(1)])
  have "key_tid (activation_key K) = ucast (cur_pid_tgid K)"
    using assms(2) by (auto simp: activation_key_def get_map_key_def task_snapshot_def activation_ns_def
        Let_def split: option.splits)
  moreover have "activation_key K \<noteq> activation_key K'" if "thread_id K' \<noteq> thread_id K" for K'
    using activation_key_eq [OF assms(2), of K'] that by metis
  ultimately show "list_all (activation_foreign (activation_key K)) as"
    using assms(3,4)
    by (auto simp: list_all_iff by_other_thread_def activation_foreign_def foreign_def split: option.splits)
qed

subsection \<open>How many records\<close>

definition activations :: "action list \<Rightarrow> nat" where
  "activations as = length (filter (\<lambda>a. activation a \<noteq> None) as)"

lemma step_history_length:
  assumes "step m a m'"
  shows "length (history m') \<le> length (history m) + (if activation a = None then 0 else 1)"
  using assms
proof (cases rule: step_induct_cases)
  case (activation K b ev)
  from activation(3,2) show ?thesis
    by (cases rule: logged_history) (simp_all add: activation(1))
qed (simp_all add: history_def)

lemma run_history_length:
  "run m as m' \<Longrightarrow> length (history m') \<le> length (history m) + activations as"
proof (induction rule: run.induct)
  case (run_snoc m as m' a m'')
  with step_history_length [OF run_snoc(2)] show ?case
    by (auto simp: activations_def simp del: not_None_eq split: if_splits)
qed (simp add: activations_def)

text \<open>While the ring buffer has room, a selected activation adds its record.\<close>

lemma step_complete:
  assumes "step m a m'" and "activation a = Some (K, b, ev)"
    and "selected K b ev (shared m)" and "\<forall>n. rb_reserve K n \<noteq> None"
  shows "\<exists>e. history m' = history m @ [e] \<and> record_of K b ev (count (shared m) + 1) e"
  using step_activation [OF assms(1,2)] assms(3,4) by (auto simp: logged_def history_def)

end
