(* ===== verification/Trace_Policy.thy ===== *)
theory Trace_Policy
  imports Trace_Dispatch Trace_System
begin

section \<open>The policy loader of the tracepoint monitor\<close>

text \<open>
  The part of \<open>tracepoint.cpp\<close>, \<open>parser.h\<close> and \<open>container_info.cpp\<close> that decides what the kernel
  side logs: the names of the policy become numbers, the containers found become arrays of 120
  numbers in the map \<open>syscall_array\<close>, and containers no longer in the policy are cleared.  The
  numbers of the platform are the function \<open>nr\<close>; the namespace of a process (read from
  \<open>/proc\<close>, 1 when that fails) is a function of its id; what Docker lists and whether a regular
  expression matches a name are arguments too.
\<close>

subsection \<open>parser.h\<close>

definition tracepoint_names :: "string list" where
  "tracepoint_names =
     [''__NR_socket'', ''__NR_socketpair'', ''__NR_setsockopt'', ''__NR_bind'',
      ''__NR_listen'', ''__NR_accept'', ''__NR_accept4'', ''__NR_connect'', ''__NR_shutdown'',
      ''__NR_recvfrom'', ''__NR_recvmsg'', ''__NR_recvmmsg'', ''__NR_sendto'',
      ''__NR_sendmsg'', ''__NR_sendmmsg'', ''__NR_sethostname'', ''__NR_setdomainname'',
      ''__NR_getsockopt'', ''__NR_getsockname'', ''__NR_getpeername'', ''__NR_ioctl'',
      ''__NR_creat'', ''__NR_open'', ''__NR_openat'', ''__NR_openat2'', ''__NR_write'',
      ''__NR_pwrite64'', ''__NR_writev'', ''__NR_pwritev'', ''__NR_pwritev2'', ''__NR_mkdir'',
      ''__NR_mkdirat'', ''__NR_rmdir'', ''__NR_chdir'', ''__NR_fchdir'', ''__NR_chroot'',
      ''__NR_pivot_root'', ''__NR_link'', ''__NR_linkat'', ''__NR_symlink'',
      ''__NR_symlinkat'', ''__NR_unlink'', ''__NR_unlinkat'', ''__NR_rename'',
      ''__NR_renameat'', ''__NR_renameat2'', ''__NR_chmod'', ''__NR_fchmod'',
      ''__NR_fchmodat'', ''__NR_chown'', ''__NR_lchown'', ''__NR_fchown'', ''__NR_fchownat'',
      ''__NR_mount'', ''__NR_umount2'', ''__NR_move_mount'', ''__NR_read'', ''__NR_pread64'',
      ''__NR_readv'', ''__NR_preadv'', ''__NR_preadv2'', ''__NR_close'', ''__NR_dup'',
      ''__NR_dup2'', ''__NR_dup3'', ''__NR_flock'', ''__NR_memfd_create'', ''__NR_mknod'',
      ''__NR_mknodat'', ''__NR_truncate'', ''__NR_ftruncate'', ''__NR_fallocate'',
      ''__NR_getcwd'', ''__NR_getdents'', ''__NR_getdents64'', ''__NR_readlink'',
      ''__NR_readlinkat'', ''__NR_umask'', ''__NR_stat'', ''__NR_lstat'', ''__NR_fstat'',
      ''__NR_newfstatat'', ''__NR_statx'', ''__NR_statfs'', ''__NR_fstatfs'', ''__NR_access'',
      ''__NR_faccessat'', ''__NR_lseek'', ''__NR_sendfile'', ''__NR_inotify_init'',
      ''__NR_inotify_init1'', ''__NR_inotify_add_watch'', ''__NR_inotify_rm_watch'',
      ''__NR_fanotify_init'', ''__NR_fanotify_mark'', ''__NR_fcntl'', ''__NR_clone'',
      ''__NR_clone3'', ''__NR_fork'', ''__NR_vfork'', ''__NR_execve'', ''__NR_execveat'',
      ''__NR_setsid'', ''__NR_setpgid'', ''__NR_setuid'', ''__NR_setgid'', ''__NR_setresuid'',
      ''__NR_setresgid'', ''__NR_setreuid'', ''__NR_setregid'', ''__NR_setgroups'',
      ''__NR_setns'', ''__NR_capset'', ''__NR_mmap'', ''__NR_mprotect'', ''__NR_ptrace'',
      ''__NR_process_vm_readv'', ''__NR_process_vm_writev'', ''__NR_init_module'',
      ''__NR_delete_module'', ''__NR_finit_module'', ''__NR_kill'', ''__NR_tkill'',
      ''__NR_tgkill'', ''__NR_prctl'', ''__NR_brk'', ''__NR_sched_setscheduler'',
      ''__NR_sched_setaffinity'', ''__NR_setpriority'', ''__NR_sysinfo'', ''__NR_exit'',
      ''__NR_exit_group'', ''__NR_wait4'', ''__NR_waitid'', ''__NR_getpid'', ''__NR_getppid'',
      ''__NR_gettid'', ''__NR_getsid'', ''__NR_getpgid'', ''__NR_getpgrp'', ''__NR_getuid'',
      ''__NR_getgid'', ''__NR_getresuid'', ''__NR_getresgid'', ''__NR_geteuid'',
      ''__NR_getegid'', ''__NR_getgroups'', ''__NR_setrlimit'', ''__NR_getrlimit'',
      ''__NR_prlimit64'', ''__NR_getrusage'', ''__NR_getpriority'', ''__NR_ioprio_set'',
      ''__NR_ioprio_get'', ''__NR_munmap'', ''__NR_mremap'', ''__NR_madvise'', ''__NR_mlock'',
      ''__NR_mlock2'', ''__NR_mlockall'', ''__NR_munlock'', ''__NR_munlockall'',
      ''__NR_capget'', ''__NR_arch_prctl'']"

text \<open>Each name is entered with the number of the same name, which \<open>nr\<close> gives for the part after
  \<open>__NR_\<close>.\<close>

definition tracepoints_map :: "(string \<Rightarrow> s32) \<Rightarrow> string \<Rightarrow> s32 option" where
  "tracepoints_map nr name = (if name \<in> set tracepoint_names then Some (nr (drop 5 name)) else None)"

definition string_to_syscalls :: "(string \<Rightarrow> s32) \<Rightarrow> string list \<Rightarrow> s32 list" where
  "string_to_syscalls nr str_tracepoints =
     map (\<lambda>s. case tracepoints_map nr s of None \<Rightarrow> - 1 | Some n \<Rightarrow> n) str_tracepoints"

subsection \<open>container_info.cpp\<close>

record container =
  c_id :: string
  c_name :: string
  c_pid :: int
  c_ns_id :: u32
  c_syscalls :: "string list"

record container_policy =
  p_container_name :: string
  p_syscalls :: "string list"

text \<open>\<open>isMonitored\<close>; \<open>None\<close> is a pattern that is no regular expression.\<close>

definition isMonitored :: "(string \<Rightarrow> string \<Rightarrow> bool option) \<Rightarrow> string list \<Rightarrow> string \<Rightarrow> string list" where
  "isMonitored regex_match monitored name =
     filter (\<lambda>pattern. name = pattern \<or> regex_match pattern name = Some True) monitored"

text \<open>
  The loop of \<open>getContainerPIDs\<close> over the running containers: one entry for every pattern that
  matches, with the calls of the first policy entry of that pattern, and an \<open>ns_id\<close> that is not
  initialised (\<open>garbage\<close>).
\<close>

definition getContainerPIDs ::
  "(string \<Rightarrow> string \<Rightarrow> bool option) \<Rightarrow> container_policy list \<Rightarrow> u32 \<Rightarrow> (string \<times> string \<times> int) list \<Rightarrow>
   container list" where
  "getContainerPIDs regex_match policies garbage docker =
     concat (map (\<lambda>(cid, name, pid).
       map (\<lambda>pattern. \<lparr>c_id = cid, c_name = name, c_pid = pid, c_ns_id = garbage,
              c_syscalls = (case find (\<lambda>p. p_container_name p = pattern) policies of
                 Some p \<Rightarrow> p_syscalls p | None \<Rightarrow> [])\<rparr>)
         (isMonitored regex_match (map p_container_name policies) name)) docker)"

fun updateContainerNsId :: "string \<Rightarrow> u32 \<Rightarrow> container list \<Rightarrow> container list" where
  "updateContainerNsId cid ns [] = []"
| "updateContainerNsId cid ns (c # cs) =
     (if c_id c = cid then c\<lparr>c_ns_id := ns\<rparr> # cs else c # updateContainerNsId cid ns cs)"

subsection \<open>tracepoint.cpp\<close>

record loader =
  syscall_map :: "(u32, s32 list) hmap"
  monitored_namespaces :: "u32 set"
  running :: "container list"

definition pad_syscalls :: "s32 list \<Rightarrow> s32 list" where
  "pad_syscalls l = l @ replicate (120 - length l) (- 1)"

definition clear_syscall_array_entry :: "u32 \<Rightarrow> (u32, s32 list) hmap \<Rightarrow> int \<times> (u32, s32 list) hmap" where
  "clear_syscall_array_entry ns m =
     (let (err, m') = bpf_map_update_elem policy_max_entries ns (replicate 120 (- 1)) m
      in (if err \<noteq> 0 then - 1 else 0, m'))"

text \<open>The calls of one container that go into its array.\<close>

definition selected_syscalls :: "(string \<Rightarrow> s32) \<Rightarrow> string list \<Rightarrow> s32 list" where
  "selected_syscalls nr names = take 120 (filter (\<lambda>x. x \<noteq> - 1) (string_to_syscalls nr names))"

text \<open>One round of the loop over \<open>ContainerManager::containers\<close>, whose variable \<open>container\<close>
  refers to the element that \<open>updateContainerNsId\<close> may change.\<close>

definition update_container ::
  "(string \<Rightarrow> s32) \<Rightarrow> (int \<Rightarrow> u32) \<Rightarrow> nat \<Rightarrow> loader \<times> u32 set \<Rightarrow> loader \<times> u32 set" where
  "update_container nr get_namespace_id i st =
     (let (l, new_namespaces) = st;
          c = running l ! i;
          syscalls = pad_syscalls (selected_syscalls nr (c_syscalls c));
          cs = updateContainerNsId (c_id c) (get_namespace_id (c_pid c)) (running l);
          ns = c_ns_id (cs ! i)
      in (l\<lparr>running := cs,
            syscall_map := snd (bpf_map_update_elem policy_max_entries ns syscalls (syscall_map l))\<rparr>,
          insert ns new_namespaces))"

text \<open>Clearing the namespaces of a set, in ascending order; the result is -1 if one of them fails.\<close>

fun clear_list :: "u32 list \<Rightarrow> (u32, s32 list) hmap \<Rightarrow> int \<times> (u32, s32 list) hmap" where
  "clear_list [] m = (0, m)"
| "clear_list (ns # nss) m =
     (let (e1, m1) = clear_syscall_array_entry ns m;
          (e2, m2) = clear_list nss m1
      in (if e1 \<noteq> 0 \<or> e2 \<noteq> 0 then - 1 else 0, m2))"

definition clear_all_policies :: "loader \<Rightarrow> int \<times> loader" where
  "clear_all_policies l =
     (let (err, m) = clear_list (sorted_list_of_set (monitored_namespaces l)) (syscall_map l)
      in (err, l\<lparr>syscall_map := m, monitored_namespaces := {}, running := []\<rparr>))"

text \<open>
  \<open>update_policy_with_file\<close> from the parsed policy on: an empty policy clears everything, no
  running container is an error, otherwise every container is written and the namespaces that
  dropped out are cleared.
\<close>

definition update_policy ::
  "(string \<Rightarrow> s32) \<Rightarrow> (int \<Rightarrow> u32) \<Rightarrow> container_policy list \<Rightarrow> container list \<Rightarrow> loader \<Rightarrow> int \<times> loader" where
  "update_policy nr get_namespace_id policies found l =
     (if policies = [] then clear_all_policies l
      else if found = [] then (- 1, l\<lparr>running := []\<rparr>)
      else
        (let (l', new_namespaces) =
               fold (update_container nr get_namespace_id) [0..<length found] (l\<lparr>running := found\<rparr>, {});
             (err, m) = clear_list (sorted_list_of_set (monitored_namespaces l' - new_namespaces))
               (syscall_map l')
         in (0, l'\<lparr>syscall_map := m, monitored_namespaces := new_namespaces\<rparr>)))"

subsection \<open>The array of a container\<close>

lemma length_selected: "length (selected_syscalls nr names) \<le> 120"
  by (simp add: selected_syscalls_def)

lemma pad_syscalls_length: "length (pad_syscalls (selected_syscalls nr names)) = 120"
  using length_selected [of nr names] by (simp add: pad_syscalls_def)

text \<open>What the kernel side finds in a padded array: the calls selected, and nothing else.\<close>

lemma scan_padded:
  assumes "ev \<noteq> - 1"
  shows "scan_syscalls 120 (pad_syscalls (selected_syscalls nr names)) ev \<longleftrightarrow>
    ev \<in> set (selected_syscalls nr names)"
proof -
  let ?l = "selected_syscalls nr names"
  have no_marker: "x \<noteq> - 1" if "x \<in> set ?l" for x
    using that by (auto simp: selected_syscalls_def dest: in_set_takeD)
  have "take 120 (pad_syscalls ?l) = pad_syscalls ?l"
    using pad_syscalls_length [of nr names] by simp
  moreover have "takeWhile (\<lambda>x. x \<noteq> - 1) (pad_syscalls ?l) = ?l"
    unfolding pad_syscalls_def
    by (cases "120 - length ?l") (auto simp: takeWhile_append takeWhile_eq_all_conv no_marker)
  ultimately show ?thesis using assms by (simp add: scan_syscalls_iff)
qed

lemma scan_cleared: "ev \<noteq> - 1 \<Longrightarrow> \<not> scan_syscalls 120 (replicate 120 (- 1)) ev"
  by (simp add: scan_syscalls_iff eval_nat_numeral)

subsection \<open>The loop over the containers\<close>

lemma update_ns_distinct:
  "distinct (map c_id cs) \<Longrightarrow> i < length cs \<Longrightarrow>
   updateContainerNsId (c_id (cs ! i)) ns cs = cs[i := (cs ! i)\<lparr>c_ns_id := ns\<rparr>]"
proof (induction cs arbitrary: i)
  case (Cons c cs)
  show ?case
  proof (cases i)
    case (Suc j)
    with Cons have "j < length cs" by simp
    then have "c_id (cs ! j) \<in> c_id ` set cs" by simp
    with Cons.prems Suc have "c_id c \<noteq> c_id (cs ! j)" by auto
    with Cons Suc show ?thesis by simp
  qed simp
qed simp

lemma update_ns_first:
  "i < length cs \<Longrightarrow> j < i \<Longrightarrow> c_id (cs ! j) = cid \<Longrightarrow> updateContainerNsId cid ns cs ! i = cs ! i"
proof (induction cs arbitrary: i j)
  case (Cons c cs)
  then show ?case by (cases i; cases j) auto
qed simp

definition located :: "(int \<Rightarrow> u32) \<Rightarrow> container \<Rightarrow> container" where
  "located get_ns c = c\<lparr>c_ns_id := get_ns (c_pid c)\<rparr>"

definition write_container :: "(string \<Rightarrow> s32) \<Rightarrow> (int \<Rightarrow> u32) \<Rightarrow> container \<Rightarrow>
    (u32, s32 list) hmap \<Rightarrow> (u32, s32 list) hmap" where
  "write_container nr get_ns c m = snd (bpf_map_update_elem policy_max_entries (get_ns (c_pid c))
     (pad_syscalls (selected_syscalls nr (c_syscalls c))) m)"

lemma update_loop:
  assumes "distinct (map c_id found)" and "n \<le> length found"
  shows "fold (update_container nr get_ns) [0..<n] (l\<lparr>running := found\<rparr>, {}) =
    (l\<lparr>running := map (located get_ns) (take n found) @ drop n found,
       syscall_map := fold (write_container nr get_ns) (take n found) (syscall_map l)\<rparr>,
     (\<lambda>c. get_ns (c_pid c)) ` set (take n found))"
  using assms(2)
proof (induction n)
  case (Suc n)
  then have n: "n < length found" by simp
  define cs where "cs = map (located get_ns) (take n found) @ drop n found"
  have "map c_id cs = map c_id (take n found @ drop n found)"
    unfolding cs_def map_append by (simp add: located_def comp_def)
  then have ids: "map c_id cs = map c_id found" by simp
  have len: "length cs = length found" using n by (simp add: cs_def)
  have nth: "cs ! n = found ! n" using n by (simp add: cs_def nth_append)
  have upd: "updateContainerNsId (c_id (found ! n)) ns cs = cs[n := (found ! n)\<lparr>c_ns_id := ns\<rparr>]" for ns
    using update_ns_distinct [of cs n ns] assms(1) n by (simp add: nth ids len)
  have next_cs: "cs[n := located get_ns (found ! n)] =
      map (located get_ns) (take (Suc n) found) @ drop (Suc n) found"
    using n unfolding cs_def
    by (simp add: list_update_append take_Suc_conv_app_nth Cons_nth_drop_Suc [symmetric])
  have "update_container nr get_ns n (l\<lparr>running := cs, syscall_map := m\<rparr>, S) =
      (l\<lparr>running := cs[n := located get_ns (found ! n)],
         syscall_map := write_container nr get_ns (found ! n) m\<rparr>,
       insert (get_ns (c_pid (found ! n))) S)" for m S
    using n by (simp add: update_container_def Let_def nth upd len located_def write_container_def)
  then show ?case
    using Suc n by (simp add: cs_def [symmetric] next_cs take_Suc_conv_app_nth)
qed simp

subsection \<open>What the map holds afterwards\<close>

abbreviation ns_of :: "(int \<Rightarrow> u32) \<Rightarrow> container \<Rightarrow> u32" where
  "ns_of get_ns c \<equiv> get_ns (c_pid c)"

abbreviation array_of :: "(string \<Rightarrow> s32) \<Rightarrow> container \<Rightarrow> s32 list" where
  "array_of nr c \<equiv> pad_syscalls (selected_syscalls nr (c_syscalls c))"

lemma write_all_lookup:
  assumes "distinct (map (ns_of g) cs)" and "length m + length cs \<le> policy_max_entries"
  shows "bpf_map_lookup_elem (fold (write_container nr g) cs m) ns =
    (case find (\<lambda>c. ns_of g c = ns) cs of Some c \<Rightarrow> Some (array_of nr c)
     | None \<Rightarrow> bpf_map_lookup_elem m ns)"
  using fold_update_lookup [OF assms, of "array_of nr"] by (simp add: write_container_def [abs_def])

lemma clear_present:
  assumes "bpf_map_lookup_elem m ns \<noteq> None"
  shows "fst (clear_syscall_array_entry ns m) = 0"
    and "bpf_map_lookup_elem (snd (clear_syscall_array_entry ns m)) =
      (bpf_map_lookup_elem m)(ns \<mapsto> replicate 120 (- 1))"
  using assms hash.update_stores [where m = m and k = ns and n = policy_max_entries
      and v = "replicate 120 (- 1)"]
  by (simp_all add: clear_syscall_array_entry_def case_prod_unfold Let_def)
    (simp add: bpf_map_update_elem_def bpf_map_lookup_elem_def)

lemma clear_list_present:
  "\<forall>ns \<in> set nss. bpf_map_lookup_elem m ns \<noteq> None \<Longrightarrow>
   fst (clear_list nss m) = 0 \<and>
   (\<forall>ns. bpf_map_lookup_elem (snd (clear_list nss m)) ns =
     (if ns \<in> set nss then Some (replicate 120 (- 1)) else bpf_map_lookup_elem m ns))"
proof (induction nss arbitrary: m)
  case (Cons ns nss)
  let ?m = "snd (clear_syscall_array_entry ns m)"
  from Cons.prems have here: "fst (clear_syscall_array_entry ns m) = 0"
    "bpf_map_lookup_elem ?m = (bpf_map_lookup_elem m)(ns \<mapsto> replicate 120 (- 1))"
    using clear_present [of m ns] by simp_all
  then have "\<forall>ns' \<in> set nss. bpf_map_lookup_elem ?m ns' \<noteq> None" using Cons.prems by simp
  from Cons.IH [OF this] here show ?case
    by (simp add: case_prod_unfold Let_def)
qed simp

subsection \<open>The loader's invariant and the effect of an update\<close>

text \<open>Every monitored namespace has an array, and no other namespace selects a call.\<close>

definition loader_ok :: "loader \<Rightarrow> bool" where
  "loader_ok l \<longleftrightarrow>
     finite (monitored_namespaces l) \<and>
     (\<forall>ns \<in> monitored_namespaces l. bpf_map_lookup_elem (syscall_map l) ns \<noteq> None) \<and>
     (\<forall>ns ev. ns \<notin> monitored_namespaces l \<longrightarrow> ev \<noteq> - 1 \<longrightarrow> \<not> should_log (syscall_map l) ns ev)"

text \<open>What the policy asks for, given the containers found.\<close>

definition wants :: "(string \<Rightarrow> s32) \<Rightarrow> (int \<Rightarrow> u32) \<Rightarrow> container list \<Rightarrow> u32 \<Rightarrow> s32 \<Rightarrow> bool" where
  "wants nr get_ns found ns ev \<longleftrightarrow>
     (\<exists>c \<in> set found. ns_of get_ns c = ns \<and> ev \<in> set (selected_syscalls nr (c_syscalls c)))"

lemma should_log_array:
  "bpf_map_lookup_elem m ns = Some l \<Longrightarrow> should_log m ns ev = scan_syscalls 120 l ev"
  by (simp add: should_log_def)

lemma update_policy_ok:
  fixes nr :: "string \<Rightarrow> s32"
  assumes ok: "loader_ok l" and "policies \<noteq> []" and "found \<noteq> []"
    and ids: "distinct (map c_id found)" and nss: "distinct (map (ns_of get_ns) found)"
    and room: "length (syscall_map l) + length found \<le> policy_max_entries"
  defines "res \<equiv> update_policy nr get_ns policies found l"
  shows "fst res = 0 \<and> loader_ok (snd res) \<and> monitored_namespaces (snd res) = ns_of get_ns ` set found
    \<and> (\<forall>ns ev. ev \<noteq> - 1 \<longrightarrow> should_log (syscall_map (snd res)) ns ev = wants nr get_ns found ns ev)"
proof -
  define m1 where "m1 = fold (write_container nr get_ns) found (syscall_map l)"
  define new where "new = ns_of get_ns ` set found"
  define old where "old = sorted_list_of_set (monitored_namespaces l - new)"
  define m2 where "m2 = snd (clear_list old m1)"
  have res: "fst res = 0" "syscall_map (snd res) = m2" "monitored_namespaces (snd res) = new"
    using assms(2,3) update_loop [OF ids, of "length found" nr get_ns l]
    by (simp_all add: res_def update_policy_def case_prod_unfold Let_def m1_def new_def old_def m2_def)
  have m1: "bpf_map_lookup_elem m1 ns = (case find (\<lambda>c. ns_of get_ns c = ns) found of
      Some c \<Rightarrow> Some (array_of nr c) | None \<Rightarrow> bpf_map_lookup_elem (syscall_map l) ns)" for ns
    unfolding m1_def by (rule write_all_lookup [OF nss room])
  have set_old: "set old = monitored_namespaces l - new"
    using ok by (simp add: old_def loader_ok_def)
  have not_found: "ns \<notin> new \<longleftrightarrow> find (\<lambda>c. ns_of get_ns c = ns) found = None" for ns
    by (auto simp: new_def find_None_iff)
  have "\<forall>ns \<in> set old. bpf_map_lookup_elem m1 ns \<noteq> None"
    using ok by (auto simp: set_old m1 not_found loader_ok_def)
  from clear_list_present [OF this]
  have m2: "bpf_map_lookup_elem m2 ns =
      (if ns \<in> set old then Some (replicate 120 (- 1)) else bpf_map_lookup_elem m1 ns)" for ns
    by (simp add: m2_def)
  have exact: "should_log m2 ns ev = wants nr get_ns found ns ev" if ev: "ev \<noteq> - 1" for ns ev
  proof (cases "ns \<in> new")
    case True
    then obtain c where c: "find (\<lambda>c. ns_of get_ns c = ns) found = Some c"
      using not_found [of ns] by auto
    then have "c \<in> set found" "ns_of get_ns c = ns" by (auto simp: find_Some_iff)
    then have only: "c' = c" if "c' \<in> set found" "ns_of get_ns c' = ns" for c'
      using that nss by (metis distinct_map inj_onD)
    have "bpf_map_lookup_elem m2 ns = Some (array_of nr c)"
      using True by (simp add: m2 set_old m1 c)
    then have "should_log m2 ns ev \<longleftrightarrow> ev \<in> set (selected_syscalls nr (c_syscalls c))"
      using scan_padded [OF ev] by (simp add: should_log_array)
    moreover have "wants nr get_ns found ns ev \<longleftrightarrow> ev \<in> set (selected_syscalls nr (c_syscalls c))"
      unfolding wants_def using \<open>c \<in> set found\<close> \<open>ns_of get_ns c = ns\<close> only by metis
    ultimately show ?thesis by simp
  next
    case False
    then have "\<not> wants nr get_ns found ns ev" by (auto simp: wants_def new_def)
    moreover have "\<not> should_log m2 ns ev"
    proof (cases "ns \<in> monitored_namespaces l")
      case True
      with False have "bpf_map_lookup_elem m2 ns = Some (replicate 120 (- 1))"
        by (simp add: m2 set_old)
      with scan_cleared [OF ev] show ?thesis by (simp add: should_log_array)
    next
      case nope: False
      have "bpf_map_lookup_elem m2 ns = bpf_map_lookup_elem (syscall_map l) ns"
        using False nope not_found [of ns] by (simp add: m2 set_old m1)
      with nope ok ev show ?thesis by (simp add: loader_ok_def should_log_def)
    qed
    ultimately show ?thesis by simp
  qed
  moreover have "loader_ok (snd res)"
    unfolding loader_ok_def res
  proof (intro conjI ballI allI impI)
    show "finite new" by (simp add: new_def)
    fix ns assume "ns \<in> new"
    then show "bpf_map_lookup_elem m2 ns \<noteq> None"
      using not_found [of ns] by (auto simp: m2 set_old m1)
  next
    fix ns and ev :: s32 assume "ns \<notin> new" "ev \<noteq> - 1"
    then show "\<not> should_log m2 ns ev" by (auto simp: exact wants_def new_def)
  qed
  ultimately show ?thesis using res by (simp add: new_def)
qed

text \<open>Clearing: an empty policy switches everything off.\<close>

lemma clear_all_policies_ok:
  assumes "loader_ok l"
  shows "fst (clear_all_policies l) = 0 \<and> loader_ok (snd (clear_all_policies l)) \<and>
    (\<forall>ns ev. ev \<noteq> - 1 \<longrightarrow> \<not> should_log (syscall_map (snd (clear_all_policies l))) ns ev)"
proof -
  let ?nss = "sorted_list_of_set (monitored_namespaces l)"
  have set: "set ?nss = monitored_namespaces l" using assms by (simp add: loader_ok_def)
  have "\<forall>ns \<in> set ?nss. bpf_map_lookup_elem (syscall_map l) ns \<noteq> None"
    using assms by (simp add: set loader_ok_def)
  note C = clear_list_present [OF this]
  have "\<not> should_log (snd (clear_list ?nss (syscall_map l))) ns ev" if ev: "ev \<noteq> - 1" for ns ev
  proof (cases "ns \<in> monitored_namespaces l")
    case True
    with C set scan_cleared [OF ev] show ?thesis by (simp add: should_log_def)
  next
    case False
    with C set assms ev show ?thesis by (simp add: should_log_def loader_ok_def)
  qed
  with C show ?thesis
    by (simp add: clear_all_policies_def case_prod_unfold loader_ok_def)
qed

end
