(* ===== verification/Lsm_Policy.thy ===== *)
theory Lsm_Policy
  imports Bpf_Maps "HOL-Library.Sublist"
begin

unbundle bit_operations_syntax

section \<open>LSM enforcement: policies and how they are matched\<close>

text \<open>
  \<open>src/src/lsm/policy_map_structs.h\<close> and \<open>bpf_map_structs.h\<close>: the policy of a container, the
  event record, and the helpers of the hooks that consult them.  The policy map is an LRU hash
  that only user space writes; what a hook sees of it is the content of \<open>policy_map\<close>.  Of the
  kernel, one activation of a hook sees the record \<open>lsm_kernel\<close>.
\<close>

subsection \<open>policy_map_structs.h\<close>

datatype section_nr =
    SECID_BPRM_CHECK_SECURITY | SECID_TASK_FIX_SETUID | SECID_FILE_PERMISSION | SECID_FILE_OPEN
  | SECID_FILE_CREATE | SECID_PATH_UNLINK | SECID_PATH_MKDIR | SECID_PATH_RENAME
  | SECID_SOCKET_CONNECT | SECID_SOCKET_RECVMSG | SECID_CAPABLE | SECID_PATH_MKNOD | SECID_PATH_RMDIR
  | SECID_PATH_SYMLINK | SECID_PATH_LINK | SECID_PATH_CHMOD | SECID_PATH_TRUNCATE | SECID_MMAP_FILE
  | SECID_SB_MOUNT | SECID_SB_REMOUNT | SECID_SB_UMOUNT | SECID_KERNEL_MODULE_REQUEST
  | SECID_KERNEL_READ_FILE | SECID_BPRM_CREDS_FROM_FILE

datatype policy_type = POLICY_FILE | POLICY_NETWORK | POLICY_PROCESS

record policy_key =
  pid_ns_id :: u32
  mnt_ns_id :: u32

definition POLICY_AUDIT :: u32 where "POLICY_AUDIT = push_bit 27 1"
definition POLICY_DENY :: u32 where "POLICY_DENY = push_bit 28 1"
definition POLICY_ALLOW :: u32 where "POLICY_ALLOW = push_bit 29 1"
definition POLICY_OWNER :: u32 where "POLICY_OWNER = push_bit 30 1"
definition POLICY_RECURSIVE :: u32 where "POLICY_RECURSIVE = push_bit 31 1"
definition POLICY_FILE_READ :: u32 where "POLICY_FILE_READ = push_bit 0 1"
definition POLICY_FILE_WRITE :: u32 where "POLICY_FILE_WRITE = push_bit 1 1"
definition POLICY_FILE_EXEC :: u32 where "POLICY_FILE_EXEC = push_bit 2 1"
definition POLICY_FILE_APPEND :: u32 where "POLICY_FILE_APPEND = push_bit 3 1"
definition POLICY_FILE_RENAME :: u32 where "POLICY_FILE_RENAME = push_bit 4 1"
definition POLICY_FILE_DELETE :: u32 where "POLICY_FILE_DELETE = push_bit 5 1"
definition POLICY_FILE_CREATE :: u32 where "POLICY_FILE_CREATE = push_bit 6 1"
definition POLICY_NET_CONNECT :: u32 where "POLICY_NET_CONNECT = push_bit 7 1"
definition POLICY_NET_SRC :: u32 where "POLICY_NET_SRC = push_bit 8 1"
definition POLICY_NET_DST :: u32 where "POLICY_NET_DST = push_bit 9 1"
definition POLICY_PROC_FORK :: u32 where "POLICY_PROC_FORK = push_bit 11 1"
definition POLICY_PROC_EXEC :: u32 where "POLICY_PROC_EXEC = push_bit 12 1"
definition POLICY_PROC_KILL :: u32 where "POLICY_PROC_KILL = push_bit 13 1"
definition POLICY_PROC_SETUID :: u32 where "POLICY_PROC_SETUID = push_bit 14 1"

text \<open>\<open>if (flags & b)\<close>.\<close>

definition has :: "u32 \<Rightarrow> u32 \<Rightarrow> bool" where
  "has flags b \<longleftrightarrow> flags AND b \<noteq> 0"

lemma bit_flag: "bit (push_bit n 1 :: u32) m \<longleftrightarrow> m = n \<and> n < 32"
  unfolding bit_push_bit_iff bit_1_iff by auto

lemma has_bit: "has flags (push_bit n 1) \<longleftrightarrow> n < 32 \<and> bit flags n"
proof -
  have bits: "bit (flags AND push_bit n 1) m \<longleftrightarrow> m = n \<and> n < 32 \<and> bit flags n" for m
    unfolding bit_and_iff bit_flag by auto
  have "flags AND push_bit n 1 = 0 \<longleftrightarrow> (\<forall>m. \<not> bit (flags AND push_bit n 1) m)"
    using bit_word_eqI [of "flags AND push_bit n 1" 0] by (metis bit_0_eq bot_apply bot_bool_def)
  also have "\<dots> \<longleftrightarrow> \<not> (n < 32 \<and> bit flags n)"
    unfolding bits by blast
  finally show ?thesis unfolding has_def by blast
qed

lemma has_0 [simp]: "\<not> has 0 b"
  by (simp add: has_def)

lemma has_or: "has f (a OR b) \<longleftrightarrow> has f a \<or> has f b"
proof -
  have "f AND (a OR b) = (f AND a) OR (f AND b)" by (rule bit.conj_disj_distrib)
  then show ?thesis unfolding has_def by (simp add: or_eq_0_iff)
qed

record file_policy =
  fp_path :: "u8 list"
  fp_uid :: "s32 list"
  fp_flags :: u32

record network_policy =
  np_ip :: u32
  np_subnet_mask :: u32
  np_port :: u16
  np_protocol :: u8
  np_uid :: "s32 list"
  np_flags :: u32

record process_policy =
  pp_comm :: "u8 list"
  pp_uid :: "s32 list"
  pp_flags :: u32

record policy_value =
  num_file_policies :: u32
  num_network_policies :: u32
  num_process_policies :: u32
  file_policies :: "file_policy list"
  network_policies :: "network_policy list"
  process_policies :: "process_policy list"
  pv_source :: "u8 list"

record lsm_event =
  le_ts :: u64
  le_pid_id :: u32
  le_mnt_id :: u32
  le_host_ppid :: u32
  le_host_pid :: u32
  le_ppid :: u32
  le_pid :: u32
  le_uid :: u32
  le_cgroup_id :: u64
  le_event_id :: section_nr
  le_retval :: int
  le_comm :: "u8 list"
  le_path :: "u8 list"
  le_source :: "u8 list"

subsection \<open>What an activation sees\<close>

text \<open>
  The current task, the identifiers the helpers return, the ring buffer's answer, and the results
  of the calls into the kernel: \<open>lk_d_path\<close> of \<open>bpf_d_path\<close> and \<open>lk_name\<close> of the read of a
  file name (return code and destination), and for \<open>get_process_path\<close> which pointers are not
  null.  \<open>lk_exe_garbage\<close> is whether the uninitialised outer \<open>exe_file\<close> of that function happens
  not to be null.
\<close>

record lsm_task =
  lt_pid_ns :: u32
  lt_mnt_ns :: u32
  lt_parent_tgid :: u32
  lt_leader_vnr :: u32
  lt_parent_vnr :: u32

record lsm_kernel =
  lk_task :: "lsm_task option"
  lk_pid_tgid :: u64
  lk_uid_gid :: u64
  lk_ktime :: u64
  lk_cgroup :: u64
  lk_comm :: "u8 list"
  lk_reserve :: "lsm_event option"
  lk_d_path :: "u8 list \<Rightarrow> int \<times> u8 list"
  lk_name :: "u8 list \<Rightarrow> int \<times> u8 list"
  lk_mm :: bool
  lk_exe_inner :: bool
  lk_exe_garbage :: bool
  lk_exe_dentry :: bool
  lk_exe_name :: "nat \<Rightarrow> u8 list \<Rightarrow> u8 list"

type_synonym policy_map = "(policy_key, policy_value) hmap"

text \<open>A core read through a null task gives zeros.\<close>

definition task_policy_key :: "lsm_kernel \<Rightarrow> policy_key" where
  "task_policy_key K =
     (case lk_task K of
        None \<Rightarrow> \<lparr>pid_ns_id = 0, mnt_ns_id = 0\<rparr>
      | Some t \<Rightarrow> \<lparr>pid_ns_id = lt_pid_ns t, mnt_ns_id = lt_mnt_ns t\<rparr>)"

subsection \<open>bpf_map_structs.h\<close>

definition should_monitor :: "policy_map \<Rightarrow> lsm_kernel \<Rightarrow> policy_type \<Rightarrow> bool" where
  "should_monitor pm K type =
     (case bpf_map_lookup_elem pm (task_policy_key K) of
        None \<Rightarrow> False
      | Some value \<Rightarrow>
          (case type of
             POLICY_FILE \<Rightarrow> 0 < num_file_policies value
           | POLICY_NETWORK \<Rightarrow> 0 < num_network_policies value
           | POLICY_PROCESS \<Rightarrow> 0 < num_process_policies value))"

text \<open>The loop of \<open>compare_strings\<close> from index \<open>i\<close> on; 0 is a match.\<close>

function compare_from :: "u8 list \<Rightarrow> u8 list \<Rightarrow> nat \<Rightarrow> bool \<Rightarrow> nat \<Rightarrow> int" where
  "compare_from a b len is_recursive i =
     (if len \<le> i then 1
      else if a ! i \<noteq> b ! i then
        (if is_recursive \<and> a ! i = 0 \<and> 0 < i \<and> a ! (i - 1) = 47 then 0 else 1)
      else if a ! i = 0 \<and> b ! i = 0 then 0
      else compare_from a b len is_recursive (Suc i))"
  by auto
termination by (relation "measure (\<lambda>(a, b, len, r, i). len - i)") auto

declare compare_from.simps [simp del]

definition compare_strings :: "u8 list \<Rightarrow> u8 list \<Rightarrow> nat \<Rightarrow> u32 \<Rightarrow> int" where
  "compare_strings a b len flags = compare_from a b len (has flags POLICY_RECURSIVE) 0"

text \<open>\<open>match_policy\<close>: the flags of the first of the container's policies, at most 64, that
  matches; 0 when there is none.\<close>

fun first_file :: "file_policy list \<Rightarrow> u8 list \<Rightarrow> u32" where
  "first_file [] path = 0"
| "first_file (p # ps) path =
     (if compare_strings (fp_path p) path 256 (fp_flags p) = 0 then fp_flags p
      else first_file ps path)"

fun first_network :: "network_policy list \<Rightarrow> network_policy \<Rightarrow> u32" where
  "first_network [] net = 0"
| "first_network (p # ps) net =
     (if np_ip p = np_ip net \<and> (np_port p = np_port net \<or> np_port p = 0) \<and>
         (np_protocol p = np_protocol net \<or> np_protocol p = 0) then np_flags p
      else first_network ps net)"

fun first_process :: "process_policy list \<Rightarrow> u8 list \<Rightarrow> u32" where
  "first_process [] comm = 0"
| "first_process (p # ps) comm =
     (if compare_strings (pp_comm p) comm 16 0 = 0 then pp_flags p
      else first_process ps comm)"

definition considered :: "u32 \<Rightarrow> 'a list \<Rightarrow> 'a list" where
  "considered n ps = take (min 64 (unat n)) ps"

definition match_file :: "policy_map \<Rightarrow> lsm_kernel \<Rightarrow> u8 list \<Rightarrow> u32" where
  "match_file pm K path =
     (case bpf_map_lookup_elem pm (task_policy_key K) of
        None \<Rightarrow> 0
      | Some v \<Rightarrow> first_file (considered (num_file_policies v) (file_policies v)) path)"

definition match_network :: "policy_map \<Rightarrow> lsm_kernel \<Rightarrow> network_policy \<Rightarrow> u32" where
  "match_network pm K net =
     (case bpf_map_lookup_elem pm (task_policy_key K) of
        None \<Rightarrow> 0
      | Some v \<Rightarrow> first_network (considered (num_network_policies v) (network_policies v)) net)"

definition match_process :: "policy_map \<Rightarrow> lsm_kernel \<Rightarrow> u8 list \<Rightarrow> u32" where
  "match_process pm K comm =
     (case bpf_map_lookup_elem pm (task_policy_key K) of
        None \<Rightarrow> 0
      | Some v \<Rightarrow> first_process (considered (num_process_policies v) (process_policies v)) comm)"

text \<open>
  The three loops have one contract: the flags of the first rule that hits the object, 0 without
  one.  What follows from it is proved once.
\<close>

locale first_match =
  fixes scan :: "'r list \<Rightarrow> 'o \<Rightarrow> u32"
    and hits :: "'r \<Rightarrow> 'o \<Rightarrow> bool"
    and flags :: "'r \<Rightarrow> u32"
  assumes scan_Nil: "scan [] x = 0"
    and scan_Cons: "scan (r # rs) x = (if hits r x then flags r else scan rs x)"
begin

lemma scan_find: "scan rs x = (case find (\<lambda>r. hits r x) rs of None \<Rightarrow> 0 | Some r \<Rightarrow> flags r)"
  by (induction rs) (simp_all add: scan_Nil scan_Cons)

text \<open>Rules that are changed without changing what they hit give the changed flags.\<close>

lemma scan_map:
  assumes "\<And>r. hits (f r) x = hits r x" and "\<And>r. flags (f r) = g (flags r)" and "g 0 = 0"
  shows "scan (map f rs) x = g (scan rs x)"
  by (induction rs) (simp_all add: scan_Nil scan_Cons assms)

text \<open>Rules that represent other rules give what those say.\<close>

lemma scan_represents:
  assumes "list_all2 R ys rs" and "\<And>y r. R y r \<Longrightarrow> hits r x = named y \<and> flags r = value y"
  shows "scan rs x = (case find named ys of None \<Rightarrow> 0 | Some y \<Rightarrow> value y)"
  using assms(1) by (induction rule: list_all2_induct) (simp_all add: scan_Nil scan_Cons assms(2))

end

interpretation file_rules: first_match
  first_file "\<lambda>p path. compare_strings (fp_path p) path 256 (fp_flags p) = 0" fp_flags
  by unfold_locales simp_all

interpretation network_rules: first_match
  first_network
  "\<lambda>p net. np_ip p = np_ip net \<and> (np_port p = np_port net \<or> np_port p = 0) \<and>
     (np_protocol p = np_protocol net \<or> np_protocol p = 0)"
  np_flags
  by unfold_locales simp_all

interpretation process_rules: first_match
  first_process "\<lambda>p comm. compare_strings (pp_comm p) comm 16 0 = 0" pp_flags
  by unfold_locales simp_all

text \<open>\<open>__builtin_memcpy\<close> of a literal, with its terminating zero, to the start of a buffer.\<close>

definition put_literal :: "string \<Rightarrow> u8 list \<Rightarrow> u8 list" where
  "put_literal s buf = map (\<lambda>c. of_nat (of_char c)) s @ 0 # drop (Suc (length s)) buf"

definition get_process_path :: "lsm_kernel \<Rightarrow> u8 list \<Rightarrow> u8 list" where
  "get_process_path K path_buf =
     (if lk_task K \<noteq> None then
        (let path_buf =
               (if lk_mm K then
                  (if lk_exe_inner K then path_buf else put_literal ''<no_exe>'' path_buf)
                else put_literal ''<no_mm>'' path_buf)
         in if lk_exe_garbage K then
              (if lk_exe_dentry K then lk_exe_name K 8 path_buf
               else put_literal ''<unknown>'' path_buf)
            else put_literal ''<no_exe>'' path_buf)
      else put_literal ''<no_task>'' path_buf)"

definition init_context :: "lsm_kernel \<Rightarrow> lsm_event \<Rightarrow> int \<times> lsm_event" where
  "init_context K e =
     (case lk_task K of
        None \<Rightarrow> (- 1, e)
      | Some task \<Rightarrow>
          let e = e\<lparr>le_ts := lk_ktime K\<rparr>;
              e = e\<lparr>le_uid := ucast (drop_bit 32 (lk_uid_gid K))\<rparr>;
              e = e\<lparr>le_cgroup_id := lk_cgroup K\<rparr>;
              e = e\<lparr>le_host_ppid := lt_parent_tgid task\<rparr>;
              e = e\<lparr>le_host_pid := ucast (drop_bit 32 (lk_pid_tgid K))\<rparr>;
              pid = lt_leader_vnr task;
              e = (if le_host_pid e = pid then
                     e\<lparr>le_pid_id := 0, le_mnt_id := 0, le_ppid := le_host_ppid e, le_pid := le_host_pid e\<rparr>
                   else
                     e\<lparr>le_pid_id := lt_pid_ns task, le_mnt_id := lt_mnt_ns task,
                       le_ppid := lt_parent_vnr task, le_pid := pid\<rparr>);
              e = e\<lparr>le_comm := lk_comm K\<rparr>
          in (0, e))"

subsection \<open>What \<open>compare_strings\<close> decides\<close>

text \<open>The characters of a C string.\<close>

definition cstr :: "u8 list \<Rightarrow> u8 list" where
  "cstr bs = takeWhile (\<lambda>c. c \<noteq> 0) bs"

text \<open>What \<open>compare_strings\<close> accepts on terminated strings: equal strings, and with
  \<open>POLICY_RECURSIVE\<close> a pattern that ends in a slash and is a proper prefix.\<close>

definition accepts :: "bool \<Rightarrow> u8 list \<Rightarrow> u8 list \<Rightarrow> bool" where
  "accepts is_recursive pattern name \<longleftrightarrow>
     name = pattern \<or>
     is_recursive \<and> pattern \<noteq> [] \<and> last pattern = 47 \<and> strict_prefix pattern name"

lemma cstr_Cons: "cstr (x # xs) = (if x = 0 then [] else x # cstr xs)"
  by (simp add: cstr_def)

lemma cstr_drop: "i < length a \<Longrightarrow> cstr (drop i a) = (if a ! i = 0 then [] else a ! i # cstr (drop (Suc i) a))"
  by (simp add: Cons_nth_drop_Suc [symmetric] cstr_Cons)

lemma compare_from_accepts:
  "len \<le> length a \<Longrightarrow> len \<le> length b \<or> 0 \<in> set (drop i b) \<Longrightarrow> i \<le> len \<Longrightarrow>
   0 \<in> set (drop i (take len a)) \<Longrightarrow>
   compare_from a b len r i = 0 \<longleftrightarrow>
     cstr (drop i b) = cstr (drop i a) \<or>
     r \<and> strict_prefix (cstr (drop i a)) (cstr (drop i b)) \<and>
       (cstr (drop i a) \<noteq> [] \<and> last (cstr (drop i a)) = 47 \<or>
        cstr (drop i a) = [] \<and> 0 < i \<and> a ! (i - 1) = 47)"
proof (induction a b len r i rule: compare_from.induct)
  case (1 a b len r i)
  show ?case
  proof (cases "i < len")
    case False
    with "1.prems" show ?thesis by simp
  next
    case True
    with "1.prems" have ia: "i < length a" by auto
    have ib: "i < length b" using True "1.prems"(2) by (cases "i < length b") auto
    have rest_b: "len \<le> length b \<or> 0 \<in> set (drop (Suc i) b)" if "b ! i \<noteq> 0"
      using "1.prems"(2) that ib by (auto simp: Cons_nth_drop_Suc [symmetric])
    have rest: "0 \<in> set (drop (Suc i) (take len a))" if "a ! i \<noteq> 0"
    proof -
      have "drop i (take len a) = a ! i # drop (Suc i) (take len a)"
        using True ia by (simp add: Cons_nth_drop_Suc [symmetric])
      with "1.prems"(4) that show ?thesis by auto
    qed
    note unfold = compare_from.simps [of a b len r i] cstr_drop [OF ia] cstr_drop [OF ib]
    show ?thesis
    proof (cases "a ! i = b ! i \<and> a ! i \<noteq> 0")
      case True
      with \<open>i < len\<close> "1.prems" rest rest_b "1.IH" show ?thesis by (simp add: unfold)
    next
      case False
      with \<open>i < len\<close> show ?thesis by (auto simp: unfold)
    qed
  qed
qed

lemma compare_strings_accepts:
  assumes "len \<le> length a" "len \<le> length b \<or> 0 \<in> set b" "0 \<in> set (take len a)"
  shows "compare_strings a b len flags = 0 \<longleftrightarrow> accepts (has flags POLICY_RECURSIVE) (cstr a) (cstr b)"
  using compare_from_accepts [of len a b 0 "has flags POLICY_RECURSIVE"] assms
  by (auto simp: compare_strings_def accepts_def)

end
