(* ===== verification/Lsm_Hooks.thy ===== *)
theory Lsm_Hooks
  imports Lsm_Policy
begin

section \<open>LSM enforcement: the hooks\<close>

text \<open>
  The nine live hooks of \<open>src/src/lsm/enforcement.bpf.c\<close> (everything after \<open>socket_recvmsg\<close> is
  commented out there).  A hook takes the policy map, what its arguments hold, what its
  activation sees of the kernel and the state of the ring buffer, and returns its verdict (0 lets
  the operation go on, -1 refuses it) with the new state.
\<close>

record ring =
  submitted :: "lsm_event list"
  discarded :: nat
  lsm_outstanding :: nat

definition lsm_ringbuf_reserve :: "lsm_kernel \<Rightarrow> ring \<Rightarrow> lsm_event option \<times> ring" where
  "lsm_ringbuf_reserve K s =
     (case lk_reserve K of
        None \<Rightarrow> (None, s)
      | Some e \<Rightarrow> (Some e, s\<lparr>lsm_outstanding := lsm_outstanding s + 1\<rparr>))"

definition lsm_ringbuf_submit :: "lsm_event \<Rightarrow> ring \<Rightarrow> ring" where
  "lsm_ringbuf_submit e s =
     s\<lparr>lsm_outstanding := lsm_outstanding s - 1, submitted := submitted s @ [e]\<rparr>"

definition lsm_ringbuf_discard :: "lsm_event \<Rightarrow> ring \<Rightarrow> ring" where
  "lsm_ringbuf_discard e s = s\<lparr>lsm_outstanding := lsm_outstanding s - 1, discarded := discarded s + 1\<rparr>"

text \<open>\<open>bpf_d_path\<close> into the path of the record, its return code ignored.\<close>

definition d_path :: "lsm_kernel \<Rightarrow> lsm_event \<Rightarrow> lsm_event" where
  "d_path K e = e\<lparr>le_path := snd (lk_d_path K (le_path e))\<rparr>"

definition process_path :: "lsm_kernel \<Rightarrow> lsm_event \<Rightarrow> lsm_event" where
  "process_path K e = e\<lparr>le_source := get_process_path K (le_source e)\<rparr>"

subsection \<open>Processes\<close>

definition bprm_check_security :: "policy_map \<Rightarrow> lsm_kernel \<Rightarrow> ring \<Rightarrow> int \<times> ring" where
  "bprm_check_security pm K s =
     (if \<not> should_monitor pm K POLICY_PROCESS then (0, s)
      else case lsm_ringbuf_reserve K s of
        (None, s) \<Rightarrow> (0, s)
      | (Some e, s) \<Rightarrow>
          let (ret, e) = init_context K e in
          if ret < 0 then (ret, lsm_ringbuf_discard e s)
          else
            let e = process_path K (d_path K e);
                e = e\<lparr>le_event_id := SECID_BPRM_CHECK_SECURITY, le_retval := 0\<rparr>;
                flags = match_process pm K (le_comm e)
            in if flags = 0 then (ret, lsm_ringbuf_discard e s)
               else
                 let mode = (ucast (flags AND POLICY_ALLOW) :: u8);
                     ret = (if mode \<noteq> 0 then - 1 else 0)
                 in if has flags POLICY_PROC_EXEC \<or> has flags POLICY_FILE_EXEC then
                      let e = e\<lparr>le_retval := (if has flags POLICY_AUDIT then 0 else - 1)\<rparr>;
                          ret = le_retval e
                      in (ret, lsm_ringbuf_submit e s)
                    else (ret, lsm_ringbuf_discard e s))"

text \<open>\<open>new_uid\<close> is what the read of \<open>new->uid.val\<close> leaves.  The literal is seven bytes long, and
  the comparison stops at its terminator at the latest.\<close>

definition setuid_literal :: "u8 list" where
  "setuid_literal = map (\<lambda>c. of_nat (of_char c)) ''setuid'' @ [0]"

definition task_fix_setuid :: "u32 \<Rightarrow> policy_map \<Rightarrow> lsm_kernel \<Rightarrow> ring \<Rightarrow> int \<times> ring" where
  "task_fix_setuid new_uid pm K s =
     (if \<not> should_monitor pm K POLICY_PROCESS then (0, s)
      else case lsm_ringbuf_reserve K s of
        (None, s) \<Rightarrow> (0, s)
      | (Some e, s) \<Rightarrow>
          let (ret, e) = init_context K e in
          if ret < 0 then (0, lsm_ringbuf_discard e s)
          else
            let e = e\<lparr>le_event_id := SECID_TASK_FIX_SETUID, le_retval := 0\<rparr>;
                eperm = match_process pm K setuid_literal
            in if eperm = 0 then (0, lsm_ringbuf_discard e s)
               else if has eperm POLICY_PROC_SETUID \<and> new_uid = 0 then
                 let e = e\<lparr>le_retval := (if has eperm POLICY_AUDIT then 0 else - 1)\<rparr>;
                     retval = le_retval e
                 in (retval, lsm_ringbuf_submit e s)
               else (0, lsm_ringbuf_discard e s))"

subsection \<open>The file system\<close>

definition O_WRONLY :: u32 where "O_WRONLY = 1"
definition O_RDWR :: u32 where "O_RDWR = 2"
definition FMODE_EXEC :: u32 where "FMODE_EXEC = push_bit 18 1"

definition file_open :: "u32 \<Rightarrow> policy_map \<Rightarrow> lsm_kernel \<Rightarrow> ring \<Rightarrow> int \<times> ring" where
  "file_open f_flags pm K s =
     (if \<not> should_monitor pm K POLICY_FILE then (0, s)
      else case lsm_ringbuf_reserve K s of
        (None, s) \<Rightarrow> (0, s)
      | (Some e, s) \<Rightarrow>
          let (ret, e) = init_context K e in
          if ret < 0 then (0, lsm_ringbuf_discard e s)
          else
            let e = process_path K (d_path K e);
                flags = match_file pm K (le_path e);
                is_check = False;
                ret = 0;
                (ret, e, is_check) =
                  (if has f_flags (O_WRONLY OR O_RDWR) then
                     let e = e\<lparr>le_retval := - 1\<rparr>; ret = - 1 in
                     if has flags POLICY_FILE_WRITE then
                       let e = e\<lparr>le_retval := (if has flags POLICY_AUDIT then - 1 else 0)\<rparr>
                       in (le_retval e, e, True)
                     else (ret, e, is_check)
                   else if has flags POLICY_FILE_READ \<and> \<not> has f_flags O_WRONLY then
                     let e = e\<lparr>le_retval := (if has flags POLICY_AUDIT then 0 else - 1)\<rparr>
                     in (le_retval e, e, True)
                   else if has flags POLICY_FILE_EXEC \<and> has f_flags FMODE_EXEC then
                     let e = e\<lparr>le_retval := (if has flags POLICY_AUDIT then 0 else - 1)\<rparr>
                     in (le_retval e, e, True)
                   else (ret, e, is_check));
                e = e\<lparr>le_event_id := SECID_FILE_OPEN\<rparr>
            in if is_check then (ret, lsm_ringbuf_submit e s)
               else (ret, lsm_ringbuf_discard e s))"

definition path_unlink :: "policy_map \<Rightarrow> lsm_kernel \<Rightarrow> ring \<Rightarrow> int \<times> ring" where
  "path_unlink pm K s =
     (if \<not> should_monitor pm K POLICY_FILE then (0, s)
      else case lsm_ringbuf_reserve K s of
        (None, s) \<Rightarrow> (0, s)
      | (Some e, s) \<Rightarrow>
          let e = e\<lparr>le_event_id := SECID_PATH_UNLINK\<rparr>;
              (ret, e) = init_context K e
          in if ret < 0 then (0, lsm_ringbuf_discard e s)
             else
               let e = d_path K e;
                   flags = match_file pm K (le_path e)
               in if has flags POLICY_FILE_DELETE then
                    let e = e\<lparr>le_retval := (if has flags POLICY_AUDIT then - 1 else 0)\<rparr>;
                        ret = le_retval e
                    in (ret, lsm_ringbuf_submit e s)
                  else (- 1, lsm_ringbuf_discard e s))"

definition path_mkdir :: "policy_map \<Rightarrow> lsm_kernel \<Rightarrow> ring \<Rightarrow> int \<times> ring" where
  "path_mkdir pm K s =
     (if \<not> should_monitor pm K POLICY_FILE then (0, s)
      else case lsm_ringbuf_reserve K s of
        (None, s) \<Rightarrow> (0, s)
      | (Some e, s) \<Rightarrow>
          let e = e\<lparr>le_event_id := SECID_PATH_MKDIR\<rparr>;
              (ret, e) = init_context K e
          in if ret < 0 then (0, lsm_ringbuf_discard e s)
             else
               let e = d_path K e;
                   flags = match_file pm K (le_path e)
               in if has flags POLICY_FILE_APPEND then
                    let e = e\<lparr>le_retval := (if has flags POLICY_AUDIT then - 1 else 0)\<rparr>;
                        ret = le_retval e
                    in (ret, lsm_ringbuf_submit e s)
                  else (- 1, lsm_ringbuf_discard e s))"

definition path_rename :: "policy_map \<Rightarrow> lsm_kernel \<Rightarrow> ring \<Rightarrow> int \<times> ring" where
  "path_rename pm K s =
     (if \<not> should_monitor pm K POLICY_FILE then (0, s)
      else case lsm_ringbuf_reserve K s of
        (None, s) \<Rightarrow> (0, s)
      | (Some e, s) \<Rightarrow>
          let e = e\<lparr>le_event_id := SECID_PATH_RENAME\<rparr>;
              (ret, e) = init_context K e
          in if ret < 0 then (0, lsm_ringbuf_discard e s)
             else
               let e = d_path K (process_path K e);
                   flags = match_file pm K (le_path e)
               in if has flags POLICY_FILE_RENAME then
                    let e = e\<lparr>le_retval := (if has flags POLICY_AUDIT then - 1 else 0)\<rparr>;
                        ret = le_retval e
                    in (ret, lsm_ringbuf_submit e s)
                  else (ret - 1, lsm_ringbuf_discard e s))"

definition inode_create :: "policy_map \<Rightarrow> lsm_kernel \<Rightarrow> ring \<Rightarrow> int \<times> ring" where
  "inode_create pm K s =
     (if \<not> should_monitor pm K POLICY_FILE then (0, s)
      else case lsm_ringbuf_reserve K s of
        (None, s) \<Rightarrow> (0, s)
      | (Some e, s) \<Rightarrow>
          let e = e\<lparr>le_event_id := SECID_FILE_CREATE\<rparr>;
              file_name = replicate 256 0;
              (ret, e) = init_context K e
          in if ret < 0 then (0, lsm_ringbuf_discard e s)
             else
               let (rc, file_name) = lk_name K file_name in
               if rc < 0 then (0, lsm_ringbuf_discard e s)
               else
                 let flags = match_file pm K file_name in
                 if has flags POLICY_FILE_CREATE then
                   let e = e\<lparr>le_retval := (if has flags POLICY_AUDIT then 0 else - 1)\<rparr>;
                       ret = le_retval e
                   in (ret, lsm_ringbuf_submit e s)
                 else (0, lsm_ringbuf_discard e s))"

subsection \<open>The network\<close>

text \<open>What \<open>socket_connect\<close> reads of its address: the port, and for IPv4 the address, in network
  order.\<close>

datatype sock_address =
    AF_INET_address u16 u32
  | AF_INET6_address u16
  | Other_family

definition IPPROTO_IP :: u8 where "IPPROTO_IP = 0"
definition IPPROTO_TCP :: u8 where "IPPROTO_TCP = 6"
definition IPPROTO_UDP :: u8 where "IPPROTO_UDP = 17"
definition IPPROTO_IPV6 :: u8 where "IPPROTO_IPV6 = 41"
definition SOCK_STREAM :: u16 where "SOCK_STREAM = 1"
definition SOCK_DGRAM :: u16 where "SOCK_DGRAM = 2"

definition no_network :: network_policy where
  "no_network = \<lparr>np_ip = 0, np_subnet_mask = 0, np_port = 0, np_protocol = 0,
     np_uid = replicate 30 0, np_flags = 0\<rparr>"

definition connect_target :: "sock_address \<Rightarrow> u16 \<Rightarrow> network_policy" where
  "connect_target address sock_type =
     (let net = no_network;
          net = (case address of
              AF_INET_address port ip \<Rightarrow>
                net\<lparr>np_ip := ip, np_port := port, np_protocol := IPPROTO_TCP\<rparr>
            | AF_INET6_address port \<Rightarrow>
                net\<lparr>np_ip := 0, np_port := port, np_protocol := IPPROTO_IPV6\<rparr>
            | Other_family \<Rightarrow> net);
          net = net\<lparr>np_protocol :=
              (if sock_type = SOCK_STREAM then IPPROTO_TCP
               else if sock_type = SOCK_DGRAM then IPPROTO_UDP else IPPROTO_IP)\<rparr>
      in net\<lparr>np_flags := POLICY_NET_CONNECT\<rparr>)"

definition socket_connect :: "sock_address \<Rightarrow> u16 \<Rightarrow> policy_map \<Rightarrow> lsm_kernel \<Rightarrow> ring \<Rightarrow> int \<times> ring" where
  "socket_connect address sock_type pm K s =
     (if \<not> should_monitor pm K POLICY_NETWORK then (0, s)
      else case lsm_ringbuf_reserve K s of
        (None, s) \<Rightarrow> (0, s)
      | (Some e, s) \<Rightarrow>
          let (ret, e) = init_context K e in
          if ret < 0 then (0, lsm_ringbuf_discard e s)
          else
            let e = process_path K e;
                e = e\<lparr>le_event_id := SECID_SOCKET_CONNECT\<rparr>;
                net = connect_target address sock_type;
                eperm = match_network pm K net
            in if has eperm (POLICY_NET_CONNECT OR POLICY_NET_DST) then
                 (if has eperm POLICY_AUDIT then
                    (0, lsm_ringbuf_submit (e\<lparr>le_retval := 0\<rparr>) s)
                  else (- 1, lsm_ringbuf_submit (e\<lparr>le_retval := - 1\<rparr>) s))
               else (0, lsm_ringbuf_discard e s))"

text \<open>\<open>skc_daddr\<close> and \<open>skc_num\<close> are what the reads of the socket leave: the remote address in
  network order, the local port in host order.  The protocol is read but not stored.\<close>

definition recvmsg_source :: "u32 \<Rightarrow> u16 \<Rightarrow> network_policy" where
  "recvmsg_source skc_daddr skc_num =
     (let net = no_network;
          net = net\<lparr>np_ip := skc_daddr\<rparr>;
          net = net\<lparr>np_port := skc_num\<rparr>
      in net\<lparr>np_flags := POLICY_NET_CONNECT\<rparr>)"

definition socket_recvmsg :: "u32 \<Rightarrow> u16 \<Rightarrow> policy_map \<Rightarrow> lsm_kernel \<Rightarrow> ring \<Rightarrow> int \<times> ring" where
  "socket_recvmsg skc_daddr skc_num pm K s =
     (if \<not> should_monitor pm K POLICY_NETWORK then (0, s)
      else case lsm_ringbuf_reserve K s of
        (None, s) \<Rightarrow> (0, s)
      | (Some e, s) \<Rightarrow>
          let (ret, e) = init_context K e in
          if ret < 0 then (0, lsm_ringbuf_discard e s)
          else
            let e = process_path K e;
                e = e\<lparr>le_event_id := SECID_SOCKET_RECVMSG\<rparr>;
                net = recvmsg_source skc_daddr skc_num;
                eperm = match_network pm K net
            in if has eperm (POLICY_NET_CONNECT OR POLICY_NET_SRC) then
                 (if has eperm POLICY_AUDIT then
                    (0, lsm_ringbuf_submit (e\<lparr>le_retval := 0\<rparr>) s)
                  else (- 1, lsm_ringbuf_submit (e\<lparr>le_retval := - 1\<rparr>) s))
               else (0, lsm_ringbuf_discard e s))"

subsection \<open>All hooks\<close>

datatype hook_call =
    Bprm_check_security
  | Task_fix_setuid u32
  | File_open u32
  | Path_unlink
  | Path_mkdir
  | Path_rename
  | Inode_create
  | Socket_connect sock_address u16
  | Socket_recvmsg u32 u16

fun run_hook :: "hook_call \<Rightarrow> policy_map \<Rightarrow> lsm_kernel \<Rightarrow> ring \<Rightarrow> int \<times> ring" where
  "run_hook Bprm_check_security = bprm_check_security"
| "run_hook (Task_fix_setuid new_uid) = task_fix_setuid new_uid"
| "run_hook (File_open f_flags) = file_open f_flags"
| "run_hook Path_unlink = path_unlink"
| "run_hook Path_mkdir = path_mkdir"
| "run_hook Path_rename = path_rename"
| "run_hook Inode_create = inode_create"
| "run_hook (Socket_connect address sock_type) = socket_connect address sock_type"
| "run_hook (Socket_recvmsg skc_daddr skc_num) = socket_recvmsg skc_daddr skc_num"

end
