(* ===== verification/Lsm_Enforcement.thy ===== *)
theory Lsm_Enforcement
  imports Lsm_Hooks
begin

unbundle bit_operations_syntax

section \<open>LSM enforcement: what the hooks enforce\<close>

text \<open>
  The abstract specification of the nine hooks and the proof that the programs implement it.  A
  hook first finds the rule that applies (\<open>matched\<close>); the flags of that rule alone then fix the
  verdict and whether it is reported (\<open>verdict\<close>): an operation on the black list is refused if
  its flag is set, one on the white list unless its flag is set, and \<open>POLICY_AUDIT\<close> turns a rule
  into a report that leaves the default in force.
\<close>

subsection \<open>The abstract decision\<close>

fun hook_type :: "hook_call \<Rightarrow> policy_type" where
  "hook_type Bprm_check_security = POLICY_PROCESS"
| "hook_type (Task_fix_setuid _) = POLICY_PROCESS"
| "hook_type (Socket_connect _ _) = POLICY_NETWORK"
| "hook_type (Socket_recvmsg _ _) = POLICY_NETWORK"
| "hook_type _ = POLICY_FILE"

fun hook_nr :: "hook_call \<Rightarrow> section_nr" where
  "hook_nr Bprm_check_security = SECID_BPRM_CHECK_SECURITY"
| "hook_nr (Task_fix_setuid _) = SECID_TASK_FIX_SETUID"
| "hook_nr (File_open _) = SECID_FILE_OPEN"
| "hook_nr Path_unlink = SECID_PATH_UNLINK"
| "hook_nr Path_mkdir = SECID_PATH_MKDIR"
| "hook_nr Path_rename = SECID_PATH_RENAME"
| "hook_nr Inode_create = SECID_FILE_CREATE"
| "hook_nr (Socket_connect _ _) = SECID_SOCKET_CONNECT"
| "hook_nr (Socket_recvmsg _ _) = SECID_SOCKET_RECVMSG"

text \<open>The flags of the rule that applies, when \<open>e0\<close> is the memory of the record.\<close>

fun matched :: "hook_call \<Rightarrow> policy_map \<Rightarrow> lsm_kernel \<Rightarrow> lsm_event \<Rightarrow> u32" where
  "matched Bprm_check_security pm K e0 = match_process pm K (lk_comm K)"
| "matched (Task_fix_setuid _) pm K e0 = match_process pm K setuid_literal"
| "matched Inode_create pm K e0 =
     (if fst (lk_name K (replicate 256 0)) < 0 then 0
      else match_file pm K (snd (lk_name K (replicate 256 0))))"
| "matched (Socket_connect address sock_type) pm K e0 =
     match_network pm K (connect_target address sock_type)"
| "matched (Socket_recvmsg daddr num) pm K e0 = match_network pm K (recvmsg_source daddr num)"
| "matched _ pm K e0 = match_file pm K (snd (lk_d_path K (le_path e0)))"

text \<open>Refused when listed, respectively unless listed; the second component says whether there is a
  report.\<close>

definition black :: "bool \<Rightarrow> u32 \<Rightarrow> int \<times> bool" where
  "black listed flags =
     (if listed then (if has flags POLICY_AUDIT then 0 else - 1, True) else (0, False))"

definition white :: "bool \<Rightarrow> u32 \<Rightarrow> int \<times> bool" where
  "white listed flags =
     (if listed then (if has flags POLICY_AUDIT then - 1 else 0, True) else (- 1, False))"

fun verdict :: "hook_call \<Rightarrow> u32 \<Rightarrow> int \<times> bool" where
  "verdict Bprm_check_security f = black (has f POLICY_PROC_EXEC \<or> has f POLICY_FILE_EXEC) f"
| "verdict (Task_fix_setuid new_uid) f = black (has f POLICY_PROC_SETUID \<and> new_uid = 0) f"
| "verdict (File_open f_flags) f =
     (if has f_flags O_WRONLY \<or> has f_flags O_RDWR then white (has f POLICY_FILE_WRITE) f
      else black (has f POLICY_FILE_READ \<or> has f POLICY_FILE_EXEC \<and> has f_flags FMODE_EXEC) f)"
| "verdict Path_unlink f = white (has f POLICY_FILE_DELETE) f"
| "verdict Path_mkdir f = white (has f POLICY_FILE_APPEND) f"
| "verdict Path_rename f = white (has f POLICY_FILE_RENAME) f"
| "verdict Inode_create f = black (has f POLICY_FILE_CREATE) f"
| "verdict (Socket_connect _ _) f = black (has f POLICY_NET_CONNECT \<or> has f POLICY_NET_DST) f"
| "verdict (Socket_recvmsg _ _) f = black (has f POLICY_NET_CONNECT \<or> has f POLICY_NET_SRC) f"

subsection \<open>The contract of a hook\<close>

text \<open>The identity that a report carries.\<close>

definition describes_task :: "lsm_kernel \<Rightarrow> lsm_task \<Rightarrow> lsm_event \<Rightarrow> bool" where
  "describes_task K t e \<longleftrightarrow>
     le_ts e = lk_ktime K \<and> le_uid e = ucast (drop_bit 32 (lk_uid_gid K)) \<and>
     le_cgroup_id e = lk_cgroup K \<and> le_comm e = lk_comm K \<and>
     le_host_pid e = ucast (drop_bit 32 (lk_pid_tgid K)) \<and> le_host_ppid e = lt_parent_tgid t \<and>
     le_pid e = lt_leader_vnr t \<and>
     (if le_host_pid e = lt_leader_vnr t
      then le_pid_id e = 0 \<and> le_mnt_id e = 0 \<and> le_ppid e = lt_parent_tgid t
      else le_pid_id e = lt_pid_ns t \<and> le_mnt_id e = lt_mnt_ns t \<and> le_ppid e = lt_parent_vnr t)"

definition enforced :: "hook_call \<Rightarrow> policy_map \<Rightarrow> lsm_kernel \<Rightarrow> ring \<Rightarrow> int \<times> ring \<Rightarrow> bool" where
  "enforced c pm K s res \<longleftrightarrow>
     (case lk_reserve K of
        None \<Rightarrow> res = (0, s)
      | Some e0 \<Rightarrow>
          if \<not> should_monitor pm K (hook_type c) then res = (0, s)
          else (case lk_task K of
            None \<Rightarrow> res = (if c = Bprm_check_security then - 1 else 0, s\<lparr>discarded := discarded s + 1\<rparr>)
          | Some t \<Rightarrow>
              let (v, reported) = verdict c (matched c pm K e0) in
              fst res = v \<and>
              (if reported then
                 (\<exists>e. snd res = s\<lparr>submitted := submitted s @ [e]\<rparr> \<and>
                    le_event_id e = hook_nr c \<and> le_retval e = v \<and> describes_task K t e)
               else snd res = s\<lparr>discarded := discarded s + 1\<rparr>)))"

subsection \<open>The hooks meet the contract\<close>

definition task_record :: "lsm_kernel \<Rightarrow> lsm_task \<Rightarrow> lsm_event \<Rightarrow> lsm_event" where
  "task_record K t e = snd (init_context (K\<lparr>lk_task := Some t\<rparr>) e)"

lemma init_context_task: "lk_task K = Some t \<Longrightarrow> init_context K e = (0, task_record K t e)"
  by (simp add: init_context_def task_record_def Let_def)

lemma init_context_no_task: "lk_task K = None \<Longrightarrow> init_context K e = (- 1, e)"
  by (simp add: init_context_def)

lemma task_record [simp]:
  "describes_task K t (task_record K t e)"
  "le_event_id (task_record K t e) = le_event_id e"
  "le_path (task_record K t e) = le_path e"
  "le_source (task_record K t e) = le_source e"
  "le_comm (task_record K t e) = lk_comm K"
  by (simp_all add: init_context_def describes_task_def Let_def task_record_def)

lemma describes_update [simp]:
  "describes_task K t (e\<lparr>le_path := p\<rparr>) = describes_task K t e"
  "describes_task K t (e\<lparr>le_source := p\<rparr>) = describes_task K t e"
  "describes_task K t (e\<lparr>le_event_id := n\<rparr>) = describes_task K t e"
  "describes_task K t (e\<lparr>le_retval := r\<rparr>) = describes_task K t e"
  by (simp_all add: describes_task_def)

lemma submitted_eq [simp]:
  "s\<lparr>submitted := xs @ [x]\<rparr> = s\<lparr>submitted := xs @ [e]\<rparr> \<longleftrightarrow> x = e" for s :: ring
proof
  assume "s\<lparr>submitted := xs @ [x]\<rparr> = s\<lparr>submitted := xs @ [e]\<rparr>"
  then have "submitted (s\<lparr>submitted := xs @ [x]\<rparr>) = submitted (s\<lparr>submitted := xs @ [e]\<rparr>)"
    by (rule arg_cong)
  then show "x = e" by simp
qed simp

text \<open>\<open>__u8 mode = flags & POLICY_ALLOW\<close> keeps the low eight bits of bit 29.\<close>

lemma mode_zero [simp]: "(ucast (f AND POLICY_ALLOW) :: u8) = 0"
proof (rule bit_word_eqI)
  fix n assume "n < LENGTH(8)"
  then have "\<not> bit (f AND POLICY_ALLOW) n"
    unfolding POLICY_ALLOW_def bit_and_iff bit_flag by simp
  then show "bit (ucast (f AND POLICY_ALLOW) :: u8) n = bit 0 n" by (simp add: bit_ucast_iff)
qed

lemmas ring_defs = lsm_ringbuf_reserve_def lsm_ringbuf_submit_def lsm_ringbuf_discard_def
lemmas record_defs = d_path_def process_path_def
lemmas hook_simps = ring_defs record_defs init_context_task init_context_no_task
  enforced_def black_def white_def has_or Let_def

lemma path_unlink_enforced: "enforced Path_unlink pm K s (path_unlink pm K s)"
  by (cases "lk_reserve K"; cases "lk_task K") (simp_all add: path_unlink_def hook_simps)

lemma path_mkdir_enforced: "enforced Path_mkdir pm K s (path_mkdir pm K s)"
  by (cases "lk_reserve K"; cases "lk_task K") (simp_all add: path_mkdir_def hook_simps)

lemma path_rename_enforced: "enforced Path_rename pm K s (path_rename pm K s)"
  by (cases "lk_reserve K"; cases "lk_task K") (simp_all add: path_rename_def hook_simps)

lemma inode_create_enforced: "enforced Inode_create pm K s (inode_create pm K s)"
  by (cases "lk_reserve K"; cases "lk_task K"; cases "lk_name K (replicate 256 0)")
   (simp_all add: inode_create_def hook_simps)

lemma file_open_enforced: "enforced (File_open f_flags) pm K s (file_open f_flags pm K s)"
  by (cases "lk_reserve K"; cases "lk_task K") (simp_all add: file_open_def hook_simps)

lemma task_fix_setuid_enforced: "enforced (Task_fix_setuid u) pm K s (task_fix_setuid u pm K s)"
  by (cases "lk_reserve K"; cases "lk_task K") (simp_all add: task_fix_setuid_def hook_simps)

lemma bprm_check_security_enforced: "enforced Bprm_check_security pm K s (bprm_check_security pm K s)"
  by (cases "lk_reserve K"; cases "lk_task K") (simp_all add: bprm_check_security_def hook_simps)

lemma socket_connect_enforced: "enforced (Socket_connect a t) pm K s (socket_connect a t pm K s)"
  by (cases "lk_reserve K"; cases "lk_task K") (simp_all add: socket_connect_def hook_simps)

lemma socket_recvmsg_enforced: "enforced (Socket_recvmsg a n) pm K s (socket_recvmsg a n pm K s)"
  by (cases "lk_reserve K"; cases "lk_task K") (simp_all add: socket_recvmsg_def hook_simps)

lemma run_hook_enforced: "enforced c pm K s (run_hook c pm K s)"
  by (cases c) (simp_all add: path_unlink_enforced path_mkdir_enforced path_rename_enforced
      inode_create_enforced file_open_enforced task_fix_setuid_enforced
      bprm_check_security_enforced socket_connect_enforced socket_recvmsg_enforced)

subsection \<open>Consequences\<close>

text \<open>The ring buffer is left without a reservation, and the verdict is one of two.\<close>

lemma verdict_range: "fst (verdict c f) = 0 \<or> fst (verdict c f) = - 1"
  by (cases c) (simp_all add: black_def white_def)

lemma run_hook_balanced:
  "lsm_outstanding (snd (run_hook c pm K s)) = lsm_outstanding s"
  "fst (run_hook c pm K s) \<in> {0, - 1}"
  "\<exists>es. submitted (snd (run_hook c pm K s)) = submitted s @ es \<and> length es \<le> 1 \<and>
     (\<forall>e \<in> set es. le_event_id e = hook_nr c \<and> le_retval e = fst (run_hook c pm K s))"
proof -
  obtain v r where res: "run_hook c pm K s = (v, r)" by (cases "run_hook c pm K s")
  have "lsm_outstanding r = lsm_outstanding s \<and> v \<in> {0, - 1} \<and>
    (\<exists>es. submitted r = submitted s @ es \<and> length es \<le> 1 \<and>
       (\<forall>e \<in> set es. le_event_id e = hook_nr c \<and> le_retval e = v))"
  proof -
    have "(\<exists>e. submitted r = submitted s @ [e] \<and> le_event_id e = hook_nr c \<and> le_retval e = v) \<or>
      submitted r = submitted s"
      and "lsm_outstanding r = lsm_outstanding s" and "v = 0 \<or> v = - 1"
      using run_hook_enforced [of c pm K s] verdict_range [of c]
      unfolding res enforced_def
      by (auto simp: Let_def case_prod_unfold split: option.splits if_splits)
    then show ?thesis
      by (metis append_Nil2 empty_iff empty_set insert_iff length_0_conv length_Cons list.simps(15)
          One_nat_def le_numeral_extra(3,4) zero_le_one list.size(3))
  qed
  then show "lsm_outstanding (snd (run_hook c pm K s)) = lsm_outstanding s"
  "fst (run_hook c pm K s) \<in> {0, - 1}"
  "\<exists>es. submitted (snd (run_hook c pm K s)) = submitted s @ es \<and> length es \<le> 1 \<and>
     (\<forall>e \<in> set es. le_event_id e = hook_nr c \<and> le_retval e = fst (run_hook c pm K s))"
    by (simp_all add: res)
qed

text \<open>What a hook decides without any rule.\<close>

definition default_verdict :: "hook_call \<Rightarrow> int" where
  "default_verdict c = fst (verdict c 0)"

lemma audit_verdict: "has f POLICY_AUDIT \<Longrightarrow> fst (verdict c f) = default_verdict c"
  by (cases c) (simp_all add: default_verdict_def black_def white_def)

text \<open>Which fields of a policy count.\<close>

definition inert :: u32 where
  "inert = POLICY_DENY OR POLICY_ALLOW OR POLICY_OWNER OR POLICY_PROC_FORK OR POLICY_PROC_KILL"

definition plain_flags :: "u32 \<Rightarrow> u32" where
  "plain_flags f = f AND NOT inert"

definition plain_value :: "policy_value \<Rightarrow> policy_value" where
  "plain_value v = v\<lparr>
     file_policies := map (\<lambda>p. p\<lparr>fp_uid := [], fp_flags := plain_flags (fp_flags p)\<rparr>) (file_policies v),
     network_policies := map (\<lambda>p. p\<lparr>np_uid := [], np_subnet_mask := 0,
        np_flags := plain_flags (np_flags p)\<rparr>) (network_policies v),
     process_policies := map (\<lambda>p. p\<lparr>pp_uid := [], pp_flags := plain_flags (pp_flags p)\<rparr>)
        (process_policies v)\<rparr>"

definition plain_map :: "policy_map \<Rightarrow> policy_map" where
  "plain_map pm = map (apsnd plain_value) pm"

lemma bit_plain: "bit (plain_flags f) n \<longleftrightarrow> bit f n \<and> n \<notin> {11, 13, 28, 29, 30} "
  unfolding plain_flags_def inert_def POLICY_DENY_def POLICY_ALLOW_def POLICY_OWNER_def
    POLICY_PROC_FORK_def POLICY_PROC_KILL_def bit_and_iff bit_not_iff bit_or_iff bit_flag
  by (auto dest: bit_imp_le_length)

lemma has_plain: "n \<notin> {11, 13, 28, 29, 30} \<Longrightarrow> has (plain_flags f) (push_bit n 1) = has f (push_bit n 1)"
  unfolding has_bit bit_plain by blast

lemmas flag_bits = POLICY_AUDIT_def POLICY_RECURSIVE_def POLICY_FILE_READ_def POLICY_FILE_WRITE_def
  POLICY_FILE_EXEC_def POLICY_FILE_APPEND_def POLICY_FILE_RENAME_def POLICY_FILE_DELETE_def
  POLICY_FILE_CREATE_def POLICY_NET_CONNECT_def POLICY_NET_SRC_def POLICY_NET_DST_def
  POLICY_PROC_EXEC_def POLICY_PROC_SETUID_def

lemma has_plain_flags [simp]:
  "has (plain_flags f) POLICY_AUDIT = has f POLICY_AUDIT"
  "has (plain_flags f) POLICY_RECURSIVE = has f POLICY_RECURSIVE"
  "has (plain_flags f) POLICY_FILE_READ = has f POLICY_FILE_READ"
  "has (plain_flags f) POLICY_FILE_WRITE = has f POLICY_FILE_WRITE"
  "has (plain_flags f) POLICY_FILE_EXEC = has f POLICY_FILE_EXEC"
  "has (plain_flags f) POLICY_FILE_APPEND = has f POLICY_FILE_APPEND"
  "has (plain_flags f) POLICY_FILE_RENAME = has f POLICY_FILE_RENAME"
  "has (plain_flags f) POLICY_FILE_DELETE = has f POLICY_FILE_DELETE"
  "has (plain_flags f) POLICY_FILE_CREATE = has f POLICY_FILE_CREATE"
  "has (plain_flags f) POLICY_NET_CONNECT = has f POLICY_NET_CONNECT"
  "has (plain_flags f) POLICY_NET_SRC = has f POLICY_NET_SRC"
  "has (plain_flags f) POLICY_NET_DST = has f POLICY_NET_DST"
  "has (plain_flags f) POLICY_PROC_EXEC = has f POLICY_PROC_EXEC"
  "has (plain_flags f) POLICY_PROC_SETUID = has f POLICY_PROC_SETUID"
  unfolding flag_bits by (rule has_plain; simp)+

lemma plain_flags_0 [simp]: "plain_flags 0 = 0"
  by (simp add: plain_flags_def)

lemma plain_lookup: "bpf_map_lookup_elem (plain_map pm) k = map_option plain_value (bpf_map_lookup_elem pm k)"
  by (induction pm) (auto simp: plain_map_def bpf_map_lookup_elem_def)

lemma plain_monitor: "should_monitor (plain_map pm) K t = should_monitor pm K t"
  by (simp add: should_monitor_def plain_lookup plain_value_def split: option.split policy_type.split)

lemma compare_plain: "compare_strings a b n (plain_flags f) = compare_strings a b n f"
  by (simp add: compare_strings_def)

lemma first_file_plain:
  "first_file (map (\<lambda>p. p\<lparr>fp_uid := [], fp_flags := plain_flags (fp_flags p)\<rparr>) ps) path =
     plain_flags (first_file ps path)"
  by (rule file_rules.scan_map) (simp_all add: compare_plain)

lemma first_network_plain:
  "first_network (map (\<lambda>p. p\<lparr>np_uid := [], np_subnet_mask := 0, np_flags := plain_flags (np_flags p)\<rparr>) ps)
     net = plain_flags (first_network ps net)"
  by (rule network_rules.scan_map) simp_all

lemma first_process_plain:
  "first_process (map (\<lambda>p. p\<lparr>pp_uid := [], pp_flags := plain_flags (pp_flags p)\<rparr>) ps) comm =
     plain_flags (first_process ps comm)"
  by (rule process_rules.scan_map) simp_all

lemma considered_map: "considered n (map f ps) = map f (considered n ps)"
  by (simp add: considered_def take_map)

lemma match_plain:
  "match_file (plain_map pm) K path = plain_flags (match_file pm K path)"
  "match_network (plain_map pm) K net = plain_flags (match_network pm K net)"
  "match_process (plain_map pm) K comm = plain_flags (match_process pm K comm)"
  by (simp_all add: match_file_def match_network_def match_process_def plain_lookup plain_value_def
      considered_map first_file_plain first_network_plain first_process_plain split: option.split)

lemma plain_flags_zero:
  assumes "plain_flags f = 0"
  shows "\<not> has f POLICY_PROC_SETUID" "\<not> has f POLICY_PROC_EXEC" "\<not> has f POLICY_FILE_EXEC"
  using assms has_plain_flags(14,13,5) [of f] by auto

lemmas plain_simps = plain_monitor match_plain hook_simps case_prod_unfold

lemma run_hook_plain: "run_hook c (plain_map pm) K s = run_hook c pm K s"
proof (cases c)
  case Bprm_check_security
  then show ?thesis
    by (cases "lk_task K")
      (auto simp: bprm_check_security_def plain_simps plain_flags_zero split: option.split)
next
  case (Task_fix_setuid u)
  then show ?thesis
    by (auto simp: task_fix_setuid_def plain_simps plain_flags_zero split: option.split)
qed (cases "lk_reserve K"; cases "lk_task K"; simp add: path_unlink_def path_mkdir_def
      path_rename_def inode_create_def file_open_def socket_connect_def socket_recvmsg_def plain_simps)+

text \<open>Three hooks report with a \<open>source\<close>, and \<open>inode_create\<close> with a path as well, that they never set.\<close>

definition reports :: "ring \<Rightarrow> ring \<Rightarrow> lsm_event list" where
  "reports s s' = drop (length (submitted s)) (submitted s')"

lemma unset_source:
  assumes "lk_reserve K = Some e0" and "c \<in> {Path_unlink, Path_mkdir, Inode_create}"
  shows "\<forall>e \<in> set (reports s (snd (run_hook c pm K s))).
    le_source e = le_source e0 \<and> (c = Inode_create \<longrightarrow> le_path e = le_path e0)"
  using assms
  by (cases "lk_task K"; cases c)
    (simp_all add: path_unlink_def path_mkdir_def inode_create_def hook_simps reports_def
      case_prod_unfold)

subsection \<open>First match\<close>

definition file_rule_ok :: "file_policy \<Rightarrow> bool" where
  "file_rule_ok p \<longleftrightarrow> length (fp_path p) = 256 \<and> 0 \<in> set (fp_path p)"

definition process_rule_ok :: "process_policy \<Rightarrow> bool" where
  "process_rule_ok p \<longleftrightarrow> length (pp_comm p) = 16 \<and> 0 \<in> set (pp_comm p)"

text \<open>The fields of the rules in use have the widths of the struct and their strings end within
  them.\<close>

definition value_ok :: "policy_value \<Rightarrow> bool" where
  "value_ok v \<longleftrightarrow>
     list_all file_rule_ok (considered (num_file_policies v) (file_policies v)) \<and>
     list_all process_rule_ok (considered (num_process_policies v) (process_policies v))"

definition rule_names_path :: "u8 list \<Rightarrow> file_policy \<Rightarrow> bool" where
  "rule_names_path path p \<longleftrightarrow> accepts (has (fp_flags p) POLICY_RECURSIVE) (cstr (fp_path p)) (cstr path)"

lemma first_file_find:
  "list_all file_rule_ok ps \<Longrightarrow> length path = 256 \<Longrightarrow>
   first_file ps path = (case find (rule_names_path path) ps of None \<Rightarrow> 0 | Some p \<Rightarrow> fp_flags p)"
  by (induction ps) (auto simp: file_rule_ok_def rule_names_path_def compare_strings_accepts)

lemma first_process_find:
  "list_all process_rule_ok ps \<Longrightarrow> length comm = 16 \<or> 0 \<in> set comm \<Longrightarrow>
   first_process ps comm = (case find (\<lambda>p. cstr (pp_comm p) = cstr comm) ps of
     None \<Rightarrow> 0 | Some p \<Rightarrow> pp_flags p)"
  by (induction ps) (auto simp: process_rule_ok_def compare_strings_accepts accepts_def)

lemma match_file_find:
  assumes "bpf_map_lookup_elem pm (task_policy_key K) = Some v" and "value_ok v" and "length path = 256"
  shows "match_file pm K path =
    (case find (rule_names_path path) (considered (num_file_policies v) (file_policies v)) of
       None \<Rightarrow> 0 | Some p \<Rightarrow> fp_flags p)"
  using assms by (simp add: match_file_def value_ok_def first_file_find)

lemma match_process_find:
  assumes "bpf_map_lookup_elem pm (task_policy_key K) = Some v" and "value_ok v"
    and "length comm = 16 \<or> 0 \<in> set comm"
  shows "match_process pm K comm =
    (case find (\<lambda>p. cstr (pp_comm p) = cstr comm) (considered (num_process_policies v) (process_policies v)) of
       None \<Rightarrow> 0 | Some p \<Rightarrow> pp_flags p)"
  using assms by (simp add: match_process_def value_ok_def first_process_find)

end
