(* ===== verification/Lsm_Loader.thy ===== *)
theory Lsm_Loader
  imports Lsm_Enforcement Text_Format "HOL-Library.List_Lexorder" "HOL-Library.Char_ord"
begin

unbundle bit_operations_syntax

section \<open>LSM enforcement: the policy loader\<close>

text \<open>
  \<open>src/src/lsm/parser.h\<close> and the policy update of \<open>src/src/lsm/enforcement.cpp\<close>: flag names
  become bits, addresses become words, and the rules of every container found are written into the
  policy map under the namespaces of the container.  What Docker lists and what \<open>/proc\<close> says of
  the namespaces of a process are arguments.  The local variable \<open>value\<close> of the loop is not
  initialised, so its content before each container (\<open>garbage\<close>) is an argument as well; a write
  outside an array of the struct is the error \<open>Out_of_bounds\<close>, an exception of \<open>std::stoi\<close> is
  \<open>Bad_prefix\<close> (the names that were inserted into \<open>flags_map\<close> before an error are forgotten, which
  no later result depends on).
\<close>

subsection \<open>Flags\<close>

text \<open>\<open>flags_map\<close> is a \<open>std::map\<close>: a subscript with an unknown name inserts the name with value 0.\<close>

type_synonym flag_map = "(string \<times> u32) list"

definition flags_map :: flag_map where
  "flags_map =
     [(''POLICY_AUDIT'', POLICY_AUDIT), (''POLICY_DENY'', POLICY_DENY),
      (''POLICY_ALLOW'', POLICY_ALLOW), (''POLICY_OWNER'', POLICY_OWNER),
      (''POLICY_RECURSIVE'', POLICY_RECURSIVE), (''POLICY_FILE_READ'', POLICY_FILE_READ),
      (''POLICY_FILE_WRITE'', POLICY_FILE_WRITE), (''POLICY_FILE_CREATE'', POLICY_FILE_CREATE),
      (''POLICY_FILE_EXEC'', POLICY_FILE_EXEC), (''POLICY_FILE_APPEND'', POLICY_FILE_APPEND),
      (''POLICY_FILE_RENAME'', POLICY_FILE_RENAME), (''POLICY_FILE_DELETE'', POLICY_FILE_DELETE),
      (''POLICY_NET_CONNECT'', POLICY_NET_CONNECT), (''POLICY_NET_SRC'', POLICY_NET_SRC),
      (''POLICY_NET_DST'', POLICY_NET_DST), (''POLICY_PROC_FORK'', POLICY_PROC_FORK),
      (''POLICY_PROC_EXEC'', POLICY_PROC_EXEC), (''POLICY_PROC_KILL'', POLICY_PROC_KILL),
      (''POLICY_PROC_SETUID'', POLICY_PROC_SETUID)]"

definition subscript :: "flag_map \<Rightarrow> string \<Rightarrow> u32 \<times> flag_map" where
  "subscript fm s = (case map_of fm s of Some v \<Rightarrow> (v, fm) | None \<Rightarrow> (0, (s, 0) # fm))"

fun or_flags :: "u32 \<Rightarrow> flag_map \<Rightarrow> string list \<Rightarrow> u32 \<times> flag_map" where
  "or_flags flags fm [] = (flags, fm)"
| "or_flags flags fm (s # ss) =
     (let (v, fm) = subscript fm s in or_flags (flags OR v) fm ss)"

definition string_to_flags :: "flag_map \<Rightarrow> string list \<Rightarrow> u32 \<times> flag_map" where
  "string_to_flags fm str_flags = or_flags 0 fm str_flags"

text \<open>The iteration over the map goes through the names in ascending order.\<close>

definition flags_to_string :: "flag_map \<Rightarrow> u32 \<Rightarrow> string list" where
  "flags_to_string fm flags =
     map fst (filter (\<lambda>(n, v). has flags v) (map (\<lambda>n. (n, the (map_of fm n))) (sorted_list_of_set (fst ` set fm))))"

subsection \<open>Addresses\<close>

definition bswap32 :: "u32 \<Rightarrow> u32" where
  "bswap32 x = le_word (rev (bytes32 x))"

record ip_address =
  ip_host :: u32
  ip_mask :: u32

definition parse_ip :: "string \<Rightarrow> ip_address option" where
  "parse_ip ip_str =
     (let ip_part = takeWhile (\<lambda>c. c \<noteq> CHR ''/'') ip_str;
          ip = bswap32 (case inet_pton4 ip_part of Some x \<Rightarrow> x | None \<Rightarrow> 0)
      in if CHR ''/'' \<in> set ip_str then
           (case stoi (drop (Suc (length ip_part)) ip_str) of
              None \<Rightarrow> None
            | Some prefix_len \<Rightarrow>
                Some \<lparr>ip_host = ip,
                  ip_mask = (if 0 \<le> prefix_len \<and> prefix_len \<le> 32 then
                      (if prefix_len = 0 then 0 else push_bit (nat (32 - prefix_len)) (- 1)) else 0)\<rparr>)
         else Some \<lparr>ip_host = ip, ip_mask = - 1\<rparr>)"

subsection \<open>The parsed policy\<close>

record yaml_file =
  yf_path :: string
  yf_flags :: "string list"
  yf_uid :: "s32 list"

record yaml_network =
  yn_ip :: string
  yn_port :: s32
  yn_protocol :: s32
  yn_flags :: "string list"
  yn_uid :: "s32 list"

record yaml_process =
  yp_comm :: string
  yp_flags :: "string list"
  yp_uid :: "s32 list"

record yaml_lsm =
  y_file :: "yaml_file list"
  y_network :: "yaml_network list"
  y_process :: "yaml_process list"

record lsm_container =
  lc_name :: string
  lc_pid :: int
  lc_policies :: yaml_lsm

subsection \<open>One container\<close>

datatype load_error = Bad_prefix | Out_of_bounds

definition c_str :: "string \<Rightarrow> u8 list" where
  "c_str s = cstr (map (\<lambda>c. of_nat (of_char c)) s)"

definition strcpy :: "u8 list \<Rightarrow> string \<Rightarrow> u8 list" where
  "strcpy buf s = c_str s @ 0 # drop (Suc (length (c_str s))) buf"

definition overwrite :: "'a list \<Rightarrow> 'a list \<Rightarrow> 'a list" where
  "overwrite buf xs = xs @ drop (length xs) buf"

fun load_files :: "yaml_file list \<Rightarrow> flag_map \<Rightarrow> policy_value \<Rightarrow> load_error + flag_map \<times> policy_value" where
  "load_files [] fm v = Inr (fm, v)"
| "load_files (f # fs) fm v =
     (let i = unat (num_file_policies v) in
      if 64 \<le> i \<or> 256 \<le> length (c_str (yf_path f)) \<or> 30 < length (yf_uid f) then Inl Out_of_bounds
      else
        let p = file_policies v ! i;
            p = p\<lparr>fp_path := strcpy (fp_path p) (yf_path f)\<rparr>;
            (flags, fm) = string_to_flags fm (yf_flags f);
            p = p\<lparr>fp_flags := flags\<rparr>;
            p = p\<lparr>fp_uid := overwrite (fp_uid p) (yf_uid f)\<rparr>
        in load_files fs fm (v\<lparr>file_policies := (file_policies v)[i := p],
             num_file_policies := num_file_policies v + 1\<rparr>))"

text \<open>The user ids of a network rule go into the file rule of the same number.\<close>

fun load_networks :: "yaml_network list \<Rightarrow> flag_map \<Rightarrow> policy_value \<Rightarrow> load_error + flag_map \<times> policy_value" where
  "load_networks [] fm v = Inr (fm, v)"
| "load_networks (n # ns) fm v =
     (let i = unat (num_network_policies v) in
      case parse_ip (yn_ip n) of
        None \<Rightarrow> Inl Bad_prefix
      | Some ip \<Rightarrow>
          if 64 \<le> i \<or> 30 < length (yn_uid n) then Inl Out_of_bounds
          else
            let ip_network_order = bswap32 (ip_host ip);
                ip_str = inet_ntop4 ip_network_order;
                p = network_policies v ! i;
                p = (case inet_pton4 ip_str of Some x \<Rightarrow> p\<lparr>np_ip := x\<rparr> | None \<Rightarrow> p);
                p = p\<lparr>np_subnet_mask := ip_mask ip, np_port := ucast (yn_port n),
                      np_protocol := ucast (yn_protocol n)\<rparr>;
                (flags, fm) = string_to_flags fm (yn_flags n);
                p = p\<lparr>np_flags := flags\<rparr>;
                q = file_policies v ! i;
                q = q\<lparr>fp_uid := overwrite (fp_uid q) (yn_uid n)\<rparr>
            in load_networks ns fm (v\<lparr>network_policies := (network_policies v)[i := p],
                 file_policies := (file_policies v)[i := q],
                 num_network_policies := num_network_policies v + 1\<rparr>))"

fun load_processes :: "yaml_process list \<Rightarrow> flag_map \<Rightarrow> policy_value \<Rightarrow> load_error + flag_map \<times> policy_value" where
  "load_processes [] fm v = Inr (fm, v)"
| "load_processes (f # fs) fm v =
     (let i = unat (num_process_policies v) in
      if 64 \<le> i \<or> 16 \<le> length (c_str (yp_comm f)) \<or> 30 < length (yp_uid f) then Inl Out_of_bounds
      else
        let p = process_policies v ! i;
            p = p\<lparr>pp_comm := strcpy (pp_comm p) (yp_comm f)\<rparr>;
            (flags, fm) = string_to_flags fm (yp_flags f);
            p = p\<lparr>pp_flags := flags\<rparr>;
            p = p\<lparr>pp_uid := overwrite (pp_uid p) (yp_uid f)\<rparr>
        in load_processes fs fm (v\<lparr>process_policies := (process_policies v)[i := p],
             num_process_policies := num_process_policies v + 1\<rparr>))"

definition load_value :: "yaml_lsm \<Rightarrow> flag_map \<Rightarrow> policy_value \<Rightarrow> load_error + flag_map \<times> policy_value" where
  "load_value y fm v =
     (case load_files (y_file y) fm (v\<lparr>num_file_policies := 0\<rparr>) of
        Inl err \<Rightarrow> Inl err
      | Inr (fm, v) \<Rightarrow>
          (case load_networks (y_network y) fm (v\<lparr>num_network_policies := 0\<rparr>) of
             Inl err \<Rightarrow> Inl err
           | Inr (fm, v) \<Rightarrow> load_processes (y_process y) fm (v\<lparr>num_process_policies := 0\<rparr>)))"

subsection \<open>The update\<close>

text \<open>\<open>clear_bpf_map\<close>: take the first key and delete it until no key is left.  The key after a
  deleted one is, as documented, again the first.\<close>

fun clear_bpf_map :: "policy_map \<Rightarrow> policy_map" where
  "clear_bpf_map [] = []"
| "clear_bpf_map ((k, v) # pm) = clear_bpf_map pm"

definition make_policy_key :: "(int \<Rightarrow> u32) \<Rightarrow> (int \<Rightarrow> u32) \<Rightarrow> int \<Rightarrow> policy_key" where
  "make_policy_key get_pid_ns_id get_mnt_ns_id pid =
     \<lparr>pid_ns_id = get_pid_ns_id pid, mnt_ns_id = get_mnt_ns_id pid\<rparr>"

definition MAX_CONTAINERS :: nat where "MAX_CONTAINERS = 1000"

text \<open>The loop over the containers; an error ends it and leaves what was written.\<close>

fun load_containers ::
  "(int \<Rightarrow> policy_key) \<Rightarrow> (lsm_container \<Rightarrow> policy_value) \<Rightarrow> lsm_container list \<Rightarrow> flag_map \<Rightarrow> policy_map \<Rightarrow>
   load_error option \<times> flag_map \<times> policy_map" where
  "load_containers key_of garbage [] fm pm = (None, fm, pm)"
| "load_containers key_of garbage (c # cs) fm pm =
     (if lc_pid c = 0 then load_containers key_of garbage cs fm pm
      else
        let key = key_of (lc_pid c) in
        if pid_ns_id key = 0 \<or> mnt_ns_id key = 0 then load_containers key_of garbage cs fm pm
        else (case load_value (lc_policies c) fm (garbage c) of
            Inl err \<Rightarrow> (Some err, fm, pm)
          | Inr (fm, v) \<Rightarrow>
              load_containers key_of garbage cs fm (snd (bpf_map_update_elem MAX_CONTAINERS key v pm))))"

text \<open>
  \<open>update_policy_with_file\<close> from the parsed file on: \<open>named\<close> are its container entries (only their
  absence matters here, the rules reach the function through \<open>found\<close>).  The result is the
  returned number, or the error.
\<close>

definition update_policy_with_file ::
  "(int \<Rightarrow> policy_key) \<Rightarrow> (lsm_container \<Rightarrow> policy_value) \<Rightarrow> string list \<Rightarrow> lsm_container list \<Rightarrow> flag_map \<Rightarrow> policy_map \<Rightarrow>
   (load_error + int) \<times> flag_map \<times> policy_map" where
  "update_policy_with_file key_of garbage named found fm pm =
     (if named = [] then (Inr (- 1), fm, pm)
      else
        let pm = clear_bpf_map pm in
        if found = [] then (Inr (- 1), fm, pm)
        else (case load_containers key_of garbage found fm pm of
            (None, fm, pm) \<Rightarrow> (Inr 0, fm, pm)
          | (Some err, fm, pm) \<Rightarrow> (Inl err, fm, pm)))"

end
