(* ===== verification/Lsm_Loading.thy ===== *)
theory Lsm_Loading
  imports Lsm_Loader
begin

unbundle bit_operations_syntax

section \<open>LSM enforcement: from the policy file to the verdict\<close>

text \<open>
  What the loader makes of a policy: names and bits translate back and forth, every rule of a
  container ends up in the slot of its number, and a hook of a task in that container then finds
  the first rule of the file that accepts its object.
\<close>

subsection \<open>Flags: names and bits\<close>

definition flag_bits_of :: "(string \<times> nat) list" where
  "flag_bits_of =
     [(''POLICY_AUDIT'', 27), (''POLICY_DENY'', 28), (''POLICY_ALLOW'', 29), (''POLICY_OWNER'', 30),
      (''POLICY_RECURSIVE'', 31), (''POLICY_FILE_READ'', 0), (''POLICY_FILE_WRITE'', 1),
      (''POLICY_FILE_CREATE'', 6), (''POLICY_FILE_EXEC'', 2), (''POLICY_FILE_APPEND'', 3),
      (''POLICY_FILE_RENAME'', 4), (''POLICY_FILE_DELETE'', 5), (''POLICY_NET_CONNECT'', 7),
      (''POLICY_NET_SRC'', 8), (''POLICY_NET_DST'', 9), (''POLICY_PROC_FORK'', 11),
      (''POLICY_PROC_EXEC'', 12), (''POLICY_PROC_KILL'', 13), (''POLICY_PROC_SETUID'', 14)]"

lemma flags_map_bits: "flags_map = map (apsnd (\<lambda>n. push_bit n 1)) flag_bits_of"
  unfolding flags_map_def flag_bits_of_def flag_bits POLICY_DENY_def POLICY_ALLOW_def POLICY_OWNER_def
    POLICY_PROC_FORK_def POLICY_PROC_KILL_def by simp

lemma flag_bits_distinct: "distinct (map fst flag_bits_of)" "distinct (map snd flag_bits_of)"
  "\<forall>n \<in> set (map snd flag_bits_of). n < 32"
  by (simp_all add: flag_bits_of_def)

lemma map_of_flags_map: "map_of flags_map s = map_option (\<lambda>n. push_bit n 1) (map_of flag_bits_of s)"
proof -
  have "map_of (map (apsnd f) xs) s = map_option f (map_of xs s)" for f :: "nat \<Rightarrow> u32" and xs
    by (induction xs) auto
  then show ?thesis unfolding flags_map_bits .
qed

lemma flag_bit_less: "map_of flag_bits_of s = Some n \<Longrightarrow> n < 32"
  using flag_bits_distinct(3) by (fastforce dest: map_of_SomeD)

text \<open>The bits that a name, and a list of names, stand for.\<close>

definition flag_value :: "string \<Rightarrow> u32" where
  "flag_value s = (case map_of flags_map s of Some v \<Rightarrow> v | None \<Rightarrow> 0)"

definition flags_of :: "string list \<Rightarrow> u32" where
  "flags_of ss = fold (\<lambda>s f. f OR flag_value s) ss 0"

definition fm_ok :: "flag_map \<Rightarrow> bool" where
  "fm_ok fm \<longleftrightarrow> (\<forall>s. case map_of flags_map s of
     Some v \<Rightarrow> map_of fm s = Some v | None \<Rightarrow> map_of fm s \<in> {None, Some 0})"

lemma fm_ok_initial: "fm_ok flags_map"
  by (simp add: fm_ok_def split: option.split)

lemma subscript_ok:
  assumes "fm_ok fm"
  shows "fst (subscript fm s) = flag_value s" and "fm_ok (snd (subscript fm s))"
    and "fst ` set (snd (subscript fm s)) = insert s (fst ` set fm)"
proof -
  have s: "case map_of flags_map s of Some v \<Rightarrow> map_of fm s = Some v | None \<Rightarrow> map_of fm s \<in> {None, Some 0}"
    using assms by (simp add: fm_ok_def)
  then show "fst (subscript fm s) = flag_value s"
    by (auto simp: subscript_def flag_value_def split: option.splits)
  show "fm_ok (snd (subscript fm s))"
    using assms s unfolding fm_ok_def
    by (auto simp: subscript_def split: option.splits) (metis insert_iff option.exhaust singletonD)+
  show "fst ` set (snd (subscript fm s)) = insert s (fst ` set fm)"
  proof (cases "map_of fm s")
    case (Some v)
    then have "s \<in> fst ` set fm" by (force dest: map_of_SomeD)
    with Some show ?thesis by (auto simp: subscript_def)
  qed (simp add: subscript_def)
qed

lemma or_flags_ok:
  "fm_ok fm \<Longrightarrow> fst (or_flags f fm ss) = fold (\<lambda>s f. f OR flag_value s) ss f \<and>
     fm_ok (snd (or_flags f fm ss)) \<and>
     fst ` set (snd (or_flags f fm ss)) = set ss \<union> fst ` set fm"
proof (induction ss arbitrary: f fm)
  case (Cons s ss)
  from Cons.IH [OF subscript_ok(2) [OF Cons.prems]] show ?case
    using subscript_ok [OF Cons.prems, of s] by (simp add: case_prod_unfold)
qed simp

lemma string_to_flags_ok:
  assumes "fm_ok fm"
  obtains fm' where "string_to_flags fm ss = (flags_of ss, fm')" "fm_ok fm'"
    "fst ` set fm' = set ss \<union> fst ` set fm"
  using or_flags_ok [OF assms, of 0 ss] by (metis flags_of_def prod.collapse string_to_flags_def)

lemma bit_fold_or:
  "bit (fold (\<lambda>s f. f OR flag_value s) ss f) n \<longleftrightarrow> bit f n \<or> (\<exists>s \<in> set ss. bit (flag_value s) n)"
  by (induction ss arbitrary: f) (auto simp: bit_or_iff)

lemma bit_flags_of: "bit (flags_of ss) n \<longleftrightarrow> (\<exists>s \<in> set ss. bit (flag_value s) n)"
  unfolding flags_of_def bit_fold_or by simp

lemma bit_flag_value: "bit (flag_value s) n \<longleftrightarrow> map_of flag_bits_of s = Some n"
proof (cases "map_of flag_bits_of s")
  case None
  then show ?thesis by (simp add: flag_value_def map_of_flags_map)
next
  case (Some m)
  then have "m < 32" by (rule flag_bit_less)
  moreover have "flag_value s = push_bit m 1"
    unfolding flag_value_def map_of_flags_map Some by (simp only: option.map option.case)
  ultimately show ?thesis unfolding Some by (simp only: bit_flag option.inject) blast
qed

text \<open>Two names share no bit.\<close>

lemma flag_bits_inj: "map_of flag_bits_of s = Some n \<Longrightarrow> map_of flag_bits_of s' = Some n \<Longrightarrow> s = s'"
  using flag_bits_distinct(2) by (metis distinct_map inj_onD fst_conv map_of_SomeD snd_conv)

lemma has_flags_of: "map_of flags_map s = Some v \<Longrightarrow> has (flags_of ss) v \<longleftrightarrow> s \<in> set ss"
proof -
  assume "map_of flags_map s = Some v"
  then obtain n where n: "map_of flag_bits_of s = Some n" and v: "v = push_bit n 1"
    by (auto simp: map_of_flags_map)
  have "n < 32" using n by (rule flag_bit_less)
  then have "has (flags_of ss) v \<longleftrightarrow> (\<exists>s' \<in> set ss. map_of flag_bits_of s' = Some n)"
    unfolding v has_bit bit_flags_of bit_flag_value by simp
  also have "\<dots> \<longleftrightarrow> s \<in> set ss" using n flag_bits_inj by blast
  finally show ?thesis .
qed

lemma flags_round_trip:
  assumes "fm_ok fm"
  shows "flags_to_string (snd (string_to_flags fm ss)) (fst (string_to_flags fm ss)) =
    sorted_list_of_set {s \<in> set ss. s \<in> fst ` set flags_map}"
proof -
  obtain fm' where fm': "string_to_flags fm ss = (flags_of ss, fm')" "fm_ok fm'"
    "fst ` set fm' = set ss \<union> fst ` set fm"
    using string_to_flags_ok [OF assms] by blast
  let ?names = "sorted_list_of_set (fst ` set fm')"
  have known: "has (flags_of ss) (the (map_of fm' s)) \<longleftrightarrow> s \<in> set ss \<and> s \<in> fst ` set flags_map"
    if "s \<in> fst ` set fm'" for s
  proof (cases "map_of flags_map s")
    case None
    then have "map_of fm' s = Some 0"
      using fm'(2) that unfolding fm_ok_def by (metis (mono_tags, lifting) insert_iff map_of_eq_None_iff option.simps(4) singletonD)
    with None show ?thesis by (simp add: map_of_eq_None_iff has_def)
  next
    case (Some v)
    then have "map_of fm' s = Some v" using fm'(2) unfolding fm_ok_def by (metis (mono_tags, lifting) option.simps(5))
    moreover have "s \<in> fst ` set flags_map" using Some by (force dest: map_of_SomeD)
    ultimately show ?thesis using has_flags_of [OF Some] by simp
  qed
  have "flags_to_string fm' (flags_of ss) = filter (\<lambda>s. has (flags_of ss) (the (map_of fm' s))) ?names"
    by (simp add: flags_to_string_def filter_map comp_def)
  also have "\<dots> = filter (\<lambda>s. s \<in> set ss \<and> s \<in> fst ` set flags_map) ?names"
    by (rule filter_cong) (auto simp: known)
  also have "\<dots> = sorted_list_of_set {s \<in> set ss. s \<in> fst ` set flags_map}"
    by (rule sorted_distinct_set_unique)
      (auto simp: sorted_wrt_filter fm'(3) intro: sorted_filter)
  finally show ?thesis by (simp add: fm'(1))
qed

subsection \<open>Addresses\<close>

lemma le_bytes_le_nat: "length bs = n \<Longrightarrow> le_bytes n (le_nat bs) = bs"
proof (induction bs arbitrary: n)
  case (Cons b bs)
  have "unat b < 2 ^ LENGTH(8)" by (rule unsigned_less)
  then have "(unat b + 256 * le_nat bs) div 256 = le_nat bs" by simp
  moreover have "(256 :: u8) = 0" by simp
  then have "(of_nat (256 * le_nat bs) :: u8) = 0"
    by (simp only: of_nat_mult of_nat_numeral mult_zero_left)
  ultimately show ?case using Cons.IH [OF refl] Cons.prems
    by (auto simp del: of_nat_mult)
qed simp

lemma le_nat_less: "le_nat bs < 256 ^ length bs"
proof (induction bs)
  case (Cons b bs)
  have "unat b < 2 ^ LENGTH(8)" by (rule unsigned_less)
  with Cons show ?case by simp
qed simp

lemma bytes32_le_word: "length bs = 4 \<Longrightarrow> bytes32 (le_word bs) = bs"
proof -
  assume four: "length bs = 4"
  have "le_nat bs < 256 ^ 4" using le_nat_less [of bs] by (simp only: four)
  then have "unat (le_word bs :: u32) = le_nat bs"
    by (simp add: le_word_def unat_of_nat)
  with four show ?thesis by (simp add: bytes32_def le_bytes_le_nat)
qed

lemma le_word_bytes32: "le_word (bytes32 x) = x"
  by (simp add: bytes32_def le_word_le_bytes)

lemma bswap32_involutive [simp]: "bswap32 (bswap32 x) = x"
  by (simp add: bswap32_def bytes32_le_word le_word_bytes32)

subsection \<open>Filling a table\<close>

text \<open>The loops over the rules have one shape: entry after entry goes into the next slot.\<close>

fun fill :: "('y \<Rightarrow> 'r \<Rightarrow> 'r) \<Rightarrow> 'y list \<Rightarrow> nat \<Rightarrow> 'r list \<Rightarrow> 'r list" where
  "fill w [] i rs = rs"
| "fill w (y # ys) i rs = fill w ys (Suc i) (rs[i := w y (rs ! i)])"

lemma length_fill [simp]: "length (fill w ys i rs) = length rs"
  by (induction ys arbitrary: i rs) simp_all

lemma fill_take: "k \<le> i \<Longrightarrow> take k (fill w ys i rs) = take k rs"
  by (induction ys arbitrary: i rs) simp_all

lemma fill_nth: "i + j < length rs \<Longrightarrow> j < length ys \<Longrightarrow> fill w ys i rs ! (i + j) = w (ys ! j) (rs ! (i + j))"
proof (induction ys arbitrary: i j rs)
  case (Cons y ys)
  show ?case
  proof (cases j)
    case 0
    have "take (Suc i) (fill w (y # ys) i rs) ! i = take (Suc i) (rs[i := w y (rs ! i)]) ! i"
      by (simp add: fill_take)
    with 0 Cons.prems show ?thesis by simp
  next
    case (Suc k)
    with Cons.IH [of "Suc i" k "rs[i := w y (rs ! i)]"] Cons.prems show ?thesis by simp
  qed
qed simp

lemma fill_table:
  assumes "length ys \<le> length rs" and "\<And>y r. y \<in> set ys \<Longrightarrow> r \<in> set rs \<Longrightarrow> P y (w y r)"
  shows "list_all2 P ys (take (length ys) (fill w ys 0 rs))"
  using assms fill_nth [of 0 _ rs ys w] by (auto simp: list_all2_conv_all_nth)

lemma fill_all:
  assumes "\<And>y r. r \<in> set rs \<Longrightarrow> Q r" and "\<And>y r. y \<in> set ys \<Longrightarrow> Q r \<Longrightarrow> Q (w y r)" and "i + length ys \<le> length rs"
  shows "\<forall>r \<in> set (fill w ys i rs). Q r"
  using assms
proof (induction ys arbitrary: i rs)
  case (Cons y ys)
  then have "r \<in> set (rs[i := w y (rs ! i)]) \<Longrightarrow> Q r" for r
    using set_update_subset_insert [of rs i "w y (rs ! i)"] by (auto dest: nth_mem)
  with Cons.prems have "\<forall>r \<in> set (fill w ys (Suc i) (rs[i := w y (rs ! i)])). Q r"
    by (intro Cons.IH) auto
  then show ?case by simp
qed simp

lemma fill_map: "(\<And>y r. h (w y r) = h r) \<Longrightarrow> map h (fill w ys i rs) = map h rs"
proof (induction ys arbitrary: i rs)
  case (Cons y ys)
  have "map h (rs[i := w y (rs ! i)]) = map h rs"
    by (cases "i < length rs") (auto intro!: nth_equalityI simp: nth_list_update Cons.prems)
  with Cons show ?case by simp
qed simp

subsection \<open>The three loops fill their tables\<close>

definition file_fits :: "yaml_file \<Rightarrow> bool" where
  "file_fits f \<longleftrightarrow> length (c_str (yf_path f)) < 256 \<and> length (yf_uid f) \<le> 30"

definition network_fits :: "yaml_network \<Rightarrow> bool" where
  "network_fits n \<longleftrightarrow> parse_ip (yn_ip n) \<noteq> None \<and> length (yn_uid n) \<le> 30"

definition process_fits :: "yaml_process \<Rightarrow> bool" where
  "process_fits f \<longleftrightarrow> length (c_str (yp_comm f)) < 16 \<and> length (yp_uid f) \<le> 30"

definition write_file :: "yaml_file \<Rightarrow> file_policy \<Rightarrow> file_policy" where
  "write_file f p = p\<lparr>fp_path := strcpy (fp_path p) (yf_path f), fp_flags := flags_of (yf_flags f),
     fp_uid := overwrite (fp_uid p) (yf_uid f)\<rparr>"

definition rule_address :: "yaml_network \<Rightarrow> u32" where
  "rule_address n = bswap32 (ip_host (the (parse_ip (yn_ip n))))"

definition write_network :: "yaml_network \<Rightarrow> network_policy \<Rightarrow> network_policy" where
  "write_network n p = p\<lparr>np_ip := rule_address n, np_subnet_mask := ip_mask (the (parse_ip (yn_ip n))),
     np_port := ucast (yn_port n), np_protocol := ucast (yn_protocol n), np_flags := flags_of (yn_flags n)\<rparr>"

definition stray_uid :: "yaml_network \<Rightarrow> file_policy \<Rightarrow> file_policy" where
  "stray_uid n q = q\<lparr>fp_uid := overwrite (fp_uid q) (yn_uid n)\<rparr>"

definition write_process :: "yaml_process \<Rightarrow> process_policy \<Rightarrow> process_policy" where
  "write_process f p = p\<lparr>pp_comm := strcpy (pp_comm p) (yp_comm f), pp_flags := flags_of (yp_flags f),
     pp_uid := overwrite (pp_uid p) (yp_uid f)\<rparr>"

lemma next_slot:
  "unat (n :: u32) + length (y # ys) \<le> 64 \<Longrightarrow> unat (n + 1) = Suc (unat n) \<and> unat n < 64"
  by (simp add: unat_word_ariths)

lemma load_files_run:
  assumes "fm_ok fm" and "list_all file_fits fs" and "unat (num_file_policies v) + length fs \<le> 64"
  shows "\<exists>fm'. fm_ok fm' \<and> load_files fs fm v = Inr (fm', v\<lparr>
    file_policies := fill write_file fs (unat (num_file_policies v)) (file_policies v),
    num_file_policies := num_file_policies v + of_nat (length fs)\<rparr>)"
  using assms
proof (induction fs arbitrary: fm v)
  case (Cons f fs)
  obtain fm1 where fm1: "string_to_flags fm (yf_flags f) = (flags_of (yf_flags f), fm1)" "fm_ok fm1"
    by (rule string_to_flags_ok [OF Cons.prems(1)])
  define v1 where "v1 = v\<lparr>file_policies := (file_policies v)[unat (num_file_policies v) :=
      write_file f (file_policies v ! unat (num_file_policies v))],
    num_file_policies := num_file_policies v + 1\<rparr>"
  note n = next_slot [OF Cons.prems(3)]
  have "load_files (f # fs) fm v = load_files fs fm1 v1"
    using Cons.prems n by (simp add: file_fits_def fm1 v1_def write_file_def Let_def)
  moreover have "\<exists>fm'. fm_ok fm' \<and> load_files fs fm1 v1 = Inr (fm', v1\<lparr>
      file_policies := fill write_file fs (unat (num_file_policies v1)) (file_policies v1),
      num_file_policies := num_file_policies v1 + of_nat (length fs)\<rparr>)"
    using Cons.prems n by (intro Cons.IH fm1) (simp_all add: v1_def)
  ultimately show ?case using n by (simp add: v1_def ac_simps)
qed simp

lemma load_networks_run:
  assumes "fm_ok fm" and "list_all network_fits ns" and "unat (num_network_policies v) + length ns \<le> 64"
  shows "\<exists>fm'. fm_ok fm' \<and> load_networks ns fm v = Inr (fm', v\<lparr>
    network_policies := fill write_network ns (unat (num_network_policies v)) (network_policies v),
    file_policies := fill stray_uid ns (unat (num_network_policies v)) (file_policies v),
    num_network_policies := num_network_policies v + of_nat (length ns)\<rparr>)"
  using assms
proof (induction ns arbitrary: fm v)
  case (Cons f ns)
  obtain fm1 where fm1: "string_to_flags fm (yn_flags f) = (flags_of (yn_flags f), fm1)" "fm_ok fm1"
    by (rule string_to_flags_ok [OF Cons.prems(1)])
  define i where "i = unat (num_network_policies v)"
  define v1 where "v1 = v\<lparr>network_policies := (network_policies v)[i := write_network f (network_policies v ! i)],
    file_policies := (file_policies v)[i := stray_uid f (file_policies v ! i)],
    num_network_policies := num_network_policies v + 1\<rparr>"
  note n = next_slot [OF Cons.prems(3)]
  have "load_networks (f # ns) fm v = load_networks ns fm1 v1"
    using Cons.prems n
    by (auto simp: network_fits_def fm1 v1_def i_def write_network_def stray_uid_def rule_address_def
        inet_pton_ntop Let_def)
  moreover have "\<exists>fm'. fm_ok fm' \<and> load_networks ns fm1 v1 = Inr (fm', v1\<lparr>
      network_policies := fill write_network ns (unat (num_network_policies v1)) (network_policies v1),
      file_policies := fill stray_uid ns (unat (num_network_policies v1)) (file_policies v1),
      num_network_policies := num_network_policies v1 + of_nat (length ns)\<rparr>)"
    using Cons.prems n by (intro Cons.IH fm1) (simp_all add: v1_def)
  ultimately show ?case using n by (simp add: v1_def i_def ac_simps)
qed simp

lemma load_processes_run:
  assumes "fm_ok fm" and "list_all process_fits fs" and "unat (num_process_policies v) + length fs \<le> 64"
  shows "\<exists>fm'. fm_ok fm' \<and> load_processes fs fm v = Inr (fm', v\<lparr>
    process_policies := fill write_process fs (unat (num_process_policies v)) (process_policies v),
    num_process_policies := num_process_policies v + of_nat (length fs)\<rparr>)"
  using assms
proof (induction fs arbitrary: fm v)
  case (Cons f fs)
  obtain fm1 where fm1: "string_to_flags fm (yp_flags f) = (flags_of (yp_flags f), fm1)" "fm_ok fm1"
    by (rule string_to_flags_ok [OF Cons.prems(1)])
  define v1 where "v1 = v\<lparr>process_policies := (process_policies v)[unat (num_process_policies v) :=
      write_process f (process_policies v ! unat (num_process_policies v))],
    num_process_policies := num_process_policies v + 1\<rparr>"
  note n = next_slot [OF Cons.prems(3)]
  have "load_processes (f # fs) fm v = load_processes fs fm1 v1"
    using Cons.prems n by (simp add: process_fits_def fm1 v1_def write_process_def Let_def)
  moreover have "\<exists>fm'. fm_ok fm' \<and> load_processes fs fm1 v1 = Inr (fm', v1\<lparr>
      process_policies := fill write_process fs (unat (num_process_policies v1)) (process_policies v1),
      num_process_policies := num_process_policies v1 + of_nat (length fs)\<rparr>)"
    using Cons.prems n by (intro Cons.IH fm1) (simp_all add: v1_def)
  ultimately show ?case using n by (simp add: v1_def ac_simps)
qed simp

text \<open>What does not fit is written past the end of an array.\<close>

lemma load_files_overrun:
  assumes "\<not> (list_all file_fits fs \<and> unat (num_file_policies v) + length fs \<le> 64)"
    and "unat (num_file_policies v) \<le> 64"
  shows "load_files fs fm v = Inl Out_of_bounds"
  using assms
proof (induction fs arbitrary: fm v)
  case (Cons f fs)
  show ?case
  proof (cases "unat (num_file_policies v) < 64 \<and> file_fits f")
    case True
    then have "unat (num_file_policies v + 1) = Suc (unat (num_file_policies v))"
      by (simp add: unat_word_ariths)
    with True Cons show ?thesis
      by (simp add: file_fits_def Let_def case_prod_unfold)
  next
    case False
    then show ?thesis by (auto simp: file_fits_def Let_def)
  qed
qed simp

subsection \<open>The value of a container\<close>

definition policy_fits :: "yaml_lsm \<Rightarrow> bool" where
  "policy_fits y \<longleftrightarrow>
     list_all file_fits (y_file y) \<and> length (y_file y) \<le> 64 \<and>
     list_all network_fits (y_network y) \<and> length (y_network y) \<le> 64 \<and>
     list_all process_fits (y_process y) \<and> length (y_process y) \<le> 64"

text \<open>The memory of a \<open>struct policy_value\<close>, whatever its bytes.\<close>

definition value_shape :: "policy_value \<Rightarrow> bool" where
  "value_shape v \<longleftrightarrow>
     length (file_policies v) = 64 \<and> length (network_policies v) = 64 \<and>
     length (process_policies v) = 64 \<and>
     (\<forall>p \<in> set (file_policies v). length (fp_path p) = 256) \<and>
     (\<forall>p \<in> set (process_policies v). length (pp_comm p) = 16)"

definition loaded_value :: "yaml_lsm \<Rightarrow> policy_value \<Rightarrow> policy_value" where
  "loaded_value y v = v\<lparr>
     num_file_policies := of_nat (length (y_file y)),
     num_network_policies := of_nat (length (y_network y)),
     num_process_policies := of_nat (length (y_process y)),
     file_policies := fill stray_uid (y_network y) 0 (fill write_file (y_file y) 0 (file_policies v)),
     network_policies := fill write_network (y_network y) 0 (network_policies v),
     process_policies := fill write_process (y_process y) 0 (process_policies v)\<rparr>"

lemma load_value_run:
  assumes "fm_ok fm" and "policy_fits y"
  shows "\<exists>fm'. fm_ok fm' \<and> load_value y fm v = Inr (fm', loaded_value y v)"
proof -
  obtain fm1 where 1: "fm_ok fm1" "load_files (y_file y) fm (v\<lparr>num_file_policies := 0\<rparr>) = Inr (fm1, v\<lparr>
      file_policies := fill write_file (y_file y) 0 (file_policies v),
      num_file_policies := of_nat (length (y_file y))\<rparr>)" (is "_ = Inr (_, ?v1)")
    using load_files_run [OF assms(1), of "y_file y" "v\<lparr>num_file_policies := 0\<rparr>"] assms(2)
    by (auto simp: policy_fits_def)
  obtain fm2 where 2: "fm_ok fm2" "load_networks (y_network y) fm1 (?v1\<lparr>num_network_policies := 0\<rparr>) =
    Inr (fm2, ?v1\<lparr>network_policies := fill write_network (y_network y) 0 (network_policies v),
      file_policies := fill stray_uid (y_network y) 0 (fill write_file (y_file y) 0 (file_policies v)),
      num_network_policies := of_nat (length (y_network y))\<rparr>)" (is "_ = Inr (_, ?v2)")
    using load_networks_run [OF 1(1), of "y_network y" "?v1\<lparr>num_network_policies := 0\<rparr>"] assms(2)
    by (auto simp: policy_fits_def)
  obtain fm3 where 3: "fm_ok fm3" "load_processes (y_process y) fm2 (?v2\<lparr>num_process_policies := 0\<rparr>) =
    Inr (fm3, ?v2\<lparr>process_policies := fill write_process (y_process y) 0 (process_policies v),
      num_process_policies := of_nat (length (y_process y))\<rparr>)" (is "_ = Inr (_, ?v3)")
    using load_processes_run [OF 2(1), of "y_process y" "?v2\<lparr>num_process_policies := 0\<rparr>"] assms(2)
    by (auto simp: policy_fits_def)
  have "?v3 = loaded_value y v" by (simp add: loaded_value_def)
  then have "load_value y fm v = Inr (fm3, loaded_value y v)"
    unfolding load_value_def 1(2) sum.case prod.case 2(2) 3(2) by simp
  with 3(1) show ?thesis by blast
qed

subsection \<open>What the rules say\<close>

definition yaml_file_flags :: "yaml_file list \<Rightarrow> u8 list \<Rightarrow> u32" where
  "yaml_file_flags fs path =
     (case find (\<lambda>f. accepts (''POLICY_RECURSIVE'' \<in> set (yf_flags f)) (c_str (yf_path f)) (cstr path)) fs of
        None \<Rightarrow> 0 | Some f \<Rightarrow> flags_of (yf_flags f))"

definition names_target :: "network_policy \<Rightarrow> yaml_network \<Rightarrow> bool" where
  "names_target net n \<longleftrightarrow>
     rule_address n = np_ip net \<and>
     (ucast (yn_port n) = np_port net \<or> (ucast (yn_port n) :: u16) = 0) \<and>
     (ucast (yn_protocol n) = np_protocol net \<or> (ucast (yn_protocol n) :: u8) = 0)"

definition yaml_network_flags :: "yaml_network list \<Rightarrow> network_policy \<Rightarrow> u32" where
  "yaml_network_flags ns net =
     (case find (names_target net) ns of None \<Rightarrow> 0 | Some n \<Rightarrow> flags_of (yn_flags n))"

definition yaml_process_flags :: "yaml_process list \<Rightarrow> u8 list \<Rightarrow> u32" where
  "yaml_process_flags ps comm =
     (case find (\<lambda>p. c_str (yp_comm p) = comm) ps of None \<Rightarrow> 0 | Some p \<Rightarrow> flags_of (yp_flags p))"

definition file_loaded :: "yaml_file \<Rightarrow> file_policy \<Rightarrow> bool" where
  "file_loaded f p \<longleftrightarrow>
     cstr (fp_path p) = c_str (yf_path f) \<and> fp_flags p = flags_of (yf_flags f) \<and> file_rule_ok p"

definition network_loaded :: "yaml_network \<Rightarrow> network_policy \<Rightarrow> bool" where
  "network_loaded n p \<longleftrightarrow> np_ip p = rule_address n \<and> np_port p = ucast (yn_port n) \<and>
     np_protocol p = ucast (yn_protocol n) \<and> np_flags p = flags_of (yn_flags n)"

definition process_loaded :: "yaml_process \<Rightarrow> process_policy \<Rightarrow> bool" where
  "process_loaded f p \<longleftrightarrow>
     cstr (pp_comm p) = c_str (yp_comm f) \<and> pp_flags p = flags_of (yp_flags f) \<and> process_rule_ok p"

lemma c_str_nonzero: "0 \<notin> set (c_str s)"
  by (auto simp: c_str_def cstr_def dest: set_takeWhileD)

lemma cstr_strcpy: "cstr (strcpy buf s) = c_str s"
proof -
  have "takeWhile (\<lambda>c. c \<noteq> 0) (xs @ 0 # ys) = xs" if "0 \<notin> set xs" for xs ys :: "u8 list"
    using that by (induction xs) auto
  then show ?thesis by (simp add: cstr_def strcpy_def c_str_nonzero)
qed

lemma length_strcpy: "length (c_str s) < length buf \<Longrightarrow> length (strcpy buf s) = length buf"
  by (simp add: strcpy_def)

lemma zero_in_strcpy: "0 \<in> set (strcpy buf s)"
  by (simp add: strcpy_def)

lemma write_file_loaded: "file_fits f \<Longrightarrow> length (fp_path p) = 256 \<Longrightarrow> file_loaded f (write_file f p)"
  by (simp add: file_fits_def file_loaded_def write_file_def cstr_strcpy file_rule_ok_def
      length_strcpy zero_in_strcpy)

lemma write_process_loaded:
  "process_fits f \<Longrightarrow> length (pp_comm p) = 16 \<Longrightarrow> process_loaded f (write_process f p)"
  by (simp add: process_fits_def process_loaded_def write_process_def cstr_strcpy process_rule_ok_def
      length_strcpy zero_in_strcpy)

lemma write_network_loaded: "network_loaded n (write_network n p)"
  by (simp add: network_loaded_def write_network_def)

text \<open>The stray user ids do not change what a rule says.\<close>

lemma file_loaded_stray:
  "list_all2 file_loaded fs (take k (fill stray_uid ns i rs)) = list_all2 file_loaded fs (take k rs)"
proof -
  define h where "h p = p\<lparr>fp_uid := []\<rparr>" for p :: file_policy
  have h: "file_loaded f (h p) = file_loaded f p" for f p
    by (simp add: h_def file_loaded_def file_rule_ok_def)
  have same: "map h (fill stray_uid ns i rs) = map h rs"
    by (rule fill_map) (simp add: h_def stray_uid_def)
  have up_to_h: "list_all2 file_loaded fs (take k ps) = list_all2 file_loaded fs (take k (map h ps))" for ps
    by (simp add: take_map list_all2_map2 h)
  show ?thesis using up_to_h [of "fill stray_uid ns i rs"] up_to_h [of rs] by (simp add: same)
qed

lemma considered_number: "length ys \<le> 64 \<Longrightarrow> considered (of_nat (length ys)) ps = take (length ys) ps"
  by (simp add: considered_def unat_of_nat take_bit_eq_mod)

lemma loaded_tables:
  assumes "policy_fits y" and "value_shape v"
  defines "v' \<equiv> loaded_value y v"
  shows "list_all2 file_loaded (y_file y) (considered (num_file_policies v') (file_policies v'))"
    and "list_all2 network_loaded (y_network y) (considered (num_network_policies v') (network_policies v'))"
    and "list_all2 process_loaded (y_process y) (considered (num_process_policies v') (process_policies v'))"
  using assms(1,2)
  by (auto simp: v'_def loaded_value_def policy_fits_def value_shape_def considered_number
      file_loaded_stray list_all_iff intro!: fill_table write_file_loaded write_process_loaded
      write_network_loaded)

lemma has_recursive: "has (flags_of ss) POLICY_RECURSIVE \<longleftrightarrow> ''POLICY_RECURSIVE'' \<in> set ss"
  by (rule has_flags_of) (simp add: flags_map_def)

lemma first_file_loaded:
  assumes "list_all2 file_loaded fs ps" and "length path = 256"
  shows "first_file ps path = yaml_file_flags fs path"
  unfolding yaml_file_flags_def using assms(1)
  by (rule file_rules.scan_represents)
    (simp add: file_loaded_def file_rule_ok_def compare_strings_accepts has_recursive assms(2))

lemma first_network_loaded:
  assumes "list_all2 network_loaded ns ps"
  shows "first_network ps net = yaml_network_flags ns net"
  unfolding yaml_network_flags_def using assms
  by (rule network_rules.scan_represents) (simp add: network_loaded_def names_target_def)

lemma first_process_loaded:
  assumes "list_all2 process_loaded fs ps" and "cstr comm = name" and "length comm = 16 \<or> 0 \<in> set comm"
  shows "first_process ps comm = yaml_process_flags fs name"
  unfolding yaml_process_flags_def using assms(1)
  by (rule process_rules.scan_represents)
    (use assms(2,3) in \<open>auto simp: process_loaded_def process_rule_ok_def compare_strings_accepts accepts_def\<close>)

end
