(* ===== verification/Lsm_Effect.thy ===== *)
theory Lsm_Effect
  imports Lsm_Loading
begin

unbundle bit_operations_syntax

section \<open>LSM enforcement: the effect of a policy update\<close>

text \<open>
  The whole of \<open>update_policy_with_file\<close>, and what the hooks decide afterwards for the tasks of a
  container: the verdict that the first accepting rule of the parsed file asks for.
\<close>

subsection \<open>The whole update\<close>

definition eligible :: "(int \<Rightarrow> policy_key) \<Rightarrow> lsm_container \<Rightarrow> bool" where
  "eligible key_of c \<longleftrightarrow>
     lc_pid c \<noteq> 0 \<and> pid_ns_id (key_of (lc_pid c)) \<noteq> 0 \<and> mnt_ns_id (key_of (lc_pid c)) \<noteq> 0"

abbreviation store_container ::
  "(int \<Rightarrow> policy_key) \<Rightarrow> (lsm_container \<Rightarrow> policy_value) \<Rightarrow> lsm_container \<Rightarrow> policy_map \<Rightarrow> policy_map" where
  "store_container key_of garbage \<equiv> \<lambda>c pm. snd (bpf_map_update_elem MAX_CONTAINERS (key_of (lc_pid c))
     (loaded_value (lc_policies c) (garbage c)) pm)"

lemma load_containers_run:
  assumes "fm_ok fm" and "\<forall>c \<in> set cs. eligible key_of c \<longrightarrow> policy_fits (lc_policies c)"
  shows "\<exists>fm'. load_containers key_of garbage cs fm pm =
    (None, fm', fold (store_container key_of garbage) (filter (eligible key_of) cs) pm)"
  using assms
proof (induction cs arbitrary: fm pm)
  case (Cons c cs)
  show ?case
  proof (cases "eligible key_of c")
    case True
    with Cons.prems obtain fm1 where "fm_ok fm1"
      "load_value (lc_policies c) fm (garbage c) = Inr (fm1, loaded_value (lc_policies c) (garbage c))"
      using load_value_run [of fm "lc_policies c" "garbage c"] by auto
    with True Cons.IH [of fm1] Cons.prems show ?thesis by (simp add: eligible_def Let_def)
  next
    case False
    then have "load_containers key_of garbage (c # cs) fm pm = load_containers key_of garbage cs fm pm"
      by (auto simp: eligible_def Let_def)
    with False Cons show ?thesis by simp
  qed
qed simp

lemma clear_bpf_map_empty [simp]: "clear_bpf_map pm = []"
  by (induction pm rule: clear_bpf_map.induct) simp_all

lemma update_policy_run:
  assumes "fm_ok fm" and "named \<noteq> []" and "found \<noteq> []"
    and "\<forall>c \<in> set found. eligible key_of c \<longrightarrow> policy_fits (lc_policies c)"
    and "distinct (map (key_of \<circ> lc_pid) (filter (eligible key_of) found))"
    and "length found \<le> MAX_CONTAINERS"
  shows "\<exists>fm' pm'. update_policy_with_file key_of garbage named found fm pm = (Inr 0, fm', pm') \<and>
    (\<forall>k. bpf_map_lookup_elem pm' k =
       map_option (\<lambda>c. loaded_value (lc_policies c) (garbage c))
         (find (\<lambda>c. key_of (lc_pid c) = k) (filter (eligible key_of) found)))"
proof -
  obtain fm' where run: "load_containers key_of garbage found fm [] =
      (None, fm', fold (store_container key_of garbage) (filter (eligible key_of) found) [])"
    using load_containers_run [OF assms(1,4)] by blast
  have "length ([] :: policy_map) + length (filter (eligible key_of) found) \<le> MAX_CONTAINERS"
    using le_trans [OF length_filter_le assms(6)] by simp
  from fold_update_lookup [OF assms(5) this, of "\<lambda>c. loaded_value (lc_policies c) (garbage c)"]
  show ?thesis
    using assms(2,3) run
    by (auto simp: update_policy_with_file_def bpf_map_lookup_elem_def split: option.split)
qed

subsection \<open>From the file to the verdict\<close>

text \<open>The rules of one type, and the flags that they give the object of a call.\<close>

fun has_rules :: "policy_type \<Rightarrow> yaml_lsm \<Rightarrow> bool" where
  "has_rules POLICY_FILE y = (y_file y \<noteq> [])"
| "has_rules POLICY_NETWORK y = (y_network y \<noteq> [])"
| "has_rules POLICY_PROCESS y = (y_process y \<noteq> [])"

fun yaml_matched :: "yaml_lsm \<Rightarrow> hook_call \<Rightarrow> lsm_kernel \<Rightarrow> lsm_event \<Rightarrow> u32" where
  "yaml_matched y Bprm_check_security K e0 = yaml_process_flags (y_process y) (cstr (lk_comm K))"
| "yaml_matched y (Task_fix_setuid _) K e0 = yaml_process_flags (y_process y) (c_str ''setuid'')"
| "yaml_matched y Inode_create K e0 =
     (if fst (lk_name K (replicate 256 0)) < 0 then 0
      else yaml_file_flags (y_file y) (snd (lk_name K (replicate 256 0))))"
| "yaml_matched y (Socket_connect address sock_type) K e0 =
     yaml_network_flags (y_network y) (connect_target address sock_type)"
| "yaml_matched y (Socket_recvmsg daddr num) K e0 =
     yaml_network_flags (y_network y) (recvmsg_source daddr num)"
| "yaml_matched y _ K e0 = yaml_file_flags (y_file y) (snd (lk_d_path K (le_path e0)))"

definition buffers_ok :: "lsm_kernel \<Rightarrow> lsm_event \<Rightarrow> bool" where
  "buffers_ok K e0 \<longleftrightarrow>
     length (lk_comm K) = 16 \<and> length (snd (lk_d_path K (le_path e0))) = 256 \<and>
     length (snd (lk_name K (replicate 256 0))) = 256"

lemma setuid_name: "cstr setuid_literal = c_str ''setuid''" "0 \<in> set setuid_literal"
  by (simp_all add: setuid_literal_def c_str_def cstr_def)

lemma number_positive: "length ys \<le> 64 \<Longrightarrow> (0 :: u32) < of_nat (length ys) \<longleftrightarrow> ys \<noteq> []"
proof -
  assume "length ys \<le> 64"
  then have "unat (of_nat (length ys) :: u32) = length ys" by (simp add: unat_of_nat take_bit_eq_mod)
  then show ?thesis by (simp add: word_less_nat_alt)
qed

lemma loaded_matched:
  assumes "bpf_map_lookup_elem pm (task_policy_key K) = Some (loaded_value y v)"
    and "policy_fits y" and "value_shape v" and "buffers_ok K e0"
  shows "matched c pm K e0 = yaml_matched y c K e0"
    and "should_monitor pm K (hook_type c) = has_rules (hook_type c) y"
proof -
  note tables = loaded_tables [OF assms(2,3)]
  note rules = first_file_loaded [OF tables(1)] first_network_loaded [OF tables(2)]
    first_process_loaded [OF tables(3)]
  show "matched c pm K e0 = yaml_matched y c K e0"
    using assms(4)
    by (cases c) (simp_all add: match_file_def match_network_def match_process_def assms(1) rules
        buffers_ok_def setuid_name)
  show "should_monitor pm K (hook_type c) = has_rules (hook_type c) y"
    using assms(2)
    by (cases "hook_type c")
      (simp_all add: should_monitor_def assms(1) loaded_value_def number_positive policy_fits_def)
qed

lemma run_hook_verdict:
  assumes "lk_reserve K = Some e0" and "lk_task K = Some t"
  shows "fst (run_hook c pm K s) =
    (if should_monitor pm K (hook_type c) then fst (verdict c (matched c pm K e0)) else 0)"
  using run_hook_enforced [of c pm K s] assms
  by (auto simp: enforced_def Let_def case_prod_unfold)

lemma policy_governs:
  assumes "fm_ok fm" and "named \<noteq> []" and "found \<noteq> []"
    and fits: "\<forall>c \<in> set found. eligible key_of c \<longrightarrow> policy_fits (lc_policies c)"
    and keys: "distinct (map (key_of \<circ> lc_pid) (filter (eligible key_of) found))"
    and "length found \<le> MAX_CONTAINERS"
    and c: "c \<in> set found" "eligible key_of c" "value_shape (garbage c)"
    and K: "task_policy_key K = key_of (lc_pid c)" "lk_task K = Some t" "lk_reserve K = Some e0"
      "buffers_ok K e0"
  shows "\<exists>fm' pm'. update_policy_with_file key_of garbage named found fm pm = (Inr 0, fm', pm') \<and>
    (\<forall>h s. fst (run_hook h pm' K s) =
      (if has_rules (hook_type h) (lc_policies c)
       then fst (verdict h (yaml_matched (lc_policies c) h K e0)) else 0))"
proof -
  obtain fm' pm' where upd: "update_policy_with_file key_of garbage named found fm pm = (Inr 0, fm', pm')"
    and look: "\<forall>k. bpf_map_lookup_elem pm' k = map_option (\<lambda>c. loaded_value (lc_policies c) (garbage c))
         (find (\<lambda>c. key_of (lc_pid c) = k) (filter (eligible key_of) found))"
    using update_policy_run [OF assms(1-6)] by blast
  have "find (\<lambda>c'. key_of (lc_pid c') = key_of (lc_pid c)) (filter (eligible key_of) found) = Some c"
  proof -
    have "c \<in> set (filter (eligible key_of) found)" using c by simp
    then obtain c' where c': "find (\<lambda>c'. key_of (lc_pid c') = key_of (lc_pid c)) (filter (eligible key_of) found) = Some c'"
      by (metis (mono_tags, lifting) find_None_iff option.exhaust)
    then have "c' \<in> set (filter (eligible key_of) found)" "key_of (lc_pid c') = key_of (lc_pid c)"
      by (metis (mono_tags, lifting) find_Some_iff nth_mem)+
    then have "c' = c" using keys c by (auto simp: distinct_map inj_on_def)
    with c' show ?thesis by simp
  qed
  with look K(1) have "bpf_map_lookup_elem pm' (task_policy_key K) = Some (loaded_value (lc_policies c) (garbage c))"
    by simp
  note loaded = loaded_matched [OF this _ c(3) K(4)]
  have "policy_fits (lc_policies c)" using fits c by blast
  then have "\<forall>h s. fst (run_hook h pm' K s) = (if has_rules (hook_type h) (lc_policies c)
       then fst (verdict h (yaml_matched (lc_policies c) h K e0)) else 0)"
    by (simp add: run_hook_verdict [OF K(3,2)] loaded)
  with upd show ?thesis by blast
qed

subsection \<open>Addresses and ports of network rules\<close>

lemma no_slash: "CHR ''/'' \<notin> set (decimal n)"
proof
  assume "CHR ''/'' \<in> set (decimal n)"
  with decimal_digits [of n] have "is_digit (CHR ''/'')" by (auto simp: list_all_iff)
  then show False by (simp add: is_digit_def)
qed

lemma inet_ntop4_no_slash: "CHR ''/'' \<notin> set (inet_ntop4 ip)"
  by (auto simp: inet_ntop4_def to_string_def no_slash split: list.splits)

lemma parse_ip_prefix:
  assumes "n \<le> 32"
  shows "parse_ip (inet_ntop4 ip @ ''/'' @ to_string (int n)) =
    Some \<lparr>ip_host = bswap32 ip, ip_mask = push_bit (32 - n) (- 1)\<rparr>"
proof -
  have part: "takeWhile (\<lambda>c. c \<noteq> CHR ''/'') (inet_ntop4 ip @ CHR ''/'' # s) = inet_ntop4 ip" for s
    using inet_ntop4_no_slash [of ip] by (auto simp: takeWhile_append takeWhile_eq_all_conv)
  have "stoi (decimal n) = Some (int n)" using assms by (intro stoi_decimal) simp
  moreover have "NOT (mask 32 :: u32) = 0" by (rule bit_word_eqI) (simp add: bit_simps)
  moreover have "nat (32 - int n) = 32 - n" using assms by simp
  ultimately show ?thesis
    using assms by (simp add: parse_ip_def part Let_def inet_pton_ntop to_string_def)
qed

lemma connect_target_named:
  "names_target (connect_target (AF_INET_address (bswap16 port) ip) sock_type) n \<longleftrightarrow>
     rule_address n = ip \<and>
     (port = bswap16 (ucast (yn_port n)) \<or> (ucast (yn_port n) :: u16) = 0) \<and>
     (ucast (yn_protocol n) =
        (if sock_type = SOCK_STREAM then IPPROTO_TCP else if sock_type = SOCK_DGRAM then IPPROTO_UDP
         else IPPROTO_IP) \<or> (ucast (yn_protocol n) :: u8) = 0)"
proof -
  have swap: "p = bswap16 port \<longleftrightarrow> port = bswap16 p" for p
    using bswap16_involutive by metis
  show ?thesis by (simp add: names_target_def connect_target_def no_network_def Let_def swap)
qed

lemma recvmsg_source_named:
  "names_target (recvmsg_source daddr port) n \<longleftrightarrow>
     rule_address n = daddr \<and> ((ucast (yn_port n) :: u16) = port \<or> (ucast (yn_port n) :: u16) = 0) \<and>
     (ucast (yn_protocol n) :: u8) = 0"
  by (auto simp: names_target_def recvmsg_source_def no_network_def Let_def)

lemma load_value_overrun:
  assumes "length (y_file y) > 64 \<or> list_ex (\<lambda>f. 256 \<le> length (c_str (yf_path f)) \<or> 30 < length (yf_uid f)) (y_file y)"
  shows "load_value y fm v = Inl Out_of_bounds"
proof -
  have "\<not> (list_all file_fits (y_file y) \<and> length (y_file y) \<le> 64)"
    using assms unfolding file_fits_def list_all_iff list_ex_iff by fastforce
  then show ?thesis
    using load_files_overrun [of "y_file y" "v\<lparr>num_file_policies := 0\<rparr>" fm] by (simp add: load_value_def)
qed

end
