(* ===== verification/Raw_Monitor.thy ===== *)
theory Raw_Monitor
  imports Bpf_Maps
begin

section \<open>The raw tracepoint monitor\<close>

text \<open>
  \<open>src/src/raw_tracepoint/raw_tracepoint.bpf.c\<close>: one program on \<open>raw_syscalls/sys_enter\<close> that logs
  every system call whose number is in \<open>syscall_map\<close>, for tasks of a monitored container.  A
  container is known by its control groups, which the program itself adds to when a child of a
  listed process enters a system call.  The numbers of the platform are the function \<open>nr\<close>.  What
  one activation sees of the kernel is the record \<open>raw_kernel\<close>.
\<close>

record raw_event =
  re_timestamp :: u64
  re_cnt :: u64
  re_pid :: u32
  re_tid :: u32
  re_gid :: u32
  re_ppid :: u32
  re_uid :: u32
  re_syscall_nr :: u32
  re_comm :: "u8 list"
  re_syscall :: "u8 list"
  re_args :: "u64 list"
  re_filename :: "u8 list"
  re_argv :: "u8 list list"
  re_cgroup_id :: u64
  re_cgroup_name :: "u8 list"
  re_error_cnt :: u64

record raw_state =
  syscall_map_1 :: "(u32, u8 list) hmap"
  container_pids :: "(u32, u32) hmap"
  container_cgroup_id :: "(u64, u64) hmap"
  cnt :: u64
  err_cnt :: u64
  events_1 :: "raw_event list"
  reserved_1 :: nat

definition raw_max_entries :: nat where "raw_max_entries = 1024"
definition MAX_ARGS :: nat where "MAX_ARGS = 10"

text \<open>
  \<open>rk_user_str p size dst\<close> is the return code and the destination of a string read from user
  memory, \<open>rk_user_ptr p\<close> what the read of a pointer at \<open>p\<close> leaves, \<open>rk_cgroup_name\<close> the read of the
  control group's name.
\<close>

record raw_kernel =
  rk_pid_tgid :: u64
  rk_uid_gid :: u64
  rk_ppid :: u32
  rk_cgroup :: u64
  rk_time :: u64
  rk_comm :: "u8 list"
  rk_reserve :: "raw_event option"
  rk_user_str :: "u64 \<Rightarrow> nat \<Rightarrow> u8 list \<Rightarrow> int \<times> u8 list"
  rk_user_ptr :: "u64 \<Rightarrow> u64"
  rk_task :: bool
  rk_cgroup_name :: "u8 list \<Rightarrow> int \<times> u8 list"

record raw_ctx =
  raw_id :: u64
  raw_args :: "nat \<Rightarrow> u64"

subsection \<open>Helpers\<close>

definition get_cgroup_name :: "raw_kernel \<Rightarrow> u8 list \<Rightarrow> int \<times> u8 list" where
  "get_cgroup_name K buf =
     (if \<not> rk_task K then (- 1, buf)
      else let (rc, buf) = rk_cgroup_name K buf in if rc < 0 then (- 1, buf) else (0, buf))"

definition raw_should_monitor :: "raw_state \<Rightarrow> u32 \<Rightarrow> u64 \<Rightarrow> bool" where
  "raw_should_monitor s ppid cgroup_id \<longleftrightarrow>
     bpf_map_lookup_elem (container_cgroup_id s) cgroup_id \<noteq> None \<or>
     bpf_map_lookup_elem (container_pids s) ppid \<noteq> None"

definition syscalls_with_filename_1 :: "string list" where
  "syscalls_with_filename_1 =
     [''open'', ''unlink'', ''unlinkat'', ''execve'', ''execveat'', ''mkdir'', ''mkdirat'', ''rmdir'',
      ''renameat'', ''renameat2'', ''symlink'', ''symlinkat'', ''link'', ''linkat'', ''chmod'', ''fchmodat'',
      ''chown'', ''lchown'', ''fchownat'', ''access'', ''faccessat'', ''stat'', ''lstat'', ''newfstatat'',
      ''truncate'', ''readlink'', ''readlinkat'']"

definition syscalls_with_filename_2 :: "string list" where
  "syscalls_with_filename_2 = [''openat'']"

definition has_filename_arg :: "(string \<Rightarrow> s32) \<Rightarrow> s32 \<Rightarrow> nat" where
  "has_filename_arg nr syscall_nr =
     (if syscall_nr \<in> set (map nr syscalls_with_filename_1) then 1
      else if syscall_nr \<in> set (map nr syscalls_with_filename_2) then 2 else 0)"

subsection \<open>The program\<close>

text \<open>The empty string, for which only the first byte is written.\<close>

definition no_string :: "u8 list \<Rightarrow> u8 list" where
  "no_string buf = 0 # tl buf"

definition read_filename :: "raw_kernel \<Rightarrow> u64 \<Rightarrow> u8 list \<Rightarrow> u8 list" where
  "read_filename K ptr buf =
     (let (rc, buf) = rk_user_str K ptr 256 buf in if rc < 0 then no_string buf else buf)"

text \<open>The loop over \<open>argv\<close>: \<open>n\<close> more arguments from index \<open>i\<close> on.\<close>

fun read_argv :: "raw_kernel \<Rightarrow> u64 \<Rightarrow> nat \<Rightarrow> nat \<Rightarrow> u8 list list \<Rightarrow> u8 list list" where
  "read_argv K argv i 0 out = out"
| "read_argv K argv i (Suc n) out =
     (let arg = rk_user_ptr K (argv + of_nat (8 * i)) in
      if arg = 0 then out
      else read_argv K argv (Suc i) n (out[i := snd (rk_user_str K arg 128 (out ! i))]))"

definition fill_event :: "(string \<Rightarrow> s32) \<Rightarrow> raw_kernel \<Rightarrow> raw_ctx \<Rightarrow> u8 list \<Rightarrow> raw_state \<Rightarrow> raw_event \<Rightarrow> raw_event" where
  "fill_event nr K ctx syscall_name s e =
     (let e = e\<lparr>re_error_cnt := err_cnt s, re_timestamp := rk_time K, re_cnt := cnt s,
            re_pid := ucast (drop_bit 32 (rk_pid_tgid K)), re_tid := ucast (rk_pid_tgid K),
            re_ppid := rk_ppid K, re_uid := ucast (rk_uid_gid K),
            re_gid := ucast (drop_bit 32 (rk_uid_gid K)), re_syscall_nr := ucast (raw_id ctx),
            re_cgroup_id := rk_cgroup K, re_comm := rk_comm K, re_syscall := syscall_name,
            re_args := map (raw_args ctx) [0..<6]\<rparr>;
          filename_arg = has_filename_arg nr (ucast (raw_id ctx));
          e = e\<lparr>re_filename :=
              (if filename_arg = 1 then read_filename K (raw_args ctx 0) (re_filename e)
               else if filename_arg = 2 then read_filename K (raw_args ctx 1) (re_filename e)
               else no_string (re_filename e))\<rparr>;
          e = e\<lparr>re_argv :=
              (if raw_id ctx = scast (nr ''execve'') \<or> raw_id ctx = scast (nr ''execveat'') then
                 read_argv K (raw_args ctx 1) 0 MAX_ARGS (re_argv e)
               else map no_string (re_argv e))\<rparr>;
          (rc, cgroup_name) = get_cgroup_name K (replicate 64 0)
      in e\<lparr>re_cgroup_name :=
             (if rc = 0 then cgroup_name
              else map (\<lambda>c. of_nat (of_char c)) ''Unknown'' @ 0 # drop 8 (re_cgroup_name e))\<rparr>)"

definition raw_sys_enter :: "(string \<Rightarrow> s32) \<Rightarrow> raw_kernel \<Rightarrow> raw_ctx \<Rightarrow> raw_state \<Rightarrow> int \<times> raw_state" where
  "raw_sys_enter nr K ctx s =
     (let cgroup_id = rk_cgroup K in
      if \<not> raw_should_monitor s (rk_ppid K) cgroup_id then (0, s)
      else
        let s = (case bpf_map_lookup_elem (container_cgroup_id s) cgroup_id of
              Some _ \<Rightarrow> s
            | None \<Rightarrow> s\<lparr>container_cgroup_id := snd (bpf_map_update_elem raw_max_entries cgroup_id cgroup_id
                (container_cgroup_id s))\<rparr>)
        in case bpf_map_lookup_elem (syscall_map_1 s) (ucast (raw_id ctx)) of
             None \<Rightarrow> (0, s)
           | Some syscall_name \<Rightarrow>
               let s = s\<lparr>cnt := cnt s + 1\<rparr> in
               (case rk_reserve K of
                  None \<Rightarrow> (0, s\<lparr>err_cnt := err_cnt s + 1\<rparr>)
                | Some e \<Rightarrow>
                    let s = s\<lparr>reserved_1 := reserved_1 s + 1\<rparr>;
                        e = fill_event nr K ctx syscall_name s e
                    in (0, s\<lparr>events_1 := events_1 s @ [e], reserved_1 := reserved_1 s - 1\<rparr>)))"

subsection \<open>Runs\<close>

text \<open>A sequence of activations, one after the other; \<open>Raw_Race\<close> treats those that overlap.\<close>

definition raw_run :: "(string \<Rightarrow> s32) \<Rightarrow> (raw_kernel \<times> raw_ctx) list \<Rightarrow> raw_state \<Rightarrow> raw_state" where
  "raw_run nr as s = fold (\<lambda>(K, ctx) s. snd (raw_sys_enter nr K ctx s)) as s"

subsection \<open>One activation\<close>

definition listed :: "raw_state \<Rightarrow> raw_ctx \<Rightarrow> bool" where
  "listed s ctx \<longleftrightarrow> bpf_map_lookup_elem (syscall_map_1 s) (ucast (raw_id ctx)) \<noteq> None"

text \<open>What an event says about its activation.\<close>

definition raw_describes :: "raw_kernel \<Rightarrow> raw_ctx \<Rightarrow> raw_event \<Rightarrow> bool" where
  "raw_describes K ctx e \<longleftrightarrow>
     re_timestamp e = rk_time K \<and> re_pid e = ucast (drop_bit 32 (rk_pid_tgid K)) \<and>
     re_tid e = ucast (rk_pid_tgid K) \<and> re_ppid e = rk_ppid K \<and> re_uid e = ucast (rk_uid_gid K) \<and>
     re_gid e = ucast (drop_bit 32 (rk_uid_gid K)) \<and> re_syscall_nr e = ucast (raw_id ctx) \<and>
     re_cgroup_id e = rk_cgroup K \<and> re_comm e = rk_comm K \<and> re_args e = map (raw_args ctx) [0..<6]"

lemma fill_event [simp]:
  "raw_describes K ctx (fill_event nr K ctx name s e)"
  "re_cnt (fill_event nr K ctx name s e) = cnt s"
  "re_error_cnt (fill_event nr K ctx name s e) = err_cnt s"
  "re_syscall (fill_event nr K ctx name s e) = name"
  by (simp_all add: raw_describes_def fill_event_def Let_def case_prod_unfold)

lemma raw_sys_enter_cases:
  assumes run: "raw_sys_enter nr K ctx s = (r, s')"
  obtains (quiet) "\<not> (raw_should_monitor s (rk_ppid K) (rk_cgroup K) \<and> listed s ctx)"
      "events_1 s' = events_1 s" "cnt s' = cnt s" "err_cnt s' = err_cnt s" "reserved_1 s' = reserved_1 s"
  | (lost) "raw_should_monitor s (rk_ppid K) (rk_cgroup K)" "listed s ctx" "rk_reserve K = None"
      "events_1 s' = events_1 s" "cnt s' = cnt s + 1" "err_cnt s' = err_cnt s + 1" "reserved_1 s' = reserved_1 s"
  | (logged) e where "raw_should_monitor s (rk_ppid K) (rk_cgroup K)" "listed s ctx" "rk_reserve K \<noteq> None"
      "events_1 s' = events_1 s @ [e]" "cnt s' = cnt s + 1" "err_cnt s' = err_cnt s" "reserved_1 s' = reserved_1 s"
      "re_cnt e = cnt s + 1" "re_error_cnt e = err_cnt s" "raw_describes K ctx e"
      "bpf_map_lookup_elem (syscall_map_1 s) (ucast (raw_id ctx)) = Some (re_syscall e)"
proof (cases "raw_should_monitor s (rk_ppid K) (rk_cgroup K) \<and> listed s ctx")
  case False
  with quiet run show ?thesis
    by (auto simp: raw_sys_enter_def listed_def Let_def split: option.splits if_splits)
next
  case True
  then obtain name where name: "bpf_map_lookup_elem (syscall_map_1 s) (ucast (raw_id ctx)) = Some name"
    by (auto simp: listed_def)
  show ?thesis
  proof (cases "rk_reserve K")
    case None
    with True name lost run show ?thesis
      by (auto simp: raw_sys_enter_def Let_def split: option.splits)
  next
    case (Some e0)
    define s1 where "s1 = (case bpf_map_lookup_elem (container_cgroup_id s) (rk_cgroup K) of
        Some _ \<Rightarrow> s | None \<Rightarrow> s\<lparr>container_cgroup_id := snd (bpf_map_update_elem raw_max_entries
          (rk_cgroup K) (rk_cgroup K) (container_cgroup_id s))\<rparr>)"
    define s2 where "s2 = s1\<lparr>cnt := cnt s1 + 1, reserved_1 := reserved_1 s1 + 1\<rparr>"
    have s1: "events_1 s1 = events_1 s" "cnt s1 = cnt s" "err_cnt s1 = err_cnt s"
        "reserved_1 s1 = reserved_1 s" "syscall_map_1 s1 = syscall_map_1 s"
      by (simp_all add: s1_def split: option.split)
    have "s' = s2\<lparr>events_1 := events_1 s2 @ [fill_event nr K ctx name s2 e0], reserved_1 := reserved_1 s2 - 1\<rparr>"
      using True name Some run
      by (auto simp: raw_sys_enter_def Let_def s1_def [symmetric] s1(5) s2_def)
    then show ?thesis
      using logged [of "fill_event nr K ctx name s2 e0"] True Some name by (simp add: s2_def s1)
  qed
qed

lemma raw_sys_enter_returns: "fst (raw_sys_enter nr K ctx s) = 0"
  by (simp add: raw_sys_enter_def Let_def split: option.split)

subsection \<open>Loss accounting\<close>

text \<open>Every event carries the number of attempts and the number of losses so far; their difference
  is its place in the buffer.\<close>

definition raw_ok :: "raw_state \<Rightarrow> bool" where
  "raw_ok s \<longleftrightarrow>
     cnt s = err_cnt s + of_nat (length (events_1 s)) \<and> reserved_1 s = 0 \<and>
     (\<forall>i < length (events_1 s). re_cnt (events_1 s ! i) = re_error_cnt (events_1 s ! i) + of_nat (Suc i))"

lemma raw_sys_enter_ok:
  assumes "raw_ok s"
  shows "raw_ok (snd (raw_sys_enter nr K ctx s))"
proof -
  obtain r s' where run: "raw_sys_enter nr K ctx s = (r, s')" by (cases "raw_sys_enter nr K ctx s")
  from run show ?thesis
    by (cases rule: raw_sys_enter_cases)
      (use assms run in \<open>auto simp: raw_ok_def nth_append less_Suc_eq\<close>)
qed

lemma raw_run_ok: "raw_ok s \<Longrightarrow> raw_ok (raw_run nr as s)"
  unfolding raw_run_def
  by (induction as arbitrary: s) (auto simp: raw_sys_enter_ok)

subsection \<open>Control groups are learnt\<close>

lemma raw_run_keeps_cgroup:
  "bpf_map_lookup_elem (container_cgroup_id s) g \<noteq> None \<Longrightarrow>
   bpf_map_lookup_elem (container_cgroup_id (raw_run nr as s)) g \<noteq> None"
  unfolding raw_run_def
proof (induction as arbitrary: s)
  case (Cons a as)
  have "bpf_map_lookup_elem (container_cgroup_id (snd (raw_sys_enter nr K ctx s))) g \<noteq> None" for K ctx
    using Cons.prems hash.lookup_update_other [of g "rk_cgroup K" raw_max_entries "rk_cgroup K"
        "container_cgroup_id s"]
    by (cases "g = rk_cgroup K") (auto simp: raw_sys_enter_def Let_def split: option.splits)
  with Cons.IH show ?case by (simp add: case_prod_unfold)
qed simp

lemma child_adds_cgroup:
  assumes "raw_should_monitor s (rk_ppid K) (rk_cgroup K)"
    and "\<not> hmap_full raw_max_entries (container_cgroup_id s)"
  shows "bpf_map_lookup_elem (container_cgroup_id (snd (raw_sys_enter nr K ctx s))) (rk_cgroup K) \<noteq> None"
  using assms hash.update_stores [of raw_max_entries "container_cgroup_id s" "rk_cgroup K" "rk_cgroup K"]
  by (auto simp: raw_sys_enter_def Let_def split: option.splits)

lemma learnt_for_good:
  assumes "raw_should_monitor s (rk_ppid K) (rk_cgroup K)"
    and "\<not> hmap_full raw_max_entries (container_cgroup_id s)"
  shows "raw_should_monitor (raw_run nr ((K, ctx) # as) s) ppid (rk_cgroup K)"
  using raw_run_keeps_cgroup [OF child_adds_cgroup [OF assms], of nr as nr ctx]
  by (simp add: raw_run_def raw_should_monitor_def)

subsection \<open>File names\<close>

text \<open>Calls of the first list whose path is the second argument.\<close>

definition path_is_second :: "string list" where
  "path_is_second =
     [''unlinkat'', ''execveat'', ''mkdirat'', ''renameat'', ''renameat2'', ''linkat'', ''fchmodat'', ''fchownat'',
      ''faccessat'', ''newfstatat'', ''readlinkat'']"

lemma path_is_second_listed: "set path_is_second \<subseteq> set syscalls_with_filename_1"
  by (simp add: path_is_second_def syscalls_with_filename_1_def)

lemma filename_from_descriptor:
  assumes "n \<in> set path_is_second" and "ucast (raw_id ctx) = nr n"
  shows "re_filename (fill_event nr K ctx name s e) = read_filename K (raw_args ctx 0) (re_filename e)"
proof -
  have "has_filename_arg nr (ucast (raw_id ctx)) = 1"
    using assms path_is_second_listed by (auto simp: has_filename_arg_def)
  then show ?thesis by (simp add: fill_event_def Let_def case_prod_unfold)
qed

text \<open>An event that was added is the filled record.\<close>

lemma raw_event_filled:
  assumes "events_1 (snd (raw_sys_enter nr K ctx s)) = events_1 s @ [e]"
  shows "\<exists>e0 name s1. rk_reserve K = Some e0 \<and> e = fill_event nr K ctx name s1 e0"
proof -
  define s1 where "s1 = (case bpf_map_lookup_elem (container_cgroup_id s) (rk_cgroup K) of
      Some _ \<Rightarrow> s | None \<Rightarrow> s\<lparr>container_cgroup_id := snd (bpf_map_update_elem raw_max_entries
        (rk_cgroup K) (rk_cgroup K) (container_cgroup_id s))\<rparr>)"
  have "events_1 s1 = events_1 s" by (simp add: s1_def split: option.split)
  with assms show ?thesis
    by (auto simp: raw_sys_enter_def Let_def s1_def [symmetric] split: option.splits if_splits)
qed

lemma raw_filename_from_descriptor:
  assumes "n \<in> set path_is_second" and "ucast (raw_id ctx) = nr n"
    and "events_1 (snd (raw_sys_enter nr K ctx s)) = events_1 s @ [e]"
  shows "\<exists>e0. rk_reserve K = Some e0 \<and> re_filename e = read_filename K (raw_args ctx 0) (re_filename e0)"
  using raw_event_filled [OF assms(3)] filename_from_descriptor [where nr = nr, OF assms(1,2)] by auto

end
