(* ===== verification/Raw_Loader.thy ===== *)
theory Raw_Loader
  imports Raw_Monitor Text_Format
begin

section \<open>The raw tracepoint monitor: user space\<close>

text \<open>
  \<open>syscall_list.h\<close>, \<open>container_info.cpp\<close> and the updates of \<open>raw_tracepoint.cpp\<close>: which system
  calls are listed, and which processes and control groups the program is told to watch.  What the
  Docker API returns is a list of id, name and process id of the running containers; \<open>inode\<close> is the
  inode of the control group directory of a container id, when the directory is found; \<open>garbage\<close> is
  what an uninitialised \<open>cgroup_id\<close> holds.  The member \<open>raw_tp_policy\<close> of a container is set from a
  policy that is never stored and is read by nothing; it is left out.
\<close>

subsection \<open>The table of system calls\<close>

definition syscall_list :: "string list" where
  "syscall_list =
     [''clone'', ''clone3'', ''execve'', ''execveat'', ''fork'', ''vfork'', ''exit'', ''exit_group'',
      ''wait4'', ''waitid'', ''kill'', ''tkill'', ''tgkill'', ''ptrace'', ''sched_yield'',
      ''sched_setaffinity'', ''sched_getaffinity'', ''open'', ''openat'', ''openat2'', ''close'',
      ''read'', ''pread64'', ''write'', ''pwrite64'', ''readv'', ''writev'', ''lseek'', ''truncate'',
      ''ftruncate'', ''creat'', ''link'', ''linkat'', ''symlink'', ''symlinkat'', ''readlink'',
      ''readlinkat'', ''unlink'', ''unlinkat'', ''rename'', ''renameat'', ''renameat2'', ''brk'',
      ''mmap'', ''munmap'', ''mprotect'', ''mremap'', ''msync'', ''madvise'', ''mincore'', ''mlock'',
      ''munlock'', ''mlockall'', ''munlockall'', ''socket'', ''socketpair'', ''bind'', ''listen'',
      ''accept'', ''accept4'', ''connect'', ''getsockname'', ''getpeername'', ''sendto'', ''recvfrom'',
      ''sendmsg'', ''recvmsg'', ''shutdown'', ''setsockopt'', ''getsockopt'', ''pipe'', ''pipe2'',
      ''msgget'', ''msgsnd'', ''msgrcv'', ''msgctl'', ''semget'', ''semop'', ''semctl'', ''shmget'',
      ''shmat'', ''shmctl'', ''shmdt'', ''rt_sigaction'', ''rt_sigprocmask'', ''rt_sigreturn'',
      ''pause'', ''uname'', ''sysinfo'', ''getrlimit'', ''setrlimit'', ''getrusage'', ''times'',
      ''gettimeofday'', ''settimeofday'', ''clock_gettime'', ''clock_settime'', ''clock_getres'',
      ''getpid'', ''getppid'', ''getuid'', ''geteuid'', ''getgid'', ''getegid'', ''setuid'', ''setgid'',
      ''setreuid'', ''setregid'', ''setresuid'', ''setresgid'', ''chdir'', ''fchdir'', ''getcwd'',
      ''mkdir'', ''mkdirat'', ''rmdir'', ''getdents'', ''getdents64'', ''stat'', ''fstat'', ''lstat'',
      ''access'', ''faccessat'', ''chmod'', ''fchmod'', ''fchmodat'', ''chown'', ''fchown'', ''lchown'',
      ''fchownat'', ''utime'', ''utimes'', ''futimesat'', ''utimensat'', ''ioctl'', ''fcntl'',
      ''fsync'', ''fdatasync'', ''sync'', ''mount'', ''umount2'', ''pivot_root'', ''syslog'', ''acct'',
      ''personality'', ''prctl'', ''arch_prctl'', ''quotactl'', ''setxattr'', ''lsetxattr'',
      ''fsetxattr'', ''getxattr'', ''lgetxattr'', ''fgetxattr'', ''listxattr'', ''llistxattr'',
      ''flistxattr'', ''removexattr'', ''lremovexattr'', ''fremovexattr'', ''capget'', ''capset'',
      ''seccomp'', ''keyctl'', ''add_key'', ''request_key'', ''sendmmsg'', ''recvmmsg'',
      ''epoll_create'', ''epoll_create1'', ''epoll_ctl'', ''epoll_wait'', ''epoll_pwait'',
      ''set_tid_address'', ''futex'', ''sched_setscheduler'', ''sched_getscheduler'',
      ''sched_setparam'', ''sched_getparam'', ''setns'', ''unshare'', ''statfs'', ''fstatfs'',
      ''sync_file_range'', ''fallocate'', ''dup'', ''dup2'', ''dup3'', ''inotify_init'',
      ''inotify_init1'', ''inotify_add_watch'', ''inotify_rm_watch'', ''clock_nanosleep'',
      ''timer_create'', ''timer_settime'', ''timer_gettime'', ''timer_delete'', ''clone3'',
      ''pidfd_open'', ''pidfd_send_signal'', ''pidfd_getfd'', ''getcpu'', ''sched_setattr'',
      ''sched_getattr'', ''sched_get_priority_max'', ''sched_get_priority_min'',
      ''sched_rr_get_interval'', ''memfd_create'', ''mlock2'', ''pkey_mprotect'', ''pkey_alloc'',
      ''pkey_free'', ''name_to_handle_at'', ''open_by_handle_at'', ''syncfs'', ''renameat2'',
      ''copy_file_range'', ''recvmmsg'', ''sendmmsg'', ''setsockopt'', ''getsockopt'',
      ''landlock_create_ruleset'', ''landlock_add_rule'', ''landlock_restrict_self'',
      ''rt_sigqueueinfo'', ''rt_tgsigqueueinfo'', ''signalfd'', ''signalfd4'', ''io_uring_setup'',
      ''io_uring_enter'', ''io_uring_register'', ''kexec_load'', ''kexec_file_load'', ''init_module'',
      ''finit_module'', ''delete_module'', ''reboot'', ''adjtimex'', ''swapon'', ''swapoff'',
      ''fanotify_init'', ''fanotify_mark'', ''splice'', ''tee'', ''vmsplice'', ''readahead'',
      ''fadvise64'', ''process_vm_readv'', ''process_vm_writev'', ''mq_open'', ''mq_unlink'',
      ''mq_timedsend'', ''mq_timedreceive'', ''mq_notify'', ''mq_getsetattr'', ''setdomainname'',
      ''sethostname'', ''bpf'', ''userfaultfd'', ''perf_event_open'', ''sysfs'', ''name_to_handle_at'',
      ''open_by_handle_at'', ''kcmp'', ''finit_module'', ''seccomp'', ''getrandom'', ''membarrier'',
      ''rseq'', ''timer_getoverrun'', ''timerfd_create'', ''timerfd_gettime'', ''timerfd_settime'',
      ''clock_adjtime'', ''nanosleep'', ''eventfd'', ''eventfd2'', ''poll'', ''ppoll'', ''select'',
      ''pselect6'', ''setfsgid'', ''setfsuid'', ''setgroups'', ''setsid'', ''setpgid'', ''getpgid'',
      ''getsid'', ''getpriority'', ''setpriority'', ''io_cancel'', ''io_destroy'', ''io_getevents'',
      ''io_setup'', ''io_submit'', ''ioprio_get'', ''ioprio_set'', ''mbind'', ''migrate_pages'',
      ''move_pages'', ''remap_file_pages'', ''fallocate'', ''fsconfig'', ''fsmount'', ''fsopen'',
      ''fspick'', ''mount_setattr'', ''move_mount'', ''open_tree'', ''accept4'', ''socketpair'',
      ''sendfile'', ''sendmmsg'', ''recvmmsg'', ''sigaltstack'', ''signalfd'', ''signalfd4'',
      ''rt_sigqueueinfo'', ''rt_tgsigqueueinfo'', ''rt_sigpending'', ''rt_sigsuspend'',
      ''process_madvise'', ''process_vm_readv'', ''process_vm_writev'', ''uname'', ''sysinfo'',
      ''syslog'', ''reboot'', ''kexec_load'', ''kexec_file_load'', ''landlock_create_ruleset'',
      ''landlock_add_rule'', ''landlock_restrict_self'', ''seccomp'', ''bpf'', ''perf_event_open'',
      ''getcpu'', ''setns'', ''unshare'', ''pivot_root'', ''prlimit64'', ''quotactl'', ''quotactl_fd'',
      ''statx'', ''membarrier'', ''rseq'', ''clone3'', ''close_range'', ''openat2'', ''pidfd_open'',
      ''pidfd_getfd'', ''pidfd_send_signal'']"

text \<open>\<open>strncpy\<close> of at most 15 characters into 16 zero bytes.\<close>

definition table_name :: "string \<Rightarrow> u8 list" where
  "table_name name =
     (let value = map (\<lambda>c. of_nat (of_char c)) (take 15 name) in value @ replicate (16 - length value) 0)"

definition init_syscall_map :: "(string \<Rightarrow> u32) \<Rightarrow> (u32, u8 list) hmap \<Rightarrow> (u32, u8 list) hmap" where
  "init_syscall_map nr m =
     fold (\<lambda>name m. snd (bpf_map_update_elem raw_max_entries (nr name) (table_name name) m)) syscall_list m"

subsection \<open>Containers\<close>

record raw_container =
  rc_id :: string
  rc_name :: string
  rc_pid :: int
  rc_cgroup_id :: u64

definition raw_isMonitored ::
  "(string \<Rightarrow> string \<Rightarrow> bool option) \<Rightarrow> string list \<Rightarrow> string \<Rightarrow> string list" where
  "raw_isMonitored regex_match monitored_containers name =
     filter (\<lambda>pattern. name = pattern \<or> regex_match pattern name = Some True) monitored_containers"

text \<open>One entry for every pattern that a running container matches.\<close>

definition raw_getContainerPIDs ::
  "(string \<Rightarrow> string \<Rightarrow> bool option) \<Rightarrow> string list \<Rightarrow> u64 \<Rightarrow> (string \<times> string \<times> int) list \<Rightarrow>
   raw_container list" where
  "raw_getContainerPIDs regex_match monitored garbage docker =
     concat (map (\<lambda>(cid, name, pid).
       map (\<lambda>_. \<lparr>rc_id = cid, rc_name = name, rc_pid = pid, rc_cgroup_id = garbage\<rparr>)
         (raw_isMonitored regex_match monitored name)) docker)"

fun set_cgroup :: "string \<Rightarrow> u64 \<Rightarrow> raw_container list \<Rightarrow> raw_container list" where
  "set_cgroup cid i [] = []"
| "set_cgroup cid i (c # cs) =
     (if rc_id c = cid then c\<lparr>rc_cgroup_id := i\<rparr> # cs else c # set_cgroup cid i cs)"

definition getContainerInode ::
  "(string \<Rightarrow> u64 option) \<Rightarrow> string \<Rightarrow> raw_container list \<Rightarrow> raw_container list" where
  "getContainerInode inode cid cs = (case inode cid of None \<Rightarrow> cs | Some i \<Rightarrow> set_cgroup cid i cs)"

definition find_containers ::
  "(string \<Rightarrow> string \<Rightarrow> bool option) \<Rightarrow> (string \<Rightarrow> u64 option) \<Rightarrow> u64 \<Rightarrow> string list \<Rightarrow>
   (string \<times> string \<times> int) list \<Rightarrow> raw_container list" where
  "find_containers regex_match inode garbage monitored docker =
     (let cs = raw_getContainerPIDs regex_match monitored garbage docker
      in fold (getContainerInode inode) (map rc_id cs) cs)"

subsection \<open>The monitoring maps\<close>

definition pid_key :: "raw_container \<Rightarrow> u32" where "pid_key c = word_of_int (rc_pid c)"

definition forget_container :: "raw_container \<Rightarrow> raw_state \<Rightarrow> raw_state" where
  "forget_container c s =
     s\<lparr>container_pids := snd (bpf_map_delete_elem (pid_key c) (container_pids s)),
       container_cgroup_id := snd (bpf_map_delete_elem (rc_cgroup_id c) (container_cgroup_id s))\<rparr>"

definition list_container :: "raw_container \<Rightarrow> raw_state \<Rightarrow> raw_state" where
  "list_container c s =
     (let (err, pids) = bpf_map_update_elem raw_max_entries (pid_key c) 1 (container_pids s) in
      if err \<noteq> 0 then s\<lparr>container_pids := pids\<rparr>
      else
        let (err, cgroups) = bpf_map_update_elem raw_max_entries (rc_cgroup_id c) 1 (container_cgroup_id s) in
        if err \<noteq> 0
        then s\<lparr>container_pids := snd (bpf_map_delete_elem (pid_key c) pids), container_cgroup_id := cgroups\<rparr>
        else s\<lparr>container_pids := pids, container_cgroup_id := cgroups\<rparr>)"

text \<open>The state of user space: the containers of the last update, and the patterns of the policy.\<close>

record raw_loader =
  rl_containers :: "raw_container list"
  rl_monitored :: "string list"
  rl_maps :: raw_state

definition delete_all_monitoring_map :: "raw_loader \<Rightarrow> raw_loader" where
  "delete_all_monitoring_map l =
     l\<lparr>rl_maps := fold forget_container (rl_containers l) (rl_maps l), rl_containers := []\<rparr>"

text \<open>\<open>docker\<close> is \<open>None\<close> when the API does not answer.\<close>

definition update_monitoring_map ::
  "(string \<Rightarrow> string \<Rightarrow> bool option) \<Rightarrow> (string \<Rightarrow> u64 option) \<Rightarrow> u64 \<Rightarrow>
   (string \<times> string \<times> int) list option \<Rightarrow> raw_loader \<Rightarrow> int \<times> raw_loader" where
  "update_monitoring_map regex_match inode garbage docker l =
     (let temp_containers = rl_containers l;
          l = l\<lparr>rl_containers := []\<rparr>;
          found = (case docker of None \<Rightarrow> []
            | Some d \<Rightarrow> find_containers regex_match inode garbage (rl_monitored l) d)
      in if found = [] then (- 1, l)
         else
           let s = fold forget_container (filter (\<lambda>c. c \<notin> set found) temp_containers) (rl_maps l);
               s = fold list_container found s
           in (0, l\<lparr>rl_containers := found, rl_maps := s\<rparr>))"

text \<open>The file is \<open>None\<close> when it cannot be parsed, else the names of its containers with their
  \<open>raw_tp_policy\<close>.\<close>

definition raw_update_policy_with_file ::
  "(string \<Rightarrow> string \<Rightarrow> bool option) \<Rightarrow> (string \<Rightarrow> u64 option) \<Rightarrow> u64 \<Rightarrow>
   (string \<times> bool) list option \<Rightarrow> (string \<times> string \<times> int) list option \<Rightarrow> raw_loader \<Rightarrow> int \<times> raw_loader" where
  "raw_update_policy_with_file regex_match inode garbage policy docker l =
     (case policy of
        None \<Rightarrow> (- 1, l)
      | Some items \<Rightarrow>
          (0, snd (update_monitoring_map regex_match inode garbage docker
                (l\<lparr>rl_monitored := map fst (filter snd items)\<rparr>))))"

subsection \<open>What is listed after an update\<close>

lemma forget_lookup:
  "bpf_map_lookup_elem (container_pids (fold forget_container cs s)) p =
     (if p \<in> pid_key ` set cs then None else bpf_map_lookup_elem (container_pids s) p)"
  "bpf_map_lookup_elem (container_cgroup_id (fold forget_container cs s)) g =
     (if g \<in> rc_cgroup_id ` set cs then None else bpf_map_lookup_elem (container_cgroup_id s) g)"
  by (induction cs arbitrary: s) (auto simp: forget_container_def hash.lookup_delete)

lemma forget_length:
  "length (container_pids (fold forget_container cs s)) \<le> length (container_pids s)"
  "length (container_cgroup_id (fold forget_container cs s)) \<le> length (container_cgroup_id s)"
proof (induction cs arbitrary: s)
  case (Cons c cs)
  have del: "length (snd (bpf_map_delete_elem k m)) \<le> length m" for k and m :: "('x, 'y) hmap"
    by (simp add: bpf_map_delete_elem_def AList.length_delete_le)
  { case 1
    show ?case using Cons(1) [of "forget_container c s"] del [of "pid_key c" "container_pids s"]
      by (simp add: forget_container_def)
  next
    case 2
    show ?case using Cons(2) [of "forget_container c s"] del [of "rc_cgroup_id c" "container_cgroup_id s"]
      by (simp add: forget_container_def) }
qed auto

lemma list_container_room:
  assumes "length (container_pids s) < raw_max_entries" "length (container_cgroup_id s) < raw_max_entries"
  shows "list_container c s =
    s\<lparr>container_pids := AList.update (pid_key c) 1 (container_pids s),
      container_cgroup_id := AList.update (rc_cgroup_id c) 1 (container_cgroup_id s)\<rparr>"
  using assms by (simp add: list_container_def bpf_map_update_elem_def)

lemma length_alist_update: "length (AList.update k v m) \<le> Suc (length m)"
  by (induction m) auto

lemma list_lookup:
  assumes "length (container_pids s) + length cs \<le> raw_max_entries"
    and "length (container_cgroup_id s) + length cs \<le> raw_max_entries"
  shows "bpf_map_lookup_elem (container_pids (fold list_container cs s)) p =
      (if p \<in> pid_key ` set cs then Some 1 else bpf_map_lookup_elem (container_pids s) p) \<and>
    bpf_map_lookup_elem (container_cgroup_id (fold list_container cs s)) g =
      (if g \<in> rc_cgroup_id ` set cs then Some 1 else bpf_map_lookup_elem (container_cgroup_id s) g)"
  using assms
proof (induction cs arbitrary: s)
  case (Cons c cs)
  have len: "length (container_pids (list_container c s)) + length cs \<le> raw_max_entries"
    "length (container_cgroup_id (list_container c s)) + length cs \<le> raw_max_entries"
    using Cons.prems length_alist_update [of "pid_key c" 1 "container_pids s"]
      length_alist_update [of "rc_cgroup_id c" 1 "container_cgroup_id s"]
    by (simp_all add: list_container_room)
  show ?case using Cons.IH [OF len] Cons.prems
    by (auto simp: list_container_room bpf_map_lookup_elem_def AList.update_conv')
qed simp

text \<open>A container that finds no room in the second map is taken out of the first.\<close>

lemma list_container_both:
  "fst (bpf_map_update_elem raw_max_entries (pid_key c) 1 (container_pids s)) = 0 \<Longrightarrow>
   bpf_map_lookup_elem (container_pids (list_container c s)) (pid_key c) \<noteq> None \<longleftrightarrow>
   bpf_map_lookup_elem (container_cgroup_id (list_container c s)) (rc_cgroup_id c) \<noteq> None"
  by (auto simp: list_container_def bpf_map_update_elem_def bpf_map_lookup_elem_def
      bpf_map_delete_elem_def AList.update_conv' AList.delete_conv')

text \<open>The exact effect of an update that finds containers.\<close>

lemma update_monitoring_map_exact:
  assumes run: "update_monitoring_map regex_match inode garbage docker l = (r, l')"
    and found: "rl_containers l' \<noteq> []"
    and "length (container_pids (rl_maps l)) + length (rl_containers l') \<le> raw_max_entries"
    and "length (container_cgroup_id (rl_maps l)) + length (rl_containers l') \<le> raw_max_entries"
  shows "bpf_map_lookup_elem (container_pids (rl_maps l')) p =
      (if p \<in> pid_key ` set (rl_containers l') then Some 1
       else if p \<in> pid_key ` (set (rl_containers l) - set (rl_containers l')) then None
       else bpf_map_lookup_elem (container_pids (rl_maps l)) p)"
    and "bpf_map_lookup_elem (container_cgroup_id (rl_maps l')) g =
      (if g \<in> rc_cgroup_id ` set (rl_containers l') then Some 1
       else if g \<in> rc_cgroup_id ` (set (rl_containers l) - set (rl_containers l')) then None
       else bpf_map_lookup_elem (container_cgroup_id (rl_maps l)) g)"
proof -
  let ?old = "filter (\<lambda>c. c \<notin> set (rl_containers l')) (rl_containers l)"
  let ?s = "fold forget_container ?old (rl_maps l)"
  have maps: "rl_maps l' = fold list_container (rl_containers l') ?s"
    using run found by (auto simp: update_monitoring_map_def Let_def split: if_splits)
  have room: "length (container_pids ?s) + length (rl_containers l') \<le> raw_max_entries"
    "length (container_cgroup_id ?s) + length (rl_containers l') \<le> raw_max_entries"
    using assms(3,4) forget_length [of ?old "rl_maps l"] by linarith+
  have old: "set ?old = set (rl_containers l) - set (rl_containers l')" by auto
  show "bpf_map_lookup_elem (container_pids (rl_maps l')) p =
      (if p \<in> pid_key ` set (rl_containers l') then Some 1
       else if p \<in> pid_key ` (set (rl_containers l) - set (rl_containers l')) then None
       else bpf_map_lookup_elem (container_pids (rl_maps l)) p)"
    by (simp only: maps list_lookup [OF room, THEN conjunct1] forget_lookup(1) old)
  show "bpf_map_lookup_elem (container_cgroup_id (rl_maps l')) g =
      (if g \<in> rc_cgroup_id ` set (rl_containers l') then Some 1
       else if g \<in> rc_cgroup_id ` (set (rl_containers l) - set (rl_containers l')) then None
       else bpf_map_lookup_elem (container_cgroup_id (rl_maps l)) g)"
    by (simp only: maps list_lookup [OF room, THEN conjunct2] forget_lookup(2) old)
qed

lemma update_policy_found:
  assumes "find_containers regex_match inode garbage (map fst (filter snd items)) d = cs" and "cs \<noteq> []"
    and "raw_update_policy_with_file regex_match inode garbage (Some items) (Some d) l = (r, l')"
  shows "rl_containers l' = cs \<and>
    update_monitoring_map regex_match inode garbage (Some d) (l\<lparr>rl_monitored := map fst (filter snd items)\<rparr>) = (0, l')"
  using assms by (auto simp: raw_update_policy_with_file_def update_monitoring_map_def Let_def)

text \<open>The processes of the containers found are listed and no others, if that was so before; of the
  control groups, those of the containers that are gone are removed.\<close>

lemma update_lists_containers:
  assumes found: "find_containers regex_match inode garbage (map fst (filter snd items)) d = cs" "cs \<noteq> []"
    and run: "raw_update_policy_with_file regex_match inode garbage (Some items) (Some d) l = (r, l')"
    and room: "length (container_pids (rl_maps l)) + length cs \<le> raw_max_entries"
      "length (container_cgroup_id (rl_maps l)) + length cs \<le> raw_max_entries"
    and dom: "dom (bpf_map_lookup_elem (container_pids (rl_maps l))) = pid_key ` set (rl_containers l)"
  shows "rl_containers l' = cs"
    and "dom (bpf_map_lookup_elem (container_pids (rl_maps l'))) = pid_key ` set cs"
    and "dom (bpf_map_lookup_elem (container_cgroup_id (rl_maps l'))) = rc_cgroup_id ` set cs \<union>
      (dom (bpf_map_lookup_elem (container_cgroup_id (rl_maps l))) - rc_cgroup_id ` (set (rl_containers l) - set cs))"
proof -
  let ?l = "l\<lparr>rl_monitored := map fst (filter snd items)\<rparr>"
  have cs: "rl_containers l' = cs"
    and upd: "update_monitoring_map regex_match inode garbage (Some d) ?l = (0, l')"
    using update_policy_found [OF found run] by simp_all
  show "rl_containers l' = cs" by (rule cs)
  have pids: "bpf_map_lookup_elem (container_pids (rl_maps l')) p =
      (if p \<in> pid_key ` set cs then Some 1
       else if p \<in> pid_key ` (set (rl_containers l) - set cs) then None
       else bpf_map_lookup_elem (container_pids (rl_maps l)) p)" for p
    using update_monitoring_map_exact(1) [OF upd, of p] found(2) room by (simp add: cs)
  have "(p \<in> dom (bpf_map_lookup_elem (container_pids (rl_maps l')))) = (p \<in> pid_key ` set cs)" for p
  proof -
    have "bpf_map_lookup_elem (container_pids (rl_maps l)) p = None" if "p \<notin> pid_key ` set (rl_containers l)"
      using that unfolding dom [symmetric] by (simp add: domIff)
    then show ?thesis unfolding domIff pids by auto
  qed
  then show "dom (bpf_map_lookup_elem (container_pids (rl_maps l'))) = pid_key ` set cs" by blast
  have groups: "bpf_map_lookup_elem (container_cgroup_id (rl_maps l')) g =
      (if g \<in> rc_cgroup_id ` set cs then Some 1
       else if g \<in> rc_cgroup_id ` (set (rl_containers l) - set cs) then None
       else bpf_map_lookup_elem (container_cgroup_id (rl_maps l)) g)" for g
    using update_monitoring_map_exact(2) [OF upd, of g] found(2) room by (simp add: cs)
  show "dom (bpf_map_lookup_elem (container_cgroup_id (rl_maps l'))) = rc_cgroup_id ` set cs \<union>
      (dom (bpf_map_lookup_elem (container_cgroup_id (rl_maps l))) - rc_cgroup_id ` (set (rl_containers l) - set cs))"
    by (rule set_eqI) (simp add: domIff groups)
qed

lemma update_watches:
  assumes "find_containers regex_match inode garbage (map fst (filter snd items)) d = cs" and "cs \<noteq> []"
    and "raw_update_policy_with_file regex_match inode garbage (Some items) (Some d) l = (r, l')"
    and "length (container_pids (rl_maps l)) + length cs \<le> raw_max_entries"
    and "length (container_cgroup_id (rl_maps l)) + length cs \<le> raw_max_entries"
    and "dom (bpf_map_lookup_elem (container_pids (rl_maps l))) = pid_key ` set (rl_containers l)"
  shows "rl_containers l' = cs \<and>
    dom (bpf_map_lookup_elem (container_pids (rl_maps l'))) = pid_key ` set cs \<and>
    (raw_should_monitor (rl_maps l') ppid g \<longleftrightarrow>
       ppid \<in> pid_key ` set cs \<or> g \<in> rc_cgroup_id ` set cs \<or>
       (g \<in> dom (bpf_map_lookup_elem (container_cgroup_id (rl_maps l))) \<and>
        g \<notin> rc_cgroup_id ` (set (rl_containers l) - set cs)))"
proof -
  note lists = update_lists_containers [OF assms]
  have "raw_should_monitor (rl_maps l') ppid g \<longleftrightarrow>
      g \<in> dom (bpf_map_lookup_elem (container_cgroup_id (rl_maps l'))) \<or>
      ppid \<in> dom (bpf_map_lookup_elem (container_pids (rl_maps l')))"
    by (simp add: raw_should_monitor_def domIff)
  then show ?thesis unfolding lists(2,3) using lists(1) by blast
qed

subsection \<open>Containers that are never forgotten\<close>

text \<open>A sequence of updates; each sees its own policy file, Docker answer and control groups.\<close>

definition raw_updates ::
  "(string \<Rightarrow> string \<Rightarrow> bool option) \<Rightarrow>
   ((string \<Rightarrow> u64 option) \<times> u64 \<times> (string \<times> bool) list option \<times> (string \<times> string \<times> int) list option) list \<Rightarrow>
   raw_loader \<Rightarrow> raw_loader" where
  "raw_updates regex_match us l =
     fold (\<lambda>(inode, garbage, policy, docker) l.
       snd (raw_update_policy_with_file regex_match inode garbage policy docker l)) us l"

definition runs_as :: "u32 \<Rightarrow> (string \<times> string \<times> int) list option \<Rightarrow> bool" where
  "runs_as p docker \<longleftrightarrow> (\<exists>d. docker = Some d \<and> (\<exists>c \<in> set d. word_of_int (snd (snd c)) = p))"

lemma set_cgroup_pids: "pid_key ` set (set_cgroup cid i cs) = pid_key ` set cs"
  by (induction cs) (auto simp: pid_key_def)

lemma find_containers_pids:
  assumes "c \<in> set (find_containers regex_match inode garbage monitored d)"
  shows "\<exists>e \<in> set d. pid_key c = word_of_int (snd (snd e))"
proof -
  have "pid_key ` set (fold (getContainerInode inode) ids cs) = pid_key ` set cs" for ids cs
    by (induction ids arbitrary: cs) (auto simp: getContainerInode_def set_cgroup_pids split: option.split)
  with assms have "pid_key c \<in> pid_key ` set (raw_getContainerPIDs regex_match monitored garbage d)"
    unfolding find_containers_def Let_def by blast
  then show ?thesis
    by (auto simp: raw_getContainerPIDs_def pid_key_def intro!: rev_bexI)
qed

lemma forget_keeps:
  "p \<noteq> pid_key c \<Longrightarrow> bpf_map_lookup_elem (container_pids (forget_container c s)) p =
     bpf_map_lookup_elem (container_pids s) p"
  by (simp add: forget_container_def hash.lookup_delete_other)

lemma list_keeps:
  "p \<noteq> pid_key c \<Longrightarrow> bpf_map_lookup_elem (container_pids (list_container c s)) p =
     bpf_map_lookup_elem (container_pids s) p"
  by (auto simp: list_container_def bpf_map_update_elem_def bpf_map_lookup_elem_def
      bpf_map_delete_elem_def AList.update_conv' AList.delete_conv')

lemma fold_keeps:
  "\<forall>c \<in> set cs. p \<noteq> pid_key c \<Longrightarrow> bpf_map_lookup_elem (container_pids (fold forget_container cs s)) p =
     bpf_map_lookup_elem (container_pids s) p"
  "\<forall>c \<in> set cs. p \<noteq> pid_key c \<Longrightarrow> bpf_map_lookup_elem (container_pids (fold list_container cs s)) p =
     bpf_map_lookup_elem (container_pids s) p"
  by (induction cs arbitrary: s) (auto simp: forget_keeps list_keeps)

lemma update_keeps:
  assumes "p \<notin> pid_key ` set (rl_containers l)" and "\<not> runs_as p docker"
  shows "p \<notin> pid_key ` set (rl_containers (snd (raw_update_policy_with_file regex_match inode garbage policy docker l)))"
    and "bpf_map_lookup_elem (container_pids (rl_maps
        (snd (raw_update_policy_with_file regex_match inode garbage policy docker l)))) p =
      bpf_map_lookup_elem (container_pids (rl_maps l)) p"
proof -
  have found: "\<forall>c \<in> set (find_containers regex_match inode garbage monitored d). p \<noteq> pid_key c"
    if "docker = Some d" for monitored d
    using find_containers_pids [of _ regex_match inode garbage monitored d] assms(2) that
    by (fastforce simp: runs_as_def)
  have old: "\<forall>c \<in> set (filter P (rl_containers l)). p \<noteq> pid_key c" for P
    using assms(1) by auto
  show "p \<notin> pid_key ` set (rl_containers (snd (raw_update_policy_with_file regex_match inode garbage policy docker l)))"
    using assms(1) found
    by (auto simp: raw_update_policy_with_file_def update_monitoring_map_def Let_def split: option.splits)
  show "bpf_map_lookup_elem (container_pids (rl_maps
        (snd (raw_update_policy_with_file regex_match inode garbage policy docker l)))) p =
      bpf_map_lookup_elem (container_pids (rl_maps l)) p"
    using found fold_keeps(1) [OF old] fold_keeps(2)
    by (simp add: raw_update_policy_with_file_def update_monitoring_map_def Let_def split: option.split)
qed

lemma updates_keep:
  "p \<notin> pid_key ` set (rl_containers l) \<Longrightarrow> \<forall>(inode, garbage, policy, docker) \<in> set us. \<not> runs_as p docker \<Longrightarrow>
   bpf_map_lookup_elem (container_pids (rl_maps (raw_updates regex_match us l))) p =
     bpf_map_lookup_elem (container_pids (rl_maps l)) p"
  unfolding raw_updates_def
  by (induction us arbitrary: l) (auto simp: update_keeps)

lemma lost_containers_watched:
  assumes "bpf_map_lookup_elem (container_pids (rl_maps l)) p \<noteq> None"
    and "update_monitoring_map regex_match inode garbage docker l = (- 1, l')"
    and "\<forall>(inode, garbage, policy, docker) \<in> set us. \<not> runs_as p docker"
  shows "raw_should_monitor (rl_maps (raw_updates regex_match us l')) p g"
proof -
  have "rl_containers l' = []" "rl_maps l' = rl_maps l"
    using assms(2) by (auto simp: update_monitoring_map_def Let_def split: if_splits)
  with updates_keep [of p l' us regex_match] assms(1,3) show ?thesis
    by (simp add: raw_should_monitor_def)
qed

subsection \<open>The table after start-up\<close>

lemma fold_update_other:
  "k \<notin> key ` set xs \<Longrightarrow>
   bpf_map_lookup_elem (fold (\<lambda>x m. snd (bpf_map_update_elem n (key x) (val x) m)) xs m) k = bpf_map_lookup_elem m k"
  by (induction xs arbitrary: m) (auto simp: hash.lookup_update_other)

lemma fold_update_inj:
  "length m + length xs \<le> n \<Longrightarrow> inj_on key (set xs) \<Longrightarrow> x \<in> set xs \<Longrightarrow>
   bpf_map_lookup_elem (fold (\<lambda>x m. snd (bpf_map_update_elem n (key x) (val x) m)) xs m) (key x) = Some (val x)"
proof (induction xs arbitrary: m)
  case (Cons y ys)
  let ?m = "snd (bpf_map_update_elem n (key y) (val y) m)"
  have room: "length ?m + length ys \<le> n" using Cons.prems(1) by (simp add: length_update)
  show ?case
  proof (cases "x \<in> set ys")
    case True
    with Cons.IH [OF room] Cons.prems show ?thesis by simp
  next
    case False
    with Cons.prems have "x = y" "key x \<notin> key ` set ys" by (auto simp: inj_on_def)
    with Cons.prems(1) show ?thesis
      by (simp add: fold_update_other hash.lookup_update_same hmap_full_def)
  qed
qed simp

lemma length_syscall_list: "length syscall_list = 352"
  by (simp add: syscall_list_def)

lemma init_syscall_map_lookup:
  assumes "inj_on nr (set syscall_list)"
  shows "bpf_map_lookup_elem (init_syscall_map nr []) k =
    (case find (\<lambda>name. nr name = k) syscall_list of None \<Rightarrow> None | Some name \<Rightarrow> Some (table_name name))"
proof (cases "find (\<lambda>name. nr name = k) syscall_list")
  case None
  then have "k \<notin> nr ` set syscall_list" by (auto simp: find_None_iff)
  then have "bpf_map_lookup_elem (init_syscall_map nr []) k = bpf_map_lookup_elem ([] :: (u32, u8 list) hmap) k"
    unfolding init_syscall_map_def by (rule fold_update_other)
  with None show ?thesis by (simp add: bpf_map_lookup_elem_def)
next
  case (Some name)
  then have name: "name \<in> set syscall_list" "nr name = k" by (auto simp: find_Some_iff)
  have "length ([] :: (u32, u8 list) hmap) + length syscall_list \<le> raw_max_entries"
    by (simp add: length_syscall_list raw_max_entries_def)
  from fold_update_inj [OF this assms name(1), of table_name] Some name(2) show ?thesis
    by (simp add: init_syscall_map_def)
qed

end
