(* ===== verification/Watch_Monitors.thy ===== *)
theory Watch_Monitors
  imports Watch_Events Trace_Policy Lsm_Effect Raw_Loader
begin

unbundle bit_operations_syntax

section \<open>The three loaders under their watchers\<close>

text \<open>
  One attempt of each loader to update its policy, and what every sequence of triggered updates
  keeps.  The interface between the shared watching code and a loader is the locale
  \<open>watched_loader\<close>: an attempt in a world (the file and the containers as they are at that moment)
  that keeps an invariant of the loader's state.  \<open>worlds k\<close> is what the \<open>k\<close>-th attempt since the
  start of the program finds; the state of the watchers carries \<open>k\<close>.
\<close>

definition clocked :: "(nat \<Rightarrow> 'w) \<Rightarrow> ('w \<Rightarrow> 's \<Rightarrow> update_result \<times> 's) \<Rightarrow> nat \<Rightarrow> nat \<times> 's \<Rightarrow> update_result \<times> nat \<times> 's" where
  "clocked worlds attempt i ks =
     (let (k, s) = ks; (r, s') = attempt (worlds k) s in (r, Suc k, s'))"

text \<open>\<open>update_policy_on_event\<close> as its caller sees it while no other update runs.\<close>

definition trace_update_policy_on_event ::
  "(nat \<Rightarrow> bool) \<Rightarrow> (nat \<Rightarrow> 'w) \<Rightarrow> ('w \<Rightarrow> 's \<Rightarrow> update_result \<times> 's) \<Rightarrow> nat \<times> 's \<Rightarrow> (nat \<times> 's) option" where
  "trace_update_policy_on_event stop worlds attempt ks = retry_until_exit stop (clocked worlds attempt) (fst ks) ks"

definition update_policy_on_event ::
  "(nat \<Rightarrow> 'w) \<Rightarrow> ('w \<Rightarrow> 's \<Rightarrow> update_result \<times> 's) \<Rightarrow> nat \<times> 's \<Rightarrow> (nat \<times> 's) option" where
  "update_policy_on_event worlds attempt ks = retry_update (clocked worlds attempt) (fst ks) ks"

subsection \<open>Both watchers\<close>

text \<open>What the two threads are given; they take turns here, as the flag \<open>policy_update_running\<close> and
  the mutex make the updates do.\<close>

datatype watch_input = Docker_chunk string | Inotify_bytes "u8 list"

fun watch_step ::
  "(string \<Rightarrow> (string \<times> string) option) \<Rightarrow> string list \<Rightarrow> string \<Rightarrow> ('s \<Rightarrow> 's option) \<Rightarrow> watch_input \<Rightarrow>
   string \<times> 's \<Rightarrow> (string \<times> 's) option" where
  "watch_step json_event actions file_name trigger (Docker_chunk chunk) st =
     map_option snd (docker_event_callback json_event actions trigger False chunk st)"
| "watch_step json_event actions file_name trigger (Inotify_bytes bytes) st =
     map_option (Pair (fst st)) (inotify_read file_name trigger bytes (snd st))"

definition watch ::
  "(string \<Rightarrow> (string \<times> string) option) \<Rightarrow> string list \<Rightarrow> string \<Rightarrow> ('s \<Rightarrow> 's option) \<Rightarrow> watch_input list \<Rightarrow>
   string \<times> 's \<Rightarrow> (string \<times> 's) option" where
  "watch json_event actions file_name trigger = fold_option (watch_step json_event actions file_name trigger)"

lemma handled_invariant:
  assumes trigger: "\<And>s s'. trigger s = Some s' \<Longrightarrow> P s \<Longrightarrow> P s'"
  shows "handle_docker_line json_event actions trigger line s = Some s' \<Longrightarrow> P s \<Longrightarrow> P s'"
    and "handle_inotify_event file_name trigger e s = Some s' \<Longrightarrow> P s \<Longrightarrow> P s'"
  by (auto simp: handle_docker_line_def handle_inotify_event_def split: option.splits if_splits
      dest: trigger)

lemma watch_step_invariant:
  assumes trigger: "\<And>s s'. trigger s = Some s' \<Longrightarrow> P s \<Longrightarrow> P s'"
    and "watch_step json_event actions file_name trigger inp st = Some st'" and "P (snd st)"
  shows "P (snd st')"
proof -
  have line: "P s \<Longrightarrow> handle_docker_line json_event actions trigger line s = Some s' \<Longrightarrow> P s'" for line s s'
    using handled_invariant(1) [of trigger P, OF trigger] .
  have event: "P s \<Longrightarrow> handle_inotify_event file_name trigger e s = Some s' \<Longrightarrow> P s'" for e s s'
    using handled_invariant(2) [of trigger P, OF trigger] .
  note lines = fold_option_invariant [of P "handle_docker_line json_event actions trigger", OF line]
  note events = fold_option_invariant [of P "handle_inotify_event file_name trigger", OF event]
  show ?thesis
  proof (cases inp)
    case (Docker_chunk chunk)
    with assms(2,3) show ?thesis
      by (auto simp: docker_event_callback_def Let_def case_prod_unfold split: option.splits intro: lines)
  next
    case (Inotify_bytes bytes)
    with assms(2,3) show ?thesis by (auto simp: inotify_read_def intro: events)
  qed
qed

subsection \<open>The interface\<close>

locale watched_loader =
  fixes attempt :: "'w \<Rightarrow> 's \<Rightarrow> update_result \<times> 's"
    and usable :: "'w \<Rightarrow> bool"
    and ok :: "'s \<Rightarrow> bool"
  assumes attempt_ok: "usable w \<Longrightarrow> ok s \<Longrightarrow> ok (snd (attempt w s))"
begin

lemma clocked_ok: "(\<And>k. usable (worlds k)) \<Longrightarrow> ok (snd ks) \<Longrightarrow> ok (snd (snd (clocked worlds attempt i ks)))"
  using attempt_ok [of "worlds (fst ks)" "snd ks"] by (simp add: clocked_def case_prod_unfold Let_def)

lemma retry_update_ok:
  assumes "\<And>k. usable (worlds k)" and "update_policy_on_event worlds attempt ks = Some ks'" and "ok (snd ks)"
  shows "ok (snd ks')"
  using assms(2,3) clocked_ok [of worlds, OF assms(1)] unfolding update_policy_on_event_def
  by (blast intro: retry_update_invariant [where P = "\<lambda>ks. ok (snd ks)"])

lemma retry_until_exit_ok:
  assumes "\<And>k. usable (worlds k)" and "trace_update_policy_on_event stop worlds attempt ks = Some ks'"
    and "ok (snd ks)"
  shows "ok (snd ks')"
  using assms(2,3) clocked_ok [of worlds, OF assms(1)] unfolding trace_update_policy_on_event_def
  by (blast intro: retry_until_exit_invariant [where P = "\<lambda>ks. ok (snd ks)"])

text \<open>Whatever arrives from Docker and from the file system, the state stays well formed.\<close>

lemma watch_ok:
  assumes "\<And>k. usable (worlds k)"
    and "watch json_event actions file_name (update_policy_on_event worlds attempt) inputs (buffer, ks) =
      Some (buffer', ks')"
    and "ok (snd ks)"
  shows "ok (snd ks')"
proof -
  have "ok (snd (snd st)) \<Longrightarrow>
      watch_step json_event actions file_name (update_policy_on_event worlds attempt) inp st = Some st' \<Longrightarrow>
      ok (snd (snd st'))" for inp and st st' :: "string \<times> nat \<times> 's"
    by (rule watch_step_invariant [where P = "\<lambda>ks. ok (snd ks)"])
      (auto intro: retry_update_ok [where worlds = worlds] assms(1))
  from fold_option_invariant [of "\<lambda>st. ok (snd (snd st))", OF this, where s = "(buffer, ks)"
      and s' = "(buffer', ks')"] assms(2,3)
  show ?thesis by (simp add: watch_def)
qed

lemma watch_until_exit_ok:
  assumes "\<And>k. usable (worlds k)"
    and "watch json_event actions file_name (trace_update_policy_on_event stop worlds attempt) inputs (buffer, ks) =
      Some (buffer', ks')"
    and "ok (snd ks)"
  shows "ok (snd ks')"
proof -
  have "ok (snd (snd st)) \<Longrightarrow>
      watch_step json_event actions file_name (trace_update_policy_on_event stop worlds attempt) inp st = Some st' \<Longrightarrow>
      ok (snd (snd st'))" for inp and st st' :: "string \<times> nat \<times> 's"
    by (rule watch_step_invariant [where P = "\<lambda>ks. ok (snd ks)"])
      (auto intro: retry_until_exit_ok [where worlds = worlds] assms(1))
  from fold_option_invariant [of "\<lambda>st. ok (snd (snd st))", OF this, where s = "(buffer, ks)"
      and s' = "(buffer', ks')"] assms(2,3)
  show ?thesis by (simp add: watch_def)
qed

end

subsection \<open>When an update ends\<close>

text \<open>A loader whose attempts fail in the idle worlds, whatever its state.\<close>

locale idle_loader =
  fixes attempt :: "'w \<Rightarrow> 's \<Rightarrow> update_result \<times> 's"
    and idle :: "'w \<Rightarrow> bool"
  assumes fails_iff_idle: "fst (attempt w s) = Failed \<longleftrightarrow> idle w"
begin

lemma clocked_Failed: "fst (clocked worlds attempt i ks) = Failed \<longleftrightarrow> idle (worlds (fst ks))"
  by (cases ks) (simp add: clocked_def case_prod_unfold Let_def fails_iff_idle)

lemma clocked_ticks: "fst (snd (clocked worlds attempt i ks)) = Suc (fst ks)"
  by (simp add: clocked_def case_prod_unfold Let_def)

lemma attempts_clock: "fst (attempts (clocked worlds attempt) i n ks) = fst ks + n"
  by (induction n arbitrary: i ks) (simp_all add: clocked_ticks)

lemma all_fail_iff_idle:
  "all_fail (clocked worlds attempt) i n ks \<longleftrightarrow> (\<forall>j < n. idle (worlds (fst ks + j)))"
proof (induction n arbitrary: i ks)
  case (Suc n)
  then show ?case by (simp add: clocked_Failed clocked_ticks All_less_Suc2)
qed simp

text \<open>The update ends with the first attempt that finds the world not idle.\<close>

lemma update_returns_iff:
  "update_policy_on_event worlds attempt (k, s) = Some ks' \<longleftrightarrow>
     (\<exists>n. (\<forall>j < n. idle (worlds (k + j))) \<and> \<not> idle (worlds (k + n)) \<and>
       ks' = attempts (clocked worlds attempt) k (Suc n) (k, s))"
  unfolding update_policy_on_event_def retry_update_iff all_fail_iff_idle clocked_Failed attempts_clock
  by simp

lemma update_ends_iff:
  "update_policy_on_event worlds attempt (k, s) \<noteq> None \<longleftrightarrow> (\<exists>j \<ge> k. \<not> idle (worlds j))"
proof
  assume "update_policy_on_event worlds attempt (k, s) \<noteq> None"
  then obtain n where "\<not> idle (worlds (k + n))" by (auto simp: update_returns_iff)
  then show "\<exists>j \<ge> k. \<not> idle (worlds j)" by (intro exI [of _ "k + n"]) simp
next
  assume "\<exists>j \<ge> k. \<not> idle (worlds j)"
  then obtain n where "\<not> idle (worlds (k + n))" by (auto simp: le_iff_add)
  then obtain n where "\<not> idle (worlds (k + n))" "\<forall>j < n. idle (worlds (k + j))"
    using exists_least_iff [of "\<lambda>n. \<not> idle (worlds (k + n))"] by blast
  then show "update_policy_on_event worlds attempt (k, s) \<noteq> None"
    using update_returns_iff [of worlds k s] by blast
qed

end

end
