(* ===== verification/Watch_Loaders.thy ===== *)
theory Watch_Loaders
  imports Watch_Monitors
begin

unbundle bit_operations_syntax

section \<open>The attempts of the three loaders\<close>

text \<open>
  What one attempt to update the policy does in \<open>tracepoint.cpp\<close>, \<open>enforcement.cpp\<close> and
  \<open>raw_tracepoint.cpp\<close>, and the invariant of the maps that it keeps, as interpretations of
  \<open>watched_loader\<close>.  The policy file is \<open>None\<close> when it cannot be parsed: \<open>result.value()\<close> then
  throws in the first two, and the third returns -1.
\<close>

subsection \<open>tracepoint\<close>

type_synonym docker_list = "(string \<times> string \<times> int) list"

record trace_world =
  tw_policy :: "container_policy list option"
  tw_docker :: docker_list
  tw_garbage :: u32
  tw_ns :: "int \<Rightarrow> u32"

definition trace_attempt ::
  "(string \<Rightarrow> s32) \<Rightarrow> (string \<Rightarrow> string \<Rightarrow> bool option) \<Rightarrow> trace_world \<Rightarrow> loader \<Rightarrow> update_result \<times> loader" where
  "trace_attempt nr regex_match w l =
     (case tw_policy w of
        None \<Rightarrow> (Thrown, l)
      | Some policies \<Rightarrow>
          (let found = getContainerPIDs regex_match policies (tw_garbage w) (tw_docker w);
               (r, l') = update_policy nr (tw_ns w) policies found l
           in (if r = 0 then Updated else Failed, l')))"

definition trace_shape :: "loader \<Rightarrow> bool" where
  "trace_shape l \<longleftrightarrow> policies_ok (syscall_map l)"

lemma update_container_shape:
  "policies_ok (syscall_map (fst st)) \<Longrightarrow> policies_ok (syscall_map (fst (update_container nr get_ns i st)))"
  by (simp add: update_container_def Let_def case_prod_unfold policies_ok_update pad_syscalls_length)

lemma update_containers_shape:
  "policies_ok (syscall_map (fst st)) \<Longrightarrow>
   policies_ok (syscall_map (fst (fold (update_container nr get_ns) is st)))"
  by (induction "is" arbitrary: st) (simp_all add: update_container_shape)

lemma clear_list_shape: "policies_ok m \<Longrightarrow> policies_ok (snd (clear_list nss m))"
  by (induction nss arbitrary: m)
    (simp_all add: clear_syscall_array_entry_def case_prod_unfold Let_def policies_ok_update)

lemma update_policy_shape:
  assumes "policies_ok (syscall_map l)"
  shows "policies_ok (syscall_map (snd (update_policy nr get_ns policies found l)))"
  using assms update_containers_shape [of "(l\<lparr>running := found\<rparr>, {})" nr get_ns "[0..<length found]"]
  by (simp add: update_policy_def clear_all_policies_def case_prod_unfold Let_def clear_list_shape)

interpretation trace_loader: watched_loader "trace_attempt nr regex_match" "\<lambda>_. True" trace_shape
  by unfold_locales
    (simp add: trace_attempt_def trace_shape_def case_prod_unfold Let_def update_policy_shape split: option.split)

subsection \<open>lsm\<close>

record lsm_world =
  lw_policy :: "string list option"
  lw_found :: "lsm_container list"
  lw_key :: "int \<Rightarrow> policy_key"
  lw_garbage :: "lsm_container \<Rightarrow> policy_value"

text \<open>\<open>Out_of_bounds\<close> is undefined behaviour, about which nothing is claimed: \<open>lsm_usable\<close> below rules
  it out.\<close>

definition lsm_attempt :: "lsm_world \<Rightarrow> flag_map \<times> policy_map \<Rightarrow> update_result \<times> flag_map \<times> policy_map" where
  "lsm_attempt w s =
     (case lw_policy w of
        None \<Rightarrow> (Thrown, s)
      | Some named \<Rightarrow>
          (let (r, s') = update_policy_with_file (lw_key w) (lw_garbage w) named (lw_found w) (fst s) (snd s)
           in (case r of Inl _ \<Rightarrow> Thrown | Inr n \<Rightarrow> if n = 0 then Updated else Failed, s')))"

text \<open>The policies fit the arrays of the struct (an address may still be malformed), and the local
  variable \<open>value\<close> is memory of the struct's size.\<close>

definition struct_value :: "policy_value \<Rightarrow> bool" where
  "struct_value v \<longleftrightarrow> value_shape v \<and> (\<forall>p \<in> set (file_policies v). length (fp_uid p) = 30) \<and>
     (\<forall>p \<in> set (process_policies v). length (pp_uid p) = 30)"

definition policy_within :: "yaml_lsm \<Rightarrow> bool" where
  "policy_within y \<longleftrightarrow>
     length (y_file y) \<le> 64 \<and> length (y_network y) \<le> 64 \<and> length (y_process y) \<le> 64 \<and>
     list_all (\<lambda>f. length (c_str (yf_path f)) < 256 \<and> length (yf_uid f) \<le> 30) (y_file y) \<and>
     list_all (\<lambda>n. length (yn_uid n) \<le> 30) (y_network y) \<and>
     list_all (\<lambda>f. length (c_str (yp_comm f)) < 16 \<and> length (yp_uid f) \<le> 30) (y_process y)"

definition lsm_usable :: "lsm_world \<Rightarrow> bool" where
  "lsm_usable w \<longleftrightarrow>
     list_all (\<lambda>c. struct_value (lw_garbage w c) \<and> policy_within (lc_policies c)) (lw_found w)"

definition lsm_shape :: "flag_map \<times> policy_map \<Rightarrow> bool" where
  "lsm_shape s \<longleftrightarrow> hmap_ok MAX_CONTAINERS (snd s) \<and> (\<forall>kv \<in> set (snd s). struct_value (snd kv) \<and> value_ok (snd kv))"

text \<open>What the loops keep: the struct's widths, and rules that are complete up to the counter.\<close>

lemma considered_next:
  assumes "unat n < 64" and "length ps = 64"
  shows "considered (n + 1) (ps[unat n := p]) = considered n ps @ [p]"
proof -
  have "unat (n + 1) = Suc (unat n)" using assms(1) by (simp add: unat_word_ariths)
  with assms show ?thesis by (simp add: considered_def take_Suc_conv_app_nth)
qed

lemma struct_value_simps [simp]:
  "struct_value (v\<lparr>num_file_policies := n\<rparr>) = struct_value v"
  "struct_value (v\<lparr>num_network_policies := n\<rparr>) = struct_value v"
  "struct_value (v\<lparr>num_process_policies := n\<rparr>) = struct_value v"
  by (simp_all add: struct_value_def value_shape_def)

lemma struct_value_file:
  assumes "struct_value v" and "length (fp_path p) = 256" and "length (fp_uid p) = 30"
  shows "struct_value (v\<lparr>file_policies := (file_policies v)[i := p]\<rparr>)"
  using assms by (auto simp: struct_value_def value_shape_def dest!: set_update_subset_insert [THEN subsetD])

lemma struct_value_network:
  "struct_value v \<Longrightarrow> struct_value (v\<lparr>network_policies := (network_policies v)[i := p]\<rparr>)"
  by (simp add: struct_value_def value_shape_def)

lemma struct_value_process:
  assumes "struct_value v" and "length (pp_comm p) = 16" and "length (pp_uid p) = 30"
  shows "struct_value (v\<lparr>process_policies := (process_policies v)[i := p]\<rparr>)"
  using assms by (auto simp: struct_value_def value_shape_def dest!: set_update_subset_insert [THEN subsetD])

lemma struct_value_nth:
  assumes "struct_value v" and "i < 64"
  shows "length (fp_path (file_policies v ! i)) = 256" and "length (fp_uid (file_policies v ! i)) = 30"
    and "length (pp_comm (process_policies v ! i)) = 16" and "length (pp_uid (process_policies v ! i)) = 30"
  using assms by (auto simp: struct_value_def value_shape_def)

lemma length_overwrite: "length xs \<le> length buf \<Longrightarrow> length (overwrite buf xs) = length buf"
  by (simp add: overwrite_def)

definition files_ok :: "policy_value \<Rightarrow> bool" where
  "files_ok v \<longleftrightarrow> struct_value v \<and> list_all file_rule_ok (considered (num_file_policies v) (file_policies v))"

lemma load_files_ok: "load_files fs fm v = Inr (fm', v') \<Longrightarrow> files_ok v \<Longrightarrow> files_ok v'"
proof (induction fs arbitrary: fm v)
  case (Cons f fs)
  define i where "i = unat (num_file_policies v)"
  define p where "p = (file_policies v ! i)\<lparr>fp_path := strcpy (fp_path (file_policies v ! i)) (yf_path f),
    fp_flags := fst (string_to_flags fm (yf_flags f)), fp_uid := overwrite (fp_uid (file_policies v ! i)) (yf_uid f)\<rparr>"
  define v1 where "v1 = v\<lparr>file_policies := (file_policies v)[i := p], num_file_policies := num_file_policies v + 1\<rparr>"
  have fits: "i < 64" "length (c_str (yf_path f)) < 256" "length (yf_uid f) \<le> 30"
    using Cons.prems(1) by (simp_all add: i_def Let_def split: if_splits)
  have run: "load_files fs (snd (string_to_flags fm (yf_flags f))) v1 = Inr (fm', v')"
    using Cons.prems(1) fits by (simp add: i_def [symmetric] p_def v1_def Let_def case_prod_unfold)
  have shaped: "struct_value v" using Cons.prems(2) by (simp add: files_ok_def)
  note nth = struct_value_nth [OF shaped fits(1)]
  have p: "length (fp_path p) = 256" "length (fp_uid p) = 30" "file_rule_ok p"
    using fits nth by (simp_all add: p_def length_strcpy length_overwrite file_rule_ok_def zero_in_strcpy)
  have "considered (num_file_policies v1) (file_policies v1) =
      considered (num_file_policies v) (file_policies v) @ [p]"
    using considered_next [of "num_file_policies v" "file_policies v" p] fits(1) shaped
    by (simp add: v1_def i_def struct_value_def value_shape_def)
  moreover have "struct_value v1"
    using struct_value_file [OF shaped p(1,2), of i] by (simp add: v1_def)
  ultimately have "files_ok v1" using Cons.prems(2) p(3) by (simp add: files_ok_def)
  with run show ?case by (rule Cons.IH)
qed simp

text \<open>The loop over the network rules writes user ids into the file rules and nothing else there.\<close>

lemma considered_uid:
  assumes "\<And>p. fp_path (h p) = fp_path p" and "\<And>p. fp_flags (h p) = fp_flags p"
  shows "list_all file_rule_ok (considered n (ps[i := h (ps ! i)])) = list_all file_rule_ok (considered n ps)"
proof -
  have "map fp_path (ps[i := h (ps ! i)]) = map fp_path ps"
    by (cases "i < length ps") (auto intro!: nth_equalityI simp: nth_list_update assms)
  then have "map fp_path (considered n (ps[i := h (ps ! i)])) = map fp_path (considered n ps)"
    by (simp add: considered_def take_map [symmetric])
  moreover have "list_all file_rule_ok qs = list_all (\<lambda>x. length x = 256 \<and> 0 \<in> set x) (map fp_path qs)" for qs
    by (simp add: list_all_iff file_rule_ok_def)
  ultimately show ?thesis by simp
qed

lemma load_networks_ok: "load_networks ns fm v = Inr (fm', v') \<Longrightarrow> files_ok v \<Longrightarrow> files_ok v'"
proof (induction ns arbitrary: fm v)
  case (Cons n ns)
  define i where "i = unat (num_network_policies v)"
  have fits: "i < 64" "length (yn_uid n) \<le> 30"
    using Cons.prems(1) by (simp_all add: i_def Let_def split: if_splits option.splits)
  obtain p fm1 where run: "load_networks ns fm1 (v\<lparr>network_policies := (network_policies v)[i := p],
      file_policies := (file_policies v)[i := stray_uid n (file_policies v ! i)],
      num_network_policies := num_network_policies v + 1\<rparr>) = Inr (fm', v')" (is "load_networks ns fm1 ?v1 = _")
    using Cons.prems(1) fits
    by (auto simp: i_def [symmetric] stray_uid_def Let_def case_prod_unfold split: option.splits)
  have shaped: "struct_value v" using Cons.prems(2) by (simp add: files_ok_def)
  note nth = struct_value_nth [OF shaped fits(1)]
  have "struct_value ?v1"
    using struct_value_file [OF struct_value_network [OF shaped, of i p], of "stray_uid n (file_policies v ! i)" i]
      nth fits(2)
    by (simp add: stray_uid_def length_overwrite)
  moreover have "list_all file_rule_ok (considered (num_file_policies v)
      ((file_policies v)[i := stray_uid n (file_policies v ! i)]))"
    using Cons.prems(2) by (subst considered_uid) (simp_all add: stray_uid_def files_ok_def)
  ultimately have "files_ok ?v1" by (simp add: files_ok_def)
  with run show ?case by (rule Cons.IH)
qed simp

definition processes_ok :: "policy_value \<Rightarrow> bool" where
  "processes_ok v \<longleftrightarrow> files_ok v \<and>
     list_all process_rule_ok (considered (num_process_policies v) (process_policies v))"

lemma load_processes_ok:
  "load_processes fs fm v = Inr (fm', v') \<Longrightarrow> processes_ok v \<Longrightarrow> processes_ok v'"
proof (induction fs arbitrary: fm v)
  case (Cons f fs)
  define i where "i = unat (num_process_policies v)"
  define p where "p = (process_policies v ! i)\<lparr>pp_comm := strcpy (pp_comm (process_policies v ! i)) (yp_comm f),
    pp_flags := fst (string_to_flags fm (yp_flags f)), pp_uid := overwrite (pp_uid (process_policies v ! i)) (yp_uid f)\<rparr>"
  define v1 where "v1 = v\<lparr>process_policies := (process_policies v)[i := p],
    num_process_policies := num_process_policies v + 1\<rparr>"
  have fits: "i < 64" "length (c_str (yp_comm f)) < 16" "length (yp_uid f) \<le> 30"
    using Cons.prems(1) by (simp_all add: i_def Let_def split: if_splits)
  have run: "load_processes fs (snd (string_to_flags fm (yp_flags f))) v1 = Inr (fm', v')"
    using Cons.prems(1) fits by (simp add: i_def [symmetric] p_def v1_def Let_def case_prod_unfold)
  have shaped: "struct_value v" using Cons.prems(2) by (simp add: processes_ok_def files_ok_def)
  note nth = struct_value_nth [OF shaped fits(1)]
  have p: "length (pp_comm p) = 16" "length (pp_uid p) = 30" "process_rule_ok p"
    using fits nth by (simp_all add: p_def length_strcpy length_overwrite process_rule_ok_def zero_in_strcpy)
  have "considered (num_process_policies v1) (process_policies v1) =
      considered (num_process_policies v) (process_policies v) @ [p]"
    using considered_next [of "num_process_policies v" "process_policies v" p] fits(1) shaped
    by (simp add: v1_def i_def struct_value_def value_shape_def)
  moreover have "struct_value v1"
    using struct_value_process [OF shaped p(1,2), of i] by (simp add: v1_def)
  ultimately have "processes_ok v1"
    using Cons.prems(2) p(3) by (simp add: processes_ok_def files_ok_def v1_def)
  with run show ?case by (rule Cons.IH)
qed simp

lemma considered_none [simp]: "considered 0 ps = []"
  by (simp add: considered_def)

lemma load_value_ok:
  assumes "load_value y fm v = Inr (fm', v')" and "struct_value v"
  shows "struct_value v' \<and> value_ok v'"
proof -
  obtain fm1 v1 fm2 v2 where
    1: "load_files (y_file y) fm (v\<lparr>num_file_policies := 0\<rparr>) = Inr (fm1, v1)" and
    2: "load_networks (y_network y) fm1 (v1\<lparr>num_network_policies := 0\<rparr>) = Inr (fm2, v2)" and
    3: "load_processes (y_process y) fm2 (v2\<lparr>num_process_policies := 0\<rparr>) = Inr (fm', v')"
    using assms(1) by (auto simp: load_value_def split: sum.splits)
  have "files_ok (v\<lparr>num_file_policies := 0\<rparr>)" using assms(2) by (simp add: files_ok_def)
  from load_files_ok [OF 1 this] have "files_ok (v1\<lparr>num_network_policies := 0\<rparr>)" by (simp add: files_ok_def)
  from load_networks_ok [OF 2 this] have "processes_ok (v2\<lparr>num_process_policies := 0\<rparr>)"
    by (simp add: processes_ok_def files_ok_def)
  from load_processes_ok [OF 3 this] show ?thesis
    by (simp add: processes_ok_def files_ok_def value_ok_def)
qed

lemma policy_map_update_shape:
  assumes "lsm_shape (fm, pm)" and "struct_value v" and "value_ok v"
  shows "lsm_shape (fm', snd (bpf_map_update_elem MAX_CONTAINERS k v pm))"
proof -
  have "set (AList.update k v pm) \<subseteq> insert (k, v) (set pm)"
    by (induction pm) auto
  with assms hash.invar_update [of MAX_CONTAINERS pm k v] show ?thesis
    by (auto simp: lsm_shape_def bpf_map_update_elem_def)
qed

lemma load_containers_shape:
  "\<forall>c \<in> set cs. struct_value (garbage c) \<Longrightarrow> lsm_shape (fm, pm) \<Longrightarrow>
   lsm_shape (snd (load_containers key_of garbage cs fm pm))"
proof (induction cs arbitrary: fm pm)
  case (Cons c cs)
  show ?case
  proof (cases "load_value (lc_policies c) fm (garbage c)")
    case (Inl err)
    with Cons show ?thesis by (simp add: Let_def)
  next
    case (Inr r)
    then obtain fm1 v where r: "load_value (lc_policies c) fm (garbage c) = Inr (fm1, v)" by (cases r) auto
    have "\<forall>c \<in> set cs. struct_value (garbage c)" and "struct_value (garbage c)"
      using Cons.prems(1) by simp_all
    note shapes = this
    from load_value_ok [OF r shapes(2)] policy_map_update_shape [OF Cons.prems(2)]
    have "lsm_shape (fm1, snd (bpf_map_update_elem MAX_CONTAINERS (key_of (lc_pid c)) v pm))" by blast
    from Cons.IH [OF shapes(1) this] Cons.IH [OF shapes(1) Cons.prems(2)] r show ?thesis by (simp add: Let_def)
  qed
qed simp

lemma lsm_update_shape:
  assumes "\<forall>c \<in> set found. struct_value (garbage c)" and "lsm_shape (fm, pm)"
  shows "lsm_shape (snd (update_policy_with_file key_of garbage named found fm pm))"
proof -
  have "lsm_shape (fm, [])" by (simp add: lsm_shape_def hmap_ok_def)
  from load_containers_shape [OF assms(1) this, of key_of] assms(2) this show ?thesis
    by (auto simp: update_policy_with_file_def split: option.splits prod.splits)
qed

interpretation lsm_loader: watched_loader lsm_attempt lsm_usable lsm_shape
proof
  fix w s
  assume "lsm_usable w" "lsm_shape s"
  then show "lsm_shape (snd (lsm_attempt w s))"
    using lsm_update_shape [of "lw_found w" "lw_garbage w" "fst s" "snd s" "lw_key w"]
    by (simp add: lsm_attempt_def lsm_usable_def list_all_iff case_prod_unfold Let_def split: option.split)
qed

subsection \<open>raw_tracepoint\<close>

record raw_world =
  rw_policy :: "(string \<times> bool) list option"
  rw_docker :: "docker_list option"
  rw_inode :: "string \<Rightarrow> u64 option"
  rw_garbage :: u64

definition raw_attempt ::
  "(string \<Rightarrow> string \<Rightarrow> bool option) \<Rightarrow> raw_world \<Rightarrow> raw_loader \<Rightarrow> update_result \<times> raw_loader" where
  "raw_attempt regex_match w l =
     (let (r, l') = raw_update_policy_with_file regex_match (rw_inode w) (rw_garbage w) (rw_policy w) (rw_docker w) l
      in (if r = 0 then Updated else Failed, l'))"

definition raw_maps_ok :: "raw_state \<Rightarrow> bool" where
  "raw_maps_ok s \<longleftrightarrow> hmap_ok raw_max_entries (container_pids s) \<and> hmap_ok raw_max_entries (container_cgroup_id s)"

definition raw_shape :: "raw_loader \<Rightarrow> bool" where
  "raw_shape l \<longleftrightarrow> raw_maps_ok (rl_maps l)"

lemma forget_container_ok: "raw_maps_ok s \<Longrightarrow> raw_maps_ok (forget_container c s)"
  by (simp add: raw_maps_ok_def forget_container_def hash.invar_delete)

lemma list_container_ok: "raw_maps_ok s \<Longrightarrow> raw_maps_ok (list_container c s)"
  by (simp add: raw_maps_ok_def list_container_def case_prod_unfold Let_def hash.invar_delete hash.invar_update)

lemma fold_containers_ok:
  "raw_maps_ok s \<Longrightarrow> raw_maps_ok (fold forget_container cs s)"
  "raw_maps_ok s \<Longrightarrow> raw_maps_ok (fold list_container cs s)"
  by (induction cs arbitrary: s) (simp_all add: forget_container_ok list_container_ok)

interpretation raw_loader: watched_loader "raw_attempt regex_match" "\<lambda>_. True" raw_shape
  by unfold_locales
    (simp add: raw_attempt_def raw_shape_def raw_update_policy_with_file_def
      update_monitoring_map_def case_prod_unfold Let_def fold_containers_ok split: option.split)

subsection \<open>Attempts that fail\<close>

text \<open>Which worlds make an attempt fail, so that it is repeated: for lsm a file without containers or
  no container that runs, for raw_tracepoint a file that cannot be parsed.\<close>

definition lsm_idle :: "lsm_world \<Rightarrow> bool" where
  "lsm_idle w \<longleftrightarrow> lw_policy w = Some [] \<or> lw_policy w \<noteq> None \<and> lw_found w = []"

definition raw_idle :: "raw_world \<Rightarrow> bool" where
  "raw_idle w \<longleftrightarrow> rw_policy w = None"

interpretation lsm_waits: idle_loader lsm_attempt lsm_idle
  by unfold_locales
    (auto simp: lsm_attempt_def lsm_idle_def update_policy_with_file_def Let_def case_prod_unfold
      split: option.splits)

interpretation raw_waits: idle_loader "raw_attempt regex_match" raw_idle
  by unfold_locales
    (auto simp: raw_attempt_def raw_idle_def raw_update_policy_with_file_def Let_def case_prod_unfold
      split: option.splits)

end
