(* ===== verification/Namespaces.thy ===== *)
theory Namespaces
  imports Environment Watch_Loaders
begin

unbundle bit_operations_syntax

section \<open>The namespaces of a process\<close>

text \<open>
  \<open>get_namespace_id\<close> of \<open>tracepoint.cpp\<close> and \<open>get_pid_ns_id\<close>, \<open>get_mnt_ns_id\<close> and \<open>make_policy_key\<close>
  of \<open>enforcement.cpp\<close> read the links below \<open>/proc\<close>.  \<open>open_file\<close> (the descriptor, negative when the
  file cannot be opened) and \<open>readlink\<close> are arguments.
\<close>

subsection \<open>Reading a link\<close>

definition MAX_PATH :: nat where "MAX_PATH = 256"

text \<open>The path as \<open>snprintf\<close> leaves it in the buffer.\<close>

definition ns_path :: "string \<Rightarrow> int \<Rightarrow> string \<Rightarrow> string" where
  "ns_path proc_path pid ns = take (MAX_PATH - 1) (proc_path @ ''/'' @ to_string pid @ ''/ns/'' @ ns)"

text \<open>What the code sees of a link that was read: \<open>readlink\<close> does not write more than the buffer
  takes, and the text ends at the first zero.\<close>

definition link_text :: "string \<Rightarrow> string" where
  "link_text link = takeWhile (\<lambda>c. c \<noteq> CHR 0x00) (take (MAX_PATH - 1) link)"

text \<open>\<open>sscanf\<close> with \<open>%u\<close> or \<open>%lu\<close> after a prefix: white space, a sign, digits.  What follows the
  number does not matter.  A number beyond \<open>unsigned long\<close>, for which the C standard leaves the
  result open, becomes the largest one, as in glibc, and \<open>%u\<close> keeps its low 32 bits.\<close>

definition scan_number :: "string \<Rightarrow> u64 option" where
  "scan_number s =
     (let s = dropWhile is_space s;
          negative = s \<noteq> [] \<and> hd s = CHR ''-'';
          s = (if s \<noteq> [] \<and> (hd s = CHR ''-'' \<or> hd s = CHR ''+'') then tl s else s);
          digits = takeWhile is_digit s;
          n = undecimal digits
      in if digits = [] then None
         else if 2 ^ 64 \<le> n then Some (- 1)
         else Some (if negative then - of_nat n else of_nat n))"

definition scan_link :: "string \<Rightarrow> string \<Rightarrow> u64 option" where
  "scan_link ns link =
     (let prefix = ns @ '':[''; text = link_text link
      in if take (length prefix) text = prefix then scan_number (drop (length prefix) text) else None)"

subsection \<open>The functions\<close>

definition get_namespace_id :: "string \<Rightarrow> (string \<Rightarrow> int) \<Rightarrow> (string \<Rightarrow> string option) \<Rightarrow> int \<Rightarrow> u32" where
  "get_namespace_id proc_path open_file readlink pid =
     (let path = ns_path proc_path pid ''pid'' in
      if open_file path < 0 then 1
      else case readlink path of
          None \<Rightarrow> 1
        | Some link \<Rightarrow> (case scan_link ''pid'' link of None \<Rightarrow> 1 | Some n \<Rightarrow> ucast n))"

definition get_pid_ns_id :: "string \<Rightarrow> (string \<Rightarrow> int) \<Rightarrow> (string \<Rightarrow> string option) \<Rightarrow> int \<Rightarrow> u64" where
  "get_pid_ns_id proc_path open_file readlink pid =
     (let path = ns_path proc_path pid ''pid'' in
      if open_file path < 0 then 0
      else case readlink path of
          None \<Rightarrow> 0
        | Some link \<Rightarrow>
            (case scan_link ''pid'' link of None \<Rightarrow> 0 | Some n \<Rightarrow> ucast (ucast n :: u32)))"

text \<open>The check after the open is \<open>fd == 0\<close>, so an open that failed goes on to \<open>readlink\<close>.\<close>

definition get_mnt_ns_id :: "string \<Rightarrow> (string \<Rightarrow> int) \<Rightarrow> (string \<Rightarrow> string option) \<Rightarrow> int \<Rightarrow> u64" where
  "get_mnt_ns_id proc_path open_file readlink pid =
     (let path = ns_path proc_path pid ''mnt'' in
      if open_file path = 0 then 0
      else case readlink path of
          None \<Rightarrow> 0
        | Some link \<Rightarrow> (case scan_link ''mnt'' link of None \<Rightarrow> 0 | Some n \<Rightarrow> n))"

text \<open>The fields of the key have 32 bits.\<close>

definition read_policy_key :: "string \<Rightarrow> (string \<Rightarrow> int) \<Rightarrow> (string \<Rightarrow> string option) \<Rightarrow> int \<Rightarrow> policy_key" where
  "read_policy_key proc_path open_file readlink pid =
     make_policy_key (\<lambda>pid. ucast (get_pid_ns_id proc_path open_file readlink pid))
       (\<lambda>pid. ucast (get_mnt_ns_id proc_path open_file readlink pid)) pid"

subsection \<open>The links of a running process\<close>

text \<open>How the kernel prints a namespace.\<close>

definition ns_link :: "string \<Rightarrow> u32 \<Rightarrow> string" where
  "ns_link ns i = ns @ '':['' @ decimal (unat i) @ '']''"

lemma takeWhile_decimal: "takeWhile is_digit (decimal n @ CHR '']'' # s) = decimal n"
proof -
  have "\<not> is_digit (CHR '']'')" by (simp add: is_digit_def)
  with decimal_digits [of n] show ?thesis
    by (subst takeWhile_append2) (simp_all add: list_all_iff)
qed

lemma scan_number_decimal:
  assumes "n < 2 ^ 64"
  shows "scan_number (decimal n @ CHR '']'' # s) = Some (of_nat n)"
proof -
  obtain c cs where d: "decimal n = c # cs" by (cases "decimal n") simp_all
  then have "is_digit c" using decimal_digits [of n] by simp
  then have "\<not> is_space c" "c \<noteq> CHR ''-''" "c \<noteq> CHR ''+''"
    by (auto simp: is_digit_def is_space_def)
  with assms takeWhile_decimal [of n s] undecimal_decimal [of n] show ?thesis
    by (simp add: scan_number_def d Let_def)
qed

lemma decimal_length: "n < 10 ^ k \<Longrightarrow> 0 < k \<Longrightarrow> length (decimal n) \<le> k"
proof (induction n arbitrary: k rule: decimal.induct)
  case (1 n)
  show ?case
  proof (cases "n < 10")
    case True
    with 1 show ?thesis by (simp add: decimal.simps [of n])
  next
    case False
    with 1 obtain j where j: "k = Suc j" "0 < j" by (cases k; cases "k = 1") auto
    with 1 have "n div 10 < 10 ^ j" by (simp add: less_mult_imp_div_less mult.commute)
    with "1.IH" [OF False, of j] j False show ?thesis by (simp add: decimal.simps [of n])
  qed
qed

lemma scan_link_ns_link:
  assumes "ns = ''pid'' \<or> ns = ''mnt''"
  shows "scan_link ns (ns_link ns i) = Some (ucast i)"
proof -
  have "unat i < 10 ^ 10" by (rule less_trans [OF unsigned_less]) simp
  then have "length (decimal (unat i)) \<le> 10" by (rule decimal_length) simp
  then have "length (ns_link ns i) \<le> 16" using assms by (auto simp: ns_link_def)
  then have "take (MAX_PATH - 1) (ns_link ns i) = ns_link ns i" by (simp add: MAX_PATH_def)
  moreover have "takeWhile (\<lambda>c. c \<noteq> CHR 0x00) (ns_link ns i) = ns_link ns i"
    unfolding takeWhile_eq_all_conv using assms decimal_digits [of "unat i"]
    by (auto simp: ns_link_def list_all_iff is_digit_def)
  ultimately have "link_text (ns_link ns i) = ns_link ns i" by (simp add: link_text_def)
  moreover have "unat i < 2 ^ 64" by (rule less_trans [OF unsigned_less]) simp
  from scan_number_decimal [OF this, of "[]"]
  have "scan_number (decimal (unat i) @ '']'') = Some (ucast i)"
    by (simp add: of_nat_unat)
  ultimately show ?thesis by (auto simp: scan_link_def ns_link_def Let_def)
qed

lemma widened_narrowed: "ucast (ucast (i :: u32) :: u64) = i"
  by (rule ucast_up_ucast_id) (simp add: is_up)

lemma namespace_id_read:
  assumes "open_file (ns_path proc_path pid ''pid'') \<ge> 0"
    and "readlink (ns_path proc_path pid ''pid'') = Some (ns_link ''pid'' i)"
  shows "get_namespace_id proc_path open_file readlink pid = i"
  using assms scan_link_ns_link [of "''pid''" i] by (simp add: get_namespace_id_def Let_def widened_narrowed)

lemma policy_key_read:
  assumes "open_file (ns_path proc_path pid ''pid'') \<ge> 0" and "open_file (ns_path proc_path pid ''mnt'') \<noteq> 0"
    and "readlink (ns_path proc_path pid ''pid'') = Some (ns_link ''pid'' i)"
    and "readlink (ns_path proc_path pid ''mnt'') = Some (ns_link ''mnt'' j)"
  shows "read_policy_key proc_path open_file readlink pid = \<lparr>pid_ns_id = i, mnt_ns_id = j\<rparr>"
  using assms scan_link_ns_link [of "''pid''" i] scan_link_ns_link [of "''mnt''" j]
  by (simp add: read_policy_key_def make_policy_key_def get_pid_ns_id_def get_mnt_ns_id_def Let_def widened_narrowed)

end
