(* ===== verification/Watch_Effect.thy ===== *)
theory Watch_Effect
  imports Watch_Loaders
begin

section \<open>From a Docker event to the verdict\<close>

text \<open>
  The watchers and the enforcement together: an event of the Docker stream starts an update, which
  repeats while there is nothing to load, and the policy that it finds then governs the hooks of the
  security monitor, and decides what the programs of the tracepoint monitor record.
\<close>

subsection \<open>Attempts that fail and the one that succeeds\<close>

text \<open>A world whose policy can be loaded.\<close>

definition installable :: "lsm_world \<Rightarrow> bool" where
  "installable w \<longleftrightarrow>
     (case lw_policy w of None \<Rightarrow> False | Some named \<Rightarrow> named \<noteq> []) \<and> lw_found w \<noteq> [] \<and>
     list_all (\<lambda>c. eligible (lw_key w) c \<longrightarrow> policy_fits (lc_policies c)) (lw_found w) \<and>
     distinct (map (lw_key w \<circ> lc_pid) (filter (eligible (lw_key w)) (lw_found w))) \<and>
     length (lw_found w) \<le> MAX_CONTAINERS"

lemma idle_attempt_flags: "lsm_idle w \<Longrightarrow> fst (snd (lsm_attempt w s)) = fst s"
  by (auto simp: lsm_attempt_def lsm_idle_def update_policy_with_file_def Let_def split: option.split)

lemma idle_attempts_flags:
  "\<forall>j < n. lsm_idle (worlds (fst ks + j)) \<Longrightarrow>
   fst (snd (attempts (clocked worlds lsm_attempt) i n ks)) = fst (snd ks)"
proof (induction n arbitrary: i ks)
  case (Suc n)
  let ?ks = "snd (clocked worlds lsm_attempt i ks)"
  have "lsm_idle (worlds (fst ks))" using Suc.prems by auto
  then have flags: "fst (snd ?ks) = fst (snd ks)"
    by (simp add: clocked_def case_prod_unfold Let_def idle_attempt_flags)
  have "lsm_idle (worlds (fst ?ks + j))" if "j < n" for j
    using Suc.prems [rule_format, of "Suc j"] that by (simp add: lsm_waits.clocked_ticks)
  then have "fst (snd (attempts (clocked worlds lsm_attempt) (Suc i) n ?ks)) = fst (snd ?ks)"
    by (intro Suc.IH) auto
  with flags show ?case by simp
qed simp

lemma attempts_last: "attempts upd i (Suc n) s = snd (upd (i + n) (attempts upd i n s))"
  by (induction n arbitrary: i s) auto

text \<open>The first world that is not idle is the one whose policy is loaded.\<close>

lemma update_loads_first:
  assumes "\<forall>j < n. lsm_idle (worlds (k + j))" and "\<not> lsm_idle (worlds (k + n))"
  shows "\<exists>pm1. update_policy_on_event worlds lsm_attempt (k, fm, pm) =
    Some (Suc (k + n), snd (lsm_attempt (worlds (k + n)) (fm, pm1)))"
proof -
  let ?upd = "clocked worlds lsm_attempt"
  let ?before = "attempts ?upd k n (k, fm, pm)"
  have clock: "fst ?before = k + n" by (simp add: lsm_waits.attempts_clock)
  have "fst (snd ?before) = fm" using idle_attempts_flags [of n worlds "(k, fm, pm)" k] assms(1) by simp
  then have before: "?before = (k + n, fm, snd (snd ?before))" using clock by (metis prod.collapse)
  have "update_policy_on_event worlds lsm_attempt (k, fm, pm) = Some (attempts ?upd k (Suc n) (k, fm, pm))"
    using assms unfolding lsm_waits.update_returns_iff by blast
  also have "attempts ?upd k (Suc n) (k, fm, pm) = snd (?upd (k + n) ?before)" by (rule attempts_last)
  also have "\<dots> = (Suc (k + n), snd (lsm_attempt (worlds (k + n)) (fm, snd (snd ?before))))"
    by (subst before) (simp add: clocked_def case_prod_unfold Let_def)
  finally show ?thesis by blast
qed

lemma installable_not_idle: "installable w \<Longrightarrow> \<not> lsm_idle w"
  by (auto simp: installable_def lsm_idle_def split: option.splits)

subsection \<open>The policy of the world governs\<close>

lemma attempt_governs:
  assumes "fm_ok fm" and w: "installable w"
    and c: "c \<in> set (lw_found w)" "eligible (lw_key w) c" "value_shape (lw_garbage w c)"
    and K: "task_policy_key K = lw_key w (lc_pid c)" "lk_task K = Some t" "lk_reserve K = Some e0" "buffers_ok K e0"
  shows "fst (run_hook h (snd (snd (lsm_attempt w (fm, pm)))) K s) =
    (if has_rules (hook_type h) (lc_policies c) then fst (verdict h (yaml_matched (lc_policies c) h K e0)) else 0)"
proof -
  obtain named where named: "lw_policy w = Some named" "named \<noteq> []"
    using w by (auto simp: installable_def split: option.splits)
  have "lw_found w \<noteq> []" "length (lw_found w) \<le> MAX_CONTAINERS"
    "\<forall>c \<in> set (lw_found w). eligible (lw_key w) c \<longrightarrow> policy_fits (lc_policies c)"
    "distinct (map (lw_key w \<circ> lc_pid) (filter (eligible (lw_key w)) (lw_found w)))"
    using w by (simp_all add: installable_def list_all_iff)
  note world = this
  obtain fm' pm' where "update_policy_with_file (lw_key w) (lw_garbage w) named (lw_found w) fm pm = (Inr 0, fm', pm')"
    and "\<forall>h s. fst (run_hook h pm' K s) =
      (if has_rules (hook_type h) (lc_policies c) then fst (verdict h (yaml_matched (lc_policies c) h K e0)) else 0)"
    using policy_governs [where garbage = "lw_garbage w" and key_of = "lw_key w" and c = c and pm = pm,
        OF assms(1) named(2) world(1,3,4,2) c K] by blast
  then show ?thesis by (simp add: lsm_attempt_def named(1))
qed

text \<open>The whole way: a line of the event stream, in whatever chunks, starts the update.\<close>

lemma docker_event_governs:
  assumes line: "concat chunks = line @ [NL]" "NL \<notin> set line"
    and event: "json_event line = Some (action, ''container'')" "action \<in> set lsm_docker_actions"
    and "fm_ok fm" and idle: "\<forall>j < n. lsm_idle (worlds (k + j))" and w: "installable (worlds (k + n))"
    and c: "c \<in> set (lw_found (worlds (k + n)))" "eligible (lw_key (worlds (k + n))) c"
      "value_shape (lw_garbage (worlds (k + n)) c)"
    and K: "task_policy_key K = lw_key (worlds (k + n)) (lc_pid c)" "lk_task K = Some t" "lk_reserve K = Some e0"
      "buffers_ok K e0"
  shows "\<exists>fm' pm'. docker_stream json_event lsm_docker_actions (update_policy_on_event worlds lsm_attempt) chunks
      ([], k, fm, pm) = Some ([], Suc (k + n), fm', pm') \<and>
    (\<forall>h s. fst (run_hook h pm' K s) =
      (if has_rules (hook_type h) (lc_policies c)
       then fst (verdict h (yaml_matched (lc_policies c) h K e0)) else 0))"
proof -
  obtain pm1 where upd: "update_policy_on_event worlds lsm_attempt (k, fm, pm) =
      Some (Suc (k + n), snd (lsm_attempt (worlds (k + n)) (fm, pm1)))"
    using update_loads_first [OF idle installable_not_idle [OF w]] by blast
  obtain fm' pm' where s': "snd (lsm_attempt (worlds (k + n)) (fm, pm1)) = (fm', pm')" by fastforce
  have "split_lines [] (line @ [NL]) = ([line], [])"
    by (simp add: split_lines_append split_lines_no_newline [OF line(2)])
  then have "docker_stream json_event lsm_docker_actions (update_policy_on_event worlds lsm_attempt) chunks
      ([], k, fm, pm) = Some ([], Suc (k + n), fm', pm')"
    using event upd s' by (simp add: docker_stream_run line(1) handle_docker_line_def)
  with attempt_governs [OF assms(5) w c K, of _ pm1] s' show ?thesis by auto
qed

subsection \<open>From a Docker event to the record\<close>

text \<open>
  The same way for the tracepoint monitor.  \<open>trace_idle\<close>: the file names containers and none of them
  runs; \<open>trace_ready\<close>: some run, Docker lists each once and each has a namespace of its own.
\<close>

definition trace_found :: "(string \<Rightarrow> string \<Rightarrow> bool option) \<Rightarrow> trace_world \<Rightarrow> container list" where
  "trace_found regex_match w =
     (case tw_policy w of None \<Rightarrow> []
      | Some policies \<Rightarrow> getContainerPIDs regex_match policies (tw_garbage w) (tw_docker w))"

definition trace_idle :: "(string \<Rightarrow> string \<Rightarrow> bool option) \<Rightarrow> trace_world \<Rightarrow> bool" where
  "trace_idle regex_match w \<longleftrightarrow>
     (case tw_policy w of None \<Rightarrow> False | Some policies \<Rightarrow> policies \<noteq> []) \<and> trace_found regex_match w = []"

definition trace_ready :: "(string \<Rightarrow> string \<Rightarrow> bool option) \<Rightarrow> trace_world \<Rightarrow> bool" where
  "trace_ready regex_match w \<longleftrightarrow>
     (case tw_policy w of None \<Rightarrow> False | Some policies \<Rightarrow> policies \<noteq> []) \<and> trace_found regex_match w \<noteq> [] \<and>
     distinct (map c_id (trace_found regex_match w)) \<and>
     distinct (map (ns_of (tw_ns w)) (trace_found regex_match w))"

lemma trace_idle_attempt:
  "trace_idle regex_match w \<Longrightarrow> trace_attempt nr regex_match w l = (Failed, l\<lparr>running := []\<rparr>)"
  by (auto simp: trace_idle_def trace_found_def trace_attempt_def update_policy_def split: option.splits)

lemma loader_ok_running [simp]: "loader_ok (l\<lparr>running := cs\<rparr>) = loader_ok l"
  by (simp add: loader_ok_def)

lemma trace_ready_attempt:
  assumes "trace_ready regex_match w" and "loader_ok l"
    and "length (syscall_map l) + length (trace_found regex_match w) \<le> policy_max_entries"
  shows "\<exists>l'. trace_attempt nr regex_match w l = (Updated, l') \<and> loader_ok l' \<and>
    (\<forall>ns ev. ev \<noteq> - 1 \<longrightarrow>
      should_log (syscall_map l') ns ev = wants nr (tw_ns w) (trace_found regex_match w) ns ev)"
proof -
  obtain policies where policies: "tw_policy w = Some policies" "policies \<noteq> []"
    using assms(1) by (auto simp: trace_ready_def split: option.splits)
  have found: "trace_found regex_match w = getContainerPIDs regex_match policies (tw_garbage w) (tw_docker w)"
    by (simp add: trace_found_def policies)
  have ready: "trace_found regex_match w \<noteq> []" "distinct (map c_id (trace_found regex_match w))"
    "distinct (map (ns_of (tw_ns w)) (trace_found regex_match w))"
    using assms(1) by (simp_all add: trace_ready_def)
  from update_policy_ok [OF assms(2) policies(2) ready assms(3), of nr] show ?thesis
    by (simp add: trace_attempt_def policies(1) found Let_def case_prod_unfold)
qed

text \<open>The loop passes the idle worlds and installs the policy of the first one that is ready.\<close>

lemma trace_update_installs:
  assumes "\<forall>j < n. trace_idle regex_match (worlds (k + j))" and "\<forall>j \<le> 2 * (k + n). \<not> stop j"
    and "trace_ready regex_match (worlds (k + n))" and "loader_ok l"
    and "length (syscall_map l) + length (trace_found regex_match (worlds (k + n))) \<le> policy_max_entries"
  shows "\<exists>l'. retry_until_exit stop (clocked worlds (trace_attempt nr regex_match)) k (k, l) =
      Some (Suc (k + n), l') \<and> loader_ok l' \<and>
    (\<forall>ns ev. ev \<noteq> - 1 \<longrightarrow> should_log (syscall_map l') ns ev =
      wants nr (tw_ns (worlds (k + n))) (trace_found regex_match (worlds (k + n))) ns ev)"
  using assms
proof (induction n arbitrary: k l)
  case 0
  then obtain l' where "trace_attempt nr regex_match (worlds k) l = (Updated, l')" "loader_ok l'"
    "\<forall>ns ev. ev \<noteq> - 1 \<longrightarrow> should_log (syscall_map l') ns ev =
      wants nr (tw_ns (worlds k)) (trace_found regex_match (worlds k)) ns ev"
    using trace_ready_attempt [of regex_match "worlds k" l nr] by auto
  with 0 show ?case by (subst retry_until_exit_step) (simp add: clocked_def)
next
  case (Suc n)
  have "trace_idle regex_match (worlds k)" using Suc.prems(1) [rule_format, of 0] by simp
  then have first: "clocked worlds (trace_attempt nr regex_match) k (k, l) = (Failed, Suc k, l\<lparr>running := []\<rparr>)"
    by (simp add: clocked_def trace_idle_attempt)
  have "\<not> stop (2 * k)" "\<not> stop (Suc (2 * k))" using Suc.prems(2) by simp_all
  then have "retry_until_exit stop (clocked worlds (trace_attempt nr regex_match)) k (k, l) =
      retry_until_exit stop (clocked worlds (trace_attempt nr regex_match)) (Suc k) (Suc k, l\<lparr>running := []\<rparr>)"
    by (subst retry_until_exit_step) (simp add: first)
  moreover have "\<forall>j < n. trace_idle regex_match (worlds (Suc k + j))"
    using Suc.prems(1) by (auto dest: spec [of _ "Suc _"])
  ultimately show ?case using Suc.IH [of "Suc k" "l\<lparr>running := []\<rparr>"] Suc.prems by simp
qed

text \<open>What the programs record while a policy is in the map.\<close>

lemma step_follows_policy:
  assumes "step m a m'" and "activation a = Some (K, b, ev)"
    and "cur_task K \<noteq> None" and "\<forall>n. rb_reserve K n \<noteq> None"
  shows "if should_log (syscall_array (shared m)) (activation_ns K) ev
    then \<exists>e. history m' = history m @ [e] \<and> record_of K b ev (count (shared m) + 1) e
    else history m' = history m"
  using step_activation [OF assms(1,2)] assms(3,4) by (auto simp: logged_def history_def selected_def)

lemma docker_event_selects:
  assumes line: "concat chunks = line @ [NL]" "NL \<notin> set line"
    and event: "json_event line = Some (action, ''container'')" "action \<in> set trace_docker_actions"
    and update: "\<forall>j < n. trace_idle regex_match (worlds (k + j))" "\<forall>j \<le> 2 * (k + n). \<not> stop j"
      "trace_ready regex_match (worlds (k + n))" "loader_ok l"
      "length (syscall_map l) + length (trace_found regex_match (worlds (k + n))) \<le> policy_max_entries"
  shows "\<exists>l'. docker_stream json_event trace_docker_actions
      (trace_update_policy_on_event stop worlds (trace_attempt nr regex_match)) chunks ([], k, l) =
      Some ([], Suc (k + n), l') \<and> loader_ok l' \<and>
    (\<forall>m a m' K b ev. syscall_array (shared m) = syscall_map l' \<longrightarrow> step m a m' \<longrightarrow>
      activation a = Some (K, b, ev) \<longrightarrow> ev \<noteq> - 1 \<longrightarrow> cur_task K \<noteq> None \<longrightarrow> (\<forall>n. rb_reserve K n \<noteq> None) \<longrightarrow>
      (if wants nr (tw_ns (worlds (k + n))) (trace_found regex_match (worlds (k + n))) (activation_ns K) ev
       then \<exists>e. history m' = history m @ [e] \<and> record_of K b ev (count (shared m) + 1) e
       else history m' = history m))"
proof -
  obtain l' where upd: "trace_update_policy_on_event stop worlds (trace_attempt nr regex_match) (k, l) =
      Some (Suc (k + n), l')" and ok: "loader_ok l'"
    and exact: "\<forall>ns ev. ev \<noteq> - 1 \<longrightarrow> should_log (syscall_map l') ns ev =
      wants nr (tw_ns (worlds (k + n))) (trace_found regex_match (worlds (k + n))) ns ev"
    using trace_update_installs [OF update, of nr] unfolding trace_update_policy_on_event_def by auto
  have "split_lines [] (line @ [NL]) = ([line], [])"
    by (simp add: split_lines_append split_lines_no_newline [OF line(2)])
  then have run: "docker_stream json_event trace_docker_actions
      (trace_update_policy_on_event stop worlds (trace_attempt nr regex_match)) chunks ([], k, l) =
      Some ([], Suc (k + n), l')"
    using event upd by (simp add: docker_stream_run line(1) handle_docker_line_def)
  show ?thesis
  proof (intro exI conjI allI impI)
    fix m a m' K b ev
    assume m: "syscall_array (shared m) = syscall_map l'" and a: "step m a m'" "activation a = Some (K, b, ev)"
      and ev: "ev \<noteq> - 1" and K: "cur_task K \<noteq> None" "\<forall>n. rb_reserve K n \<noteq> None"
    show "if wants nr (tw_ns (worlds (k + n))) (trace_found regex_match (worlds (k + n))) (activation_ns K) ev
       then \<exists>e. history m' = history m @ [e] \<and> record_of K b ev (count (shared m) + 1) e
       else history m' = history m"
      using step_follows_policy [OF a K] unfolding m exact [rule_format, OF ev] .
  qed (fact run ok)+
qed

end
