(* ===== verification/Docker_Api.thy ===== *)
theory Docker_Api
  imports Watch_Loaders
begin

section \<open>The containers that Docker lists\<close>

text \<open>
  \<open>ContainerManager::getContainerPIDs\<close> of the three \<open>container_info.cpp\<close>, from the answers of the Docker
  API to the list of containers.  The three differ only in the member that holds the policy of a
  container: its type is \<open>'p\<close> here, and a YAML policy is a list of names with such a member.

  The JSON library json-c is a parameter, a record of the functions that the code calls; so is the
  transfer with libcurl: \<open>request url\<close> is \<open>None\<close> unless it ends with \<open>CURLE_OK\<close>, else the pieces that it
  passes to \<open>writeCallback\<close>.
\<close>

subsection \<open>The code\<close>

record 'j json_c =
  tokener_parse :: "string \<Rightarrow> 'j option"
  object_get_ex :: "'j \<Rightarrow> string \<Rightarrow> 'j option"
  array_length :: "'j \<Rightarrow> nat"
  array_get_idx :: "'j \<Rightarrow> nat \<Rightarrow> 'j"
  get_string :: "'j \<Rightarrow> string"
  get_int :: "'j \<Rightarrow> int"

record 'p docker_info =
  info_id :: string
  info_name :: string
  info_pid :: int
  info_policy :: 'p

definition writeCallback :: "string \<Rightarrow> string \<Rightarrow> string" where
  "writeCallback contents str = str @ contents"

definition fetch_json :: "'j json_c \<Rightarrow> (string \<Rightarrow> string list option) \<Rightarrow> string \<Rightarrow> 'j option" where
  "fetch_json J request url =
     (case request url of None \<Rightarrow> None | Some pieces \<Rightarrow> tokener_parse J (fold writeCallback pieces []))"

definition list_url :: string where
  "list_url = ''http://localhost/containers/json''"

definition inspect_url :: "string \<Rightarrow> string" where
  "inspect_url cid = ''http://localhost/containers/'' @ cid @ ''/json''"

text \<open>The first of the names, without the slash that Docker puts before it.\<close>

definition first_name :: "'j json_c \<Rightarrow> 'j \<Rightarrow> string" where
  "first_name J name_array =
     (if 0 < array_length J name_array then
        let full_name = get_string J (array_get_idx J name_array 0)
        in if full_name \<noteq> [] \<and> hd full_name = CHR ''/'' then tl full_name else full_name
      else ''unknown'')"

definition inspected_pid :: "'j json_c \<Rightarrow> (string \<Rightarrow> string list option) \<Rightarrow> string \<Rightarrow> int option" where
  "inspected_pid J request cid =
     (case fetch_json J request (inspect_url cid) of
        None \<Rightarrow> None
      | Some answer \<Rightarrow>
          (case object_get_ex J answer ''State'' of
             None \<Rightarrow> None
           | Some state \<Rightarrow> map_option (get_int J) (object_get_ex J state ''Pid'')))"

text \<open>The loop over the patterns that match; \<open>info\<close> is one variable for all of them.\<close>

fun add_matches ::
  "(string \<Rightarrow> int option) \<Rightarrow> (string \<times> 'p) list \<Rightarrow> string list \<Rightarrow> 'p docker_info \<Rightarrow> 'p docker_info list \<Rightarrow>
   'p docker_info list" where
  "add_matches pid_of policies [] info cs = cs"
| "add_matches pid_of policies (pattern # patterns) info cs =
     (case pid_of (info_id info) of
        None \<Rightarrow> add_matches pid_of policies patterns info cs
      | Some pid \<Rightarrow>
          (let info = (case map_of policies pattern of None \<Rightarrow> info | Some p \<Rightarrow> info\<lparr>info_policy := p\<rparr>);
               info = info\<lparr>info_pid := pid\<rparr>
           in add_matches pid_of policies patterns info (cs @ [info])))"

text \<open>One element of the list; a new \<open>ContainerInfo\<close> has a default policy and an uninitialised process id.\<close>

definition add_container ::
  "'j json_c \<Rightarrow> (string \<Rightarrow> string list option) \<Rightarrow> (string \<Rightarrow> string list) \<Rightarrow> (string \<times> 'p) list \<Rightarrow> int \<times> 'p \<Rightarrow>
   'j \<Rightarrow> 'p docker_info list \<Rightarrow> 'p docker_info list" where
  "add_container J request is_monitored policies fresh container cs =
     (case (object_get_ex J container ''Id'', object_get_ex J container ''Names'') of
        (Some id_obj, Some name_obj) \<Rightarrow>
          (let name = first_name J name_obj in
           add_matches (inspected_pid J request) policies (is_monitored name)
             \<lparr>info_id = get_string J id_obj, info_name = name, info_pid = fst fresh, info_policy = snd fresh\<rparr>
             cs)
      | _ \<Rightarrow> cs)"

text \<open>The result is the number of containers, but 0 when the list cannot be transferred.\<close>

definition docker_containers ::
  "'j json_c \<Rightarrow> bool \<Rightarrow> (string \<Rightarrow> string list option) \<Rightarrow> (string \<Rightarrow> string list) \<Rightarrow> (string \<times> 'p) list \<Rightarrow>
   int \<times> 'p \<Rightarrow> 'p docker_info list \<Rightarrow> int \<times> 'p docker_info list" where
  "docker_containers J curl request is_monitored policies fresh cs =
     (if \<not> curl then (int (length cs), cs)
      else case request list_url of
        None \<Rightarrow> (0, cs)
      | Some pieces \<Rightarrow>
          (let cs =
             (case tokener_parse J (fold writeCallback pieces []) of
                None \<Rightarrow> cs
              | Some jobj \<Rightarrow>
                  fold (\<lambda>i. add_container J request is_monitored policies fresh (array_get_idx J jobj i))
                    [0..<array_length J jobj] cs)
           in (int (length cs), cs)))"

subsection \<open>A daemon that answers\<close>

text \<open>
  What Docker says of a container: its id, its name and, if inspecting it succeeds, its process id.
  \<open>answers\<close> states the documented form of the two answers for such a list.
\<close>

type_synonym docker_state = "(string \<times> string \<times> int option) list"

definition describes_container :: "'j json_c \<Rightarrow> (string \<Rightarrow> string list option) \<Rightarrow> 'j \<Rightarrow> string \<times> string \<times> int option \<Rightarrow> bool" where
  "describes_container J request element c \<longleftrightarrow>
     (let (cid, name, pid) = c in
      (\<exists>id_obj names.
         object_get_ex J element ''Id'' = Some id_obj \<and> get_string J id_obj = cid \<and>
         object_get_ex J element ''Names'' = Some names \<and> 0 < array_length J names \<and>
         get_string J (array_get_idx J names 0) = CHR ''/'' # name) \<and>
      inspected_pid J request cid = pid)"

definition answers :: "'j json_c \<Rightarrow> (string \<Rightarrow> string list option) \<Rightarrow> docker_state \<Rightarrow> bool" where
  "answers J request docker \<longleftrightarrow>
     (\<exists>jobj. fetch_json J request list_url = Some jobj \<and> array_length J jobj = length docker \<and>
        (\<forall>i < length docker. describes_container J request (array_get_idx J jobj i) (docker ! i)))"

text \<open>What the list must be: every pair of a container that can be inspected and a pattern that it
  matches, in the order of Docker and of the patterns.\<close>

definition entries_of ::
  "(string \<Rightarrow> string list) \<Rightarrow> (string \<times> 'p) list \<Rightarrow> 'p \<Rightarrow> string \<times> string \<times> int option \<Rightarrow> 'p docker_info list" where
  "entries_of is_monitored policies empty_policy c =
     (case c of
        (cid, name, None) \<Rightarrow> []
      | (cid, name, Some pid) \<Rightarrow>
          map (\<lambda>pattern. \<lparr>info_id = cid, info_name = name, info_pid = pid,
                 info_policy = (case map_of policies pattern of None \<Rightarrow> empty_policy | Some p \<Rightarrow> p)\<rparr>)
            (is_monitored name))"

lemma add_matches_none: "pid_of (info_id info) = None \<Longrightarrow> add_matches pid_of policies ps info cs = cs"
  by (induction ps) simp_all

text \<open>The policy left by the pattern before is never seen when every pattern names one.\<close>

lemma add_matches_some:
  assumes "pid_of (info_id info) = Some pid" and "\<forall>p \<in> set ps. map_of policies p \<noteq> None"
  shows "add_matches pid_of policies ps info cs =
    cs @ map (\<lambda>p. info\<lparr>info_pid := pid, info_policy := the (map_of policies p)\<rparr>) ps"
  using assms
proof (induction ps arbitrary: info cs)
  case (Cons p ps)
  obtain q where q: "map_of policies p = Some q" using Cons.prems(2) by auto
  let ?info = "info\<lparr>info_policy := q, info_pid := pid\<rparr>"
  have "add_matches pid_of policies ps ?info (cs @ [?info]) =
      (cs @ [?info]) @ map (\<lambda>p. ?info\<lparr>info_pid := pid, info_policy := the (map_of policies p)\<rparr>) ps"
    using Cons.prems by (intro Cons.IH) simp_all
  with Cons.prems(1) q show ?case by (simp add: Let_def)
qed simp

lemma first_name_slash:
  "0 < array_length J names \<Longrightarrow> get_string J (array_get_idx J names 0) = CHR ''/'' # name \<Longrightarrow>
     first_name J names = name"
  by (simp add: first_name_def)

lemma fold_entries:
  assumes "\<And>i cs. i < length xs \<Longrightarrow> f i cs = cs @ g (xs ! i)"
  shows "fold f [0..<length xs] cs = cs @ concat (map g xs)"
  using assms
proof (induction xs arbitrary: cs rule: rev_induct)
  case (snoc x xs)
  have "fold f [0..<length xs] cs = cs @ concat (map g xs)"
    using snoc.prems by (intro snoc.IH) (simp add: nth_append)
  with snoc.prems [of "length xs"] show ?case by simp
qed simp

text \<open>What the three programs have in common: a pattern that matches is the name of a policy.\<close>

locale named_patterns =
  fixes is_monitored :: "string \<Rightarrow> string list"
    and policies :: "(string \<times> 'p) list"
  assumes named: "p \<in> set (is_monitored name) \<Longrightarrow> map_of policies p \<noteq> None"
begin

lemma add_container_entries:
  assumes "describes_container J request element c"
  shows "add_container J request is_monitored policies fresh element cs =
    cs @ entries_of is_monitored policies (snd fresh) c"
proof -
  obtain cid name pid where c: "c = (cid, name, pid)" by (cases c)
  obtain id_obj names where "object_get_ex J element ''Id'' = Some id_obj" "get_string J id_obj = cid"
    "object_get_ex J element ''Names'' = Some names" "first_name J names = name"
    "inspected_pid J request cid = pid"
    using assms by (auto simp: describes_container_def c first_name_slash)
  then have run: "add_container J request is_monitored policies fresh element cs =
      add_matches (inspected_pid J request) policies (is_monitored name)
        \<lparr>info_id = cid, info_name = name, info_pid = fst fresh, info_policy = snd fresh\<rparr> cs"
    and pid: "inspected_pid J request cid = pid"
    by (simp_all add: add_container_def Let_def)
  show ?thesis
  proof (cases pid)
    case None
    then show ?thesis unfolding run using pid by (simp add: add_matches_none entries_of_def c)
  next
    case (Some p)
    have known: "\<forall>q \<in> set (is_monitored name). map_of policies q \<noteq> None" using named by blast
    then have "map (\<lambda>q. \<lparr>info_id = cid, info_name = name, info_pid = p, info_policy = the (map_of policies q)\<rparr>)
        (is_monitored name) = entries_of is_monitored policies (snd fresh) c"
      by (auto simp: entries_of_def c Some)
    with add_matches_some [of "inspected_pid J request"
        "\<lparr>info_id = cid, info_name = name, info_pid = fst fresh, info_policy = snd fresh\<rparr>" p "is_monitored name"
        policies cs] known pid Some
    show ?thesis unfolding run by simp
  qed
qed

lemma listing:
  assumes "answers J request docker"
  shows "docker_containers J True request is_monitored policies fresh [] =
    (int (length (concat (map (entries_of is_monitored policies (snd fresh)) docker))),
     concat (map (entries_of is_monitored policies (snd fresh)) docker))"
proof -
  obtain jobj pieces where jobj: "request list_url = Some pieces"
    "tokener_parse J (fold writeCallback pieces []) = Some jobj" "array_length J jobj = length docker"
    and each: "\<And>i. i < length docker \<Longrightarrow> describes_container J request (array_get_idx J jobj i) (docker ! i)"
    using assms by (auto simp: answers_def fetch_json_def split: option.splits)
  have "fold (\<lambda>i. add_container J request is_monitored policies fresh (array_get_idx J jobj i))
      [0..<length docker] [] = [] @ concat (map (entries_of is_monitored policies (snd fresh)) docker)"
    by (rule fold_entries) (rule add_container_entries, rule each)
  with jobj show ?thesis by (simp add: docker_containers_def Let_def)
qed

end

text \<open>Docker does not answer: 0, with what was in the list before.\<close>

lemma docker_containers_unreachable:
  "request list_url = None \<Longrightarrow> docker_containers J True request is_monitored policies fresh cs = (0, cs)"
  by (simp add: docker_containers_def)

subsection \<open>The three programs\<close>

text \<open>The containers that can be inspected, as the models of the updates take them.\<close>

definition inspectable :: "docker_state \<Rightarrow> docker_list" where
  "inspectable docker = concat (map (\<lambda>(cid, name, pid). case pid of None \<Rightarrow> [] | Some p \<Rightarrow> [(cid, name, p)]) docker)"

definition trace_names :: "container_policy list \<Rightarrow> (string \<times> string list) list" where
  "trace_names policies = map (\<lambda>p. (p_container_name p, p_syscalls p)) policies"

definition trace_container :: "u32 \<Rightarrow> string list docker_info \<Rightarrow> container" where
  "trace_container garbage i =
     \<lparr>c_id = info_id i, c_name = info_name i, c_pid = info_pid i, c_ns_id = garbage, c_syscalls = info_policy i\<rparr>"

interpretation trace_patterns: named_patterns "isMonitored regex_match (map p_container_name policies)" "trace_names policies"
  by unfold_locales (auto simp: isMonitored_def trace_names_def map_of_eq_None_iff image_image)

lemma map_of_trace_names:
  "map_of (trace_names policies) pattern = map_option p_syscalls (find (\<lambda>p. p_container_name p = pattern) policies)"
  by (induction policies) (simp_all add: trace_names_def)

lemma trace_listing:
  "map (trace_container garbage)
     (concat (map (entries_of (isMonitored regex_match (map p_container_name policies)) (trace_names policies) []) docker)) =
   getContainerPIDs regex_match policies garbage (inspectable docker)"
proof (induction docker)
  case (Cons c docker)
  obtain cid name pid where c: "c = (cid, name, pid)" by (cases c)
  show ?case
    using Cons
    by (cases pid) (auto simp: c getContainerPIDs_def inspectable_def entries_of_def trace_container_def
        map_of_trace_names option.case_eq_if)
qed (simp add: getContainerPIDs_def inspectable_def)

definition raw_container_of :: "u64 \<Rightarrow> unit docker_info \<Rightarrow> raw_container" where
  "raw_container_of garbage i =
     \<lparr>rc_id = info_id i, rc_name = info_name i, rc_pid = info_pid i, rc_cgroup_id = garbage\<rparr>"

interpretation raw_patterns: named_patterns "raw_isMonitored regex_match monitored" "map (\<lambda>n. (n, ())) monitored"
  by unfold_locales (auto simp: raw_isMonitored_def map_of_eq_None_iff image_image)

lemma raw_listing:
  "map (raw_container_of garbage)
     (concat (map (entries_of (raw_isMonitored regex_match monitored) (map (\<lambda>n. (n, ())) monitored) ()) docker)) =
   raw_getContainerPIDs regex_match monitored garbage (inspectable docker)"
proof (induction docker)
  case (Cons c docker)
  obtain cid name pid where c: "c = (cid, name, pid)" by (cases c)
  show ?case
    using Cons
    by (cases pid) (auto simp: c raw_getContainerPIDs_def inspectable_def entries_of_def raw_container_of_def)
qed (simp add: raw_getContainerPIDs_def inspectable_def)

text \<open>\<open>isMonitored\<close> of the security monitor, and the list that its update takes.\<close>

definition lsm_isMonitored :: "(string \<Rightarrow> string \<Rightarrow> bool option) \<Rightarrow> string list \<Rightarrow> string \<Rightarrow> string list" where
  "lsm_isMonitored regex_match monitored_containers name =
     filter (\<lambda>pattern. name = pattern \<or> regex_match pattern name = Some True) monitored_containers"

definition lsm_container_of :: "yaml_lsm docker_info \<Rightarrow> lsm_container" where
  "lsm_container_of i = \<lparr>lc_name = info_name i, lc_pid = info_pid i, lc_policies = info_policy i\<rparr>"

definition lsm_getContainerPIDs ::
  "(string \<Rightarrow> string \<Rightarrow> bool option) \<Rightarrow> (string \<times> yaml_lsm) list \<Rightarrow> docker_list \<Rightarrow> lsm_container list" where
  "lsm_getContainerPIDs regex_match policies docker =
     concat (map (\<lambda>(cid, name, pid).
       map (\<lambda>pattern. \<lparr>lc_name = name, lc_pid = pid, lc_policies = the (map_of policies pattern)\<rparr>)
         (lsm_isMonitored regex_match (map fst policies) name)) docker)"

interpretation lsm_patterns: named_patterns "lsm_isMonitored regex_match (map fst policies)" policies
  by unfold_locales (auto simp: lsm_isMonitored_def map_of_eq_None_iff)

lemma lsm_listing:
  "map lsm_container_of
     (concat (map (entries_of (lsm_isMonitored regex_match (map fst policies)) policies p0) docker)) =
   lsm_getContainerPIDs regex_match policies (inspectable docker)"
proof (induction docker)
  case (Cons c docker)
  obtain cid name pid where c: "c = (cid, name, pid)" by (cases c)
  have "(case map_of policies p of None \<Rightarrow> p0 | Some q \<Rightarrow> q) = the (map_of policies p)"
    if "p \<in> set (lsm_isMonitored regex_match (map fst policies) name)" for p
    using lsm_patterns.named [OF that] by (auto split: option.split)
  with Cons show ?case
    by (cases pid) (auto simp: c lsm_getContainerPIDs_def inspectable_def entries_of_def lsm_container_of_def)
qed (simp add: lsm_getContainerPIDs_def inspectable_def)

subsection \<open>The lists that the updates work on\<close>

definition trace_containers ::
  "'j json_c \<Rightarrow> bool \<Rightarrow> (string \<Rightarrow> string list option) \<Rightarrow> (string \<Rightarrow> string \<Rightarrow> bool option) \<Rightarrow> container_policy list \<Rightarrow>
   int \<Rightarrow> u32 \<Rightarrow> container list" where
  "trace_containers J curl request regex_match policies pid garbage =
     map (trace_container garbage) (snd (docker_containers J curl request
       (isMonitored regex_match (map p_container_name policies)) (trace_names policies) (pid, []) []))"

definition raw_containers ::
  "'j json_c \<Rightarrow> bool \<Rightarrow> (string \<Rightarrow> string list option) \<Rightarrow> (string \<Rightarrow> string \<Rightarrow> bool option) \<Rightarrow> string list \<Rightarrow>
   int \<Rightarrow> u64 \<Rightarrow> raw_container list" where
  "raw_containers J curl request regex_match monitored pid garbage =
     map (raw_container_of garbage) (snd (docker_containers J curl request
       (raw_isMonitored regex_match monitored) (map (\<lambda>n. (n, ())) monitored) (pid, ()) []))"

definition no_rules :: yaml_lsm where
  "no_rules = \<lparr>y_file = [], y_network = [], y_process = []\<rparr>"

definition lsm_containers ::
  "'j json_c \<Rightarrow> bool \<Rightarrow> (string \<Rightarrow> string list option) \<Rightarrow> (string \<Rightarrow> string \<Rightarrow> bool option) \<Rightarrow> (string \<times> yaml_lsm) list \<Rightarrow>
   int \<Rightarrow> lsm_container list" where
  "lsm_containers J curl request regex_match policies pid =
     map lsm_container_of (snd (docker_containers J curl request
       (lsm_isMonitored regex_match (map fst policies)) policies (pid, no_rules) []))"

lemma trace_containers_listed:
  "answers J request docker \<Longrightarrow> trace_containers J True request regex_match policies pid garbage =
     getContainerPIDs regex_match policies garbage (inspectable docker)"
  by (simp add: trace_containers_def trace_patterns.listing trace_listing)

lemma raw_containers_listed:
  "answers J request docker \<Longrightarrow> raw_containers J True request regex_match monitored pid garbage =
     raw_getContainerPIDs regex_match monitored garbage (inspectable docker)"
  by (simp add: raw_containers_def raw_patterns.listing raw_listing)

lemma lsm_containers_listed:
  "answers J request docker \<Longrightarrow> lsm_containers J True request regex_match policies pid =
     lsm_getContainerPIDs regex_match policies (inspectable docker)"
  by (simp add: lsm_containers_def lsm_patterns.listing lsm_listing)

text \<open>
  While Docker does not answer, an update of the tracepoint monitor fails and leaves the calls to be
  logged as they were.  The security monitor has cleared its map by then, and no hook enforces anything.
\<close>

lemma run_hook_cleared: "run_hook h [] K s = (0, s)"
  using run_hook_enforced [of h "[]" K s]
  by (simp add: enforced_def should_monitor_def bpf_map_lookup_elem_def split: option.splits)

lemma trace_unreachable:
  assumes "request list_url = None" and "policies \<noteq> []"
  shows "update_policy nr get_ns policies (trace_containers J True request regex_match policies pid garbage) l =
    (- 1, l\<lparr>running := []\<rparr>)"
  using assms by (simp add: update_policy_def trace_containers_def docker_containers_unreachable)

lemma lsm_unreachable:
  assumes "request list_url = None" and "policies \<noteq> []"
  shows "update_policy_with_file key_of uninit (map fst policies)
      (lsm_containers J True request regex_match policies pid) fm pm = (Inr (- 1), fm, [])"
  using assms by (simp add: update_policy_with_file_def lsm_containers_def docker_containers_unreachable Let_def)

end
