(* ===== verification/Watch_Threads.thy ===== *)
theory Watch_Threads
  imports Watch_Events
begin

section \<open>The two watching threads\<close>

text \<open>
  The file watcher and the Docker watcher run \<open>update_policy_on_event\<close> concurrently.  They share the
  atomic flag \<open>policy_update_running\<close>, the mutex \<open>mtx\<close> and a condition variable.  What there is to be
  loaded (the policy file and the running containers) is a version number \<open>world\<close>; every change of it
  is announced to one of the watchers; \<open>installed\<close> is the version of the last update that succeeded.
  A step is one of the accesses to the shared state, in the order of the code.  A thread that waits in
  \<open>cv.wait_for\<close> may wake up at any time, as the wait ends after three seconds at the latest.
\<close>

subsection \<open>Steps\<close>

datatype watcher = File_watcher | Docker_watcher

text \<open>\<open>Polling\<close>: in \<open>poll\<close> or in the transfer of the event stream; \<open>Notifying\<close>: has an event and is
  about to lock the mutex for \<open>notify_one\<close>; \<open>Calling\<close>: enters \<open>update_policy_on_event\<close>; \<open>Locking\<close>:
  has set the flag and is about to lock the mutex; \<open>Attempting\<close>: holds the mutex; \<open>Loading\<close>: has read
  this version; \<open>Leaving\<close>: has released the mutex and is about to clear the flag.\<close>

datatype watcher_pc = Polling | Notifying | Calling | Locking | Attempting | Loading nat | Waiting | Leaving

record watchers =
  pc :: "watcher \<Rightarrow> watcher_pc"
  policy_update_running :: bool
  mtx :: "watcher option"
  world :: nat
  due :: "watcher \<Rightarrow> nat"
  installed :: nat

text \<open>\<open>Take t False\<close> is the deletion of the file, for which the code does not notify.\<close>

datatype watcher_act =
    Change watcher | Take watcher bool | Notify watcher | Call watcher | Lock watcher | Read watcher
  | Conclude watcher update_result | Wake_up watcher | Clear watcher

abbreviation goto :: "watcher \<Rightarrow> watcher_pc \<Rightarrow> watchers \<Rightarrow> watchers" where
  "goto t p s \<equiv> s\<lparr>pc := (pc s)(t := p)\<rparr>"

fun watcher_step :: "watcher_act \<Rightarrow> watchers \<Rightarrow> watchers option" where
  "watcher_step (Change t) s = Some (s\<lparr>world := Suc (world s), due := (due s)(t := Suc (due s t))\<rparr>)"
| "watcher_step (Take t notifies) s =
     (if pc s t = Polling \<and> 0 < due s t
      then Some (goto t (if notifies then Notifying else Calling) (s\<lparr>due := (due s)(t := due s t - 1)\<rparr>))
      else None)"
| "watcher_step (Notify t) s =
     (if pc s t = Notifying \<and> mtx s = None then Some (goto t Calling s) else None)"
| "watcher_step (Call t) s =
     (if pc s t = Calling then
        Some (if policy_update_running s then goto t Polling s
              else goto t Locking (s\<lparr>policy_update_running := True\<rparr>))
      else None)"
| "watcher_step (Lock t) s =
     (if pc s t = Locking \<and> mtx s = None then Some (goto t Attempting (s\<lparr>mtx := Some t\<rparr>)) else None)"
| "watcher_step (Read t) s =
     (if pc s t = Attempting then Some (goto t (Loading (world s)) s) else None)"
| "watcher_step (Conclude t r) s =
     (case pc s t of
        Loading v \<Rightarrow>
          Some (case r of
              Updated \<Rightarrow> goto t Leaving (s\<lparr>mtx := None, installed := v\<rparr>)
            | Failed \<Rightarrow> goto t Waiting (s\<lparr>mtx := None\<rparr>)
            | Thrown \<Rightarrow> goto t Leaving (s\<lparr>mtx := None\<rparr>))
      | _ \<Rightarrow> None)"
| "watcher_step (Wake_up t) s =
     (if pc s t = Waiting \<and> mtx s = None then Some (goto t Attempting (s\<lparr>mtx := Some t\<rparr>)) else None)"
| "watcher_step (Clear t) s =
     (if pc s t = Leaving then Some (goto t Polling (s\<lparr>policy_update_running := False\<rparr>)) else None)"

definition watchers_start :: watchers where
  "watchers_start = \<lparr>pc = \<lambda>_. Polling, policy_update_running = False, mtx = None, world = 0,
     due = \<lambda>_. 0, installed = 0\<rparr>"

definition watchers_run :: "watcher_act list \<Rightarrow> watchers \<Rightarrow> watchers option" where
  "watchers_run = fold_option watcher_step"

subsection \<open>At most one update\<close>

fun other :: "watcher \<Rightarrow> watcher" where
  "other File_watcher = Docker_watcher"
| "other Docker_watcher = File_watcher"

fun updating :: "watcher_pc \<Rightarrow> bool" where
  "updating Polling = False"
| "updating Notifying = False"
| "updating Calling = False"
| "updating _ = True"

fun locked :: "watcher_pc \<Rightarrow> bool" where
  "locked Attempting = True"
| "locked (Loading v) = True"
| "locked _ = False"

text \<open>The flag is set exactly while a thread is inside, the mutex is held exactly while it loads, and
  never are both threads inside.\<close>

definition exclusive :: "watchers \<Rightarrow> bool" where
  "exclusive s \<longleftrightarrow>
     \<not> (updating (pc s File_watcher) \<and> updating (pc s Docker_watcher)) \<and>
     policy_update_running s = (updating (pc s File_watcher) \<or> updating (pc s Docker_watcher)) \<and>
     (\<forall>t. mtx s = Some t \<longleftrightarrow> locked (pc s t))"

lemma locked_updating: "locked p \<Longrightarrow> updating p"
  by (cases p) simp_all

lemma watchers_eq [simp]:
  "(t \<noteq> File_watcher) = (t = Docker_watcher)" "(t \<noteq> Docker_watcher) = (t = File_watcher)"
  by (cases t; simp)+

lemma all_watchers: "(\<forall>t. P t) \<longleftrightarrow> P File_watcher \<and> P Docker_watcher"
  by (metis watcher.exhaust)

lemma step_exclusive: "watcher_step a s = Some s' \<Longrightarrow> exclusive s \<Longrightarrow> exclusive s'"
proof (induction a s rule: watcher_step.induct)
  case (7 t r s)
  then obtain v where v: "pc s t = Loading v" by (auto split: watcher_pc.splits)
  with 7 show ?case
    by (cases t; cases r) (auto simp: exclusive_def all_watchers dest: locked_updating)
next
  case (4 t s)
  then show ?case
    by (cases t) (auto simp: exclusive_def all_watchers dest: locked_updating split: if_splits)
qed (rename_tac t s, case_tac t;
    fastforce simp: exclusive_def all_watchers split: if_splits dest: locked_updating)+

lemma start_exclusive: "exclusive watchers_start"
  by (simp add: exclusive_def watchers_start_def)

lemma run_exclusive: "watchers_run as watchers_start = Some s \<Longrightarrow> exclusive s"
  unfolding watchers_run_def
  by (rule fold_option_invariant [of exclusive watcher_step, OF _ start_exclusive])
    (auto intro: step_exclusive)

subsection \<open>Changes that reach the maps\<close>

text \<open>A thread in this place is going to read version \<open>w\<close> of the world, or has read it.\<close>

fun will_read :: "nat \<Rightarrow> watcher_pc \<Rightarrow> bool" where
  "will_read w Polling = False"
| "will_read w Leaving = False"
| "will_read w (Loading v) = (v = w)"
| "will_read w _ = True"

text \<open>A call that finds the flag set although the running update has already read the world comes too
  late: its change is announced to nobody any more.\<close>

definition late_call :: "watcher \<Rightarrow> watchers \<Rightarrow> bool" where
  "late_call t s \<longleftrightarrow> policy_update_running s \<and> \<not> will_read (world s) (pc s (other t))"

text \<open>A step that is not a late call, and not the end of an update by an exception.\<close>

fun timely :: "watcher_act \<Rightarrow> watchers \<Rightarrow> bool" where
  "timely (Call t) s = (\<not> late_call t s)"
| "timely (Conclude t Thrown) s = False"
| "timely _ s = True"

fun timely_run :: "watcher_act list \<Rightarrow> watchers \<Rightarrow> bool" where
  "timely_run [] s = True"
| "timely_run (a # as) s =
     (timely a s \<and> (case watcher_step a s of None \<Rightarrow> True | Some s' \<Rightarrow> timely_run as s'))"

definition watchers_quiet :: "watchers \<Rightarrow> bool" where
  "watchers_quiet s \<longleftrightarrow> pc s File_watcher = Polling \<and> pc s Docker_watcher = Polling \<and>
     due s File_watcher = 0 \<and> due s Docker_watcher = 0"

fun stale :: "nat \<Rightarrow> watcher_pc \<Rightarrow> bool" where
  "stale w (Loading v) = (v \<noteq> w)"
| "stale w _ = False"

lemma stale_updating: "stale w p \<Longrightarrow> updating p"
  by (cases p) simp_all

text \<open>The newest version is installed and no older one is being loaded, or somebody is going to read
  it, or has.\<close>

definition tracked :: "watchers \<Rightarrow> bool" where
  "tracked s \<longleftrightarrow>
     installed s = world s \<and> \<not> stale (world s) (pc s File_watcher) \<and> \<not> stale (world s) (pc s Docker_watcher) \<or>
     (0 < due s File_watcher \<or> will_read (world s) (pc s File_watcher)) \<or>
     (0 < due s Docker_watcher \<or> will_read (world s) (pc s Docker_watcher))"

lemma step_tracked:
  "watcher_step a s = Some s' \<Longrightarrow> timely a s \<Longrightarrow> exclusive s \<Longrightarrow> tracked s \<Longrightarrow> tracked s'"
proof (induction a s rule: watcher_step.induct)
  case (7 t r s)
  then obtain v where v: "pc s t = Loading v" by (auto split: watcher_pc.splits)
  with 7 show ?case by (cases t; cases r) (auto simp: tracked_def exclusive_def dest: stale_updating)
next
  case (4 t s)
  then show ?case by (cases t) (auto simp: tracked_def late_call_def split: if_splits)
qed (rename_tac t s, case_tac t; fastforce simp: tracked_def split: if_splits)+

lemma timely_run_tracked:
  "watchers_run as s = Some s' \<Longrightarrow> timely_run as s \<Longrightarrow> exclusive s \<Longrightarrow> tracked s \<Longrightarrow> tracked s'"
proof (induction as arbitrary: s)
  case (Cons a as)
  then obtain s1 where s1: "watcher_step a s = Some s1"
    by (auto simp: watchers_run_def split: option.splits)
  with Cons show ?case
    using step_exclusive [OF s1] step_tracked [OF s1] by (simp add: watchers_run_def)
qed (simp add: watchers_run_def)

lemma timely_run_installs:
  assumes "watchers_run as watchers_start = Some s" and "timely_run as watchers_start" and "watchers_quiet s"
  shows "installed s = world s"
proof -
  have "tracked watchers_start" by (simp add: tracked_def watchers_start_def)
  from timely_run_tracked [OF assms(1,2) start_exclusive this] assms(3) show ?thesis
    by (simp add: tracked_def watchers_quiet_def)
qed

subsection \<open>A change that is lost\<close>

text \<open>The file changes; while that update is loading, a container starts.  The Docker watcher gets the
  mutex when the update has released it, and finds the flag still set.\<close>

definition lost_change :: "watcher_act list" where
  "lost_change =
     [Change File_watcher, Take File_watcher True, Notify File_watcher, Call File_watcher,
      Lock File_watcher, Read File_watcher, Change Docker_watcher, Take Docker_watcher True,
      Conclude File_watcher Updated, Notify Docker_watcher, Call Docker_watcher, Clear File_watcher]"

lemma lost_change_run:
  "case watchers_run lost_change watchers_start of None \<Rightarrow> False
   | Some s \<Rightarrow> watchers_quiet s \<and> installed s = 1 \<and> world s = 2"
  by (simp add: lost_change_def watchers_run_def watchers_start_def watchers_quiet_def)

end
