(* ===== verification/Program_Run.thy ===== *)
theory Program_Run
  imports Watch_Threads
begin

section \<open>The running programs and how they end\<close>

text \<open>
  The second half of the three \<open>main\<close> functions, from the moment the threads are started: the loop of
  the main thread, the signal handlers, the joins, and the watching threads as far as they look at
  \<open>exiting\<close>.  A step is one action of one thread or the arrival of a signal.  What an update does is
  left out here; what matters is whether an attempt fails.
\<close>

subsection \<open>States\<close>

datatype monitor_program = Trace_main | Lsm_main | Raw_main

text \<open>
  \<open>In_test\<close>: before \<open>while (!exiting)\<close>; \<open>In_poll\<close>: in \<open>ring_buffer__poll\<close> (in \<open>sleep_for\<close> for
  raw_tracepoint); then the joins, in their order; \<open>Killed\<close>: ended by the default action of a signal.
\<close>

datatype main_pc = In_test | In_poll | Join_file | Join_docker | Join_ring | Returned int | Killed

text \<open>
  A watching thread: \<open>At_loop\<close> in its own loop or transfer, \<open>Handling n\<close> with that many relevant events
  of a buffer still to be handled, \<open>In_update n\<close> inside \<open>update_policy_on_event\<close>, \<open>Gone\<close> after its end.
\<close>

datatype thread_pc = At_loop | Handling nat | In_update nat | Gone

record program =
  exit_flag :: bool
  main :: main_pc
  main_err :: int
  thread :: "watcher \<Rightarrow> thread_pc"
  ring_thread :: bool

definition program_start :: "monitor_program \<Rightarrow> int \<Rightarrow> program" where
  "program_start p err = \<lparr>exit_flag = False, main = In_test, main_err = err, thread = \<lambda>_. At_loop,
     ring_thread = (p = Raw_main)\<rparr>"

subsection \<open>Steps\<close>

datatype program_act =
    Interrupt | Terminate | Look | Polled int | Join | Ring_polled int
  | Receive watcher nat | Handle watcher | Attempt watcher update_result | Handled watcher
  | Notice watcher | Break_off watcher

abbreviation put :: "watcher \<Rightarrow> thread_pc \<Rightarrow> program \<Rightarrow> program" where
  "put t q s \<equiv> s\<lparr>thread := (thread s)(t := q)\<rparr>"

fun in_update :: "thread_pc \<Rightarrow> bool" where
  "in_update (In_update n) = True"
| "in_update _ = False"

fun alive :: "main_pc \<Rightarrow> bool" where
  "alive (Returned v) = False"
| "alive Killed = False"
| "alive _ = True"

text \<open>What follows the main loop; tracepoint alone does not set \<open>exiting\<close> there.\<close>

definition leave_loop :: "monitor_program \<Rightarrow> program \<Rightarrow> program" where
  "leave_loop p s = s\<lparr>main := Join_file, exit_flag := (exit_flag s \<or> p \<noteq> Trace_main)\<rparr>"

definition exit_status :: "monitor_program \<Rightarrow> int \<Rightarrow> int" where
  "exit_status p err =
     (case p of
        Trace_main \<Rightarrow> if err \<noteq> 0 then 1 else 0
      | Lsm_main \<Rightarrow> 0
      | Raw_main \<Rightarrow> if err < 0 then - err else 0)"

text \<open>\<open>Interrupt\<close> is SIGINT; \<open>Terminate\<close> is SIGTERM, for which only tracepoint has a handler, that
  does nothing with it.\<close>

fun program_step :: "monitor_program \<Rightarrow> program_act \<Rightarrow> program \<Rightarrow> program option" where
  "program_step p Interrupt s = (if alive (main s) then Some (s\<lparr>exit_flag := True\<rparr>) else None)"
| "program_step p Terminate s =
     (if alive (main s) then Some (if p = Trace_main then s else s\<lparr>main := Killed\<rparr>) else None)"
| "program_step p Look s =
     (if main s = In_test then Some (if exit_flag s then leave_loop p s else s\<lparr>main := In_poll\<rparr>) else None)"
| "program_step p (Polled r) s =
     (if main s = In_poll then
        Some (case p of
            Trace_main \<Rightarrow> if r < 0 then leave_loop p (s\<lparr>main_err := r\<rparr>) else s\<lparr>main := In_test, main_err := r\<rparr>
          | Lsm_main \<Rightarrow> if r < 0 then leave_loop p s else s\<lparr>main := In_test\<rparr>
          | Raw_main \<Rightarrow> s\<lparr>main := In_test\<rparr>)
      else None)"
| "program_step p Join s =
     (case main s of
        Join_file \<Rightarrow> if thread s File_watcher = Gone then Some (s\<lparr>main := Join_docker\<rparr>) else None
      | Join_docker \<Rightarrow>
          if thread s Docker_watcher = Gone then Some (s\<lparr>main := Join_ring\<rparr>) else None
      | Join_ring \<Rightarrow>
          if ring_thread s then None else Some (s\<lparr>main := Returned (exit_status p (main_err s))\<rparr>)
      | _ \<Rightarrow> None)"
| "program_step p (Ring_polled r) s =
     (if alive (main s) \<and> ring_thread s then Some (s\<lparr>ring_thread := (\<not> exit_flag s \<and> 0 \<le> r)\<rparr>) else None)"
| "program_step p (Receive t n) s =
     (if alive (main s) \<and> thread s t = At_loop \<and> \<not> (t = File_watcher \<and> exit_flag s)
      then Some (put t (Handling n) s) else None)"
| "program_step p (Handle t) s =
     (case thread s t of
        Handling (Suc n) \<Rightarrow>
          if alive (main s)
          then Some (put t (if in_update (thread s (other t)) then Handling n else In_update n) s) else None
      | _ \<Rightarrow> None)"
| "program_step p (Attempt t r) s =
     (case thread s t of
        In_update n \<Rightarrow>
          if alive (main s)
          then Some (if r = Failed \<and> \<not> (p = Trace_main \<and> exit_flag s) then s else put t (Handling n) s) else None
      | _ \<Rightarrow> None)"
| "program_step p (Handled t) s =
     (if alive (main s) \<and> thread s t = Handling 0
      then Some (put t (if t = Docker_watcher \<and> exit_flag s then Gone else At_loop) s) else None)"
| "program_step p (Notice t) s =
     (if alive (main s) \<and> thread s t = At_loop \<and> exit_flag s then Some (put t Gone s) else None)"
| "program_step p (Break_off t) s =
     (if alive (main s) \<and> thread s t = At_loop then Some (put t Gone s) else None)"

definition program_run :: "monitor_program \<Rightarrow> program_act list \<Rightarrow> program \<Rightarrow> program option" where
  "program_run p = fold_option (program_step p)"

lemma program_run_simps [simp]:
  "program_run p [] s = Some s"
  "program_run p (a # as) s = (case program_step p a s of None \<Rightarrow> None | Some s' \<Rightarrow> program_run p as s')"
  by (simp_all add: program_run_def split: option.split)

lemma program_run_keeps:
  assumes "\<forall>a s s'. a \<in> set as \<longrightarrow> P s \<longrightarrow> program_step p a s = Some s' \<longrightarrow> P s'"
    and "P s" and "program_run p as s = Some s'"
  shows "P s'"
  using assms
proof (induction as arbitrary: s)
  case (Cons a as)
  from Cons.prems(3) obtain s1 where s1: "program_step p a s = Some s1" "program_run p as s1 = Some s'"
    by (auto split: option.splits)
  have "P s1" using Cons.prems(1,2) s1(1) by (meson list.set_intros(1))
  moreover have "\<forall>a s s'. a \<in> set as \<longrightarrow> P s \<longrightarrow> program_step p a s = Some s' \<longrightarrow> P s'"
    using Cons.prems(1) by (meson list.set_intros(2))
  ultimately show ?case using Cons.IH s1(2) by blast
qed simp

subsection \<open>SIGTERM and errors of the ring buffer: tracepoint waits for good\<close>

definition stranded :: "program \<Rightarrow> bool" where
  "stranded s \<longleftrightarrow> main s = Join_file \<and> \<not> exit_flag s \<and> thread s File_watcher \<noteq> Gone"

lemma stranded_step:
  "stranded s \<Longrightarrow> program_step p a s = Some s' \<Longrightarrow> a \<noteq> Interrupt \<Longrightarrow> a \<noteq> Break_off File_watcher \<Longrightarrow>
     p = Trace_main \<Longrightarrow> stranded s'"
  by (cases a) (auto simp: stranded_def split: if_splits thread_pc.splits nat.splits)

lemma stranded_for_good:
  assumes "stranded s" and "program_run Trace_main as s = Some s'"
    and "Interrupt \<notin> set as" and "Break_off File_watcher \<notin> set as"
  shows "stranded s'"
proof (rule program_run_keeps [where P = stranded, OF _ assms(1,2)])
  show "\<forall>a s s'. a \<in> set as \<longrightarrow> stranded s \<longrightarrow> program_step Trace_main a s = Some s' \<longrightarrow> stranded s'"
    using assms(3,4) stranded_step by blast
qed

text \<open>The error of a poll strands the program.\<close>

lemma poll_error_strands:
  assumes "main s = In_poll" and "\<not> exit_flag s" and "thread s File_watcher \<noteq> Gone" and "r < 0"
  shows "\<exists>s'. program_step Trace_main (Polled r) s = Some s' \<and> stranded s'"
  using assms by (simp add: leave_loop_def stranded_def)

subsection \<open>SIGINT during an update: lsm and raw\_tracepoint wait for good\<close>

text \<open>A thread that is in an update all of whose attempts fail.\<close>

definition caught :: "watcher \<Rightarrow> program \<Rightarrow> bool" where
  "caught t s \<longleftrightarrow> in_update (thread s t) \<and> (case main s of
     Returned v \<Rightarrow> False | Join_ring \<Rightarrow> False | Join_docker \<Rightarrow> t \<noteq> File_watcher | Killed \<Rightarrow> False | _ \<Rightarrow> True)"

lemma caught_step:
  "caught t s \<Longrightarrow> program_step p a s = Some s' \<Longrightarrow> p \<noteq> Trace_main \<Longrightarrow> a \<noteq> Terminate \<Longrightarrow>
     \<forall>r. a = Attempt t r \<longrightarrow> r = Failed \<Longrightarrow> caught t s'"
  by (cases a; cases t) (auto simp: caught_def leave_loop_def split: if_splits thread_pc.splits nat.splits
      main_pc.splits monitor_program.splits watcher.splits)

lemma caught_for_good:
  assumes "caught t s" and "program_run p as s = Some s'" and "p \<noteq> Trace_main"
    and "Terminate \<notin> set as" and "\<forall>r. Attempt t r \<in> set as \<longrightarrow> r = Failed"
  shows "caught t s'"
proof (rule program_run_keeps [where P = "caught t", OF _ assms(1,2)])
  show "\<forall>a s s'. a \<in> set as \<longrightarrow> caught t s \<longrightarrow> program_step p a s = Some s' \<longrightarrow> caught t s'"
    using assms(3-5) caught_step by blast
qed

subsection \<open>SIGINT otherwise: the program returns\<close>

text \<open>What each part still has to do once \<open>exiting\<close> is set.\<close>

fun main_rank :: "main_pc \<Rightarrow> nat" where
  "main_rank In_poll = 5"
| "main_rank In_test = 4"
| "main_rank Join_file = 3"
| "main_rank Join_docker = 2"
| "main_rank Join_ring = 1"
| "main_rank _ = 0"

fun file_stage :: "thread_pc \<Rightarrow> nat" where
  "file_stage Gone = 0"
| "file_stage At_loop = 1"
| "file_stage _ = 2"

fun docker_stage :: "thread_pc \<Rightarrow> nat" where
  "docker_stage Gone = 0"
| "docker_stage At_loop = 2"
| "docker_stage _ = 1"

fun events_left :: "thread_pc \<Rightarrow> nat" where
  "events_left (Handling n) = 2 * n"
| "events_left (In_update n) = Suc (2 * n)"
| "events_left _ = 0"

definition ending :: "(program \<times> program) set" where
  "ending = measures [\<lambda>s. main_rank (main s), \<lambda>s. of_bool (ring_thread s),
     \<lambda>s. file_stage (thread s File_watcher), \<lambda>s. events_left (thread s File_watcher),
     \<lambda>s. docker_stage (thread s Docker_watcher), \<lambda>s. events_left (thread s Docker_watcher)]"

lemma wf_ending: "wf ending"
  by (simp add: ending_def)

definition own_act :: "monitor_program \<Rightarrow> program_act \<Rightarrow> bool" where
  "own_act p a \<longleftrightarrow> a \<noteq> Interrupt \<and> a \<noteq> Terminate \<and> (p = Trace_main \<or> (\<forall>t. a \<noteq> Attempt t Failed))"

lemma not_docker_watcher: "Docker_watcher \<noteq> t \<longleftrightarrow> t = File_watcher"
  by (cases t) simp_all

lemma ending_step:
  "exit_flag s \<Longrightarrow> program_step p a s = Some s' \<Longrightarrow> own_act p a \<Longrightarrow> exit_flag s' \<and> (s', s) \<in> ending"
  by (cases a) (auto simp: ending_def own_act_def leave_loop_def not_docker_watcher split: if_splits thread_pc.splits nat.splits
      main_pc.splits monitor_program.splits watcher.splits)

lemma ending_finite:
  assumes "exit_flag (st 0)" and "\<And>i. own_act p (a i) \<and> program_step p (a i) (st i) = Some (st (Suc i))"
  shows False
proof -
  have exit_flag: "exit_flag (st i)" for i
    by (induction i) (use assms ending_step in blast)+
  then have "(st (Suc i), st i) \<in> ending" for i using assms(2) [of i] ending_step by blast
  then show False using wf_ending unfolding wf_iff_no_infinite_down_chain by blast
qed

text \<open>There is always a next step: the main thread goes on or waits for a thread that can.\<close>

lemma thread_can_step:
  assumes "exit_flag s" and "alive (main s)" and "thread s t \<noteq> Gone"
  shows "\<exists>a. own_act p a \<and> program_step p a s \<noteq> None"
proof (cases "thread s t")
  case At_loop
  with assms have "program_step p (Notice t) s \<noteq> None" by simp
  then show ?thesis by (intro exI [of _ "Notice t"]) (simp add: own_act_def)
next
  case (Handling n)
  show ?thesis
  proof (cases n)
    case 0
    with Handling assms have "program_step p (Handled t) s \<noteq> None" by simp
    then show ?thesis by (intro exI [of _ "Handled t"]) (simp add: own_act_def)
  next
    case (Suc m)
    with Handling assms have "program_step p (Handle t) s \<noteq> None" by simp
    then show ?thesis by (intro exI [of _ "Handle t"]) (simp add: own_act_def)
  qed
next
  case (In_update n)
  with assms have "program_step p (Attempt t Updated) s \<noteq> None" by simp
  then show ?thesis by (intro exI [of _ "Attempt t Updated"]) (simp add: own_act_def)
qed (use assms in simp)

lemma ending_progress:
  assumes "exit_flag s" and "alive (main s)"
  shows "\<exists>a. own_act p a \<and> program_step p a s \<noteq> None"
proof -
  have act: ?thesis if "program_step p a s \<noteq> None" "own_act p a" for a using that by blast
  note thread = thread_can_step [OF assms, of _ p]
  show ?thesis
  proof (cases "main s")
    case In_test
    then show ?thesis by (intro act [of Look]) (simp_all add: own_act_def)
  next
    case In_poll
    then show ?thesis by (intro act [of "Polled 0"]) (simp_all add: own_act_def)
  next
    case Join_file
    show ?thesis
    proof (cases "thread s File_watcher = Gone")
      case True
      with Join_file show ?thesis by (intro act [of Join]) (simp_all add: own_act_def)
    qed (rule thread)
  next
    case Join_docker
    show ?thesis
    proof (cases "thread s Docker_watcher = Gone")
      case True
      with Join_docker show ?thesis by (intro act [of Join]) (simp_all add: own_act_def)
    qed (rule thread)
  next
    case Join_ring
    then have "program_step p (if ring_thread s then Ring_polled 0 else Join) s \<noteq> None" using assms by simp
    then show ?thesis by (rule act) (simp add: own_act_def)
  qed (use assms in simp_all)
qed

text \<open>The value that is returned.\<close>

definition status_ok :: "monitor_program \<Rightarrow> program \<Rightarrow> bool" where
  "status_ok p s \<longleftrightarrow> (p = Trace_main \<longrightarrow> main s \<noteq> Killed) \<and> (\<forall>v. main s = Returned v \<longrightarrow> v = exit_status p (main_err s))"

lemma status_step: "status_ok p s \<Longrightarrow> program_step p a s = Some s' \<Longrightarrow> status_ok p s'"
  by (cases a) (auto simp: status_ok_def leave_loop_def split: if_splits thread_pc.splits nat.splits
      main_pc.splits monitor_program.splits)

lemma status_run: "status_ok p s \<Longrightarrow> program_run p as s = Some s' \<Longrightarrow> status_ok p s'"
  by (rule program_run_keeps [where P = "status_ok p"]) (auto intro: status_step)

end
