(* ===== verification/Logger.thy ===== *)
theory Logger
  imports Main
begin

section \<open>Tracepoint monitor: the event logger\<close>

text \<open>
  \<open>EventLogger.cpp\<close>: log lines are collected in \<open>bufferCount\<close> buffers of 1000 events.  Three threads
  take part: the main thread, which polls the ring buffer and calls \<open>addEvent\<close> (and later runs the
  destructor), the flush thread, and the one worker of the pool, which hands the events to Kafka.
  A step of the relation below is a section of a thread during which the other threads cannot
  interfere; the two points at which a thread can be held up by another one are the program
  counters \<open>Add_waiting\<close> and \<open>Fl_returning\<close>.  Buffers are numbered.  \<open>isFlushing_\<close> is never read and
  left out; the elapsed time of a timeout is arbitrary; \<open>produced\<close> are the events handed to Kafka,
  in order, whatever Kafka makes of them.
\<close>

text \<open>\<open>Add_waiting e\<close>: inside \<open>cv_.wait\<close>, which has released \<open>mtx_\<close> but not \<open>availableBuffersMutex_\<close>.
  \<open>Fl_sending b\<close>: after buffer \<open>b\<close> was taken from the queue; \<open>Fl_returning b\<close>: about to lock
  \<open>availableBuffersMutex_\<close> to give \<open>b\<close> back.\<close>

datatype 'e add_pc = Add_idle | Add_waiting 'e

datatype flush_pc = Fl_idle | Fl_sending nat | Fl_returning nat | Fl_done

record 'e logger =
  contents :: "nat \<Rightarrow> 'e list"
  available_buffers :: "nat list"
  flush_buffers :: "nat list"
  current_buffer :: "nat option"
  pool_tasks :: "'e list list"
  produced :: "'e list"
  shutdown_flag :: bool
  stop_flag :: bool
  adder :: "'e add_pc"
  flusher :: flush_pc

definition buffer_size :: nat where "buffer_size = 1000"

definition new_logger :: "nat \<Rightarrow> 'e logger" where
  "new_logger bufferCount =
     \<lparr>contents = (\<lambda>_. []), available_buffers = [1..<bufferCount], flush_buffers = [],
      current_buffer = Some 0, pool_tasks = [], produced = [], shutdown_flag = False,
      stop_flag = False, adder = Add_idle, flusher = Fl_idle\<rparr>"

text \<open>The end of \<open>addEvent\<close>, once there is a current buffer.\<close>

definition push_event :: "'e \<Rightarrow> nat \<Rightarrow> 'e logger \<Rightarrow> 'e logger" where
  "push_event e b l =
     (let l = l\<lparr>contents := (contents l)(b := contents l b @ [e])\<rparr> in
      if buffer_size \<le> length (contents l b)
      then l\<lparr>flush_buffers := flush_buffers l @ [b], current_buffer := None\<rparr>
      else l\<lparr>current_buffer := Some b\<rparr>)"

definition enqueueTask :: "'e list \<Rightarrow> 'e logger \<Rightarrow> 'e logger" where
  "enqueueTask task l = (if stop_flag l then l else l\<lparr>pool_tasks := pool_tasks l @ [task]\<rparr>)"

definition sendEventsToKafka :: "'e list \<Rightarrow> 'e logger \<Rightarrow> 'e logger" where
  "sendEventsToKafka events l = (if events = [] then l else enqueueTask events l)"

datatype 'e log_action =
    Add 'e | Wake | Pop | Send | Give_back | Timeout | Work | Close | Finish

inductive log_step :: "'e logger \<Rightarrow> 'e log_action \<Rightarrow> 'e logger \<Rightarrow> bool" where
  add: "adder l = Add_idle \<Longrightarrow> \<not> shutdown_flag l \<Longrightarrow> current_buffer l = Some b \<Longrightarrow>
    log_step l (Add e) (push_event e b l)"
| add_take: "adder l = Add_idle \<Longrightarrow> \<not> shutdown_flag l \<Longrightarrow> current_buffer l = None \<Longrightarrow>
    available_buffers l = b # bs \<Longrightarrow>
    log_step l (Add e) (push_event e b (l\<lparr>available_buffers := bs\<rparr>))"
| add_wait: "adder l = Add_idle \<Longrightarrow> \<not> shutdown_flag l \<Longrightarrow> current_buffer l = None \<Longrightarrow>
    available_buffers l = [] \<Longrightarrow> log_step l (Add e) (l\<lparr>adder := Add_waiting e\<rparr>)"
| wake: "adder l = Add_waiting e \<Longrightarrow> \<not> shutdown_flag l \<Longrightarrow> available_buffers l = b # bs \<Longrightarrow>
    log_step l Wake (push_event e b (l\<lparr>available_buffers := bs, adder := Add_idle\<rparr>))"
| wake_shutdown: "adder l = Add_waiting e \<Longrightarrow> shutdown_flag l \<Longrightarrow>
    log_step l Wake (l\<lparr>adder := Add_idle\<rparr>)"
| pop: "flusher l = Fl_idle \<Longrightarrow> flush_buffers l = b # bs \<Longrightarrow>
    log_step l Pop (l\<lparr>flush_buffers := bs, flusher := Fl_sending b\<rparr>)"
| send: "flusher l = Fl_sending b \<Longrightarrow>
    log_step l Send ((sendEventsToKafka (contents l b) l)\<lparr>contents := (contents l)(b := []),
      flusher := Fl_returning b\<rparr>)"
| give_back: "flusher l = Fl_returning b \<Longrightarrow> adder l = Add_idle \<Longrightarrow>
    log_step l Give_back (l\<lparr>available_buffers := available_buffers l @ [b], flusher := Fl_idle\<rparr>)"
| timeout_switch: "flusher l = Fl_idle \<Longrightarrow> adder l = Add_idle \<Longrightarrow> flush_buffers l = [] \<Longrightarrow>
    current_buffer l = Some b \<Longrightarrow> contents l b \<noteq> [] \<Longrightarrow> available_buffers l = b' # bs \<Longrightarrow>
    log_step l Timeout (l\<lparr>flush_buffers := [b], current_buffer := Some b', available_buffers := bs\<rparr>)"
| timeout_none: "flusher l = Fl_idle \<Longrightarrow> adder l = Add_idle \<Longrightarrow> flush_buffers l = [] \<Longrightarrow>
    current_buffer l = Some b \<Longrightarrow> contents l b \<noteq> [] \<Longrightarrow> available_buffers l = [] \<Longrightarrow>
    log_step l Timeout (l\<lparr>flush_buffers := [b], current_buffer := None\<rparr>)"
| work: "\<not> stop_flag l \<Longrightarrow> pool_tasks l = t # ts \<Longrightarrow>
    log_step l Work (l\<lparr>pool_tasks := ts, produced := produced l @ t\<rparr>)"
| close: "adder l = Add_idle \<Longrightarrow> log_step l Close (l\<lparr>shutdown_flag := True\<rparr>)"
| finish: "flusher l = Fl_idle \<Longrightarrow> shutdown_flag l \<Longrightarrow> log_step l Finish (l\<lparr>flusher := Fl_done\<rparr>)"

inductive log_run :: "'e logger \<Rightarrow> 'e log_action list \<Rightarrow> 'e logger \<Rightarrow> bool" where
  log_nil: "log_run l [] l"
| log_snoc: "log_run l as l' \<Longrightarrow> log_step l' a l'' \<Longrightarrow> log_run l (as @ [a]) l''"

text \<open>
  The rest of the destructor, after the flush thread was joined: stop the pool (its worker may
  still run one task, \<open>one_more\<close>), queue every buffer that is not empty and send the queue.
\<close>

definition stop_pool :: "bool \<Rightarrow> 'e logger \<Rightarrow> 'e logger" where
  "stop_pool one_more l =
     (let l = l\<lparr>stop_flag := True\<rparr> in
      case pool_tasks l of
        t # ts \<Rightarrow> if one_more then l\<lparr>pool_tasks := ts, produced := produced l @ t\<rparr> else l
      | [] \<Rightarrow> l)"

fun flush_all :: "nat list \<Rightarrow> 'e logger \<Rightarrow> 'e logger" where
  "flush_all [] l = l"
| "flush_all (b # bs) l =
     flush_all bs ((sendEventsToKafka (contents l b) l)\<lparr>contents := (contents l)(b := []),
       available_buffers := available_buffers l @ [b]\<rparr>)"

definition destroy_logger :: "nat \<Rightarrow> bool \<Rightarrow> 'e logger \<Rightarrow> 'e logger" where
  "destroy_logger bufferCount one_more l =
     (let l = stop_pool one_more l;
          queue = flush_buffers l @ filter (\<lambda>b. contents l b \<noteq> []) [0..<bufferCount]
      in flush_all queue (l\<lparr>flush_buffers := []\<rparr>))"

subsection \<open>Ownership: every buffer is in one place\<close>

definition current_list :: "'e logger \<Rightarrow> nat list" where
  "current_list l = (case current_buffer l of None \<Rightarrow> [] | Some b \<Rightarrow> [b])"

definition held_list :: "'e logger \<Rightarrow> nat list" where
  "held_list l = (case flusher l of Fl_sending b \<Rightarrow> [b] | Fl_returning b \<Rightarrow> [b] | _ \<Rightarrow> [])"

definition places :: "'e logger \<Rightarrow> nat list" where
  "places l = available_buffers l @ current_list l @ flush_buffers l @ held_list l"

definition logger_ok :: "nat \<Rightarrow> 'e logger \<Rightarrow> bool" where
  "logger_ok n l \<longleftrightarrow>
     distinct (places l) \<and> set (places l) = {0..<n} \<and>
     (\<forall>b \<in> set (available_buffers l). contents l b = []) \<and>
     (\<forall>b \<in> set (current_list l). length (contents l b) < buffer_size) \<and>
     (\<forall>b. flusher l = Fl_returning b \<longrightarrow> contents l b = []) \<and>
     (\<forall>b. length (contents l b) \<le> buffer_size) \<and>
     \<not> stop_flag l \<and>
     (\<forall>e. adder l = Add_waiting e \<longrightarrow>
        \<not> shutdown_flag l \<and> current_buffer l = None \<and> available_buffers l = [])"

lemmas place_defs = places_def current_list_def held_list_def

lemma new_logger_ok: "0 < n \<Longrightarrow> logger_ok n (new_logger n)"
  by (auto simp: logger_ok_def place_defs new_logger_def buffer_size_def)

lemma log_step_ok: "log_step l a l' \<Longrightarrow> logger_ok n l \<Longrightarrow> logger_ok n l'"
proof (induction rule: log_step.induct)
  case (add l b e)
  then show ?case
    by (auto simp: logger_ok_def place_defs push_event_def Let_def buffer_size_def)
next
  case (add_take l b bs e)
  then show ?case
    by (auto simp: logger_ok_def place_defs push_event_def Let_def buffer_size_def)
next
  case (send l b)
  then show ?case
    by (auto simp: logger_ok_def place_defs sendEventsToKafka_def enqueueTask_def split: option.splits)
qed (auto simp: logger_ok_def place_defs split: option.splits flush_pc.splits)

lemma log_run_ok: "log_run l as l' \<Longrightarrow> logger_ok n l \<Longrightarrow> logger_ok n l'"
  by (induction rule: log_run.induct) (auto intro: log_step_ok)

subsection \<open>Order: what was added is what is on its way\<close>

text \<open>\<open>in_flight\<close> lists the events the logger holds, oldest first.\<close>

definition sending :: "'e logger \<Rightarrow> 'e list" where
  "sending l = (case flusher l of Fl_sending b \<Rightarrow> contents l b | _ \<Rightarrow> [])"

definition waiting :: "'e logger \<Rightarrow> 'e list" where
  "waiting l = (case adder l of Add_waiting e \<Rightarrow> [e] | Add_idle \<Rightarrow> [])"

definition in_flight :: "'e logger \<Rightarrow> 'e list" where
  "in_flight l = concat (pool_tasks l) @ sending l @ concat (map (contents l) (flush_buffers l)) @
     concat (map (contents l) (current_list l)) @ waiting l"

fun added :: "'e log_action list \<Rightarrow> 'e list" where
  "added [] = []"
| "added (Add e # as) = e # added as"
| "added (_ # as) = added as"

lemmas flight_defs = in_flight_def sending_def waiting_def current_list_def

lemma added_append: "added (as @ bs) = added as @ added bs"
  by (induction as rule: added.induct) auto

lemma contents_elsewhere:
  "b \<notin> set bs \<Longrightarrow> map ((contents l)(b := es)) bs = map (contents l) bs"
  by auto

lemma log_step_order:
  "log_step l a l' \<Longrightarrow> logger_ok n l \<Longrightarrow>
     produced l' @ in_flight l' = produced l @ in_flight l @ added [a]"
proof (induction rule: log_step.induct)
  case (add l b e)
  then show ?case
    by (auto simp: logger_ok_def place_defs flight_defs push_event_def Let_def split: flush_pc.splits)
next
  case (add_take l b bs e)
  then show ?case
    by (auto simp: logger_ok_def place_defs flight_defs push_event_def Let_def buffer_size_def
          split: flush_pc.splits)
next
  case (send l b)
  then show ?case
    by (auto simp: logger_ok_def place_defs flight_defs sendEventsToKafka_def enqueueTask_def
          split: option.splits add_pc.splits)
qed (auto simp: logger_ok_def place_defs flight_defs split: option.splits flush_pc.splits add_pc.splits)

lemma log_run_order:
  "log_run l as l' \<Longrightarrow> logger_ok n l \<Longrightarrow> produced l' @ in_flight l' = produced l @ in_flight l @ added as"
proof (induction rule: log_run.induct)
  case (log_snoc l as l' a l'')
  have "logger_ok n l'"
    by (rule log_run_ok [OF log_snoc.hyps(1) log_snoc.prems])
  from log_step_order [OF log_snoc.hyps(2) this] log_snoc.IH [OF log_snoc.prems]
  show ?case by (simp add: added_append)
qed simp

lemma new_logger_empty: "produced (new_logger n) = []" "in_flight (new_logger n) = []"
  by (auto simp: new_logger_def flight_defs)

lemma logger_order:
  assumes "0 < n" and "log_run (new_logger n) as l"
  shows "produced l @ in_flight l = added as \<and> logger_ok n l"
  using log_run_order [OF assms(2) new_logger_ok [OF assms(1)]]
    log_run_ok [OF assms(2) new_logger_ok [OF assms(1)]]
  by (simp add: new_logger_empty)

subsection \<open>A reader that waits is never woken\<close>

lemma waiting_step:
  "log_step l a l' \<Longrightarrow> logger_ok n l \<Longrightarrow> adder l = Add_waiting e \<Longrightarrow> adder l' = Add_waiting e"
  by (cases rule: log_step.cases)
     (auto simp: logger_ok_def sendEventsToKafka_def enqueueTask_def)

lemma waiting_for_buffers: "logger_ok n l \<Longrightarrow> adder l = Add_waiting e \<Longrightarrow> available_buffers l = []"
  by (simp add: logger_ok_def)

lemma waiting_run:
  "log_run l as l' \<Longrightarrow> logger_ok n l \<Longrightarrow> adder l = Add_waiting e \<Longrightarrow> adder l' = Add_waiting e"
  by (induction rule: log_run.induct) (auto intro: waiting_step log_run_ok)

lemma log_run_trans: "log_run l' bs l'' \<Longrightarrow> log_run l as l' \<Longrightarrow> log_run l (as @ bs) l''"
  by (induction rule: log_run.induct) (auto intro: log_snoc simp flip: append_assoc)

text \<open>Adding the same event again and again, the flush thread doing nothing.\<close>

definition writing :: "nat \<Rightarrow> 'e logger \<Rightarrow> nat \<Rightarrow> bool" where
  "writing b l k \<longleftrightarrow> adder l = Add_idle \<and> \<not> shutdown_flag l \<and> current_buffer l = Some b \<and>
     length (contents l b) = k"

lemma fill_partly:
  "k < buffer_size \<Longrightarrow> writing b l 0 \<Longrightarrow>
     \<exists>l'. log_run l (replicate k (Add e)) l' \<and> writing b l' k \<and>
          available_buffers l' = available_buffers l \<and> (\<forall>c. c \<noteq> b \<longrightarrow> contents l' c = contents l c)"
proof (induction k)
  case 0
  then show ?case by (auto intro: log_nil)
next
  case (Suc k)
  then obtain l' where l': "log_run l (replicate k (Add e)) l'" "writing b l' k"
    "available_buffers l' = available_buffers l" "\<forall>c. c \<noteq> b \<longrightarrow> contents l' c = contents l c"
    by auto
  let ?l = "push_event e b l'"
  have "log_run l (replicate k (Add e) @ [Add e]) ?l"
    using l' by (auto simp: writing_def intro!: log_snoc [OF _ log_step.add])
  moreover have "writing b ?l (Suc k)" "available_buffers ?l = available_buffers l"
    "\<forall>c. c \<noteq> b \<longrightarrow> contents ?l c = contents l c"
    using l' Suc.prems by (auto simp: writing_def push_event_def Let_def)
  ultimately show ?case by (metis replicate_Suc replicate_append_same)
qed

lemma fill_buffer:
  assumes "writing b l 0"
  shows "\<exists>l'. log_run l (replicate buffer_size (Add e)) l' \<and> adder l' = Add_idle \<and>
     \<not> shutdown_flag l' \<and> current_buffer l' = None \<and> available_buffers l' = available_buffers l \<and>
     (\<forall>c. c \<noteq> b \<longrightarrow> contents l' c = contents l c)"
proof -
  have size: "buffer_size = Suc 999" by (simp add: buffer_size_def)
  have "999 < buffer_size" by (simp add: buffer_size_def)
  from fill_partly [OF this assms, of e] obtain l' where
    l': "log_run l (replicate 999 (Add e)) l'" "writing b l' 999"
      "available_buffers l' = available_buffers l" "\<forall>c. c \<noteq> b \<longrightarrow> contents l' c = contents l c"
    by blast
  have "log_run l (replicate 999 (Add e) @ [Add e]) (push_event e b l')"
    using l' by (auto simp: writing_def intro!: log_snoc [OF _ log_step.add])
  then have "log_run l (replicate buffer_size (Add e)) (push_event e b l')"
    by (simp only: size replicate_append_same replicate_Suc)
  with l' show ?thesis
    by (intro exI [of _ "push_event e b l'"]) (auto simp: writing_def push_event_def Let_def size)
qed

lemma log_run_first: "log_run l (a # as) l' \<Longrightarrow> \<exists>m. log_step l a m \<and> log_run m as l'"
proof (induction "a # as" l' arbitrary: as rule: log_run.induct)
  case (log_snoc l as' l' c l'')
  show ?case
  proof (cases as')
    case Nil
    with log_snoc have "log_step l a l''"
      by (auto elim: log_run.cases)
    with Nil log_snoc show ?thesis by (auto intro: log_nil)
  next
    case (Cons a' bs)
    with log_snoc obtain m where "log_step l a m" "log_run m bs l'" by auto
    with Cons log_snoc show ?thesis
      by (auto intro!: exI [of _ m] dest: log_run.log_snoc)
  qed
qed

text \<open>The first event of a buffer is added the same way whether the buffer was taken before.\<close>

lemma add_after_take:
  assumes idle: "adder l = Add_idle" "\<not> shutdown_flag l" "current_buffer l = None"
    and free: "available_buffers l = b # bs" and n: "0 < n"
    and run: "log_run (l\<lparr>available_buffers := bs, current_buffer := Some b\<rparr>) (replicate n (Add e)) l'"
  shows "log_run l (replicate n (Add e)) l'"
proof -
  obtain k where k: "n = Suc k" using n by (cases n) auto
  from run obtain m where
    m: "log_step (l\<lparr>available_buffers := bs, current_buffer := Some b\<rparr>) (Add e) m"
      "log_run m (replicate k (Add e)) l'"
    unfolding k replicate_Suc by (blast dest: log_run_first)
  from m(1) idle have "m = push_event e b (l\<lparr>available_buffers := bs\<rparr>)"
    by (cases rule: log_step.cases) (auto simp: push_event_def Let_def)
  then have "log_step l (Add e) m"
    using log_step.add_take [OF idle free] by simp
  then have "log_run l ([] @ [Add e]) m" by (rule log_snoc [OF log_nil])
  from log_run_trans [OF m(2) this] show ?thesis by (simp add: k)
qed

lemma fill_buffers:
  "writing b l 0 \<Longrightarrow> available_buffers l = bs \<Longrightarrow> distinct (b # bs) \<Longrightarrow>
     \<forall>c \<in> set bs. contents l c = [] \<Longrightarrow>
     \<exists>l'. log_run l (replicate (Suc (length bs) * buffer_size) (Add e)) l' \<and> adder l' = Add_idle \<and>
       \<not> shutdown_flag l' \<and> current_buffer l' = None \<and> available_buffers l' = []"
proof (induction bs arbitrary: b l)
  case Nil
  then show ?case using fill_buffer [of b l e] by auto
next
  case (Cons c cs)
  obtain l1 where l1: "log_run l (replicate buffer_size (Add e)) l1" "adder l1 = Add_idle"
    "\<not> shutdown_flag l1" "current_buffer l1 = None" "available_buffers l1 = c # cs"
    "\<forall>c. c \<noteq> b \<longrightarrow> contents l1 c = contents l c"
    using fill_buffer [OF Cons.prems(1), of e] Cons.prems(2) by auto
  let ?l = "l1\<lparr>available_buffers := cs, current_buffer := Some c\<rparr>"
  have "writing c ?l 0" "\<forall>c \<in> set cs. contents ?l c = []"
    using l1 Cons.prems by (auto simp: writing_def)
  with Cons.IH [of c ?l] Cons.prems obtain l' where
    l': "log_run ?l (replicate (Suc (length cs) * buffer_size) (Add e)) l'" "adder l' = Add_idle"
      "\<not> shutdown_flag l'" "current_buffer l' = None" "available_buffers l' = []"
    by auto
  have "log_run l1 (replicate (Suc (length cs) * buffer_size) (Add e)) l'"
    by (rule add_after_take [OF l1(2-5) _ l'(1)]) (simp add: buffer_size_def)
  from log_run_trans [OF this l1(1)] l' show ?case
    by (auto simp flip: replicate_add intro!: exI [of _ l'])
qed

lemma waiting_reachable:
  assumes n: "0 < n"
  shows "\<exists>l. log_run (new_logger n) (replicate (n * buffer_size + 1) (Add e)) l \<and>
     adder l = Add_waiting e"
proof -
  have len: "Suc (length [1..<n]) = n" using n by simp
  obtain l where l: "log_run (new_logger n) (replicate (n * buffer_size) (Add e)) l"
    "adder l = Add_idle" "\<not> shutdown_flag l" "current_buffer l = None" "available_buffers l = []"
    using fill_buffers [of 0 "new_logger n" "[1..<n]" e] unfolding len
    by (auto simp: writing_def new_logger_def)
  have "log_run (new_logger n) (replicate (n * buffer_size) (Add e) @ [Add e]) (l\<lparr>adder := Add_waiting e\<rparr>)"
    by (rule log_snoc [OF l(1) log_step.add_wait [OF l(2-5)]])
  then show ?thesis
    by (intro exI [of _ "l\<lparr>adder := Add_waiting e\<rparr>"]) (simp add: replicate_append_same)
qed

lemma waiting_for_good:
  assumes "0 < n"
  shows "\<exists>l. log_run (new_logger n) (replicate (n * buffer_size + 1) (Add e)) l \<and>
    (\<forall>as l'. log_run l as l' \<longrightarrow> adder l' = Add_waiting e \<and> available_buffers l' = [])"
proof -
  obtain l where l: "log_run (new_logger n) (replicate (n * buffer_size + 1) (Add e)) l"
    "adder l = Add_waiting e"
    using waiting_reachable [OF assms, of e] by auto
  have ok: "logger_ok n l" by (rule log_run_ok [OF l(1) new_logger_ok [OF assms]])
  have "adder l' = Add_waiting e \<and> available_buffers l' = []" if run: "log_run l as l'" for as l'
  proof -
    have "adder l' = Add_waiting e" by (rule waiting_run [OF run ok l(2)])
    with waiting_for_buffers [OF log_run_ok [OF run ok]] show ?thesis by simp
  qed
  with l(1) show ?thesis by (intro exI [of _ l]) simp
qed

subsection \<open>The destructor\<close>

lemma flush_all_stopped:
  "stop_flag l \<Longrightarrow> produced (flush_all bs l) = produced l"
  by (induction bs l rule: flush_all.induct) (auto simp: sendEventsToKafka_def enqueueTask_def)

lemma flush_all_empties:
  "b \<in> set bs \<or> contents l b = [] \<Longrightarrow> contents (flush_all bs l) b = []"
  by (induction bs l rule: flush_all.induct) auto

lemma destroy_logger_produced:
  "produced (destroy_logger n one_more l) =
     produced l @ (if one_more then concat (take 1 (pool_tasks l)) else [])"
  by (auto simp: destroy_logger_def stop_pool_def Let_def flush_all_stopped split: list.splits)

lemma destroy_logger_empties:
  "b < n \<Longrightarrow> contents (destroy_logger n one_more l) b = []"
  unfolding destroy_logger_def Let_def
  by (rule flush_all_empties) (auto simp: stop_pool_def Let_def split: list.splits)

lemma destroy_logger_loses:
  assumes "0 < n" and run: "log_run (new_logger n) as l"
  shows "\<exists>lost. added as = produced (destroy_logger n one_more l) @ lost \<and>
    in_flight l = (if one_more then concat (take 1 (pool_tasks l)) else []) @ lost \<and>
    (\<forall>b < n. contents (destroy_logger n one_more l) b = [])"
proof -
  have all: "added as = produced l @ in_flight l"
    using log_run_order [OF run new_logger_ok [OF assms(1)]] by (simp add: new_logger_empty)
  have "concat (pool_tasks l) = concat (take 1 (pool_tasks l)) @ concat (drop 1 (pool_tasks l))"
    by (simp flip: concat_append)
  then obtain rest where "in_flight l = concat (take 1 (pool_tasks l)) @ rest"
    by (simp add: in_flight_def)
  with all show ?thesis
    by (cases one_more) (simp_all add: destroy_logger_produced destroy_logger_empties)
qed

text \<open>Two short runs.\<close>

lemma demo_logger_add:
  "\<exists>l. log_run (new_logger 2) [Add e] l \<and> produced l = [] \<and> pool_tasks l = []"
  using log_snoc [OF log_nil log_step.add, of "new_logger 2" 0 e]
  by (auto simp: new_logger_def push_event_def buffer_size_def)

lemma demo_logger_run:
  "\<exists>l. log_run (new_logger 2) [Add e, Timeout, Add e', Pop, Send, Work] l \<and> produced l = [e]"
proof -
  let ?s0 = "new_logger 2 :: 'a logger"
  let ?s1 = "push_event e 0 ?s0"
  let ?s2 = "?s1\<lparr>flush_buffers := [0], current_buffer := Some 1, available_buffers := []\<rparr>"
  let ?s3 = "push_event e' 1 ?s2"
  let ?s4 = "?s3\<lparr>flush_buffers := [], flusher := Fl_sending 0\<rparr>"
  let ?s5 = "(sendEventsToKafka (contents ?s4 0) ?s4)\<lparr>contents := (contents ?s4)(0 := []),
      flusher := Fl_returning 0\<rparr>"
  let ?s6 = "?s5\<lparr>pool_tasks := [], produced := produced ?s5 @ [e]\<rparr>"
  note defs = new_logger_def push_event_def buffer_size_def sendEventsToKafka_def enqueueTask_def
    numeral_2_eq_2
  have "log_run ?s0 [] ?s0" by (rule log_nil)
  moreover have "log_step ?s0 (Add e) ?s1" by (rule log_step.add) (simp_all add: defs)
  moreover have "log_step ?s1 Timeout ?s2"
    by (rule log_step.timeout_switch [of _ 0]) (simp_all add: defs)
  moreover have "log_step ?s2 (Add e') ?s3" by (rule log_step.add) (simp_all add: defs)
  moreover have "log_step ?s3 Pop ?s4" by (rule log_step.pop) (simp_all add: defs)
  moreover have "log_step ?s4 Send ?s5" by (rule log_step.send) (simp add: defs)
  moreover have "log_step ?s5 Work ?s6" by (rule log_step.work) (simp_all add: defs)
  ultimately have "log_run ?s0 (((((([] @ [Add e]) @ [Timeout]) @ [Add e']) @ [Pop]) @ [Send]) @ [Work]) ?s6"
    by (intro log_snoc)
  moreover have "produced ?s6 = [e]" by (simp add: defs)
  ultimately show ?thesis by (intro exI [of _ ?s6]) simp
qed

subsection \<open>The batches of a task\<close>

text \<open>The loop of the task: \<open>dump e\<close> is the serialised line of an event, \<open>None\<close> when the JSON
  library throws, and then the event is skipped.  The comment next to the size says 1MB.\<close>

definition max_batch_size :: nat where "max_batch_size = 10 * 1024 * 1024"

fun send_batches :: "('e \<Rightarrow> string option) \<Rightarrow> 'e list \<Rightarrow> string list \<Rightarrow> nat \<Rightarrow> string list list" where
  "send_batches dump [] batch filled = (if batch = [] then [] else [batch])"
| "send_batches dump (e # es) batch filled =
     (case dump e of
        None \<Rightarrow> send_batches dump es batch filled
      | Some message \<Rightarrow>
          (let batch = batch @ [message];
               filled = filled + length message
           in if max_batch_size \<le> filled then batch # send_batches dump es [] 0
              else send_batches dump es batch filled))"

text \<open>\<open>sanitizeString\<close>, in the C locale the program runs in.\<close>

definition is_print :: "char \<Rightarrow> bool" where
  "is_print c \<longleftrightarrow> 32 \<le> (of_char c :: nat) \<and> (of_char c :: nat) < 127"

definition sanitizeString :: "string \<Rightarrow> string" where
  "sanitizeString = map (\<lambda>c. if is_print c then c else CHR ''.'')"

lemma send_batches_messages:
  "concat (send_batches dump es batch filled) = batch @ List.map_filter dump es"
  by (induction dump es batch filled rule: send_batches.induct)
     (auto simp: Let_def List.map_filter_def split: option.splits)

lemma send_batches_size:
  "sum_list (map length batch) = filled \<Longrightarrow> filled < max_batch_size \<Longrightarrow>
     \<forall>ms \<in> set (send_batches dump es batch filled).
       ms \<noteq> [] \<and> sum_list (map length (butlast ms)) < max_batch_size"
proof (induction dump es batch filled rule: send_batches.induct)
  case (1 dump batch filled)
  have "sum_list (map length (butlast batch)) \<le> sum_list (map length batch)"
    by (cases batch rule: rev_cases) auto
  with 1 show ?case by auto
next
  case (2 dump e es batch filled)
  then show ?case by (auto simp: Let_def max_batch_size_def split: option.splits)
qed

end
