(* ===== verification/Trace_Json.thy ===== *)
theory Trace_Json
  imports Logger Consumer "HOL-Library.Sublist"
begin

section \<open>Tracepoint monitor: the messages for Kafka\<close>

text \<open>
  What the task of \<open>sendEventsToKafka\<close> in \<open>EventLogger.cpp\<close> makes of an event: a JSON object with one
  member per field, strings with the characters that cannot be printed replaced, and the time in
  microseconds.  \<open>dump\<close> is the serialisation of the JSON library, \<open>None\<close> when it throws.  The producer
  of librdkafka is a parameter: \<open>produce\<close> says whether it accepts a message, \<open>poll\<close> serves its events,
  both on a state of their own.  The constructor sets the producer up.
\<close>

subsection \<open>The object\<close>

datatype json_value = J_int int | J_bool bool | J_string string

text \<open>\<open>duration_cast\<close> rounds towards zero.\<close>

definition microseconds :: "int \<Rightarrow> int" where
  "microseconds t = (if t < 0 then - ((- t) div 1000) else t div 1000)"

text \<open>\<open>additional_info\<close> is a member that no handler sets.\<close>

definition event_json :: "db_event \<Rightarrow> (string \<times> json_value) list" where
  "event_json d =
     [(''timestamp'', J_int (microseconds (db_timestamp d))),
      (''container_name'', J_string (sanitizeString (db_container_name d))),
      (''syscall'', J_int (sint (db_syscall d))),
      (''is_enter'', J_bool (db_is_enter d)),
      (''pid_namespace'', J_int (uint (db_pid_namespace d))),
      (''mnt_namespace'', J_int (uint (db_mnt_namespace d))),
      (''ppid'', J_int (uint (db_ppid d))),
      (''pid'', J_int (uint (db_pid d))),
      (''tid'', J_int (uint (db_tid d))),
      (''uid'', J_int (uint (db_uid d))),
      (''gid'', J_int (uint (db_gid d))),
      (''ret'', J_int (sint (db_ret d))),
      (''comm'', J_string (sanitizeString (db_comm d))),
      (''arg0'', J_string (sanitizeString (arg0 d))),
      (''arg1'', J_string (sanitizeString (arg1 d))),
      (''arg2'', J_string (sanitizeString (arg2 d))),
      (''arg3'', J_string (sanitizeString (arg3 d))),
      (''arg4'', J_string (sanitizeString (arg4 d))),
      (''arg5'', J_string (sanitizeString (arg5 d))),
      (''additional_info'', J_string []),
      (''data_type'', J_string ''db_event'')]"

text \<open>The batches of one task.\<close>

definition event_batches :: "((string \<times> json_value) list \<Rightarrow> string option) \<Rightarrow> db_event list \<Rightarrow> string list list" where
  "event_batches dump es = send_batches (\<lambda>d. dump (event_json d)) es [] 0"

text \<open>A message that is not accepted is reported on the console and dropped; the next one is tried.\<close>

fun sendBatchToKafka ::
  "(string \<Rightarrow> 'k \<Rightarrow> bool \<times> 'k) \<Rightarrow> ('k \<Rightarrow> 'k) \<Rightarrow> string list \<Rightarrow> 'k \<Rightarrow> string list \<times> 'k" where
  "sendBatchToKafka produce poll [] k = ([], poll k)"
| "sendBatchToKafka produce poll (m # batch) k =
     (let (accepted, k) = produce m k;
          (ms, k) = sendBatchToKafka produce poll batch k
      in (if accepted then m # ms else ms, k))"

fun send_all :: "(string \<Rightarrow> 'k \<Rightarrow> bool \<times> 'k) \<Rightarrow> ('k \<Rightarrow> 'k) \<Rightarrow> string list list \<Rightarrow> 'k \<Rightarrow> string list \<times> 'k" where
  "send_all produce poll [] k = ([], k)"
| "send_all produce poll (batch # batches) k =
     (let (ms, k) = sendBatchToKafka produce poll batch k;
          (ms', k) = send_all produce poll batches k
      in (ms @ ms', k))"

text \<open>One task of the pool: its result lists the messages that were accepted.\<close>

definition kafka_task ::
  "(string \<Rightarrow> 'k \<Rightarrow> bool \<times> 'k) \<Rightarrow> ('k \<Rightarrow> 'k) \<Rightarrow> ((string \<times> json_value) list \<Rightarrow> string option) \<Rightarrow>
     db_event list \<Rightarrow> 'k \<Rightarrow> string list \<times> 'k" where
  "kafka_task produce poll dump es k = send_all produce poll (event_batches dump es) k"

subsection \<open>The constructor\<close>

definition kafka_settings :: "string \<Rightarrow> (string \<times> string) list" where
  "kafka_settings brokers =
     [(''bootstrap.servers'', brokers),
      (''queue.buffering.max.messages'', ''1000000''),
      (''queue.buffering.max.kbytes'', ''2097152''),
      (''compression.type'', ''gzip''),
      (''batch.size'', ''10485760''),
      (''linger.ms'', ''500''),
      (''acks'', ''1''),
      (''retries'', ''3''),
      (''retry.backoff.ms'', ''100'')]"

definition max_retries :: nat where "max_retries = 5"

text \<open>The loops that create the producer and the topic; \<open>create i\<close> is the outcome of attempt \<open>i\<close>.\<close>

function create_with_retries :: "(nat \<Rightarrow> 'p option) \<Rightarrow> nat \<Rightarrow> 'p option" where
  "create_with_retries create retry_count =
     (if retry_count < max_retries then
        case create retry_count of
          None \<Rightarrow> create_with_retries create (retry_count + 1)
        | Some p \<Rightarrow> Some p
      else None)"
  by pat_completeness auto
termination by (relation "measure (\<lambda>(_, n). max_retries - n)") auto

declare create_with_retries.simps [simp del]

datatype logger_error = No_buffers | Setting_refused string | No_producer | No_topic

definition new_event_logger ::
  "nat \<Rightarrow> string \<Rightarrow> string \<Rightarrow> (string \<times> string \<Rightarrow> bool) \<Rightarrow> (nat \<Rightarrow> 'p option) \<Rightarrow> ('p \<Rightarrow> string \<Rightarrow> nat \<Rightarrow> 't option) \<Rightarrow>
     logger_error + 'e logger \<times> 'p \<times> 't" where
  "new_event_logger bufferCount brokers topic conf_set create_producer create_topic =
     (if bufferCount = 0 then Inl No_buffers
      else case find (\<lambda>s. \<not> conf_set s) (kafka_settings brokers) of
        Some s \<Rightarrow> Inl (Setting_refused (fst s))
      | None \<Rightarrow>
          (case create_with_retries create_producer 0 of
             None \<Rightarrow> Inl No_producer
           | Some producer \<Rightarrow>
               (case create_with_retries (create_topic producer topic) 0 of
                  None \<Rightarrow> Inl No_topic
                | Some t \<Rightarrow> Inr (new_logger bufferCount, producer, t))))"

text \<open>The number of workers, each with a queue of its own; \<open>Logger\<close> is about the only one.\<close>

definition initThreadPool :: nat where
  "initThreadPool =
     (let numThreads = 1;
          numThreads = (if numThreads = 0 then 1 else numThreads)
      in if 4 < numThreads then 4 else numThreads)"

definition queue_index :: "nat \<Rightarrow> nat" where
  "queue_index nextQueueIndex = nextQueueIndex mod initThreadPool"

lemma one_worker: "initThreadPool = 1" "queue_index i = 0"
  by (simp_all add: initThreadPool_def queue_index_def)

text \<open>\<open>shutdown\<close>, which nothing calls, stops the pool as the destructor does; no task is taken after it.\<close>

definition shutdown_logger :: "bool \<Rightarrow> 'e logger \<Rightarrow> 'e logger" where
  "shutdown_logger one_more l = stop_pool one_more l"

lemma shutdown_refuses: "sendEventsToKafka es (shutdown_logger one_more l) = shutdown_logger one_more l"
  by (simp add: shutdown_logger_def stop_pool_def sendEventsToKafka_def enqueueTask_def Let_def split: list.split)

text \<open>The first attempt of the five that succeeds gives the result.\<close>

lemma create_with_retries_find:
  "n \<le> max_retries \<Longrightarrow>
     create_with_retries create n = Option.bind (find (\<lambda>i. create i \<noteq> None) [n..<max_retries]) create"
proof (induction "max_retries - n" arbitrary: n)
  case 0
  then show ?case by (subst create_with_retries.simps) simp
next
  case (Suc k)
  then have "[n..<max_retries] = n # [Suc n..<max_retries]" by (simp add: upt_conv_Cons)
  with Suc show ?case
    by (subst create_with_retries.simps) (auto split: option.split)
qed

lemma create_with_retries_None: "create_with_retries create 0 = None \<longleftrightarrow> (\<forall>i < max_retries. create i = None)"
proof -
  have *: "create_with_retries create 0 = Option.bind (find (\<lambda>i. create i \<noteq> None) [0..<max_retries]) create"
    by (rule create_with_retries_find) simp
  show ?thesis
  proof (cases "find (\<lambda>i. create i \<noteq> None) [0..<max_retries]")
    case None
    then have "\<forall>i < max_retries. create i = None" unfolding find_None_iff by auto
    with None * show ?thesis by simp
  next
    case (Some i)
    then have "i < max_retries" "create i \<noteq> None" unfolding find_Some_iff by auto
    with Some * show ?thesis by auto
  qed
qed

lemma event_logger_starts:
  "(\<exists>l p t. new_event_logger n brokers topic conf_set create_producer create_topic = Inr (l, p, t)) \<longleftrightarrow>
     0 < n \<and> (\<forall>s \<in> set (kafka_settings brokers). conf_set s) \<and>
     (\<exists>p. create_with_retries create_producer 0 = Some p \<and> \<not> (\<forall>i < max_retries. create_topic p topic i = None))"
proof (cases "find (\<lambda>s. \<not> conf_set s) (kafka_settings brokers)")
  case None
  then have "\<forall>s \<in> set (kafka_settings brokers). conf_set s" by (auto simp: find_None_iff)
  with None show ?thesis
    by (auto simp: new_event_logger_def simp flip: create_with_retries_None [of "create_topic p topic" for p] split: option.split)
next
  case (Some s)
  then have "\<exists>s \<in> set (kafka_settings brokers). \<not> conf_set s"
    by (auto simp: find_Some_iff intro: nth_mem)
  with Some show ?thesis by (auto simp: new_event_logger_def)
qed

subsection \<open>What a message says\<close>

lemma sanitize_printable: "list_all is_print s \<Longrightarrow> sanitizeString s = s"
  by (induction s) (simp_all add: sanitizeString_def)

lemma sanitize_prints: "list_all is_print (sanitizeString s)"
  by (induction s) (simp_all add: sanitizeString_def is_print_def)

text \<open>What \<open>dump\<close> throws for are strings that are not UTF-8, and no string of the object is one.\<close>

definition ascii_json :: "(string \<times> json_value) list \<Rightarrow> bool" where
  "ascii_json j \<longleftrightarrow> list_all (\<lambda>(_, v). case v of J_string s \<Rightarrow> list_all is_print s | _ \<Rightarrow> True) j"

lemma event_json_ascii: "ascii_json (event_json d)"
  by (simp add: ascii_json_def event_json_def sanitize_prints is_print_def)

definition printable :: "db_event \<Rightarrow> bool" where
  "printable d \<longleftrightarrow> list_all (list_all is_print)
     [db_container_name d, db_comm d, arg0 d, arg1 d, arg2 d, arg3 d, arg4 d, arg5 d]"

text \<open>Printable events with the same object differ at most below the microsecond.\<close>

lemma event_json_determines:
  assumes "printable d" and "printable d'" and "event_json d = event_json d'"
  shows "d = d'\<lparr>db_timestamp := db_timestamp d\<rparr> \<and> microseconds (db_timestamp d) = microseconds (db_timestamp d')"
proof -
  from assms(1,2) have "sanitizeString (db_container_name d) = db_container_name d"
    "sanitizeString (db_comm d) = db_comm d" "sanitizeString (arg0 d) = arg0 d" "sanitizeString (arg1 d) = arg1 d"
    "sanitizeString (arg2 d) = arg2 d" "sanitizeString (arg3 d) = arg3 d" "sanitizeString (arg4 d) = arg4 d"
    "sanitizeString (arg5 d) = arg5 d"
    "sanitizeString (db_container_name d') = db_container_name d'"
    "sanitizeString (db_comm d') = db_comm d'" "sanitizeString (arg0 d') = arg0 d'" "sanitizeString (arg1 d') = arg1 d'"
    "sanitizeString (arg2 d') = arg2 d'" "sanitizeString (arg3 d') = arg3 d'" "sanitizeString (arg4 d') = arg4 d'"
    "sanitizeString (arg5 d') = arg5 d'"
    by (simp_all add: printable_def sanitize_printable)
  note same = this
  have members: "map snd (event_json d) = map snd (event_json d')" using assms(3) by simp
  show ?thesis
    using members unfolding event_json_def list.map snd_conv same
    by (cases d; cases d') (simp flip: word_eq_iff_unsigned word_eq_iff_signed)
qed

text \<open>Nothing is invented, reordered or sent twice; what is refused is lost.\<close>

lemma batch_accepted: "subseq (fst (sendBatchToKafka produce poll ms k)) ms"
  by (induction ms arbitrary: k) (auto simp: case_prod_unfold Let_def)

lemma batches_accepted: "subseq (fst (send_all produce poll bs k)) (concat bs)"
  by (induction bs arbitrary: k)
     (simp_all add: case_prod_unfold Let_def list_emb_append_mono batch_accepted)

lemma batch_all_accepted:
  "(\<And>m k. fst (produce m k)) \<Longrightarrow> fst (sendBatchToKafka produce poll ms k) = ms"
  by (induction ms arbitrary: k) (auto simp: case_prod_unfold Let_def)

lemma batches_all_accepted:
  "(\<And>m k. fst (produce m k)) \<Longrightarrow> fst (send_all produce poll bs k) = concat bs"
  by (induction bs arbitrary: k)
     (auto simp: case_prod_unfold Let_def batch_all_accepted)

text \<open>The batches hold the messages in order, none of them more than 10 MB before its last message.\<close>

lemma event_batches_messages:
  assumes "\<forall>d \<in> set es. dump (event_json d) \<noteq> None"
  shows "concat (event_batches dump es) = map (\<lambda>d. the (dump (event_json d))) es"
proof -
  have "List.map_filter (\<lambda>d. dump (event_json d)) es = map (\<lambda>d. the (dump (event_json d))) es"
    using assms by (induction es) (auto simp: List.map_filter_def)
  then show ?thesis by (simp add: event_batches_def send_batches_messages)
qed

lemma event_batches_size:
  "\<forall>ms \<in> set (event_batches dump es). ms \<noteq> [] \<and> sum_list (map length (butlast ms)) < max_batch_size"
  unfolding event_batches_def by (rule send_batches_size) (simp_all add: max_batch_size_def)

lemma kafka_task_messages:
  assumes "\<And>j. ascii_json j \<Longrightarrow> dump j \<noteq> None"
  shows "subseq (fst (kafka_task produce poll dump es k)) (map (\<lambda>d. the (dump (event_json d))) es)"
    and "\<forall>m k. fst (produce m k) \<Longrightarrow>
      fst (kafka_task produce poll dump es k) = map (\<lambda>d. the (dump (event_json d))) es"
proof -
  have "\<forall>d \<in> set es. dump (event_json d) \<noteq> None" by (intro ballI assms event_json_ascii)
  from event_batches_messages [OF this]
  show "subseq (fst (kafka_task produce poll dump es k)) (map (\<lambda>d. the (dump (event_json d))) es)"
    and "\<forall>m k. fst (produce m k) \<Longrightarrow>
      fst (kafka_task produce poll dump es k) = map (\<lambda>d. the (dump (event_json d))) es"
    using batches_accepted [of produce poll "event_batches dump es" k]
    by (simp_all add: kafka_task_def batches_all_accepted)
qed

subsection \<open>A task\<close>

definition demo_dump :: "(string \<times> json_value) list \<Rightarrow> string option" where
  "demo_dump j =
     (if ascii_json j then Some (concat (map (\<lambda>(n, v). n @ (case v of J_string s \<Rightarrow> s | _ \<Rightarrow> [])) j)) else None)"

definition demo_db_event :: "string \<Rightarrow> db_event" where
  "demo_db_event comm =
     \<lparr>db_timestamp = 0, db_container_name = ''web'', db_syscall = 3, db_is_enter = True, db_pid_namespace = 1,
      db_mnt_namespace = 2, db_ppid = 1, db_pid = 7, db_tid = 7, db_uid = 0, db_gid = 0, db_ret = 0,
      db_comm = comm, arg0 = [], arg1 = [], arg2 = [], arg3 = [], arg4 = [], arg5 = []\<rparr>"

definition demo_produce :: "string \<Rightarrow> nat \<Rightarrow> bool \<times> nat" where
  "demo_produce m room = (if room = 0 then (False, 0) else (True, room - 1))"

end
