(* ===== verification/Raw_Logger.thy ===== *)
theory Raw_Logger
  imports Raw_Loader
begin

section \<open>The raw tracepoint monitor: the log file\<close>

text \<open>
  \<open>src/src/raw_tracepoint/EventLogger.cpp\<close>: the text of an event, and the four buffers between
  the thread that polls the ring buffer and the flush thread.  An action is what one thread does
  while it holds \<open>mtx_\<close>, or the write of a buffer to the file, or its clearing; both are done
  without the lock.  (An append to a buffer that is being written is a data race in C++; here the
  write sees the contents of one moment.)  \<open>addEvent\<close> never blocks: when no buffer is free it
  has just put one into the queue, so the predicate of its \<open>wait\<close> holds and it goes on with the
  same buffer.  The size of a buffer is the argument of the constructor, 100000 in \<open>main\<close>; the
  time of a timeout is arbitrary; opening and rotating the file is not modelled.
\<close>

subsection \<open>The text of an event\<close>

definition number :: "'a::len word \<Rightarrow> string" where
  "number w = to_string (uint w)"

definition setw :: "nat \<Rightarrow> string \<Rightarrow> string" where
  "setw n s = replicate (n - length s) (CHR ''0'') @ s"

fun exec_arguments :: "nat \<Rightarrow> u8 list list \<Rightarrow> string" where
  "exec_arguments i [] = []"
| "exec_arguments i (a # as) =
     (if a ! 0 = 0 then []
      else ''Arg '' @ to_string (int i) @ '': '' @ c_string a @ ''\<newline>'' @ exec_arguments (Suc i) as)"

definition raw_arg :: "raw_event \<Rightarrow> nat \<Rightarrow> string" where
  "raw_arg e i = number (re_args e ! i)"

definition creation_text :: "raw_event \<Rightarrow> string" where
  "creation_text e = ''New process creation\<newline>''"

definition exec_text :: "raw_event \<Rightarrow> string" where
  "exec_text e = ''Executing new program: '' @ c_string (re_filename e) @ ''\<newline>'' @
     exec_arguments 0 (take MAX_ARGS (re_argv e))"

definition file_text :: "raw_event \<Rightarrow> string" where
  "file_text e =
     (if re_filename e ! 0 \<noteq> 0
      then ''File operation: '' @ c_string (re_syscall e) @ '' on file: '' @ c_string (re_filename e) @ ''\<newline>''
      else [])"

definition transfer_text :: "string \<Rightarrow> string \<Rightarrow> raw_event \<Rightarrow> string" where
  "transfer_text what from e =
     what @ from @ raw_arg e 0 @ '', '' @ raw_arg e 2 @ '' bytes\<newline>''"

text \<open>The cases of the \<open>switch\<close>, in order.\<close>

definition raw_texts :: "(string list \<times> (raw_event \<Rightarrow> string)) list" where
  "raw_texts =
     [([''fork'', ''vfork'', ''clone''], creation_text),
      ([''execve'', ''execveat''], exec_text),
      ([''exit'', ''exit_group''], \<lambda>e. ''Process exit\<newline>''),
      ([''wait4'', ''waitid''], \<lambda>e. ''Waiting for child process\<newline>''),
      ([''kill'', ''tkill'', ''tgkill''], \<lambda>e. ''Sending signal '' @ raw_arg e 1 @ '' to process/thread\<newline>''),
      ([''ptrace''], \<lambda>e. ''Ptrace call with request '' @ raw_arg e 0 @ ''\<newline>''),
      ([''open'', ''openat'', ''unlink'', ''unlinkat'', ''mkdir'', ''mkdirat'', ''rmdir'', ''renameat'', ''renameat2'',
        ''symlink'', ''symlinkat'', ''link'', ''linkat'', ''chmod'', ''fchmodat'', ''chown'', ''lchown'', ''fchownat'',
        ''access'', ''faccessat'', ''stat'', ''lstat'', ''newfstatat'', ''truncate'', ''readlink'', ''readlinkat''],
       file_text),
      ([''close''], \<lambda>e. ''Closing file descriptor: '' @ raw_arg e 0 @ ''\<newline>''),
      ([''read''], transfer_text ''Read'' '' operation on fd ''),
      ([''write''], transfer_text ''Write'' '' operation on fd ''),
      ([''mount''], \<lambda>e. ''Mounting filesystem\<newline>''),
      ([''umount2''], \<lambda>e. ''Unmounting filesystem\<newline>''),
      ([''socket''], \<lambda>e. ''Creating socket: domain '' @ raw_arg e 0 @ '', type '' @ raw_arg e 1 @
         '', protocol '' @ raw_arg e 2 @ ''\<newline>''),
      ([''connect''], \<lambda>e. ''Connecting to socket\<newline>''),
      ([''accept''], \<lambda>e. ''Accepting connection on socket\<newline>''),
      ([''bind''], \<lambda>e. ''Binding socket\<newline>''),
      ([''listen''], \<lambda>e. ''Listening on socket\<newline>''),
      ([''sendto''], transfer_text ''Sending'' '' on socket ''),
      ([''recvfrom''], transfer_text ''Receiving'' '' on socket ''),
      ([''setsockopt''], \<lambda>e. ''Setting socket option\<newline>''),
      ([''getsockopt''], \<lambda>e. ''Getting socket option\<newline>''),
      ([''setpgid'', ''setsid'', ''setuid'', ''setgid'', ''setreuid'', ''setregid'', ''setresuid'', ''setresgid'',
        ''setgroups'', ''capset''], \<lambda>e. ''Changing process attributes: '' @ c_string (re_syscall e) @ ''\<newline>''),
      ([''prctl''], \<lambda>e. ''Process control operation: '' @ raw_arg e 0 @ ''\<newline>''),
      ([''setpriority'', ''sched_setscheduler'', ''sched_setparam'', ''sched_setaffinity''],
       \<lambda>e. ''Changing process scheduling: '' @ c_string (re_syscall e) @ ''\<newline>''),
      ([''sched_yield''], \<lambda>e. ''Yielding processor\<newline>''),
      ([''mprotect''], \<lambda>e. ''mprotect called with addr='' @ raw_arg e 0 @ '', len='' @ raw_arg e 1 @
         '', prot='' @ raw_arg e 2 @ ''\<newline>''),
      ([''mmap''], \<lambda>e. ''mmap called with addr='' @ raw_arg e 0 @ '', len='' @ raw_arg e 1 @
         '', prot='' @ raw_arg e 2 @ '', flags='' @ raw_arg e 3 @ '', fd='' @ raw_arg e 4 @
         '', offset='' @ raw_arg e 5 @ ''\<newline>''),
      ([''munmap''], \<lambda>e. ''munmap called with addr='' @ raw_arg e 0 @ '', len='' @ raw_arg e 1 @ ''\<newline>'')]"

text \<open>\<open>stamp\<close> is \<open>format_timestamp\<close>: the local time of the second and nine digits of nanoseconds.\<close>

definition raw_header :: "(u64 \<Rightarrow> string) \<Rightarrow> raw_event \<Rightarrow> string" where
  "raw_header stamp e =
     ''['' @ setw 13 (number (re_cnt e)) @ ''] '' @ stamp (re_timestamp e) @ '' Process syscall: '' @
     c_string (re_syscall e) @ '' (nr='' @ number (re_syscall_nr e) @ '', pid='' @ number (re_pid e) @
     '', tid='' @ number (re_tid e) @ '', ppid='' @ number (re_ppid e) @ '', uid='' @ number (re_uid e) @
     '', comm='' @ c_string (re_comm e) @ '', cgroup_id='' @ number (re_cgroup_id e) @
     '', cgroup_name='' @ c_string (re_cgroup_name e) @ '')\<newline>''"

definition raw_line :: "(string \<Rightarrow> u32) \<Rightarrow> (u64 \<Rightarrow> string) \<Rightarrow> raw_event \<Rightarrow> string" where
  "raw_line nr stamp e =
     raw_header stamp e @
     (case find (\<lambda>(names, text). re_syscall_nr e \<in> nr ` set names) raw_texts of
        Some (names, text) \<Rightarrow> text e
      | None \<Rightarrow> ''Other system call: '' @ c_string (re_syscall e) @ ''\<newline>'')"

definition flushToFile :: "(string \<Rightarrow> u32) \<Rightarrow> (u64 \<Rightarrow> string) \<Rightarrow> raw_event list \<Rightarrow> string" where
  "flushToFile nr stamp buffer = concat (map (raw_line nr stamp) buffer)"

subsection \<open>The buffers\<close>

datatype raw_flush_pc = Rf_idle | Rf_popped nat | Rf_written nat | Rf_done

record 'e raw_logger =
  rb_buffers :: "'e list list"
  rb_current :: nat
  rb_queue :: "nat list"
  rb_flusher :: raw_flush_pc
  rb_file :: "'e list"
  rb_shutdown :: bool

definition new_raw_logger :: "'e raw_logger" where
  "new_raw_logger = \<lparr>rb_buffers = [[], [], [], []], rb_current = 0, rb_queue = [], rb_flusher = Rf_idle,
     rb_file = [], rb_shutdown = False\<rparr>"

definition next_buffer :: "nat \<Rightarrow> 'e raw_logger \<Rightarrow> nat option" where
  "next_buffer n l = find (\<lambda>i. i \<noteq> rb_current l \<and> length (rb_buffers l ! i) < n) [0, 1, 2, 3]"

definition raw_addEvent :: "nat \<Rightarrow> 'e \<Rightarrow> 'e raw_logger \<Rightarrow> 'e raw_logger" where
  "raw_addEvent n e l =
     (let b = rb_current l;
          l = l\<lparr>rb_buffers := (rb_buffers l)[b := rb_buffers l ! b @ [e]]\<rparr>
      in if n \<le> length (rb_buffers l ! b)
         then
           let l = l\<lparr>rb_queue := rb_queue l @ [b]\<rparr>
           in (case next_buffer n l of Some b' \<Rightarrow> l\<lparr>rb_current := b'\<rparr> | None \<Rightarrow> l)
         else l)"

datatype 'e raw_action = R_add 'e | R_pop | R_write | R_clear | R_timeout | R_shutdown | R_finish

fun raw_log_step :: "nat \<Rightarrow> 'e raw_action \<Rightarrow> 'e raw_logger \<Rightarrow> 'e raw_logger option" where
  "raw_log_step n (R_add e) l = Some (raw_addEvent n e l)"
| "raw_log_step n R_pop l =
     (case (rb_flusher l, rb_queue l) of
        (Rf_idle, b # bs) \<Rightarrow> Some (l\<lparr>rb_queue := bs, rb_flusher := Rf_popped b\<rparr>) | _ \<Rightarrow> None)"
| "raw_log_step n R_write l =
     (case rb_flusher l of
        Rf_popped b \<Rightarrow> Some (l\<lparr>rb_file := rb_file l @ rb_buffers l ! b, rb_flusher := Rf_written b\<rparr>)
      | _ \<Rightarrow> None)"
| "raw_log_step n R_clear l =
     (case rb_flusher l of
        Rf_written b \<Rightarrow> Some (l\<lparr>rb_buffers := (rb_buffers l)[b := []], rb_flusher := Rf_idle\<rparr>)
      | _ \<Rightarrow> None)"
| "raw_log_step n R_timeout l =
     (if rb_flusher l = Rf_idle \<and> rb_queue l = [] \<and> rb_buffers l ! rb_current l \<noteq> []
      then
        let l = l\<lparr>rb_queue := [rb_current l]\<rparr>
        in Some (case next_buffer n l of Some b' \<Rightarrow> l\<lparr>rb_current := b'\<rparr> | None \<Rightarrow> l)
      else None)"
| "raw_log_step n R_shutdown l = Some (l\<lparr>rb_shutdown := True\<rparr>)"
| "raw_log_step n R_finish l =
     (if rb_flusher l = Rf_idle \<and> rb_shutdown l then Some (l\<lparr>rb_flusher := Rf_done\<rparr>) else None)"

fun raw_log_run :: "nat \<Rightarrow> 'e raw_action list \<Rightarrow> 'e raw_logger \<Rightarrow> 'e raw_logger option" where
  "raw_log_run n [] l = Some l"
| "raw_log_run n (a # as) l = (case raw_log_step n a l of None \<Rightarrow> None | Some l' \<Rightarrow> raw_log_run n as l')"

text \<open>The destructor, after the flush thread was joined.\<close>

fun flush_queue :: "nat list \<Rightarrow> 'e raw_logger \<Rightarrow> 'e raw_logger" where
  "flush_queue [] l = l"
| "flush_queue (b # bs) l =
     flush_queue bs (l\<lparr>rb_file := rb_file l @ rb_buffers l ! b, rb_buffers := (rb_buffers l)[b := []]\<rparr>)"

definition close_logger :: "'e raw_logger \<Rightarrow> 'e raw_logger" where
  "close_logger l =
     (let queue = (if rb_buffers l ! rb_current l \<noteq> [] then rb_queue l @ [rb_current l] else rb_queue l)
      in flush_queue queue (l\<lparr>rb_queue := []\<rparr>))"

subsection \<open>Order of the file\<close>

text \<open>A run without timeouts in which every event that fills its buffer finds another one that is not
  full.\<close>

definition finds_buffer :: "nat \<Rightarrow> 'e raw_logger \<Rightarrow> bool" where
  "finds_buffer n l \<longleftrightarrow> (n \<le> Suc (length (rb_buffers l ! rb_current l)) \<longrightarrow>
     list_ex (\<lambda>b. b \<noteq> rb_current l \<and> length (rb_buffers l ! b) < n) [0, 1, 2, 3])"

fun smooth :: "nat \<Rightarrow> 'e raw_action list \<Rightarrow> 'e raw_logger \<Rightarrow> bool" where
  "smooth n [] l = True"
| "smooth n (a # as) l =
     ((case a of R_timeout \<Rightarrow> False | R_add e \<Rightarrow> finds_buffer n l | _ \<Rightarrow> True) \<and>
      (case raw_log_step n a l of None \<Rightarrow> True | Some l' \<Rightarrow> smooth n as l'))"

definition raw_held :: "'e raw_logger \<Rightarrow> nat list" where
  "raw_held l = (case rb_flusher l of Rf_popped b \<Rightarrow> [b] | Rf_written b \<Rightarrow> [b] | _ \<Rightarrow> [])"

definition raw_pending :: "'e raw_logger \<Rightarrow> 'e list" where
  "raw_pending l = (case rb_flusher l of Rf_popped b \<Rightarrow> rb_buffers l ! b | _ \<Rightarrow> []) @
     concat (map ((!) (rb_buffers l)) (rb_queue l)) @ rb_buffers l ! rb_current l"

text \<open>Each buffer is the current one, waits or is being written, and then it is full, or it is free.\<close>

definition raw_logger_ok :: "nat \<Rightarrow> 'e raw_logger \<Rightarrow> bool" where
  "raw_logger_ok n l \<longleftrightarrow>
     length (rb_buffers l) = 4 \<and> distinct (rb_current l # rb_queue l @ raw_held l) \<and>
     rb_current l < 4 \<and> (\<forall>b \<in> set (rb_queue l @ raw_held l). b < 4 \<and> n \<le> length (rb_buffers l ! b)) \<and>
     length (rb_buffers l ! rb_current l) < n \<and>
     (\<forall>b < 4. b \<notin> set (rb_current l # rb_queue l @ raw_held l) \<longrightarrow> rb_buffers l ! b = [])"

fun raw_added :: "'e raw_action list \<Rightarrow> 'e list" where
  "raw_added [] = []"
| "raw_added (R_add e # as) = e # raw_added as"
| "raw_added (_ # as) = raw_added as"

lemma nth_update_elsewhere: "b \<notin> set bs \<Longrightarrow> map ((!) (xs[b := y])) bs = map ((!) xs) bs"
  by (induction bs) auto

lemma next_buffer_Some:
  "next_buffer n l = Some b \<Longrightarrow> b < 4 \<and> b \<noteq> rb_current l \<and> length (rb_buffers l ! b) < n"
  by (auto simp: next_buffer_def split: if_splits)

lemma next_buffer_exists:
  "next_buffer n l = None \<longleftrightarrow> \<not> list_ex (\<lambda>b. b \<noteq> rb_current l \<and> length (rb_buffers l ! b) < n) [0, 1, 2, 3]"
  by (auto simp: next_buffer_def)

lemma next_buffer_after_add:
  "next_buffer n (l\<lparr>rb_buffers := (rb_buffers l)[rb_current l := y], rb_queue := q\<rparr>) = next_buffer n l"
  unfolding next_buffer_def by (intro find_cong) (auto simp del: find.simps)

text \<open>The two ways an event can go.\<close>

lemma raw_add_cases:
  assumes ok: "raw_logger_ok n l" and found: "finds_buffer n l"
  obtains (stays) "Suc (length (rb_buffers l ! rb_current l)) < n"
      "raw_addEvent n e l = l\<lparr>rb_buffers := (rb_buffers l)[rb_current l := rb_buffers l ! rb_current l @ [e]]\<rparr>"
  | (switches) c where "n \<le> Suc (length (rb_buffers l ! rb_current l))" "c < 4"
      "c \<notin> set (rb_current l # rb_queue l @ raw_held l)" "rb_buffers l ! c = []" "0 < n"
      "raw_addEvent n e l = l\<lparr>rb_buffers := (rb_buffers l)[rb_current l := rb_buffers l ! rb_current l @ [e]],
         rb_queue := rb_queue l @ [rb_current l], rb_current := c\<rparr>"
proof (cases "n \<le> Suc (length (rb_buffers l ! rb_current l))")
  case False
  moreover have "rb_current l < length (rb_buffers l)" using ok by (simp add: raw_logger_ok_def)
  ultimately show ?thesis using stays by (simp add: raw_addEvent_def Let_def)
next
  case True
  then obtain c where c: "next_buffer n l = Some c"
    using found next_buffer_exists [of n l] by (cases "next_buffer n l") (auto simp: finds_buffer_def)
  have free: "c \<notin> set (rb_current l # rb_queue l @ raw_held l)"
  proof
    assume "c \<in> set (rb_current l # rb_queue l @ raw_held l)"
    then have "c \<in> set (rb_queue l @ raw_held l)" using next_buffer_Some [OF c] by simp
    with ok have "n \<le> length (rb_buffers l ! c)" unfolding raw_logger_ok_def by blast
    with next_buffer_Some [OF c] show False by simp
  qed
  have b: "rb_current l < length (rb_buffers l)" using ok by (simp add: raw_logger_ok_def)
  show ?thesis
  proof (rule switches)
    show "rb_buffers l ! c = []"
      using next_buffer_Some [OF c] free ok unfolding raw_logger_ok_def by blast
    show "raw_addEvent n e l = l\<lparr>rb_buffers := (rb_buffers l)[rb_current l := rb_buffers l ! rb_current l @ [e]],
         rb_queue := rb_queue l @ [rb_current l], rb_current := c\<rparr>"
      using True b c by (simp add: raw_addEvent_def Let_def next_buffer_after_add)
    show "0 < n" using next_buffer_Some [OF c] by simp
  qed (use True next_buffer_Some [OF c] free in simp_all)
qed

lemma raw_add_ok:
  assumes ok: "raw_logger_ok n l" and found: "finds_buffer n l"
  shows "raw_logger_ok n (raw_addEvent n e l)"
    and "rb_file (raw_addEvent n e l) @ raw_pending (raw_addEvent n e l) = rb_file l @ raw_pending l @ [e]"
  by (rule raw_add_cases [OF ok found, of e];
      use ok in \<open>auto simp: raw_logger_ok_def raw_held_def nth_list_update raw_pending_def nth_update_elsewhere
        split: raw_flush_pc.splits\<close>)+

lemma raw_step_ok:
  assumes ok: "raw_logger_ok n l" and run: "raw_log_step n a l = Some l'" and smooth: "smooth n [a] l"
  shows "raw_logger_ok n l' \<and> rb_file l' @ raw_pending l' = rb_file l @ raw_pending l @ raw_added [a]"
proof (cases a)
  case (R_add e)
  with raw_add_ok [OF ok, of e] run smooth show ?thesis by auto
next
  case R_pop
  with ok run show ?thesis
    by (auto simp: raw_logger_ok_def raw_held_def raw_pending_def split: raw_flush_pc.splits list.splits)
next
  case R_write
  with ok run show ?thesis
    by (auto simp: raw_logger_ok_def raw_held_def raw_pending_def split: raw_flush_pc.splits)
next
  case R_clear
  with ok run show ?thesis
    by (auto simp: raw_logger_ok_def raw_held_def raw_pending_def nth_update_elsewhere nth_list_update
        split: raw_flush_pc.splits)
next
  case R_shutdown
  with ok run show ?thesis
    by (auto simp: raw_logger_ok_def raw_held_def raw_pending_def split: raw_flush_pc.splits)
next
  case R_finish
  with ok run show ?thesis
    by (auto simp: raw_logger_ok_def raw_held_def raw_pending_def split: if_splits)
qed (use smooth in simp)

lemma raw_added_Cons: "raw_added (a # as) = raw_added [a] @ raw_added as"
  by (cases a) auto

lemma raw_run_order:
  "raw_log_run n as l = Some l' \<Longrightarrow> smooth n as l \<Longrightarrow> raw_logger_ok n l \<Longrightarrow>
     raw_logger_ok n l' \<and> rb_file l' @ raw_pending l' = rb_file l @ raw_pending l @ raw_added as"
proof (induction as arbitrary: l)
  case (Cons a as)
  then obtain m where m: "raw_log_step n a l = Some m" "raw_log_run n as m = Some l'"
    by (auto split: option.splits)
  with Cons.prems(2) have "smooth n [a] l" "smooth n as m" by auto
  with raw_step_ok [OF Cons.prems(3) m(1)] Cons.IH [OF m(2)] show ?case
    by (simp add: raw_added_Cons [of a as])
qed simp

lemma new_raw_logger_ok: "0 < n \<Longrightarrow> raw_logger_ok n new_raw_logger"
  by (auto simp: raw_logger_ok_def new_raw_logger_def raw_held_def less_Suc_eq numeral_eq_Suc)

lemma new_raw_logger_empty: "rb_file new_raw_logger = []" "raw_pending new_raw_logger = []"
  by (simp_all add: new_raw_logger_def raw_pending_def)

lemma flush_queue_file:
  "distinct bs \<Longrightarrow> rb_file (flush_queue bs l) = rb_file l @ concat (map ((!) (rb_buffers l)) bs)"
  by (induction bs l rule: flush_queue.induct) (simp_all add: nth_update_elsewhere)

lemma close_logger_file:
  assumes "raw_logger_ok n l" and "rb_flusher l = Rf_done"
  shows "rb_file (close_logger l) = rb_file l @ raw_pending l"
  using assms
  by (auto simp: close_logger_def Let_def flush_queue_file raw_logger_ok_def raw_pending_def)

lemma raw_file_complete:
  assumes n: "0 < n" and run: "raw_log_run n as new_raw_logger = Some l" and smooth: "smooth n as new_raw_logger"
  shows "rb_file l @ raw_pending l = raw_added as"
    and "rb_flusher l = Rf_done \<Longrightarrow> rb_file (close_logger l) = raw_added as"
  using raw_run_order [OF run smooth new_raw_logger_ok [OF n]] close_logger_file [of n l]
  by (simp_all add: new_raw_logger_empty)

subsection \<open>A timeout can lose events\<close>

text \<open>After a timeout a buffer is written although it is not full, so the thread that adds events can
  come back to it before it is cleared.\<close>

lemma add_many:
  "length (rb_buffers l ! rb_current l) + k < n \<Longrightarrow> rb_current l < length (rb_buffers l) \<Longrightarrow>
   raw_log_run n (replicate k (R_add e) @ as) l =
     raw_log_run n as (l\<lparr>rb_buffers := (rb_buffers l)[rb_current l := rb_buffers l ! rb_current l @ replicate k e]\<rparr>)"
proof (induction k arbitrary: l)
  case (Suc k)
  then show ?case
    by (simp add: raw_addEvent_def Let_def)
qed simp

definition losing_run :: "nat \<Rightarrow> 'e \<Rightarrow> 'e \<Rightarrow> 'e raw_action list" where
  "losing_run n e lost = [R_add e, R_timeout, R_pop, R_write] @ replicate n (R_add e) @
     [R_add lost, R_clear, R_pop, R_write, R_clear, R_shutdown, R_finish]"

lemma losing_run_result:
  assumes "2 \<le> n"
  shows "\<exists>l. raw_log_run n (losing_run n e lost) new_raw_logger = Some l \<and> rb_flusher l = Rf_done \<and>
    rb_file (close_logger l) = replicate (Suc n) e"
proof -
  obtain k where k: "n = Suc k" "0 < k" using assms by (cases n) auto
  let ?l = "\<lparr>rb_buffers = [[e], [], [], []], rb_current = 1, rb_queue = [], rb_flusher = Rf_written 0,
     rb_file = [e], rb_shutdown = False\<rparr>"
  have "raw_log_run n (losing_run n e lost) new_raw_logger =
    raw_log_run n (replicate k (R_add e) @ R_add e # [R_add lost, R_clear, R_pop, R_write, R_clear, R_shutdown, R_finish]) ?l"
    using k by (simp add: losing_run_def new_raw_logger_def raw_addEvent_def Let_def next_buffer_def
        replicate_append_same [symmetric] del: replicate_Suc) (simp flip: replicate_append_same)
  also have "\<dots> = raw_log_run n (R_add e # [R_add lost, R_clear, R_pop, R_write, R_clear, R_shutdown, R_finish])
     (?l\<lparr>rb_buffers := [[e], replicate k e, [], []]\<rparr>)"
    using k by (subst add_many) simp_all
  finally show ?thesis
    using k by (simp add: raw_addEvent_def Let_def next_buffer_def close_logger_def replicate_append_same)
qed

lemma raw_added_append: "raw_added (as @ bs) = raw_added as @ raw_added bs"
  by (induction as rule: raw_added.induct) auto

lemma losing_run_loses:
  assumes "2 \<le> n" and "e \<noteq> lost"
  shows "\<exists>as l. raw_log_run n as new_raw_logger = Some l \<and> rb_flusher l = Rf_done \<and>
    lost \<in> set (raw_added as) \<and> lost \<notin> set (rb_file (close_logger l))"
proof -
  have "lost \<in> set (raw_added (losing_run n e lost))"
    by (simp add: losing_run_def raw_added_append)
  then show ?thesis
    using losing_run_result [OF assms(1), of e lost] assms(2)
    by (intro exI [of _ "losing_run n e lost"]) auto
qed

subsection \<open>From the system call to the line\<close>

lemma syscall_list_chars: "list_all (\<lambda>name. CHR 0x00 \<notin> set name) syscall_list"
  by code_simp

lemma c_string_table_name:
  assumes "name \<in> set syscall_list"
  shows "c_string (table_name name) = take 15 name"
proof -
  have "CHR 0x00 \<notin> set (take 15 name)"
    using assms syscall_list_chars by (auto simp: list_all_iff dest: in_set_takeD)
  from c_string_padded [OF this] show ?thesis by (simp add: table_name_def Let_def)
qed

text \<open>What the header shows of an activation.\<close>

lemma activation_line:
  assumes inj: "inj_on nr (set syscall_list)" and table: "syscall_map_1 s = init_syscall_map nr []"
    and name: "name \<in> set syscall_list" "ucast (raw_id ctx) = nr name"
    and watched: "raw_should_monitor s (rk_ppid K) (rk_cgroup K)" and room: "rk_reserve K \<noteq> None"
  shows "\<exists>e rest. events_1 (snd (raw_sys_enter nr K ctx s)) = events_1 s @ [e] \<and>
    raw_line nr stamp e =
      ''['' @ setw 13 (number (cnt s + 1)) @ ''] '' @ stamp (rk_time K) @ '' Process syscall: '' @
      take 15 name @ '' (nr='' @ number (nr name) @
      '', pid='' @ number (ucast (drop_bit 32 (rk_pid_tgid K)) :: u32) @
      '', tid='' @ number (ucast (rk_pid_tgid K) :: u32) @ '', ppid='' @ number (rk_ppid K) @
      '', uid='' @ number (ucast (rk_uid_gid K) :: u32) @ '', comm='' @ c_string (rk_comm K) @
      '', cgroup_id='' @ number (rk_cgroup K) @ rest"
proof -
  have "find (\<lambda>m. nr m = ucast (raw_id ctx)) syscall_list = Some name"
  proof (cases "find (\<lambda>m. nr m = ucast (raw_id ctx)) syscall_list")
    case None
    with name show ?thesis by (auto simp: find_None_iff)
  next
    case (Some m)
    then have "m \<in> set syscall_list" "nr m = ucast (raw_id ctx)" by (auto simp: find_Some_iff)
    with inj name Some show ?thesis by (auto simp: inj_on_def)
  qed
  then have entry: "bpf_map_lookup_elem (syscall_map_1 s) (ucast (raw_id ctx)) = Some (table_name name)"
    by (simp add: table init_syscall_map_lookup [OF inj])
  obtain r s' where run: "raw_sys_enter nr K ctx s = (r, s')" by (cases "raw_sys_enter nr K ctx s")
  from run show ?thesis
  proof (cases rule: raw_sys_enter_cases)
    case (logged e)
    with entry name(2) have "re_syscall e = table_name name" "re_syscall_nr e = nr name"
      by (auto simp: raw_describes_def)
    with logged run name show ?thesis
      by (intro exI [of _ e]) (auto simp: raw_line_def raw_header_def raw_describes_def c_string_table_name)
  qed (use watched entry room in \<open>auto simp: listed_def\<close>)
qed

end
