(* ===== verification/Raw_Files.thy ===== *)
theory Raw_Files
  imports Raw_Logger
begin

section \<open>raw_tracepoint: the files of the event logger\<close>

text \<open>
  \<open>checkAndRotateLogFile\<close> and \<open>getCurrentLogPath\<close> of \<open>raw_tracepoint/EventLogger.cpp\<close>, and the rounds
  of the flush thread as they reach the disk: one compressed file per day.  The local date (two
  readings of the clock) and whether \<open>gzopen\<close> succeeds are arguments; as documented, \<open>gzopen\<close> with a
  mode that starts with \<open>w\<close> empties the file.  The content of a file is its text before compression.
\<close>

subsection \<open>Rotation\<close>

record raw_files =
  rf_open :: "string option"
  rf_date :: string
  rf_disk :: "string \<Rightarrow> string"

definition getCurrentLogPath :: "string \<Rightarrow> string \<Rightarrow> string" where
  "getCurrentLogPath base date = base @ ''/'' @ date @ ''_raw.log.gz''"

text \<open>\<open>now\<close> is the date that is compared, \<open>later\<close> the one that names the file.  \<open>Inl\<close> is an exception.\<close>

definition checkAndRotateLogFile ::
  "(string \<Rightarrow> bool) \<Rightarrow> string \<Rightarrow> string \<Rightarrow> string \<Rightarrow> raw_files \<Rightarrow> raw_files + raw_files" where
  "checkAndRotateLogFile gzopen_ok base now later f =
     (if rf_date f \<noteq> now then
        let f = f\<lparr>rf_open := None\<rparr>;
            path = getCurrentLogPath base later
        in if gzopen_ok path
           then Inr (f\<lparr>rf_open := Some path, rf_disk := (rf_disk f)(path := []), rf_date := now\<rparr>)
           else Inl f
      else Inr f)"

text \<open>A buffer that is flushed while no file is open is lost.\<close>

definition write_buffer :: "(string \<Rightarrow> u32) \<Rightarrow> (u64 \<Rightarrow> string) \<Rightarrow> raw_event list \<Rightarrow> raw_files \<Rightarrow> raw_files" where
  "write_buffer nr stamp buffer f =
     (case rf_open f of
        None \<Rightarrow> f
      | Some path \<Rightarrow>
          f\<lparr>rf_disk := (rf_disk f)(path := rf_disk f path @ flushToFile nr stamp buffer)\<rparr>)"

record flush_round =
  fr_now :: string
  fr_later :: string
  fr_buffers :: "raw_event list list"

text \<open>The rounds of the flush thread, which an exception ends for good.  The constructor's own
  rotation is a round without buffers.\<close>

fun flush_rounds ::
  "(string \<Rightarrow> bool) \<Rightarrow> string \<Rightarrow> (string \<Rightarrow> u32) \<Rightarrow> (u64 \<Rightarrow> string) \<Rightarrow> flush_round list \<Rightarrow> raw_files \<Rightarrow>
   raw_files + raw_files" where
  "flush_rounds gzopen_ok base nr stamp [] f = Inr f"
| "flush_rounds gzopen_ok base nr stamp (r # rs) f =
     (case checkAndRotateLogFile gzopen_ok base (fr_now r) (fr_later r) f of
        Inl f \<Rightarrow> Inl f
      | Inr f \<Rightarrow> flush_rounds gzopen_ok base nr stamp rs (fold (write_buffer nr stamp) (fr_buffers r) f))"

definition start_files :: "(string \<Rightarrow> string) \<Rightarrow> raw_files" where
  "start_files disk = \<lparr>rf_open = None, rf_date = [], rf_disk = disk\<rparr>"

subsection \<open>What the files hold\<close>

definition text_of :: "(string \<Rightarrow> u32) \<Rightarrow> (u64 \<Rightarrow> string) \<Rightarrow> flush_round list \<Rightarrow> string" where
  "text_of nr stamp rs = concat (map (flushToFile nr stamp) (concat (map fr_buffers rs)))"

lemma getCurrentLogPath_inj [simp]: "getCurrentLogPath base d = getCurrentLogPath base d' \<longleftrightarrow> d = d'"
  by (simp add: getCurrentLogPath_def)

lemma write_buffers:
  "rf_open f = Some path \<Longrightarrow>
   fold (write_buffer nr stamp) bs f =
     f\<lparr>rf_disk := (rf_disk f)(path := rf_disk f path @ concat (map (flushToFile nr stamp) bs))\<rparr>"
  by (induction bs arbitrary: f) (simp_all add: write_buffer_def)

lemma flush_rounds_append:
  "flush_rounds gzopen_ok base nr stamp (rs @ rs') f =
     (case flush_rounds gzopen_ok base nr stamp rs f of
        Inl f \<Rightarrow> Inl f | Inr f \<Rightarrow> flush_rounds gzopen_ok base nr stamp rs' f)"
  by (induction rs arbitrary: f) (simp_all split: sum.split)

text \<open>A round that opens a file, and one that goes on with the open one.\<close>

lemma round_opens:
  assumes "rf_date f \<noteq> fr_now r" and "gzopen_ok (getCurrentLogPath base (fr_later r))"
  shows "flush_rounds gzopen_ok base nr stamp (r # rs) f = flush_rounds gzopen_ok base nr stamp rs
    (f\<lparr>rf_open := Some (getCurrentLogPath base (fr_later r)), rf_date := fr_now r,
       rf_disk := (rf_disk f)(getCurrentLogPath base (fr_later r) := text_of nr stamp [r])\<rparr>)"
  using assms by (simp add: checkAndRotateLogFile_def Let_def write_buffers text_of_def)

lemma round_continues:
  assumes "rf_date f = fr_now r" and "rf_open f = Some path"
  shows "flush_rounds gzopen_ok base nr stamp (r # rs) f = flush_rounds gzopen_ok base nr stamp rs
    (f\<lparr>rf_disk := (rf_disk f)(path := rf_disk f path @ text_of nr stamp [r])\<rparr>)"
  using assms by (simp add: checkAndRotateLogFile_def write_buffers text_of_def)

text \<open>A round with the days of the two readings of the clock.  The second one is made only by a round that
  opens a file, which is the first round of its day.\<close>

record clocked_round =
  checked_day :: nat
  named_day :: nat
  round_buffers :: "raw_event list list"

definition dated_round :: "(nat \<Rightarrow> string) \<Rightarrow> clocked_round \<Rightarrow> flush_round" where
  "dated_round date r = \<lparr>fr_now = date (checked_day r), fr_later = date (named_day r), fr_buffers = round_buffers r\<rparr>"

definition forward :: "clocked_round list \<Rightarrow> bool" where
  "forward rs \<longleftrightarrow> sorted (concat (map (\<lambda>r. [checked_day r, named_day r]) rs))"

definition opener :: "clocked_round list \<Rightarrow> nat \<Rightarrow> clocked_round option" where
  "opener rs d = find (\<lambda>r. checked_day r = d) rs"

text \<open>The rounds that write to the file of day \<open>e\<close>, and what the file holds: the text of the last day
  among them.\<close>

definition writers :: "clocked_round list \<Rightarrow> nat \<Rightarrow> clocked_round list" where
  "writers rs e = filter (\<lambda>r. map_option named_day (opener rs (checked_day r)) = Some e) rs"

definition lines_of :: "(string \<Rightarrow> u32) \<Rightarrow> (u64 \<Rightarrow> string) \<Rightarrow> clocked_round list \<Rightarrow> string" where
  "lines_of nr stamp rs = concat (map (flushToFile nr stamp) (concat (map round_buffers rs)))"

definition held :: "(string \<Rightarrow> u32) \<Rightarrow> (u64 \<Rightarrow> string) \<Rightarrow> clocked_round list \<Rightarrow> string \<Rightarrow> nat \<Rightarrow> string" where
  "held nr stamp rs old e =
     (if writers rs e = [] then old
      else lines_of nr stamp (filter (\<lambda>r. checked_day r = checked_day (last (writers rs e))) (writers rs e)))"

lemma lines_of_append [simp]: "lines_of nr stamp (rs @ rs') = lines_of nr stamp rs @ lines_of nr stamp rs'"
  by (simp add: lines_of_def)

lemma lines_of_Nil [simp]: "lines_of nr stamp [] = []"
  by (simp add: lines_of_def)

lemma opener_snoc: "opener (rs @ [r]) d = (case opener rs d of Some x \<Rightarrow> Some x | None \<Rightarrow> if checked_day r = d then Some r else None)"
  by (induction rs) (auto simp: opener_def)

lemma opener_None: "opener rs d = None \<longleftrightarrow> d \<notin> checked_day ` set rs"
  by (auto simp: opener_def find_None_iff)

lemma opener_Some: "opener rs d = Some r \<Longrightarrow> r \<in> set rs \<and> checked_day r = d"
  by (auto simp: opener_def find_Some_iff)

lemma writers_opened:
  assumes "opener rs (checked_day r) = Some x"
  shows "writers (rs @ [r]) e = writers rs e @ (if named_day x = e then [r] else [])"
proof -
  have "opener (rs @ [r]) (checked_day y) = opener rs (checked_day y)" if "y \<in> set rs \<or> y = r" for y
    using that assms opener_None [of rs "checked_day y"] by (auto simp: opener_snoc split: option.split)
  then show ?thesis using assms by (auto simp: writers_def cong: filter_cong)
qed

lemma writers_opening:
  assumes "opener rs (checked_day r) = None"
  shows "writers (rs @ [r]) e = writers rs e @ (if named_day r = e then [r] else [])"
proof -
  have "opener (rs @ [r]) (checked_day y) = opener rs (checked_day y)" if "y \<in> set rs" for y
    using that opener_None [of rs "checked_day y"] by (auto simp: opener_snoc split: option.split)
  then show ?thesis using assms by (auto simp: writers_def opener_snoc cong: filter_cong)
qed

text \<open>Rounds in the order of the days: every file is as \<open>held\<close> says; the file that is open is the one
  that the first round of the day opened.\<close>

lemma clocked_files:
  assumes date: "inj date" "\<forall>d. date d \<noteq> []" and opens: "\<forall>p. gzopen_ok p" and "sorted (map checked_day rs)"
  shows "\<exists>f. flush_rounds gzopen_ok base nr stamp (map (dated_round date) rs) (start_files disk) = Inr f \<and>
    (rs = [] \<longrightarrow> rf_date f = []) \<and>
    (rs \<noteq> [] \<longrightarrow> rf_date f = date (checked_day (last rs)) \<and> (\<exists>x. opener rs (checked_day (last rs)) = Some x \<and>
       rf_open f = Some (getCurrentLogPath base (date (named_day x))))) \<and>
    (\<forall>e. rf_disk f (getCurrentLogPath base (date e)) = held nr stamp rs (disk (getCurrentLogPath base (date e))) e) \<and>
    (\<forall>p. p \<notin> range (\<lambda>e. getCurrentLogPath base (date e)) \<longrightarrow> rf_disk f p = disk p)"
  using assms(4)
proof (induction rs rule: rev_induct)
  case Nil
  then show ?case by (simp add: start_files_def held_def writers_def)
next
  case (snoc r rs)
  let ?path = "\<lambda>d. getCurrentLogPath base (date d)"
  obtain d l where r: "checked_day r = d" "named_day r = l" by simp
  from snoc obtain f where f:
    "flush_rounds gzopen_ok base nr stamp (map (dated_round date) rs) (start_files disk) = Inr f"
    "rs = [] \<longrightarrow> rf_date f = []"
    "rs \<noteq> [] \<longrightarrow> rf_date f = date (checked_day (last rs)) \<and>
       (\<exists>x. opener rs (checked_day (last rs)) = Some x \<and> rf_open f = Some (?path (named_day x)))"
    "\<forall>e. rf_disk f (?path e) = held nr stamp rs (disk (?path e)) e"
    "\<forall>p. p \<notin> range ?path \<longrightarrow> rf_disk f p = disk p"
    by (auto simp: sorted_append)
  have path_eq [simp]: "date e = date e' \<longleftrightarrow> e = e'" for e e' using date(1) by (simp add: inj_eq)
  have run: "flush_rounds gzopen_ok base nr stamp (map (dated_round date) (rs @ [r])) (start_files disk) =
      flush_rounds gzopen_ok base nr stamp [dated_round date r] f"
    by (simp only: map_append list.map flush_rounds_append f(1) sum.case)
  have round_text: "text_of nr stamp [dated_round date r] = lines_of nr stamp [r]"
    by (simp add: text_of_def lines_of_def dated_round_def)
  show ?case
  proof (cases "opener rs d")
    case (Some x)
    then have "d \<in> checked_day ` set rs" using opener_None [of rs d] by auto
    then have "rs \<noteq> []" "checked_day (last rs) = d"
      using snoc.prems by (cases rs rule: rev_cases; force simp: r sorted_append)+
    with f(3) Some have open_f: "rf_date f = date d" "rf_open f = Some (?path (named_day x))" by auto
    let ?g = "f\<lparr>rf_disk := (rf_disk f)(?path (named_day x) := rf_disk f (?path (named_day x)) @ lines_of nr stamp [r])\<rparr>"
    have step: "flush_rounds gzopen_ok base nr stamp [dated_round date r] f = Inr ?g"
      using round_continues [of f "dated_round date r" "?path (named_day x)" gzopen_ok base nr stamp "[]"] open_f
      by (simp add: round_text) (simp add: dated_round_def r)
    have last: "writers rs (named_day x) \<noteq> []" "checked_day (last (writers rs (named_day x))) = d"
      using \<open>rs \<noteq> []\<close> \<open>checked_day (last rs) = d\<close> Some
      by (cases rs rule: rev_cases; simp add: writers_def)+
    have held: "held nr stamp (rs @ [r]) old e =
        held nr stamp rs old e @ (if named_day x = e then lines_of nr stamp [r] else [])" for old e
    proof (cases "named_day x = e")
      case True
      have "writers (rs @ [r]) e = writers rs e @ [r]" using writers_opened [of rs r x e] Some True by (simp add: r)
      with last True show ?thesis by (simp add: held_def) (simp add: r)
    next
      case False
      have "writers (rs @ [r]) e = writers rs e" using writers_opened [of rs r x e] Some False by (simp add: r)
      with False show ?thesis by (simp add: held_def)
    qed
    have "opener (rs @ [r]) d = Some x" using Some by (simp add: opener_snoc)
    with run [unfolded step] f(4,5) open_f held show ?thesis
      by (intro exI [of _ ?g]) (auto simp: r simp del: map_append)
  next
    case None
    have "rf_date f \<noteq> date d"
    proof (cases "rs = []")
      case False
      with None have "checked_day (last rs) \<noteq> d" using opener_None [of rs d] by auto
      with False f(3) show ?thesis by simp
    qed (use f(2) date(2) in metis)
    let ?g = "f\<lparr>rf_open := Some (?path l), rf_date := date d, rf_disk := (rf_disk f)(?path l := lines_of nr stamp [r])\<rparr>"
    have step: "flush_rounds gzopen_ok base nr stamp [dated_round date r] f = Inr ?g"
      using round_opens [of f "dated_round date r" gzopen_ok base nr stamp "[]"] opens \<open>rf_date f \<noteq> date d\<close>
      by (simp add: round_text) (simp add: dated_round_def r)
    have "checked_day y \<noteq> d" if "y \<in> set rs" for y using None opener_None [of rs d] that by auto
    then have "filter (\<lambda>y. checked_day y = d) (writers rs l) = []"
      by (auto simp: filter_empty_conv writers_def)
    then have held: "held nr stamp (rs @ [r]) old e =
        (if l = e then lines_of nr stamp [r] else held nr stamp rs old e)" for old e
      using writers_opening [of rs r e] None by (auto simp: held_def r)
    have "opener (rs @ [r]) d = Some r" using None by (simp add: opener_snoc r)
    with run [unfolded step] f(4,5) held show ?thesis
      by (intro exI [of _ ?g]) (auto simp: r simp del: map_append)
  qed
qed

text \<open>What \<open>held\<close> comes to when the clock goes forward.\<close>

lemma forward_Cons: "forward (r # rs) \<longleftrightarrow> checked_day r \<le> named_day r \<and>
    (\<forall>x \<in> set rs. named_day r \<le> checked_day x) \<and> forward rs"
  by (cases rs) (auto simp: forward_def)

lemma forward_days: "forward rs \<Longrightarrow> r \<in> set rs \<Longrightarrow> checked_day r \<le> named_day r"
  by (induction rs) (auto simp: forward_Cons)

lemma forward_sorted: "forward rs \<Longrightarrow> sorted (map checked_day rs)"
  by (induction rs) (force simp: forward_Cons dest: forward_days)+

text \<open>A round whose file is named after a later day is the only one of its day, and no other round has a
  day between the two.\<close>

lemma straddling_round:
  assumes "forward rs" and "opener rs d = Some r" and "named_day r \<noteq> d"
  shows "filter (\<lambda>x. checked_day x = d) rs = [r] \<and> (\<forall>x \<in> set rs. d < checked_day x \<longrightarrow> named_day r \<le> checked_day x)"
  using assms
proof (induction rs)
  case (Cons x rs)
  show ?case
  proof (cases "checked_day x = d")
    case True
    with Cons.prems have x: "x = r" by (simp add: opener_def)
    with Cons.prems True have "d < named_day r" "\<forall>y \<in> set rs. named_day r \<le> checked_day y"
      by (auto simp: forward_Cons)
    with True x show ?thesis by (force simp: filter_empty_conv)
  next
    case False
    with Cons.prems have r: "opener rs d = Some r" "forward rs" by (auto simp: opener_def forward_Cons)
    from opener_Some [OF r(1)] Cons.prems(1) False have "checked_day x < d"
      by (force simp: forward_Cons)
    with Cons.IH [OF r(2,1) Cons.prems(3)] False show ?thesis by simp
  qed
qed (simp add: opener_def)

lemma held_own_day:
  assumes "forward rs" and "opener rs d = Some r" and "named_day r = d"
  shows "held nr stamp rs old d = lines_of nr stamp (filter (\<lambda>x. checked_day x = d) rs)"
proof -
  have le: "checked_day x \<le> d" if "x \<in> set (writers rs d)" for x
  proof -
    obtain y where "opener rs (checked_day x) = Some y" "named_day y = d"
      using \<open>x \<in> set (writers rs d)\<close> by (auto simp: writers_def)
    with opener_Some [of rs "checked_day x" y] forward_days [OF assms(1), of y] show ?thesis by simp
  qed
  have r: "r \<in> set rs" "checked_day r = d" using opener_Some [OF assms(2)] by simp_all
  then have mem: "r \<in> set (writers rs d)" using assms(2,3) by (simp add: writers_def)
  have "sorted (map checked_day (writers rs d))"
    using forward_sorted [OF assms(1)] by (simp add: writers_def sorted_filter)
  with mem r have "d \<le> checked_day (last (writers rs d))"
    by (cases "writers rs d" rule: rev_cases) (auto simp: sorted_append)
  with le [of "last (writers rs d)"] mem have "checked_day (last (writers rs d)) = d"
    by (metis last_in_set empty_iff empty_set le_antisym)
  moreover have "filter (\<lambda>x. checked_day x = d) (writers rs d) = filter (\<lambda>x. checked_day x = d) rs"
    using assms(2,3) by (auto simp: writers_def intro: filter_cong)
  ultimately show ?thesis using mem by (auto simp: held_def)
qed

lemma held_next_day:
  assumes "forward rs" and "opener rs d = Some r" and "named_day r \<noteq> d"
    and "\<forall>x. opener rs (named_day r) = Some x \<longrightarrow> named_day x \<noteq> named_day r"
  shows "held nr stamp rs old (named_day r) = lines_of nr stamp [r]"
proof -
  have r: "r \<in> set rs" "checked_day r = d" using opener_Some [OF assms(2)] by simp_all
  with forward_days [OF assms(1)] assms(3) have "d < named_day r" by force
  note only = straddling_round [OF assms(1-3)]
  have "map_option named_day (opener rs (checked_day x)) = Some (named_day r) \<longleftrightarrow> checked_day x = d"
    if "x \<in> set rs" for x
  proof
    assume "map_option named_day (opener rs (checked_day x)) = Some (named_day r)"
    then obtain y where y: "opener rs (checked_day x) = Some y" "named_day y = named_day r" by auto
    then have day: "checked_day x \<noteq> named_day r" using assms(4) by auto
    have "checked_day x \<le> named_day r" using opener_Some [OF y(1)] forward_days [OF assms(1)] y(2) by force
    with day have less: "checked_day x < named_day r" by simp
    with only \<open>x \<in> set rs\<close> have "checked_day x \<le> d" by force
    moreover have "named_day r \<le> d" if "checked_day x < d"
      using straddling_round [OF assms(1) y(1)] y(2) day r that by auto
    ultimately show "checked_day x = d" using \<open>d < named_day r\<close> by force
  qed (simp add: assms(2))
  then have "writers rs (named_day r) = filter (\<lambda>x. checked_day x = d) rs"
    unfolding writers_def by (rule filter_cong [OF refl])
  with only r show ?thesis by (simp add: held_def)
qed

lemma held_no_writer: "(\<forall>d r. opener rs d = Some r \<longrightarrow> named_day r \<noteq> e) \<Longrightarrow> held nr stamp rs old e = old"
  by (auto simp: held_def writers_def filter_empty_conv)

text \<open>The files of a session.\<close>

lemma session_files:
  assumes date: "inj date" "\<forall>d. date d \<noteq> []" and opens: "\<forall>p. gzopen_ok p" and "forward rs"
  shows "\<exists>f. flush_rounds gzopen_ok base nr stamp (map (dated_round date) rs) (start_files disk) = Inr f \<and>
    (\<forall>d r. opener rs d = Some r \<longrightarrow>
      (if named_day r = d then rf_disk f (getCurrentLogPath base (date d)) =
          lines_of nr stamp (filter (\<lambda>x. checked_day x = d) rs)
       else filter (\<lambda>x. checked_day x = d) rs = [r] \<and>
         ((\<forall>x. opener rs (named_day r) = Some x \<longrightarrow> named_day x \<noteq> named_day r) \<longrightarrow>
          rf_disk f (getCurrentLogPath base (date (named_day r))) = lines_of nr stamp [r]))) \<and>
    (\<forall>p. (\<forall>d r. opener rs d = Some r \<longrightarrow> p \<noteq> getCurrentLogPath base (date (named_day r))) \<longrightarrow> rf_disk f p = disk p)"
proof -
  let ?path = "\<lambda>d. getCurrentLogPath base (date d)"
  from clocked_files [OF date opens forward_sorted [OF assms(4)], of base nr stamp disk] obtain f where f:
    "flush_rounds gzopen_ok base nr stamp (map (dated_round date) rs) (start_files disk) = Inr f"
    "\<forall>e. rf_disk f (?path e) = held nr stamp rs (disk (?path e)) e"
    "\<forall>p. p \<notin> range ?path \<longrightarrow> rf_disk f p = disk p"
    by auto
  have "rf_disk f p = disk p" if "\<forall>d r. opener rs d = Some r \<longrightarrow> p \<noteq> ?path (named_day r)" for p
  proof (cases "p \<in> range ?path")
    case True
    then obtain e where "p = ?path e" by auto
    with that have "\<forall>d r. opener rs d = Some r \<longrightarrow> named_day r \<noteq> e" by auto
    with f(2) held_no_writer [of rs e] show ?thesis by (simp add: \<open>p = ?path e\<close>)
  qed (use f(3) in simp)
  moreover have "filter (\<lambda>x. checked_day x = d) rs = [r]" if "opener rs d = Some r" "named_day r \<noteq> d" for d r
    using straddling_round [OF assms(4) that] by simp
  ultimately show ?thesis
    using f(1,2) held_own_day [OF assms(4)] held_next_day [OF assms(4)] by (intro exI [of _ f]) simp
qed

subsection \<open>Files that lose text\<close>

lemma rounds_of_a_day:
  "rf_open f = Some path \<Longrightarrow> list_all (\<lambda>r. fr_now r = rf_date f) rs \<Longrightarrow>
   \<exists>f'. flush_rounds gzopen_ok base nr stamp rs f = Inr f' \<and> rf_disk f' path = rf_disk f path @ text_of nr stamp rs"
proof (induction rs arbitrary: f)
  case (Cons r rs)
  let ?f = "f\<lparr>rf_disk := (rf_disk f)(path := rf_disk f path @ text_of nr stamp [r])\<rparr>"
  have "\<exists>f'. flush_rounds gzopen_ok base nr stamp rs ?f = Inr f' \<and>
      rf_disk f' path = rf_disk ?f path @ text_of nr stamp rs"
    using Cons.prems by (intro Cons.IH) auto
  moreover have "flush_rounds gzopen_ok base nr stamp (r # rs) f = flush_rounds gzopen_ok base nr stamp rs ?f"
    using Cons.prems by (intro round_continues) auto
  ultimately show ?case by (auto simp: text_of_def)
qed (simp add: text_of_def)

text \<open>A restart on the same day empties the file of the day.\<close>

lemma restart_empties:
  assumes "gzopen_ok (getCurrentLogPath base day)" and "day \<noteq> []" and "fr_now r = day" and "fr_later r = day"
    and "list_all (\<lambda>r. fr_now r = day) rs"
  shows "\<exists>f. flush_rounds gzopen_ok base nr stamp (r # rs) (start_files disk) = Inr f \<and>
    rf_disk f (getCurrentLogPath base day) = text_of nr stamp (r # rs)"
proof -
  let ?path = "getCurrentLogPath base day"
  let ?f = "\<lparr>rf_open = Some ?path, rf_date = day, rf_disk = disk(?path := text_of nr stamp [r])\<rparr>"
  have "flush_rounds gzopen_ok base nr stamp (r # rs) (start_files disk) =
      flush_rounds gzopen_ok base nr stamp rs ?f"
    using round_opens [of "start_files disk" r gzopen_ok base nr stamp rs] assms(1-4)
    by (simp add: start_files_def)
  moreover have "\<exists>f. flush_rounds gzopen_ok base nr stamp rs ?f = Inr f \<and>
      rf_disk f ?path = rf_disk ?f ?path @ text_of nr stamp rs"
    using assms(5) by (intro rounds_of_a_day) simp_all
  ultimately show ?thesis by (auto simp: text_of_def)
qed

text \<open>When the file cannot be opened, the flush thread ends and no file is open any more.\<close>

lemma failed_rotation:
  assumes "flush_rounds gzopen_ok base nr stamp rs f = Inl f'"
  shows "rf_open f' = None \<and> write_buffer nr stamp buffer f' = f'"
proof -
  have "rf_open f' = None"
    using assms
    by (induction rs arbitrary: f) (auto simp: checkAndRotateLogFile_def Let_def split: sum.splits if_splits)
  then show ?thesis by (simp add: write_buffer_def)
qed

text \<open>The two readings of the clock on both sides of midnight: the new day's file is opened under the
  old date, so that the next round opens it once more and empties it.\<close>

lemma midnight_empties:
  assumes "\<forall>p. gzopen_ok p" and "today \<noteq> []" and "today \<noteq> tomorrow"
    and "fr_now r = today" "fr_later r = tomorrow" "fr_now r' = tomorrow" "fr_later r' = tomorrow"
  shows "\<exists>f. flush_rounds gzopen_ok base nr stamp [r, r'] (start_files disk) = Inr f \<and>
    rf_disk f (getCurrentLogPath base tomorrow) = text_of nr stamp [r']"
proof -
  let ?path = "getCurrentLogPath base tomorrow"
  let ?f = "\<lparr>rf_open = Some ?path, rf_date = today, rf_disk = disk(?path := text_of nr stamp [r])\<rparr>"
  have "flush_rounds gzopen_ok base nr stamp [r, r'] (start_files disk) =
      flush_rounds gzopen_ok base nr stamp [r'] ?f"
    using round_opens [of "start_files disk" r gzopen_ok base nr stamp "[r']"] assms
    by (simp add: start_files_def)
  moreover have "flush_rounds gzopen_ok base nr stamp [r'] ?f = Inr (?f\<lparr>rf_date := tomorrow,
      rf_disk := disk(?path := text_of nr stamp [r'])\<rparr>)"
    using round_opens [of ?f r' gzopen_ok base nr stamp "[]"] assms by simp
  ultimately show ?thesis by simp
qed

end
