(* ===== verification/Program_Start.thy ===== *)
theory Program_Start
  imports Program_Run Environment Trace_Json Raw_Files
begin

section \<open>Starting the three programs\<close>

text \<open>
  The first half of the three \<open>main\<close> functions, up to the start of the threads, with what is released
  when a step fails.  The outcomes of libbpf, of the kernel and of librdkafka are arguments; the steps
  that the program's own code decides (the environment, the constructors of the loggers, the producer)
  are the definitions of the other theories.  A result also says what had been made.
\<close>

datatype resource = Event_logger | Skeleton | Ring_buffer | Producer

text \<open>\<open>Ended status released\<close>: the process has returned this status and released these, in this order;
  \<open>Aborted\<close>: an exception that nothing catches; \<open>Running err\<close>: the threads are started, \<open>err\<close> is the
  local variable.\<close>

datatype start = Running int | Ended int "resource list" | Aborted

definition release :: "resource list \<Rightarrow> resource list \<Rightarrow> resource list" where
  "release order made = filter (\<lambda>r. r \<in> set made) order"

text \<open>\<open>sysinfo\<close> gives the uptime or fails; the result is then -1 (0 in raw_tracepoint).\<close>

definition get_boot_time :: "int \<Rightarrow> int option \<Rightarrow> int \<Rightarrow> int" where
  "get_boot_time failed uptime now = (case uptime of None \<Rightarrow> failed | Some u \<Rightarrow> now - u)"

record boot =
  bt_uptime :: "int option"
  bt_now :: int
  bt_open :: bool
  bt_load :: int
  bt_attach :: int
  bt_ring :: bool
  bt_policy :: "update_result option"

subsection \<open>tracepoint\<close>

record kafka_outcomes =
  ko_conf_set :: "string \<times> string \<Rightarrow> bool"
  ko_producer :: "nat \<Rightarrow> unit option"
  ko_topic :: "nat \<Rightarrow> unit option"

definition trace_fail :: "resource list \<Rightarrow> resource list \<times> start" where
  "trace_fail made = (made, Ended 1 (release [Event_logger, Ring_buffer, Skeleton] made))"

text \<open>A negative number of buffers is a huge \<open>size_t\<close>, which \<open>reserve\<close> refuses with an exception.
  \<open>bt_policy\<close> is the result of the first update, \<open>None\<close> without a policy file.\<close>

definition trace_start ::
  "(string \<Rightarrow> string option) \<Rightarrow> (string \<Rightarrow> string option) \<Rightarrow> kafka_outcomes \<Rightarrow> boot \<Rightarrow> resource list \<times> start" where
  "trace_start getenv resolve ko b =
     (case trace_getEnv getenv resolve of
        Inl Env_exit \<Rightarrow> ([], Ended 1 [])
      | Inl Env_throw \<Rightarrow> trace_fail []
      | Inr env \<Rightarrow>
          if te_buffer_cnt env < 0 then trace_fail []
          else (case (new_event_logger (nat (te_buffer_cnt env)) (te_kafka_brokers env) (te_kafka_topic env)
                   (ko_conf_set ko) (ko_producer ko) (\<lambda>_ _. ko_topic ko) :: logger_error + db_event logger \<times> unit \<times> unit) of
              Inl _ \<Rightarrow> trace_fail []
            | Inr _ \<Rightarrow>
                if get_boot_time (- 1) (bt_uptime b) (bt_now b) = - 1 then trace_fail [Event_logger]
                else if \<not> bt_open b then trace_fail [Event_logger]
                else if bt_load b \<noteq> 0 then trace_fail [Event_logger, Skeleton]
                else if bt_attach b \<noteq> 0 then trace_fail [Event_logger, Skeleton]
                else if \<not> bt_ring b then trace_fail [Event_logger, Skeleton]
                else if bt_policy b = Some Thrown then trace_fail [Event_logger, Skeleton, Ring_buffer]
                else ([Event_logger, Skeleton, Ring_buffer], Running 0)))"

subsection \<open>lsm\<close>

record producer_state =
  rk_set :: bool
  rkt_set :: bool

definition new_producer :: producer_state where
  "new_producer = \<lparr>rk_set = False, rkt_set = False\<rparr>"

text \<open>\<open>KafkaProducer::init\<close>: the configuration, the producer, the number of brokers added, the topic.\<close>

definition kafka_init :: "bool \<Rightarrow> bool \<Rightarrow> nat \<Rightarrow> bool \<Rightarrow> producer_state \<Rightarrow> bool \<times> producer_state" where
  "kafka_init conf rk brokers rkt p =
     (if \<not> conf then (False, p)
      else
        let p = p\<lparr>rk_set := rk\<rparr> in
        if \<not> rk_set p then (False, p)
        else if brokers = 0 then (False, p\<lparr>rk_set := False\<rparr>)
        else
          let p = p\<lparr>rkt_set := rkt\<rparr> in
          if \<not> rkt_set p then (False, p\<lparr>rk_set := False\<rparr>)
          else (True, p))"

text \<open>What the destructor releases: the topic first, then the producer, which it flushes.\<close>

datatype producer_part = Part_topic | Part_producer

definition kafka_destroy :: "producer_state \<Rightarrow> producer_part list \<times> producer_state" where
  "kafka_destroy p =
     ((if rkt_set p then [Part_topic] else []) @ (if rk_set p then [Part_producer] else []),
      p\<lparr>rk_set := False, rkt_set := False\<rparr>)"

record lsm_outcomes =
  lo_conf :: bool
  lo_rk :: bool
  lo_brokers :: nat
  lo_rkt :: bool
  lo_memlock :: bool
  lo_signal :: bool

text \<open>\<open>exit\<close> destroys no local variable, so not the producer either.\<close>

definition lsm_fail :: "resource list \<Rightarrow> resource list \<times> start" where
  "lsm_fail made = (made, Ended 0 (release [Ring_buffer, Skeleton, Producer] made))"

definition lsm_start ::
  "(string \<Rightarrow> string option) \<Rightarrow> (string \<Rightarrow> string option) \<Rightarrow> lsm_outcomes \<Rightarrow> boot \<Rightarrow> resource list \<times> start" where
  "lsm_start getenv resolve lo b =
     (case lsm_getEnv getenv resolve of
        Inl _ \<Rightarrow> ([], Aborted)
      | Inr env \<Rightarrow>
          if le_kafka_brokers env = [] \<or> le_kafka_topic env = [] then ([], Ended 1 [])
          else if \<not> fst (kafka_init (lo_conf lo) (lo_rk lo) (lo_brokers lo) (lo_rkt lo) new_producer) then ([], Ended 1 [])
          else if \<not> lo_memlock lo then ([Producer], Ended 1 [])
          else if \<not> bt_open b then lsm_fail [Producer]
          else if bt_load b \<noteq> 0 then lsm_fail [Producer, Skeleton]
          else if bt_attach b \<noteq> 0 then lsm_fail [Producer, Skeleton]
          else if \<not> bt_ring b then lsm_fail [Producer, Skeleton]
          else if \<not> lo_signal lo then lsm_fail [Producer, Skeleton, Ring_buffer]
          else if bt_policy b = Some Thrown then lsm_fail [Producer, Skeleton, Ring_buffer]
          else ([Producer, Skeleton, Ring_buffer], Running 0))"

subsection \<open>raw\_tracepoint\<close>

text \<open>\<open>open_and_load\<close> is one call here.  The result of the first update stays in \<open>err\<close>.\<close>

definition raw_fail :: "resource list \<Rightarrow> resource list \<times> start" where
  "raw_fail made = (made, Ended 1 (release [Skeleton, Event_logger] made))"

definition raw_start ::
  "(string \<Rightarrow> string option) \<Rightarrow> (string \<Rightarrow> bool) \<Rightarrow> string \<Rightarrow> string \<Rightarrow> (string \<Rightarrow> string) \<Rightarrow> boot \<Rightarrow>
   resource list \<times> start" where
  "raw_start getenv gzopen_ok now later disk b =
     (case raw_getEnv getenv of
        Inl _ \<Rightarrow> raw_fail []
      | Inr env \<Rightarrow>
          if get_boot_time 0 (bt_uptime b) (bt_now b) = 0 then raw_fail []
          else (case checkAndRotateLogFile gzopen_ok (re_log_file_path env) now later (start_files disk) of
              Inl _ \<Rightarrow> raw_fail []
            | Inr _ \<Rightarrow>
                if \<not> (bt_open b \<and> bt_load b = 0) then raw_fail [Event_logger]
                else if bt_attach b \<noteq> 0 then raw_fail [Event_logger, Skeleton]
                else if bt_policy b = Some Thrown then raw_fail [Event_logger, Skeleton]
                else if \<not> bt_ring b then raw_fail [Event_logger, Skeleton]
                else ([Event_logger, Skeleton, Ring_buffer], Running (if bt_policy b = Some Failed then - 1 else 0))))"

subsection \<open>What a start leaves behind\<close>

lemma kafka_init_topic: "kafka_init conf rk brokers rkt new_producer = (ok, p) \<Longrightarrow> rkt_set p = ok \<and> (ok \<longrightarrow> rk_set p)"
  by (auto simp: kafka_init_def new_producer_def Let_def split: if_splits)

lemma kafka_init_fails_clean:
  "kafka_init conf rk brokers rkt new_producer = (False, p) \<Longrightarrow> kafka_destroy p = ([], new_producer)"
  by (auto simp: kafka_init_def kafka_destroy_def new_producer_def Let_def split: if_splits)

lemma release_all:
  "distinct order \<Longrightarrow> set made \<subseteq> set order \<Longrightarrow> distinct (release order made) \<and> set (release order made) = set made"
  by (auto simp: release_def)

lemma trace_fail_released: "trace_fail made = (made', st) \<Longrightarrow> set made \<subseteq> {Event_logger, Ring_buffer, Skeleton} \<Longrightarrow>
    \<exists>rel. st = Ended 1 rel \<and> distinct rel \<and> set rel = set made'"
  using release_all [of "[Event_logger, Ring_buffer, Skeleton]" made] by (auto simp: trace_fail_def)

lemma lsm_fail_released: "lsm_fail made = (made', st) \<Longrightarrow> set made \<subseteq> {Producer, Ring_buffer, Skeleton} \<Longrightarrow>
    \<exists>rel. st = Ended 0 rel \<and> distinct rel \<and> set rel = set made'"
  using release_all [of "[Ring_buffer, Skeleton, Producer]" made] by (auto simp: lsm_fail_def)

lemma raw_fail_released: "raw_fail made = (made', st) \<Longrightarrow> set made \<subseteq> {Event_logger, Skeleton} \<Longrightarrow>
    \<exists>rel. st = Ended 1 rel \<and> distinct rel \<and> set rel = set made'"
  using release_all [of "[Skeleton, Event_logger]" made] by (auto simp: raw_fail_def)

lemma trace_start_cases:
  assumes "trace_start getenv resolve ko b = (made, st)"
  shows "st = Running 0 \<and> set made = {Event_logger, Skeleton, Ring_buffer} \<or>
    (\<exists>rel. st = Ended 1 rel \<and> distinct rel \<and> set rel = set made)"
  using assms trace_fail_released [of _ made st]
  by (auto simp: trace_start_def split: sum.splits env_error.splits if_splits)

lemma raw_start_cases:
  assumes "raw_start getenv gzopen_ok now later disk b = (made, st)"
  shows "(\<exists>err. st = Running err \<and> (err = 0 \<or> err = - 1 \<and> bt_policy b = Some Failed)) \<or>
    (\<exists>rel. st = Ended 1 rel \<and> distinct rel \<and> set rel = set made)"
  using assms raw_fail_released [of _ made st]
  by (auto simp: raw_start_def split: sum.splits if_splits)

text \<open>Of lsm, once its producer is set up: whatever the BPF programs do, the status is 0.\<close>

lemma lsm_start_cases:
  assumes "lsm_start getenv resolve lo b = (made, st)"
  shows "st = Running 0 \<or> st = Aborted \<or> st = Ended 1 [] \<and> set made \<subseteq> {Producer} \<or>
    (\<exists>rel. st = Ended 0 rel \<and> distinct rel \<and> set rel = set made)"
  using assms lsm_fail_released [of _ made st]
  by (auto simp: lsm_start_def split: sum.splits if_splits)

lemma lsm_start_hides:
  assumes "lsm_getEnv getenv resolve = Inr env" "le_kafka_brokers env \<noteq> []" "le_kafka_topic env \<noteq> []"
    and "fst (kafka_init (lo_conf lo) (lo_rk lo) (lo_brokers lo) (lo_rkt lo) new_producer)" "lo_memlock lo"
    and "\<not> bt_open b \<or> bt_load b \<noteq> 0 \<or> bt_attach b \<noteq> 0 \<or> \<not> bt_ring b"
  shows "\<exists>rel. snd (lsm_start getenv resolve lo b) = Ended 0 rel"
  using assms by (auto simp: lsm_start_def lsm_fail_def)

end
