(* ===== verification/Lsm_Bounds.thy ===== *)
theory Lsm_Bounds
  imports Watch_Loaders
begin

section \<open>LSM enforcement: the bounds of the policy tables\<close>

text \<open>
  The loops of \<open>update_policy_with_file\<close> write into arrays of fixed size without looking at a bound, and
  accept every policy.  The second part of this theory lists their writes as the code makes them, with
  no check: which field of \<open>struct policy_value\<close>, from which byte of it, how many bytes.  It shows that
  \<open>Out_of_bounds\<close>, by which \<open>Lsm_Loader\<close> marks the first write outside, stands exactly for the policies
  with such a write, that these are the policies that do not fit, and where the writes go.
\<close>

subsection \<open>The three loops\<close>

lemma unat_next: "unat n < 64 \<Longrightarrow> unat (n + 1 :: u32) = Suc (unat n)"
  by (simp add: unat_word_ariths)

abbreviation file_within :: "yaml_file \<Rightarrow> bool" where
  "file_within f \<equiv> length (c_str (yf_path f)) < 256 \<and> length (yf_uid f) \<le> 30"

abbreviation network_within :: "yaml_network \<Rightarrow> bool" where
  "network_within n \<equiv> length (yn_uid n) \<le> 30"

abbreviation process_within :: "yaml_process \<Rightarrow> bool" where
  "process_within f \<equiv> length (c_str (yp_comm f)) < 16 \<and> length (yp_uid f) \<le> 30"

lemma load_files_bounds:
  assumes "unat (num_file_policies v) \<le> 64"
  shows "case load_files fs fm v of
      Inl err \<Rightarrow> err = Out_of_bounds \<and> \<not> (unat (num_file_policies v) + length fs \<le> 64 \<and> list_all file_within fs)
    | Inr (fm', v') \<Rightarrow> unat (num_file_policies v) + length fs \<le> 64 \<and> list_all file_within fs \<and>
        unat (num_file_policies v') = unat (num_file_policies v) + length fs"
  using assms
proof (induction fs arbitrary: fm v)
  case (Cons f fs)
  show ?case
  proof (cases "unat (num_file_policies v) < 64 \<and> file_within f")
    case True
    obtain fm1 v1 where run: "load_files (f # fs) fm v = load_files fs fm1 v1"
      and n: "num_file_policies v1 = num_file_policies v + 1"
      using True by (auto simp: Let_def case_prod_unfold)
    have "unat (num_file_policies v1) = Suc (unat (num_file_policies v))" using True by (simp add: n unat_next)
    with Cons.IH [of v1 fm1] True show ?thesis unfolding run by (auto split: sum.splits)
  next
    case False
    then have "load_files (f # fs) fm v = Inl Out_of_bounds" by (auto simp: Let_def)
    with False show ?thesis by auto
  qed
qed simp

lemma load_networks_bounds:
  assumes "unat (num_network_policies v) \<le> 64"
  shows "case load_networks ns fm v of
      Inl err \<Rightarrow> err = Bad_prefix \<or> \<not> (unat (num_network_policies v) + length ns \<le> 64 \<and> list_all network_within ns)
    | Inr (fm', v') \<Rightarrow> unat (num_network_policies v) + length ns \<le> 64 \<and> list_all network_within ns \<and>
        unat (num_network_policies v') = unat (num_network_policies v) + length ns \<and>
        num_file_policies v' = num_file_policies v"
  using assms
proof (induction ns arbitrary: fm v)
  case (Cons n ns)
  show ?case
  proof (cases "parse_ip (yn_ip n)")
    case None
    then have "load_networks (n # ns) fm v = Inl Bad_prefix" by simp
    then show ?thesis by simp
  next
    case (Some ip)
    show ?thesis
    proof (cases "unat (num_network_policies v) < 64 \<and> network_within n")
      case True
      obtain fm1 v1 where run: "load_networks (n # ns) fm v = load_networks ns fm1 v1"
        and num: "num_network_policies v1 = num_network_policies v + 1" "num_file_policies v1 = num_file_policies v"
        using True Some by (auto simp: Let_def case_prod_unfold)
      have "unat (num_network_policies v1) = Suc (unat (num_network_policies v))" using True by (simp add: num unat_next)
      with Cons.IH [of v1 fm1] True num(2) show ?thesis unfolding run by (auto split: sum.splits)
    next
      case False
      with Some have "load_networks (n # ns) fm v = Inl Out_of_bounds" by (auto simp: Let_def)
      with False show ?thesis by auto
    qed
  qed
qed simp

lemma load_processes_bounds:
  assumes "unat (num_process_policies v) \<le> 64"
  shows "case load_processes fs fm v of
      Inl err \<Rightarrow> err = Out_of_bounds \<and> \<not> (unat (num_process_policies v) + length fs \<le> 64 \<and> list_all process_within fs)
    | Inr (fm', v') \<Rightarrow> unat (num_process_policies v) + length fs \<le> 64 \<and> list_all process_within fs \<and>
        unat (num_process_policies v') = unat (num_process_policies v) + length fs \<and>
        num_file_policies v' = num_file_policies v \<and> num_network_policies v' = num_network_policies v"
  using assms
proof (induction fs arbitrary: fm v)
  case (Cons f fs)
  show ?case
  proof (cases "unat (num_process_policies v) < 64 \<and> process_within f")
    case True
    obtain fm1 v1 where run: "load_processes (f # fs) fm v = load_processes fs fm1 v1"
      and n: "num_process_policies v1 = num_process_policies v + 1" "num_file_policies v1 = num_file_policies v"
        "num_network_policies v1 = num_network_policies v"
      using True by (auto simp: Let_def case_prod_unfold)
    have "unat (num_process_policies v1) = Suc (unat (num_process_policies v))" using True by (simp add: n unat_next)
    with Cons.IH [of v1 fm1] True n(2,3) show ?thesis unfolding run by (auto split: sum.splits)
  next
    case False
    then have "load_processes (f # fs) fm v = Inl Out_of_bounds" by (auto simp: Let_def)
    with False show ?thesis by auto
  qed
qed simp

subsection \<open>A whole policy\<close>

lemma load_value_bounds:
  "case load_value y fm v of
     Inl err \<Rightarrow> err = Bad_prefix \<or> \<not> policy_within y
   | Inr (fm', v') \<Rightarrow> policy_within y \<and>
       unat (num_file_policies v') = length (y_file y) \<and>
       unat (num_network_policies v') = length (y_network y) \<and>
       unat (num_process_policies v') = length (y_process y)"
proof (cases "load_files (y_file y) fm (v\<lparr>num_file_policies := 0\<rparr>)")
  case (Inl err)
  with load_files_bounds [of "v\<lparr>num_file_policies := 0\<rparr>" "y_file y" fm] show ?thesis
    by (auto simp: load_value_def policy_within_def)
next
  case (Inr p)
  obtain fm1 v1 where p: "p = (fm1, v1)" by (cases p)
  note files = load_files_bounds [of "v\<lparr>num_file_policies := 0\<rparr>" "y_file y" fm, unfolded Inr p]
  show ?thesis
  proof (cases "load_networks (y_network y) fm1 (v1\<lparr>num_network_policies := 0\<rparr>)")
    case (Inl err)
    with load_networks_bounds [of "v1\<lparr>num_network_policies := 0\<rparr>" "y_network y" fm1] Inr p show ?thesis
      by (auto simp: load_value_def policy_within_def)
  next
    case Inr2: (Inr q)
    obtain fm2 v2 where q: "q = (fm2, v2)" by (cases q)
    note networks = load_networks_bounds [of "v1\<lparr>num_network_policies := 0\<rparr>" "y_network y" fm1, unfolded Inr2 q]
    have run: "load_value y fm v = load_processes (y_process y) fm2 (v2\<lparr>num_process_policies := 0\<rparr>)"
      by (simp add: load_value_def Inr p Inr2 q)
    show ?thesis
      using files networks load_processes_bounds [of "v2\<lparr>num_process_policies := 0\<rparr>" "y_process y" fm2]
      unfolding run policy_within_def by (auto split: sum.splits)
  qed
qed

subsection \<open>The writes of the loader\<close>

text \<open>The members that the loader writes, with the number of the rule.\<close>

datatype field =
    Num_files | Num_networks | Num_processes
  | File_path nat | File_uid nat | File_flags nat
  | Net_ip nat | Net_mask nat | Net_port nat | Net_protocol nat | Net_flags nat
  | Proc_comm nat | Proc_uid nat | Proc_flags nat

fun field_rule :: "field \<Rightarrow> nat" where
  "field_rule Num_files = 0" | "field_rule Num_networks = 0" | "field_rule Num_processes = 0"
| "field_rule (File_path i) = i" | "field_rule (File_uid i) = i" | "field_rule (File_flags i) = i"
| "field_rule (Net_ip i) = i" | "field_rule (Net_mask i) = i" | "field_rule (Net_port i) = i"
| "field_rule (Net_protocol i) = i" | "field_rule (Net_flags i) = i"
| "field_rule (Proc_comm i) = i" | "field_rule (Proc_uid i) = i" | "field_rule (Proc_flags i) = i"

fun field_size :: "field \<Rightarrow> nat" where
  "field_size (File_path i) = 256"
| "field_size (File_uid i) = 4 * 30"
| "field_size (Net_port i) = 2"
| "field_size (Net_protocol i) = 1"
| "field_size (Proc_comm i) = 16"
| "field_size (Proc_uid i) = 4 * 30"
| "field_size f = 4"

text \<open>The offsets of the members, with the alignment of a 32-bit integer: a file rule has 380 bytes, a
  network rule 136 (one of them padding after \<open>protocol\<close>), a process rule 140, and the 256 bytes of
  \<open>source\<close> come last.\<close>

fun field_offset :: "field \<Rightarrow> nat" where
  "field_offset Num_files = 0"
| "field_offset Num_networks = 4"
| "field_offset Num_processes = 8"
| "field_offset (File_path i) = 12 + 380 * i"
| "field_offset (File_uid i) = 12 + 380 * i + 256"
| "field_offset (File_flags i) = 12 + 380 * i + 376"
| "field_offset (Net_ip i) = 24332 + 136 * i"
| "field_offset (Net_mask i) = 24332 + 136 * i + 4"
| "field_offset (Net_port i) = 24332 + 136 * i + 8"
| "field_offset (Net_protocol i) = 24332 + 136 * i + 10"
| "field_offset (Net_flags i) = 24332 + 136 * i + 132"
| "field_offset (Proc_comm i) = 33036 + 140 * i"
| "field_offset (Proc_uid i) = 33036 + 140 * i + 16"
| "field_offset (Proc_flags i) = 33036 + 140 * i + 136"

definition struct_size :: nat where
  "struct_size = 33036 + 140 * 64 + 256"

record store =
  st_field :: field
  st_from :: nat
  st_bytes :: nat

definition store_address :: "store \<Rightarrow> nat" where
  "store_address w = field_offset (st_field w) + st_from w"

text \<open>The rule exists, and the bytes are bytes of the member.\<close>

definition in_field :: "store \<Rightarrow> bool" where
  "in_field w \<longleftrightarrow> field_rule (st_field w) < 64 \<and> st_from w + st_bytes w \<le> field_size (st_field w)"

text \<open>A store of the whole member; \<open>strcpy\<close> with its terminating zero; the loop over the user ids.\<close>

definition assign :: "field \<Rightarrow> store" where
  "assign f = \<lparr>st_field = f, st_from = 0, st_bytes = field_size f\<rparr>"

definition copy_string :: "field \<Rightarrow> string \<Rightarrow> store" where
  "copy_string f s = \<lparr>st_field = f, st_from = 0, st_bytes = Suc (length (c_str s))\<rparr>"

definition copy_uids :: "field \<Rightarrow> s32 list \<Rightarrow> store list" where
  "copy_uids f uids = map (\<lambda>j. \<lparr>st_field = f, st_from = 4 * j, st_bytes = 4\<rparr>) [0..<length uids]"

fun file_stores :: "nat \<Rightarrow> yaml_file list \<Rightarrow> store list" where
  "file_stores i [] = []"
| "file_stores i (f # fs) =
     [copy_string (File_path i) (yf_path f), assign (File_flags i)] @ copy_uids (File_uid i) (yf_uid f) @
     [assign Num_files] @ file_stores (Suc i) fs"

text \<open>The user ids of a network rule go into the file rule of the same number.  An address that cannot
  be parsed ends the update; the flag says whether the loop was completed.\<close>

fun network_stores :: "nat \<Rightarrow> yaml_network list \<Rightarrow> store list \<times> bool" where
  "network_stores i [] = ([], True)"
| "network_stores i (n # ns) =
     (case parse_ip (yn_ip n) of
        None \<Rightarrow> ([], False)
      | Some ip \<Rightarrow>
          let (ws, completed) = network_stores (Suc i) ns
          in (map assign [Net_ip i, Net_mask i, Net_port i, Net_protocol i, Net_flags i] @
              copy_uids (File_uid i) (yn_uid n) @ [assign Num_networks] @ ws, completed))"

fun process_stores :: "nat \<Rightarrow> yaml_process list \<Rightarrow> store list" where
  "process_stores i [] = []"
| "process_stores i (f # fs) =
     [copy_string (Proc_comm i) (yp_comm f), assign (Proc_flags i)] @ copy_uids (Proc_uid i) (yp_uid f) @
     [assign Num_processes] @ process_stores (Suc i) fs"

definition policy_stores :: "yaml_lsm \<Rightarrow> store list \<times> bool" where
  "policy_stores y =
     (let fs = assign Num_files # file_stores 0 (y_file y);
          (ns, completed) = network_stores 0 (y_network y);
          ns = assign Num_networks # ns
      in if completed
         then (fs @ ns @ assign Num_processes # process_stores 0 (y_process y), True)
         else (fs @ ns, False))"

subsection \<open>Writes inside and outside\<close>

lemma in_field_assign [simp]: "in_field (assign f) \<longleftrightarrow> field_rule f < 64"
  by (simp add: in_field_def assign_def)

lemma in_field_copy_string [simp]:
  "in_field (copy_string f s) \<longleftrightarrow> field_rule f < 64 \<and> length (c_str s) < field_size f"
  by (auto simp: in_field_def copy_string_def)

lemma all_below: "(\<forall>j \<in> {0..<n}. j \<le> 29) \<longleftrightarrow> n \<le> (30 :: nat)"
  by (cases n) auto

lemma in_field_copy_uids [simp]:
  "field_rule f < 64 \<Longrightarrow> field_size f = 4 * 30 \<Longrightarrow> list_all in_field (copy_uids f uids) \<longleftrightarrow> length uids \<le> 30"
  using all_below [of "length uids"] by (simp add: copy_uids_def in_field_def list_all_iff)

lemma file_stores_in_field:
  "list_all in_field (file_stores i fs) \<longleftrightarrow> fs = [] \<or> i + length fs \<le> 64 \<and> list_all file_within fs"
  by (induction fs arbitrary: i) (auto simp: Suc_le_eq)

lemma network_stores_completed [simp]:
  "snd (network_stores i ns) \<longleftrightarrow> list_all (\<lambda>n. parse_ip (yn_ip n) \<noteq> None) ns"
  by (induction ns arbitrary: i) (auto simp: case_prod_unfold split: option.split)

lemma network_stores_in_field:
  "list_all (\<lambda>n. parse_ip (yn_ip n) \<noteq> None) ns \<Longrightarrow>
   list_all in_field (fst (network_stores i ns)) \<longleftrightarrow> ns = [] \<or> i + length ns \<le> 64 \<and> list_all network_within ns"
  by (induction ns arbitrary: i) (auto simp: case_prod_unfold Suc_le_eq)

lemma process_stores_in_field:
  "list_all in_field (process_stores i fs) \<longleftrightarrow> fs = [] \<or> i + length fs \<le> 64 \<and> list_all process_within fs"
  by (induction fs arbitrary: i) (auto simp: Suc_le_eq)

text \<open>If the addresses can be parsed, all writes are inside exactly if the policy fits.\<close>

definition addresses_parse :: "yaml_lsm \<Rightarrow> bool" where
  "addresses_parse y \<longleftrightarrow> list_all (\<lambda>n. parse_ip (yn_ip n) \<noteq> None) (y_network y)"

lemma policy_stores_in_field:
  assumes "addresses_parse y"
  shows "list_all in_field (fst (policy_stores y)) \<longleftrightarrow> policy_within y"
  using assms network_stores_in_field [of "y_network y" 0]
  by (auto simp: addresses_parse_def policy_stores_def policy_within_def case_prod_unfold Let_def
      file_stores_in_field process_stores_in_field)

lemma policy_stores_completed: "snd (policy_stores y) \<longleftrightarrow> addresses_parse y"
  by (simp add: policy_stores_def addresses_parse_def case_prod_unfold Let_def)

text \<open>What is written inside the members stays inside the struct.\<close>

lemma in_field_in_struct: "in_field w \<Longrightarrow> store_address w + st_bytes w \<le> struct_size"
  by (cases w rule: store.cases, case_tac st_field)
    (auto simp: in_field_def store_address_def struct_size_def)

text \<open>The flags of the process rule 65, the first byte of which lies behind the struct.\<close>

lemma process_stores_flags:
  "j < length fs \<Longrightarrow> assign (Proc_flags (i + j)) \<in> set (process_stores i fs)"
proof (induction fs arbitrary: i j)
  case (Cons f fs)
  then show ?case using Cons.IH [of "j - 1" "Suc i"] by (cases j) auto
qed simp

lemma many_processes_leave_struct:
  assumes "addresses_parse y" and "65 < length (y_process y)"
  shows "\<exists>w \<in> set (fst (policy_stores y)). struct_size \<le> store_address w"
proof
  show "assign (Proc_flags 65) \<in> set (fst (policy_stores y))"
    using process_stores_flags [of 65 "y_process y" 0] assms
    by (simp add: policy_stores_def addresses_parse_def case_prod_unfold Let_def)
  show "struct_size \<le> store_address (assign (Proc_flags 65))"
    by (simp add: struct_size_def store_address_def assign_def)
qed

subsection \<open>\<open>Out_of_bounds\<close> stands for a write outside\<close>

lemma load_networks_stores:
  "unat (num_network_policies v) \<le> 64 \<Longrightarrow>
   (load_networks ns fm v = Inl Out_of_bounds) =
      (\<not> list_all in_field (fst (network_stores (unat (num_network_policies v)) ns))) \<and>
   ((\<exists>r. load_networks ns fm v = Inr r) \<longrightarrow> snd (network_stores (unat (num_network_policies v)) ns)) \<and>
   (load_networks ns fm v = Inl Bad_prefix \<longrightarrow> \<not> snd (network_stores (unat (num_network_policies v)) ns))"
proof (induction ns arbitrary: fm v)
  case (Cons n ns)
  show ?case
  proof (cases "parse_ip (yn_ip n)")
    case (Some ip)
    show ?thesis
    proof (cases "unat (num_network_policies v) < 64 \<and> network_within n")
      case True
      obtain fm1 v1 where run: "load_networks (n # ns) fm v = load_networks ns fm1 v1"
        and num: "num_network_policies v1 = num_network_policies v + 1"
        using True Some by (auto simp: Let_def case_prod_unfold)
      have "unat (num_network_policies v1) = Suc (unat (num_network_policies v))" using True by (simp add: num unat_next)
      with Cons.IH [of v1 fm1] True Some show ?thesis unfolding run by (auto simp: case_prod_unfold)
    next
      case False
      with Some have "load_networks (n # ns) fm v = Inl Out_of_bounds" by (auto simp: Let_def)
      with False Some show ?thesis by (auto simp: case_prod_unfold)
    qed
  qed simp
qed simp

lemma load_value_stores:
  "(load_value y fm v = Inl Out_of_bounds \<longleftrightarrow> \<not> list_all in_field (fst (policy_stores y))) \<and>
   (load_value y fm v = Inl Bad_prefix \<longrightarrow> \<not> snd (policy_stores y))"
proof (cases "load_files (y_file y) fm (v\<lparr>num_file_policies := 0\<rparr>)")
  case (Inl err)
  with load_files_bounds [of "v\<lparr>num_file_policies := 0\<rparr>" "y_file y" fm]
  show ?thesis by (auto simp: load_value_def policy_stores_def case_prod_unfold Let_def file_stores_in_field)
next
  case (Inr p)
  obtain fm1 v1 where p: "p = (fm1, v1)" by (cases p)
  have files: "list_all in_field (file_stores 0 (y_file y))"
    using Inr load_files_bounds [of "v\<lparr>num_file_policies := 0\<rparr>" "y_file y" fm]
    by (auto simp: file_stores_in_field)
  note networks = load_networks_stores [of "v1\<lparr>num_network_policies := 0\<rparr>" "y_network y" fm1, simplified]
  show ?thesis
  proof (cases "load_networks (y_network y) fm1 (v1\<lparr>num_network_policies := 0\<rparr>)")
    case (Inl err)
    with Inr p files networks show ?thesis
      by (cases err) (auto simp: load_value_def policy_stores_def case_prod_unfold Let_def)
  next
    case Inr2: (Inr q)
    obtain fm2 v2 where q: "q = (fm2, v2)" by (cases q)
    show ?thesis
      using files networks load_processes_bounds [of "v2\<lparr>num_process_policies := 0\<rparr>" "y_process y" fm2]
      by (auto simp: load_value_def Inr p Inr2 q policy_stores_def case_prod_unfold Let_def process_stores_in_field
          split: sum.splits)
  qed
qed

text \<open>A policy that fits is loaded.\<close>

lemma load_value_fits:
  assumes "struct_value v" and "addresses_parse y \<and> policy_within y"
  shows "\<exists>fm' v'. load_value y fm v = Inr (fm', v') \<and> struct_value v' \<and> value_ok v' \<and>
    unat (num_file_policies v') = length (y_file y) \<and>
    unat (num_network_policies v') = length (y_network y) \<and>
    unat (num_process_policies v') = length (y_process y)"
proof (cases "load_value y fm v")
  case (Inl err)
  with assms(2) load_value_stores [of y fm v] policy_stores_in_field [of y] policy_stores_completed [of y]
  show ?thesis by (cases err) auto
next
  case (Inr p)
  with load_value_bounds [of y fm v] load_value_ok [OF _ assms(1)] show ?thesis by (cases p) auto
qed

end
