(* ===== verification/Watch_Loop.thy ===== *)
theory Watch_Loop
  imports Watch_Events
begin

section \<open>The two watching threads from their start to their end\<close>

text \<open>
  \<open>monitor_policy_file\<close> and \<open>monitor_docker_events\<close>, the same code in the three programs, around the
  handlers of \<open>Watch_Events\<close>.  What the system calls and libcurl return, and what the tests of
  \<open>exiting\<close> see, is a list with one element per round; it may be cut off anywhere, so the first
  component of a result says whether the thread has ended.
\<close>

subsection \<open>monitor\_policy\_file\<close>

definition dir_path :: "string \<Rightarrow> string" where
  "dir_path path = rev (tl (dropWhile (\<lambda>c. c \<noteq> CHR ''/'') (rev path)))"

definition file_name_of :: "string \<Rightarrow> string" where
  "file_name_of path = rev (takeWhile (\<lambda>c. c \<noteq> CHR ''/'') (rev path))"

text \<open>A read into the 4096 bytes of \<open>buffer\<close>.\<close>

datatype read_outcome = Read_again | Read_error | Read_eof | Read_bytes "u8 list"

text \<open>\<open>Poll_other\<close>: an event that is not \<open>POLLIN\<close>.\<close>

datatype poll_outcome = Poll_interrupted | Poll_error | Poll_timeout | Poll_other | Poll_in read_outcome

fun file_loop ::
  "string \<Rightarrow> ('s \<Rightarrow> 's option) \<Rightarrow> (bool \<times> poll_outcome) list \<Rightarrow> 's \<Rightarrow> (bool \<times> 's) option" where
  "file_loop file_name trigger [] s = Some (False, s)"
| "file_loop file_name trigger ((exiting, polled) # rounds) s =
     (if exiting then Some (True, s)
      else case polled of
        Poll_interrupted \<Rightarrow> file_loop file_name trigger rounds s
      | Poll_error \<Rightarrow> Some (True, s)
      | Poll_timeout \<Rightarrow> file_loop file_name trigger rounds s
      | Poll_other \<Rightarrow> file_loop file_name trigger rounds s
      | Poll_in outcome \<Rightarrow>
          (case outcome of
             Read_again \<Rightarrow> file_loop file_name trigger rounds s
           | Read_error \<Rightarrow> Some (True, s)
           | Read_eof \<Rightarrow> file_loop file_name trigger rounds s
           | Read_bytes buffer \<Rightarrow>
               (case inotify_read file_name trigger buffer s of
                  None \<Rightarrow> None
                | Some s \<Rightarrow> file_loop file_name trigger rounds s)))"

definition monitor_policy_file ::
  "string \<Rightarrow> bool \<Rightarrow> bool \<Rightarrow> ('s \<Rightarrow> 's option) \<Rightarrow> (bool \<times> poll_outcome) list \<Rightarrow> 's \<Rightarrow> (bool \<times> 's) option" where
  "monitor_policy_file path init_ok watch_ok trigger rounds s =
     (if \<not> init_ok then Some (True, s)
      else if \<not> watch_ok then Some (True, s)
      else file_loop (file_name_of path) trigger rounds s)"

subsection \<open>monitor\_docker\_events\<close>

text \<open>
  One round of the transfer: whether \<open>progress_callback\<close> sees \<open>exiting\<close>, the piece of the stream that
  then arrives (or the transfer fails or is closed), and whether the callback sees \<open>exiting\<close> at its end.
  A callback that returns another number than the length of its piece ends the transfer.
\<close>

datatype transfer_outcome = Transfer_ended | Piece string

fun transfer_loop ::
  "(string \<Rightarrow> (string \<times> string) option) \<Rightarrow> string list \<Rightarrow> ('s \<Rightarrow> 's option) \<Rightarrow>
   (bool \<times> transfer_outcome \<times> bool) list \<Rightarrow> string \<times> 's \<Rightarrow> (bool \<times> string \<times> 's) option" where
  "transfer_loop json_event actions trigger [] st = Some (False, st)"
| "transfer_loop json_event actions trigger ((before, outcome, after) # rounds) st =
     (if before then Some (True, st)
      else case outcome of
        Transfer_ended \<Rightarrow> Some (True, st)
      | Piece chunk \<Rightarrow>
          (case docker_event_callback json_event actions trigger after chunk st of
             None \<Rightarrow> None
           | Some (n, st) \<Rightarrow>
               if n \<noteq> length chunk then Some (True, st)
               else transfer_loop json_event actions trigger rounds st))"

definition monitor_docker_events ::
  "bool \<Rightarrow> (string \<Rightarrow> (string \<times> string) option) \<Rightarrow> string list \<Rightarrow> ('s \<Rightarrow> 's option) \<Rightarrow>
   (bool \<times> transfer_outcome \<times> bool) list \<Rightarrow> 's \<Rightarrow> (bool \<times> string \<times> 's) option" where
  "monitor_docker_events curl json_event actions trigger rounds s =
     (if \<not> curl then Some (True, [], s) else transfer_loop json_event actions trigger rounds ([], s))"

subsection \<open>What the file watcher does\<close>

text \<open>The rounds up to the one in which the thread ends, and the bytes that they read.\<close>

fun ends_round :: "bool \<times> poll_outcome \<Rightarrow> bool" where
  "ends_round (exiting, polled) \<longleftrightarrow> exiting \<or> polled = Poll_error \<or> polled = Poll_in Read_error"

fun bytes_of :: "bool \<times> poll_outcome \<Rightarrow> u8 list list" where
  "bytes_of (exiting, Poll_in (Read_bytes buffer)) = [buffer]"
| "bytes_of _ = []"

lemma file_loop_events:
  "file_loop file_name trigger rounds s =
     map_option (Pair (list_ex ends_round rounds))
       (fold_option (handle_inotify_event file_name trigger)
         (concat (map (\<lambda>b. inotify_events b 0) (concat (map bytes_of (takeWhile (\<lambda>r. \<not> ends_round r) rounds))))) s)"
proof (induction rounds arbitrary: s)
  case (Cons r rounds)
  obtain exiting polled where r: "r = (exiting, polled)" by (cases r)
  show ?case
  proof (cases "ends_round r")
    case True
    then show ?thesis by (auto simp: r split: poll_outcome.split read_outcome.split)
  next
    case False
    then show ?thesis
      using Cons.IH
      by (cases polled; cases "\<exists>b. polled = Poll_in (Read_bytes b)")
        (auto simp: r inotify_read_def fold_option_append split: option.split read_outcome.split)
  qed
qed simp

lemma file_watcher_ends:
  assumes "monitor_policy_file path True True trigger rounds s = Some (ended, s')"
  shows "ended \<longleftrightarrow> list_ex ends_round rounds"
  using assms by (auto simp: monitor_policy_file_def file_loop_events)

subsection \<open>What the Docker watcher does\<close>

text \<open>As long as nothing ends the transfer the thread handles the stream.\<close>

lemma transfer_loop_stream:
  assumes "NL \<notin> set buffer"
  shows "transfer_loop json_event actions trigger (map (\<lambda>c. (False, Piece c, False)) chunks) (buffer, s) =
    map_option (Pair False) (docker_stream json_event actions trigger chunks (buffer, s))"
  using assms
proof (induction chunks arbitrary: buffer s)
  case (Cons chunk chunks)
  have "NL \<notin> set (snd (split_lines buffer chunk))" by (rule split_lines_rest [OF Cons.prems])
  with Cons.IH show ?case
    by (simp add: docker_event_callback_run [OF Cons.prems] split: option.split)
qed simp

text \<open>With \<open>exiting\<close> set the thread ends at the latest after the next piece that is not empty.\<close>

lemma transfer_loop_exits:
  assumes "NL \<notin> set buffer" and "chunk \<noteq> []"
    and "transfer_loop json_event actions trigger ((before, Piece chunk, True) # rounds) (buffer, s) = Some (ended, st)"
  shows ended
  using assms(2,3) by (auto simp: docker_event_callback_run [OF assms(1)] split: if_splits option.splits)

end
