(* ===== verification/Raw_Time.thy ===== *)
theory Raw_Time
  imports Raw_Logger
begin

section \<open>raw_tracepoint: time stamps\<close>

text \<open>
  \<open>format_timestamp\<close> of \<open>raw_tracepoint/EventLogger.cpp\<close>.  \<open>local_time\<close> is what \<open>localtime_r\<close> and
  \<open>strftime\<close> make of a second; the number of seconds is computed with 64 bits and wraps.
  \<open>snprintf\<close> keeps 47 characters.
\<close>

definition stamp_seconds :: "int \<Rightarrow> u64 \<Rightarrow> int" where
  "stamp_seconds boot ns = sint (word_of_int boot + ns div 1000000000)"

definition format_timestamp :: "(int \<Rightarrow> string) \<Rightarrow> int \<Rightarrow> u64 \<Rightarrow> string" where
  "format_timestamp local_time boot ns =
     take 47 (local_time (stamp_seconds boot ns) @ ''.'' @ setw 9 (decimal (unat (ns mod 1000000000))))"

lemma length_decimal: "n < 10 ^ Suc k \<Longrightarrow> length (decimal n) \<le> Suc k"
proof (induction k arbitrary: n)
  case 0
  then show ?case by (subst decimal.simps) simp
next
  case (Suc k)
  then show ?case by (subst decimal.simps) (simp add: less_mult_imp_div_less)
qed

lemma length_setw: "length s \<le> n \<Longrightarrow> length (setw n s) = n"
  by (simp add: setw_def)

lemma undecimal_zeros: "undecimal (replicate k CHR ''0'' @ s) = undecimal s"
  by (induction k) (simp_all add: undecimal_def undigit_def)

text \<open>Nothing is cut off a date of at most 37 characters, and the digits can be read back.\<close>

lemma format_timestamp_parts:
  assumes "length (local_time (stamp_seconds boot ns)) \<le> 37"
  shows "format_timestamp local_time boot ns =
    local_time (stamp_seconds boot ns) @ ''.'' @ setw 9 (decimal (unat (ns mod 1000000000)))"
    and "length (setw 9 (decimal (unat (ns mod 1000000000)))) = 9"
    and "undecimal (setw 9 (decimal (unat (ns mod 1000000000)))) = unat (ns mod 1000000000)"
proof -
  have "unat (ns mod 1000000000) < 10 ^ Suc 8" by (simp add: unat_mod)
  from length_decimal [OF this] have short: "length (decimal (unat (ns mod 1000000000))) \<le> 9" by simp
  from length_setw [OF this] show len: "length (setw 9 (decimal (unat (ns mod 1000000000)))) = 9" .
  show "format_timestamp local_time boot ns =
      local_time (stamp_seconds boot ns) @ ''.'' @ setw 9 (decimal (unat (ns mod 1000000000)))"
    using assms len by (simp add: format_timestamp_def)
  show "undecimal (setw 9 (decimal (unat (ns mod 1000000000)))) = unat (ns mod 1000000000)"
    by (simp add: setw_def undecimal_zeros)
qed

lemma format_timestamp_eq:
  assumes "\<forall>t. length (local_time t) \<le> 37"
  shows "format_timestamp local_time boot a = format_timestamp local_time boot b \<longleftrightarrow>
    local_time (stamp_seconds boot a) = local_time (stamp_seconds boot b) \<and> a mod 1000000000 = b mod 1000000000"
proof -
  note a = format_timestamp_parts [of local_time boot a]
  note b = format_timestamp_parts [of local_time boot b]
  have "length (local_time (stamp_seconds boot a)) \<le> 37" "length (local_time (stamp_seconds boot b)) \<le> 37"
    using assms by blast+
  note a = a [OF this(1)] and b = b [OF this(2)]
  show ?thesis
  proof
    assume eq: "format_timestamp local_time boot a = format_timestamp local_time boot b"
    then have eq: "local_time (stamp_seconds boot a) @ ''.'' @ setw 9 (decimal (unat (a mod 1000000000))) =
        local_time (stamp_seconds boot b) @ ''.'' @ setw 9 (decimal (unat (b mod 1000000000)))"
      using a(1) b(1) by simp
    then have "local_time (stamp_seconds boot a) = local_time (stamp_seconds boot b) \<and>
        setw 9 (decimal (unat (a mod 1000000000))) = setw 9 (decimal (unat (b mod 1000000000)))"
      using append_eq_append_conv [of "''.'' @ setw 9 (decimal (unat (a mod 1000000000)))"
          "''.'' @ setw 9 (decimal (unat (b mod 1000000000)))"
          "local_time (stamp_seconds boot a)" "local_time (stamp_seconds boot b)"] a(2) b(2)
      by simp
    moreover from this have "unat (a mod 1000000000) = unat (b mod 1000000000)" using a(3) b(3) by metis
    ultimately show "local_time (stamp_seconds boot a) = local_time (stamp_seconds boot b) \<and>
        a mod 1000000000 = b mod 1000000000" by (simp add: word_unat_eq_iff)
  qed (simp add: format_timestamp_def)
qed

subsection \<open>From the ring buffer to the logger\<close>

text \<open>\<open>handle_event1\<close> and \<open>logging\<close> of \<open>raw_tracepoint.cpp\<close>: the callback counts, remembers the last number
  of losses for the console and adds the event to the logger, if there is one.\<close>

record raw_consumer =
  rb_cnt_1 :: s32
  last_err_cnt :: u64
  event_logger :: "raw_event raw_logger option"

definition raw_logging :: "nat \<Rightarrow> raw_event \<Rightarrow> raw_consumer \<Rightarrow> raw_consumer" where
  "raw_logging n e c = c\<lparr>event_logger := map_option (raw_addEvent n e) (event_logger c)\<rparr>"

definition handle_event1 :: "nat \<Rightarrow> raw_event \<Rightarrow> raw_consumer \<Rightarrow> int \<times> raw_consumer" where
  "handle_event1 n e c =
     (let c = c\<lparr>rb_cnt_1 := rb_cnt_1 c + 1\<rparr>;
          c = (if last_err_cnt c \<noteq> re_error_cnt e then c\<lparr>last_err_cnt := re_error_cnt e\<rparr> else c)
      in (0, raw_logging n e c))"

lemma handle_events1:
  "fold (\<lambda>e c. snd (handle_event1 n e c)) es c =
     c\<lparr>rb_cnt_1 := rb_cnt_1 c + of_nat (length es),
       last_err_cnt := (if es = [] then last_err_cnt c else re_error_cnt (last es)),
       event_logger := map_option (fold (raw_addEvent n) es) (event_logger c)\<rparr>"
  by (induction es arbitrary: c)
    (auto simp: handle_event1_def raw_logging_def Let_def option.map_comp comp_def option.map_id)

end
