(* ===== verification/Trace_Lifecycle.thy ===== *)
theory Trace_Lifecycle
  imports Trace_System
begin

section \<open>Tracepoint monitor: from entry to exit of a call\<close>

text \<open>
  Fourteen calls leave results in user memory.  Their entry programs put the pointers into a map
  under the key of the thread, and their exit programs look them up, read what the kernel wrote
  there, and are meant to delete the entry.  The locales below state that interface once: a map
  among the fourteen, an entry program that stores in it, an exit program that reports from it and
  deletes.  Ten calls are instances of the whole contract; \<open>accept4\<close>, \<open>getdents\<close>, \<open>getdents64\<close>
  and \<open>socketpair\<close> delete elsewhere, and the last part shows what becomes of their maps.
\<close>

subsection \<open>One map of the fourteen, and an entry program that stores in it\<close>

locale args_slot =
  fixes sel :: "args_maps \<Rightarrow> (map_key, 'v) hmap"
    and upd :: "((map_key, 'v) hmap \<Rightarrow> (map_key, 'v) hmap) \<Rightarrow> args_maps \<Rightarrow> args_maps"
  assumes sel_upd: "sel (upd f a) = f (sel a)"
    and sel_agree: "agree_at k a a' \<Longrightarrow> bpf_map_lookup_elem (sel a') k = bpf_map_lookup_elem (sel a) k"
begin

definition entry :: "map_key \<Rightarrow> monitor \<Rightarrow> 'v option" where
  "entry k m = bpf_map_lookup_elem (sel (amaps (shared m))) k"

lemma entry_run:
  "run m as m' \<Longrightarrow> list_all (activation_foreign k) as \<Longrightarrow> entry k m' = entry k m"
  by (simp add: entry_def sel_agree run_agree)

lemma stored_entry:
  assumes "stored upd k v a a'"
    and "\<not> hmap_full args_max_entries (sel a) \<or> bpf_map_lookup_elem (sel a) k \<noteq> None"
  shows "bpf_map_lookup_elem (sel a') k = Some v"
  using assms by (auto simp: stored_def sel_upd hash.lookup_update_same)

lemma dropped_entry: "dropped upd k a a' \<Longrightarrow> bpf_map_lookup_elem (sel a') k = None"
  by (simp add: dropped_def sel_upd hash.lookup_delete_same)

end

text \<open>The program attached to a call is the one of the table.\<close>

lemma enter_step_of:
  assumes "(n, p, A) \<in> set enter_programs" and "step m (Enter n K ctx) m'"
  shows "m' = m\<lparr>shared := exec_state (p K ctx) (shared m)\<rparr>"
    and "A K ctx (amaps (shared m)) (amaps (shared m'))"
proof -
  from assms(2) obtain p' A' where "(n, p', A') \<in> set enter_programs"
    and m': "m' = m\<lparr>shared := exec_state (p' K ctx) (shared m)\<rparr>"
    by (auto elim: enter_stepE)
  with assms(1) have "(p', A') = (p, A)"
    by (intro eq_key_imp_eq_value [OF attach_points_distinct])
  with m' show "m' = m\<lparr>shared := exec_state (p K ctx) (shared m)\<rparr>" by simp
  then show "A K ctx (amaps (shared m)) (amaps (shared m'))"
    using probe_exec(2) [OF enter_program_probe [OF assms(1)]] by simp
qed

lemma exit_step_of:
  assumes "(n, p, A) \<in> set exit_programs" and "step m (Exit n K ctx) m'"
  shows "m' = m\<lparr>shared := exec_state (p K ctx) (shared m)\<rparr>"
    and "A K ctx (amaps (shared m)) (amaps (shared m'))"
proof -
  from assms(2) obtain p' A' where "(n, p', A') \<in> set exit_programs"
    and m': "m' = m\<lparr>shared := exec_state (p' K ctx) (shared m)\<rparr>"
    by (auto elim: exit_stepE)
  with assms(1) have "(p', A') = (p, A)"
    by (intro eq_key_imp_eq_value [OF attach_points_distinct [unfolded same_attach_points]])
  with m' show "m' = m\<lparr>shared := exec_state (p K ctx) (shared m)\<rparr>" by simp
  then show "A K ctx (amaps (shared m)) (amaps (shared m'))"
    using probe_exec(2) [OF exit_program_probe [OF assms(1)]] by simp
qed

locale args_store = args_slot sel upd
  for sel :: "args_maps \<Rightarrow> (map_key, 'v) hmap" and upd +
  fixes name :: string
    and enterp :: enter_program
    and arguments :: "sys_enter_ctx \<Rightarrow> 'v"
  assumes enter_listed:
    "(name, enterp, \<lambda>K ctx. stored upd (activation_key K) (arguments ctx)) \<in> set enter_programs"
begin

text \<open>Until the same thread runs a program again, the pointers are there.\<close>

lemma arguments_kept:
  assumes enter: "step m (Enter name K ctx) m1"
    and room: "\<not> hmap_full args_max_entries (sel (amaps (shared m))) \<or> entry (activation_key K) m \<noteq> None"
    and others: "run m1 as m2" "list_all (activation_foreign (activation_key K)) as"
  shows "entry (activation_key K) m2 = Some (arguments ctx)"
proof -
  have "entry (activation_key K) m1 = Some (arguments ctx)"
    using stored_entry [OF enter_step_of(2) [OF enter_listed enter]] room by (simp add: entry_def)
  with entry_run [OF others] show ?thesis by simp
qed

end

subsection \<open>An exit program that reports from the map and deletes\<close>

text \<open>
  The common shape of the exit programs: \<open>reset\<close> is what they do to the fresh record,
  \<open>absent\<close> what they do when the lookup finds nothing, \<open>report\<close> how they read the results.
\<close>

definition output_exit ::
  "(event_t \<Rightarrow> event_t) \<Rightarrow> (args_maps \<Rightarrow> (map_key, 'v) hmap) \<Rightarrow> (event_t \<Rightarrow> event_t) \<Rightarrow>
   (kernel \<Rightarrow> 'v \<Rightarrow> event_t \<Rightarrow> event_t prog) \<Rightarrow>
   (((map_key, 'w) hmap \<Rightarrow> (map_key, 'w) hmap) \<Rightarrow> args_maps \<Rightarrow> args_maps) \<Rightarrow> exit_program" where
  "output_exit reset sel absent report upd K ctx = do {
     ct \<leftarrow> get_task_struct K (ucast (exit_id ctx));
     r \<leftarrow> handle_exit_event K (ucast (exit_id ctx));
     (case r of
       None \<Rightarrow> return ()
     | Some e \<Rightarrow> do {
         e \<leftarrow> (if nonneg (exit_ret ctx) then do {
             found \<leftarrow> map_lookup sel (get_map_key ct);
             case found of
               None \<Rightarrow> return (absent (reset (e\<lparr>ev_ret := exit_ret ctx\<rparr>)))
             | Some v \<Rightarrow> report K v (reset (e\<lparr>ev_ret := exit_ret ctx\<rparr>))
           } else return (reset (e\<lparr>ev_ret := exit_ret ctx\<rparr>)));
         bpf_ringbuf_submit e
       });
     map_delete upd (get_map_key ct);
     return 0
   }"

text \<open>What such a program submits: the fresh record, then the report on the entry found or
  the mark of its absence.\<close>

lemma output_exit_record:
  assumes sel: "selected K False (ucast (exit_id ctx)) s"
    and room: "\<forall>n. rb_reserve K n \<noteq> None"
    and ret: "nonneg (exit_ret ctx)"
    and quiet: "\<And>v e. quiet (report K v e)"
  shows "\<exists>e n. record_of K False (ucast (exit_id ctx)) (count s + 1) e \<and>
    rb (exec_state (output_exit reset sl absent report upd K ctx) s) =
      rb s @ [case bpf_map_lookup_elem (sl (amaps s)) (activation_key K) of
          None \<Rightarrow> absent (reset (e\<lparr>ev_ret := exit_ret ctx\<rparr>))
        | Some v \<Rightarrow> fst (run_state (report K v (reset (e\<lparr>ev_ret := exit_ret ctx\<rparr>)))
            (s\<lparr>calls := n, outstanding := Suc (outstanding s), count := count s + 1\<rparr>))]"
proof -
  define s0 where "s0 = s\<lparr>calls := Suc (calls s)\<rparr>"
  define look where "look = bpf_map_lookup_elem (sl (amaps s)) (activation_key K)"
  obtain r s1 where r: "run_state (handle_exit_event K (ucast (exit_id ctx))) s0 = (r, s1)"
    by (cases "run_state (handle_exit_event K (ucast (exit_id ctx))) s0")
  have "selected K False (ucast (exit_id ctx)) s0" using sel by (simp add: s0_def selected_def)
  note R = runsD [OF reserves_handle_exit [unfolded reserves_def] r]
  with room \<open>selected K False _ s0\<close> obtain e where e: "r = Some e"
    by (cases r) (auto, metis option.discI)
  with R obtain n where rec: "record_of K False (ucast (exit_id ctx)) (count s + 1) e"
    and s1: "s1 = s\<lparr>calls := n, outstanding := Suc (outstanding s), count := count s + 1\<rparr>"
    by (auto simp: s0_def)
  define e1 where "e1 = reset (e\<lparr>ev_ret := exit_ret ctx\<rparr>)"
  have look1: "bpf_map_lookup_elem (sl (amaps s1)) (activation_key K) = look"
    by (simp add: look_def s1)
  show ?thesis
  proof (cases look)
    case None
    have "rb (exec_state (output_exit reset sl absent report upd K ctx) s) = rb s @ [absent e1]"
      using r ret look1
      by (simp add: output_exit_def exec_state_def s0_def [symmetric] e s1 map_lookup_def
          map_delete_def bpf_ringbuf_submit_def e1_def None)
    with rec show ?thesis unfolding e1_def look_def [symmetric] None by auto
  next
    case (Some v)
    obtain e2 s2 where e2: "run_state (report K v e1) s1 = (e2, s2)"
      by (cases "run_state (report K v e1) s1")
    from runsD [OF quiet [unfolded quiet_def] e2] obtain n2 where s2: "s2 = s1\<lparr>calls := n2\<rparr>"
      by auto
    have "rb (exec_state (output_exit reset sl absent report upd K ctx) s) = rb s @ [e2]"
      using r ret look1 e2
      by (simp add: output_exit_def exec_state_def s0_def [symmetric] e s1 s2 map_lookup_def
          map_delete_def bpf_ringbuf_submit_def e1_def Some)
    moreover have "e2 = fst (run_state (report K v e1) s1)" using e2 by simp
    ultimately show ?thesis using rec unfolding e1_def s1 look_def [symmetric] Some by auto
  qed
qed

locale args_lifecycle = args_store sel upd name enterp arguments
  for sel :: "args_maps \<Rightarrow> (map_key, 'v) hmap" and upd and name and enterp and arguments +
  fixes exitp :: exit_program
    and reset :: "event_t \<Rightarrow> event_t"
    and absent :: "event_t \<Rightarrow> event_t"
    and report :: "kernel \<Rightarrow> 'v \<Rightarrow> event_t \<Rightarrow> event_t prog"
  assumes exit_listed: "(name, exitp, \<lambda>K ctx. dropped upd (activation_key K)) \<in> set exit_programs"
    and exit_shape: "exitp = output_exit reset sel absent report upd"
    and report_quiet: "quiet (report K v e)"
begin

text \<open>After the exit program the thread has no entry, whatever happened in between.\<close>

lemma entry_released: "step m (Exit name K ctx) m' \<Longrightarrow> entry (activation_key K) m' = None"
  unfolding entry_def by (rule dropped_entry) (rule exit_step_of(2) [OF exit_listed])

text \<open>The exit record reports on the arguments of the thread's own entry.\<close>

lemma exit_reports_entry:
  assumes enter: "step m (Enter name K ctx) m1"
    and room: "\<not> hmap_full args_max_entries (sel (amaps (shared m))) \<or> entry (activation_key K) m \<noteq> None"
    and others: "run m1 as m2" "list_all (activation_foreign (activation_key K)) as"
    and exit: "step m2 (Exit name K' ctx') m3" and same: "activation_key K' = activation_key K"
    and sel: "selected K' False (ucast (exit_id ctx')) (shared m2)"
    and rb: "\<forall>n. rb_reserve K' n \<noteq> None" and ret: "nonneg (exit_ret ctx')"
  shows "\<exists>e s. record_of K' False (ucast (exit_id ctx')) (count (shared m2) + 1) e \<and>
    history m3 = history m2 @
      [fst (run_state (report K' (arguments ctx) (reset (e\<lparr>ev_ret := exit_ret ctx'\<rparr>))) s)]"
proof -
  have "entry (activation_key K) m2 = Some (arguments ctx)"
    by (rule arguments_kept [OF enter room others])
  then have found: "bpf_map_lookup_elem (sel (amaps (shared m2))) (activation_key K') =
      Some (arguments ctx)"
    by (simp add: entry_def same)
  from exit_step_of(1) [OF exit_listed exit] have m3: "m3 = m2\<lparr>shared := exec_state
      (output_exit reset sel absent report upd K' ctx') (shared m2)\<rparr>"
    by (simp add: exit_shape)
  from output_exit_record [where reset = reset and sl = sel and absent = absent and upd = upd
      and report = report, OF sel rb ret report_quiet]
  show ?thesis by (auto simp: m3 history_def found)
qed

end

subsection \<open>The ten calls that keep the contract\<close>

text \<open>How the exit programs read the results, each the innermost part of the program.\<close>

definition report_sockaddr ::
  "(event_t \<Rightarrow> event_t) \<Rightarrow> kernel \<Rightarrow> sock_addr_args \<Rightarrow> event_t \<Rightarrow> event_t prog" where
  "report_sockaddr absent K sa e =
     (if addr_ptr sa \<noteq> 0 then do {
        (ok, e) \<leftarrow> read_sockaddr K e (addr_ptr sa);
        return e
      } else return (absent e))"

definition report_msghdr :: "kernel \<Rightarrow> u64 \<Rightarrow> event_t \<Rightarrow> event_t prog" where
  "report_msghdr K p e = do {
     (rc, msg) \<leftarrow> read_user_local K 104 p;
     if rc = 0 then do {
       (ok, e) \<leftarrow> read_sockaddr K e (msg_name msg);
       return e
     } else return e
   }"

definition report_sockopt :: "kernel \<Rightarrow> getsockopt_args \<Rightarrow> event_t \<Rightarrow> event_t prog" where
  "report_sockopt K sa e = do {
     (rc, bs) \<leftarrow> read_user_local K 4 (optlen_ptr sa);
     if rc = 0 then do {
       let optlen = u32_at bs 0;
       let e = set_u32 1 optlen e;
       if optlen \<le> 4 then do {
         (rc, v) \<leftarrow> bpf_probe_read_user K (unat optlen) (optval_ptr sa)
                       (take (unat optlen) (bytes32 (arg_u32 e 0)));
         let e = set_u32 0 (le_word (v @ drop (unat optlen) (bytes32 (arg_u32 e 0)))) e;
         if rc = 0 then return (e\<lparr>is_valid := True\<rparr>) else return e
       } else return e
     } else return e
   }"

definition report_three :: "kernel \<Rightarrow> u64 \<Rightarrow> u64 \<Rightarrow> u64 \<Rightarrow> event_t \<Rightarrow> event_t prog" where
  "report_three K p1 p2 p3 e =
     (if p1 \<noteq> 0 \<and> p2 \<noteq> 0 \<and> p3 \<noteq> 0 then do {
        (rc1, id1) \<leftarrow> read_user_local K 4 p1;
        if rc1 = 0 then do {
          (rc2, id2) \<leftarrow> read_user_local K 4 p2;
          if rc2 = 0 then do {
            (rc3, id3) \<leftarrow> read_user_local K 4 p3;
            if rc3 = 0 then do {
              let e = set_u32 0 (u32_at id1 0) e;
              let e = set_u32 1 (u32_at id2 0) e;
              let e = set_u32 2 (u32_at id3 0) e;
              return (e\<lparr>is_valid := True\<rparr>)
            } else return e
          } else return e
        } else return e
      } else return e)"

definition report_rlimit :: "kernel \<Rightarrow> u64 \<Rightarrow> event_t \<Rightarrow> event_t prog" where
  "report_rlimit K p e = do {
     (rc, bs) \<leftarrow> read_user_local K 16 p;
     if rc = 0 then do {
       let rlim = decode_rlimit bs;
       let e = set_u64 0 (rlim_cur rlim) e;
       let e = set_u64 1 (rlim_max rlim) e;
       return (e\<lparr>is_valid := True\<rparr>)
     } else return e
   }"

definition report_caps :: "kernel \<Rightarrow> capget_args \<Rightarrow> event_t \<Rightarrow> event_t prog" where
  "report_caps K sa e = do {
     (rc1, hbs) \<leftarrow> read_user_local K 8 (hdrp sa);
     if rc1 = 0 then do {
       (rc2, dbs) \<leftarrow> read_user_local K 12 (datap sa);
       if rc2 = 0 then do {
         let header = decode_cap_header hbs;
         let data = decode_cap_data dbs;
         let e = set_u32 0 (cap_version header) e;
         let e = set_u32 1 (cap_pid header) e;
         let e = set_u32 2 (cap_effective data) e;
         let e = set_u32 3 (cap_permitted data) e;
         let e = set_u32 4 (cap_inheritable data) e;
         return (e\<lparr>is_valid := True\<rparr>)
       } else return e
     } else return e
   }"

lemmas report_defs = report_sockaddr_def report_msghdr_def report_sockopt_def report_three_def
  report_rlimit_def report_caps_def

abbreviation sockaddr_arguments :: "nat \<Rightarrow> nat \<Rightarrow> sys_enter_ctx \<Rightarrow> sock_addr_args" where
  "sockaddr_arguments i j ctx \<equiv> \<lparr>addr_ptr = args ctx i, addrlen_ptr = args ctx j\<rparr>"

abbreviation unset_valid :: "event_t \<Rightarrow> event_t" where
  "unset_valid e \<equiv> e\<lparr>is_valid := False\<rparr>"

abbreviation set_null :: "event_t \<Rightarrow> event_t" where
  "set_null e \<equiv> e\<lparr>is_null := True\<rparr>"

lemma quiet_if: "quiet m1 \<Longrightarrow> quiet m2 \<Longrightarrow> quiet (if c then m1 else m2)"
  by simp

lemma quiet_prod: "(\<And>x y. quiet (f x y)) \<Longrightarrow> quiet (case p of (x, y) \<Rightarrow> f x y)"
  by (simp split: prod.split)

lemma quiet_read_sockaddr: "quiet (read_sockaddr K e p)"
  unfolding read_sockaddr_def Let_def
  by (rule quiet_if quiet_prod quiet_helpers quiet_return quiet_bind)+

lemma report_quiet:
  "quiet (report_sockaddr absent K sa e)" "quiet (report_msghdr K p e)" "quiet (report_sockopt K so e)"
  "quiet (report_three K p1 p2 p3 e)" "quiet (report_rlimit K p e)" "quiet (report_caps K ca e)"
  unfolding report_defs Let_def
  by (rule quiet_if quiet_prod quiet_helpers quiet_read_sockaddr quiet_return quiet_bind)+

text \<open>An exit program is an instance of the shape by unfolding both.\<close>

lemmas shape_simps = output_exit_def report_defs Let_def fun_eq_iff id_apply

lemma exit_shapes:
  "trace_sys_exit_getsockopt = output_exit unset_valid getsockopt_args_map id
     report_sockopt getsockopt_args_map_update"
  "trace_sys_exit_getsockname = output_exit init_socket_fields getsockname_args_map id
     (report_sockaddr id) getsockname_args_map_update"
  "trace_sys_exit_getpeername = output_exit init_socket_fields getpeername_args_map id
     (report_sockaddr id) getpeername_args_map_update"
  "trace_sys_exit_accept = output_exit init_socket_fields accept_args_map set_null
     (report_sockaddr set_null) accept_args_map_update"
  "trace_sys_exit_recvfrom = output_exit init_socket_fields recvfrom_args_map set_null
     (report_sockaddr set_null) recvfrom_args_map_update"
  "trace_sys_exit_recvmsg = output_exit init_socket_fields recvmsg_args_map id
     report_msghdr recvmsg_args_map_update"
  "trace_sys_exit_getresuid = output_exit unset_valid resuid_args_map id
     (\<lambda>K a. report_three K (ptr_ruid a) (ptr_euid a) (ptr_suid a)) resuid_args_map_update"
  "trace_sys_exit_getresgid = output_exit unset_valid resgid_args_map id
     (\<lambda>K a. report_three K (ptr_rgid a) (ptr_egid a) (ptr_sgid a)) resgid_args_map_update"
  "trace_sys_exit_getrlimit = output_exit unset_valid getrlimit_args_map id
     report_rlimit getrlimit_args_map_update"
  "trace_sys_exit_capget = output_exit unset_valid capget_args_map id
     report_caps capget_args_map_update"
  unfolding shape_simps trace_sys_exit_getsockopt_def
    trace_sys_exit_getsockname_def
    trace_sys_exit_getpeername_def
    trace_sys_exit_accept_def
    trace_sys_exit_recvfrom_def
    trace_sys_exit_recvmsg_def
    trace_sys_exit_getresuid_def
    trace_sys_exit_getresgid_def
    trace_sys_exit_getrlimit_def
    trace_sys_exit_capget_def
  by simp_all

lemmas slot_simps = agree_at_def same_entry_def table_defs report_quiet exit_shapes

interpretation getsockopt: args_lifecycle getsockopt_args_map getsockopt_args_map_update
  "''getsockopt''" trace_sys_enter_getsockopt "\<lambda>ctx. \<lparr>optval_ptr = args ctx 3, optlen_ptr = args ctx 4\<rparr>"
  trace_sys_exit_getsockopt unset_valid id report_sockopt
  by unfold_locales (simp_all add: slot_simps)

interpretation getsockname: args_lifecycle getsockname_args_map getsockname_args_map_update
  "''getsockname''" trace_sys_enter_getsockname "sockaddr_arguments 1 2"
  trace_sys_exit_getsockname init_socket_fields id "report_sockaddr id"
  by unfold_locales (simp_all add: slot_simps)

interpretation getpeername: args_lifecycle getpeername_args_map getpeername_args_map_update
  "''getpeername''" trace_sys_enter_getpeername "sockaddr_arguments 1 2"
  trace_sys_exit_getpeername init_socket_fields id "report_sockaddr id"
  by unfold_locales (simp_all add: slot_simps)

interpretation accept: args_lifecycle accept_args_map accept_args_map_update
  "''accept''" trace_sys_enter_accept "sockaddr_arguments 1 2"
  trace_sys_exit_accept init_socket_fields set_null "report_sockaddr set_null"
  by unfold_locales (simp_all add: slot_simps)

interpretation recvfrom: args_lifecycle recvfrom_args_map recvfrom_args_map_update
  "''recvfrom''" trace_sys_enter_recvfrom "sockaddr_arguments 4 5"
  trace_sys_exit_recvfrom init_socket_fields set_null "report_sockaddr set_null"
  by unfold_locales (simp_all add: slot_simps)

interpretation recvmsg: args_lifecycle recvmsg_args_map recvmsg_args_map_update
  "''recvmsg''" trace_sys_enter_recvmsg "\<lambda>ctx. args ctx 1"
  trace_sys_exit_recvmsg init_socket_fields id report_msghdr
  by unfold_locales (simp_all add: slot_simps)

interpretation getresuid: args_lifecycle resuid_args_map resuid_args_map_update
  "''getresuid''" trace_sys_enter_getresuid "\<lambda>ctx. \<lparr>ptr_ruid = args ctx 0, ptr_euid = args ctx 1, ptr_suid = args ctx 2\<rparr>"
  trace_sys_exit_getresuid unset_valid id "\<lambda>K a. report_three K (ptr_ruid a) (ptr_euid a) (ptr_suid a)"
  by unfold_locales (simp_all add: slot_simps)

interpretation getresgid: args_lifecycle resgid_args_map resgid_args_map_update
  "''getresgid''" trace_sys_enter_getresgid "\<lambda>ctx. \<lparr>ptr_rgid = args ctx 0, ptr_egid = args ctx 1, ptr_sgid = args ctx 2\<rparr>"
  trace_sys_exit_getresgid unset_valid id "\<lambda>K a. report_three K (ptr_rgid a) (ptr_egid a) (ptr_sgid a)"
  by unfold_locales (simp_all add: slot_simps)

interpretation getrlimit: args_lifecycle getrlimit_args_map getrlimit_args_map_update
  "''getrlimit''" trace_sys_enter_getrlimit "\<lambda>ctx. args ctx 1"
  trace_sys_exit_getrlimit unset_valid id report_rlimit
  by unfold_locales (simp_all add: slot_simps)

interpretation capget: args_lifecycle capget_args_map capget_args_map_update
  "''capget''" trace_sys_enter_capget "\<lambda>ctx. \<lparr>hdrp = args ctx 0, datap = args ctx 1\<rparr>"
  trace_sys_exit_capget unset_valid id report_caps
  by unfold_locales (simp_all add: slot_simps)

subsection \<open>The four calls that delete elsewhere\<close>

text \<open>
  The exit programs of \<open>accept4\<close>, \<open>getdents\<close> and \<open>getdents64\<close> delete from another map, so no
  program ever removes an entry of theirs.  \<open>grows\<close> is what happens to such a map: a thread that
  has an entry keeps one, and once the map is full no thread gets a new one.
\<close>

definition grows :: "(map_key, 'v) hmap \<Rightarrow> (map_key, 'v) hmap \<Rightarrow> bool" where
  "grows m m' \<longleftrightarrow>
     (\<forall>k. bpf_map_lookup_elem m k \<noteq> None \<longrightarrow> bpf_map_lookup_elem m' k \<noteq> None) \<and>
     (hmap_full args_max_entries m \<longrightarrow> hmap_full args_max_entries m' \<and>
        (\<forall>k. bpf_map_lookup_elem m k = None \<longrightarrow> bpf_map_lookup_elem m' k = None))"

lemma grows_refl [simp]: "grows m m"
  by (simp add: grows_def)

lemma grows_trans: "grows m m' \<Longrightarrow> grows m' m'' \<Longrightarrow> grows m m''"
  unfolding grows_def by blast

lemma grows_update [simp]: "grows m (snd (bpf_map_update_elem args_max_entries k v m))"
proof -
  let ?m' = "snd (bpf_map_update_elem args_max_entries k v m)"
  have dom: "bpf_map_lookup_elem ?m' k' =
      (if k' = k then if hmap_full args_max_entries m \<and> bpf_map_lookup_elem m k = None
         then None else Some v else bpf_map_lookup_elem m k')" for k'
    by (simp add: hash.lookup_update_other hash.lookup_update_same)
  have "length m \<le> length ?m'" by (simp add: length_update)
  then have "hmap_full args_max_entries m \<longrightarrow> hmap_full args_max_entries ?m'"
    by (simp add: hmap_full_def)
  then show ?thesis unfolding grows_def dom by auto
qed

locale leaking_slot = args_store sel upd name enterp arguments
  for sel :: "args_maps \<Rightarrow> (map_key, 'v) hmap" and upd and name and enterp and arguments +
  assumes enters_grow:
    "list_all (\<lambda>(n, p, A). \<forall>K ctx a a'. A K ctx a a' \<longrightarrow> grows (sel a) (sel a')) storing_enter_programs"
    and exits_grow:
    "list_all (\<lambda>(n, p, A). \<forall>K ctx a a'. A K ctx a a' \<longrightarrow> grows (sel a) (sel a')) cleanup_exit_programs"
begin

lemma step_grows: "step m a m' \<Longrightarrow> grows (sel (amaps (shared m))) (sel (amaps (shared m')))"
proof (induction rule: step.induct)
  case (enter n p A m K ctx)
  then have "A K ctx (amaps (shared m)) (amaps (exec_state (p K ctx) (shared m)))"
    by (intro probe_exec(2) [OF enter_program_probe])
  with enter enters_grow show ?case
    by (auto simp: enter_programs_def list_all_iff unchanged_def)
next
  case (exit n p A m K ctx)
  then have "A K ctx (amaps (shared m)) (amaps (exec_state (p K ctx) (shared m)))"
    by (intro probe_exec(2) [OF exit_program_probe])
  with exit exits_grow show ?case
    by (auto simp: exit_programs_def list_all_iff unchanged_def)
qed simp_all

lemma run_grows: "run m as m' \<Longrightarrow> grows (sel (amaps (shared m))) (sel (amaps (shared m')))"
  by (induction rule: run.induct) (auto intro: grows_trans step_grows)

lemma entry_never_released: "run m as m' \<Longrightarrow> entry k m \<noteq> None \<Longrightarrow> entry k m' \<noteq> None"
  using run_grows unfolding grows_def entry_def by blast

lemma full_map_serves_no_new_thread:
  "run m as m' \<Longrightarrow> hmap_full args_max_entries (sel (amaps (shared m))) \<Longrightarrow>
   entry k m = None \<Longrightarrow> entry k m' = None"
  using run_grows unfolding grows_def entry_def by blast

text \<open>Every call by a new thread uses up one place for good, until the map is full.\<close>

lemma call_uses_place:
  assumes "step m (Enter name K ctx) m'" and "entry (activation_key K) m = None"
    and "length (sel (amaps (shared m))) < args_max_entries"
  shows "length (sel (amaps (shared m'))) = Suc (length (sel (amaps (shared m))))"
  using enter_step_of(2) [OF enter_listed assms(1)] assms(2,3)
  by (simp add: stored_def sel_upd length_update entry_def bpf_map_lookup_elem_def)

end

interpretation accept4: leaking_slot accept4_args_map accept4_args_map_update
  "''accept4''" trace_sys_enter_accept4 "sockaddr_arguments 1 2"
  by unfold_locales (simp_all add: slot_simps stored_def dropped_def, auto)

interpretation getdents: leaking_slot getdents_args_map getdents_args_map_update
  "''getdents''" trace_sys_enter_getdents "\<lambda>ctx. args ctx 1"
  by unfold_locales (simp_all add: slot_simps stored_def dropped_def, auto)

interpretation getdents64: leaking_slot getdents64_args_map getdents64_args_map_update
  "''getdents64''" trace_sys_enter_getdents64 "\<lambda>ctx. args ctx 1"
  by unfold_locales (simp_all add: slot_simps stored_def dropped_def, auto)

lemma leaking_exit_shapes:
  "trace_sys_exit_accept4 = output_exit init_socket_fields accept4_args_map set_null
     (report_sockaddr set_null) accept_args_map_update"
  unfolding shape_simps trace_sys_exit_accept4_def by simp

lemma accept4_exit_listed:
  "(''accept4'', trace_sys_exit_accept4, \<lambda>K ctx. dropped accept_args_map_update (activation_key K))
     \<in> set exit_programs"
  by (simp add: table_defs)

text \<open>The exit record of a thread that has no entry.\<close>

lemma accept4_exit_without_entry:
  assumes "step m (Exit ''accept4'' K ctx) m'" and "accept4.entry (activation_key K) m = None"
    and "selected K False (ucast (exit_id ctx)) (shared m)" and "\<forall>n. rb_reserve K n \<noteq> None"
    and "nonneg (exit_ret ctx)"
  shows "\<exists>e. history m' = history m @ [e] \<and> record_of K False (ucast (exit_id ctx)) (count (shared m) + 1) e
    \<and> ev_ret e = exit_ret ctx \<and> is_null e \<and> \<not> is_valid e \<and> ev_ip e = 0 \<and> ev_port e = 0"
proof -
  have m': "m' = m\<lparr>shared := exec_state (trace_sys_exit_accept4 K ctx) (shared m)\<rparr>"
    by (rule exit_step_of(1) [OF accept4_exit_listed assms(1)])
  from output_exit_record [where reset = init_socket_fields and sl = accept4_args_map
      and absent = set_null and upd = accept_args_map_update and report = "report_sockaddr set_null",
      OF assms(3-5) report_quiet(1)] assms(2)
  obtain e where e: "record_of K False (ucast (exit_id ctx)) (count (shared m) + 1) e"
    and rb: "rb (shared m') = rb (shared m) @ [set_null (init_socket_fields (e\<lparr>ev_ret := exit_ret ctx\<rparr>))]"
    by (auto simp: m' leaking_exit_shapes accept4.entry_def)
  let ?e = "set_null (init_socket_fields (e\<lparr>ev_ret := exit_ret ctx\<rparr>))"
  have "record_of K False (ucast (exit_id ctx)) (count (shared m) + 1) ?e"
    using e by (simp add: record_of_def init_socket_fields_def)
  moreover have "history m' = history m @ [?e]"
    using rb by (simp add: history_def m')
  ultimately show ?thesis by (auto simp: init_socket_fields_def)
qed

subsection \<open>The maps follow the calls\<close>

text \<open>The arguments of the call that a thread is in, as its own activations tell: those of the last entry,
  until a program runs that is meant to end the call.  Nothing is said of maps or keys.\<close>

fun open_step :: "string \<Rightarrow> string list \<Rightarrow> (sys_enter_ctx \<Rightarrow> 'v) \<Rightarrow> u64 \<times> u32 \<Rightarrow> action \<Rightarrow> 'v option \<Rightarrow> 'v option" where
  "open_step name leavers arguments t (Enter n K ctx) cur =
     (if n = name \<and> thread_id K = t then Some (arguments ctx) else cur)"
| "open_step name leavers arguments t (Exit n K ctx) cur =
     (if n \<in> set leavers \<and> thread_id K = t then None else cur)"
| "open_step name leavers arguments t _ cur = cur"

definition open_call :: "string \<Rightarrow> string list \<Rightarrow> (sys_enter_ctx \<Rightarrow> 'v) \<Rightarrow> u64 \<times> u32 \<Rightarrow> action list \<Rightarrow> 'v option" where
  "open_call name leavers arguments t as = fold (open_step name leavers arguments t) as None"

text \<open>\<open>x\<close> is what a map holds for a thread and \<open>y\<close> the arguments of its open call: never those of
  another call, and missing only after more actions than the map has room for.\<close>

definition follows :: "action list \<Rightarrow> 'v option \<Rightarrow> 'v option \<Rightarrow> bool" where
  "follows as x y \<longleftrightarrow> (x = None \<or> x = y) \<and> (length as \<le> args_max_entries \<longrightarrow> x = y)"

lemma plain_exit_names: "fst ` set plain_exit_programs \<inter> fst ` set cleanup_exit_programs = {}"
  using attach_points_distinct unfolding same_attach_points exit_programs_def
  by (simp add: image_image case_prod_unfold comp_def)

definition args_follow :: "(args_maps \<Rightarrow> (map_key, 'v) hmap) \<Rightarrow> string \<Rightarrow> string list \<Rightarrow> (sys_enter_ctx \<Rightarrow> 'v) \<Rightarrow>
    kernel \<Rightarrow> action list \<Rightarrow> monitor \<Rightarrow> bool" where
  "args_follow sel name leavers arguments K as m \<longleftrightarrow>
     follows as (bpf_map_lookup_elem (sel (amaps (shared m))) (activation_key K))
       (open_call name leavers arguments (thread_id K) as)"

locale args_tracked = args_store sel upd name enterp arguments
  for sel :: "args_maps \<Rightarrow> (map_key, 'v) hmap" and upd and name and enterp and arguments +
  fixes leavers :: "string list"
  assumes enters_law: "list_all (\<lambda>(n, p, A). n \<noteq> name \<longrightarrow> (\<forall>K ctx a a'. A K ctx a a' \<longrightarrow> sel a' = sel a))
      storing_enter_programs"
    and exits_law: "list_all (\<lambda>(n, p, A). \<forall>K ctx a a'. A K ctx a a' \<longrightarrow>
        (if n \<in> set leavers then dropped upd (activation_key K) a a' else sel a' = sel a)) cleanup_exit_programs"
    and leavers_clean: "list_all (\<lambda>n. n \<in> fst ` set cleanup_exit_programs) leavers"
    and empty_at_start: "sel empty_maps = []"
begin

lemma other_enter:
  assumes "(n, p, A) \<in> set enter_programs" and "n \<noteq> name" and "A K ctx a a'"
  shows "sel a' = sel a"
  using assms enters_law by (auto simp: enter_programs_def list_all_iff unchanged_def)

lemma any_exit:
  assumes "(n, p, A) \<in> set exit_programs" and "A K ctx a a'"
  shows "if n \<in> set leavers then dropped upd (activation_key K) a a' else sel a' = sel a"
proof (cases "(n, p, A) \<in> set cleanup_exit_programs")
  case True
  with assms(2) exits_law show ?thesis by (auto simp: list_all_iff)
next
  case False
  with assms(1) have "n \<in> fst ` set plain_exit_programs" and A: "A = (\<lambda>K ctx. unchanged)"
    by (force simp: exit_programs_def)+
  then have "n \<notin> set leavers" using leavers_clean plain_exit_names by (auto simp: list_all_iff)
  with A assms(2) show ?thesis by (simp add: unchanged_def)
qed

lemma step_entry:
  assumes "step m a m'" and "activation_ns K \<noteq> 0"
  shows "entry (activation_key K) m' = open_step name leavers arguments (thread_id K) a (entry (activation_key K) m) \<or>
    entry (activation_key K) m' = None \<and> hmap_full args_max_entries (sel (amaps (shared m)))"
    and "length (sel (amaps (shared m'))) \<le> Suc (length (sel (amaps (shared m))))"
proof -
  note key = activation_key_eq [OF assms(2)]
  have "(entry (activation_key K) m' = open_step name leavers arguments (thread_id K) a (entry (activation_key K) m) \<or>
    entry (activation_key K) m' = None \<and> hmap_full args_max_entries (sel (amaps (shared m)))) \<and>
    length (sel (amaps (shared m'))) \<le> Suc (length (sel (amaps (shared m))))"
    using assms(1)
  proof (cases rule: step.cases)
    case (enter n p A K' ctx)
    note effect = probe_exec(2) [OF enter_program_probe [OF enter(3)], of K' ctx "shared m"]
    show ?thesis
    proof (cases "n = name")
      case True
      from enter_step_of(2) [OF enter_listed, of m K' ctx m'] assms(1) enter(1) True
      have "stored upd (activation_key K') (arguments ctx) (amaps (shared m)) (amaps (shared m'))" by simp
      then have sel: "sel (amaps (shared m')) =
          snd (bpf_map_update_elem args_max_entries (activation_key K') (arguments ctx) (sel (amaps (shared m))))"
        by (simp add: stored_def sel_upd)
      show ?thesis
      proof (cases "thread_id K' = thread_id K")
        case same: True
        then show ?thesis using key [of K'] True
          by (simp add: enter(1) entry_def sel hash.lookup_update_same length_update)
      next
        case False
        then have "activation_key K \<noteq> activation_key K'" using key [of K'] by metis
        with False show ?thesis by (simp add: enter(1) entry_def sel hash.lookup_update_other length_update)
      qed
    next
      case False
      with other_enter [OF enter(3) False effect] show ?thesis by (simp add: enter(1,2) entry_def)
    qed
  next
    case (exit n p A K' ctx)
    note effect = any_exit [OF exit(3) probe_exec(2) [OF exit_program_probe [OF exit(3)], of K' ctx "shared m"]]
    show ?thesis
    proof (cases "n \<in> set leavers")
      case True
      then have sel: "sel (amaps (shared m')) = snd (bpf_map_delete_elem (activation_key K') (sel (amaps (shared m))))"
        using effect by (simp add: dropped_def sel_upd exit(2))
      have len: "length (sel (amaps (shared m'))) \<le> Suc (length (sel (amaps (shared m))))"
        using AList.length_delete_le [of "activation_key K'" "sel (amaps (shared m))"]
        by (simp add: sel bpf_map_delete_elem_def)
      show ?thesis
      proof (cases "thread_id K' = thread_id K")
        case same: True
        then have "activation_key K' = activation_key K" using key [of K'] by simp
        with same True len show ?thesis by (simp add: exit(1) entry_def sel hash.lookup_delete_same)
      next
        case False
        then have "activation_key K \<noteq> activation_key K'" using key [of K'] by metis
        with False len show ?thesis by (simp add: exit(1) entry_def sel hash.lookup_delete_other)
      qed
    next
      case False
      with effect show ?thesis by (simp add: exit(1,2) entry_def)
    qed
  qed (simp_all add: entry_def)
  then show "entry (activation_key K) m' = open_step name leavers arguments (thread_id K) a (entry (activation_key K) m) \<or>
    entry (activation_key K) m' = None \<and> hmap_full args_max_entries (sel (amaps (shared m)))"
    "length (sel (amaps (shared m'))) \<le> Suc (length (sel (amaps (shared m))))" by simp_all
qed

lemma open_step_mono: "x = None \<or> x = y \<Longrightarrow>
    open_step name leavers arguments t a x = None \<or> open_step name leavers arguments t a x = open_step name leavers arguments t a y"
  by (cases a) auto

text \<open>In every run the map holds for a thread the arguments of its open call or nothing; up to as many
  actions as the map has room for, it holds them.\<close>

lemma run_follows_aux:
  assumes "run m as m'" and "m = initial" and "activation_ns K \<noteq> 0"
  shows "length (sel (amaps (shared m'))) \<le> length as \<and>
    follows as (entry (activation_key K) m') (open_call name leavers arguments (thread_id K) as)"
  using assms(1,2)
proof (induction rule: run.induct)
  case (run_nil m)
  then show ?case by (simp add: follows_def open_call_def entry_def initial_def empty_at_start bpf_map_lookup_elem_def)
next
  case (run_snoc m as m' a m'')
  let ?open = "open_step name leavers arguments (thread_id K) a"
  define x where "x = entry (activation_key K) m'"
  define y where "y = open_call name leavers arguments (thread_id K) as"
  have IH: "length (sel (amaps (shared m'))) \<le> length as" "x = None \<or> x = y" "length as \<le> args_max_entries \<Longrightarrow> x = y"
    using run_snoc.IH [OF run_snoc.prems] by (simp_all add: follows_def x_def y_def)
  note S = step_entry [OF run_snoc.hyps(2) assms(3), folded x_def]
  have "entry (activation_key K) m'' = None \<or> entry (activation_key K) m'' = ?open y"
    using S(1) open_step_mono [OF IH(2), of "thread_id K" a] by auto
  moreover have "entry (activation_key K) m'' = ?open y" if "length (as @ [a]) \<le> args_max_entries"
    using S(1) IH(1,3) that by (simp add: hmap_full_def)
  moreover have "open_call name leavers arguments (thread_id K) (as @ [a]) = ?open y"
    by (simp add: open_call_def y_def)
  ultimately show ?case using S(2) IH(1) by (simp add: follows_def)
qed

lemma run_tracked: "run initial as m \<Longrightarrow> activation_ns K \<noteq> 0 \<Longrightarrow> args_follow sel name leavers arguments K as m"
  using run_follows_aux by (simp add: args_follow_def entry_def)

end

text \<open>The ten calls.  The entries of \<open>accept\<close> are deleted by the exit program of \<open>accept4\<close> as
  well, those of \<open>getsockopt\<close> by those of \<open>getdents\<close> and \<open>getdents64\<close>.\<close>

lemmas tracked_simps = storing_enter_programs_def net_storing_enter_def file_storing_enter_def proc_storing_enter_def
  mem_storing_enter_def cleanup_exit_programs_def net_cleanup_exit_def file_cleanup_exit_def proc_cleanup_exit_def
  mem_cleanup_exit_def empty_maps_def stored_def dropped_def

interpretation getsockopt_calls: args_tracked getsockopt_args_map getsockopt_args_map_update
  "''getsockopt''" trace_sys_enter_getsockopt "\<lambda>ctx. \<lparr>optval_ptr = args ctx 3, optlen_ptr = args ctx 4\<rparr>" "[''getsockopt'', ''getdents'', ''getdents64'']"
  by unfold_locales (auto simp: tracked_simps)

interpretation getsockname_calls: args_tracked getsockname_args_map getsockname_args_map_update
  "''getsockname''" trace_sys_enter_getsockname "sockaddr_arguments 1 2" "[''getsockname'']"
  by unfold_locales (auto simp: tracked_simps)

interpretation getpeername_calls: args_tracked getpeername_args_map getpeername_args_map_update
  "''getpeername''" trace_sys_enter_getpeername "sockaddr_arguments 1 2" "[''getpeername'']"
  by unfold_locales (auto simp: tracked_simps)

interpretation accept_calls: args_tracked accept_args_map accept_args_map_update
  "''accept''" trace_sys_enter_accept "sockaddr_arguments 1 2" "[''accept'', ''accept4'']"
  by unfold_locales (auto simp: tracked_simps)

interpretation recvfrom_calls: args_tracked recvfrom_args_map recvfrom_args_map_update
  "''recvfrom''" trace_sys_enter_recvfrom "sockaddr_arguments 4 5" "[''recvfrom'']"
  by unfold_locales (auto simp: tracked_simps)

interpretation recvmsg_calls: args_tracked recvmsg_args_map recvmsg_args_map_update
  "''recvmsg''" trace_sys_enter_recvmsg "\<lambda>ctx. args ctx 1" "[''recvmsg'']"
  by unfold_locales (auto simp: tracked_simps)

interpretation getresuid_calls: args_tracked resuid_args_map resuid_args_map_update
  "''getresuid''" trace_sys_enter_getresuid "\<lambda>ctx. \<lparr>ptr_ruid = args ctx 0, ptr_euid = args ctx 1, ptr_suid = args ctx 2\<rparr>" "[''getresuid'']"
  by unfold_locales (auto simp: tracked_simps)

interpretation getresgid_calls: args_tracked resgid_args_map resgid_args_map_update
  "''getresgid''" trace_sys_enter_getresgid "\<lambda>ctx. \<lparr>ptr_rgid = args ctx 0, ptr_egid = args ctx 1, ptr_sgid = args ctx 2\<rparr>" "[''getresgid'']"
  by unfold_locales (auto simp: tracked_simps)

interpretation getrlimit_calls: args_tracked getrlimit_args_map getrlimit_args_map_update
  "''getrlimit''" trace_sys_enter_getrlimit "\<lambda>ctx. args ctx 1" "[''getrlimit'']"
  by unfold_locales (auto simp: tracked_simps)

interpretation capget_calls: args_tracked capget_args_map capget_args_map_update
  "''capget''" trace_sys_enter_capget "\<lambda>ctx. \<lparr>hdrp = args ctx 0, datap = args ctx 1\<rparr>" "[''capget'']"
  by unfold_locales (auto simp: tracked_simps)

subsection \<open>What an accepting thread's record says\<close>

lemma accept_exit_record:
  assumes enter: "step m (Enter ''accept'' K ctx) m1"
    and room: "\<not> hmap_full args_max_entries (accept_args_map (amaps (shared m)))"
    and others: "run m1 as m2" "list_all (activation_foreign (activation_key K)) as"
    and exit: "step m2 (Exit ''accept'' K' ctx') m3" and same: "activation_key K' = activation_key K"
    and sel: "selected K' False (ucast (exit_id ctx')) (shared m2)"
    and rb: "\<forall>n. rb_reserve K' n \<noteq> None" and ret: "nonneg (exit_ret ctx')"
    and addr: "args ctx 1 \<noteq> 0" "memory_holds K' (args ctx 1) (encode_sockaddr_in a)" "sin_family a = 2"
  shows "\<exists>e. history m3 = history m2 @ [e] \<and> is_valid e \<and> \<not> is_null e \<and> \<not> is_enter e \<and>
    ev_ret e = exit_ret ctx' \<and> addr_family e = 2 \<and> ev_ip e = s_addr a \<and> ev_port e = bswap16 (sin_port a)"
proof -
  let ?r = "\<lambda>e. init_socket_fields (e\<lparr>ev_ret := exit_ret ctx'\<rparr>)"
  have "fst (run_state (report_sockaddr set_null K' (sockaddr_arguments 1 2 ctx) e) s) =
      e\<lparr>addr_family := 2, ev_ip := s_addr a, ev_port := bswap16 (sin_port a), is_valid := True\<rparr>" for e s
    using read_sockaddr_inet [OF addr(2,3,1), of e s] addr(1)
    by (simp add: report_sockaddr_def case_prod_unfold)
  with accept.exit_reports_entry [OF enter _ others exit same sel rb ret] room
  obtain e where "record_of K' False (ucast (exit_id ctx')) (count (shared m2) + 1) e"
    and "history m3 = history m2 @ [(?r e)\<lparr>addr_family := 2, ev_ip := s_addr a,
        ev_port := bswap16 (sin_port a), is_valid := True\<rparr>]"
    by auto
  then show ?thesis by (auto simp: init_socket_fields_def record_of_def)
qed

end
