(* ===== verification/Trace_Defects.thy ===== *)
theory Trace_Defects
  imports Trace_Dispatch Trace_Lifecycle
begin

section \<open>Programs outside the common shapes\<close>

text \<open>
  \<open>init_module\<close> accepts its string only when the read returns 0, \<open>rmdir\<close> does not reset the
  validity flag, and the IPv6 branch of \<open>read_sockaddr\<close> copies from the program's own stack; the
  time stamp of a line is compressed below the second.
\<close>

lemma enter_record:
  assumes "rb (exec_state (handle_enter_event K ev \<bind>
      (\<lambda>r. case r of None \<Rightarrow> return 0 | Some e \<Rightarrow> f e)) s) = rb s @ [e]"
  obtains e0 t where "rb_reserve K (Suc (calls s)) = Some e0"
    and "rb (exec_state (f (e0\<lparr>ev_task := t, is_enter := True\<rparr>))
      (s\<lparr>calls := Suc (Suc (calls s)), outstanding := Suc (outstanding s), count := count s + 1\<rparr>))
      = rb s @ [e]"
  using assms by (auto simp: exec_state_def run_handle_enter_event split: if_splits option.splits)

lemma read_str_not_zero:
  assumes "strings_at K ustr"
  shows "fst (read_user_str K t p sz d) \<noteq> 0"
proof -
  have "case ustr p sz of None \<Rightarrow> fst (read_user_str K t p sz d) < 0
    | Some cs \<Rightarrow> 0 \<notin> set cs \<and> read_user_str K t p sz d = (int (length cs) + 1, cs @ 0 # drop (Suc (length cs)) d)"
    using assms unfolding strings_at_def by blast
  then show ?thesis by (auto split: option.splits)
qed

lemma init_module_never_valid:
  assumes "strings_at K ustr" and "rb (exec_state (trace_sys_enter_init_module K ctx) s) = rb s @ [e]"
  shows "\<not> is_valid e"
  using assms(2) unfolding trace_sys_enter_init_module_def Let_def
  by (rule enter_record)
    (auto simp: exec_state_def bpf_probe_read_user_str_def bpf_ringbuf_submit_def case_prod_unfold
      read_str_not_zero [OF assms(1)] split: if_splits)

text \<open>A null pointer leaves the flag and the path of whatever record used the memory before.\<close>

lemma rmdir_null_path:
  assumes "args ctx 0 = 0" and "rb (exec_state (trace_sys_enter_rmdir K ctx) s) = rb s @ [e]"
  shows "\<exists>e0. rb_reserve K (Suc (calls s)) = Some e0 \<and> is_valid e = is_valid e0 \<and> arg_str e = arg_str e0"
  using assms(2) unfolding trace_sys_enter_rmdir_def Let_def
  by (rule enter_record) (use assms(1) in \<open>auto simp: exec_state_def bpf_ringbuf_submit_def\<close>)

text \<open>The time of a log line.\<close>

lemma get_str_timestamp:
  "db_timestamp (get_str env t) =
     (boot_time env + uint (ct_timestamp t) div 1000000000) * 1000000000 +
     (uint (ct_timestamp t) mod 1000000000) div 1000"
  by (simp add: get_str_def Let_def)

lemma timestamp_monotone:
  assumes "ct_timestamp t \<le> ct_timestamp t'"
  shows "db_timestamp (get_str env t) \<le> db_timestamp (get_str env t')"
proof -
  define a b where ab: "a = uint (ct_timestamp t)" "b = uint (ct_timestamp t')"
  have "a \<le> b" using assms by (simp add: ab word_le_def)
  have "a div 1000000000 * 1000000000 + a mod 1000000000 div 1000 \<le>
      b div 1000000000 * 1000000000 + b mod 1000000000 div 1000"
  proof (cases "a div 1000000000 = b div 1000000000")
    case True
    with \<open>a \<le> b\<close> have "a mod 1000000000 \<le> b mod 1000000000"
      by (metis add_le_cancel_left div_mult_mod_eq)
    with True show ?thesis by (simp add: zdiv_mono1)
  next
    case False
    moreover from \<open>a \<le> b\<close> have "a div 1000000000 \<le> b div 1000000000" by (simp add: zdiv_mono1)
    ultimately have "a div 1000000000 + 1 \<le> b div 1000000000" by simp
    moreover have "a mod 1000000000 div 1000 < 1000000000"
      using pos_mod_bound [of 1000000000 a] by linarith
    moreover have "0 \<le> b mod 1000000000 div 1000" by (simp add: pos_imp_zdiv_nonneg_iff)
    ultimately show ?thesis by linarith
  qed
  then show ?thesis by (simp add: get_str_timestamp ab [symmetric] distrib_right)
qed

text \<open>Within one second the lines' times differ by a thousandth of the difference of the records'.\<close>

lemma timestamp_compressed:
  assumes "ct_timestamp t \<le> ct_timestamp t'"
    and "uint (ct_timestamp t) div 1000000000 = uint (ct_timestamp t') div 1000000000"
  shows "db_timestamp (get_str env t') - db_timestamp (get_str env t) < 1000000"
proof -
  have "uint (ct_timestamp t') mod 1000000000 div 1000 < 1000000"
    using pos_mod_bound [of 1000000000 "uint (ct_timestamp t')"] by linarith
  moreover have "0 \<le> uint (ct_timestamp t) mod 1000000000 div 1000"
    by (simp add: pos_imp_zdiv_nonneg_iff)
  ultimately show ?thesis by (simp add: get_str_timestamp assms(2))
qed

end
