(* ===== verification/Trace_Example.thy ===== *)
theory Trace_Example
  imports Trace_Policy Trace_Defects
begin

section \<open>Tracepoint monitor: a concrete machine\<close>

text \<open>
  Concrete inputs for the witnesses: a kernel on which every helper succeeds, one thread of one
  container, a policy that selects \<open>close\<close> (3), \<open>accept\<close> (43), \<open>accept4\<close> (288),
  \<open>rmdir\<close> (84) and \<open>init_module\<close> (175), and short runs with their final states.
\<close>

definition demo_record :: event_t where
  "demo_record = \<lparr>ev_task = zero_task, ev_ret = 0, arg_s32 = \<lambda>_. 0, arg_u32 = \<lambda>_. 0,
     arg_s64 = \<lambda>_. 0, arg_u64 = \<lambda>_. 0, arg_str = [], arg_str2 = [], filesystem_type = [],
     is_enter = False, is_valid = True, is_null = False, ev_ip = 0, ev_port = 0, addr_family = 0,
     ipv6_addr = []\<rparr>"

definition demo_kernel :: kernel where
  "demo_kernel = \<lparr>cur_task = Some \<lparr>task_pid_ns = 7, task_mnt_ns = 8, task_parent_tgid = 1\<rparr>,
     cur_pid_tgid = 0x2A0000002B, cur_uid_gid = 0, cur_cgroup_id = 9, cur_comm = replicate 16 0,
     ktime_ns = \<lambda>n. of_nat n + 100, rb_reserve = \<lambda>_. Some demo_record,
     read_user = \<lambda>_ p sz _. (0, replicate sz 5), read_user_str = \<lambda>_ p sz d. (1, 0 # drop 1 d),
     read_any = \<lambda>_ p sz _. (0, replicate sz 5), stack_garbage = \<lambda>_ sz. replicate sz 255,
     stack_addr = \<lambda>_. 0\<rparr>"

definition demo_list :: "s32 list" where
  "demo_list = [3, 43, 288, 84, 175] @ replicate 115 (- 1)"

definition demo_enter :: "s64 \<Rightarrow> sys_enter_ctx" where
  "demo_enter nr = \<lparr>enter_id = nr, args = \<lambda>i. of_nat i + 1000\<rparr>"

definition demo_exit :: "s64 \<Rightarrow> sys_exit_ctx" where
  "demo_exit nr = \<lparr>exit_id = nr, exit_ret = 0\<rparr>"

lemma demo_list_length: "length demo_list = 120"
  by (simp add: demo_list_def)

lemma close_enter_listed: "(''close'', trace_sys_enter_close, \<lambda>K ctx. unchanged) \<in> set enter_programs"
  by (simp add: table_defs)

lemma close_exit_listed: "(''close'', trace_sys_exit_close, \<lambda>K ctx. unchanged) \<in> set exit_programs"
  by (simp add: table_defs)

lemma demo_key: "activation_key demo_kernel = \<lparr>key_pid = 42, key_tid = 43, key_pid_namespace = 7\<rparr>"
  by (simp add: activation_key_def get_map_key_def task_snapshot_def demo_kernel_def Let_def
      zero_task_def)

lemma demo_task [simp]:
  "cur_task demo_kernel = Some \<lparr>task_pid_ns = 7, task_mnt_ns = 8, task_parent_tgid = 1\<rparr>"
  by (simp add: demo_kernel_def)

lemma demo_ns [simp]: "activation_ns demo_kernel = 7"
  by (simp add: activation_ns_def demo_kernel_def)

definition demo_state :: monitor where
  "demo_state = initial\<lparr>shared := syscall_array_update
     (\<lambda>a. snd (bpf_map_update_elem policy_max_entries 7 demo_list a)) (shared initial)\<rparr>"

definition demo_after_enter :: monitor where
  "demo_after_enter = demo_state\<lparr>shared :=
     exec_state (trace_sys_enter_close demo_kernel (demo_enter 3)) (shared demo_state)\<rparr>"

definition demo_after_exit :: monitor where
  "demo_after_exit = demo_after_enter\<lparr>shared :=
     exec_state (trace_sys_exit_close demo_kernel (demo_exit 3)) (shared demo_after_enter)\<rparr>"

lemma demo_step_policy: "step initial (Set_policy 7 demo_list) demo_state"
  by (simp add: demo_list_length demo_state_def)

lemma demo_step_enter:
  "step demo_state (Enter ''close'' demo_kernel (demo_enter 3)) demo_after_enter"
  unfolding demo_after_enter_def by (rule step.enter [OF close_enter_listed])

lemma demo_step_exit:
  "step demo_after_enter (Exit ''close'' demo_kernel (demo_exit 3)) demo_after_exit"
  unfolding demo_after_exit_def by (rule step.exit [OF close_exit_listed])

lemma demo_run2: "run initial [Set_policy 7 demo_list, Enter ''close'' demo_kernel (demo_enter 3)] demo_after_enter"
  using run_snoc [OF run_snoc [OF run_nil demo_step_policy] demo_step_enter] by simp

lemma demo_run3: "run initial [Set_policy 7 demo_list, Enter ''close'' demo_kernel (demo_enter 3),
    Exit ''close'' demo_kernel (demo_exit 3)] demo_after_exit"
  using run_snoc [OF demo_run2 demo_step_exit] by simp

text \<open>Both activations were selected and logged.\<close>

lemma demo_lookup:
  "bpf_map_lookup_elem (syscall_array (shared demo_state)) 7 = Some demo_list"
  by (simp add: demo_state_def initial_def bpf_map_update_elem_def bpf_map_lookup_elem_def
      policy_max_entries_def)

lemma demo_selected: "scan_syscalls 120 demo_list 3"
  by (simp add: demo_list_def scan_syscalls_iff)

lemma demo_selected_steps:
  "selected demo_kernel True 3 (shared demo_state)"
  "selected demo_kernel False 3 (shared demo_after_enter)"
proof -
  have logged: "logged demo_kernel True 3 (shared demo_state) (shared demo_after_enter)"
    using step_activation [OF demo_step_enter] by (simp add: demo_enter_def)
  then have "syscall_array (shared demo_after_enter) = syscall_array (shared demo_state)"
    by (simp add: logged_def)
  then show "selected demo_kernel True 3 (shared demo_state)"
    "selected demo_kernel False 3 (shared demo_after_enter)"
    by (simp_all add: selected_def should_log_def demo_lookup demo_selected)
qed

lemma demo_reserves: "\<forall>n. rb_reserve demo_kernel n \<noteq> None"
  by (simp add: demo_kernel_def)

lemma demo_history_length: "length (history demo_after_exit) = 2"
proof -
  have "history demo_state = []" by (simp add: demo_state_def initial_def history_def)
  moreover obtain e where "history demo_after_enter = history demo_state @ [e]"
    using step_complete [OF demo_step_enter _ _ demo_reserves] demo_selected_steps
    by (auto simp: demo_enter_def)
  moreover obtain e where "history demo_after_exit = history demo_after_enter @ [e]"
    using step_complete [OF demo_step_exit _ _ demo_reserves] demo_selected_steps
    by (auto simp: demo_exit_def)
  ultimately show ?thesis by simp
qed

text \<open>Any entry program with a listed number submits a record from the loaded policy on.\<close>

lemma demo_entry_record:
  assumes "(n, p, A) \<in> set enter_programs" and "scan_syscalls 120 demo_list (ucast (enter_id ctx))"
  shows "\<exists>e. rb (exec_state (p demo_kernel ctx) (shared demo_state)) = rb (shared demo_state) @ [e]"
proof -
  have "selected demo_kernel True (ucast (enter_id ctx)) (shared demo_state)"
    using assms(2) by (simp add: selected_def should_log_def demo_lookup)
  with step_complete [OF step.enter [OF assms(1), of demo_state demo_kernel ctx] _ _ demo_reserves]
  show ?thesis by (auto simp: history_def)
qed

subsection \<open>Accepting a connection\<close>

definition demo_peer :: sockaddr_in where
  "demo_peer = \<lparr>sin_family = 2, sin_port = 0x901F, s_addr = 0x0100007F\<rparr>"

definition demo_net_kernel :: kernel where
  "demo_net_kernel = demo_kernel\<lparr>read_user := \<lambda>_ p sz _. (0, take sz (encode_sockaddr_in demo_peer))\<rparr>"

definition demo_accepting :: monitor where
  "demo_accepting = demo_state\<lparr>shared :=
     exec_state (trace_sys_enter_accept demo_net_kernel (demo_enter 43)) (shared demo_state)\<rparr>"

definition demo_accepted :: monitor where
  "demo_accepted = demo_accepting\<lparr>shared :=
     exec_state (trace_sys_exit_accept demo_net_kernel (demo_exit 43)) (shared demo_accepting)\<rparr>"

lemma demo_step_accept:
  "step demo_state (Enter ''accept'' demo_net_kernel (demo_enter 43)) demo_accepting"
  unfolding demo_accepting_def by (rule step.enter [OF accept.enter_listed])

lemma demo_step_accepted:
  "step demo_accepting (Exit ''accept'' demo_net_kernel (demo_exit 43)) demo_accepted"
  unfolding demo_accepted_def by (rule step.exit [OF accept.exit_listed])

lemma demo_run_accept:
  "run initial [Set_policy 7 demo_list, Enter ''accept'' demo_net_kernel (demo_enter 43)] demo_accepting"
  using run_snoc [OF run_snoc [OF run_nil demo_step_policy] demo_step_accept] by simp

lemma demo_peer_memory: "memory_holds demo_net_kernel p (encode_sockaddr_in demo_peer)"
  by (simp add: memory_holds_def demo_net_kernel_def)

lemma demo_net_same [simp]:
  "activation_ns demo_net_kernel = 7" "rb_reserve demo_net_kernel n = Some demo_record"
  by (simp_all add: activation_ns_def demo_net_kernel_def demo_kernel_def)

lemma demo_accept_selected: "selected demo_net_kernel False 43 (shared demo_accepting)"
proof -
  have "logged demo_net_kernel True (ucast (43 :: s64)) (shared demo_state) (shared demo_accepting)"
    using step_activation [OF demo_step_accept] by (simp add: demo_enter_def)
  then have "syscall_array (shared demo_accepting) = syscall_array (shared demo_state)"
    by (simp add: logged_def)
  then show ?thesis
    by (simp add: selected_def should_log_def demo_lookup) (simp add: demo_list_def scan_syscalls_iff)
qed

lemma demo_state_room: "\<not> hmap_full args_max_entries (accept_args_map (amaps (shared demo_state)))"
  by (simp add: demo_state_def initial_def empty_maps_def hmap_full_def args_max_entries_def)

subsection \<open>Many threads, each accepting once\<close>

text \<open>Thread \<open>i\<close> enters and leaves \<open>accept4\<close>.\<close>

definition thread_kernel :: "nat \<Rightarrow> kernel" where
  "thread_kernel i = demo_kernel\<lparr>cur_pid_tgid := of_nat i\<rparr>"

definition accept4_call :: "nat \<Rightarrow> action list" where
  "accept4_call i = [Enter ''accept4'' (thread_kernel i) (demo_enter 288),
     Exit ''accept4'' (thread_kernel i) (demo_exit 288)]"

lemma thread_key: "activation_key (thread_kernel i) =
    \<lparr>key_pid = ucast (drop_bit 32 (of_nat i :: u64)), key_tid = of_nat i, key_pid_namespace = 7\<rparr>"
  by (simp add: activation_key_def get_map_key_def task_snapshot_def thread_kernel_def demo_kernel_def
      Let_def zero_task_def) (simp add: unsigned_of_nat word_of_nat_eq_iff)

lemma thread_key_eq:
  "i < 2 ^ 32 \<Longrightarrow> j < 2 ^ 32 \<Longrightarrow> activation_key (thread_kernel i) = activation_key (thread_kernel j)
   \<longleftrightarrow> i = j"
  by (auto simp: thread_key word_of_nat_eq_iff take_bit_nat_eq_self)

text \<open>After \<open>n\<close> complete calls by \<open>n\<close> threads, none of which is still inside the call, \<open>n\<close> entries
  are left.\<close>

lemma accept4_map_fills:
  "n \<le> args_max_entries \<Longrightarrow> \<exists>m. run initial (concat (map accept4_call [0..<n])) m \<and>
     length (accept4_args_map (amaps (shared m))) = n \<and>
     (\<forall>k. accept4.entry k m \<noteq> None \<longrightarrow> k \<in> (\<lambda>i. activation_key (thread_kernel i)) ` {0..<n})"
proof (induction n)
  case 0
  then show ?case
    by (intro exI [of _ initial])
      (simp add: run_nil initial_def empty_maps_def accept4.entry_def bpf_map_lookup_elem_def)
next
  case (Suc n)
  let ?K = "thread_kernel n" and ?keys = "\<lambda>n. (\<lambda>i. activation_key (thread_kernel i)) ` {0..<n}"
  from Suc obtain m where m: "run initial (concat (map accept4_call [0..<n])) m"
    and len: "length (accept4_args_map (amaps (shared m))) = n"
    and keys: "\<And>k. accept4.entry k m \<noteq> None \<Longrightarrow> k \<in> ?keys n" by auto
  define m1 where "m1 = m\<lparr>shared := exec_state (trace_sys_enter_accept4 ?K (demo_enter 288)) (shared m)\<rparr>"
  define m2 where "m2 = m1\<lparr>shared := exec_state (trace_sys_exit_accept4 ?K (demo_exit 288)) (shared m1)\<rparr>"
  have s1: "step m (Enter ''accept4'' ?K (demo_enter 288)) m1"
    unfolding m1_def by (rule step.enter [OF accept4.enter_listed])
  have s2: "step m1 (Exit ''accept4'' ?K (demo_exit 288)) m2"
    unfolding m2_def by (rule step.exit [OF accept4_exit_listed])
  have "activation_key ?K \<notin> ?keys n"
    using Suc.prems by (auto simp: thread_key_eq args_max_entries_def)
  with keys have fresh: "accept4.entry (activation_key ?K) m = None" by blast
  have "length (accept4_args_map (amaps (shared m1))) = Suc n"
    using accept4.call_uses_place [OF s1 fresh] Suc.prems by (simp add: len)
  moreover have same: "accept4_args_map (amaps (shared m2)) = accept4_args_map (amaps (shared m1))"
    using exit_step_of(2) [OF accept4_exit_listed s2] by (simp add: dropped_def)
  moreover have "k \<in> ?keys (Suc n)" if "accept4.entry k m2 \<noteq> None" for k
  proof (cases "k = activation_key ?K")
    case False
    have "accept4.entry k m1 \<noteq> None" using that by (simp add: accept4.entry_def same)
    moreover have "bpf_map_lookup_elem (accept4_args_map (amaps (shared m1))) k =
        bpf_map_lookup_elem (accept4_args_map (amaps (shared m))) k"
      using enter_step_of(2) [OF accept4.enter_listed s1] False
      by (simp add: stored_def hash.lookup_update_other)
    ultimately have "k \<in> ?keys n" using keys by (simp add: accept4.entry_def)
    then show ?thesis by auto
  qed simp
  moreover have "run initial (concat (map accept4_call [0..<Suc n])) m2"
    using run_snoc [OF run_snoc [OF m s1] s2] by (simp add: accept4_call_def)
  ultimately show ?case by auto
qed

subsection \<open>System call numbers and a policy\<close>

definition demo_ustr :: "u64 \<Rightarrow> nat \<Rightarrow> u8 list option" where
  "demo_ustr p sz = Some []"

lemma demo_strings: "strings_at demo_kernel demo_ustr"
  by (simp add: strings_at_def demo_ustr_def demo_kernel_def)

text \<open>A number for every name: \<open>close\<close> has 3 as on x86-64, the others their place in the table.\<close>

definition demo_nr :: "string \<Rightarrow> s32" where
  "demo_nr n = (if n = ''close'' then 3
     else of_nat (1000 + length (takeWhile (\<lambda>m. m \<noteq> n) (map fst event_handlers))))"

lemma place_inj:
  "n \<in> set xs \<Longrightarrow> m \<in> set xs \<Longrightarrow>
   length (takeWhile (\<lambda>x. x \<noteq> n) xs) = length (takeWhile (\<lambda>x. x \<noteq> m) xs) \<Longrightarrow> n = m"
  by (induction xs) (auto split: if_splits)

lemma place_less: "n \<in> set xs \<Longrightarrow> length (takeWhile (\<lambda>x. x \<noteq> n) xs) < length xs"
  by (induction xs) auto

lemma demo_nr_inj: "inj_on demo_nr (fst ` set event_handlers)"
proof (rule inj_onI)
  fix n m assume nm: "n \<in> fst ` set event_handlers" "m \<in> fst ` set event_handlers" "demo_nr n = demo_nr m"
  define place where "place n = length (takeWhile (\<lambda>m. m \<noteq> n) (map fst event_handlers))" for n :: string
  have less: "place k < 164" if "k \<in> fst ` set event_handlers" for k
    using place_less [of k "map fst event_handlers"] that event_handlers_count by (simp add: place_def)
  have inj: "(of_nat (1000 + place n) :: s32) = of_nat (1000 + place m) \<Longrightarrow> n = m"
    using less [OF nm(1)] less [OF nm(2)] place_inj [of n "map fst event_handlers" m] nm(1,2)
    by (simp add: word_of_nat_eq_iff take_bit_nat_eq_self place_def)
  have three: "(of_nat (1000 + place k) :: s32) \<noteq> 3" if "k \<in> fst ` set event_handlers" for k
  proof -
    have "(of_nat (1000 + place k) :: s32) \<noteq> of_nat 3"
      using less [OF that] by (subst word_of_nat_eq_iff) (simp add: take_bit_nat_eq_self)
    then show ?thesis by simp
  qed
  from nm(3) inj three [OF nm(1)] three [OF nm(2)] show "n = m"
    unfolding demo_nr_def place_def [symmetric] by (auto split: if_splits)
qed

lemma demo_close_row:
  "(''close'', trace_sys_enter_close, [S32 0 0], handle_enter_close, [(0, Number I32 0)]) \<in> set log_rows"
  by (simp add: log_rows_def net_log_rows_def)

lemma demo_close_handlers: "(''close'', handle_enter_close, handle_exit_close) \<in> set event_handlers"
  by (simp add: handler_tables)

lemma demo_nr_close [simp]: "demo_nr ''close'' = 3"
  by (simp add: demo_nr_def)

text \<open>One running container that the policy names.\<close>

definition demo_container :: container where
  "demo_container = \<lparr>c_id = ''c0'', c_name = ''web'', c_pid = 10, c_ns_id = 0,
     c_syscalls = [''__NR_close'', ''__NR_typo'']\<rparr>"

definition demo_loader :: loader where
  "demo_loader = \<lparr>syscall_map = [], monitored_namespaces = {}, running = []\<rparr>"

lemma demo_selected_syscalls: "selected_syscalls demo_nr (c_syscalls demo_container) = [3]"
proof -
  have "''__NR_close'' \<in> set tracepoint_names" "''__NR_typo'' \<notin> set tracepoint_names"
    by (simp_all add: tracepoint_names_def)
  then show ?thesis
    by (simp add: selected_syscalls_def string_to_syscalls_def tracepoints_map_def demo_container_def)
qed

lemma demo_loader_ok: "loader_ok demo_loader"
  by (simp add: loader_ok_def demo_loader_def should_log_def bpf_map_lookup_elem_def)

text \<open>A consumer without containers.\<close>

definition demo_env :: log_env where
  "demo_env = \<lparr>boot_time = 0, containers = [], inet_ntop6 = (\<lambda>_. []),
     blank_event = \<lparr>db_timestamp = 0, db_container_name = [], db_syscall = 0, db_is_enter = False,
       db_pid_namespace = 0, db_mnt_namespace = 0, db_ppid = 0, db_pid = 0, db_tid = 0, db_uid = 0,
       db_gid = 0, db_ret = 0, db_comm = [], arg0 = [], arg1 = [], arg2 = [], arg3 = [], arg4 = [],
       arg5 = []\<rparr>\<rparr>"

end
