(* ===== verification/Lsm_Example.thy ===== *)
theory Lsm_Example
  imports Lsm_Effect
begin

unbundle bit_operations_syntax

section \<open>LSM enforcement: a policy, a container and a task\<close>

text \<open>
  Concrete inputs of the hooks and the loader: a container in the namespaces 7 and 8 whose policy
  forbids to read below \<open>/etc/\<close> and to connect to 127.0.0.1 on port 80, and one of its tasks.
\<close>

definition padded :: "nat \<Rightarrow> string \<Rightarrow> u8 list" where
  "padded n s = map (\<lambda>c. of_nat (of_char c)) s @ replicate (n - length s) 0"

definition demo_lsm_event :: lsm_event where
  "demo_lsm_event = \<lparr>le_ts = 0, le_pid_id = 0, le_mnt_id = 0, le_host_ppid = 0, le_host_pid = 0,
     le_ppid = 0, le_pid = 0, le_uid = 0, le_cgroup_id = 0, le_event_id = SECID_CAPABLE, le_retval = 0,
     le_comm = padded 16 ''old'', le_path = padded 256 ''/old'', le_source = padded 256 ''secret''\<rparr>"

definition demo_lsm_task :: lsm_task where
  "demo_lsm_task = \<lparr>lt_pid_ns = 7, lt_mnt_ns = 8, lt_parent_tgid = 90, lt_leader_vnr = 1, lt_parent_vnr = 0\<rparr>"

definition demo_lsm_kernel :: lsm_kernel where
  "demo_lsm_kernel = \<lparr>lk_task = Some demo_lsm_task, lk_pid_tgid = push_bit 32 100, lk_uid_gid = push_bit 32 50,
     lk_ktime = 5, lk_cgroup = 3, lk_comm = padded 16 ''cat'', lk_reserve = Some demo_lsm_event,
     lk_d_path = (\<lambda>_. (0, padded 256 ''/etc/passwd'')), lk_name = (\<lambda>_. (0, padded 256 ''passwd'')),
     lk_mm = True, lk_exe_inner = True, lk_exe_garbage = False, lk_exe_dentry = True,
     lk_exe_name = (\<lambda>_ b. b)\<rparr>"

definition demo_yaml :: yaml_lsm where
  "demo_yaml = \<lparr>
     y_file = [\<lparr>yf_path = ''/etc/'', yf_flags = [''POLICY_FILE_READ'', ''POLICY_RECURSIVE''], yf_uid = []\<rparr>],
     y_network = [\<lparr>yn_ip = ''127.0.0.1'', yn_port = 80, yn_protocol = 6,
        yn_flags = [''POLICY_NET_CONNECT''], yn_uid = []\<rparr>],
     y_process = []\<rparr>"

definition demo_lsm_container :: lsm_container where
  "demo_lsm_container = \<lparr>lc_name = ''web'', lc_pid = 10, lc_policies = demo_yaml\<rparr>"

definition demo_key_of :: "int \<Rightarrow> policy_key" where
  "demo_key_of pid = \<lparr>pid_ns_id = 7, mnt_ns_id = 8\<rparr>"

definition demo_garbage :: policy_value where
  "demo_garbage = \<lparr>num_file_policies = 0, num_network_policies = 0, num_process_policies = 0,
     file_policies = replicate 64 \<lparr>fp_path = replicate 256 0, fp_uid = replicate 30 0, fp_flags = 0\<rparr>,
     network_policies = replicate 64 no_network,
     process_policies = replicate 64 \<lparr>pp_comm = replicate 16 0, pp_uid = replicate 30 0, pp_flags = 0\<rparr>,
     pv_source = replicate 256 0\<rparr>"

definition demo_ring :: ring where
  "demo_ring = \<lparr>submitted = [], discarded = 0, lsm_outstanding = 0\<rparr>"

lemma demo_garbage_shape: "value_shape demo_garbage"
  by (simp add: value_shape_def demo_garbage_def)

lemma demo_policy_fits: "policy_fits demo_yaml"
proof -
  have "parse_ip ''127.0.0.1'' \<noteq> None" by (simp add: parse_ip_def)
  then show ?thesis
    by (simp add: policy_fits_def demo_yaml_def file_fits_def network_fits_def c_str_def cstr_def)
qed

lemma demo_eligible: "eligible demo_key_of demo_lsm_container"
  by (simp add: eligible_def demo_key_of_def demo_lsm_container_def)

lemma demo_buffers: "buffers_ok demo_lsm_kernel demo_lsm_event"
  by (simp add: buffers_ok_def demo_lsm_kernel_def padded_def)

lemma demo_lsm_simps [simp]:
  "lk_task demo_lsm_kernel = Some demo_lsm_task"
  "lk_reserve demo_lsm_kernel = Some demo_lsm_event"
  "task_policy_key demo_lsm_kernel = demo_key_of (lc_pid demo_lsm_container)"
  by (simp_all add: demo_lsm_kernel_def demo_lsm_task_def demo_lsm_container_def demo_key_of_def
      task_policy_key_def)

lemma cstr_padded: "cstr (padded n s) = c_str s"
proof -
  have "takeWhile (\<lambda>c. c \<noteq> 0) (xs @ replicate k 0) = takeWhile (\<lambda>c. c \<noteq> 0) xs" for xs :: "u8 list" and k
    by (induction xs) (cases k, auto)
  then show ?thesis by (simp add: padded_def cstr_def c_str_def)
qed

text \<open>The path is below the directory, the rule applies, and the open for reading is refused.\<close>

lemma demo_etc_accepted: "accepts True (c_str ''/etc/'') (cstr (padded 256 ''/etc/passwd''))"
  unfolding cstr_padded by (simp add: accepts_def c_str_def cstr_def strict_prefix_def)

lemma demo_open_flags:
  "yaml_matched demo_yaml (File_open 0) demo_lsm_kernel demo_lsm_event =
     flags_of [''POLICY_FILE_READ'', ''POLICY_RECURSIVE'']"
  by (simp add: yaml_file_flags_def demo_yaml_def demo_lsm_kernel_def demo_etc_accepted)

lemma demo_open_bits:
  "has (flags_of [''POLICY_FILE_READ'', ''POLICY_RECURSIVE'']) POLICY_FILE_READ"
  "\<not> has (flags_of [''POLICY_FILE_READ'', ''POLICY_RECURSIVE'']) POLICY_AUDIT"
  using has_flags_of [of "''POLICY_FILE_READ''"] has_flags_of [of "''POLICY_AUDIT''"]
  by (simp_all add: flags_map_def)

lemma demo_open_refused:
  "fst (verdict (File_open 0) (yaml_matched demo_yaml (File_open 0) demo_lsm_kernel demo_lsm_event)) = - 1"
  unfolding demo_open_flags by (simp add: demo_open_bits black_def has_0)

text \<open>A map whose only rule allows to delete \<open>/etc/passwd\<close> and asks for an audit.\<close>

definition demo_audit_rule :: file_policy where
  "demo_audit_rule = \<lparr>fp_path = padded 256 ''/etc/passwd'', fp_uid = [], fp_flags = POLICY_AUDIT OR POLICY_FILE_DELETE\<rparr>"

definition demo_audit_map :: policy_map where
  "demo_audit_map = [(demo_key_of 10, demo_garbage\<lparr>num_file_policies := 1, file_policies := [demo_audit_rule]\<rparr>)]"

lemma demo_audit_value:
  "bpf_map_lookup_elem demo_audit_map (task_policy_key demo_lsm_kernel) =
     Some (demo_garbage\<lparr>num_file_policies := 1, file_policies := [demo_audit_rule]\<rparr>)"
  by (simp add: demo_audit_map_def bpf_map_lookup_elem_def demo_key_of_def)

lemma demo_audit_monitored: "should_monitor demo_audit_map demo_lsm_kernel (hook_type Path_unlink)"
  unfolding should_monitor_def demo_audit_value by simp

lemma demo_audit_matched: "matched Path_unlink demo_audit_map demo_lsm_kernel demo_lsm_event = POLICY_AUDIT OR POLICY_FILE_DELETE"
proof -
  have path: "snd (lk_d_path demo_lsm_kernel (le_path demo_lsm_event)) = padded 256 ''/etc/passwd''"
    by (simp add: demo_lsm_kernel_def)
  have "file_rule_ok demo_audit_rule" by (simp add: file_rule_ok_def demo_audit_rule_def padded_def)
  then have "first_file [demo_audit_rule] (padded 256 ''/etc/passwd'') = POLICY_AUDIT OR POLICY_FILE_DELETE"
    using first_file_find [of "[demo_audit_rule]" "padded 256 ''/etc/passwd''"]
    by (simp add: demo_audit_rule_def rule_names_path_def accepts_def file_rule_ok_def)
  then show ?thesis
    unfolding matched.simps path match_file_def demo_audit_value by (simp add: considered_def)
qed

lemma demo_audit_flags:
  "has (matched Path_unlink demo_audit_map demo_lsm_kernel demo_lsm_event) POLICY_AUDIT"
  "has (matched Path_unlink demo_audit_map demo_lsm_kernel demo_lsm_event) POLICY_FILE_DELETE"
  unfolding demo_audit_matched by (simp_all add: has_def POLICY_AUDIT_def POLICY_FILE_DELETE_def)

lemma demo_audit_reported:
  "snd (verdict Path_unlink (matched Path_unlink demo_audit_map demo_lsm_kernel demo_lsm_event))"
  unfolding verdict.simps white_def using demo_audit_flags by (simp only: if_True snd_conv)

end
