(* ===== verification/Lsm_Report.thy ===== *)
theory Lsm_Report
  imports Lsm_Example Text_Format
begin

unbundle bit_operations_syntax

section \<open>LSM enforcement: reporting an event\<close>

text \<open>
  \<open>print_event\<close> of \<open>enforcement.cpp\<close> and \<open>KafkaProducer::send\<close>: an event of the ring buffer becomes
  one message.  The clock (\<open>sysinfo\<close> and \<open>time\<close>), \<open>localtime\<close> with \<open>strftime\<close>, and whether
  \<open>rd_kafka_produce\<close> accepts a message are arguments.
\<close>

subsection \<open>The message\<close>

text \<open>An enumerator is printed as its number.\<close>

fun section_number :: "section_nr \<Rightarrow> int" where
  "section_number SECID_BPRM_CHECK_SECURITY = 0"
| "section_number SECID_TASK_FIX_SETUID = 1"
| "section_number SECID_FILE_PERMISSION = 2"
| "section_number SECID_FILE_OPEN = 3"
| "section_number SECID_FILE_CREATE = 4"
| "section_number SECID_PATH_UNLINK = 5"
| "section_number SECID_PATH_MKDIR = 6"
| "section_number SECID_PATH_RENAME = 7"
| "section_number SECID_SOCKET_CONNECT = 8"
| "section_number SECID_SOCKET_RECVMSG = 9"
| "section_number SECID_CAPABLE = 10"
| "section_number SECID_PATH_MKNOD = 11"
| "section_number SECID_PATH_RMDIR = 12"
| "section_number SECID_PATH_SYMLINK = 13"
| "section_number SECID_PATH_LINK = 14"
| "section_number SECID_PATH_CHMOD = 15"
| "section_number SECID_PATH_TRUNCATE = 16"
| "section_number SECID_MMAP_FILE = 17"
| "section_number SECID_SB_MOUNT = 18"
| "section_number SECID_SB_REMOUNT = 19"
| "section_number SECID_SB_UMOUNT = 20"
| "section_number SECID_KERNEL_MODULE_REQUEST = 21"
| "section_number SECID_KERNEL_READ_FILE = 22"
| "section_number SECID_BPRM_CREDS_FROM_FILE = 23"

lemma section_number_inj: "section_number a = section_number b \<longleftrightarrow> a = b"
  by (cases a; cases b) simp_all

text \<open>The three strings lie one after the other, so one that is not terminated runs into the next.\<close>

definition comm_text :: "lsm_event \<Rightarrow> string" where
  "comm_text e = c_string (le_comm e @ le_path e @ le_source e)"

definition path_text :: "lsm_event \<Rightarrow> string" where
  "path_text e = c_string (le_path e @ le_source e)"

definition source_text :: "lsm_event \<Rightarrow> string" where
  "source_text e = c_string (le_source e)"

definition json_number :: "'a::len word \<Rightarrow> string" where
  "json_number w = to_string (uint w)"

definition event_data :: "string \<Rightarrow> lsm_event \<Rightarrow> string" where
  "event_data timestamp e =
     ''{\"timestamp\":\"'' @ timestamp @ ''.'' @ json_number (le_ts e mod 1000000000) @ ''\",''
     @ ''\"container_id\":{\"pid_ns\":'' @ json_number (le_pid_id e) @ '',\"mnt_ns\":'' @ json_number (le_mnt_id e) @ ''},''
     @ ''\"process\":{\"host_ppid\":'' @ json_number (le_host_ppid e) @ '',\"host_pid\":'' @ json_number (le_host_pid e)
     @ '',\"ppid\":'' @ json_number (le_ppid e) @ '',\"pid\":'' @ json_number (le_pid e) @ '',\"uid\":'' @ json_number (le_uid e) @ ''},''
     @ ''\"cgroup_id\":'' @ json_number (le_cgroup_id e) @ '',''
     @ ''\"event_id\":'' @ to_string (section_number (le_event_id e)) @ '',''
     @ ''\"return_value\":'' @ to_string (le_retval e) @ '',''
     @ ''\"command\":\"'' @ comm_text e @ ''\",''
     @ ''\"data\":{\"path\":\"'' @ path_text e @ ''\",\"source\":\"'' @ source_text e @ ''\"}}''"

record host =
  h_uptime :: "int option"
  h_time :: int
  h_strftime :: "int \<Rightarrow> string option"

definition event_time :: "host \<Rightarrow> int \<Rightarrow> lsm_event \<Rightarrow> int" where
  "event_time h uptime e = uint (le_ts e div 1000000000) + (h_time h - uptime)"

text \<open>\<open>KafkaProducer::send\<close>: \<open>topic\<close> is whether the topic object exists.  The queue is the list of the
  messages that were accepted.\<close>

definition kafka_send :: "bool \<Rightarrow> (string \<Rightarrow> bool) \<Rightarrow> string \<Rightarrow> string list \<Rightarrow> bool \<times> string list" where
  "kafka_send topic accepts_msg message queue =
     (if \<not> topic then (False, queue)
      else if \<not> accepts_msg message then (False, queue)
      else (True, queue @ [message]))"

text \<open>\<open>producer\<close> is \<open>None\<close> when the shared pointer is empty.\<close>

definition print_event ::
  "host \<Rightarrow> bool option \<Rightarrow> (string \<Rightarrow> bool) \<Rightarrow> lsm_event \<Rightarrow> string list \<Rightarrow> int \<times> string list" where
  "print_event h producer accepts_msg e queue =
     (case h_uptime h of
        None \<Rightarrow> (- 1, queue)
      | Some uptime \<Rightarrow>
          (case h_strftime h (event_time h uptime e) of
             None \<Rightarrow> (- 1, queue)
           | Some timestamp \<Rightarrow>
               (case producer of
                  None \<Rightarrow> (- 1, queue)
                | Some topic \<Rightarrow>
                    (let (sent, queue') = kafka_send topic accepts_msg (event_data timestamp e) queue
                     in (if sent then 0 else - 1, queue')))))"

subsection \<open>Reading a message\<close>

definition plain :: "char \<Rightarrow> bool" where
  "plain c \<longleftrightarrow> c \<noteq> CHR 0x22"

text \<open>What a message says of an event.\<close>

definition reported ::
  "lsm_event \<Rightarrow> u64 \<times> (u32 \<times> u32) \<times> (u32 \<times> u32 \<times> u32 \<times> u32 \<times> u32) \<times> u64 \<times> section_nr \<times> int \<times> string \<times> string \<times> string" where
  "reported e = (le_ts e mod 1000000000, (le_pid_id e, le_mnt_id e),
     (le_host_ppid e, le_host_pid e, le_ppid e, le_pid e, le_uid e), le_cgroup_id e, le_event_id e,
     le_retval e, comm_text e, path_text e, source_text e)"

lemma number_field_eq:
  assumes "\<not> is_digit c" and "c \<noteq> CHR ''-''" and "\<not> is_digit d" and "d \<noteq> CHR ''-''"
  shows "json_number v @ c # xs = json_number w @ d # ys \<longleftrightarrow> v = w \<and> c = d \<and> xs = ys"
  using to_string_field_eq [OF assms] by (simp add: json_number_def word_uint_eq_iff)

lemma plain_field_eq:
  assumes "list_all plain u" and "list_all plain v"
  shows "u @ CHR 0x22 # xs = v @ CHR 0x22 # ys \<longleftrightarrow> u = v \<and> xs = ys"
  using text_field_eq [OF assms, of "CHR 0x22" "CHR 0x22"] by (simp add: plain_def)

lemma no_dot_field_eq:
  assumes "CHR ''.'' \<notin> set u" and "CHR ''.'' \<notin> set v"
  shows "u @ CHR ''.'' # xs = v @ CHR ''.'' # ys \<longleftrightarrow> u = v \<and> xs = ys"
  using text_field_eq [of "\<lambda>c. c \<noteq> CHR ''.''" u v "CHR ''.''" "CHR ''.''" xs ys] assms
  by (auto simp: list_all_iff)

lemma event_data_determines:
  assumes "CHR ''.'' \<notin> set s" and "CHR ''.'' \<notin> set t"
    and "list_all plain (comm_text e @ path_text e @ source_text e)"
    and "list_all plain (comm_text d @ path_text d @ source_text d)"
    and "event_data s e = event_data t d"
  shows "s = t \<and> reported e = reported d"
proof -
  have plain: "list_all plain (comm_text e)" "list_all plain (path_text e)" "list_all plain (source_text e)"
    "list_all plain (comm_text d)" "list_all plain (path_text d)" "list_all plain (source_text d)"
    using assms(3,4) by simp_all
  from assms(5) show ?thesis
    unfolding event_data_def reported_def
    by (simp add: number_field_eq to_string_field_eq plain_field_eq [OF plain(1,4)]
        plain_field_eq [OF plain(2,5)] plain_field_eq [OF plain(3,6)] no_dot_field_eq [OF assms(1,2)]
        section_number_inj is_digit_def)
qed

subsection \<open>From the hook to the message\<close>

lemma print_event_sends:
  assumes "h_uptime h = Some uptime" and "h_strftime h (event_time h uptime e) = Some timestamp"
    and "accepts_msg (event_data timestamp e)"
  shows "print_event h (Some True) accepts_msg e queue = (0, queue @ [event_data timestamp e])"
  using assms by (simp add: print_event_def kafka_send_def)

text \<open>How a consumer reads a member: what follows the first \<open>"name":\<close>, up to the first character that
  cannot belong to a number, respectively up to the closing quotation mark.\<close>

fun after :: "string \<Rightarrow> string \<Rightarrow> string option" where
  "after pat [] = (if pat = [] then Some [] else None)"
| "after pat (c # cs) = (if prefix pat (c # cs) then Some (drop (length pat) (c # cs)) else after pat cs)"

definition number_char :: "char \<Rightarrow> bool" where
  "number_char c \<longleftrightarrow> is_digit c \<or> c = CHR ''-''"

definition number_member :: "string \<Rightarrow> string \<Rightarrow> int option" where
  "number_member name msg =
     map_option (\<lambda>s. of_string (takeWhile number_char s)) (after (''\"'' @ name @ ''\":'') msg)"

definition text_member :: "string \<Rightarrow> string \<Rightarrow> string option" where
  "text_member name msg = map_option (takeWhile plain) (after (''\"'' @ name @ ''\":\"'') msg)"

lemma after_skip: "list_all plain u \<Longrightarrow> after (CHR 0x22 # pat) (u @ rest) = after (CHR 0x22 # pat) rest"
  by (induction u) (auto simp: plain_def)

lemma number_plain: "list_all plain (to_string i)"
  using to_string_chars [of i] by (auto simp: list_all_iff plain_def is_digit_def)

lemma after_number:
  "after (CHR 0x22 # pat) (to_string i @ rest) = after (CHR 0x22 # pat) rest"
  "after (CHR 0x22 # pat) (json_number w @ rest) = after (CHR 0x22 # pat) rest"
  by (simp_all add: after_skip number_plain json_number_def)

lemma read_number: "\<not> number_char c \<Longrightarrow> of_string (takeWhile number_char (to_string i @ c # rest)) = i"
proof -
  assume "\<not> number_char c"
  then have "takeWhile number_char (to_string i @ c # rest) = to_string i"
    using to_string_chars [of i] by (subst takeWhile_append2) (auto simp: list_all_iff number_char_def)
  then show ?thesis by simp
qed

lemma read_json_number: "\<not> number_char c \<Longrightarrow> of_string (takeWhile number_char (json_number w @ c # rest)) = uint w"
  by (simp add: json_number_def read_number)

lemma number_ends [simp]: "\<not> number_char CHR '',''" "\<not> number_char CHR ''}''"
  by (simp_all add: number_char_def is_digit_def)

text \<open>The characters that \<open>strftime\<close> prints for \<open>%Y-%m-%d %H:%M:%S\<close>.\<close>

definition stamp_char :: "char \<Rightarrow> bool" where
  "stamp_char c \<longleftrightarrow> is_digit c \<or> c \<in> set ''-: ''"

lemma stamp_plain: "list_all stamp_char u \<Longrightarrow> list_all plain u"
  by (auto simp: list_all_iff stamp_char_def plain_def is_digit_def)

lemma name_starts [simp]:
  "\<not> stamp_char CHR ''p''" "\<not> stamp_char CHR ''m''" "\<not> stamp_char CHR ''h''" "\<not> stamp_char CHR ''u''"
  "\<not> stamp_char CHR ''c''" "\<not> stamp_char CHR ''e''" "\<not> stamp_char CHR ''r''"
  by (simp_all add: stamp_char_def is_digit_def)

lemma name_not_in_stamp:
  "list_all stamp_char u \<Longrightarrow> \<not> stamp_char x \<Longrightarrow> x \<noteq> CHR ''.'' \<Longrightarrow> \<not> prefix (x # xs) (u @ CHR ''.'' # rest)"
  by (cases u) auto

text \<open>The numbers of a message, whatever the strings of the event contain.\<close>

lemma message_members:
  assumes "list_all stamp_char timestamp"
  shows "number_member ''pid_ns'' (event_data timestamp e) = Some (uint (le_pid_id e))"
    "number_member ''mnt_ns'' (event_data timestamp e) = Some (uint (le_mnt_id e))"
    "number_member ''host_ppid'' (event_data timestamp e) = Some (uint (le_host_ppid e))"
    "number_member ''host_pid'' (event_data timestamp e) = Some (uint (le_host_pid e))"
    "number_member ''ppid'' (event_data timestamp e) = Some (uint (le_ppid e))"
    "number_member ''pid'' (event_data timestamp e) = Some (uint (le_pid e))"
    "number_member ''uid'' (event_data timestamp e) = Some (uint (le_uid e))"
    "number_member ''cgroup_id'' (event_data timestamp e) = Some (uint (le_cgroup_id e))"
    "number_member ''event_id'' (event_data timestamp e) = Some (section_number (le_event_id e))"
    "number_member ''return_value'' (event_data timestamp e) = Some (le_retval e)"
  by (simp_all add: number_member_def event_data_def after_skip [OF stamp_plain [OF assms]]
      name_not_in_stamp [OF assms] after_number read_number read_json_number)

lemma read_text: "takeWhile plain (u @ CHR 0x22 # rest) = takeWhile plain u"
  by (induction u) (auto simp: plain_def)

lemma name_not_in_text:
  assumes "list_all plain u" and "list_all plain p"
  shows "\<not> prefix (p @ CHR 0x22 # CHR '':'' # q) (u @ CHR 0x22 # CHR '','' # rest)"
  using assms
proof (induction u arbitrary: p)
  case Nil
  then show ?case by (cases p) (auto simp: plain_def)
next
  case (Cons c u)
  then show ?case by (cases p) (auto simp: plain_def)
qed

lemma path_not_in_text:
  "list_all plain u \<Longrightarrow> \<not> prefix ''path\":\"'' (u @ CHR 0x22 # CHR '','' # rest)"
  using name_not_in_text [of u "''path''" "''\"''"] by (simp add: plain_def)

lemma message_texts:
  assumes "list_all stamp_char timestamp"
  shows "text_member ''command'' (event_data timestamp e) = Some (takeWhile plain (comm_text e))"
    "list_all plain (comm_text e) \<Longrightarrow>
     text_member ''path'' (event_data timestamp e) = Some (takeWhile plain (path_text e))"
  by (simp_all add: text_member_def event_data_def after_skip [OF stamp_plain [OF assms]]
      name_not_in_stamp [OF assms] path_not_in_text after_number after_skip read_text)

text \<open>What a message says of a verdict \<open>v\<close> of hook \<open>c\<close> on the task \<open>t\<close>: inside a container (the number
  of the process there differs from its number on the host) the namespaces are those of the task.\<close>

definition tells_verdict :: "lsm_kernel \<Rightarrow> lsm_task \<Rightarrow> hook_call \<Rightarrow> int \<Rightarrow> string \<Rightarrow> bool" where
  "tells_verdict K t c v message \<longleftrightarrow>
     number_member ''event_id'' message = Some (section_number (hook_nr c)) \<and>
     number_member ''return_value'' message = Some v \<and>
     number_member ''host_pid'' message = Some (uint (ucast (drop_bit 32 (lk_pid_tgid K)) :: u32)) \<and>
     number_member ''host_ppid'' message = Some (uint (lt_parent_tgid t)) \<and>
     number_member ''pid'' message = Some (uint (lt_leader_vnr t)) \<and>
     number_member ''uid'' message = Some (uint (ucast (drop_bit 32 (lk_uid_gid K)) :: u32)) \<and>
     number_member ''cgroup_id'' message = Some (uint (lk_cgroup K)) \<and>
     (ucast (drop_bit 32 (lk_pid_tgid K)) \<noteq> lt_leader_vnr t \<longrightarrow>
        number_member ''pid_ns'' message = Some (uint (lt_pid_ns t)) \<and>
        number_member ''mnt_ns'' message = Some (uint (lt_mnt_ns t)) \<and>
        number_member ''ppid'' message = Some (uint (lt_parent_vnr t)))"

lemma message_tells_verdict:
  assumes "list_all stamp_char timestamp" and "describes_task K t e" and "le_event_id e = hook_nr c" and "le_retval e = v"
  shows "tells_verdict K t c v (event_data timestamp e)"
  using assms(2-4) by (auto simp: tells_verdict_def message_members [OF assms(1)] describes_task_def)

text \<open>The path in the report of a hook that is about a path.\<close>

definition names_a_path :: "hook_call \<Rightarrow> bool" where
  "names_a_path c \<longleftrightarrow> c = Path_unlink \<or> c = Path_mkdir \<or> c = Path_rename \<or> (\<exists>fl. c = File_open fl)"

lemma reported_path:
  assumes "lk_reserve K = Some e0" and "names_a_path c"
  shows "\<forall>e \<in> set (reports s (snd (run_hook c pm K s))). le_path e = snd (lk_d_path K (le_path e0))"
  using assms
  by (cases "lk_task K"; cases c)
    (simp_all add: names_a_path_def path_unlink_def path_mkdir_def path_rename_def file_open_def hook_simps reports_def
      case_prod_unfold)

text \<open>A verdict that is to be reported becomes a message about the verdict and the running task.\<close>

lemma verdict_is_sent:
  assumes "lk_reserve K = Some e0" and "lk_task K = Some t" and "should_monitor pm K (hook_type c)"
    and "snd (verdict c (matched c pm K e0))"
    and "h_uptime h = Some uptime" and "\<forall>x. \<exists>timestamp. h_strftime h x = Some timestamp \<and> list_all stamp_char timestamp"
    and "\<forall>m. accepts_msg m"
  shows "\<exists>e message. submitted (snd (run_hook c pm K s)) = submitted s @ [e] \<and>
    print_event h (Some True) accepts_msg e queue = (0, queue @ [message]) \<and>
    tells_verdict K t c (fst (run_hook c pm K s)) message \<and>
    (names_a_path c \<and> list_all plain (comm_text e) \<longrightarrow>
      text_member ''path'' message = Some (takeWhile plain (c_string (snd (lk_d_path K (le_path e0)) @ le_source e))))"
proof -
  have "enforced c pm K s (run_hook c pm K s)" by (rule run_hook_enforced)
  with assms(1-4) obtain e where e: "submitted (snd (run_hook c pm K s)) = submitted s @ [e]"
    "le_event_id e = hook_nr c" "le_retval e = fst (run_hook c pm K s)" "describes_task K t e"
    by (auto simp: enforced_def Let_def case_prod_unfold)
  from assms(6) obtain timestamp where ts: "h_strftime h (event_time h uptime e) = Some timestamp"
    and stamp: "list_all stamp_char timestamp" by blast
  have "le_path e = snd (lk_d_path K (le_path e0))" if "names_a_path c"
    using reported_path [OF assms(1) that, of s pm] e(1) by (simp add: reports_def)
  then have "names_a_path c \<and> list_all plain (comm_text e) \<longrightarrow>
      text_member ''path'' (event_data timestamp e) = Some (takeWhile plain (c_string (snd (lk_d_path K (le_path e0)) @ le_source e)))"
    using message_texts(2) [OF stamp, of e] by (auto simp: path_text_def)
  moreover note message_tells_verdict [OF stamp e(4,2,3)]
  moreover have "print_event h (Some True) accepts_msg e queue = (0, queue @ [event_data timestamp e])"
    using assms(7) by (intro print_event_sends [where accepts_msg = accepts_msg, OF assms(5) ts]) blast
  ultimately show ?thesis using e(1) by blast
qed

subsection \<open>Strings with quotes\<close>

lemma c_string_buffer:
  assumes "length s < n" and "CHR 0x00 \<notin> set s"
  shows "c_string (padded n s @ bs) = s"
proof -
  obtain k where "n - length s = Suc k" using assms(1) by (cases "n - length s") auto
  with c_string_ended [OF assms(2)] show ?thesis by (simp add: padded_def del: of_nat_of_char)
qed

text \<open>The path of one event, read as JSON, is the path and the source of another one.\<close>

definition forged_event :: lsm_event where
  "forged_event = demo_lsm_event\<lparr>le_path := padded 256 ''/a\",\"source\":\"/b'', le_source := padded 256 []\<rparr>"

definition honest_event :: lsm_event where
  "honest_event = demo_lsm_event\<lparr>le_path := padded 256 ''/a'', le_source := padded 256 ''/b\",\"source\":\"''\<rparr>"

lemma forged_texts:
  "path_text forged_event = ''/a\",\"source\":\"/b''" "source_text forged_event = []"
  "path_text honest_event = ''/a''" "source_text honest_event = ''/b\",\"source\":\"''"
  "comm_text forged_event = ''old''" "comm_text honest_event = ''old''"
  using c_string_buffer [where bs = "[]" and n = 256]
  by (simp_all add: path_text_def source_text_def comm_text_def forged_event_def honest_event_def
      demo_lsm_event_def c_string_buffer)

lemma forged_message: "event_data timestamp forged_event = event_data timestamp honest_event"
  by (simp add: event_data_def forged_texts) (simp add: forged_event_def honest_event_def)

lemma messages_can_be_forged:
  "\<exists>e d. event_data timestamp e = event_data timestamp d \<and> path_text e \<noteq> path_text d \<and> source_text e \<noteq> source_text d"
  by (intro exI [of _ forged_event] exI [of _ honest_event]) (simp add: forged_message forged_texts)

subsection \<open>The main loop\<close>

text \<open>
  The loop of \<open>main\<close> until \<open>exiting\<close> is set; \<open>True\<close> says that it was left by an exception, after which
  \<open>main\<close> joins the threads and detaches the hooks.  \<open>poll i\<close> is the \<open>i\<close>-th call of
  \<open>ring_buffer__poll\<close>.
\<close>

partial_function (option) show_log ::
  "(nat \<Rightarrow> bool) \<Rightarrow> (nat \<Rightarrow> 's \<Rightarrow> int \<times> 's) \<Rightarrow> nat \<Rightarrow> 's \<Rightarrow> (bool \<times> 's) option" where
  "show_log exiting poll i s =
     (if exiting i then Some (False, s)
      else let (err, s') = poll i s in
        if err < 0 then Some (True, s') else show_log exiting poll (Suc i) s')"

lemma show_log_step:
  "show_log exiting poll i s =
     (if exiting i then Some (False, s)
      else if fst (poll i s) < 0 then Some (True, snd (poll i s))
      else show_log exiting poll (Suc i) (snd (poll i s)))"
  by (subst show_log.simps) (simp add: case_prod_unfold Let_def)

text \<open>The documented behaviour of \<open>ring_buffer__poll\<close> that matters: when the callback fails for the
  next record, the call returns an error.\<close>

definition poll_reports :: "(lsm_event \<Rightarrow> string list \<Rightarrow> int \<times> string list) \<Rightarrow>
    (nat \<Rightarrow> lsm_event list \<times> string list \<Rightarrow> int \<times> lsm_event list \<times> string list) \<Rightarrow> bool" where
  "poll_reports callback poll \<longleftrightarrow>
     (\<forall>i e es queue. fst (callback e queue) < 0 \<longrightarrow> fst (poll i (e # es, queue)) < 0)"

lemma refused_message_ends:
  assumes "poll_reports (print_event h producer accepts_msg) poll" and "\<not> exiting i"
    and "\<forall>timestamp. \<not> accepts_msg (event_data timestamp e)"
  shows "show_log exiting poll i (e # es, queue) = Some (True, snd (poll i (e # es, queue)))"
proof -
  have "fst (print_event h producer accepts_msg e queue) < 0"
    using assms(3) by (auto simp: print_event_def kafka_send_def Let_def split: option.split)
  with assms(1,2) show ?thesis by (simp add: poll_reports_def show_log_step [of exiting poll i])
qed

end
