(* ===== verification/Raw_Race.thy ===== *)
theory Raw_Race
  imports Raw_Monitor
begin

section \<open>The raw tracepoint monitor on several CPUs\<close>

text \<open>
  \<open>raw_tracepoint.bpf.c\<close> access by access.  The program runs on all CPUs at once; on one CPU it is not
  interrupted by itself.  Each access to the shared maps, the two counters and the ring buffer is a step:
  the additions to \<open>cnt\<close> and \<open>err_cnt\<close> are atomic instructions, but \<open>err_cnt\<close> and \<open>cnt\<close> are read one
  after the other when the record is filled, and other CPUs may go on in between.  A schedule says whose
  turn it is.  The ring buffer keeps the order of the reservations; a place is empty until its record is
  submitted.  \<open>raw_sys_enter\<close> is the case of an activation during which the other CPUs stand still.
\<close>

subsection \<open>The machine\<close>

text \<open>Where a CPU is: outside the program; after \<open>should_monitor\<close>; after the control group was learnt;
  with the name of the call; after adding to \<open>cnt\<close>; after a refused reservation; with a place of the
  ring buffer; with the value of \<open>err_cnt\<close>; with the filled record.\<close>

datatype raw_pc =
    Outside
  | Watched raw_kernel raw_ctx
  | Learnt raw_kernel raw_ctx
  | Named raw_kernel raw_ctx "u8 list"
  | Counted raw_kernel raw_ctx "u8 list"
  | Refused
  | Placed raw_kernel raw_ctx "u8 list" raw_event nat
  | Losses_read raw_kernel raw_ctx "u8 list" raw_event nat u64
  | Filled raw_event nat

record raw_machine =
  rm_state :: raw_state
  rm_ring :: "raw_event option list"
  rm_cpus :: "raw_pc list"

datatype raw_move = Begin nat raw_kernel raw_ctx | Continue nat

definition at_cpu :: "nat \<Rightarrow> raw_pc \<Rightarrow> raw_machine \<Rightarrow> raw_machine" where
  "at_cpu i pc m = m\<lparr>rm_cpus := (rm_cpus m)[i := pc]\<rparr>"

definition learn_cgroup :: "raw_kernel \<Rightarrow> raw_state \<Rightarrow> raw_state" where
  "learn_cgroup K s =
     (case bpf_map_lookup_elem (container_cgroup_id s) (rk_cgroup K) of
        Some _ \<Rightarrow> s
      | None \<Rightarrow> s\<lparr>container_cgroup_id := snd (bpf_map_update_elem raw_max_entries (rk_cgroup K) (rk_cgroup K)
          (container_cgroup_id s))\<rparr>)"

text \<open>The record is filled with the loss counter read before and the other counter as it is now.\<close>

definition raw_step :: "(string \<Rightarrow> s32) \<Rightarrow> nat \<Rightarrow> raw_machine \<Rightarrow> raw_machine" where
  "raw_step nr i m =
     (let s = rm_state m in
      case rm_cpus m ! i of
        Outside \<Rightarrow> m
      | Watched K ctx \<Rightarrow> at_cpu i (Learnt K ctx) (m\<lparr>rm_state := learn_cgroup K s\<rparr>)
      | Learnt K ctx \<Rightarrow>
          (case bpf_map_lookup_elem (syscall_map_1 s) (ucast (raw_id ctx)) of
             None \<Rightarrow> at_cpu i Outside m
           | Some name \<Rightarrow> at_cpu i (Named K ctx name) m)
      | Named K ctx name \<Rightarrow> at_cpu i (Counted K ctx name) (m\<lparr>rm_state := s\<lparr>cnt := cnt s + 1\<rparr>\<rparr>)
      | Counted K ctx name \<Rightarrow>
          (case rk_reserve K of
             None \<Rightarrow> at_cpu i Refused m
           | Some e \<Rightarrow> at_cpu i (Placed K ctx name e (length (rm_ring m))) (m\<lparr>rm_ring := rm_ring m @ [None]\<rparr>))
      | Refused \<Rightarrow> at_cpu i Outside (m\<lparr>rm_state := s\<lparr>err_cnt := err_cnt s + 1\<rparr>\<rparr>)
      | Placed K ctx name e place \<Rightarrow> at_cpu i (Losses_read K ctx name e place (err_cnt s)) m
      | Losses_read K ctx name e place losses \<Rightarrow>
          at_cpu i (Filled (fill_event nr K ctx name (s\<lparr>err_cnt := losses\<rparr>) e) place) m
      | Filled e place \<Rightarrow> at_cpu i Outside (m\<lparr>rm_ring := (rm_ring m)[place := Some e]\<rparr>))"

fun raw_turn :: "(string \<Rightarrow> s32) \<Rightarrow> raw_move \<Rightarrow> raw_machine \<Rightarrow> raw_machine option" where
  "raw_turn nr (Begin i K ctx) m =
     (if i < length (rm_cpus m) \<and> rm_cpus m ! i = Outside
      then Some (if raw_should_monitor (rm_state m) (rk_ppid K) (rk_cgroup K) then at_cpu i (Watched K ctx) m else m)
      else None)"
| "raw_turn nr (Continue i) m =
     (if i < length (rm_cpus m) \<and> rm_cpus m ! i \<noteq> Outside then Some (raw_step nr i m) else None)"

fun raw_schedule :: "(string \<Rightarrow> s32) \<Rightarrow> raw_move list \<Rightarrow> raw_machine \<Rightarrow> raw_machine option" where
  "raw_schedule nr [] m = Some m"
| "raw_schedule nr (t # ts) m = (case raw_turn nr t m of None \<Rightarrow> None | Some m' \<Rightarrow> raw_schedule nr ts m')"

definition raw_boot :: "nat \<Rightarrow> raw_state \<Rightarrow> raw_machine" where
  "raw_boot n s = \<lparr>rm_state = s, rm_ring = [], rm_cpus = replicate n Outside\<rparr>"

definition quiet_machine :: "raw_machine \<Rightarrow> bool" where
  "quiet_machine m \<longleftrightarrow> (\<forall>pc \<in> set (rm_cpus m). pc = Outside)"

subsection \<open>What holds under every schedule\<close>

text \<open>An attempt that was counted and is neither a loss nor a record yet.\<close>

fun pending :: "raw_pc \<Rightarrow> nat" where
  "pending (Counted K ctx name) = 1"
| "pending Refused = 1"
| "pending _ = 0"

fun place_of :: "raw_pc \<Rightarrow> nat option" where
  "place_of (Placed K ctx name e place) = Some place"
| "place_of (Losses_read K ctx name e place losses) = Some place"
| "place_of (Filled e place) = Some place"
| "place_of _ = None"

text \<open>The counters in the record at a place: never fewer attempts less losses than there are records up to
  this place.\<close>

definition counters_ok :: "raw_machine \<Rightarrow> nat \<Rightarrow> raw_event \<Rightarrow> bool" where
  "counters_ok m place e \<longleftrightarrow>
     unat (re_error_cnt e) + Suc place \<le> unat (re_cnt e) \<and> unat (re_cnt e) \<le> unat (cnt (rm_state m)) \<and>
     unat (re_error_cnt e) \<le> unat (err_cnt (rm_state m))"

fun pc_ok :: "raw_machine \<Rightarrow> raw_pc \<Rightarrow> bool" where
  "pc_ok m (Placed K ctx name e place) = (place < length (rm_ring m))"
| "pc_ok m (Losses_read K ctx name e place losses) =
     (place < length (rm_ring m) \<and> unat losses \<le> unat (err_cnt (rm_state m)))"
| "pc_ok m (Filled e place) = (place < length (rm_ring m) \<and> counters_ok m place e)"
| "pc_ok m _ = True"

definition raw_inv :: "nat \<Rightarrow> raw_machine \<Rightarrow> bool" where
  "raw_inv k m \<longleftrightarrow>
     unat (cnt (rm_state m)) = unat (err_cnt (rm_state m)) + sum_list (map pending (rm_cpus m)) + length (rm_ring m) \<and>
     unat (cnt (rm_state m)) \<le> k \<and>
     (\<forall>pc \<in> set (rm_cpus m). pc_ok m pc) \<and>
     (\<forall>place e. place < length (rm_ring m) \<and> rm_ring m ! place = Some e \<longrightarrow> counters_ok m place e) \<and>
     (\<forall>place < length (rm_ring m). rm_ring m ! place = None \<longrightarrow> (\<exists>pc \<in> set (rm_cpus m). place_of pc = Some place))"

lemma at_cpu_simps [simp]:
  "rm_state (at_cpu i pc m) = rm_state m" "rm_ring (at_cpu i pc m) = rm_ring m"
  "rm_cpus (at_cpu i pc m) = (rm_cpus m)[i := pc]"
  by (simp_all add: at_cpu_def)

lemma learn_cgroup_simps [simp]:
  "cnt (learn_cgroup K s) = cnt s" "err_cnt (learn_cgroup K s) = err_cnt s"
  "events_1 (learn_cgroup K s) = events_1 s" "reserved_1 (learn_cgroup K s) = reserved_1 s"
  "syscall_map_1 (learn_cgroup K s) = syscall_map_1 s" "container_pids (learn_cgroup K s) = container_pids s"
  by (simp_all add: learn_cgroup_def split: option.split)

lemma pending_update:
  "i < length pcs \<Longrightarrow> sum_list (map pending (pcs[i := pc])) + pending (pcs ! i) = sum_list (map pending pcs) + pending pc"
proof (induction pcs arbitrary: i)
  case (Cons p pcs)
  then show ?case by (cases i) auto
qed simp

lemma pending_le: "i < length pcs \<Longrightarrow> pending (pcs ! i) \<le> sum_list (map pending pcs)"
  by (intro member_le_sum_list) simp_all

text \<open>One CPU moves: what the other CPUs rely on stays true as long as nothing shrinks.\<close>

definition grown :: "raw_machine \<Rightarrow> raw_machine \<Rightarrow> bool" where
  "grown m m' \<longleftrightarrow> length (rm_ring m) \<le> length (rm_ring m') \<and>
     unat (cnt (rm_state m)) \<le> unat (cnt (rm_state m')) \<and> unat (err_cnt (rm_state m)) \<le> unat (err_cnt (rm_state m'))"

lemma counters_grown: "grown m m' \<Longrightarrow> counters_ok m place e \<Longrightarrow> counters_ok m' place e"
  by (auto simp: grown_def counters_ok_def)

lemma pc_grown: "grown m m' \<Longrightarrow> pc_ok m pc \<Longrightarrow> pc_ok m' pc"
  by (cases pc) (auto simp: grown_def counters_ok_def)

lemma raw_invI:
  assumes inv: "raw_inv k m" and i: "i < length (rm_cpus m)" and cpus: "rm_cpus m' = (rm_cpus m)[i := pc]"
    and grown: "grown m m'" and pc: "pc_ok m' pc" and bound: "unat (cnt (rm_state m')) \<le> Suc k"
    and count: "unat (cnt (rm_state m')) =
      unat (err_cnt (rm_state m')) + sum_list (map pending (rm_cpus m')) + length (rm_ring m')"
    and ring: "\<And>place e. place < length (rm_ring m') \<Longrightarrow> rm_ring m' ! place = Some e \<Longrightarrow>
      place < length (rm_ring m) \<and> rm_ring m ! place = Some e \<or> counters_ok m' place e"
    and holes: "\<And>place. place < length (rm_ring m') \<Longrightarrow> rm_ring m' ! place = None \<Longrightarrow>
      place < length (rm_ring m) \<and> rm_ring m ! place = None \<and> place_of (rm_cpus m ! i) \<noteq> Some place \<or> place_of pc = Some place"
  shows "raw_inv (Suc k) m'"
proof -
  have "\<forall>q \<in> set (rm_cpus m'). pc_ok m' q"
    using inv pc pc_grown [OF grown] unfolding cpus
    by (auto simp: raw_inv_def dest!: set_update_subset_insert [THEN subsetD])
  moreover have "counters_ok m' place e" if "place < length (rm_ring m')" "rm_ring m' ! place = Some e" for place e
    using ring [OF that] inv counters_grown [OF grown] by (auto simp: raw_inv_def)
  moreover have "\<exists>q \<in> set (rm_cpus m'). place_of q = Some place"
    if "place < length (rm_ring m')" "rm_ring m' ! place = None" for place
    using holes [OF that]
  proof
    assume "place_of pc = Some place"
    then show ?thesis using i set_update_memI unfolding cpus by metis
  next
    assume h: "place < length (rm_ring m) \<and> rm_ring m ! place = None \<and> place_of (rm_cpus m ! i) \<noteq> Some place"
    with inv obtain q where "q \<in> set (rm_cpus m)" "place_of q = Some place" by (auto simp: raw_inv_def)
    then obtain j where "j < length (rm_cpus m)" "place_of (rm_cpus m ! j) = Some place"
      by (auto simp: in_set_conv_nth)
    moreover from this h have "j \<noteq> i" by auto
    ultimately have "rm_cpus m' ! j = rm_cpus m ! j" "j < length (rm_cpus m')" unfolding cpus by simp_all
    with \<open>place_of (rm_cpus m ! j) = Some place\<close> show ?thesis by (metis nth_mem)
  qed
  ultimately show ?thesis using count bound by (auto simp: raw_inv_def)
qed

lemma unat_next64: "Suc (unat (w :: u64)) < 2 ^ 64 \<Longrightarrow> unat (w + 1) = Suc (unat w)"
  by (simp add: unat_word_ariths)

lemma raw_step_inv:
  assumes inv: "raw_inv k m" and i: "i < length (rm_cpus m)" and k: "Suc k < 2 ^ 64"
  shows "raw_inv (Suc k) (raw_step nr i m)"
proof -
  let ?s = "rm_state m"
  note I = inv [unfolded raw_inv_def]
  have pc: "pc_ok m (rm_cpus m ! i)" using I i by simp
  have cnt: "unat (cnt ?s + 1) = Suc (unat (cnt ?s))" using I k by (intro unat_next64) linarith
  note change = pending_update [OF i]
  show ?thesis
  proof (cases "rm_cpus m ! i")
    case Outside
    then show ?thesis using inv by (auto simp: raw_step_def Let_def raw_inv_def)
  next
    case (Watched K ctx)
    show ?thesis
      by (rule raw_invI [OF inv i, where pc = "Learnt K ctx"])
        (use I change [of "Learnt K ctx"] Watched in \<open>auto simp: raw_step_def Let_def grown_def\<close>)
  next
    case (Learnt K ctx)
    show ?thesis
    proof (cases "bpf_map_lookup_elem (syscall_map_1 ?s) (ucast (raw_id ctx))")
      case None
      show ?thesis
        by (rule raw_invI [OF inv i, where pc = Outside])
          (use I change [of Outside] Learnt None in \<open>auto simp: raw_step_def Let_def grown_def\<close>)
    next
      case (Some name)
      show ?thesis
        by (rule raw_invI [OF inv i, where pc = "Named K ctx name"])
          (use I change [of "Named K ctx name"] Learnt Some in \<open>auto simp: raw_step_def Let_def grown_def\<close>)
    qed
  next
    case (Named K ctx name)
    show ?thesis
      by (rule raw_invI [OF inv i, where pc = "Counted K ctx name"])
        (use I change [of "Counted K ctx name"] Named cnt in \<open>auto simp: raw_step_def Let_def grown_def\<close>)
  next
    case (Counted K ctx name)
    show ?thesis
    proof (cases "rk_reserve K")
      case None
      show ?thesis
        by (rule raw_invI [OF inv i, where pc = Refused])
          (use I change [of Refused] Counted None in \<open>auto simp: raw_step_def Let_def grown_def\<close>)
    next
      case (Some e)
      show ?thesis
        by (rule raw_invI [OF inv i, where pc = "Placed K ctx name e (length (rm_ring m))"])
          (use I change [of "Placed K ctx name e (length (rm_ring m))"] Counted Some in
            \<open>auto simp: raw_step_def Let_def grown_def nth_append less_Suc_eq split: if_splits\<close>)
    qed
  next
    case Refused
    have "unat (err_cnt ?s) < unat (cnt ?s)" using I pending_le [OF i] Refused by simp
    then have "unat (err_cnt ?s + 1) = Suc (unat (err_cnt ?s))" using I k by (intro unat_next64) linarith
    then show ?thesis
      by (intro raw_invI [OF inv i, where pc = Outside])
        (use I change [of Outside] Refused in \<open>auto simp: raw_step_def Let_def grown_def\<close>)
  next
    case (Placed K ctx name e place)
    show ?thesis
      by (rule raw_invI [OF inv i, where pc = "Losses_read K ctx name e place (err_cnt ?s)"])
        (use I pc change [of "Losses_read K ctx name e place (err_cnt ?s)"] Placed in
          \<open>auto simp: raw_step_def Let_def grown_def\<close>)
  next
    case (Losses_read K ctx name e place losses)
    let ?e = "fill_event nr K ctx name (?s\<lparr>err_cnt := losses\<rparr>) e"
    have "counters_ok m place ?e" using I pc Losses_read by (simp add: counters_ok_def)
    then show ?thesis
      by (intro raw_invI [OF inv i, where pc = "Filled ?e place"])
        (use I pc change [of "Filled ?e place"] Losses_read in
          \<open>auto simp: raw_step_def Let_def grown_def counters_ok_def\<close>)
  next
    case (Filled e place)
    show ?thesis
      by (rule raw_invI [OF inv i, where pc = Outside])
        (use I pc change [of Outside] Filled in
          \<open>auto simp: raw_step_def Let_def grown_def counters_ok_def nth_list_update split: if_splits\<close>)
  qed
qed

lemma raw_turn_inv:
  assumes "raw_inv k m" and "raw_turn nr t m = Some m'" and "Suc k < 2 ^ 64"
  shows "raw_inv (Suc k) m'"
proof (cases t)
  case (Begin i K ctx)
  with assms(2) have i: "i < length (rm_cpus m)" "rm_cpus m ! i = Outside"
    and m': "m' = (if raw_should_monitor (rm_state m) (rk_ppid K) (rk_cgroup K) then at_cpu i (Watched K ctx) m else m)"
    by (auto split: if_splits)
  have "raw_inv (Suc k) (at_cpu i (Watched K ctx) m)"
    by (rule raw_invI [OF assms(1) i(1), where pc = "Watched K ctx"])
      (use assms(1) pending_update [OF i(1), of "Watched K ctx"] i(2) in \<open>auto simp: raw_inv_def grown_def\<close>)
  moreover have "raw_inv (Suc k) m" using assms(1) by (auto simp: raw_inv_def)
  ultimately show ?thesis by (simp add: m')
next
  case (Continue i)
  with assms(2) have "i < length (rm_cpus m)" "m' = raw_step nr i m" by (auto split: if_splits)
  with raw_step_inv [OF assms(1) _ assms(3)] show ?thesis by simp
qed

lemma raw_schedule_inv:
  "raw_schedule nr ts m = Some m' \<Longrightarrow> raw_inv k m \<Longrightarrow> k + length ts < 2 ^ 64 \<Longrightarrow> raw_inv (k + length ts) m'"
proof (induction ts arbitrary: m k)
  case (Cons t ts)
  from Cons.prems(1) obtain m1 where m1: "raw_turn nr t m = Some m1" "raw_schedule nr ts m1 = Some m'"
    by (auto split: option.splits)
  have "raw_inv (Suc k) m1" using Cons.prems(3) by (intro raw_turn_inv [OF Cons.prems(2) m1(1)]) simp
  from Cons.IH [OF m1(2) this] Cons.prems(3) show ?case by simp
qed simp

lemma raw_boot_inv: "cnt s = 0 \<Longrightarrow> err_cnt s = 0 \<Longrightarrow> raw_inv 0 (raw_boot n s)"
  by (simp add: raw_inv_def raw_boot_def sum_list_replicate map_replicate_const del: map_replicate)

lemma quiet_pending: "quiet_machine m \<Longrightarrow> sum_list (map pending (rm_cpus m)) = 0"
  by (auto simp: quiet_machine_def)

text \<open>The counters when the CPUs stand still, and those in the records, under every schedule.\<close>

lemma raw_schedule_counts:
  assumes "raw_schedule nr ts (raw_boot n s) = Some m" and "cnt s = 0" "err_cnt s = 0" and "length ts < 2 ^ 64"
  shows "(\<forall>place e. place < length (rm_ring m) \<and> rm_ring m ! place = Some e \<longrightarrow> counters_ok m place e) \<and>
    (quiet_machine m \<longrightarrow> None \<notin> set (rm_ring m) \<and>
       unat (cnt (rm_state m)) = unat (err_cnt (rm_state m)) + length (rm_ring m))"
proof -
  have inv: "raw_inv (length ts) m"
    using raw_schedule_inv [OF assms(1) raw_boot_inv [OF assms(2,3)]] assms(4) by simp
  have "None \<notin> set (rm_ring m)" if "quiet_machine m"
  proof
    assume "None \<in> set (rm_ring m)"
    then obtain place where "place < length (rm_ring m)" "rm_ring m ! place = None" by (auto simp: in_set_conv_nth)
    with inv obtain pc where "pc \<in> set (rm_cpus m)" "place_of pc = Some place" by (auto simp: raw_inv_def)
    with that show False by (auto simp: quiet_machine_def)
  qed
  with inv quiet_pending [of m] show ?thesis by (simp add: raw_inv_def)
qed

subsection \<open>One activation alone\<close>

text \<open>A CPU that enters the program and goes on, while the others stand still.\<close>

fun go_on :: "(string \<Rightarrow> s32) \<Rightarrow> nat \<Rightarrow> nat \<Rightarrow> raw_machine \<Rightarrow> raw_machine" where
  "go_on nr i 0 m = m"
| "go_on nr i (Suc n) m = (case raw_turn nr (Continue i) m of None \<Rightarrow> m | Some m' \<Rightarrow> go_on nr i n m')"

definition raw_alone :: "(string \<Rightarrow> s32) \<Rightarrow> nat \<Rightarrow> raw_kernel \<Rightarrow> raw_ctx \<Rightarrow> raw_machine \<Rightarrow> raw_machine" where
  "raw_alone nr i K ctx m = (case raw_turn nr (Begin i K ctx) m of None \<Rightarrow> m | Some m' \<Rightarrow> go_on nr i 7 m')"

text \<open>The machine as \<open>Raw_Monitor\<close> sees it: the ring buffer holds the submitted records.\<close>

definition raw_view :: "raw_machine \<Rightarrow> raw_state" where
  "raw_view m = (rm_state m)\<lparr>events_1 := map the (filter (\<lambda>r. r \<noteq> None) (rm_ring m))\<rparr>"

lemma go_on_Outside [simp]: "rm_cpus m ! i = Outside \<Longrightarrow> go_on nr i n m = m"
  by (cases n) simp_all

lemma go_on_step [simp]:
  "i < length (rm_cpus m) \<Longrightarrow> rm_cpus m ! i \<noteq> Outside \<Longrightarrow> go_on nr i (Suc n) m = go_on nr i n (raw_step nr i m)"
  by simp

declare go_on.simps(2) [simp del]

lemma learn_cgroup_events [simp]: "learn_cgroup K (s\<lparr>events_1 := es\<rparr>) = (learn_cgroup K s)\<lparr>events_1 := es\<rparr>"
  by (simp add: learn_cgroup_def split: option.split)

lemma fill_event_ignores [simp]:
  "fill_event nr K ctx name (s\<lparr>reserved_1 := r\<rparr>) e = fill_event nr K ctx name s e"
  "fill_event nr K ctx name (s\<lparr>events_1 := es, cnt := c\<rparr>) e = fill_event nr K ctx name (s\<lparr>cnt := c\<rparr>) e"
  "err_cnt s = l \<Longrightarrow> fill_event nr K ctx name (s\<lparr>cnt := c, err_cnt := l\<rparr>) e = fill_event nr K ctx name (s\<lparr>cnt := c\<rparr>) e"
  by (simp_all add: fill_event_def)

lemma monitor_ignores [simp]: "raw_should_monitor (s\<lparr>events_1 := es\<rparr>) = raw_should_monitor s"
  by (simp add: raw_should_monitor_def fun_eq_iff)

lemma reserved_as_it_was:
  "reserved_1 s = r \<Longrightarrow> s\<lparr>cnt := c, events_1 := es, reserved_1 := r\<rparr> = s\<lparr>cnt := c, events_1 := es\<rparr>"
  by (cases s) simp

lemma raw_sys_enter_steps:
  "snd (raw_sys_enter nr K ctx s) =
     (if \<not> raw_should_monitor s (rk_ppid K) (rk_cgroup K) then s
      else let s = learn_cgroup K s in
        case bpf_map_lookup_elem (syscall_map_1 s) (ucast (raw_id ctx)) of
          None \<Rightarrow> s
        | Some name \<Rightarrow>
            (case rk_reserve K of
               None \<Rightarrow> s\<lparr>cnt := cnt s + 1, err_cnt := err_cnt s + 1\<rparr>
             | Some e \<Rightarrow> s\<lparr>cnt := cnt s + 1,
                 events_1 := events_1 s @ [fill_event nr K ctx name (s\<lparr>cnt := cnt s + 1\<rparr>) e]\<rparr>))"
  by (auto simp: raw_sys_enter_def learn_cgroup_def [symmetric] Let_def reserved_as_it_was split: option.split)

text \<open>An activation that no other CPU overlaps is \<open>raw_sys_enter\<close>, and leaves the CPU where it was.\<close>

lemma raw_alone_is_sys_enter:
  assumes i: "i < length (rm_cpus m)" "rm_cpus m ! i = Outside"
  shows "raw_view (raw_alone nr i K ctx m) = snd (raw_sys_enter nr K ctx (raw_view m)) \<and>
    rm_cpus (raw_alone nr i K ctx m) = rm_cpus m"
proof -
  have same_cpus: "(rm_cpus m)[i := Outside] = rm_cpus m" using i by (metis list_update_id)
  show ?thesis
  proof (cases "raw_should_monitor (rm_state m) (rk_ppid K) (rk_cgroup K)")
    case False
    then show ?thesis using i by (simp add: raw_alone_def raw_sys_enter_steps raw_view_def)
  next
    case True
    show ?thesis
    proof (cases "bpf_map_lookup_elem (syscall_map_1 (rm_state m)) (ucast (raw_id ctx))")
      case None
      then show ?thesis using i True same_cpus
        by (simp add: raw_alone_def raw_sys_enter_steps numeral_eq_Suc raw_step_def Let_def raw_view_def)
    next
      case (Some name)
      show ?thesis
      proof (cases "rk_reserve K")
        case None
        then show ?thesis using i True Some same_cpus
          by (simp add: raw_alone_def raw_sys_enter_steps numeral_eq_Suc raw_step_def Let_def raw_view_def)
      next
        case (Some e)
        then show ?thesis
          using i True same_cpus \<open>bpf_map_lookup_elem (syscall_map_1 (rm_state m)) (ucast (raw_id ctx)) = Some name\<close>
          by (simp add: raw_alone_def raw_sys_enter_steps numeral_eq_Suc raw_step_def Let_def raw_view_def)
      qed
    qed
  qed
qed

text \<open>Activations one after the other, each on some CPU.\<close>

fun raw_serial :: "(string \<Rightarrow> s32) \<Rightarrow> (nat \<times> raw_kernel \<times> raw_ctx) list \<Rightarrow> raw_machine \<Rightarrow> raw_machine" where
  "raw_serial nr [] m = m"
| "raw_serial nr ((i, K, ctx) # as) m = raw_serial nr as (raw_alone nr i K ctx m)"

lemma raw_serial_is_run:
  "quiet_machine m \<Longrightarrow> list_all (\<lambda>(i, K, ctx). i < length (rm_cpus m)) as \<Longrightarrow>
   raw_view (raw_serial nr as m) = raw_run nr (map snd as) (raw_view m) \<and> rm_cpus (raw_serial nr as m) = rm_cpus m"
proof (induction as arbitrary: m)
  case Nil
  then show ?case by (simp add: raw_run_def)
next
  case (Cons a as)
  obtain i K ctx where a: "a = (i, K, ctx)" by (cases a)
  with Cons.prems have i: "i < length (rm_cpus m)" "rm_cpus m ! i = Outside" by (auto simp: quiet_machine_def)
  note alone = raw_alone_is_sys_enter [OF i, of nr K ctx]
  with Cons.prems have "quiet_machine (raw_alone nr i K ctx m)" by (simp add: quiet_machine_def)
  from Cons.IH [OF this] Cons.prems(2) alone show ?case by (simp add: a raw_run_def)
qed

text \<open>Then the counters are exact.\<close>

lemma raw_serial_exact:
  fixes nr :: "string \<Rightarrow> s32"
  assumes "cnt s = 0" "err_cnt s = 0" "events_1 s = []" "reserved_1 s = 0"
    and "list_all (\<lambda>(i, K, ctx). i < n) as"
  defines "es \<equiv> events_1 (raw_view (raw_serial nr as (raw_boot n s)))"
  shows "\<forall>i < length es. re_cnt (es ! i) = re_error_cnt (es ! i) + of_nat (Suc i)"
proof -
  have "raw_view (raw_boot n s) = s" using assms(3) by (cases s) (simp add: raw_view_def raw_boot_def)
  moreover have "quiet_machine (raw_boot n s)" "length (rm_cpus (raw_boot n s)) = n"
    by (simp_all add: quiet_machine_def raw_boot_def)
  ultimately have "es = events_1 (raw_run nr (map snd as) s)"
    using raw_serial_is_run [of "raw_boot n s" as nr] assms(5) by (simp add: es_def)
  moreover have "raw_ok s" using assms by (simp add: raw_ok_def)
  ultimately show ?thesis using raw_run_ok [of s nr "map snd as"] by (simp add: raw_ok_def)
qed

end
