(* ===== verification/Raw_Example.thy ===== *)
theory Raw_Example
  imports Raw_Logger Raw_Race
begin

section \<open>The raw tracepoint monitor: a concrete activation\<close>

text \<open>A child of the listed process 40, in control group 9, enters \<open>unlinkat\<close>.\<close>

definition demo_raw_event :: raw_event where
  "demo_raw_event = \<lparr>re_timestamp = 0, re_cnt = 0, re_pid = 0, re_tid = 0, re_gid = 0, re_ppid = 0,
     re_uid = 0, re_syscall_nr = 0, re_comm = replicate 16 0, re_syscall = replicate 16 0,
     re_args = replicate 6 0, re_filename = replicate 256 0, re_argv = replicate 10 (replicate 128 0),
     re_cgroup_id = 0, re_cgroup_name = replicate 64 0, re_error_cnt = 0\<rparr>"

definition demo_raw_kernel :: raw_kernel where
  "demo_raw_kernel = \<lparr>rk_pid_tgid = push_bit 32 41 OR 42, rk_uid_gid = 0, rk_ppid = 40, rk_cgroup = 9,
     rk_time = 5, rk_comm = replicate 16 0, rk_reserve = Some demo_raw_event,
     rk_user_str = (\<lambda>p n buf. if p < 4096 then (- 14, buf) else (2, 97 # 0 # drop 2 buf)),
     rk_user_ptr = (\<lambda>_. 0), rk_task = True, rk_cgroup_name = (\<lambda>buf. (1, buf))\<rparr>"

definition demo_raw_ctx :: raw_ctx where
  "demo_raw_ctx = \<lparr>raw_id = 263, raw_args = (\<lambda>i. if i = 0 then 3 else 8192)\<rparr>"

definition demo_raw_state :: raw_state where
  "demo_raw_state = \<lparr>syscall_map_1 = [(263, replicate 16 0)], container_pids = [(40, 40)],
     container_cgroup_id = [], cnt = 0, err_cnt = 0, events_1 = [], reserved_1 = 0\<rparr>"

lemma demo_raw_simps:
  "raw_should_monitor demo_raw_state (rk_ppid demo_raw_kernel) (rk_cgroup demo_raw_kernel)"
  "listed demo_raw_state demo_raw_ctx"
  "\<not> hmap_full raw_max_entries (container_cgroup_id demo_raw_state)"
  "rk_cgroup demo_raw_kernel = 9" "rk_reserve demo_raw_kernel = Some demo_raw_event"
  by (simp_all add: raw_should_monitor_def demo_raw_state_def demo_raw_kernel_def listed_def
      demo_raw_ctx_def bpf_map_lookup_elem_def hmap_full_def raw_max_entries_def)

text \<open>Numbers for the calls of the table: their places in it.\<close>

definition demo_table_nr :: "string \<Rightarrow> u32" where
  "demo_table_nr name = of_nat (length (takeWhile (\<lambda>n. n \<noteq> name) syscall_list))"

lemma length_takeWhile_member: "x \<in> set xs \<Longrightarrow> length (takeWhile (\<lambda>n. n \<noteq> x) xs) < length xs"
  by (induction xs) auto

lemma nth_takeWhile_member: "x \<in> set xs \<Longrightarrow> xs ! length (takeWhile (\<lambda>n. n \<noteq> x) xs) = x"
  by (induction xs) auto

lemma small_number_inj:
  assumes "i < 352" "j < 352" "(of_nat i :: u32) = of_nat j"
  shows "i = j"
proof -
  have "unat (of_nat k :: u32) = k" if "k < 352" for k
    using that by (simp add: unat_of_nat)
  with assms show ?thesis by metis
qed

lemma demo_table_nr_inj: "inj_on demo_table_nr (set syscall_list)"
proof (rule inj_onI)
  fix a b
  assume ab: "a \<in> set syscall_list" "b \<in> set syscall_list" and eq: "demo_table_nr a = demo_table_nr b"
  let ?i = "\<lambda>x. length (takeWhile (\<lambda>n. n \<noteq> x) syscall_list)"
  have "?i a < 352" "?i b < 352"
    using length_takeWhile_member [OF ab(1)] length_takeWhile_member [OF ab(2)]
    unfolding length_syscall_list .
  moreover have "(of_nat (?i a) :: u32) = of_nat (?i b)"
    using eq unfolding demo_table_nr_def .
  ultimately have "?i a = ?i b" by (rule small_number_inj)
  then have "syscall_list ! ?i a = syscall_list ! ?i b" by (rule arg_cong)
  then show "a = b"
    unfolding nth_takeWhile_member [OF ab(1)] nth_takeWhile_member [OF ab(2)] .
qed

definition demo_table_state :: raw_state where
  "demo_table_state = demo_raw_state\<lparr>syscall_map_1 := init_syscall_map demo_table_nr []\<rparr>"

definition demo_table_ctx :: raw_ctx where
  "demo_table_ctx = \<lparr>raw_id = ucast (demo_table_nr ''unlinkat''), raw_args = (\<lambda>i. 3)\<rparr>"

lemma widened: "ucast (ucast (w :: u32) :: u64) = w"
  by (rule bit_word_eqI) (auto simp: bit_simps)

lemma demo_table_simps:
  "syscall_map_1 demo_table_state = init_syscall_map demo_table_nr []" "cnt demo_table_state = 0"
  "''unlinkat'' \<in> set syscall_list" "ucast (raw_id demo_table_ctx) = demo_table_nr ''unlinkat''"
  "raw_should_monitor demo_table_state (rk_ppid demo_raw_kernel) (rk_cgroup demo_raw_kernel)"
  "rk_reserve demo_raw_kernel \<noteq> None"
  using demo_raw_simps(1) widened
  by (simp_all add: demo_table_state_def demo_table_ctx_def demo_raw_state_def demo_raw_kernel_def
      raw_should_monitor_def syscall_list_def)

text \<open>One container was listed; the new policy names another.\<close>

definition demo_raw_loader :: raw_loader where
  "demo_raw_loader = \<lparr>rl_containers = [\<lparr>rc_id = ''a'', rc_name = ''db'', rc_pid = 30, rc_cgroup_id = 8\<rparr>],
     rl_monitored = [''db''], rl_maps = demo_raw_state\<lparr>container_pids := [(30, 1)], container_cgroup_id := [(8, 1)]\<rparr>\<rparr>"

lemma demo_raw_loader_simps:
  "length (container_pids (rl_maps demo_raw_loader)) = 1"
  "length (container_cgroup_id (rl_maps demo_raw_loader)) = 1"
  "dom (bpf_map_lookup_elem (container_pids (rl_maps demo_raw_loader))) = {30}"
  "dom (bpf_map_lookup_elem (container_cgroup_id (rl_maps demo_raw_loader))) = {8}"
  "pid_key ` set (rl_containers demo_raw_loader) = {30}"
  "set (rl_containers demo_raw_loader) = {\<lparr>rc_id = ''a'', rc_name = ''db'', rc_pid = 30, rc_cgroup_id = 8\<rparr>}"
  "bpf_map_lookup_elem (container_pids (rl_maps demo_raw_loader)) 30 = Some 1"
  by (simp_all add: demo_raw_loader_def demo_raw_state_def bpf_map_lookup_elem_def pid_key_def
      dom_def)

lemma demo_found:
  "find_containers (\<lambda>_ _. None) (\<lambda>_. Some 9) 0 (map fst (filter snd [(''web'', True), (''db'', False)]))
     [(''a'', ''db'', 30), (''b'', ''web'', 40)] =
   [\<lparr>rc_id = ''b'', rc_name = ''web'', rc_pid = 40, rc_cgroup_id = 9\<rparr>]"
  by (simp add: find_containers_def raw_getContainerPIDs_def raw_isMonitored_def getContainerInode_def)

lemma demo_nothing_found:
  "update_monitoring_map (\<lambda>_ _. None) (\<lambda>_. Some 9) 0 (Some []) demo_raw_loader =
     (- 1, demo_raw_loader\<lparr>rl_containers := []\<rparr>)"
  by (simp add: update_monitoring_map_def find_containers_def raw_getContainerPIDs_def)

text \<open>Two CPUs add to \<open>cnt\<close> before one of them reads it: both records carry the number 2.\<close>

definition demo_overlap :: "raw_move list" where
  "demo_overlap = [Begin 0 demo_raw_kernel demo_raw_ctx, Begin 1 demo_raw_kernel demo_raw_ctx] @
     map Continue [0, 0, 0, 1, 1, 1, 0, 0, 0, 0, 1, 1, 1, 1]"

lemma demo_overlap_run: "\<exists>m e d. raw_schedule (\<lambda>_. 263) demo_overlap (raw_boot 2 demo_raw_state) = Some m \<and>
    quiet_machine m \<and> rm_ring m = [Some e, Some d] \<and> re_cnt e = 2 \<and> re_cnt d = 2 \<and> re_error_cnt e = 0 \<and> re_error_cnt d = 0"
proof -
  have "bpf_map_lookup_elem (syscall_map_1 demo_raw_state) (ucast (raw_id demo_raw_ctx)) = Some (replicate 16 0)"
    "cnt demo_raw_state = 0" "err_cnt demo_raw_state = 0"
    by (simp_all add: demo_raw_state_def demo_raw_ctx_def bpf_map_lookup_elem_def)
  moreover have "raw_boot 2 demo_raw_state = \<lparr>rm_state = demo_raw_state, rm_ring = [], rm_cpus = [Outside, Outside]\<rparr>"
    by (simp add: raw_boot_def numeral_2_eq_2)
  ultimately show ?thesis using demo_raw_simps(1,5)
    by (simp add: demo_overlap_def raw_step_def Let_def at_cpu_def quiet_machine_def)
qed

end
