(* ===== verification/Watch_Example.thy ===== *)
theory Watch_Example
  imports Namespaces Watch_Effect Docker_Api Program_Start Lsm_Bounds Watch_Loop Raw_Time Trace_Example Watch_Threads Lsm_Report Raw_Files Raw_Example
begin

unbundle bit_operations_syntax

section \<open>Watching and reporting: concrete inputs\<close>

text \<open>
  A policy file with one container, a Docker event that arrives in two chunks, a host on which every
  call of the reporting code succeeds, the \<open>/proc\<close> links of one process, and rounds of the raw
  monitor's flush thread.
\<close>

definition demo_lsm_world :: lsm_world where
  "demo_lsm_world = \<lparr>lw_policy = Some [''web''], lw_found = [demo_lsm_container], lw_key = demo_key_of,
     lw_garbage = (\<lambda>_. demo_garbage)\<rparr>"

lemma demo_lsm_usable: "lsm_usable demo_lsm_world"
  by (simp add: lsm_usable_def demo_lsm_world_def struct_value_def demo_garbage_shape policy_within_def
      demo_lsm_container_def demo_yaml_def c_str_def cstr_def)
    (simp add: demo_garbage_def)

definition demo_chunks :: "watch_input list" where
  "demo_chunks = [Docker_chunk ''start'', Docker_chunk [NL]]"

definition demo_json :: "string \<Rightarrow> (string \<times> string) option" where
  "demo_json line = Some (line, ''container'')"

lemma demo_watch_returns:
  "\<exists>buffer' k' fm' pm'. watch demo_json lsm_docker_actions ''policy.yaml''
     (update_policy_on_event (\<lambda>_. demo_lsm_world) lsm_attempt) demo_chunks ([], 0, flags_map, []) =
     Some (buffer', k', fm', pm')"
proof -
  obtain k' fm' pm' where "update_policy_on_event (\<lambda>_. demo_lsm_world) lsm_attempt (0, flags_map, []) = Some (k', fm', pm')"
    using lsm_waits.update_ends_iff [of "\<lambda>_. demo_lsm_world" 0 "(flags_map, [])"]
    by (auto simp: lsm_idle_def demo_lsm_world_def)
  then show ?thesis
    by (simp add: watch_def demo_chunks_def docker_event_callback_run NL_def handle_docker_line_def demo_json_def
        lsm_docker_actions_def)
qed

definition demo_host :: host where
  "demo_host = \<lparr>h_uptime = Some 100, h_time = 1000, h_strftime = (\<lambda>_. Some ''2024-01-01 00:00:00'')\<rparr>"

text \<open>A poll that calls back for the first record and stops at an error.\<close>

definition demo_poll :: "bool \<Rightarrow> nat \<Rightarrow> lsm_event list \<times> string list \<Rightarrow> int \<times> lsm_event list \<times> string list" where
  "demo_poll accepting i st =
     (case st of
        ([], queue) \<Rightarrow> (0, [], queue)
      | (e # es, queue) \<Rightarrow>
          (let (r, queue') = print_event demo_host (Some True) (\<lambda>_. accepting) e queue in (r, es, queue')))"

lemma demo_poll_reports: "poll_reports (print_event demo_host (Some True) (\<lambda>_. accepting)) (demo_poll accepting)"
  by (simp add: poll_reports_def demo_poll_def case_prod_unfold Let_def)

definition demo_readlink :: "string \<Rightarrow> string option" where
  "demo_readlink path =
     (if path = ''/proc/42/ns/pid'' then Some ''pid:[7]''
      else if path = ''/proc/42/ns/mnt'' then Some ''mnt:[8]'' else None)"

lemma demo_ns_paths:
  "ns_path ''/proc'' 42 ''pid'' = ''/proc/42/ns/pid''" "ns_path ''/proc'' 42 ''mnt'' = ''/proc/42/ns/mnt''"
  by code_simp+

lemma demo_ns_links:
  "ns_link ''pid'' 7 = ''pid:[7]''" "ns_link ''mnt'' 8 = ''mnt:[8]''"
  by code_simp+

subsection \<open>Docker starts the container of the policy\<close>

definition demo_trace_world :: trace_world where
  "demo_trace_world = \<lparr>tw_policy = Some [\<lparr>p_container_name = ''web'', p_syscalls = c_syscalls demo_container\<rparr>],
     tw_docker = [(''c0'', ''web'', 10)], tw_garbage = 0, tw_ns = \<lambda>_. 7\<rparr>"

lemma demo_trace_found: "trace_found (\<lambda>_ _. None) demo_trace_world = [demo_container]"
  by (simp add: trace_found_def demo_trace_world_def getContainerPIDs_def isMonitored_def demo_container_def)

lemma demo_trace_ns: "ns_of (tw_ns demo_trace_world) c = 7"
  by (simp add: demo_trace_world_def)

lemma demo_trace_idle: "trace_idle (\<lambda>_ _. None) (demo_trace_world\<lparr>tw_docker := []\<rparr>)"
  by (simp add: trace_idle_def trace_found_def demo_trace_world_def getContainerPIDs_def)

lemma demo_trace_ready: "trace_ready (\<lambda>_ _. None) demo_trace_world"
  by (simp add: trace_ready_def demo_trace_found) (simp add: demo_trace_world_def)

text \<open>The kernel side right after an update.\<close>

definition demo_watched :: "loader \<Rightarrow> monitor" where
  "demo_watched l = initial\<lparr>shared := (shared initial)\<lparr>syscall_array := syscall_map l\<rparr>\<rparr>"

lemma demo_watched_array: "syscall_array (shared (demo_watched l)) = syscall_map l"
  by (simp add: demo_watched_def)

lemma demo_watched_start: "history (demo_watched l) = []" "count (shared (demo_watched l)) = 0"
  by (simp_all add: demo_watched_def initial_def history_def)

lemma demo_watched_step:
  "step (demo_watched l) (Enter ''close'' demo_kernel (demo_enter 3)) (demo_watched l\<lparr>shared :=
     exec_state (trace_sys_enter_close demo_kernel (demo_enter 3)) (shared (demo_watched l))\<rparr>)"
  by (rule step.enter [OF close_enter_listed])

subsection \<open>The answers of Docker\<close>

datatype json_doc = Doc_object "(string \<times> json_doc) list" | Doc_array "json_doc list" | Doc_text string | Doc_number int

definition demo_documents :: "(string \<times> json_doc) list" where
  "demo_documents =
     [(''list'', Doc_array [Doc_object [(''Id'', Doc_text ''c0''), (''Names'', Doc_array [Doc_text ''/web''])]]),
      (''c0'', Doc_object [(''State'', Doc_object [(''Pid'', Doc_number 10)])])]"

definition demo_json_c :: "json_doc json_c" where
  "demo_json_c =
     \<lparr>tokener_parse = map_of demo_documents,
      object_get_ex = (\<lambda>d n. case d of Doc_object ms \<Rightarrow> map_of ms n | _ \<Rightarrow> None),
      array_length = (\<lambda>d. case d of Doc_array xs \<Rightarrow> length xs | _ \<Rightarrow> 0),
      array_get_idx = (\<lambda>d i. case d of Doc_array xs \<Rightarrow> xs ! i | _ \<Rightarrow> d),
      get_string = (\<lambda>d. case d of Doc_text s \<Rightarrow> s | _ \<Rightarrow> []),
      get_int = (\<lambda>d. case d of Doc_number i \<Rightarrow> i | _ \<Rightarrow> 0)\<rparr>"

definition demo_request :: "string \<Rightarrow> string list option" where
  "demo_request url =
     (if url = list_url then Some [''li'', ''st''] else if url = inspect_url ''c0'' then Some [''c'', ''0''] else None)"

lemma demo_answers: "answers demo_json_c demo_request [(''c0'', ''web'', Some 10)]"
proof -
  have "inspect_url ''c0'' \<noteq> list_url" by (simp add: inspect_url_def list_url_def)
  then show ?thesis
    by (simp add: answers_def fetch_json_def demo_request_def writeCallback_def demo_json_c_def demo_documents_def
        describes_container_def inspected_pid_def)
qed

subsection \<open>A run that SIGTERM strands\<close>

lemma demo_trace_polling:
  "program_run Trace_main [Look] (program_start Trace_main 0) = Some (program_start Trace_main 0\<lparr>main := In_poll\<rparr>)"
  by (simp add: program_start_def)

end
