(* ===== verification/Trace_Race.thy ===== *)
theory Trace_Race
  imports Prelude
begin

section \<open>The sequence counter on several CPUs\<close>

text \<open>
  \<open>ring_buffer\<close> numbers a record with \<open>count ++; e->task.count = count;\<close> on a global that all CPUs
  share, with no lock and no atomic instruction: a load, a store and another load.  Here each CPU
  is a small machine with these three steps, and a schedule says whose turn it is.  The other
  theories treat an activation as one step, which is the case of a schedule that lets each CPU
  finish.
\<close>

datatype cpu = Idle | Loaded u64 | Stored | Numbered u64

record race =
  shared_count :: u64
  cpus :: "nat \<Rightarrow> cpu"

definition race_next :: "nat \<Rightarrow> race \<Rightarrow> race" where
  "race_next i s =
     (case cpus s i of
        Idle \<Rightarrow> s\<lparr>cpus := (cpus s)(i := Loaded (shared_count s))\<rparr>
      | Loaded c \<Rightarrow> s\<lparr>shared_count := c + 1, cpus := (cpus s)(i := Stored)\<rparr>
      | Stored \<Rightarrow> s\<lparr>cpus := (cpus s)(i := Numbered (shared_count s))\<rparr>
      | Numbered c \<Rightarrow> s)"

definition run_schedule :: "nat list \<Rightarrow> race \<Rightarrow> race" where
  "run_schedule is s = fold race_next is s"

text \<open>CPU 0 to \<open>n - 1\<close> one after the other, each taking its three steps.\<close>

definition serial :: "nat \<Rightarrow> nat list" where
  "serial n = concat (map (\<lambda>i. [i, i, i]) [0..<n])"

lemma three_steps:
  "cpus s i = Idle \<Longrightarrow> run_schedule [i, i, i] s =
     s\<lparr>shared_count := shared_count s + 1, cpus := (cpus s)(i := Numbered (shared_count s + 1))\<rparr>"
  by (simp add: run_schedule_def race_next_def)

lemma serial_numbers:
  assumes "\<forall>i. cpus s i = Idle"
  shows "shared_count (run_schedule (serial n) s) = shared_count s + of_nat n \<and>
    (\<forall>i. cpus (run_schedule (serial n) s) i =
       (if i < n then Numbered (shared_count s + of_nat i + 1) else Idle))"
proof (induction n)
  case 0
  then show ?case using assms by (simp add: serial_def run_schedule_def)
next
  case (Suc n)
  let ?s = "run_schedule (serial n) s"
  have "run_schedule (serial (Suc n)) s = run_schedule [n, n, n] ?s"
    by (simp add: serial_def run_schedule_def)
  moreover have "cpus ?s n = Idle" using Suc by simp
  ultimately show ?case using Suc three_steps [of ?s n]
    by (auto simp: algebra_simps less_Suc_eq)
qed

lemma interleaved_numbers:
  assumes "cpus s i = Idle" and "cpus s j = Idle" and "i \<noteq> j"
  shows "run_schedule [i, j, i, j, i, j] s = s\<lparr>shared_count := shared_count s + 1,
    cpus := (cpus s)(i := Numbered (shared_count s + 1), j := Numbered (shared_count s + 1))\<rparr>"
  using assms by (simp add: run_schedule_def race_next_def fun_upd_twist)

end
