(* ===== verification/Spec2Isabelle.thy ===== *)
theory Spec2Isabelle
  imports Watch_Example Trace_Race
begin

text \<open>
  \<^bold>\<open>youmuu\<close> watches containers with eBPF programs.  It consists of three monitors under
  \<open>src/src\<close> that share no code at run time; each has programs in the kernel and a user-space loader.

  \<^item> \<open>tracepoint/\<close>: 326 programs on the entries and exits of 163 system calls
    (\<open>tracepoint.bpf.c\<close>) put records into a ring buffer; user space (\<open>tracepoint.cpp\<close>) tells them by
    a map which calls of which namespaces to record, and turns each record into a log line
    (\<open>handler.cpp\<close>) that \<open>EventLogger.cpp\<close> buffers and hands to Kafka.
  \<^item> \<open>lsm/\<close>: nine security hooks (\<open>enforcement.bpf.c\<close>) refuse or allow operations by a policy per
    container that \<open>enforcement.cpp\<close> loads from a file, and report what they did.
  \<^item> \<open>raw_tracepoint/\<close>: one program on every system call entry (\<open>raw_tracepoint.bpf.c\<close>), and the user
    space that lists processes and control groups and writes the log (\<open>raw_tracepoint.cpp\<close>,
    \<open>EventLogger.cpp\<close>).

  \<^bold>\<open>How the code is modelled.\<close>  C integers are words of their width.  A program is a value of
  the state monad over the maps and globals it uses; \<open>bpf_map_*\<close> are the functions of \<open>Bpf_Maps\<close>,
  which state the documented behaviour of a hash map, the full map included.  What a program learns
  from the kernel (helper results, memory, the clock) is a record argument \<open>K\<close>, over which every
  theorem quantifies, failing helpers and the old contents of ring buffer memory included.  The
  numbers of the system calls are the parameter \<open>nr\<close>; the regular expression matcher, the JSON
  parser, the resolver, \<open>open\<close> and \<open>readlink\<close>, the local time and the success of \<open>gzopen\<close> and of
  \<open>rd_kafka_produce\<close> are parameters too.  User-space loaders are functions on records of their state;
  writing outside an array is an error value.  A loop that may not return has the result type
  \<open>option\<close>, with \<open>None\<close> for not returning.  Threads are steps of a relation or, where a run is to be
  executed, of a function that is \<open>None\<close> when the step is not possible.

  \<^bold>\<open>Theories.\<close>
  \<^item> \<open>Prelude\<close>, \<open>Bpf_Maps\<close> (locale \<open>bpf_hash\<close>), \<open>Text_Format\<close>: shared by all.
  \<^item> \<open>Trace_Types\<close> (\<open>struct.h\<close>, \<open>map.h\<close>), \<open>Trace_Core\<close> (the helper functions), \<open>Trace_Rules\<close> (one
    rule per construct of the programs), \<open>Trace_Net\<close>, \<open>Trace_File\<close>, \<open>Trace_Meta\<close>, \<open>Trace_Proc\<close>,
    \<open>Trace_Mem\<close> (all 326 programs with the contract of each), \<open>Trace_Programs\<close> (their table).
  \<^item> \<open>Trace_System\<close>: programs, consumer and policy writes as a step relation, with its invariants;
    \<open>Trace_Lifecycle\<close>: the fourteen argument maps between entry and exit (locales \<open>args_*\<close>).
  \<^item> \<open>Consumer\<close>, \<open>Log_Net\<close>, \<open>Log_File\<close>, \<open>Log_Meta\<close>, \<open>Log_Proc\<close>, \<open>Log_Mem\<close>: the 328 handlers of
    \<open>handler.cpp\<close>; \<open>Trace_Layout\<close>, \<open>Trace_Log\<close>: which slot of a record ends in which column;
    \<open>Trace_Dispatch\<close>: the table of handlers and \<open>handle_event\<close>.
  \<^item> \<open>Trace_Policy\<close>: \<open>parser.h\<close>, \<open>container_info.cpp\<close> and the policy update of \<open>tracepoint.cpp\<close>;
    \<open>Trace_Defects\<close>, \<open>Trace_Race\<close>: single programs that do not do what they should, and the
    counter as several CPUs see it; \<open>Logger\<close> and \<open>Trace_Json\<close>: \<open>EventLogger.cpp\<close> of the tracepoint
    monitor, its buffers and threads, its messages and the start of its producer.
  \<^item> \<open>Lsm_Policy\<close> (\<open>policy_map_structs.h\<close>, \<open>bpf_map_structs.h\<close>, locale \<open>first_match\<close>), \<open>Lsm_Hooks\<close>
    (the nine hooks), \<open>Lsm_Enforcement\<close> (their abstract specification and the refinement),
    \<open>Lsm_Loader\<close> (\<open>parser.h\<close>, \<open>yaml_structs.h\<close>, the update of \<open>enforcement.cpp\<close>), \<open>Lsm_Loading\<close>,
    \<open>Lsm_Effect\<close> (what the loaded tables make the hooks decide).
  \<^item> \<open>Raw_Monitor\<close>: \<open>raw_tracepoint.bpf.c\<close>, one activation as a whole; \<open>Raw_Race\<close>: the same program access
    by access on several CPUs; \<open>Raw_Loader\<close>: \<open>syscall_list.h\<close>, \<open>container_info.cpp\<close> and
    the updates of \<open>raw_tracepoint.cpp\<close>; \<open>Raw_Logger\<close>: \<open>EventLogger.cpp\<close>, the text of an event
    and the four buffers.
  \<^item> \<open>Policy_Watch\<close>, \<open>Watch_Events\<close>: the code that the three loaders share, the loops of
    \<open>update_policy_on_event\<close>, \<open>docker_event_callback\<close> and the inotify loop of \<open>monitor_policy_file\<close>;
    \<open>Watch_Monitors\<close> (locales \<open>watched_loader\<close>, \<open>idle_loader\<close>): what a loader must promise so that its
    state stays well formed under the watchers and its updates end; \<open>Watch_Loaders\<close>: the attempts of
    tracepoint, lsm and raw_tracepoint, with the interpretations; \<open>Watch_Effect\<close>: watchers and
    enforcement together; \<open>Watch_Threads\<close>: the two watching
    threads, their flag and their mutex.
  \<^item> \<open>Environment\<close> (\<open>getEnv.cpp\<close> of the three programs), \<open>Namespaces\<close> (the links of \<open>/proc\<close> read by
    \<open>tracepoint.cpp\<close> and \<open>enforcement.cpp\<close>), \<open>Lsm_Report\<close> (\<open>print_event\<close>, \<open>kafkaProducer.cpp\<close> and the
    main loop of \<open>enforcement.cpp\<close>), \<open>Raw_Files\<close> (the daily files of the raw event logger).
  \<^item> \<open>Docker_Api\<close> (\<open>getContainerPIDs\<close> of the three programs on the answers of Docker, locale
    \<open>named_patterns\<close>), \<open>Watch_Loop\<close> (\<open>monitor_policy_file\<close>, \<open>monitor_docker_events\<close>), \<open>Program_Start\<close> and
    \<open>Program_Run\<close> (the three \<open>main\<close> functions: what is made and released, the threads and how they
    end), \<open>Lsm_Bounds\<close> (the layout of \<open>policy_map_structs.h\<close> and
    every write of the loader into it), \<open>Raw_Time\<close> (\<open>format_timestamp\<close>).
  \<^item> \<open>Trace_Example\<close>, \<open>Lsm_Example\<close>, \<open>Raw_Example\<close>, \<open>Watch_Example\<close>: concrete inputs for the witnesses.

  \<^bold>\<open>What is shown.\<close>  Per program: what it records and when, return value, reservations and maps
  (C1, and its counterpart for exits).  Per call: entry program and handler together print the arguments of
  the call (C2), and the end-to-end lines from the kernel to the log.  Per run: numbering,
  no unsolicited record, threads apart, argument maps that follow the calls.  Per policy: the update installs exactly what the file says,
  and the hooks decide as the first matching rule of the file says.  The two loggers: order and
  completeness of what they write, and the states in which they deadlock or lose events.  The watchers:
  stored policies keep their shape under every stream of events, at most one update runs, which
  updates end, which changes reach the map and which are lost.  What leaves the programs: a verdict
  becomes one message whose members say what the hook decided and for whom, and which determines the
  event unless it contains quotation marks, a task of the
  tracepoint logger offers Kafka every event once and in order, and which lines the
  files of the raw monitor hold, at midnight as well; what the counters in its events tell of losses.  The programs as processes: the containers they find are
  those that Docker lists, what they do while Docker is silent, that SIGINT ends them, and the two
  situations in which they wait for good.  Where the policy loader writes: inside
  its table exactly for the policies that fit.  Several theorems state behaviour that the authors did
  not want; they are named in the list of findings.

  \<^bold>\<open>Bounds.\<close>  They are those of the code: 120 calls per namespace, 64 rules of each kind per
  container, paths of 256 bytes, maps of 1024 and 10240 entries, logger buffers of 1000 events; the
  number of the tracepoint logger's buffers and the size of the raw logger's are arbitrary.
  Every loop of the eBPF programs is bounded and is structural recursion over its bound; there is no
  fuel.  The scans of the Docker stream and of inotify buffers are functions with a termination proof;
  the loops that repeat an update and the main loop of the enforcement are partial functions, and it is
  proved when they return.

  \<^bold>\<open>Not modelled.\<close>  Parsing of YAML and JSON and the search for control group directories: reflect-cpp,
  json-c and nlohmann/json are libraries, so the models take the parsed policy, the members of a JSON
  text and the inode that belongs to a container id.  libbpf, libcurl, librdkafka and zlib are
  parameters, by what their functions return.  Start-up failures of single threads; the options set on
  curl; console output; the menu of \<open>enforcement.cpp\<close> and \<open>syscalls_to_string\<close>, which nothing calls.
  The watchers are modelled three times: as a sequence of events, each handled before the next, as two
  threads with versions instead of policies, and with the main thread as far as they look at
  \<open>exiting\<close>; the mutual exclusion shown for the threads is what lets the updates be treated one after
  the other.  \<open>policy_map\<close> of the
  security hooks is an LRU map; its eviction is left out, the theorems about it assume room.
  Vendored libraries and generated kernel headers are not the program's own code.
\<close>

section \<open>The tracepoint monitor as a whole\<close>

text \<open>C1: Every one of the 163 entry programs, on every kernel, context and state, returns 0,
  leaves no reservation behind, does not touch the policy, and submits exactly one record of the
  running task, marked as entry and numbered with the next sequence number, if the policy of the
  task's container selects the event and the ring buffer has room, and none otherwise; the
  argument maps change as the table says.\<close>

theorem enter_programs_contract:
  "list_all (\<lambda>(n, p, A). \<forall>K ctx. probe K True (ucast (enter_id ctx)) (A K ctx) (p K ctx))
     enter_programs"
  by (rule enter_programs_probe)

text \<open>C25: The same contract for the 163 exit programs, whose records are marked as exit.\<close>

theorem exit_programs_contract:
  "list_all (\<lambda>(n, p, A). \<forall>K ctx. probe K False (ucast (exit_id ctx)) (A K ctx) (p K ctx))
     exit_programs"
  by (rule exit_programs_probe)

text \<open>C18: In every run from the loaded state, whatever programs run for whatever threads and
  whenever the consumer polls or the policy changes, the records carry the sequence numbers
  1, 2, 3 and so on without gap or repetition (modulo \<open>2 ^ 64\<close>), in the order of the ring
  buffer.\<close>

theorem sequence_numbers_consecutive:
  assumes "run initial as m"
  shows "seq_numbers m = map of_nat [1..<Suc (length (history m))] \<and>
    count (shared m) = of_nat (length (history m))"
  using run_numbered [OF assms initial_numbered] by (simp add: numbered_def)

theorem sequence_numbers_consecutive_witness:
  "seq_numbers demo_after_exit = [1, 2] \<and> count (shared demo_after_exit) = 2"
  using sequence_numbers_consecutive [OF demo_run3] by (simp add: demo_history_length upt_rec)

text \<open>C19: The argument maps of ten calls follow the calls.  In every run from the loaded state, whatever
  the programs do for whatever threads, the map of a call holds for a thread either nothing or the
  pointers with which that thread entered the call it is in: never those of an earlier call, of
  another call or of another thread; and in a run of at most 1024 actions, which cannot fill a map, it
  does hold them, from the entry to the exit.  The run ends a call when the thread runs an exit program
  of the list; the lists of \<open>accept\<close> and \<open>getsockopt\<close> contain the calls whose exit programs delete from
  the wrong map.\<close>

theorem arguments_follow_calls:
  assumes "run initial as m" and "activation_ns K \<noteq> 0"
  shows "args_follow getsockopt_args_map ''getsockopt'' [''getsockopt'', ''getdents'', ''getdents64''] (\<lambda>ctx. \<lparr>optval_ptr = args ctx 3, optlen_ptr = args ctx 4\<rparr>) K as m \<and>
   args_follow getsockname_args_map ''getsockname'' [''getsockname''] (sockaddr_arguments 1 2) K as m \<and>
   args_follow getpeername_args_map ''getpeername'' [''getpeername''] (sockaddr_arguments 1 2) K as m \<and>
   args_follow accept_args_map ''accept'' [''accept'', ''accept4''] (sockaddr_arguments 1 2) K as m \<and>
   args_follow recvfrom_args_map ''recvfrom'' [''recvfrom''] (sockaddr_arguments 4 5) K as m \<and>
   args_follow recvmsg_args_map ''recvmsg'' [''recvmsg''] (\<lambda>ctx. args ctx 1) K as m \<and>
   args_follow resuid_args_map ''getresuid'' [''getresuid''] (\<lambda>ctx. \<lparr>ptr_ruid = args ctx 0, ptr_euid = args ctx 1, ptr_suid = args ctx 2\<rparr>) K as m \<and>
   args_follow resgid_args_map ''getresgid'' [''getresgid''] (\<lambda>ctx. \<lparr>ptr_rgid = args ctx 0, ptr_egid = args ctx 1, ptr_sgid = args ctx 2\<rparr>) K as m \<and>
   args_follow getrlimit_args_map ''getrlimit'' [''getrlimit''] (\<lambda>ctx. args ctx 1) K as m \<and>
   args_follow capget_args_map ''capget'' [''capget''] (\<lambda>ctx. \<lparr>hdrp = args ctx 0, datap = args ctx 1\<rparr>) K as m"
  by (intro conjI getsockopt_calls.run_tracked getsockname_calls.run_tracked getpeername_calls.run_tracked accept_calls.run_tracked recvfrom_calls.run_tracked recvmsg_calls.run_tracked getresuid_calls.run_tracked getresgid_calls.run_tracked getrlimit_calls.run_tracked capget_calls.run_tracked assms)

theorem arguments_follow_calls_witness:
  "bpf_map_lookup_elem (accept_args_map (amaps (shared demo_accepting))) (activation_key demo_net_kernel) =
     Some \<lparr>addr_ptr = args (demo_enter 43) 1, addrlen_ptr = args (demo_enter 43) 2\<rparr>"
proof -
  have "activation_ns demo_net_kernel \<noteq> 0" by simp
  note arguments_follow_calls [OF demo_run_accept this]
  then show ?thesis
    by (simp add: args_follow_def follows_def open_call_def args_max_entries_def)
qed

text \<open>No unsolicited record: every record, delivered or still in the buffer, belongs to a
  container for which user space wrote a list that contains the record's system call (an exit
  record made without a task pointer has namespace and event id 0).\<close>

theorem records_are_requested:
  assumes "run initial as m" and "e \<in> set (history m)"
  shows "requested as e"
  using run_requested [OF assms(1)] assms(2) by blast

theorem records_are_requested_witness:
  "list_ex (requested [Set_policy 7 demo_list, Enter ''close'' demo_kernel (demo_enter 3),
     Exit ''close'' demo_kernel (demo_exit 3)]) (history demo_after_exit)"
  using records_are_requested [OF demo_run3 nth_mem] demo_history_length
  by (force simp: list_ex_iff)

text \<open>C20: Threads do not interfere: whatever programs run for other threads, that is, with another value
  of \<open>bpf_get_current_pid_tgid\<close> or in another namespace, and whatever the consumer and user space do,
  the entries of a thread in all fourteen argument maps stay as they are.  Thread numbers are not 0,
  which is that of the idle task, nor are the numbers of namespaces.\<close>

theorem threads_do_not_interfere:
  assumes "run m as m'" and "activation_ns K \<noteq> 0" and "(ucast (cur_pid_tgid K) :: u32) \<noteq> 0"
    and "list_all (by_other_thread (thread_id K)) as"
  shows "agree_at (activation_key K) (amaps (shared m)) (amaps (shared m'))"
  by (rule run_keeps_thread [OF assms])

text \<open>Another thread of the process that accepts a connection.\<close>

theorem threads_do_not_interfere_witness:
  "agree_at (activation_key (demo_kernel\<lparr>cur_pid_tgid := 0x2A0000002C\<rparr>))
     (amaps (shared initial)) (amaps (shared demo_accepting))"
  by (rule threads_do_not_interfere [OF demo_run_accept])
    (simp_all add: by_other_thread_def thread_id_def activation_ns_def demo_net_kernel_def demo_kernel_def)

text \<open>While the ring buffer has room, each selected activation of any program adds exactly one
  record, for its own task, with the next sequence number: no selected event is lost.\<close>

theorem selected_activation_is_recorded:
  assumes "step m a m'" and "activation a = Some (K, b, ev)"
    and "selected K b ev (shared m)" and "\<forall>n. rb_reserve K n \<noteq> None"
  shows "\<exists>e. history m' = history m @ [e] \<and> record_of K b ev (count (shared m) + 1) e"
  by (rule step_complete [OF assms])

theorem selected_activation_is_recorded_witness:
  "\<exists>e. history demo_after_enter = history demo_state @ [e] \<and>
     record_of demo_kernel True 3 (count (shared demo_state) + 1) e"
  by (rule selected_activation_is_recorded [OF demo_step_enter _ _ demo_reserves])
    (simp_all add: demo_enter_def demo_selected_steps)

section \<open>From the system call to the log line\<close>

text \<open>C2: For 111 calls the entry program of \<open>tracepoint.bpf.c\<close> and the handler of \<open>handler.cpp\<close>
  fit together: whatever memory the ring buffer hands out, the columns of the log line show the
  arguments of the call that the row lists, as numbers of the listed C type or as the text that
  user memory holds at the address (when all strings of the call can be read).\<close>

theorem calls_logged_faithfully:
  "length log_rows = 111 \<and> list_all (\<lambda>(n, p, slots, h, sig). faithful p h sig) log_rows"
  using log_rows_count(1) log_rows_faithful by simp

text \<open>C16: End to end: the record that such an entry program submits for system call number \<open>nr n\<close>
  is dispatched to the handler of that call, and the line names the call, the task, its
  container and its identities as they were at the activation, and shows the arguments.\<close>

theorem entry_reaches_log:
  assumes "(m, p, slots, he, sig) \<in> set log_rows" and "(n, he, hx) \<in> set event_handlers"
    and "inj_on nr (fst ` set event_handlers)" and "ucast (enter_id ctx) = nr n"
    and "cur_task K \<noteq> None" and "strings_at K ustr"
    and "rb (exec_state (p K ctx) s) = rb s @ [e]"
  shows "\<exists>d. handle_event nr env e = Some d \<and> identifies env K (nr n) True d \<and>
    list_all (\<lambda>(j, x). column j d = expected ustr ctx sig (get_str env (ev_task e)) j x) sig"
  by (rule logged_call_line [OF assms])

theorem entry_reaches_log_witness:
  "\<exists>e d. rb (shared demo_after_enter) = [e] \<and> handle_event demo_nr demo_env e = Some d \<and>
     identifies demo_env demo_kernel 3 True d \<and> arg0 d = ''1000''"
proof -
  obtain e where "history demo_after_enter = history demo_state @ [e]"
    using step_complete [OF demo_step_enter _ _ demo_reserves] demo_selected_steps
    by (auto simp: demo_enter_def)
  then have rb: "rb (exec_state (trace_sys_enter_close demo_kernel (demo_enter 3)) (shared demo_state)) =
      rb (shared demo_state) @ [e]"
    by (simp add: history_def demo_after_enter_def)
  have "ucast (enter_id (demo_enter 3)) = demo_nr ''close''" "cur_task demo_kernel \<noteq> None"
    by (simp_all add: demo_enter_def)
  from entry_reaches_log [OF demo_close_row demo_close_handlers demo_nr_inj this demo_strings rb, of demo_env]
  obtain d where "handle_event demo_nr demo_env e = Some d" "identifies demo_env demo_kernel 3 True d"
    "arg0 d = render I32 1000"
    by (auto simp: expected_def demo_enter_def simp del: render.simps)
  moreover have "render I32 1000 = ''1000''" by code_simp
  moreover have "rb (shared demo_after_enter) = [e]"
    using rb by (simp add: demo_after_enter_def demo_state_def initial_def)
  ultimately show ?thesis by auto
qed

text \<open>C17: End to end for the exits that only report: the line of the exit names call and task and
  carries the return value of the system call.\<close>

theorem exit_reaches_log:
  assumes "(m, p) \<in> set plain_exit_programs" and "(n, he, hx) \<in> set event_handlers"
    and "n \<notin> set map_calls" and "inj_on nr (fst ` set event_handlers)"
    and "ucast (exit_id ctx) = nr n" and "cur_task K \<noteq> None"
    and "rb (exec_state (p K ctx) s) = rb s @ [e]"
  shows "\<exists>d. handle_event nr env e = Some d \<and> identifies env K (nr n) False d \<and> db_ret d = exit_ret ctx"
  by (rule exit_line [OF assms])

theorem exit_reaches_log_witness:
  "\<exists>e d. rb (shared demo_after_exit) = rb (shared demo_after_enter) @ [e] \<and>
     handle_event demo_nr demo_env e = Some d \<and> identifies demo_env demo_kernel 3 False d \<and> db_ret d = 0"
proof -
  obtain e where "history demo_after_exit = history demo_after_enter @ [e]"
    using step_complete [OF demo_step_exit _ _ demo_reserves] demo_selected_steps
    by (auto simp: demo_exit_def)
  then have rb: "rb (exec_state (trace_sys_exit_close demo_kernel (demo_exit 3)) (shared demo_after_enter)) =
      rb (shared demo_after_enter) @ [e]"
    by (simp add: history_def demo_after_exit_def demo_after_enter_def)
  have listed: "(''close'', trace_sys_exit_close) \<in> set plain_exit_programs"
    by (simp add: plain_exit_programs_def net_plain_exit_def)
  have plain: "''close'' \<notin> set map_calls" by (simp add: map_calls_def)
  have id: "ucast (exit_id (demo_exit 3)) = demo_nr ''close''" and task: "cur_task demo_kernel \<noteq> None"
    by (simp_all add: demo_exit_def)
  obtain d where "handle_event demo_nr demo_env e = Some d" "identifies demo_env demo_kernel 3 False d" "db_ret d = 0"
    using exit_reaches_log [where nr = demo_nr, OF listed demo_close_handlers plain demo_nr_inj id task rb,
        of demo_env]
    by (auto simp: demo_exit_def)
  with rb show ?thesis by (auto simp: demo_after_exit_def)
qed

text \<open>Every handler hands its line to the logger, except the entry handlers of \<open>clone\<close>,
  \<open>getgroups\<close>, \<open>getrusage\<close>, \<open>process_vm_writev\<close> and \<open>munmap\<close> and the exit handler of \<open>getrlimit\<close>,
  which never do: those events are recorded by the kernel side and lost here.\<close>

theorem lines_lost_by_six_handlers:
  "list_all (\<lambda>(n, he, hx).
     (if n \<in> set silent_enter then silent he else logging he) \<and>
     (if n \<in> set silent_exit then silent hx else logging hx)) event_handlers"
  by (rule event_handlers_silent)

text \<open>Lines that mislead.  Fifteen calls have a column (seventeen in all) whose handler reads a slot that
  the entry program does not write: the line shows what the ring buffer memory held before, which
  is data of earlier records, possibly of another container.  And \<open>openat\<close>, \<open>renameat2\<close>, \<open>tkill\<close>,
  \<open>preadv2\<close> and \<open>pwritev2\<close> show another argument than the handler's comment says: for \<open>openat\<close> the
  flags stand in the column of the directory descriptor and the mode in that of the flags.\<close>

theorem stale_and_misplaced_columns:
  "length stale_rows = 17 \<and>
   list_all (\<lambda>(n, p, slots, texts, h, j, f). prints_stale p h j f) stale_rows \<and>
   list_all (\<lambda>(n, p, slots, h, sig). faithful p h sig) misplaced_rows"
  using log_rows_count(2) stale_rows_print misplaced_rows_faithful by simp

section \<open>The policy\<close>

text \<open>C5: After a policy update with at least one running container, in which containers and
  namespaces are distinct and fit into the map, the kernel side logs a call of a namespace
  exactly if the namespace is that of a container found and the call is among the first 120
  known calls of its policy; everything monitored before and no longer named is off.\<close>

theorem policy_update_exact:
  fixes nr :: "string \<Rightarrow> s32"
  assumes "loader_ok l" and "policies \<noteq> []" and "found \<noteq> []"
    and "distinct (map c_id found)" and "distinct (map (ns_of get_ns) found)"
    and "length (syscall_map l) + length found \<le> policy_max_entries"
  defines "res \<equiv> update_policy nr get_ns policies found l"
  shows "fst res = 0 \<and> loader_ok (snd res) \<and> monitored_namespaces (snd res) = ns_of get_ns ` set found
    \<and> (\<forall>ns ev. ev \<noteq> - 1 \<longrightarrow> should_log (syscall_map (snd res)) ns ev = wants nr get_ns found ns ev)"
  unfolding res_def by (rule update_policy_ok [OF assms(1-6)])

theorem policy_update_exact_witness:
  "let res = update_policy demo_nr (\<lambda>_. 7) [\<lparr>p_container_name = ''web'', p_syscalls = []\<rparr>]
       [demo_container] demo_loader
   in should_log (syscall_map (snd res)) 7 3 \<and> \<not> should_log (syscall_map (snd res)) 8 3"
proof -
  have "length (syscall_map demo_loader) + length [demo_container] \<le> policy_max_entries"
    by (simp add: demo_loader_def policy_max_entries_def)
  from policy_update_exact [OF demo_loader_ok _ _ _ _ this, of "[\<lparr>p_container_name = ''web'', p_syscalls = []\<rparr>]"
      "\<lambda>_. 7" demo_nr]
  show ?thesis by (simp add: wants_def demo_selected_syscalls)
qed

text \<open>A container that two patterns of the policy match is listed twice, and the array of its
  second entry is written under a namespace number that was never initialised.\<close>

theorem second_pattern_uses_garbage:
  assumes "i < j" and "j < length (running l)" and "c_id (running l ! i) = c_id (running l ! j)"
  shows "syscall_map (fst (update_container nr get_ns j (l, S))) =
    snd (bpf_map_update_elem policy_max_entries (c_ns_id (running l ! j))
      (pad_syscalls (selected_syscalls nr (c_syscalls (running l ! j)))) (syscall_map l))"
  using update_ns_first [OF assms(2,1,3)] by (simp add: update_container_def Let_def)

theorem second_pattern_uses_garbage_witness:
  "let cs = getContainerPIDs (\<lambda>p n. Some True) [\<lparr>p_container_name = ''web'', p_syscalls = []\<rparr>,
         \<lparr>p_container_name = ''.*'', p_syscalls = []\<rparr>] 99 [(''c0'', ''web'', 10)];
       l = \<lparr>syscall_map = [], monitored_namespaces = {}, running = cs\<rparr>
   in map fst (syscall_map (fst (update_container demo_nr (\<lambda>_. 7) 1 (l, {})))) = [99]"
  using second_pattern_uses_garbage [of 0 1 "\<lparr>syscall_map = [], monitored_namespaces = {},
      running = getContainerPIDs (\<lambda>p n. Some True) [\<lparr>p_container_name = ''web'', p_syscalls = []\<rparr>,
         \<lparr>p_container_name = ''.*'', p_syscalls = []\<rparr>] 99 [(''c0'', ''web'', 10)]\<rparr>" demo_nr "\<lambda>_. 7" "{}"]
  by (simp add: getContainerPIDs_def isMonitored_def bpf_map_update_elem_def policy_max_entries_def)

text \<open>The names a policy may use, the handlers of the consumer, and the numbers agree: every
  name accepted by \<open>string_to_syscalls\<close> has a handler pair and every handler pair a name.\<close>

theorem policy_names_have_handlers:
  "set tracepoint_names = (\<lambda>n. ''__NR_'' @ n) ` set (map fst event_handlers)"
  by (simp add: tracepoint_names_def handler_tables insert_commute)

section \<open>Entry and exit of one call\<close>

text \<open>The map \<open>sel\<close> has no entry of the thread once its exit program for the call has run.\<close>

definition released :: "(args_maps \<Rightarrow> (map_key, 'v) hmap) \<Rightarrow> string \<Rightarrow> bool" where
  "released sel name \<longleftrightarrow>
     (\<forall>m K ctx m'. step m (Exit name K ctx) m' \<longrightarrow>
        bpf_map_lookup_elem (sel (amaps (shared m'))) (activation_key K) = None)"

text \<open>The exit programs of ten of the fourteen calls that keep arguments between entry and exit
  leave no entry of the thread behind, on every path: with or without a record, whatever the call
  returned and whatever the reads of user memory gave.\<close>

theorem ten_calls_release_their_entry:
  "released getsockopt_args_map ''getsockopt'' \<and>
   released getsockname_args_map ''getsockname'' \<and>
   released getpeername_args_map ''getpeername'' \<and>
   released accept_args_map ''accept'' \<and>
   released recvfrom_args_map ''recvfrom'' \<and>
   released recvmsg_args_map ''recvmsg'' \<and>
   released resuid_args_map ''getresuid'' \<and>
   released resgid_args_map ''getresgid'' \<and>
   released getrlimit_args_map ''getrlimit'' \<and>
   released capget_args_map ''capget''"
  using getsockopt.entry_released getsockname.entry_released getpeername.entry_released accept.entry_released recvfrom.entry_released recvmsg.entry_released getresuid.entry_released getresgid.entry_released getrlimit.entry_released capget.entry_released
  unfolding released_def getsockopt.entry_def getsockname.entry_def getpeername.entry_def accept.entry_def recvfrom.entry_def recvmsg.entry_def getresuid.entry_def getresgid.entry_def getrlimit.entry_def capget.entry_def by blast

text \<open>C30: What the entry program of \<open>accept\<close> stored for a thread is what its exit program reports,
  whatever other threads, the consumer and the policy did in between: if user memory holds an IPv4
  socket address at the pointer given on entry, the exit record is valid and carries its address
  and its port in host byte order.\<close>

theorem accept_reports_peer:
  assumes "step m (Enter ''accept'' K ctx) m1"
    and "\<not> hmap_full args_max_entries (accept_args_map (amaps (shared m)))"
    and "run m1 as m2" and "list_all (activation_foreign (activation_key K)) as"
    and "step m2 (Exit ''accept'' K' ctx') m3" and "activation_key K' = activation_key K"
    and "selected K' False (ucast (exit_id ctx')) (shared m2)"
    and "\<forall>n. rb_reserve K' n \<noteq> None" and "nonneg (exit_ret ctx')"
    and "args ctx 1 \<noteq> 0" and "memory_holds K' (args ctx 1) (encode_sockaddr_in a)"
    and "sin_family a = 2"
  shows "\<exists>e. history m3 = history m2 @ [e] \<and> is_valid e \<and> \<not> is_null e \<and> \<not> is_enter e \<and>
    ev_ret e = exit_ret ctx' \<and> addr_family e = 2 \<and> ev_ip e = s_addr a \<and> ev_port e = bswap16 (sin_port a)"
  by (rule accept_exit_record [OF assms])

theorem accept_reports_peer_witness:
  "\<exists>e. history demo_accepted = history demo_accepting @ [e] \<and> is_valid e \<and> ev_ip e = 0x0100007F \<and>
     ev_port e = 8080"
proof -
  have port: "bswap16 (sin_port demo_peer) = 8080" by (simp add: demo_peer_def) code_simp
  have "args (demo_enter 43) 1 \<noteq> 0" "nonneg (exit_ret (demo_exit 43))"
    by (simp_all add: demo_enter_def demo_exit_def nonneg_def)
  then show ?thesis
    using accept_reports_peer [OF demo_step_accept demo_state_room run_nil _ demo_step_accepted refl _ _ _ _
      demo_peer_memory] demo_accept_selected port
    by (fastforce simp: demo_exit_def demo_peer_def)
qed

text \<open>For an IPv6 address the port is right and the record claims to be valid, but the address is
  lost: the program reads it from its own stack with the helper for user memory, which refuses
  and leaves zeros.\<close>

theorem ipv6_address_lost:
  assumes "memory_holds K p bs" and "length bs = 28" and "u16_at bs 0 = 10" and "p \<noteq> 0"
    and "user_reads_only K"
  shows "fst (run_state (read_sockaddr K e p) s) =
    (True, e\<lparr>addr_family := 10, ipv6_addr := replicate 16 0,
       ev_port := bswap16 (u16_at bs 2), is_valid := True\<rparr>)"
  by (rule read_sockaddr_inet6 [OF assms])

theorem ipv6_address_lost_witness:
  "let K = demo_kernel\<lparr>read_user := \<lambda>_ p sz _. if 2 ^ 47 \<le> p then (- 14, replicate sz 0)
           else (0, take sz (bytes16 10 @ bytes16 0x901F @ replicate 24 7)),
         stack_addr := \<lambda>_. 2 ^ 48\<rparr>
   in ipv6_addr (snd (fst (run_state (read_sockaddr K demo_record 1001) (shared initial)))) = replicate 16 0"
proof -
  define K where "K = demo_kernel\<lparr>read_user := \<lambda>_ p sz _. if 2 ^ 47 \<le> p then (- 14, replicate sz 0)
           else (0, take sz (bytes16 10 @ bytes16 0x901F @ replicate 24 7)),
         stack_addr := \<lambda>_. 2 ^ 48\<rparr>"
  let ?bs = "bytes16 10 @ bytes16 0x901F @ replicate 24 (7 :: u8)"
  have "memory_holds K 1001 ?bs" by (simp add: memory_holds_def K_def)
  moreover have "length ?bs = 28" "u16_at ?bs 0 = 10" "(1001 :: u64) \<noteq> 0"
    by simp_all
  moreover have "user_reads_only K" by (simp add: user_reads_only_def K_def)
  ultimately show ?thesis
    using ipv6_address_lost [of K 1001 ?bs demo_record "shared initial"] by (simp add: K_def Let_def)
qed

text \<open>Once the map is full it stays full, and the exit record of \<open>accept4\<close> of every thread that
  has no entry by then says that no address was requested, whatever the thread passed and the
  kernel returned.\<close>

theorem accept4_blind_when_full:
  assumes "hmap_full args_max_entries (accept4_args_map (amaps (shared m)))"
    and "bpf_map_lookup_elem (accept4_args_map (amaps (shared m))) (activation_key K) = None"
    and "run m as m'" and "step m' (Exit ''accept4'' K ctx) m''"
    and "selected K False (ucast (exit_id ctx)) (shared m')" and "\<forall>n. rb_reserve K n \<noteq> None"
    and "nonneg (exit_ret ctx)"
  shows "\<exists>e. history m'' = history m' @ [e] \<and> ev_ret e = exit_ret ctx \<and> is_null e \<and> \<not> is_valid e \<and>
    ev_ip e = 0 \<and> ev_port e = 0"
proof -
  have "accept4.entry (activation_key K) m' = None"
    by (rule accept4.full_map_serves_no_new_thread [OF assms(3,1)])
      (simp add: accept4.entry_def assms(2))
  from accept4_exit_without_entry [OF assms(4) this assms(5-7)] show ?thesis by auto
qed

theorem accept4_blind_when_full_witness:
  "\<exists>m m''. length (accept4_args_map (amaps (shared m))) = 1024 \<and>
     (\<exists>e. history m'' = history m @ [e] \<and> is_null e \<and> \<not> is_valid e)"
proof -
  let ?K = "thread_kernel 5000" and ?ctx = "demo_exit 288"
  obtain m where run: "run initial (concat (map accept4_call [0..<1024])) m"
    and len: "length (accept4_args_map (amaps (shared m))) = 1024"
    and keys: "\<And>k. accept4.entry k m \<noteq> None \<Longrightarrow> k \<in> (\<lambda>i. activation_key (thread_kernel i)) ` {0..<1024}"
    using accept4_map_fills [of 1024] by (auto simp: args_max_entries_def)
  define m1 where "m1 = m\<lparr>shared := syscall_array_update
    (\<lambda>_. snd (bpf_map_update_elem policy_max_entries 7 demo_list [])) (shared m)\<rparr>"
  define m2 where "m2 = m1\<lparr>shared := exec_state (trace_sys_exit_accept4 ?K ?ctx) (shared m1)\<rparr>"
  have "activation_key ?K \<notin> (\<lambda>i. activation_key (thread_kernel i)) ` {0..<1024}"
    by (auto simp: thread_key_eq)
  with keys have fresh: "bpf_map_lookup_elem (accept4_args_map (amaps (shared m1))) (activation_key ?K) = None"
    by (force simp: accept4.entry_def m1_def)
  have full: "hmap_full args_max_entries (accept4_args_map (amaps (shared m1)))"
    using len by (simp add: m1_def hmap_full_def args_max_entries_def)
  have step: "step m1 (Exit ''accept4'' ?K ?ctx) m2"
    unfolding m2_def by (rule step.exit [OF accept4_exit_listed])
  have "should_log (syscall_array (shared m1)) 7 288"
    by (simp add: m1_def should_log_def bpf_map_lookup_elem_def bpf_map_update_elem_def
        policy_max_entries_def scan_syscalls_iff demo_list_def)
  then have sel: "selected ?K False (ucast (exit_id ?ctx)) (shared m1)"
    by (simp add: selected_def activation_ns_def thread_kernel_def demo_kernel_def demo_exit_def)
  have room: "\<forall>n. rb_reserve ?K n \<noteq> None" by (simp add: thread_kernel_def demo_kernel_def)
  have ret: "nonneg (exit_ret ?ctx)" by (simp add: demo_exit_def nonneg_def)
  have "length (accept4_args_map (amaps (shared m1))) = 1024" using len by (simp add: m1_def)
  with accept4_blind_when_full [OF full fresh run_nil step sel room ret] show ?thesis by blast
qed

section \<open>The event logger\<close>

text \<open>C26: The logger keeps the order and loses nothing while it runs: however the reader, the flush
  thread and the worker take turns, the events handed to Kafka followed by the events still inside
  are the events that were added, in the order they were added; every buffer is in one place, no
  buffer exceeds 1000 events, and free buffers are empty.\<close>

theorem logger_keeps_order:
  assumes "0 < n" and "log_run (new_logger n) as l"
  shows "produced l @ in_flight l = added as \<and> logger_ok n l"
  by (rule logger_order [OF assms])

theorem logger_keeps_order_witness:
  "\<exists>l. log_run (new_logger 2) [Add ''a'', Timeout, Add ''b'', Pop, Send, Work] l \<and>
     produced l = [''a''] \<and> in_flight l = [''b'']"
proof -
  obtain l where l: "log_run (new_logger 2) [Add ''a'', Timeout, Add ''b'', Pop, Send, Work] l"
    "produced l = [''a'']"
    using demo_logger_run [of "''a''" "''b''"] by auto
  from logger_keeps_order [OF _ this(1)] have "produced l @ in_flight l = [''a'', ''b'']" by simp
  with l show ?thesis by (intro exI [of _ l]) simp
qed

text \<open>C28: The logger deadlocks when it is full: \<open>n\<close> buffers and \<open>n * 1000 + 1\<close> events that come before the
  flush thread has returned a buffer leave the reader waiting, and whatever the other threads do
  from there on, it waits forever, because it holds the lock that the flush thread needs to give
  a buffer back.\<close>

theorem full_logger_deadlocks:
  assumes "0 < n"
  shows "\<exists>l. log_run (new_logger n) (replicate (n * buffer_size + 1) (Add e)) l \<and>
    (\<forall>as l'. log_run l as l' \<longrightarrow> adder l' = Add_waiting e \<and> available_buffers l' = [])"
  by (rule waiting_for_good [OF assms])

theorem full_logger_deadlocks_witness:
  "\<exists>l. log_run (new_logger 3) (replicate 3001 (Add ''a'')) l \<and>
    (\<forall>as l'. log_run l as l' \<longrightarrow> adder l' = Add_waiting ''a'' \<and> available_buffers l' = [])"
  using full_logger_deadlocks [of 3 "''a''"] by (simp add: buffer_size_def)

text \<open>C27: A task of the pool offers Kafka one message per event, in order: what is accepted is a part of
  these messages, all of them when none is refused.  No event is skipped, because \<open>sanitizeString\<close>
  leaves nothing that the JSON library refuses; each batch is sent as soon as it reaches 10 MB.  Two
  events of printable text with the same object are the same event, up to the time within a
  microsecond.\<close>

theorem trace_messages_reach_kafka:
  assumes "\<And>j. ascii_json j \<Longrightarrow> dump j \<noteq> None"
  shows "subseq (fst (kafka_task produce poll dump es k)) (map (\<lambda>d. the (dump (event_json d))) es) \<and>
    ((\<forall>m k. fst (produce m k)) \<longrightarrow>
      fst (kafka_task produce poll dump es k) = map (\<lambda>d. the (dump (event_json d))) es) \<and>
    (\<forall>ms \<in> set (event_batches dump es).
      ms \<noteq> [] \<and> sum_list (map length (butlast ms)) < max_batch_size) \<and>
    (\<forall>d d'. printable d \<and> printable d' \<and> event_json d = event_json d' \<longrightarrow>
      d = d'\<lparr>db_timestamp := db_timestamp d\<rparr> \<and>
      microseconds (db_timestamp d) = microseconds (db_timestamp d'))"
proof (intro conjI allI impI)
  show "subseq (fst (kafka_task produce poll dump es k)) (map (\<lambda>d. the (dump (event_json d))) es)"
    by (rule kafka_task_messages(1) [OF assms])
  show "fst (kafka_task produce poll dump es k) = map (\<lambda>d. the (dump (event_json d))) es"
    if "\<forall>m k. fst (produce m k)"
    by (rule kafka_task_messages(2)) (rule assms, assumption, rule that)
qed (use event_batches_size event_json_determines in blast)+

theorem trace_messages_reach_kafka_witness:
  "let es = [demo_db_event ''cat'', demo_db_event ''ls''];
       messages = map (\<lambda>d. the (demo_dump (event_json d))) es
   in fst (kafka_task (\<lambda>m k. (True, k)) (\<lambda>k. k) demo_dump es (0 :: nat)) = messages \<and>
      subseq (fst (kafka_task demo_produce (\<lambda>k. k) demo_dump es 1)) messages"
proof -
  have ascii: "\<And>j. ascii_json j \<Longrightarrow> demo_dump j \<noteq> None" by (simp add: demo_dump_def)
  show ?thesis
    using trace_messages_reach_kafka [of demo_dump "\<lambda>m k. (True, k)" "\<lambda>k. k"
        "[demo_db_event ''cat'', demo_db_event ''ls'']" "0 :: nat", OF ascii]
      trace_messages_reach_kafka [of demo_dump demo_produce "\<lambda>k. k"
        "[demo_db_event ''cat'', demo_db_event ''ls'']" 1, OF ascii]
    by (simp add: Let_def)
qed

text \<open>C29: The destructor loses what the buffers hold: the pool is stopped before the remaining buffers are
  sent, so of everything in flight at most one task, that was queued before, still reaches Kafka,
  and every buffer is emptied.\<close>

theorem shutdown_loses_buffers:
  assumes "0 < n" and "log_run (new_logger n) as l"
  shows "\<exists>lost. added as = produced (destroy_logger n one_more l) @ lost \<and>
    in_flight l = (if one_more then concat (take 1 (pool_tasks l)) else []) @ lost \<and>
    (\<forall>b < n. contents (destroy_logger n one_more l) b = [])"
  by (rule destroy_logger_loses [OF assms])

theorem shutdown_loses_buffers_witness:
  "\<exists>l. log_run (new_logger 2) [Add ''a''] l \<and> produced (destroy_logger 2 True l) = [] \<and>
    (\<exists>lost. [''a''] = produced (destroy_logger 2 True l) @ lost)"
proof -
  obtain l where l: "log_run (new_logger 2) [Add ''a''] l" "produced (destroy_logger 2 True l) = []"
    using demo_logger_add [of "''a''"] by (auto simp: destroy_logger_produced)
  from shutdown_loses_buffers [OF _ l(1), of True]
  have "\<exists>lost. [''a''] = produced (destroy_logger 2 True l) @ lost" by auto
  with l show ?thesis by auto
qed

section \<open>Single programs and helpers\<close>

section \<open>LSM enforcement\<close>

text \<open>C3: Every hook implements the abstract decision: it does nothing without a policy of its type or
  without a record, otherwise it finds the rule that applies, returns the verdict that the flags
  of this rule fix, and either submits one record of the running task with the hook's number and
  the verdict, or discards the record.\<close>

theorem hooks_enforce_verdict:
  "enforced c pm K s (run_hook c pm K s)"
  by (rule run_hook_enforced)

text \<open>C4: From the policy file to the verdict: after an update that finds containers with distinct
  namespaces and rules that fit the tables, every hook called by a task of such a container lets
  the operation go on if the container has no rule of the hook's type, and otherwise decides as
  the first rule of the file that accepts the object (path, name, address or command) says.\<close>

theorem policy_file_governs_hooks:
  assumes "fm_ok fm" and "named \<noteq> []" and "found \<noteq> []"
    and "\<forall>c \<in> set found. eligible key_of c \<longrightarrow> policy_fits (lc_policies c)"
    and "distinct (map (key_of \<circ> lc_pid) (filter (eligible key_of) found))"
    and "length found \<le> MAX_CONTAINERS"
    and "c \<in> set found" "eligible key_of c" "value_shape (garbage c)"
    and "task_policy_key K = key_of (lc_pid c)" "lk_task K = Some t" "lk_reserve K = Some e0"
      "buffers_ok K e0"
  shows "\<exists>fm' pm'. update_policy_with_file key_of garbage named found fm pm = (Inr 0, fm', pm') \<and>
    (\<forall>h s. fst (run_hook h pm' K s) =
      (if has_rules (hook_type h) (lc_policies c)
       then fst (verdict h (yaml_matched (lc_policies c) h K e0)) else 0))"
  by (rule policy_governs [where garbage = garbage and key_of = key_of and c = c, OF assms])

theorem policy_file_governs_hooks_witness:
  "\<exists>fm' pm'. update_policy_with_file demo_key_of (\<lambda>_. demo_garbage) [''web''] [demo_lsm_container] flags_map [] =
      (Inr 0, fm', pm') \<and> fst (run_hook (File_open 0) pm' demo_lsm_kernel demo_ring) = - 1"
proof -
  have fits: "\<forall>c \<in> set [demo_lsm_container]. eligible demo_key_of c \<longrightarrow> policy_fits (lc_policies c)"
    using demo_policy_fits by (simp add: demo_lsm_container_def)
  have in_found: "demo_lsm_container \<in> set [demo_lsm_container]" by simp
  have policies: "lc_policies demo_lsm_container = demo_yaml" by (simp add: demo_lsm_container_def)
  have rules: "has_rules (hook_type (File_open 0)) demo_yaml" by (simp add: demo_yaml_def)
  obtain fm' pm' where "update_policy_with_file demo_key_of (\<lambda>_. demo_garbage) [''web''] [demo_lsm_container]
      flags_map [] = (Inr 0, fm', pm')"
    and all: "\<forall>h s. fst (run_hook h pm' demo_lsm_kernel s) = (if has_rules (hook_type h) demo_yaml
       then fst (verdict h (yaml_matched demo_yaml h demo_lsm_kernel demo_lsm_event)) else 0)"
    using policy_file_governs_hooks [where fm = flags_map and named = "[''web'']"
        and found = "[demo_lsm_container]" and key_of = demo_key_of and c = demo_lsm_container
        and garbage = "\<lambda>_. demo_garbage" and pm = "[]",
        OF fm_ok_initial _ _ fits _ _ in_found demo_eligible demo_garbage_shape demo_lsm_simps(3,1,2)
        demo_buffers]
    unfolding policies by (auto simp: MAX_CONTAINERS_def demo_eligible)
  moreover have "fst (run_hook (File_open 0) pm' demo_lsm_kernel demo_ring) = - 1"
    unfolding all [rule_format] using rules demo_open_refused by (simp only: if_True)
  ultimately show ?thesis by blast
qed

text \<open>C31: A path is governed by the first of the rules in use whose string equals it or, with
  \<open>POLICY_RECURSIVE\<close>, ends in a slash and is a proper prefix of it; a recursive rule without the
  final slash covers nothing below its directory.\<close>

theorem file_rules_first_match:
  assumes "bpf_map_lookup_elem pm (task_policy_key K) = Some v" and "value_ok v" and "length path = 256"
  shows "match_file pm K path =
    (case find (\<lambda>p. accepts (has (fp_flags p) POLICY_RECURSIVE) (cstr (fp_path p)) (cstr path))
         (take (min 64 (unat (num_file_policies v))) (file_policies v)) of
       None \<Rightarrow> 0 | Some p \<Rightarrow> fp_flags p)"
  using match_file_find [OF assms] by (simp add: rule_names_path_def [abs_def] considered_def)

theorem file_rules_first_match_witness:
  "match_file [(demo_key_of 10, demo_garbage\<lparr>num_file_policies := 1,
       file_policies := [\<lparr>fp_path = padded 256 ''/etc/'', fp_uid = [], fp_flags = POLICY_FILE_READ\<rparr>]\<rparr>)]
     demo_lsm_kernel (padded 256 ''/etc/'') = POLICY_FILE_READ"
proof -
  let ?v = "demo_garbage\<lparr>num_file_policies := 1,
       file_policies := [\<lparr>fp_path = padded 256 ''/etc/'', fp_uid = [], fp_flags = POLICY_FILE_READ\<rparr>]\<rparr>"
  have "value_ok ?v" "length (padded 256 ''/etc/'') = 256"
    by (simp_all add: value_ok_def considered_def file_rule_ok_def padded_def demo_garbage_def)
  moreover have "bpf_map_lookup_elem [(demo_key_of 10, ?v)] (task_policy_key demo_lsm_kernel) = Some ?v"
    by (simp add: bpf_map_lookup_elem_def demo_key_of_def)
  ultimately show ?thesis
    using file_rules_first_match [of "[(demo_key_of 10, ?v)]" demo_lsm_kernel ?v "padded 256 ''/etc/''"]
    by (simp add: accepts_def)
qed

text \<open>\<open>POLICY_AUDIT\<close> never changes what happens: with it, a hook decides as if no rule applied, whether
  its default is to allow or to refuse.\<close>

theorem audit_keeps_default:
  assumes "lk_reserve K = Some e0" and "lk_task K = Some t" and "should_monitor pm K (hook_type c)"
    and "has (matched c pm K e0) POLICY_AUDIT"
  shows "fst (run_hook c pm K s) = fst (verdict c 0)"
  using run_hook_verdict [OF assms(1,2), of c pm s] audit_verdict [OF assms(4), of c] assms(3)
  by (simp add: default_verdict_def)

theorem audit_keeps_default_witness:
  "fst (run_hook Path_unlink demo_audit_map demo_lsm_kernel demo_ring) = - 1"
  unfolding audit_keeps_default [OF demo_lsm_simps(2,1) demo_audit_monitored demo_audit_flags(1)]
  by (simp add: white_def has_0)

text \<open>Of a policy only the addresses, ports, protocols, strings and the fourteen effective flags count:
  user ids, subnet masks and the flags \<open>POLICY_DENY\<close>, \<open>POLICY_ALLOW\<close>, \<open>POLICY_OWNER\<close>,
  \<open>POLICY_PROC_FORK\<close> and \<open>POLICY_PROC_KILL\<close> can be erased without any hook behaving differently.\<close>

theorem inert_policy_fields:
  "run_hook c (plain_map pm) K s = run_hook c pm K s"
  by (rule run_hook_plain)

text \<open>When the ring buffer has no room, no hook enforces anything: every operation is allowed,
  whatever the policy says, and nothing is reported.\<close>

theorem full_ring_buffer_allows_all:
  assumes "lk_reserve K = None"
  shows "run_hook c pm K s = (0, s)"
  using run_hook_enforced [of c pm K s] assms by (simp add: enforced_def)

theorem full_ring_buffer_allows_all_witness:
  "run_hook Path_unlink [] (demo_lsm_kernel\<lparr>lk_reserve := None\<rparr>) demo_ring = (0, demo_ring)"
  by (rule full_ring_buffer_allows_all) simp

text \<open>Names of flags and bits translate back and forth: what \<open>flags_to_string\<close> prints of the bits that
  \<open>string_to_flags\<close> makes of a list of names are the known names of the list, each once, in
  alphabetical order.\<close>

theorem flag_names_round_trip:
  assumes "fm_ok fm"
  shows "flags_to_string (snd (string_to_flags fm names)) (fst (string_to_flags fm names)) =
    sorted_list_of_set {s \<in> set names. s \<in> fst ` set flags_map}"
  by (rule flags_round_trip [OF assms])

theorem flag_names_round_trip_witness:
  "let (flags, fm) = string_to_flags flags_map [''POLICY_RECURSIVE'', ''POLICY_OTHER'', ''POLICY_DENY'']
   in flags_to_string fm flags = [''POLICY_DENY'', ''POLICY_RECURSIVE'']"
proof -
  let ?names = "[''POLICY_RECURSIVE'', ''POLICY_OTHER'', ''POLICY_DENY'']"
  have "{s \<in> set ?names. s \<in> fst ` set flags_map} = {''POLICY_DENY'', ''POLICY_RECURSIVE''}"
    by (auto simp: flags_map_def)
  moreover have "sorted_list_of_set {''POLICY_DENY'', ''POLICY_RECURSIVE''} = [''POLICY_DENY'', ''POLICY_RECURSIVE'']"
    by code_simp
  ultimately show ?thesis
    using flag_names_round_trip [OF fm_ok_initial, of ?names] by (simp add: case_prod_unfold)
qed

text \<open>An address written as four decimal numbers with a prefix length up to 32 is parsed to that
  address (in host order) and a mask of that many leading ones.\<close>

theorem address_with_prefix_parsed:
  assumes "n \<le> 32"
  shows "parse_ip (inet_ntop4 ip @ ''/'' @ to_string (int n)) =
    Some \<lparr>ip_host = bswap32 ip, ip_mask = push_bit (32 - n) (- 1)\<rparr>"
  by (rule parse_ip_prefix [OF assms])

theorem address_with_prefix_parsed_witness:
  "parse_ip (inet_ntop4 0x0100007F @ ''/8'') = Some \<lparr>ip_host = bswap32 0x0100007F, ip_mask = 0xFF000000\<rparr>"
proof -
  have "to_string (int 8) = ''8''" by code_simp
  moreover have "NOT (mask 24) = (0xFF000000 :: u32)" by code_simp
  ultimately show ?thesis using address_with_prefix_parsed [of 8 "0x0100007F"] by simp
qed

text \<open>Which rules of the file name the peer of a \<open>connect\<close> and the source of a \<open>recvmsg\<close>.  On
  \<open>connect\<close> the port of the rule is compared, byte for byte, with the port in network order, so a
  rule for port 80 applies to port 20480; on \<open>recvmsg\<close> the local port is compared as it is, and
  only rules without a protocol ever apply.\<close>

theorem network_rules_compared:
  "(names_target (connect_target (AF_INET_address (bswap16 port) ip) sock_type) n \<longleftrightarrow>
     rule_address n = ip \<and>
     (port = bswap16 (ucast (yn_port n)) \<or> (ucast (yn_port n) :: u16) = 0) \<and>
     (ucast (yn_protocol n) =
        (if sock_type = SOCK_STREAM then IPPROTO_TCP else if sock_type = SOCK_DGRAM then IPPROTO_UDP
         else IPPROTO_IP) \<or> (ucast (yn_protocol n) :: u8) = 0)) \<and>
   (names_target (recvmsg_source daddr port) n \<longleftrightarrow>
     rule_address n = daddr \<and> ((ucast (yn_port n) :: u16) = port \<or> (ucast (yn_port n) :: u16) = 0) \<and>
     (ucast (yn_protocol n) :: u8) = 0)"
  by (intro conjI connect_target_named recvmsg_source_named)

text \<open>The loader checks no bound: more than 64 file rules, a path of 256 bytes or more or more than 30
  user ids make it write outside the table.\<close>

theorem oversized_policy_overruns:
  assumes "length (y_file y) > 64 \<or> list_ex (\<lambda>f. 256 \<le> length (c_str (yf_path f)) \<or> 30 < length (yf_uid f)) (y_file y)"
  shows "load_value y fm v = Inl Out_of_bounds"
  by (rule load_value_overrun [OF assms])

theorem oversized_policy_overruns_witness:
  "load_value (demo_yaml\<lparr>y_file := [\<lparr>yf_path = replicate 256 CHR ''a'', yf_flags = [], yf_uid = []\<rparr>]\<rparr>)
     flags_map demo_garbage = Inl Out_of_bounds"
  by (rule oversized_policy_overruns) (simp add: c_str_def cstr_def takeWhile_replicate)

section \<open>The raw tracepoint monitor\<close>

text \<open>C34: The program returns 0 and logs exactly the listed system calls of monitored tasks: one event that
  describes the activation and carries the name from the map, or one more counted loss when the
  ring buffer is full; everything else passes unnoticed.\<close>

theorem raw_activation_contract:
  "let (r, s') = raw_sys_enter nr K ctx s in
     r = 0 \<and> reserved_1 s' = reserved_1 s \<and>
     (if raw_should_monitor s (rk_ppid K) (rk_cgroup K) \<and> listed s ctx then
        cnt s' = cnt s + 1 \<and>
        (if rk_reserve K = None then events_1 s' = events_1 s \<and> err_cnt s' = err_cnt s + 1
         else err_cnt s' = err_cnt s \<and>
           (\<exists>e. events_1 s' = events_1 s @ [e] \<and> raw_describes K ctx e \<and>
              bpf_map_lookup_elem (syscall_map_1 s) (ucast (raw_id ctx)) = Some (re_syscall e)))
      else events_1 s' = events_1 s \<and> cnt s' = cnt s \<and> err_cnt s' = err_cnt s)"
proof -
  obtain r s' where run: "raw_sys_enter nr K ctx s = (r, s')" by (cases "raw_sys_enter nr K ctx s")
  have "r = 0" using raw_sys_enter_returns [of nr K ctx s] by (simp add: run)
  with run show ?thesis by (cases rule: raw_sys_enter_cases) (auto simp: run)
qed

text \<open>C35: What the counters in the raw events tell of losses, when activations overlap on any number of
  CPUs and every access to the shared counters and to the ring buffer is a step of its own.  In every
  event the number of attempts less the number of losses is at least its place in the ring buffer, so
  the losses before it are never overstated, and no counter is ahead of the shared ones.  When no
  activation is under way, every reservation was submitted and the attempts are exactly the losses and the
  events.  If no activation overlaps another one, attempts less losses is exactly the place.  (It is
  not otherwise: in the example two events carry the same two counters.)\<close>

theorem raw_events_account_for_losses:
  fixes nr :: "string \<Rightarrow> s32"
  assumes "raw_schedule nr ts (raw_boot n s) = Some m" and "cnt s = 0" "err_cnt s = 0" and "length ts < 2 ^ 64"
    and "events_1 s = []" "reserved_1 s = 0"
  shows "(\<forall>place e. place < length (rm_ring m) \<and> rm_ring m ! place = Some e \<longrightarrow>
      unat (re_error_cnt e) + Suc place \<le> unat (re_cnt e) \<and> unat (re_cnt e) \<le> unat (cnt (rm_state m)) \<and>
      unat (re_error_cnt e) \<le> unat (err_cnt (rm_state m))) \<and>
    (quiet_machine m \<longrightarrow> None \<notin> set (rm_ring m) \<and>
      unat (cnt (rm_state m)) = unat (err_cnt (rm_state m)) + length (rm_ring m)) \<and>
    (\<forall>as. list_all (\<lambda>(i, K, ctx). i < n) as \<longrightarrow>
      (let es = events_1 (raw_view (raw_serial nr as (raw_boot n s)))
       in \<forall>i < length es. re_cnt (es ! i) = re_error_cnt (es ! i) + of_nat (Suc i)))"
  using raw_schedule_counts [OF assms(1-4)] raw_serial_exact [OF assms(2,3,5,6), of n _ nr]
  by (simp add: counters_ok_def Let_def)

theorem raw_events_account_for_losses_witness:
  "\<exists>m e d. raw_schedule (\<lambda>_. 263) demo_overlap (raw_boot 2 demo_raw_state) = Some m \<and>
     rm_ring m = [Some e, Some d] \<and> re_cnt e = 2 \<and> re_cnt d = 2 \<and> unat (cnt (rm_state m)) = unat (err_cnt (rm_state m)) + 2"
proof -
  obtain m e d where run: "raw_schedule (\<lambda>_. 263) demo_overlap (raw_boot 2 demo_raw_state) = Some m" "quiet_machine m"
    "rm_ring m = [Some e, Some d]" "re_cnt e = 2" "re_cnt d = 2"
    using demo_overlap_run by blast
  have "cnt demo_raw_state = 0" "err_cnt demo_raw_state = 0" "events_1 demo_raw_state = []" "reserved_1 demo_raw_state = 0"
    by (simp_all add: demo_raw_state_def)
  moreover have "length demo_overlap < 2 ^ 64" by (simp add: demo_overlap_def)
  ultimately have "unat (cnt (rm_state m)) = unat (err_cnt (rm_state m)) + 2"
    using raw_events_account_for_losses [OF run(1)] run(2,3) by simp
  with run show ?thesis by blast
qed

text \<open>C36: From the policy file to the raw program: an update that finds the containers \<open>cs\<close> lists exactly the
  processes of \<open>cs\<close>, if the processes listed before were those of the previous containers, and the
  program then watches the children of these processes and the control groups of \<open>cs\<close>, besides
  groups it had learnt that belong to no container that is gone.\<close>

theorem raw_update_watches_containers:
  assumes "find_containers regex_match inode garbage (map fst (filter snd items)) d = cs" and "cs \<noteq> []"
    and "raw_update_policy_with_file regex_match inode garbage (Some items) (Some d) l = (r, l')"
    and "length (container_pids (rl_maps l)) + length cs \<le> raw_max_entries"
    and "length (container_cgroup_id (rl_maps l)) + length cs \<le> raw_max_entries"
    and "dom (bpf_map_lookup_elem (container_pids (rl_maps l))) = pid_key ` set (rl_containers l)"
  shows "rl_containers l' = cs \<and>
    dom (bpf_map_lookup_elem (container_pids (rl_maps l'))) = pid_key ` set cs \<and>
    (raw_should_monitor (rl_maps l') ppid g \<longleftrightarrow>
       ppid \<in> pid_key ` set cs \<or> g \<in> rc_cgroup_id ` set cs \<or>
       (g \<in> dom (bpf_map_lookup_elem (container_cgroup_id (rl_maps l))) \<and>
        g \<notin> rc_cgroup_id ` (set (rl_containers l) - set cs)))"
  by (rule update_watches [OF assms])

theorem raw_update_watches_containers_witness:
  "let l' = snd (raw_update_policy_with_file (\<lambda>_ _. None) (\<lambda>_. Some 9) 0 (Some [(''web'', True), (''db'', False)])
       (Some [(''a'', ''db'', 30), (''b'', ''web'', 40)]) demo_raw_loader)
   in raw_should_monitor (rl_maps l') 40 7 \<and> raw_should_monitor (rl_maps l') 1 9 \<and>
      \<not> raw_should_monitor (rl_maps l') 30 8"
proof -
  obtain r l' where run: "raw_update_policy_with_file (\<lambda>_ _. None) (\<lambda>_. Some 9) 0
      (Some [(''web'', True), (''db'', False)]) (Some [(''a'', ''db'', 30), (''b'', ''web'', 40)]) demo_raw_loader = (r, l')"
    by (cases "raw_update_policy_with_file (\<lambda>_ _. None) (\<lambda>_. Some 9) 0
      (Some [(''web'', True), (''db'', False)]) (Some [(''a'', ''db'', 30), (''b'', ''web'', 40)]) demo_raw_loader")
  note watched = raw_update_watches_containers [OF demo_found _ run]
  from watched [of 40 7] watched [of 1 9] watched [of 30 8] show ?thesis
    by (simp add: run demo_raw_loader_simps raw_max_entries_def pid_key_def)
qed

text \<open>A container that stops when no other is left stays watched: an update that finds no container
  forgets the list but leaves the maps as they are, and no later update, however many there are,
  removes the process from the map unless Docker reports a container with that process id again.\<close>

theorem raw_last_container_stays:
  assumes "bpf_map_lookup_elem (container_pids (rl_maps l)) p \<noteq> None"
    and "update_monitoring_map regex_match inode garbage docker l = (- 1, l')"
    and "\<forall>(inode, garbage, policy, docker) \<in> set us. \<not> runs_as p docker"
  shows "raw_should_monitor (rl_maps (raw_updates regex_match us l')) p g"
  by (rule lost_containers_watched [OF assms])

theorem raw_last_container_stays_witness:
  "raw_should_monitor (rl_maps (raw_updates (\<lambda>_ _. None)
       [(\<lambda>_. Some 9, 0, Some [(''web'', True)], Some [(''b'', ''web'', 40)])]
       (snd (update_monitoring_map (\<lambda>_ _. None) (\<lambda>_. Some 9) 0 (Some []) demo_raw_loader)))) 30 7"
  by (rule raw_last_container_stays [where docker = "Some []" and l = demo_raw_loader
        and inode = "\<lambda>_. Some 9" and garbage = 0])
    (simp_all add: demo_raw_loader_simps demo_nothing_found runs_as_def)

text \<open>C37: End to end for the raw monitor: with the table as it is filled at start-up, a listed call of a
  watched task gives, if the ring buffer has room, one event whose line in the log shows its number,
  the time, the first fifteen characters of the name of the call, and the task.\<close>

theorem raw_activation_reaches_log:
  assumes "inj_on nr (set syscall_list)" and "syscall_map_1 s = init_syscall_map nr []"
    and "name \<in> set syscall_list" and "ucast (raw_id ctx) = nr name"
    and "raw_should_monitor s (rk_ppid K) (rk_cgroup K)" and "rk_reserve K \<noteq> None"
  shows "\<exists>e rest. events_1 (snd (raw_sys_enter nr K ctx s)) = events_1 s @ [e] \<and>
    raw_line nr stamp e =
      ''['' @ setw 13 (number (cnt s + 1)) @ ''] '' @ stamp (rk_time K) @ '' Process syscall: '' @
      take 15 name @ '' (nr='' @ number (nr name) @
      '', pid='' @ number (ucast (drop_bit 32 (rk_pid_tgid K)) :: u32) @
      '', tid='' @ number (ucast (rk_pid_tgid K) :: u32) @ '', ppid='' @ number (rk_ppid K) @
      '', uid='' @ number (ucast (rk_uid_gid K) :: u32) @ '', comm='' @ c_string (rk_comm K) @
      '', cgroup_id='' @ number (rk_cgroup K) @ rest"
  by (rule activation_line [where nr = nr, OF assms])

theorem raw_activation_reaches_log_witness:
  "\<exists>e rest. events_1 (snd (raw_sys_enter demo_table_nr demo_raw_kernel demo_table_ctx demo_table_state)) =
      events_1 demo_table_state @ [e] \<and>
    raw_line demo_table_nr (\<lambda>_. ''now'') e =
      ''['' @ setw 13 (number (1 :: u64)) @ ''] now Process syscall: unlinkat (nr='' @
      number (demo_table_nr ''unlinkat'') @ rest"
  using raw_activation_reaches_log [where nr = demo_table_nr, OF demo_table_nr_inj demo_table_simps(1,3-), of "\<lambda>_. ''now''"]
  by (auto simp: demo_table_simps(2))

text \<open>C38: The log file of the raw monitor is complete and in order as long as no timeout occurs and every event
  that fills its buffer finds another that is not full: what is in the file, followed by what is in
  the buffers, is what was added; and after the destructor the file holds it all.\<close>

theorem raw_file_complete_in_order:
  assumes "0 < n" and "raw_log_run n as new_raw_logger = Some l" and "smooth n as new_raw_logger"
  shows "rb_file l @ raw_pending l = raw_added as \<and>
    (rb_flusher l = Rf_done \<longrightarrow> rb_file (close_logger l) = raw_added as)"
  using raw_file_complete [OF assms] by blast

theorem raw_file_complete_in_order_witness:
  "let as = [R_add ''a'', R_add ''b'', R_add ''c'', R_pop, R_write, R_clear, R_shutdown, R_finish]
   in \<exists>l. raw_log_run 2 as new_raw_logger = Some l \<and> rb_file l = [''a'', ''b''] \<and>
        rb_file (close_logger l) = [''a'', ''b'', ''c'']"
proof -
  let ?as = "[R_add ''a'', R_add ''b'', R_add ''c'', R_pop, R_write, R_clear, R_shutdown, R_finish]"
  have smooth: "smooth 2 ?as new_raw_logger"
    and run: "\<exists>l. raw_log_run 2 ?as new_raw_logger = Some l \<and> rb_file l = [''a'', ''b''] \<and> rb_flusher l = Rf_done"
    by (simp_all add: new_raw_logger_def raw_addEvent_def Let_def next_buffer_def finds_buffer_def)
  from run obtain l where l: "raw_log_run 2 ?as new_raw_logger = Some l" "rb_file l = [''a'', ''b'']"
    "rb_flusher l = Rf_done" by blast
  with raw_file_complete_in_order [OF _ l(1) smooth] show ?thesis by (simp add: Let_def)
qed

text \<open>A timeout can lose an event: a buffer that is written because of a timeout is not full, so the thread
  that adds events may come back to it before the flush thread clears it; what was added then is in
  no buffer and never in the file, for every buffer size from 2 on.\<close>

theorem raw_timeout_loses_event:
  assumes "2 \<le> n" and "e \<noteq> lost"
  shows "\<exists>as l. raw_log_run n as new_raw_logger = Some l \<and> rb_flusher l = Rf_done \<and>
    lost \<in> set (raw_added as) \<and> lost \<notin> set (rb_file (close_logger l))"
  by (rule losing_run_loses [OF assms])

theorem raw_timeout_loses_event_witness:
  "\<exists>as l. raw_log_run 100000 as new_raw_logger = Some l \<and> rb_flusher l = Rf_done \<and>
    ''b'' \<in> set (raw_added as) \<and> ''b'' \<notin> set (rb_file (close_logger l))"
  by (rule raw_timeout_loses_event [of _ "''a''"]) simp_all

text \<open>For \<open>unlinkat\<close>, \<open>mkdirat\<close> and nine further calls that take a directory descriptor first, the file
  name of the event is read at the value of that descriptor instead of at the path.\<close>

theorem raw_paths_read_at_descriptor:
  assumes "n \<in> set path_is_second" and "ucast (raw_id ctx) = nr n"
    and "events_1 (snd (raw_sys_enter nr K ctx s)) = events_1 s @ [e]"
  shows "\<exists>e0. rk_reserve K = Some e0 \<and> re_filename e = read_filename K (raw_args ctx 0) (re_filename e0)"
  by (rule raw_filename_from_descriptor [where nr = nr, OF assms])

theorem raw_paths_read_at_descriptor_witness:
  "\<exists>e. events_1 (snd (raw_sys_enter (\<lambda>_. 263) demo_raw_kernel demo_raw_ctx demo_raw_state)) = [e] \<and>
     re_filename e = no_string (replicate 256 0)"
proof -
  have "raw_sys_enter (\<lambda>_. 263) demo_raw_kernel demo_raw_ctx demo_raw_state =
      (fst (raw_sys_enter (\<lambda>_. 263) demo_raw_kernel demo_raw_ctx demo_raw_state),
       snd (raw_sys_enter (\<lambda>_. 263) demo_raw_kernel demo_raw_ctx demo_raw_state))" by simp
  then obtain e where e: "events_1 (snd (raw_sys_enter (\<lambda>_. 263) demo_raw_kernel demo_raw_ctx demo_raw_state)) =
      events_1 demo_raw_state @ [e]"
    by (cases rule: raw_sys_enter_cases) (use demo_raw_simps(1,2,5) in auto)
  have "''unlinkat'' \<in> set path_is_second" by (simp add: path_is_second_def)
  from raw_paths_read_at_descriptor [of "''unlinkat''" demo_raw_ctx "\<lambda>_. 263", OF this _ e]
  have "re_filename e = no_string (replicate 256 0)"
    by (auto simp: demo_raw_ctx_def demo_raw_kernel_def demo_raw_event_def read_filename_def)
  with e show ?thesis by (simp add: demo_raw_state_def)
qed

section \<open>Updates and the threads that trigger them\<close>

text \<open>C8: The policies in the map keep their shape: whatever the Docker stream and the file watcher
  deliver, and however often an update is repeated, the map stays well formed and every stored policy
  has tables and strings of the sizes of the struct, with rules that end within their fields (what
  \<open>file_rules_first_match\<close> asks for), as long as no file overruns the tables.\<close>

theorem watched_policies_keep_shape:
  assumes "\<And>k. lsm_usable (worlds k)"
    and "watch json_event lsm_docker_actions file_name (update_policy_on_event worlds lsm_attempt) inputs
      (buffer, k, fm, pm) = Some (buffer', k', fm', pm')"
    and "lsm_shape (fm, pm)"
  shows "hmap_ok MAX_CONTAINERS pm' \<and> (\<forall>kv \<in> set pm'. struct_value (snd kv) \<and> value_ok (snd kv))"
  using lsm_loader.watch_ok [OF assms(1,2)] assms(3) by (simp add: lsm_shape_def)

theorem watched_policies_keep_shape_witness:
  "\<exists>buffer' k' fm' pm'. watch demo_json lsm_docker_actions ''policy.yaml''
     (update_policy_on_event (\<lambda>_. demo_lsm_world) lsm_attempt) demo_chunks ([], 0, flags_map, []) =
       Some (buffer', k', fm', pm') \<and>
     hmap_ok MAX_CONTAINERS pm' \<and> (\<forall>kv \<in> set pm'. struct_value (snd kv) \<and> value_ok (snd kv))"
proof -
  obtain buffer' k' fm' pm' where run: "watch demo_json lsm_docker_actions ''policy.yaml''
     (update_policy_on_event (\<lambda>_. demo_lsm_world) lsm_attempt) demo_chunks ([], 0, flags_map, []) =
     Some (buffer', k', fm', pm')" using demo_watch_returns by blast
  have "lsm_shape (flags_map, [])" by (simp add: lsm_shape_def hmap_ok_def)
  from watched_policies_keep_shape [OF _ run this] run demo_lsm_usable show ?thesis by blast
qed

text \<open>C7: From a Docker event to the records: a line of the event stream about a container, in whatever
  chunks it arrives, makes the tracepoint monitor update its policy; the update passes the attempts that
  find no container and returns with the first one that does, unless the program is told to exit.  From
  then on, as long as the ring buffer has room, each entry and exit of a task in a container found is
  recorded exactly once if the policy file names the call for that container, and otherwise not.\<close>

theorem docker_event_starts_recording:
  assumes "concat chunks = line @ [NL]" "NL \<notin> set line"
    and "json_event line = Some (action, ''container'')" "action \<in> set trace_docker_actions"
    and "\<forall>j < n. trace_idle regex_match (worlds (k + j))" "\<forall>j \<le> 2 * (k + n). \<not> stop j"
      "trace_ready regex_match (worlds (k + n))" "loader_ok l"
      "length (syscall_map l) + length (trace_found regex_match (worlds (k + n))) \<le> policy_max_entries"
  shows "\<exists>l'. docker_stream json_event trace_docker_actions
      (trace_update_policy_on_event stop worlds (trace_attempt nr regex_match)) chunks ([], k, l) =
      Some ([], Suc (k + n), l') \<and> loader_ok l' \<and>
    (\<forall>m a m' K b ev. syscall_array (shared m) = syscall_map l' \<longrightarrow> step m a m' \<longrightarrow>
      activation a = Some (K, b, ev) \<longrightarrow> ev \<noteq> - 1 \<longrightarrow> cur_task K \<noteq> None \<longrightarrow> (\<forall>n. rb_reserve K n \<noteq> None) \<longrightarrow>
      (if wants nr (tw_ns (worlds (k + n))) (trace_found regex_match (worlds (k + n))) (activation_ns K) ev
       then \<exists>e. history m' = history m @ [e] \<and> record_of K b ev (count (shared m) + 1) e
       else history m' = history m))"
  by (rule docker_event_selects [where json_event = json_event and worlds = worlds, OF assms])

theorem docker_event_starts_recording_witness:
  "\<exists>l' e. docker_stream demo_json trace_docker_actions
      (trace_update_policy_on_event (\<lambda>_. False)
        (\<lambda>j. if j = 0 then demo_trace_world\<lparr>tw_docker := []\<rparr> else demo_trace_world)
        (trace_attempt demo_nr (\<lambda>_ _. None)))
      [''start'', [NL]] ([], 0, demo_loader) = Some ([], 2, l') \<and>
    history (demo_watched l'\<lparr>shared := exec_state (trace_sys_enter_close demo_kernel (demo_enter 3))
      (shared (demo_watched l'))\<rparr>) = [e] \<and> record_of demo_kernel True 3 1 e"
proof -
  let ?worlds = "\<lambda>j :: nat. if j = 0 then demo_trace_world\<lparr>tw_docker := []\<rparr> else demo_trace_world"
  have line: "concat [''start'', [NL]] = ''start'' @ [NL]" "NL \<notin> set ''start''" by (simp_all add: NL_def)
  have event: "demo_json ''start'' = Some (''start'', ''container'')" "''start'' \<in> set trace_docker_actions"
    by (simp_all add: demo_json_def trace_docker_actions_def)
  have update: "\<forall>j < 1. trace_idle (\<lambda>_ _. None) (?worlds (0 + j))" "\<forall>j \<le> 2 * (0 + 1 :: nat). \<not> False"
    "trace_ready (\<lambda>_ _. None) (?worlds (0 + 1))"
    "length (syscall_map demo_loader) + length (trace_found (\<lambda>_ _. None) (?worlds (0 + 1))) \<le> policy_max_entries"
    using demo_trace_idle demo_trace_ready
    by (simp_all add: demo_trace_found) (simp add: demo_loader_def policy_max_entries_def)
  have wants: "wants demo_nr (tw_ns (?worlds (0 + 1))) (trace_found (\<lambda>_ _. None) (?worlds (0 + 1)))
      (activation_ns demo_kernel) 3"
    by (simp add: demo_trace_found wants_def demo_selected_syscalls demo_trace_ns)
  obtain l' where run: "docker_stream demo_json trace_docker_actions
      (trace_update_policy_on_event (\<lambda>_. False) ?worlds (trace_attempt demo_nr (\<lambda>_ _. None)))
      [''start'', [NL]] ([], 0, demo_loader) = Some ([], Suc (0 + 1), l')"
    and all: "\<forall>m a m' K b ev. syscall_array (shared m) = syscall_map l' \<longrightarrow> step m a m' \<longrightarrow>
      activation a = Some (K, b, ev) \<longrightarrow> ev \<noteq> - 1 \<longrightarrow> cur_task K \<noteq> None \<longrightarrow> (\<forall>n. rb_reserve K n \<noteq> None) \<longrightarrow>
      (if wants demo_nr (tw_ns (?worlds (0 + 1))) (trace_found (\<lambda>_ _. None) (?worlds (0 + 1))) (activation_ns K) ev
       then \<exists>e. history m' = history m @ [e] \<and> record_of K b ev (count (shared m) + 1) e
       else history m' = history m)"
    using docker_event_starts_recording [where json_event = demo_json and worlds = ?worlds and k = 0 and n = 1
        and nr = demo_nr and stop = "\<lambda>_. False", OF line event update(1,2,3) demo_loader_ok update(4)] by blast
  have "\<exists>e. history (demo_watched l'\<lparr>shared := exec_state (trace_sys_enter_close demo_kernel (demo_enter 3))
      (shared (demo_watched l'))\<rparr>) = history (demo_watched l') @ [e] \<and>
      record_of demo_kernel True 3 (count (shared (demo_watched l')) + 1) e"
    using all [rule_format, OF demo_watched_array demo_watched_step, of demo_kernel True 3] wants demo_reserves
    by (simp add: demo_enter_def)
  with run show ?thesis by (auto simp: demo_watched_start numeral_2_eq_2)
qed

text \<open>C6: From a Docker event to the verdict: a line of the event stream about a container, in whatever
  chunks it arrives, starts an update that repeats while there is nothing to load, and returns with the
  first world that has a policy to load; from then on every hook decides for the tasks of the
  containers of that world as the first accepting rule of the file says.\<close>

theorem docker_event_enforces_policy:
  assumes "concat chunks = line @ [NL]" and "NL \<notin> set line"
    and "json_event line = Some (action, ''container'')" and "action \<in> set lsm_docker_actions"
    and "fm_ok fm" and "\<forall>j < n. lsm_idle (worlds (k + j))" and "installable (worlds (k + n))"
    and "c \<in> set (lw_found (worlds (k + n)))" "eligible (lw_key (worlds (k + n))) c"
      "value_shape (lw_garbage (worlds (k + n)) c)"
    and "task_policy_key K = lw_key (worlds (k + n)) (lc_pid c)" "lk_task K = Some t" "lk_reserve K = Some e0"
      "buffers_ok K e0"
  shows "\<exists>fm' pm'. docker_stream json_event lsm_docker_actions (update_policy_on_event worlds lsm_attempt) chunks
      ([], k, fm, pm) = Some ([], Suc (k + n), fm', pm') \<and>
    (\<forall>h s. fst (run_hook h pm' K s) =
      (if has_rules (hook_type h) (lc_policies c)
       then fst (verdict h (yaml_matched (lc_policies c) h K e0)) else 0))"
  by (rule docker_event_governs [where json_event = json_event and worlds = worlds, OF assms])

theorem docker_event_enforces_policy_witness:
  "\<exists>fm' pm'. docker_stream demo_json lsm_docker_actions
      (update_policy_on_event (\<lambda>j. if j = 0 then demo_lsm_world\<lparr>lw_found := []\<rparr> else demo_lsm_world) lsm_attempt)
      [''start'', [NL]] ([], 0, flags_map, []) = Some ([], 2, fm', pm') \<and>
    fst (run_hook (File_open 0) pm' demo_lsm_kernel demo_ring) = - 1"
proof -
  let ?worlds = "\<lambda>j :: nat. if j = 0 then demo_lsm_world\<lparr>lw_found := []\<rparr> else demo_lsm_world"
  have line: "concat [''start'', [NL]] = ''start'' @ [NL]" "NL \<notin> set ''start''" by (simp_all add: NL_def)
  have event: "demo_json ''start'' = Some (''start'', ''container'')" "''start'' \<in> set lsm_docker_actions"
    by (simp_all add: demo_json_def lsm_docker_actions_def)
  have idle: "\<forall>j < 1. lsm_idle (?worlds (0 + j))" by (simp add: lsm_idle_def demo_lsm_world_def)
  have world: "?worlds (0 + 1) = demo_lsm_world" by simp
  have "installable demo_lsm_world"
    using demo_policy_fits
    by (simp add: installable_def demo_lsm_world_def MAX_CONTAINERS_def) (simp add: demo_lsm_container_def)
  then have w: "installable (?worlds (0 + 1))" unfolding world .
  have c: "demo_lsm_container \<in> set (lw_found (?worlds (0 + 1)))" "eligible (lw_key (?worlds (0 + 1))) demo_lsm_container"
    "value_shape (lw_garbage (?worlds (0 + 1)) demo_lsm_container)"
    "task_policy_key demo_lsm_kernel = lw_key (?worlds (0 + 1)) (lc_pid demo_lsm_container)"
    using demo_eligible demo_garbage_shape by (simp_all add: demo_lsm_world_def)
  obtain fm' pm' where run: "docker_stream demo_json lsm_docker_actions (update_policy_on_event ?worlds lsm_attempt)
      [''start'', [NL]] ([], 0, flags_map, []) = Some ([], Suc (0 + 1), fm', pm')"
    and all: "\<forall>h s. fst (run_hook h pm' demo_lsm_kernel s) = (if has_rules (hook_type h) (lc_policies demo_lsm_container)
       then fst (verdict h (yaml_matched (lc_policies demo_lsm_container) h demo_lsm_kernel demo_lsm_event)) else 0)"
    using docker_event_enforces_policy [where json_event = demo_json and worlds = ?worlds and pm = "[]" and k = 0 and n = 1,
        OF line event fm_ok_initial idle w c demo_lsm_simps(1,2) demo_buffers] by blast
  have policies: "lc_policies demo_lsm_container = demo_yaml" by (simp add: demo_lsm_container_def)
  have rules: "has_rules (hook_type (File_open 0)) demo_yaml" by (simp add: demo_yaml_def)
  have "fst (run_hook (File_open 0) pm' demo_lsm_kernel demo_ring) = - 1"
    unfolding all [rule_format] policies using rules demo_open_refused by (simp only: if_True)
  with run show ?thesis by (auto simp: numeral_2_eq_2)
qed

text \<open>C23: When an update ends.  The loops of lsm and raw_tracepoint return exactly if some later attempt
  finds a world in which it does not fail (a container that runs and a file that names one; a file
  that can be parsed); they do not look at the exit signal.  The loop of tracepoint returns once the
  signal is set, whatever the attempts do.\<close>

theorem update_loops_end:
  assumes "stop (2 * (k + n))"
  shows "(update_policy_on_event lsm_worlds lsm_attempt (k, s) \<noteq> None \<longleftrightarrow>
      (\<exists>j \<ge> k. \<not> lsm_idle (lsm_worlds j))) \<and>
    (update_policy_on_event raw_worlds (raw_attempt regex_match) (k, l) \<noteq> None \<longleftrightarrow>
      (\<exists>j \<ge> k. \<not> raw_idle (raw_worlds j))) \<and>
    trace_update_policy_on_event stop trace_worlds (trace_attempt nr regex_match) (k, t) \<noteq> None"
proof (intro conjI)
  show "trace_update_policy_on_event stop trace_worlds (trace_attempt nr regex_match) (k, t) \<noteq> None"
    unfolding trace_update_policy_on_event_def fst_conv by (rule retry_until_exit_returns) (rule assms)
qed (rule lsm_waits.update_ends_iff raw_waits.update_ends_iff)+

theorem update_loops_end_witness:
  "update_policy_on_event (\<lambda>_. demo_lsm_world\<lparr>lw_found := []\<rparr>) lsm_attempt (0, flags_map, []) = None \<and>
   trace_update_policy_on_event (\<lambda>j. 6 \<le> j) (\<lambda>_. \<lparr>tw_policy = Some [], tw_docker = [], tw_garbage = 0, tw_ns = \<lambda>_. 1\<rparr>)
     (trace_attempt (\<lambda>_. 0) (\<lambda>_ _. None)) (0, \<lparr>syscall_map = [], monitored_namespaces = {}, running = []\<rparr>) \<noteq> None"
proof -
  have "lsm_idle (demo_lsm_world\<lparr>lw_found := []\<rparr>)" by (simp add: lsm_idle_def demo_lsm_world_def)
  moreover have "(6 :: nat) \<le> 2 * (0 + 3)" by simp
  ultimately show ?thesis
    using update_loops_end [of "\<lambda>j. 6 \<le> j" 0 3 "\<lambda>_. demo_lsm_world\<lparr>lw_found := []\<rparr>" "(flags_map, [])"
      "\<lambda>_. \<lparr>rw_policy = None, rw_docker = None, rw_inode = \<lambda>_. None, rw_garbage = 0\<rparr>" "\<lambda>_ _. None" demo_raw_loader
      "\<lambda>_. \<lparr>tw_policy = Some [], tw_docker = [], tw_garbage = 0, tw_ns = \<lambda>_. 1\<rparr>" "\<lambda>_. 0"
      "\<lparr>syscall_map = [], monitored_namespaces = {}, running = []\<rparr>"]
    by blast
qed

text \<open>C24: How the Docker event stream is cut into chunks does not matter: the callback handles exactly
  the lines of the whole text, each once and in order, and keeps what follows the last newline.\<close>

theorem docker_chunks_irrelevant:
  "docker_stream json_event actions trigger chunks ([], s) =
     (let (lines, rest) = split_lines [] (concat chunks) in
      map_option (Pair rest) (fold_option (handle_docker_line json_event actions trigger) lines s))"
  by (simp add: docker_stream_run case_prod_unfold Let_def)

text \<open>C21: At most one of the two watching threads is in an update, the flag \<open>policy_update_running\<close> is
  set exactly while one is, and the mutex is held exactly while a thread loads the policy.\<close>

theorem one_update_at_a_time:
  assumes "watchers_run as watchers_start = Some s"
  shows "\<not> (updating (pc s File_watcher) \<and> updating (pc s Docker_watcher)) \<and>
    (policy_update_running s \<longleftrightarrow> updating (pc s File_watcher) \<or> updating (pc s Docker_watcher)) \<and>
    (\<forall>t. mtx s = Some t \<longleftrightarrow> locked (pc s t))"
  using run_exclusive [OF assms] by (simp add: exclusive_def)

theorem one_update_at_a_time_witness:
  "\<exists>s. watchers_run (take 8 lost_change) watchers_start = Some s \<and> mtx s = Some File_watcher \<and>
     locked (pc s File_watcher) \<and> \<not> updating (pc s Docker_watcher)"
proof -
  obtain s where s: "watchers_run (take 8 lost_change) watchers_start = Some s" "pc s File_watcher = Loading 1"
    by (simp add: lost_change_def watchers_run_def watchers_start_def)
  with one_update_at_a_time [OF s(1)] show ?thesis by auto
qed

text \<open>C22: A change of the file or of the containers reaches the map: when both threads are idle and
  every announced change has been taken, the newest version is installed, provided that no update
  ended by an exception and that no thread gave up because of an update that had already read the
  world.  The last condition is needed: there is a run without exceptions in which a change that
  comes between the release of the mutex and the reset of the flag is lost.\<close>

theorem timely_changes_installed:
  assumes "watchers_run as watchers_start = Some s" and "timely_run as watchers_start" and "watchers_quiet s"
  shows "installed s = world s \<and>
    (\<exists>as' s'. watchers_run as' watchers_start = Some s' \<and> watchers_quiet s' \<and>
      list_all (\<lambda>a. \<forall>t. a \<noteq> Conclude t Thrown) as' \<and> installed s' < world s')"
proof
  show "installed s = world s" by (rule timely_run_installs [OF assms])
  show "\<exists>as' s'. watchers_run as' watchers_start = Some s' \<and> watchers_quiet s' \<and>
      list_all (\<lambda>a. \<forall>t. a \<noteq> Conclude t Thrown) as' \<and> installed s' < world s'"
    using lost_change_run by (intro exI [of _ lost_change]) (auto simp: lost_change_def split: option.splits)
qed

theorem timely_changes_installed_witness:
  "\<exists>s. watchers_run [Change File_watcher, Take File_watcher True, Notify File_watcher, Call File_watcher,
      Lock File_watcher, Read File_watcher, Conclude File_watcher Updated, Clear File_watcher] watchers_start = Some s \<and>
     installed s = world s \<and> world s = 1"
proof -
  let ?as = "[Change File_watcher, Take File_watcher True, Notify File_watcher, Call File_watcher,
      Lock File_watcher, Read File_watcher, Conclude File_watcher Updated, Clear File_watcher]"
  obtain s where s: "watchers_run ?as watchers_start = Some s" "watchers_quiet s" "world s = 1"
    by (simp add: watchers_run_def watchers_start_def watchers_quiet_def)
  moreover have "timely_run ?as watchers_start"
    by (simp add: watchers_start_def late_call_def)
  ultimately show ?thesis using timely_changes_installed [OF s(1) _ s(2)] by blast
qed

text \<open>C40: The namespaces of a running process are read back from the links of \<open>/proc\<close>, by the tracepoint
  monitor as the number under which the calls of a container are stored, by the enforcement as the
  two numbers of the policy key.\<close>

theorem namespace_links_read:
  assumes "0 \<le> open_file (ns_path proc pid ''pid'')" and "open_file (ns_path proc pid ''mnt'') \<noteq> 0"
    and "readlink (ns_path proc pid ''pid'') = Some (ns_link ''pid'' i)"
    and "readlink (ns_path proc pid ''mnt'') = Some (ns_link ''mnt'' j)"
  shows "get_namespace_id proc open_file readlink pid = i \<and>
    read_policy_key proc open_file readlink pid = \<lparr>pid_ns_id = i, mnt_ns_id = j\<rparr>"
  using namespace_id_read [of open_file proc pid readlink i] policy_key_read [of open_file proc pid readlink i j] assms
  by blast

theorem namespace_links_read_witness:
  "get_namespace_id ''/proc'' (\<lambda>_. 3) demo_readlink 42 = 7 \<and>
   read_policy_key ''/proc'' (\<lambda>_. 3) demo_readlink 42 = \<lparr>pid_ns_id = 7, mnt_ns_id = 8\<rparr>"
  using namespace_links_read [of "\<lambda>_. 3" "''/proc''" 42 demo_readlink 7 8]
  by (simp add: demo_readlink_def demo_ns_paths demo_ns_links)

text \<open>In a list of brokers the hosts that are names are replaced by their addresses and nothing else
  changes.\<close>

theorem brokers_resolved:
  assumes "list_all (\<lambda>hp. entry_ok hp \<and> (numeric_host (fst hp) \<or> resolve (fst hp) \<noteq> None)) hps"
  shows "splitHostnamePort resolve (join_commas (map broker_entry hps)) =
    Some (join_commas (map (\<lambda>hp. (if numeric_host (fst hp) then fst hp else the (resolve (fst hp))) @ '':'' @ snd hp) hps))"
  using splitHostnamePort_entries [OF assms] by (simp add: broker_entry_def resolved_def comp_def)

theorem brokers_resolved_witness:
  "splitHostnamePort (\<lambda>h. if h = ''kafka'' then Some ''10.0.0.2'' else None) ''kafka:9092,1.2.3.4:29092'' =
     Some ''10.0.0.2:9092,1.2.3.4:29092''"
  using brokers_resolved [of "\<lambda>h. if h = ''kafka'' then Some ''10.0.0.2'' else None"
      "[(''kafka'', ''9092''), (''1.2.3.4'', ''29092'')]"]
  by (simp add: entry_ok_def numeric_host_def broker_entry_def)

section \<open>What leaves the programs\<close>

text \<open>C15: A verdict that a hook reports becomes one message that says so: reading its members gives the
  number of the hook, the value that the hook returned, the process, its parent, the upper half of
  \<open>bpf_get_current_uid_gid\<close> and the control group; inside a container also the two namespaces and the
  parent's number there; and, for a hook about a path and a command without quotation mark, the path
  that \<open>bpf_d_path\<close> gave, up to a quotation mark.  The message is sent if the clock can be read and the
  producer accepts messages; time stamps are assumed to have the characters of their format.\<close>

theorem verdict_reaches_kafka:
  assumes "lk_reserve K = Some e0" and "lk_task K = Some t" and "should_monitor pm K (hook_type c)"
    and "snd (verdict c (matched c pm K e0))"
    and "h_uptime h = Some uptime" and "\<forall>x. \<exists>timestamp. h_strftime h x = Some timestamp \<and> list_all stamp_char timestamp"
    and "\<forall>m. accepts_msg m"
  shows "\<exists>e message. submitted (snd (run_hook c pm K s)) = submitted s @ [e] \<and>
    print_event h (Some True) accepts_msg e queue = (0, queue @ [message]) \<and>
    tells_verdict K t c (fst (run_hook c pm K s)) message \<and>
    (names_a_path c \<and> list_all plain (comm_text e) \<longrightarrow>
      text_member ''path'' message = Some (takeWhile plain (c_string (snd (lk_d_path K (le_path e0)) @ le_source e))))"
  by (rule verdict_is_sent [OF assms])

theorem verdict_reaches_kafka_witness:
  "\<exists>e message. print_event demo_host (Some True) (\<lambda>_. True) e [] = (0, [message]) \<and>
     number_member ''event_id'' message = Some 5 \<and> number_member ''pid'' message = Some 1 \<and>
     number_member ''return_value'' message =
       Some (fst (run_hook Path_unlink demo_audit_map demo_lsm_kernel demo_ring))"
proof -
  have "\<forall>x. \<exists>timestamp. h_strftime demo_host x = Some timestamp \<and> list_all stamp_char timestamp"
    by (simp add: demo_host_def stamp_char_def is_digit_def)
  from verdict_reaches_kafka [OF demo_lsm_simps(2,1) demo_audit_monitored demo_audit_reported _ this,
      of 100 "\<lambda>_. True" demo_ring "[]"]
  show ?thesis by (auto simp: demo_host_def tells_verdict_def demo_lsm_task_def)
qed

text \<open>C32: A message determines everything that is reported of an event, if the command and the two paths
  contain no quotation mark; with quotation marks, which nothing escapes, two events with different
  paths and sources give the same message.\<close>

theorem plain_messages_determine_events:
  assumes "CHR ''.'' \<notin> set s" and "CHR ''.'' \<notin> set t"
    and "list_all plain (comm_text e @ path_text e @ source_text e)"
    and "list_all plain (comm_text d @ path_text d @ source_text d)"
    and "event_data s e = event_data t d"
  shows "s = t \<and> reported e = reported d \<and>
    (\<exists>e' d'. event_data s e' = event_data s d' \<and> path_text e' \<noteq> path_text d' \<and> source_text e' \<noteq> source_text d')"
  using event_data_determines [OF assms] messages_can_be_forged [of s] by blast

theorem plain_messages_determine_events_witness:
  "event_data ''now'' demo_lsm_event = event_data ''now'' demo_lsm_event \<and> reported demo_lsm_event = reported demo_lsm_event \<and>
    (\<exists>e' d'. event_data ''now'' e' = event_data ''now'' d' \<and> path_text e' \<noteq> path_text d')"
proof -
  have "comm_text demo_lsm_event = ''old''" "path_text demo_lsm_event = ''/old''" "source_text demo_lsm_event = ''secret''"
    using c_string_buffer [where bs = "[]" and n = 256]
    by (simp_all add: comm_text_def path_text_def source_text_def demo_lsm_event_def c_string_buffer)
  then show ?thesis
    using plain_messages_determine_events [of "''now''" "''now''" demo_lsm_event demo_lsm_event]
    by (auto simp: plain_def)
qed

text \<open>C33: One message that the producer does not accept ends the enforcement: the callback reports the
  failure, the poll (as documented) returns it, and the main loop throws, after which the hooks are
  detached.\<close>

theorem refused_message_ends_enforcement:
  assumes "poll_reports (print_event h producer accepts_msg) poll" and "\<not> exiting i"
    and "\<forall>timestamp. \<not> accepts_msg (event_data timestamp e)"
  shows "show_log exiting poll i (e # es, queue) = Some (True, snd (poll i (e # es, queue)))"
  by (rule refused_message_ends) (rule assms)+

theorem refused_message_ends_enforcement_witness:
  "show_log (\<lambda>_. False) (demo_poll False) 0 ([demo_lsm_event], []) = Some (True, [], [])"
  using refused_message_ends_enforcement [of demo_host "Some True" "\<lambda>_. False" "demo_poll False" "\<lambda>_. False" 0
      demo_lsm_event "[]" "[]"] demo_poll_reports [of False]
  by (simp add: demo_poll_def print_event_def kafka_send_def demo_host_def)

text \<open>C39: The raw monitor writes one file per day.  In a session in which every file can be opened and the
  clock does not go backwards, also not between the two readings that a rotation makes: if the first
  round of a day names its file after that day, the file of the day holds the lines of the rounds of
  that day in order and nothing else, whatever it held before.  If midnight falls between the two
  readings, the round is the only one of its day and its lines go to the file of the later day, where
  they stay unless a round names its file after that day and on that day, which then empties it (the
  first case).  No other file changes.\<close>

theorem raw_files_by_day:
  assumes "inj date" and "\<forall>d. date d \<noteq> []" and "\<forall>p. gzopen_ok p" and "forward rs"
  shows "\<exists>f. flush_rounds gzopen_ok base nr stamp (map (dated_round date) rs) (start_files disk) = Inr f \<and>
    (\<forall>d r. opener rs d = Some r \<longrightarrow>
      (if named_day r = d then rf_disk f (getCurrentLogPath base (date d)) =
          lines_of nr stamp (filter (\<lambda>x. checked_day x = d) rs)
       else filter (\<lambda>x. checked_day x = d) rs = [r] \<and>
         ((\<forall>x. opener rs (named_day r) = Some x \<longrightarrow> named_day x \<noteq> named_day r) \<longrightarrow>
          rf_disk f (getCurrentLogPath base (date (named_day r))) = lines_of nr stamp [r]))) \<and>
    (\<forall>p. (\<forall>d r. opener rs d = Some r \<longrightarrow> p \<noteq> getCurrentLogPath base (date (named_day r))) \<longrightarrow> rf_disk f p = disk p)"
  by (rule session_files [OF assms])

text \<open>The first round of the session reads the clock on both sides of midnight; its lines are lost when the
  second one, on the next day, opens the file again.\<close>

theorem raw_files_by_day_witness:
  "\<exists>f. flush_rounds (\<lambda>_. True) ''/log'' (\<lambda>_. 0) (\<lambda>_. ''t'')
      (map (dated_round (\<lambda>d. replicate (Suc d) CHR ''x'')) [\<lparr>checked_day = 0, named_day = 1, round_buffers = [[demo_raw_event]]\<rparr>,
         \<lparr>checked_day = 1, named_day = 1, round_buffers = [[]]\<rparr>])
      (start_files (\<lambda>_. ''old'')) = Inr f \<and>
    rf_disk f ''/log/xx_raw.log.gz'' = [] \<and> rf_disk f ''/log/x_raw.log.gz'' = ''old''"
proof -
  let ?date = "\<lambda>d. replicate (Suc d) CHR ''x''"
  let ?r = "\<lparr>checked_day = 1, named_day = 1, round_buffers = [[]]\<rparr> :: clocked_round"
  let ?rs = "[\<lparr>checked_day = 0, named_day = 1, round_buffers = [[demo_raw_event]]\<rparr>, ?r]"
  have "inj ?date" by (auto intro!: injI dest: arg_cong [of _ _ length])
  moreover have "\<forall>d. ?date d \<noteq> []" by simp
  moreover have "forward ?rs" by (simp add: forward_def)
  ultimately obtain f where f:
    "flush_rounds (\<lambda>_. True) ''/log'' (\<lambda>_. 0) (\<lambda>_. ''t'') (map (dated_round ?date) ?rs) (start_files (\<lambda>_. ''old'')) = Inr f"
    "\<forall>d r. opener ?rs d = Some r \<longrightarrow> named_day r = d \<longrightarrow> rf_disk f (getCurrentLogPath ''/log'' (?date d)) =
       lines_of (\<lambda>_. 0) (\<lambda>_. ''t'') (filter (\<lambda>x. checked_day x = d) ?rs)"
    "\<forall>p. (\<forall>d r. opener ?rs d = Some r \<longrightarrow> p \<noteq> getCurrentLogPath ''/log'' (?date (named_day r))) \<longrightarrow> rf_disk f p = ''old''"
    using raw_files_by_day [of ?date "\<lambda>_. True" ?rs "''/log''" "\<lambda>_. 0" "\<lambda>_. ''t''" "\<lambda>_. ''old''"]
    by (auto split: if_splits)
  have "rf_disk f (getCurrentLogPath ''/log'' (?date 1)) = []"
    using f(2) [rule_format, of 1 ?r] by (simp add: opener_def lines_of_def flushToFile_def)
  moreover have "rf_disk f (getCurrentLogPath ''/log'' (?date 0)) = ''old''"
    using f(3) by (auto simp: opener_def getCurrentLogPath_def split: if_splits)
  ultimately show ?thesis using f(1) by (auto simp: getCurrentLogPath_def)
qed

section \<open>Containers, start and end of the programs\<close>

text \<open>C9: From the answers of Docker to the lists that the updates work on: when Docker lists containers and
  answers the requests to inspect them, the three programs find every pair of a container that could be
  inspected and a pattern of the policy that it matches, in the order of Docker and of the policy, with
  the process id that Docker gives and the policy of that pattern.  A container that cannot be inspected
  is left out without an error.\<close>

theorem docker_lists_containers:
  assumes "answers J request docker"
  shows "trace_containers J True request regex_match policies pid garbage =
      getContainerPIDs regex_match policies garbage (inspectable docker) \<and>
    raw_containers J True request regex_match monitored pid cgroup =
      raw_getContainerPIDs regex_match monitored cgroup (inspectable docker) \<and>
    lsm_containers J True request regex_match rules pid =
      lsm_getContainerPIDs regex_match rules (inspectable docker)"
  by (intro conjI trace_containers_listed raw_containers_listed lsm_containers_listed assms)

theorem docker_lists_containers_witness:
  "trace_containers demo_json_c True demo_request (\<lambda>_ _. None)
     [\<lparr>p_container_name = ''web'', p_syscalls = c_syscalls demo_container\<rparr>] 99 0 = [demo_container] \<and>
   lsm_containers demo_json_c True demo_request (\<lambda>_ _. None) [(''web'', demo_yaml), (''db'', no_rules)] 99 =
     [\<lparr>lc_name = ''web'', lc_pid = 10, lc_policies = demo_yaml\<rparr>]"
  using docker_lists_containers [OF demo_answers, where regex_match = "\<lambda>_ _. None" and pid = 99 and garbage = 0
      and policies = "[\<lparr>p_container_name = ''web'', p_syscalls = c_syscalls demo_container\<rparr>]"
      and rules = "[(''web'', demo_yaml), (''db'', no_rules)]"]
  by (simp add: getContainerPIDs_def isMonitored_def inspectable_def lsm_getContainerPIDs_def lsm_isMonitored_def)
    (simp add: demo_container_def)

text \<open>C10: While Docker does not answer, an update of the tracepoint monitor fails and leaves the calls that are
  logged as they were.  The security monitor has cleared its map before it asks Docker, so that its
  failed update leaves no policy behind and no hook refuses or reports anything until Docker answers.\<close>

theorem docker_silence_disarms:
  assumes "request list_url = None" and "policies \<noteq> []" and "rules \<noteq> []"
  shows "update_policy nr get_ns policies (trace_containers J True request regex_match policies pid garbage) l =
      (- 1, l\<lparr>running := []\<rparr>) \<and>
    (\<exists>pm'. update_policy_with_file key_of uninit (map fst rules)
        (lsm_containers J True request regex_match rules pid) fm pm = (Inr (- 1), fm, pm') \<and>
      (\<forall>h K s. run_hook h pm' K s = (0, s)))"
  using trace_unreachable [where request = request, OF assms(1,2)] lsm_unreachable [where request = request, OF assms(1,3)]
    run_hook_cleared by blast

theorem docker_silence_disarms_witness:
  "\<exists>pm'. update_policy_with_file demo_key_of (\<lambda>_. demo_garbage) [''web'']
      (lsm_containers demo_json_c True (\<lambda>_. None) (\<lambda>_ _. None) [(''web'', demo_yaml)] 99) flags_map
      [(demo_key_of 10, demo_garbage)] = (Inr (- 1), flags_map, pm') \<and>
    run_hook (File_open 0) pm' demo_lsm_kernel demo_ring = (0, demo_ring)"
  using docker_silence_disarms [of "\<lambda>_. None" "[\<lparr>p_container_name = ''web'', p_syscalls = []\<rparr>]" "[(''web'', demo_yaml)]"
      demo_nr "\<lambda>_. 7" demo_json_c "\<lambda>_ _. None" 99 0 demo_loader demo_key_of "\<lambda>_. demo_garbage" flags_map
      "[(demo_key_of 10, demo_garbage)]"]
  by fastforce

text \<open>C11: The tracepoint monitor does not survive an error of its ring buffer, nor the signal that stops a
  Docker container.  The handler ignores SIGTERM, but the poll it interrupts returns an error, the main
  loop ends without setting \<open>exiting\<close>, and the main thread then waits for a thread that has no reason
  to end: until SIGINT arrives or the file watcher fails by itself it stays there, and no record is
  taken from the ring buffer.\<close>

theorem sigterm_strands_tracepoint:
  assumes "main s = In_poll" and "\<not> exit_flag s" and "thread s File_watcher \<noteq> Gone" and "r < 0"
    and "program_run Trace_main (Terminate # Polled r # acts) s = Some s'"
    and "Interrupt \<notin> set acts" and "Break_off File_watcher \<notin> set acts"
  shows "main s' = Join_file \<and> \<not> exit_flag s'"
proof -
  obtain s1 where s1: "program_step Trace_main (Polled r) s = Some s1" "stranded s1"
    using poll_error_strands [OF assms(1-4)] by blast
  then have "program_run Trace_main acts s1 = Some s'" using assms(1,5) by simp
  from stranded_for_good [OF s1(2) this assms(6,7)] show ?thesis by (simp add: stranded_def)
qed

theorem sigterm_strands_tracepoint_witness:
  "\<exists>s'. program_run Trace_main ([Terminate, Polled (- 4)] @ [Receive Docker_watcher 1, Handle Docker_watcher,
      Attempt Docker_watcher Updated]) (program_start Trace_main 0\<lparr>main := In_poll\<rparr>) = Some s' \<and>
    main s' = Join_file \<and> \<not> exit_flag s'"
proof -
  let ?s = "program_start Trace_main 0\<lparr>main := In_poll\<rparr>"
  let ?acts = "[Receive Docker_watcher 1, Handle Docker_watcher, Attempt Docker_watcher Updated]"
  obtain s' where run: "program_run Trace_main (Terminate # Polled (- 4) # ?acts) ?s = Some s'"
    by (simp add: program_start_def leave_loop_def)
  have "main ?s = In_poll" "\<not> exit_flag ?s" "thread ?s File_watcher \<noteq> Gone" by (simp_all add: program_start_def)
  from sigterm_strands_tracepoint [OF this _ run] run show ?thesis by simp
qed

text \<open>C12: SIGINT ends the programs: once \<open>exiting\<close> is set there is no infinite sequence of steps of a program's
  own, as long as, in lsm and raw\_tracepoint, no attempt of an update fails; in every state before the
  end some step is possible; and the value returned is then, for tracepoint, 1 if the last poll gave an
  error or consumed a record.\<close>

theorem interrupt_ends_programs:
  assumes "exit_flag s" and "status_ok p s" and "program_run p acts s = Some s'" and "\<forall>a \<in> set acts. own_act p a"
  shows "(alive (main s') \<longrightarrow> (\<exists>a. own_act p a \<and> program_step p a s' \<noteq> None)) \<and>
    (\<forall>v. main s' = Returned v \<longrightarrow> v = exit_status p (main_err s')) \<and>
    \<not> (\<exists>st a. st (0 :: nat) = s' \<and> (\<forall>i. own_act p (a i) \<and> program_step p (a i) (st i) = Some (st (Suc i))))"
proof -
  have "exit_flag s'"
    by (rule program_run_keeps [where P = exit_flag and p = p and as = acts, OF _ assms(1,3)])
      (use assms(4) ending_step in blast)
  moreover have "status_ok p s'" by (rule status_run [OF assms(2,3)])
  ultimately show ?thesis
    using ending_progress [of s' p] ending_finite [of _ p] unfolding status_ok_def by metis
qed

theorem interrupt_ends_programs_witness:
  "\<exists>s'. program_run Trace_main [Polled 5, Look, Notice File_watcher, Notice Docker_watcher, Join, Join, Join]
      (program_start Trace_main 0\<lparr>main := In_poll, exit_flag := True\<rparr>) = Some s' \<and> main s' = Returned 1"
proof -
  let ?s = "program_start Trace_main 0\<lparr>main := In_poll, exit_flag := True\<rparr>"
  let ?acts = "[Polled 5, Look, Notice File_watcher, Notice Docker_watcher, Join, Join, Join]"
  obtain s' where run: "program_run Trace_main ?acts ?s = Some s'" "main_err s' = 5" "\<exists>v. main s' = Returned v"
    by (simp add: program_start_def leave_loop_def)
  have "exit_flag ?s" "status_ok Trace_main ?s" "\<forall>a \<in> set ?acts. own_act Trace_main a"
    by (simp_all add: program_start_def status_ok_def own_act_def)
  from interrupt_ends_programs [OF this(1,2) run(1) this(3)] run show ?thesis
    by (auto simp: exit_status_def)
qed

text \<open>C13: SIGINT does not end lsm or raw\_tracepoint while a watcher is in an update whose attempts fail, as
  they do without a container to be watched: their loop does not look at \<open>exiting\<close>, and the main thread
  waits for the watcher, whatever the other threads do.\<close>

theorem failing_update_blocks_shutdown:
  assumes "p \<noteq> Trace_main" and "in_update (thread s t)" and "main s \<in> {In_test, In_poll, Join_file}"
    and "program_run p acts s = Some s'" and "Terminate \<notin> set acts"
    and "\<forall>r. Attempt t r \<in> set acts \<longrightarrow> r = Failed"
  shows "alive (main s') \<and> in_update (thread s' t)"
proof -
  have "caught t s" using assms(2,3) by (auto simp: caught_def)
  from caught_for_good [OF this assms(4,1,5,6)] show ?thesis
    by (cases "main s'") (auto simp: caught_def)
qed

theorem failing_update_blocks_shutdown_witness:
  "\<exists>s'. program_run Lsm_main [Interrupt, Polled (- 4), Attempt Docker_watcher Failed, Notice File_watcher, Join,
      Attempt Docker_watcher Failed] (put Docker_watcher (In_update 0) (program_start Lsm_main 0\<lparr>main := In_poll\<rparr>)) =
      Some s' \<and> alive (main s')"
proof -
  let ?s = "put Docker_watcher (In_update 0) (program_start Lsm_main 0\<lparr>main := In_poll\<rparr>)"
  let ?acts = "[Interrupt, Polled (- 4), Attempt Docker_watcher Failed, Notice File_watcher, Join,
      Attempt Docker_watcher Failed]"
  obtain s' where run: "program_run Lsm_main ?acts ?s = Some s'"
    by (simp add: program_start_def leave_loop_def)
  from failing_update_blocks_shutdown [OF _ _ _ run, of Docker_watcher] run show ?thesis by auto
qed

text \<open>C14: Where the loader writes.  The list of its writes, made without any check as in the code, has a
  write outside its member of the table exactly if the policy has more than 64 rules of a kind, a
  string that does not fit or more than 30 user ids (unless an address that cannot be parsed ends the
  update before); this is what \<open>Out_of_bounds\<close> stands for.  Writes inside the members stay inside the
  table; from 66 process rules on, bytes behind the table are written.  The table that a policy that
  fits gives has the shape of the struct, ended strings, and counters that say the numbers of rules.\<close>

theorem policy_writes_in_bounds:
  assumes "struct_value v"
  shows "(load_value y fm v = Inl Out_of_bounds \<longleftrightarrow> \<not> list_all in_field (fst (policy_stores y))) \<and>
    (addresses_parse y \<longrightarrow> (list_all in_field (fst (policy_stores y)) \<longleftrightarrow> policy_within y)) \<and>
    (\<forall>w. in_field w \<longrightarrow> store_address w + st_bytes w \<le> struct_size) \<and>
    (addresses_parse y \<and> 65 < length (y_process y) \<longrightarrow>
      (\<exists>w \<in> set (fst (policy_stores y)). struct_size \<le> store_address w)) \<and>
    (addresses_parse y \<and> policy_within y \<longrightarrow> (\<exists>fm' v'. load_value y fm v = Inr (fm', v') \<and>
      struct_value v' \<and> value_ok v' \<and>
      unat (num_file_policies v') = length (y_file y) \<and>
      unat (num_network_policies v') = length (y_network y) \<and>
      unat (num_process_policies v') = length (y_process y)))"
  using load_value_stores [of y fm v] policy_stores_in_field [of y] in_field_in_struct
    many_processes_leave_struct [of y] load_value_fits [OF assms, of y fm] by simp

theorem policy_writes_in_bounds_witness:
  "load_value demo_yaml flags_map demo_garbage \<noteq> Inl Out_of_bounds \<and>
   load_value (demo_yaml\<lparr>y_process := replicate 66 \<lparr>yp_comm = ''a'', yp_flags = [], yp_uid = []\<rparr>\<rparr>)
     flags_map demo_garbage = Inl Out_of_bounds"
proof -
  let ?y = "demo_yaml\<lparr>y_process := replicate 66 \<lparr>yp_comm = ''a'', yp_flags = [], yp_uid = []\<rparr>\<rparr>"
  have shape: "struct_value demo_garbage" and fits: "policy_within demo_yaml"
    using demo_lsm_usable by (simp_all add: lsm_usable_def demo_lsm_world_def demo_lsm_container_def)
  have "addresses_parse demo_yaml" "addresses_parse ?y"
    by (simp_all add: addresses_parse_def demo_yaml_def parse_ip_def Let_def)
  moreover have "\<not> policy_within ?y" by (simp add: policy_within_def)
  ultimately show ?thesis
    using policy_writes_in_bounds [OF shape, of demo_yaml flags_map] fits
      policy_writes_in_bounds [OF shape, of ?y flags_map] by simp
qed

text \<open>How a start that fails ends: tracepoint and raw\_tracepoint return 1 and release what they had made; lsm,
  once its producer is set up, returns 0 whatever fails.\<close>

theorem start_up_status:
  "(\<forall>made st. trace_start getenv resolve ko b = (made, st) \<longrightarrow>
      st = Running 0 \<or> (\<exists>rel. st = Ended 1 rel \<and> distinct rel \<and> set rel = set made)) \<and>
   (\<forall>made st. raw_start getenv gzopen_ok now later disk b = (made, st) \<longrightarrow>
      (\<exists>err. st = Running err) \<or> (\<exists>rel. st = Ended 1 rel \<and> distinct rel \<and> set rel = set made)) \<and>
   (\<forall>made st. lsm_start getenv resolve lo b = (made, st) \<longrightarrow>
      st = Running 0 \<or> st = Aborted \<or> st = Ended 1 [] \<and> set made \<subseteq> {Producer} \<or>
      (\<exists>rel. st = Ended 0 rel \<and> distinct rel \<and> set rel = set made))"
proof (intro conjI allI impI)
  show "st = Running 0 \<or> (\<exists>rel. st = Ended 1 rel \<and> distinct rel \<and> set rel = set made)"
    if "trace_start getenv resolve ko b = (made, st)" for made st
    using trace_start_cases [OF that] by blast
  show "(\<exists>err. st = Running err) \<or> (\<exists>rel. st = Ended 1 rel \<and> distinct rel \<and> set rel = set made)"
    if "raw_start getenv gzopen_ok now later disk b = (made, st)" for made st
    using raw_start_cases [OF that] by blast
qed (rule lsm_start_cases)

end
